(* ===== verification/Prelude.thy ===== *)
theory Prelude
  imports Main "HOL-Library.Word"
begin

text \<open>
  Shared vocabulary of the development: the C integer types as words, byte strings,
  the pieces of the C string library that several components of netifd use, and the
  generic lemmas on words and lists that the component proofs rest on.

  Conventions. An unsigned C integer is a word of its width. A signed C integer is an
  \<open>int\<close>; where the code converts between the two, \<open>c_int\<close> reads 32 bits as two's
  complement. A NUL-terminated string is a \<open>string\<close> without NUL. Memory areas that the
  code handles byte by byte (\<open>union if_addr\<close>, MAC addresses) are lists of bytes.
\<close>

unbundle bit_operations_syntax

type_synonym u8 = "8 word"
type_synonym u16 = "16 word"
type_synonym u32 = "32 word"
type_synonym u64 = "64 word"

text \<open>
  Collections of the development: \<open>nd_defs\<close> gathers definitions that component proofs
  unfold together, \<open>nd_frame\<close> the facts that an operation leaves a part of the state alone.
\<close>

named_theorems nd_defs "definitions unfolded together by component proofs"
named_theorems nd_frame "frame facts: what an operation leaves unchanged"

section \<open>Integers\<close>

definition c_int :: "u32 \<Rightarrow> int" where
  "c_int w = sint w"

definition to_u32 :: "int \<Rightarrow> u32" where
  "to_u32 i = word_of_int i"

lemma c_int_range: "- (2 ^ 31) \<le> c_int w \<and> c_int w < 2 ^ 31"
  using sint_range_size [of w] by (simp add: c_int_def word_size)

section \<open>Strings\<close>

text \<open>\<open>strchr(s, c)\<close>: the string split at the first occurrence, if there is one.\<close>

fun strchr :: "string \<Rightarrow> char \<Rightarrow> (string \<times> string) option" where
  "strchr [] c = None"
| "strchr (x # xs) c =
     (if x = c then Some ([], xs)
      else map_option (\<lambda>(a, b). (x # a, b)) (strchr xs c))"

lemma strchr_None_iff: "strchr s c = None \<longleftrightarrow> c \<notin> set s"
  by (induction s) auto

lemma strchr_SomeD: "strchr s c = Some (a, b) \<Longrightarrow> s = a @ c # b \<and> c \<notin> set a"
  by (induction s arbitrary: a b) (auto split: if_splits)

lemma strchr_append: "c \<notin> set a \<Longrightarrow> strchr (a @ c # b) c = Some (a, b)"
  by (induction a) auto

definition char_code :: "char \<Rightarrow> nat" where
  "char_code c = of_char c"

definition is_space :: "char \<Rightarrow> bool" where
  "is_space c \<longleftrightarrow> char_code c = 32 \<or> (9 \<le> char_code c \<and> char_code c \<le> 13)"

definition digit_val :: "char \<Rightarrow> nat" where
  "digit_val c =
     (let n = char_code c in
      if 48 \<le> n \<and> n \<le> 57 then n - 48
      else if 97 \<le> n \<and> n \<le> 122 then n - 87
      else if 65 \<le> n \<and> n \<le> 90 then n - 55
      else 36)"

fun digits_val :: "nat \<Rightarrow> nat \<Rightarrow> string \<Rightarrow> nat \<times> string" where
  "digits_val base acc [] = (acc, [])"
| "digits_val base acc (c # cs) =
     (if digit_val c < base then digits_val base (acc * base + digit_val c) cs
      else (acc, c # cs))"

definition ULONG_MAX :: nat where
  "ULONG_MAX = 2 ^ 64 - 1"

text \<open>
  \<open>strtoul(s, &e, base)\<close> for base 0, 10 or 16 on an LP64 platform: leading white space,
  an optional sign, the prefix that selects the base, the longest run of digits. The
  result is the value (\<open>ULONG_MAX\<close> on overflow, negated modulo \<open>2^64\<close> after a minus
  sign) and the text that \<open>e\<close> points to, the whole input when no digit was read.
\<close>

definition strtoul :: "nat \<Rightarrow> string \<Rightarrow> nat \<times> string" where
  "strtoul base s =
     (let t = dropWhile is_space s;
          neg = (t \<noteq> [] \<and> hd t = CHR ''-'');
          t' = (if t \<noteq> [] \<and> (hd t = CHR ''-'' \<or> hd t = CHR ''+'') then tl t else t);
          hex = (take 1 t' = ''0'' \<and> (take 1 (drop 1 t') = ''x'' \<or> take 1 (drop 1 t') = ''X'')
                 \<and> drop 2 t' \<noteq> [] \<and> digit_val (hd (drop 2 t')) < 16);
          b = (if base = 0 then (if hex then 16 else if take 1 t' = ''0'' then 8 else 10) else base);
          ds = (if b = 16 \<and> hex then drop 2 t' else t')
      in if ds = [] \<or> \<not> digit_val (hd ds) < b then (0, s)
         else let (v, r) = digits_val b 0 ds;
                  v' = (if v > ULONG_MAX then ULONG_MAX
                        else if neg then (if v = 0 then 0 else ULONG_MAX + 1 - v) else v)
              in (v', r))"

text \<open>\<open>atoi(s)\<close>: \<open>strtol\<close> in base 10, saturating at the range of \<open>long\<close>, cut down to an \<open>int\<close>.\<close>

definition atoi :: "string \<Rightarrow> int" where
  "atoi s =
     (let t = dropWhile is_space s;
          neg = (t \<noteq> [] \<and> hd t = CHR ''-'');
          ds = (if t \<noteq> [] \<and> (hd t = CHR ''-'' \<or> hd t = CHR ''+'') then tl t else t);
          v = int (fst (digits_val 10 0 ds));
          l = (if neg then max (- v) (- (2 ^ 63)) else min v (2 ^ 63 - 1))
      in c_int (to_u32 l))"

text \<open>
  \<open>strtok_r(s, d, &save)\<close> for a single delimiter: the first token and what is left for the
  next call.
\<close>

definition strtok :: "char \<Rightarrow> string \<Rightarrow> (string \<times> string) option" where
  "strtok d s =
     (let t = dropWhile (\<lambda>c. c = d) s
      in if t = [] then None
         else Some (takeWhile (\<lambda>c. c \<noteq> d) t, tl (dropWhile (\<lambda>c. c \<noteq> d) t)))"

section \<open>Bytes\<close>

text \<open>Overwriting the first bytes of a memory area, as \<open>inet_pton\<close> and \<open>memcpy\<close> do.\<close>

definition store_bytes :: "u8 list \<Rightarrow> u8 list \<Rightarrow> u8 list" where
  "store_bytes bs m = bs @ drop (length bs) m"

lemma length_store_bytes [simp]:
  "length bs \<le> length m \<Longrightarrow> length (store_bytes bs m) = length m"
  by (simp add: store_bytes_def)

section \<open>Generic lemmas\<close>

lemma nat_less_div_mod_iff:
  fixes a b n :: nat
  shows "a < b \<longleftrightarrow> a div n < b div n \<or> (a div n = b div n \<and> a mod n < b mod n)"
proof -
  have "a div n < b div n \<Longrightarrow> a < b" by (metis div_le_mono leD le_less_linear)
  moreover have "a < b \<Longrightarrow> \<not> a div n < b div n \<Longrightarrow> a div n = b div n"
    by (metis div_le_mono le_neq_implies_less less_imp_le)
  moreover have "a div n = b div n \<Longrightarrow> a < b \<longleftrightarrow> a mod n < b mod n"
    by (metis add_less_cancel_left mult_div_mod_eq)
  ultimately show ?thesis by blast
qed

lemma word_and_mask_lt:
  fixes w :: "'a::len word"
  shows "unat (w AND mask n) < 2 ^ n"
  by (simp add: unsigned_take_bit_eq take_bit_nat_less_exp flip: take_bit_eq_mask)

lemma unat_less_size: "unat (w :: 'a::len word) < 2 ^ LENGTH('a)"
  by (rule unsigned_less)

lemma unat_u32_less: "unat (w :: u32) < 4294967296"
  using unat_less_size [of w] by simp

lemma unat_mask_le:
  assumes "n \<le> LENGTH('a)"
  shows "unat (mask n :: 'a::len word) = 2 ^ n - 1"
proof -
  have "unat (mask n :: 'a word) = unat (take_bit n (- 1 :: 'a word))"
    by (rule arg_cong [OF mask_eq_take_bit_minus_one])
  also have "\<dots> = take_bit n (mask LENGTH('a))"
    by (simp only: unsigned_take_bit_eq unsigned_minus_1_eq_mask)
  also have "\<dots> = mask n" using assms by (simp add: take_bit_of_mask min_absorb1)
  finally show ?thesis by (simp add: mask_eq_exp_minus_1)
qed

lemma unat_push_bit:
  "unat (push_bit s (w :: 'a::len word)) = (unat w * 2 ^ s) mod 2 ^ LENGTH('a)"
proof -
  have "unat (push_bit s w) = take_bit LENGTH('a) (push_bit s (unat w))"
    by (rule unsigned_push_bit_eq)
  then show ?thesis by (simp only: take_bit_eq_mod push_bit_eq_mult)
qed

lemma bit_push_NOT0:
  fixes n j :: nat
  shows "bit (push_bit n (NOT 0) :: 'a::len word) j \<longleftrightarrow> n \<le> j \<and> j < LENGTH('a)"
  by (auto simp: bit_simps)

end
