(* ===== verification/Utils.thy ===== *)
theory Utils
  imports Prelude
begin

text \<open>
  The helpers of \<open>src/utils.c\<close> and \<open>src/utils.h\<close>: the versioned simple lists that hold
  DNS servers and search domains, netmask and address parsing, MAC formatting, the CRC of
  \<open>resolv.conf\<close>, and the check that a pid runs a given executable. The parsers of the C
  network library, \<open>inet_aton\<close> and \<open>inet_pton\<close>, are arguments of the definitions.
\<close>

unbundle bit_operations_syntax

section \<open>vlist_simple: versioned lists\<close>

record 'a vlist_simple_node =
  node_version :: int
  node_data :: 'a

record 'a vlist_simple_tree =
  tree_list :: "'a vlist_simple_node list"
  tree_version :: int
  head_offset :: int

definition vlist_simple_init :: "int \<Rightarrow> 'a vlist_simple_tree" where
  "vlist_simple_init offset = \<lparr>tree_list = [], tree_version = 1, head_offset = offset\<rparr>"

definition vlist_simple_update :: "'a vlist_simple_tree \<Rightarrow> 'a vlist_simple_tree" where
  "vlist_simple_update t = t\<lparr>tree_version := tree_version t + 1\<rparr>"

definition vlist_simple_add ::
  "'a vlist_simple_tree \<Rightarrow> 'a vlist_simple_node \<Rightarrow> 'a vlist_simple_tree" where
  "vlist_simple_add t n =
     t\<lparr>tree_list := tree_list t @ [n\<lparr>node_version := tree_version t\<rparr>]\<rparr>"

text \<open>Unlinking one element; the memory it occupied is freed.\<close>

definition vlist_simple_delete :: "'a vlist_simple_tree \<Rightarrow> nat \<Rightarrow> 'a vlist_simple_tree" where
  "vlist_simple_delete t i = t\<lparr>tree_list := take i (tree_list t) @ drop (Suc i) (tree_list t)\<rparr>"

definition flush_keeps :: "int \<Rightarrow> 'a vlist_simple_node \<Rightarrow> bool" where
  "flush_keeps v n \<longleftrightarrow> (node_version n = v \<or> node_version n = -1) \<and> v \<noteq> -1"

text \<open>The safe iteration deletes the current element and goes on with the next one.\<close>

function vlist_simple_flush_from :: "'a vlist_simple_tree \<Rightarrow> nat \<Rightarrow> 'a vlist_simple_tree" where
  "vlist_simple_flush_from t i =
     (if i < length (tree_list t) then
        (if flush_keeps (tree_version t) (tree_list t ! i)
         then vlist_simple_flush_from t (Suc i)
         else vlist_simple_flush_from (vlist_simple_delete t i) i)
      else t)"
  by pat_completeness auto
termination
  by (relation "measure (\<lambda>(t, i). length (tree_list t) - i)")
     (auto simp: vlist_simple_delete_def)

declare vlist_simple_flush_from.simps [simp del]

definition vlist_simple_flush :: "'a vlist_simple_tree \<Rightarrow> 'a vlist_simple_tree" where
  "vlist_simple_flush t = vlist_simple_flush_from t 0"

fun vlist_simple_move ::
  "'a vlist_simple_tree \<Rightarrow> 'a vlist_simple_node list \<Rightarrow> 'a vlist_simple_tree" where
  "vlist_simple_move dest [] = dest"
| "vlist_simple_move dest (n # ns) = vlist_simple_move (vlist_simple_add dest n) ns"

text \<open>The result holds the new \<open>dest\<close> and the emptied \<open>old\<close>.\<close>

definition vlist_simple_replace ::
  "'a vlist_simple_tree \<Rightarrow> 'a vlist_simple_tree \<Rightarrow> 'a vlist_simple_tree \<times> 'a vlist_simple_tree" where
  "vlist_simple_replace dest old =
     (let dest1 = vlist_simple_update dest;
          dest2 = vlist_simple_move dest1 (tree_list old)
      in (vlist_simple_flush dest2, old\<lparr>tree_list := []\<rparr>))"

definition vlist_simple_flush_all :: "'a vlist_simple_tree \<Rightarrow> 'a vlist_simple_tree" where
  "vlist_simple_flush_all t = vlist_simple_flush (t\<lparr>tree_version := -1\<rparr>)"

section \<open>Netmasks and addresses\<close>

text \<open>\<open>fls\<close>: find last bit set, by five conditional shifts.\<close>

definition fls :: "u32 \<Rightarrow> nat" where
  "fls x =
     (if x = 0 then 0 else
      let r = 32;
          (x, r) = (if x AND 0xffff0000 = 0 then (push_bit 16 x, r - 16) else (x, r));
          (x, r) = (if x AND 0xff000000 = 0 then (push_bit 8 x, r - 8) else (x, r));
          (x, r) = (if x AND 0xf0000000 = 0 then (push_bit 4 x, r - 4) else (x, r));
          (x, r) = (if x AND 0xc0000000 = 0 then (push_bit 2 x, r - 2) else (x, r))
      in if x AND 0x80000000 = 0 then r - 1 else r)"

text \<open>\<open>inet_aton\<close> gives the address in host byte order (the code applies \<open>ntohl\<close>).\<close>

type_synonym inet_aton = "string \<Rightarrow> u32 option"
type_synonym inet_pton = "bool \<Rightarrow> string \<Rightarrow> u8 list option"

definition parse_netmask_string :: "inet_aton \<Rightarrow> string \<Rightarrow> bool \<Rightarrow> u32" where
  "parse_netmask_string aton str v6 =
     (case strchr str CHR ''.'' of
        None \<Rightarrow> (let (ret, err) = strtoul 0 str
                 in if err \<noteq> [] then NOT 0 else word_of_nat ret)
      | Some _ \<Rightarrow>
          if v6 then NOT 0
          else case aton str of
                 None \<Rightarrow> NOT 0
               | Some addr \<Rightarrow> 32 - word_of_nat (fls (NOT addr)))"

text \<open>
  The text up to the first slash, and the new netmask when there is one. The result of
  the C function is always true.
\<close>

definition split_netmask :: "inet_aton \<Rightarrow> string \<Rightarrow> u32 \<Rightarrow> bool \<Rightarrow> string \<times> u32" where
  "split_netmask aton str netmask v6 =
     (case strchr str CHR ''/'' of
        None \<Rightarrow> (str, netmask)
      | Some (a, delim) \<Rightarrow> (a, parse_netmask_string aton delim v6))"

text \<open>
  The address area and the netmask are in-out parameters: the result is \<open>None\<close> where the
  C function returns 0, else the new address bytes and the new netmask.
\<close>

definition parse_ip_and_netmask ::
  "inet_aton \<Rightarrow> inet_pton \<Rightarrow> bool \<Rightarrow> string \<Rightarrow> u8 list \<Rightarrow> u32 \<Rightarrow> (u8 list \<times> u32) option" where
  "parse_ip_and_netmask aton pton v6 str addr netmask =
     (let (astr, nm) = split_netmask aton str netmask v6
      in if (if v6 then nm > 128 else nm > 32) then None
         else case pton v6 astr of
                None \<Rightarrow> None
              | Some bs \<Rightarrow> Some (store_bytes bs addr, nm))"

section \<open>MAC addresses, file checksums, pid check\<close>

definition hex_digit :: "nat \<Rightarrow> char" where
  "hex_digit n = ''0123456789abcdef'' ! n"

definition hex_byte :: "u8 \<Rightarrow> string" where
  "hex_byte b = [hex_digit (unat b div 16), hex_digit (unat b mod 16)]"

text \<open>\<open>mac\<close> is an array of at least six bytes.\<close>

definition format_macaddr :: "u8 list \<Rightarrow> string" where
  "format_macaddr mac =
     hex_byte (mac ! 0) @ '':'' @ hex_byte (mac ! 1) @ '':'' @ hex_byte (mac ! 2) @ '':'' @
     hex_byte (mac ! 3) @ '':'' @ hex_byte (mac ! 4) @ '':'' @ hex_byte (mac ! 5)"

definition crc_bit :: "u32 \<Rightarrow> u32" where
  "crc_bit c = (if c AND 1 \<noteq> 0 then 0xEDB88320 XOR drop_bit 1 c else drop_bit 1 c)"

definition crcvals :: "u32 list" where
  "crcvals = map (\<lambda>i. (crc_bit ^^ 8) (word_of_nat i)) [0..<256]"

definition crc_byte :: "u32 \<Rightarrow> u8 \<Rightarrow> u32" where
  "crc_byte c b = crcvals ! unat ((c XOR ucast b) AND 0xFF) XOR drop_bit 8 c"

text \<open>The loop reads 1024 bytes at a time and stops after a short read.\<close>

function crc32_loop :: "u32 \<Rightarrow> u8 list \<Rightarrow> u32" where
  "crc32_loop c bs =
     (let buf = take 1024 bs; c' = foldl crc_byte c buf
      in if length buf = 1024 then crc32_loop c' (drop 1024 bs) else c')"
  by pat_completeness auto
termination
  by (relation "measure (\<lambda>(c, bs). length bs)") auto

declare crc32_loop.simps [simp del]

definition crc32_file :: "u8 list \<Rightarrow> u32" where
  "crc32_file bs = crc32_loop 0xFFFFFFFF bs XOR 0xFFFFFFFF"

text \<open>
  \<open>link\<close> is what \<open>/proc/<pid>/exe\<close> points to (\<open>None\<close>: \<open>readlink\<close> fails). The buffer has
  \<open>strlen(exe)\<close> bytes, and \<open>readlink\<close> truncates to it. The result \<open>None\<close> stands for a
  read past the terminator of \<open>exe\<close>.
\<close>

definition check_pid_path :: "string option \<Rightarrow> string \<Rightarrow> bool option" where
  "check_pid_path link exe =
     (let deleted = '' (deleted)'';
          exe_len = int (length exe);
          proc_exe_buf = (case link of None \<Rightarrow> [] | Some t \<Rightarrow> take (length exe) t);
          proc_exe_len = (case link of None \<Rightarrow> -1
                          | Some t \<Rightarrow> if exe = [] then -1 else int (length proc_exe_buf))
      in if proc_exe_len = exe_len then Some (exe = proc_exe_buf)
         else if proc_exe_len = exe_len + int (length deleted) then
           (if take (length exe) proc_exe_buf = exe then None else Some False)
         else Some False)"

section \<open>Lemmas: vlist_simple\<close>

lemma vlist_simple_flush_from_filter:
  "tree_list (vlist_simple_flush_from t i) =
     take i (tree_list t) @ filter (flush_keeps (tree_version t)) (drop i (tree_list t))
   \<and> tree_version (vlist_simple_flush_from t i) = tree_version t"
proof (induction t i rule: vlist_simple_flush_from.induct)
  case (1 t i)
  show ?case
  proof (cases "i < length (tree_list t)")
    case False
    then show ?thesis by (simp add: vlist_simple_flush_from.simps [of t i])
  next
    case True
    then have d: "drop i (tree_list t) = tree_list t ! i # drop (Suc i) (tree_list t)"
      by (simp add: Cons_nth_drop_Suc)
    show ?thesis
    proof (cases "flush_keeps (tree_version t) (tree_list t ! i)")
      case keep: True
      with True 1(1) show ?thesis
        by (simp add: vlist_simple_flush_from.simps [of t i] d take_Suc_conv_app_nth)
    next
      case drop: False
      with True 1(2) show ?thesis
        by (simp add: vlist_simple_flush_from.simps [of t i] d vlist_simple_delete_def)
    qed
  qed
qed

lemma tree_list_flush [simp]:
  "tree_list (vlist_simple_flush t) = filter (flush_keeps (tree_version t)) (tree_list t)"
  by (simp add: vlist_simple_flush_def vlist_simple_flush_from_filter)

lemma tree_version_flush [simp]: "tree_version (vlist_simple_flush t) = tree_version t"
  by (simp add: vlist_simple_flush_def vlist_simple_flush_from_filter)

lemma vlist_simple_move_list:
  "tree_list (vlist_simple_move t ns) =
     tree_list t @ map (\<lambda>n. n\<lparr>node_version := tree_version t\<rparr>) ns
   \<and> tree_version (vlist_simple_move t ns) = tree_version t"
  by (induction t ns rule: vlist_simple_move.induct) (simp_all add: vlist_simple_add_def)


section \<open>Lemmas: fls and netmasks\<close>

lemma and_not_mask_0_iff:
  fixes x :: u32
  assumes "k \<le> 32"
  shows "x AND NOT (mask k) = 0 \<longleftrightarrow> unat x < 2 ^ k"
proof -
  have "x AND NOT (mask k) = 0 \<longleftrightarrow> take_bit k x = x"
    by (auto simp: bit_eq_iff bit_simps)
  also have "\<dots> \<longleftrightarrow> unat x < 2 ^ k"
    by (simp add: word_unat_eq_iff unsigned_take_bit_eq take_bit_nat_eq_self_iff)
  finally show ?thesis .
qed

lemma high_masks:
  "(0xffff0000 :: u32) = NOT (mask 16)" "(0xff000000 :: u32) = NOT (mask 24)"
  "(0xf0000000 :: u32) = NOT (mask 28)" "(0xc0000000 :: u32) = NOT (mask 30)"
  "(0x80000000 :: u32) = NOT (mask 31)"
  by (simp_all add: mask_numeral)

lemma top_masks:
  "(x::u32) AND 0xffff0000 = 0 \<longleftrightarrow> unat x < 2 ^ 16"
  "x AND 0xff000000 = 0 \<longleftrightarrow> unat x < 2 ^ 24"
  "x AND 0xf0000000 = 0 \<longleftrightarrow> unat x < 2 ^ 28"
  "x AND 0xc0000000 = 0 \<longleftrightarrow> unat x < 2 ^ 30"
  "x AND 0x80000000 = 0 \<longleftrightarrow> unat x < 2 ^ 31"
  unfolding high_masks by (rule and_not_mask_0_iff, simp)+

lemma unat_shift_noover:
  fixes x :: u32
  assumes "unat x < 2 ^ (32 - s)" and "s \<le> 32"
  shows "unat (push_bit s x) = unat x * 2 ^ s"
proof -
  have "unat x * 2 ^ s < 2 ^ (32 - s) * 2 ^ s"
    using assms(1) by (intro mult_strict_right_mono) auto
  also have "\<dots> = 2 ^ 32" using assms(2) by (simp flip: power_add)
  finally show ?thesis
    by (simp add: unat_push_bit)
qed

text \<open>One conditional shift: \<open>x\<close> is \<open>x0\<close> shifted left by \<open>32 - r\<close>, and some of the top bits is set.\<close>

definition fls_inv :: "u32 \<Rightarrow> nat \<Rightarrow> u32 \<times> nat \<Rightarrow> bool" where
  "fls_inv x0 s xr \<longleftrightarrow>
     (case xr of (x, r) \<Rightarrow> s \<le> r \<and> r \<le> 32 \<and> unat x = unat x0 * 2 ^ (32 - r) \<and> 2 ^ (32 - s) \<le> unat x)"

lemma fls_stage:
  assumes inv: "fls_inv x0 (2 * s) (x, r)" and s: "0 < s" "2 * s \<le> 32"
  shows "fls_inv x0 s (if unat x < 2 ^ (32 - s) then (push_bit s x, r - s) else (x, r))"
proof (cases "unat x < 2 ^ (32 - s)")
  case False
  with inv s show ?thesis by (auto simp: fls_inv_def)
next
  case True
  with s have u: "unat (push_bit s x) = unat x * 2 ^ s" by (simp add: unat_shift_noover)
  from inv have r: "2 * s \<le> r" "r \<le> 32" and x: "unat x = unat x0 * 2 ^ (32 - r)"
    and low: "2 ^ (32 - 2 * s) \<le> unat x"
    by (auto simp: fls_inv_def)
  have "unat x * 2 ^ s = unat x0 * 2 ^ (32 - (r - s))"
    using r s by (simp add: x mult.assoc flip: power_add)
  moreover have "(2::nat) ^ (32 - s) \<le> unat x * 2 ^ s"
  proof -
    have "(2::nat) ^ (32 - s) = 2 ^ (32 - 2 * s) * 2 ^ s" using s by (simp flip: power_add)
    also have "\<dots> \<le> unat x * 2 ^ s" using low by (rule mult_right_mono) simp
    finally show ?thesis .
  qed
  ultimately show ?thesis using True u r by (auto simp: fls_inv_def)
qed

lemma fls_bounds:
  assumes "x \<noteq> 0"
  shows "1 \<le> fls x \<and> fls x \<le> 32 \<and> 2 ^ (fls x - 1) \<le> unat x \<and> unat x < 2 ^ fls x"
proof -
  define s1 where "s1 = (if unat x < 2 ^ 16 then (push_bit 16 x, 32 - 16) else (x, 32::nat))"
  define s2 where "s2 = (if unat (fst s1) < 2 ^ 24 then (push_bit 8 (fst s1), snd s1 - 8) else (fst s1, snd s1))"
  define s3 where "s3 = (if unat (fst s2) < 2 ^ 28 then (push_bit 4 (fst s2), snd s2 - 4) else (fst s2, snd s2))"
  define s4 where "s4 = (if unat (fst s3) < 2 ^ 30 then (push_bit 2 (fst s3), snd s3 - 2) else (fst s3, snd s3))"
  define s5 where "s5 = (if unat (fst s4) < 2 ^ 31 then (push_bit 1 (fst s4), snd s4 - 1) else (fst s4, snd s4))"
  have f: "fls x = snd s5"
    using assms
    by (simp add: fls_def s5_def s4_def s3_def s2_def s1_def top_masks Let_def
        split: prod.splits if_splits)
  have "unat x > 0" using assms by (simp add: unat_gt_0)
  then have "fls_inv x 32 (x, 32)" by (simp add: fls_inv_def)
  then have "fls_inv x 16 s1" using fls_stage [of x 16 x 32] by (simp add: s1_def)
  then have "fls_inv x 8 s2" using fls_stage [of x 8 "fst s1" "snd s1"] by (simp add: s2_def)
  then have "fls_inv x 4 s3" using fls_stage [of x 4 "fst s2" "snd s2"] by (simp add: s3_def)
  then have "fls_inv x 2 s4" using fls_stage [of x 2 "fst s3" "snd s3"] by (simp add: s4_def)
  then have "fls_inv x 1 s5" using fls_stage [of x 1 "fst s4" "snd s4"] by (simp add: s5_def)
  then have r: "1 \<le> snd s5" "snd s5 \<le> 32" and u: "unat (fst s5) = unat x * 2 ^ (32 - snd s5)"
    and low: "2 ^ 31 \<le> unat (fst s5)"
    by (auto simp: fls_inv_def split: prod.splits)
  have "(2::nat) ^ (snd s5 - 1) * 2 ^ (32 - snd s5) \<le> unat x * 2 ^ (32 - snd s5)"
    using low r unfolding u by (simp flip: power_add)
  then have lo: "2 ^ (snd s5 - 1) \<le> unat x" by simp
  have "unat x * 2 ^ (32 - snd s5) < 2 ^ snd s5 * 2 ^ (32 - snd s5)"
    using unat_u32_less [of "fst s5"] r unfolding u by (simp flip: power_add)
  then have "unat x < 2 ^ snd s5" by simp
  with r lo f show ?thesis by simp
qed

lemma fls_unique:
  assumes "x \<noteq> 0" "2 ^ k \<le> unat x" "unat x < 2 ^ Suc k"
  shows "fls x = Suc k"
proof -
  note b = fls_bounds [OF assms(1)]
  have "(2::nat) ^ k < 2 ^ fls x" using assms(2) b by linarith
  then have 1: "k < fls x" by simp
  have "(2::nat) ^ (fls x - 1) < 2 ^ Suc k" using assms(3) b by linarith
  then have "fls x - 1 < Suc k" by (simp only: power_strict_increasing_iff)
  with 1 show ?thesis by linarith
qed

text \<open>The netmask of prefix length \<open>n\<close>: \<open>n\<close> one bits, then zeroes.\<close>

definition prefix_netmask :: "nat \<Rightarrow> u32" where
  "prefix_netmask n = NOT (mask (32 - n))"

lemma fls_inverted_netmask:
  assumes "n \<le> 32"
  shows "fls (NOT (prefix_netmask n)) = 32 - n"
proof (cases "n = 32")
  case True
  then show ?thesis by (simp add: prefix_netmask_def fls_def)
next
  case False
  define k where "k = 31 - n"
  have k: "32 - n = Suc k" "Suc k \<le> 32" using False assms by (auto simp: k_def)
  have u: "unat (mask (Suc k) :: u32) = 2 ^ Suc k - 1"
    using k(2) by (intro unat_mask_le) simp
  have "fls (mask (Suc k)) = Suc k"
  proof (rule fls_unique)
    show "(mask (Suc k) :: u32) \<noteq> 0" using u by (auto simp del: mask_Suc_double)
    show "2 ^ k \<le> unat (mask (Suc k) :: u32)" unfolding u by simp
    show "unat (mask (Suc k) :: u32) < 2 ^ Suc k" unfolding u by simp
  qed
  with k show ?thesis by (simp add: prefix_netmask_def)
qed


lemma unat_less_not_bit:
  fixes w :: u32
  assumes "unat w < 2 ^ r" "r \<le> j"
  shows "\<not> bit w j"
proof -
  have "unat w < 2 ^ j" using assms(1) power_increasing [OF assms(2), of "2::nat"] by linarith
  then have "unat w div 2 ^ j = 0" by simp
  then have "\<not> bit (unat w) j" by (simp add: bit_iff_odd)
  then show ?thesis by (simp add: bit_unsigned_iff)
qed

lemma unat_top_bit:
  fixes w :: u32
  assumes "2 ^ k \<le> unat w" "unat w < 2 ^ Suc k"
  shows "bit w k"
proof -
  have "unat w div 2 ^ k = 1"
    using assms by (intro div_nat_eqI) simp_all
  then have "bit (unat w) k" by (simp add: bit_iff_odd)
  then show ?thesis by (simp add: bit_unsigned_iff)
qed

lemma fls_NOT_leading_ones:
  fixes addr :: u32
  defines "n \<equiv> 32 - fls (NOT addr)"
  shows "n \<le> 32 \<and> fls (NOT addr) \<le> 32 \<and> (\<forall>i<n. bit addr (31 - i)) \<and> (n < 32 \<longrightarrow> \<not> bit addr (31 - n))"
proof (cases "NOT addr = 0")
  case True
  then have "addr = NOT 0" by (metis bit.double_compl)
  then show ?thesis using True by (auto simp: n_def fls_def bit_simps)
next
  case False
  note b = fls_bounds [OF this]
  have ones: "bit addr (31 - i)" if "i < n" for i
  proof -
    have "fls (NOT addr) \<le> 31 - i" using that b by (simp add: n_def)
    with b have "\<not> bit (NOT addr) (31 - i)" by (intro unat_less_not_bit) auto
    then show ?thesis by (simp add: bit_not_iff)
  qed
  have "bit (NOT addr) (fls (NOT addr) - 1)"
    using b by (intro unat_top_bit) auto
  then have "\<not> bit addr (31 - n)" using b by (simp add: n_def bit_not_iff)
  with ones b show ?thesis by (auto simp: n_def)
qed

lemma unat_32_minus: "k \<le> 32 \<Longrightarrow> unat (32 - word_of_nat k :: u32) = 32 - k"
proof -
  assume k: "k \<le> 32"
  have u: "unat (word_of_nat k :: u32) = k"
    using k by (simp add: unsigned_of_nat take_bit_nat_eq_self)
  have "word_of_nat k \<le> (32 :: u32)" using k by (simp add: word_le_nat_alt u)
  then show ?thesis by (simp add: unat_sub u)
qed

section \<open>Lemmas: CRC\<close>

lemma crc_bit_alt: "crc_bit c = (if bit c 0 then 0xEDB88320 XOR drop_bit 1 c else drop_bit 1 c)"
  by (simp add: crc_bit_def and_one_eq bit_0 even_iff_mod_2_eq_zero)

lemma xor_left_cancel: "(a :: u32) XOR (a XOR b) = b"
  by (simp flip: xor.assoc)

lemma crc_bit_xor: "crc_bit (x XOR y) = crc_bit x XOR crc_bit y"
proof -
  have d: "drop_bit 1 (x XOR y) = drop_bit 1 x XOR drop_bit 1 y" by simp
  show ?thesis
    by (cases "bit x 0"; cases "bit y 0")
       (simp_all only: crc_bit_alt bit_xor_iff d if_True if_False simp_thms xor.left_commute
          xor.assoc xor_left_cancel xor_self_eq xor.right_neutral xor.left_neutral)
qed

lemma crc_bits_xor: "(crc_bit ^^ n) (x XOR y) = (crc_bit ^^ n) x XOR (crc_bit ^^ n) y"
  by (induction n) (simp_all add: crc_bit_xor)

lemma crc_bits_shift: "n \<le> 8 \<Longrightarrow> (crc_bit ^^ n) (push_bit n (drop_bit 8 x)) = drop_bit 8 x"
proof (induction n)
  case 0
  then show ?case by simp
next
  case (Suc n)
  have "crc_bit (push_bit (Suc n) (drop_bit 8 x)) = push_bit n (drop_bit 8 x)"
  proof -
    have "\<not> bit (push_bit (Suc n) (drop_bit 8 x)) 0" by (simp only: bit_push_bit_iff) simp
    moreover have "drop_bit 1 (push_bit (Suc n) (drop_bit 8 x)) = push_bit n (drop_bit 8 x)"
      using Suc.prems
      by (intro bit_word_eqI)
         (auto simp: bit_drop_bit_eq bit_push_bit_iff simp del: push_bit_Suc dest: bit_imp_le_length)
    ultimately show ?thesis by (simp only: crc_bit_alt if_False)
  qed
  with Suc show ?case by (simp add: funpow_Suc_right del: funpow.simps)
qed

lemma low_high_xor: "(x :: u32) = (x AND 0xFF) XOR push_bit 8 (drop_bit 8 x)"
proof -
  have m: "(0xFF :: u32) = mask 8" by (simp add: mask_numeral)
  show ?thesis unfolding m by (rule bit_word_eqI) (auto simp: bit_simps)
qed

lemma word_of_nat_unat_eq: "word_of_nat (unat w) = (w :: u32)"
  by simp

lemma crcvals_nth: "i < 256 \<Longrightarrow> crcvals ! i = (crc_bit ^^ 8) (word_of_nat i)"
  by (simp add: crcvals_def)

lemma low_byte_less: "unat ((x :: u32) AND 0xFF) < 256"
  using word_and_mask_lt [of x 8] by (simp add: mask_numeral)

text \<open>One table step is eight single-bit steps.\<close>

lemma crc_byte_bits: "crc_byte c b = (crc_bit ^^ 8) (c XOR ucast b)"
proof -
  define x where "x = c XOR ucast b"
  have hi: "drop_bit 8 x = drop_bit 8 c"
    unfolding x_def by (rule bit_word_eqI) (auto simp: bit_simps dest: bit_imp_le_length)
  have "(crc_bit ^^ 8) x = (crc_bit ^^ 8) (x AND 0xFF) XOR (crc_bit ^^ 8) (push_bit 8 (drop_bit 8 x))"
    by (subst low_high_xor) (rule crc_bits_xor)
  also have "(crc_bit ^^ 8) (push_bit 8 (drop_bit 8 x)) = drop_bit 8 c"
    using crc_bits_shift [of 8 x] hi by simp
  also have "(crc_bit ^^ 8) (x AND 0xFF) = crcvals ! unat (x AND 0xFF)"
    using low_byte_less [of x] by (simp only: crcvals_nth word_of_nat_unat_eq)
  finally show ?thesis by (simp only: crc_byte_def x_def)
qed

lemma crc32_loop_foldl: "crc32_loop c bs = foldl crc_byte c bs"
proof (induction c bs rule: crc32_loop.induct)
  case (1 c bs)
  show ?case
  proof (cases "length (take 1024 bs) = 1024")
    case True
    then have "crc32_loop c bs = foldl crc_byte (foldl crc_byte c (take 1024 bs)) (drop 1024 bs)"
      using 1 by (simp add: crc32_loop.simps [of c bs] Let_def)
    also have "\<dots> = foldl crc_byte c (take 1024 bs @ drop 1024 bs)" by (simp only: foldl_append)
    finally show ?thesis by simp
  next
    case False
    then have "take 1024 bs = bs" by simp
    with False show ?thesis by (simp add: crc32_loop.simps [of c bs] Let_def)
  qed
qed

text \<open>The checksum written bit by bit, with the reflected polynomial \<open>0xEDB88320\<close>.\<close>

definition crc32_bitwise :: "u8 list \<Rightarrow> u32" where
  "crc32_bitwise bs =
     foldl (\<lambda>c b. (crc_bit ^^ 8) (c XOR ucast b)) 0xFFFFFFFF bs XOR 0xFFFFFFFF"

section \<open>Lemmas: MAC addresses\<close>

lemma hex_digit_inj: "i < 16 \<Longrightarrow> j < 16 \<Longrightarrow> hex_digit i = hex_digit j \<Longrightarrow> i = j"
  unfolding hex_digit_def by (subst (asm) nth_eq_iff_index_eq) simp_all

lemma hex_byte_inj: "hex_byte a = hex_byte b \<Longrightarrow> a = b"
proof -
  assume h: "hex_byte a = hex_byte b"
  have lt: "unat a < 256" "unat b < 256"
    using unat_less_size [of a] unat_less_size [of b] by simp_all
  have "unat a div 16 = unat b div 16" "unat a mod 16 = unat b mod 16"
    using h lt by (auto simp: hex_byte_def intro!: hex_digit_inj)
  then have "unat a = unat b" by (metis div_mult_mod_eq)
  then show ?thesis by (simp only: word_unat_eq_iff)
qed

lemma hex_byte_length [simp]: "length (hex_byte b) = 2"
  by (simp add: hex_byte_def)


section \<open>Properties\<close>

text \<open>C38: a dotted netmask that \<open>inet_aton\<close> reads as \<open>addr\<close> parses to the number \<open>n\<close> of
  leading one bits of \<open>addr\<close>: the top \<open>n\<close> bits are set and the next one, if any, is clear.
  In particular the result never exceeds 32.\<close>

theorem parse_netmask_leading_ones:
  assumes dot: "CHR ''.'' \<in> set str" and addr: "aton str = Some addr"
    and n: "n = unat (parse_netmask_string aton str False)"
  shows "n \<le> 32 \<and> (\<forall>i<n. bit addr (31 - i)) \<and> (n < 32 \<longrightarrow> \<not> bit addr (31 - n))"
proof -
  from dot obtain a b where "strchr str CHR ''.'' = Some (a, b)"
    by (metis strchr_None_iff not_Some_eq surj_pair)
  then have "parse_netmask_string aton str False = 32 - word_of_nat (fls (NOT addr))"
    using addr by (simp add: parse_netmask_string_def)
  then have "n = 32 - fls (NOT addr)"
    using fls_NOT_leading_ones [of addr] n by (simp add: unat_32_minus)
  then show ?thesis using fls_NOT_leading_ones [of addr] by blast
qed

theorem parse_netmask_leading_ones_witness:
  "unat (parse_netmask_string (\<lambda>_. Some 0xFFFFFF00) ''255.255.255.0'' False) \<le> 32
   \<and> bit (0xFFFFFF00 :: u32) (31 - 23)
   \<and> unat (parse_netmask_string (\<lambda>_. Some 0xFFFFFF00) ''255.255.255.0'' False) = 24"
proof -
  have "unat (parse_netmask_string (\<lambda>_. Some 0xFFFFFF00) ''255.255.255.0'' False) = 24"
    by (simp add: parse_netmask_string_def fls_def)
  then show ?thesis
    using parse_netmask_leading_ones [where str = "''255.255.255.0''" and aton = "\<lambda>_. Some 0xFFFFFF00" and addr = "0xFFFFFF00" and n = 24]
    by auto
qed

text \<open>For every prefix length \<open>n\<close> up to 32, the dotted netmask with \<open>n\<close> one bits
  parses back to \<open>n\<close>.\<close>

theorem parse_netmask_roundtrip:
  assumes "n \<le> 32" and "CHR ''.'' \<in> set str" and "aton str = Some (prefix_netmask n)"
  shows "parse_netmask_string aton str False = word_of_nat n"
proof -
  from assms(2) obtain a b where "strchr str CHR ''.'' = Some (a, b)"
    by (metis strchr_None_iff not_Some_eq surj_pair)
  with assms show ?thesis
    by (simp add: parse_netmask_string_def fls_inverted_netmask of_nat_diff)
qed

theorem parse_netmask_roundtrip_witness:
  "parse_netmask_string (\<lambda>_. Some (prefix_netmask 20)) ''255.255.240.0'' False = 20"
  using parse_netmask_roundtrip [of 20 "''255.255.240.0''" "\<lambda>_. Some (prefix_netmask 20)"] by simp

text \<open>C40: the table-driven, chunk-wise \<open>crc32_file\<close> computes the bitwise CRC-32 of the
  whole file content.\<close>

theorem crc32_file_bitwise: "crc32_file bs = crc32_bitwise bs"
proof -
  have "crc_byte = (\<lambda>c b. (crc_bit ^^ 8) (c XOR ucast b))" by (intro ext) (rule crc_byte_bits)
  then show ?thesis by (simp only: crc32_file_def crc32_bitwise_def crc32_loop_foldl)
qed

text \<open>A MAC address prints as 17 characters, and different addresses print differently.\<close>

theorem format_macaddr_injective:
  assumes "length m1 = 6" "length m2 = 6"
  shows "length (format_macaddr m1) = 17 \<and> (format_macaddr m1 = format_macaddr m2 \<longrightarrow> m1 = m2)"
proof -
  have "m1 = m2" if f: "format_macaddr m1 = format_macaddr m2"
  proof (rule nth_equalityI)
    show "length m1 = length m2" using assms by simp
    fix i assume "i < length m1"
    then have "i = 0 \<or> i = 1 \<or> i = 2 \<or> i = 3 \<or> i = 4 \<or> i = 5" using assms by auto
    then have "hex_byte (m1 ! i) = hex_byte (m2 ! i)"
      using f unfolding format_macaddr_def hex_byte_def by (elim disjE) simp_all
    then show "m1 ! i = m2 ! i" by (rule hex_byte_inj)
  qed
  moreover have "length (format_macaddr m1) = 17" by (simp add: format_macaddr_def)
  ultimately show ?thesis by blast
qed

theorem format_macaddr_injective_witness:
  "length (format_macaddr [0x02, 0, 0x5e, 0xff, 0x10, 1]) = 17
   \<and> format_macaddr [0x02, 0, 0x5e, 0xff, 0x10, 1] = ''02:00:5e:ff:10:01''"
  using format_macaddr_injective [of "[0x02, 0, 0x5e, 0xff, 0x10, 1]" "[0x02, 0, 0x5e, 0xff, 0x10, 1]"]
  by (simp add: format_macaddr_def hex_byte_def hex_digit_def)

text \<open>\<open>vlist_simple_replace\<close> installs the new list: it keeps of the old content only
  the elements pinned with version -1, followed by all elements of the replacement in order,
  and leaves the replacement empty, provided no element of \<open>dest\<close> is newer than \<open>dest\<close>.\<close>

theorem vlist_simple_replace_content:
  assumes "\<forall>n \<in> set (tree_list dest). node_version n \<le> tree_version dest"
    and "-1 \<le> tree_version dest"
    and "vlist_simple_replace dest old = (dest', old')"
  shows "map node_data (tree_list dest') =
           map node_data (filter (\<lambda>n. node_version n = -1) (tree_list dest))
           @ map node_data (tree_list old)
         \<and> tree_list old' = []"
proof -
  have e: "filter (\<lambda>n. node_version n = tree_version dest + 1 \<or> node_version n = -1) (tree_list dest)
           = filter (\<lambda>n. node_version n = -1) (tree_list dest)"
    using assms(1) by (intro filter_cong) auto
  show ?thesis
    using assms(2,3) e
    by (auto simp: vlist_simple_replace_def Let_def vlist_simple_update_def vlist_simple_move_list
        flush_keeps_def [abs_def] filter_map comp_def)
qed

theorem vlist_simple_replace_content_witness:
  "map node_data (tree_list (fst (vlist_simple_replace
     \<lparr>tree_list = [\<lparr>node_version = -1, node_data = ''pinned''\<rparr>, \<lparr>node_version = 1, node_data = ''stale''\<rparr>],
      tree_version = 1, head_offset = 0\<rparr>
     \<lparr>tree_list = [\<lparr>node_version = 1, node_data = ''fresh''\<rparr>], tree_version = 1, head_offset = 0\<rparr>)))
   = [''pinned'', ''fresh'']"
  (is "map node_data (tree_list (fst (vlist_simple_replace ?D ?O))) = _")
  using vlist_simple_replace_content [of ?D ?O "fst (vlist_simple_replace ?D ?O)"
      "snd (vlist_simple_replace ?D ?O)"]
  by simp

text \<open>\<open>check_pid_path\<close> never reads past its buffers, but since the link is truncated to
  the length of \<open>exe\<close> it accepts every executable path that starts with \<open>exe\<close>; the branch for
  a deleted executable is never taken.\<close>

theorem check_pid_path_accepts_prefix:
  assumes "exe \<noteq> []"
  shows "check_pid_path (Some target) exe = Some (take (length exe) target = exe)"
  using assms by (auto simp: check_pid_path_def Let_def)

theorem check_pid_path_accepts_prefix_witness:
  "check_pid_path (Some ''/sbin/udhcpc6'') ''/sbin/udhcpc'' = Some True"
  using check_pid_path_accepts_prefix [of "''/sbin/udhcpc''" "''/sbin/udhcpc6''"] by simp

end
