(* ===== verification/Types.thy ===== *)
theory Types
  imports Utils
begin

text \<open>
  The data of netifd: the structures and enumerations of \<open>device.h\<close>, \<open>interface.h\<close>,
  \<open>interface-ip.h\<close>, \<open>iprule.h\<close> and \<open>proto.h\<close>, field by field. Pointers are identifiers
  (\<open>did\<close> of a device, \<open>ifid\<close> of an interface, \<open>pid\<close> of a delegated prefix, \<open>uid\<close> of a
  registration on a device); list and
  tree links are left out, a container is the list of its elements in iteration order. A
  serialised attribute (\<open>struct blob_attr *\<close>) is its bytes.

  Requests to the kernel, issued by the \<open>system_*\<close> functions, are values of the type
  \<open>kreq\<close>. The log of the requests issued so far is a part of the state, and what the
  kernel answers is a function of the log and the request.
\<close>

unbundle bit_operations_syntax

type_synonym blob = "u8 list"
type_synonym if_addr = "u8 list"
type_synonym did = nat
type_synonym ifid = nat
type_synonym pid = nat
type_synonym mid = nat
type_synonym psid = nat
type_synonym depid = nat

text \<open>
  A registration on a device is identified by the structure that holds it: the main, layer 3
  or external device of an interface, the parent of a device, the device below a VLAN or
  macvlan device, the device that an alias device stands for and the one it changes to, or a
  bridge member.
\<close>

datatype uid =
    UMain ifid | UL3 ifid | UExt ifid | UParent did
  | UVlan did | UVlandev did | UMacvlan did | UAlias did | UAliasNew did | UMember mid

definition has_flag :: "'a::len word \<Rightarrow> 'a word \<Rightarrow> bool" where
  "has_flag f m \<longleftrightarrow> f AND m \<noteq> 0"

lemma has_flag_0 [simp]: "\<not> has_flag 0 m"
  by (simp add: has_flag_def)

lemma has_flag_or [simp]: "has_flag (a OR b) m \<longleftrightarrow> has_flag a m \<or> has_flag b m"
  by (simp add: has_flag_def bit.conj_disj_distrib2 or_eq_0_iff)

lemma has_flag_or_right: "has_flag f (a OR b) \<longleftrightarrow> has_flag f a \<or> has_flag f b"
  by (simp add: has_flag_def bit.conj_disj_distrib or_eq_0_iff)

text \<open>A flag of a single bit, and setting it when it is set.\<close>

lemma and_single_bit:
  "f AND push_bit k 1 = (if bit f k then push_bit k 1 else 0 :: 'a::len word)"
  by (rule bit_word_eqI) (auto simp: bit_simps)

lemma has_flag_single_bit: "has_flag f (push_bit k 1) \<longleftrightarrow> bit (f :: 'a::len word) k"
proof (cases "bit f k")
  case True
  then have "k < LENGTH('a)" by (rule bit_imp_le_length)
  then have "push_bit k 1 \<noteq> (0 :: 'a word)" by simp
  then show ?thesis using True by (simp only: has_flag_def and_single_bit if_True simp_thms)
qed (simp only: has_flag_def and_single_bit if_False simp_thms)

lemma or_single_bit: "bit f k \<Longrightarrow> f OR push_bit k 1 = (f :: 'a::len word)"
  by (rule bit_word_eqI) (auto simp: bit_simps)

section \<open>Attributes\<close>

text \<open>
  A parsed attribute table \<open>tb[]\<close> is a function from attributes to optional values. The
  library function \<open>blobmsg_parse\<close> only fills in a value of the type that the policy of
  the table declares, so an accessor looks for a value of its own type.
\<close>

datatype blobmsg_type =
    BLOBMSG_TYPE_STRING | BLOBMSG_TYPE_INT32 | BLOBMSG_TYPE_BOOL | BLOBMSG_TYPE_ARRAY
  | BLOBMSG_TYPE_TABLE

datatype attr_value = AttrString string | AttrInt32 u32 | AttrBool bool

type_synonym 'a attr_tb = "'a \<Rightarrow> attr_value option"

definition attr_u32 :: "'a attr_tb \<Rightarrow> 'a \<Rightarrow> u32 option" where
  "attr_u32 tb a = (case tb a of Some (AttrInt32 v) \<Rightarrow> Some v | _ \<Rightarrow> None)"

definition attr_bool :: "'a attr_tb \<Rightarrow> 'a \<Rightarrow> bool option" where
  "attr_bool tb a = (case tb a of Some (AttrBool v) \<Rightarrow> Some v | _ \<Rightarrow> None)"

definition attr_string :: "'a attr_tb \<Rightarrow> 'a \<Rightarrow> string option" where
  "attr_string tb a = (case tb a of Some (AttrString v) \<Rightarrow> Some v | _ \<Rightarrow> None)"

section \<open>Devices\<close>

datatype device_event =
    DEV_EVENT_ADD | DEV_EVENT_REMOVE
  | DEV_EVENT_UPDATE_IFNAME | DEV_EVENT_UPDATE_IFINDEX
  | DEV_EVENT_SETUP | DEV_EVENT_TEARDOWN | DEV_EVENT_UP | DEV_EVENT_DOWN
  | DEV_EVENT_AUTH_UP | DEV_EVENT_LINK_UP | DEV_EVENT_LINK_DOWN
  | DEV_EVENT_TOPO_CHANGE

datatype dev_change_type =
    DEV_CONFIG_NO_CHANGE | DEV_CONFIG_APPLIED | DEV_CONFIG_RESTART | DEV_CONFIG_RECREATE

record device_settings =
  ds_flags :: u64
  ds_valid_flags :: u64
  ds_mtu :: u32
  ds_mtu6 :: u32
  ds_txqueuelen :: u32
  ds_macaddr :: "u8 list"
  ds_ipv6 :: bool
  ds_promisc :: bool
  ds_rpfilter :: u32
  ds_acceptlocal :: bool
  ds_igmpversion :: u32
  ds_mldversion :: u32
  ds_neigh4reachabletime :: u32
  ds_neigh6reachabletime :: u32
  ds_neigh4gcstaletime :: u32
  ds_neigh6gcstaletime :: u32
  ds_neigh4locktime :: int
  ds_dadtransmits :: u32
  ds_multicast_to_unicast :: bool
  ds_multicast_router :: u32
  ds_multicast_fast_leave :: bool
  ds_multicast :: bool
  ds_learning :: bool
  ds_unicast_flood :: bool
  ds_sendredirects :: bool
  ds_ip6segmentrouting :: bool
  ds_isolate :: bool
  ds_drop_v4_unicast_in_l2_multicast :: bool
  ds_drop_v6_unicast_in_l2_multicast :: bool
  ds_drop_gratuitous_arp :: bool
  ds_drop_unsolicited_na :: bool
  ds_arp_accept :: bool
  ds_auth :: bool
  ds_speed :: u32
  ds_duplex :: bool
  ds_ip_forwarding :: bool
  ds_ip6_forwarding :: bool
  ds_arp :: bool
  ds_accept_routing_header :: int
  ds_hop_limit :: int

text \<open>All bytes zero, as after \<open>calloc\<close> or \<open>memset\<close>.\<close>

definition zero_settings :: device_settings where
  "zero_settings = \<lparr>ds_flags = 0, ds_valid_flags = 0, ds_mtu = 0, ds_mtu6 = 0,
     ds_txqueuelen = 0, ds_macaddr = replicate 6 0, ds_ipv6 = False, ds_promisc = False,
     ds_rpfilter = 0, ds_acceptlocal = False, ds_igmpversion = 0, ds_mldversion = 0,
     ds_neigh4reachabletime = 0, ds_neigh6reachabletime = 0, ds_neigh4gcstaletime = 0,
     ds_neigh6gcstaletime = 0, ds_neigh4locktime = 0, ds_dadtransmits = 0,
     ds_multicast_to_unicast = False, ds_multicast_router = 0, ds_multicast_fast_leave = False,
     ds_multicast = False, ds_learning = False, ds_unicast_flood = False,
     ds_sendredirects = False, ds_ip6segmentrouting = False, ds_isolate = False,
     ds_drop_v4_unicast_in_l2_multicast = False, ds_drop_v6_unicast_in_l2_multicast = False,
     ds_drop_gratuitous_arp = False, ds_drop_unsolicited_na = False, ds_arp_accept = False,
     ds_auth = False, ds_speed = 0, ds_duplex = False, ds_ip_forwarding = False,
     ds_ip6_forwarding = False, ds_arp = False, ds_accept_routing_header = 0,
     ds_hop_limit = 0\<rparr>"

text \<open>A registration on a device; its callback is the one of the structure it is embedded in.\<close>

record device_user =
  du_claimed :: bool
  du_hotplug :: bool
  du_alias :: bool
  du_dev :: "did option"

definition zero_device_user :: device_user where
  "zero_device_user = \<lparr>du_claimed = False, du_hotplug = False, du_alias = False, du_dev = None\<rparr>"

text \<open>
  A device. Its users and aliases are listed by the identifiers of the registrations
  (\<open>uid\<close>). The type is the simple device type or one of the registered types, by name.
  \<open>dv_vlans\<close> is the tree of VLANs in the order of their numbers, \<open>dv_vlans_init\<close> says whether
  it was initialised (\<open>vlans.update\<close> is set) and \<open>dv_vlans_version\<close> is its version.
  \<open>dv_hotplug_ops\<close> names the operations for ports that come and go, if the device has any.
\<close>

definition BRVLAN_F_SELF :: u16 where "BRVLAN_F_SELF = 1"
definition BRVLAN_F_PVID :: u16 where "BRVLAN_F_PVID = 2"
definition BRVLAN_F_UNTAGGED :: u16 where "BRVLAN_F_UNTAGGED = 4"

record bridge_vlan_port =
  bp_ifname :: string
  bp_flags :: u16

record bridge_vlan =
  bv_version :: int
  bv_ports :: "bridge_vlan_port list"
  bv_hotplug_ports :: "bridge_vlan_port list"
  bv_vid :: u16
  bv_local :: bool
  bv_pending :: bool

datatype hotplug_ops = BridgeOps | VlanOps | VlandevOps | OtherOps string

datatype device_type = DevSimple | DevOther string

text \<open>The \<open>set_state\<close> method of a device: one of the two in \<open>device.c\<close>, or the one of its type.\<close>

datatype state_cb = StateDefault | StateSimple | StateOfType

record device =
  dv_type :: device_type
  dv_set_state :: "state_cb option"
  dv_users :: "uid list"
  dv_aliases :: "uid list"
  dv_vlans :: "bridge_vlan list"
  dv_vlans_init :: bool
  dv_vlans_version :: int
  dv_vlan_aliases :: "string \<rightharpoonup> u32"
  dv_ifname :: string
  dv_ifindex :: int
  dv_config :: "blob option"
  dv_config_pending :: bool
  dv_sys_present :: bool
  dv_present :: bool
  dv_active :: int
  dv_link_active :: bool
  dv_auth_status :: bool
  dv_external :: bool
  dv_disabled :: bool
  dv_deferred :: bool
  dv_hidden :: bool
  dv_current_config :: bool
  dv_iface_config :: bool
  dv_default_config :: bool
  dv_wireless :: bool
  dv_config_iface :: "ifid option"
  dv_hotplug_ops :: "hotplug_ops option"
  dv_parent :: device_user
  dv_orig_settings :: device_settings
  dv_settings :: device_settings

definition zero_device :: device where
  "zero_device = \<lparr>dv_type = DevSimple, dv_set_state = None, dv_users = [], dv_aliases = [],
     dv_vlans = [], dv_vlans_init = False, dv_vlans_version = 0, dv_vlan_aliases = Map.empty,
     dv_ifname = [], dv_ifindex = 0, dv_config = None,
     dv_config_pending = False, dv_sys_present = False, dv_present = False, dv_active = 0,
     dv_link_active = False, dv_auth_status = False, dv_external = False, dv_disabled = False,
     dv_deferred = False, dv_hidden = False, dv_current_config = False, dv_iface_config = False,
     dv_default_config = False, dv_wireless = False, dv_config_iface = None, dv_hotplug_ops = None,
     dv_parent = zero_device_user, dv_orig_settings = zero_settings, dv_settings = zero_settings\<rparr>"

section \<open>Device types\<close>

text \<open>
  What the structures of the device types hold beside the device they embed. The field
  \<open>set_state\<close> of these structures keeps the method that \<open>device_init\<close> set, which is
  \<open>set_device_state\<close>.
\<close>

record vlan_device =
  vl_dep :: device_user
  vl_id :: int

record vlan_qos_mapping =
  qm_from :: u32
  qm_to :: u32

datatype vlan_proto = VLAN_PROTO_8021Q | VLAN_PROTO_8021AD

record vlandev_config =
  vc_proto :: vlan_proto
  vc_vid :: u16
  vc_ingress :: "vlan_qos_mapping vlist_simple_tree"
  vc_egress :: "vlan_qos_mapping vlist_simple_tree"

record vlandev_device =
  vd_parent :: device_user
  vd_config_data :: "blob option"
  vd_ifname :: "string option"
  vd_vid :: "string option"
  vd_config :: vlandev_config

definition MACVLAN_OPT_MACADDR :: u32 where "MACVLAN_OPT_MACADDR = 1"

record macvlan_config =
  mc_mode :: "string option"
  mc_flags :: u32
  mc_macaddr :: "u8 list"

record macvlan_device =
  mv_parent :: device_user
  mv_config_data :: "blob option"
  mv_ifname :: "string option"
  mv_config :: macvlan_config

definition VETH_OPT_MACADDR :: u32 where "VETH_OPT_MACADDR = 1"
definition VETH_OPT_PEER_NAME :: u32 where "VETH_OPT_PEER_NAME = 2"
definition VETH_OPT_PEER_MACADDR :: u32 where "VETH_OPT_PEER_MACADDR = 4"

record veth_config =
  ve_flags :: u32
  ve_macaddr :: "u8 list"
  ve_peer_name :: string
  ve_peer_macaddr :: "u8 list"

record veth =
  vt_config_data :: "blob option"
  vt_config :: veth_config

record alias_device =
  al_dep :: device_user
  al_new_dep :: device_user
  al_update :: bool
  al_name :: string

definition BRIDGE_OPT_AGEING_TIME :: u32 where "BRIDGE_OPT_AGEING_TIME = 1"
definition BRIDGE_OPT_ROBUSTNESS :: u32 where "BRIDGE_OPT_ROBUSTNESS = 2"
definition BRIDGE_OPT_QUERY_INTERVAL :: u32 where "BRIDGE_OPT_QUERY_INTERVAL = 4"
definition BRIDGE_OPT_QUERY_RESPONSE_INTERVAL :: u32 where "BRIDGE_OPT_QUERY_RESPONSE_INTERVAL = 8"
definition BRIDGE_OPT_LAST_MEMBER_INTERVAL :: u32 where "BRIDGE_OPT_LAST_MEMBER_INTERVAL = 16"

record bridge_config =
  bc_flags :: u32
  bc_stp :: bool
  bc_stp_kernel :: bool
  bc_stp_proto :: "string option"
  bc_igmp_snoop :: bool
  bc_multicast_querier :: bool
  bc_robustness :: u32
  bc_query_interval :: u32
  bc_query_response_interval :: u32
  bc_last_member_interval :: u32
  bc_priority :: u16
  bc_forward_delay :: u32
  bc_bridge_empty :: bool
  bc_ageing_time :: u32
  bc_hello_time :: u32
  bc_max_age :: u32
  bc_hash_max :: u32
  bc_vlan_filtering :: bool

text \<open>\<open>bm_check\<close> and \<open>bs_retry\<close> say whether the timer is set; members are in the order of their names.\<close>

record bridge_member =
  bm_version :: int
  bm_bst :: did
  bm_dev :: device_user
  bm_check :: bool
  bm_pvid :: u16
  bm_present :: bool
  bm_active :: bool
  bm_name :: string

record bridge_state =
  bs_config_data :: "blob option"
  bs_config :: bridge_config
  bs_ports :: "string list option"
  bs_active :: bool
  bs_force_active :: bool
  bs_has_vlans :: bool
  bs_retry :: bool
  bs_primary_port :: "mid option"
  bs_members :: "mid list"
  bs_members_version :: int
  bs_n_present :: int
  bs_n_failed :: int

section \<open>Addresses, routes, neighbours, prefixes\<close>

definition DEVADDR_INET4 :: u32 where "DEVADDR_INET4 = 0"
definition DEVADDR_INET6 :: u32 where "DEVADDR_INET6 = 1"
definition DEVADDR_FAMILY :: u32 where "DEVADDR_FAMILY = DEVADDR_INET4 OR DEVADDR_INET6"
definition DEVADDR_EXTERNAL :: u32 where "DEVADDR_EXTERNAL = 0x4"
definition DEVROUTE_METRIC :: u32 where "DEVROUTE_METRIC = 0x8"
definition DEVROUTE_MTU :: u32 where "DEVROUTE_MTU = 0x10"
definition DEVROUTE_PROTO :: u32 where "DEVROUTE_PROTO = 0x20"
definition DEVADDR_OFFLINK :: u32 where "DEVADDR_OFFLINK = 0x40"
definition DEVROUTE_TABLE :: u32 where "DEVROUTE_TABLE = 0x80"
definition DEVROUTE_SRCTABLE :: u32 where "DEVROUTE_SRCTABLE = 0x100"
definition DEVROUTE_ONLINK :: u32 where "DEVROUTE_ONLINK = 0x200"
definition DEVROUTE_TYPE :: u32 where "DEVROUTE_TYPE = 0x400"
definition DEVNEIGH_MAC :: u32 where "DEVNEIGH_MAC = 0x800"
definition DEVROUTE_ADVMSS :: u32 where "DEVROUTE_ADVMSS = 0x1000"

lemmas devaddr_flags [nd_defs] =
  DEVADDR_INET4_def DEVADDR_INET6_def DEVADDR_FAMILY_def DEVADDR_EXTERNAL_def
  DEVROUTE_METRIC_def DEVROUTE_MTU_def DEVROUTE_PROTO_def DEVADDR_OFFLINK_def
  DEVROUTE_TABLE_def DEVROUTE_SRCTABLE_def DEVROUTE_ONLINK_def DEVROUTE_TYPE_def
  DEVNEIGH_MAC_def DEVROUTE_ADVMSS_def

definition is_inet6 :: "u32 \<Rightarrow> bool" where
  "is_inet6 flags \<longleftrightarrow> flags AND DEVADDR_FAMILY = DEVADDR_INET6"

definition zero_addr :: if_addr where
  "zero_addr = replicate 16 0"

text \<open>
  An element of a versioned tree carries the version of the tree at the time it was added
  (\<open>pf_version\<close>, \<open>rt_version\<close>, \<open>nb_version\<close>, \<open>ad_version\<close>). \<open>vlist_flush\<close> keeps the elements of the
  current version and those with version -1, unless the version of the tree is -1. The counters
  are taken as unbounded.
\<close>

definition vlist_keeps :: "int \<Rightarrow> int \<Rightarrow> bool" where
  "vlist_keeps tree node \<longleftrightarrow> (node = tree \<or> node = -1) \<and> tree \<noteq> -1"

record device_prefix_assignment =
  pa_assigned :: int
  pa_length :: nat
  pa_weight :: int
  pa_addr :: if_addr
  pa_enabled :: bool
  pa_name :: string

record device_prefix =
  pf_assignments :: "device_prefix_assignment list"
  pf_iface :: "ifid option"
  pf_valid_until :: int
  pf_preferred_until :: int
  pf_excl_addr :: if_addr
  pf_excl_length :: nat
  pf_addr :: if_addr
  pf_length :: nat
  pf_pclass :: string
  pf_version :: int

definition zero_prefix :: device_prefix where
  "zero_prefix = \<lparr>pf_assignments = [], pf_iface = None, pf_valid_until = 0,
     pf_preferred_until = 0, pf_excl_addr = zero_addr, pf_excl_length = 0, pf_addr = zero_addr,
     pf_length = 0, pf_pclass = [], pf_version = 0\<rparr>"

record device_route =
  rt_iface :: "ifid option"
  rt_enabled :: bool
  rt_keep :: bool
  rt_failed :: bool
  rt_nexthop :: if_addr
  rt_mtu :: int
  rt_type :: u32
  rt_proto :: u32
  rt_valid_until :: int
  rt_advmss :: u32
  rt_flags :: u32
  rt_metric :: int
  rt_table :: u32
  rt_mask :: u32
  rt_sourcemask :: u32
  rt_addr :: if_addr
  rt_source :: if_addr
  rt_version :: int

definition zero_route :: device_route where
  "zero_route = \<lparr>rt_iface = None, rt_enabled = False, rt_keep = False, rt_failed = False,
     rt_nexthop = zero_addr, rt_mtu = 0, rt_type = 0, rt_proto = 0, rt_valid_until = 0,
     rt_advmss = 0, rt_flags = 0, rt_metric = 0, rt_table = 0, rt_mask = 0,
     rt_sourcemask = 0, rt_addr = zero_addr, rt_source = zero_addr, rt_version = 0\<rparr>"

record device_neighbor =
  nb_failed :: bool
  nb_proxy :: bool
  nb_keep :: bool
  nb_enabled :: bool
  nb_router :: bool
  nb_macaddr :: "u8 list"
  nb_flags :: u32
  nb_addr :: if_addr
  nb_version :: int

definition zero_neighbor :: device_neighbor where
  "zero_neighbor = \<lparr>nb_failed = False, nb_proxy = False, nb_keep = False, nb_enabled = False,
     nb_router = False, nb_macaddr = replicate 6 0, nb_flags = 0, nb_addr = zero_addr,
     nb_version = 0\<rparr>"

record device_addr =
  ad_enabled :: bool
  ad_failed :: bool
  ad_index :: int
  ad_policy_table :: u32
  ad_subnet :: device_route
  ad_is_scope_link :: bool
  ad_broadcast :: u32
  ad_point_to_point :: u32
  ad_valid_until :: int
  ad_preferred_until :: int
  ad_pclass :: "string option"
  ad_flags :: u32
  ad_mask :: u32
  ad_addr :: if_addr
  ad_version :: int

definition zero_device_addr :: device_addr where
  "zero_device_addr = \<lparr>ad_enabled = False, ad_failed = False, ad_index = 0, ad_policy_table = 0,
     ad_subnet = zero_route, ad_is_scope_link = False, ad_broadcast = 0, ad_point_to_point = 0,
     ad_valid_until = 0, ad_preferred_until = 0, ad_pclass = None, ad_flags = 0, ad_mask = 0,
     ad_addr = zero_addr, ad_version = 0\<rparr>"

record dns_server =
  dns_af6 :: bool
  dns_addr :: if_addr

record interface_ip_settings =
  ip_enabled :: bool
  ip_no_defaultroute :: bool
  ip_no_dns :: bool
  ip_no_delegation :: bool
  ip_addr :: "device_addr list"
  ip_route :: "device_route list"
  ip_prefix :: "pid list"
  ip_neighbor :: "device_neighbor list"
  ip_addr_version :: int
  ip_route_version :: int
  ip_prefix_version :: int
  ip_neighbor_version :: int
  ip_dns_servers :: "dns_server vlist_simple_tree"
  ip_dns_search :: "string vlist_simple_tree"

section \<open>Rules\<close>

definition IPRULE_PRIORITY_ADDR :: u32 where "IPRULE_PRIORITY_ADDR = 10000"
definition IPRULE_PRIORITY_ADDR_MASK :: u32 where "IPRULE_PRIORITY_ADDR_MASK = 20000"
definition IPRULE_PRIORITY_NW :: u32 where "IPRULE_PRIORITY_NW = 90000"
definition IPRULE_PRIORITY_REJECT :: u32 where "IPRULE_PRIORITY_REJECT = 4200000000"

definition IPRULE_INET4 :: u32 where "IPRULE_INET4 = 0"
definition IPRULE_INET6 :: u32 where "IPRULE_INET6 = 1"
definition IPRULE_IN :: u32 where "IPRULE_IN = 0x4"
definition IPRULE_OUT :: u32 where "IPRULE_OUT = 0x8"
definition IPRULE_SRC :: u32 where "IPRULE_SRC = 0x10"
definition IPRULE_DEST :: u32 where "IPRULE_DEST = 0x20"
definition IPRULE_PRIORITY :: u32 where "IPRULE_PRIORITY = 0x40"
definition IPRULE_TOS :: u32 where "IPRULE_TOS = 0x80"
definition IPRULE_FWMARK :: u32 where "IPRULE_FWMARK = 0x100"
definition IPRULE_FWMASK :: u32 where "IPRULE_FWMASK = 0x200"
definition IPRULE_LOOKUP :: u32 where "IPRULE_LOOKUP = 0x400"
definition IPRULE_ACTION :: u32 where "IPRULE_ACTION = 0x800"
definition IPRULE_GOTO :: u32 where "IPRULE_GOTO = 0x1000"
definition IPRULE_SUP_PREFIXLEN :: u32 where "IPRULE_SUP_PREFIXLEN = 0x2000"
definition IPRULE_UIDRANGE :: u32 where "IPRULE_UIDRANGE = 0x4000"

lemmas iprule_flags [nd_defs] =
  IPRULE_INET4_def IPRULE_INET6_def IPRULE_IN_def IPRULE_OUT_def IPRULE_SRC_def IPRULE_DEST_def
  IPRULE_PRIORITY_def IPRULE_TOS_def IPRULE_FWMARK_def IPRULE_FWMASK_def IPRULE_LOOKUP_def
  IPRULE_ACTION_def IPRULE_GOTO_def IPRULE_SUP_PREFIXLEN_def IPRULE_UIDRANGE_def

record iprule =
  ru_order :: u32
  ru_in_iface_user :: "ifid option"
  ru_out_iface_user :: "ifid option"
  ru_in_dev :: string
  ru_out_dev :: string
  ru_in_iface :: "string option"
  ru_out_iface :: "string option"
  ru_flags :: u32
  ru_invert :: bool
  ru_src_mask :: u32
  ru_src_addr :: if_addr
  ru_dest_mask :: u32
  ru_dest_addr :: if_addr
  ru_priority :: u32
  ru_tos :: u32
  ru_fwmark :: u32
  ru_fwmask :: u32
  ru_lookup :: u32
  ru_sup_prefixlen :: u32
  ru_uidrange_start :: u32
  ru_uidrange_end :: u32
  ru_action :: u32
  ru_gotoid :: u32

definition zero_iprule :: iprule where
  "zero_iprule = \<lparr>ru_order = 0, ru_in_iface_user = None, ru_out_iface_user = None, ru_in_dev = [],
     ru_out_dev = [], ru_in_iface = None, ru_out_iface = None, ru_flags = 0, ru_invert = False,
     ru_src_mask = 0, ru_src_addr = zero_addr, ru_dest_mask = 0, ru_dest_addr = zero_addr,
     ru_priority = 0, ru_tos = 0, ru_fwmark = 0, ru_fwmask = 0, ru_lookup = 0,
     ru_sup_prefixlen = 0, ru_uidrange_start = 0, ru_uidrange_end = 0, ru_action = 0,
     ru_gotoid = 0\<rparr>"


section \<open>Interfaces\<close>

datatype interface_event =
    IFEV_DOWN | IFEV_UP | IFEV_UP_FAILED | IFEV_UPDATE | IFEV_FREE | IFEV_RELOAD
  | IFEV_LINK_UP | IFEV_CREATE

datatype interface_state = IFS_SETUP | IFS_UP | IFS_TEARDOWN | IFS_DOWN

datatype interface_config_state = IFC_NORMAL | IFC_RELOAD | IFC_REMOVE

datatype interface_id_selection_type = IFID_FIXED | IFID_RANDOM | IFID_EUI64

definition IUF_ADDRESS :: u32 where "IUF_ADDRESS = 0x1"
definition IUF_ROUTE :: u32 where "IUF_ROUTE = 0x2"
definition IUF_PREFIX :: u32 where "IUF_PREFIX = 0x4"
definition IUF_DATA :: u32 where "IUF_DATA = 0x8"

lemmas iuf_flags [nd_defs] = IUF_ADDRESS_def IUF_ROUTE_def IUF_PREFIX_def IUF_DATA_def

record interface_error =
  err_subsystem :: "string option"
  err_code :: "string option"
  err_data :: "string list"

datatype interface_proto_event = IFPEV_UP | IFPEV_DOWN | IFPEV_LINK_LOST | IFPEV_RENEW

datatype interface_proto_cmd = PROTO_CMD_SETUP | PROTO_CMD_TEARDOWN | PROTO_CMD_RENEW

definition PROTO_FLAG_IMMEDIATE :: u32 where "PROTO_FLAG_IMMEDIATE = 0x1"
definition PROTO_FLAG_NODEV :: u32 where "PROTO_FLAG_NODEV = 0x2"
definition PROTO_FLAG_INIT_AVAILABLE :: u32 where "PROTO_FLAG_INIT_AVAILABLE = 0x4"
definition PROTO_FLAG_RENEW_AVAILABLE :: u32 where "PROTO_FLAG_RENEW_AVAILABLE = 0x8"
definition PROTO_FLAG_FORCE_LINK_DEFAULT :: u32 where "PROTO_FLAG_FORCE_LINK_DEFAULT = 0x10"
definition PROTO_FLAG_LASTERROR :: u32 where "PROTO_FLAG_LASTERROR = 0x20"
definition PROTO_FLAG_TEARDOWN_ON_L3_LINK_DOWN :: u32 where
  "PROTO_FLAG_TEARDOWN_ON_L3_LINK_DOWN = 0x40"
definition PROTO_FLAG_NO_TASK :: u32 where "PROTO_FLAG_NO_TASK = 0x80"

lemmas proto_flags [nd_defs] =
  PROTO_FLAG_IMMEDIATE_def PROTO_FLAG_NODEV_def PROTO_FLAG_INIT_AVAILABLE_def
  PROTO_FLAG_RENEW_AVAILABLE_def PROTO_FLAG_FORCE_LINK_DEFAULT_def PROTO_FLAG_LASTERROR_def
  PROTO_FLAG_TEARDOWN_ON_L3_LINK_DOWN_def PROTO_FLAG_NO_TASK_def

text \<open>
  \<open>ph_config_params\<close>: the handler declares configuration parameters. \<open>ph_attach\<close> is the function
  that makes the state of the protocol for an interface; the structure of a shell protocol, which
  embeds its handler, has the name of the script beside it.
\<close>

datatype proto_attach_fn =
    DefaultAttach | StaticAttach | ShellAttach string | UdhcpAttach | IscDhcpAttach | ZcipAttach

record proto_handler =
  ph_flags :: u32
  ph_name :: string
  ph_config_params :: bool
  ph_attach :: proto_attach_fn

text \<open>
  The command handler of a protocol state: the one of \<open>proto none\<close>, the one that stands in
  when a protocol cannot be attached, the one of the static protocol, or one of a protocol with a
  state of its own, which is addressed by an identifier.
\<close>

datatype proto_cb =
    NoProtoHandler | InvalidProtoHandler | StaticHandler
  | ShellHandler psid | UdhcpHandler psid | IscDhcpHandler psid | ZcipHandler psid

record interface_proto_state =
  ps_handler :: proto_handler
  ps_cb :: proto_cb
  ps_config :: "blob option"

text \<open>\<open>if_remove_timer\<close> is set once the interface is to be removed, and tells whether the timer runs.\<close>

record interface =
  if_version :: int
  if_hotplug_pending :: bool
  if_hotplug_ev :: interface_event
  if_name :: string
  if_device :: "string option"
  if_zone :: "string option"
  if_jail :: "string option"
  if_jail_device :: "string option"
  if_host_device :: "string option"
  if_available :: bool
  if_autostart :: bool
  if_config_autostart :: bool
  if_device_config :: bool
  if_enabled :: bool
  if_link_state :: bool
  if_force_link :: bool
  if_dynamic :: bool
  if_policy_rules_set :: bool
  if_link_up_event :: bool
  if_start_time :: int
  if_state :: interface_state
  if_config_state :: interface_config_state
  if_updated :: u32
  if_parent_ifname :: "string option"
  if_parent_iface :: "ifid option"
  if_main_dev :: device_user
  if_ext_dev :: device_user
  if_l3_dev :: device_user
  if_config :: "blob option"
  if_proto_handler :: proto_handler
  if_proto :: "interface_proto_state option"
  if_proto_ip :: interface_ip_settings
  if_config_ip :: interface_ip_settings
  if_host_routes :: "device_route list"
  if_host_neighbors :: "device_neighbor list"
  if_metric :: int
  if_dns_metric :: int
  if_ip4table :: u32
  if_ip6table :: u32
  if_assignment_iface_id_selection :: interface_id_selection_type
  if_assignment_fixed_iface_id :: if_addr
  if_assignment_length :: nat
  if_assignment_hint :: int
  if_assignment_classes :: "string list"
  if_assignment_weight :: int
  if_errors :: "interface_error list"
  if_data :: "(string \<times> blob) list"
  if_remove_timer :: "bool option"

text \<open>All fields as after \<open>calloc\<close>; a missing protocol handler is an empty one.\<close>

definition zero_ip_settings :: interface_ip_settings where
  "zero_ip_settings = \<lparr>ip_enabled = False, ip_no_defaultroute = False, ip_no_dns = False,
     ip_no_delegation = False, ip_addr = [], ip_route = [], ip_prefix = [], ip_neighbor = [],
     ip_addr_version = 1, ip_route_version = 1, ip_prefix_version = 1, ip_neighbor_version = 1,
     ip_dns_servers = vlist_simple_init 0, ip_dns_search = vlist_simple_init 0\<rparr>"

definition zero_proto_handler :: proto_handler where
  "zero_proto_handler = \<lparr>ph_flags = 0, ph_name = [], ph_config_params = False,
     ph_attach = DefaultAttach\<rparr>"

definition zero_interface :: interface where
  "zero_interface = \<lparr>if_version = 0, if_hotplug_pending = False, if_hotplug_ev = IFEV_DOWN, if_name = [],
     if_device = None, if_zone = None, if_jail = None, if_jail_device = None,
     if_host_device = None, if_available = False, if_autostart = False,
     if_config_autostart = False, if_device_config = False, if_enabled = False,
     if_link_state = False, if_force_link = False, if_dynamic = False,
     if_policy_rules_set = False, if_link_up_event = False, if_start_time = 0,
     if_state = IFS_SETUP, if_config_state = IFC_NORMAL, if_updated = 0,
     if_parent_ifname = None, if_parent_iface = None, if_main_dev = zero_device_user,
     if_ext_dev = zero_device_user, if_l3_dev = zero_device_user, if_config = None,
     if_proto_handler = zero_proto_handler, if_proto = None, if_proto_ip = zero_ip_settings,
     if_config_ip = zero_ip_settings, if_host_routes = [], if_host_neighbors = [],
     if_metric = 0, if_dns_metric = 0, if_ip4table = 0, if_ip6table = 0,
     if_assignment_iface_id_selection = IFID_FIXED, if_assignment_fixed_iface_id = zero_addr,
     if_assignment_length = 0, if_assignment_hint = 0, if_assignment_classes = [],
     if_assignment_weight = 0, if_errors = [], if_data = [], if_remove_timer = None\<rparr>"

text \<open>The device that layer 3 traffic of an interface goes through.\<close>

abbreviation l3_device :: "interface \<Rightarrow> did option" where
  "l3_device iface \<equiv> du_dev (if_l3_dev iface)"

section \<open>Protocols that run programs\<close>

datatype proto_shell_sm = S_IDLE | S_SETUP | S_SETUP_ABORT | S_TEARDOWN

text \<open>
  A timer is the time it was set to, in milliseconds, while it is pending; a process is whether it
  is pending. A state that was freed is marked.
\<close>

record proto_shell_state =
  sh_iface :: ifid
  sh_handler :: proto_handler
  sh_script_name :: string
  sh_config :: "blob option"
  sh_teardown_timeout :: "int option"
  sh_checkup_interval :: int
  sh_checkup_timeout :: "int option"
  sh_script_task :: bool
  sh_proto_task :: bool
  sh_sm :: proto_shell_sm
  sh_proto_task_killed :: bool
  sh_renew_pending :: bool
  sh_last_error :: int
  sh_deps :: "depid list"
  sh_freed :: bool

definition zero_shell_state :: proto_shell_state where
  "zero_shell_state = \<lparr>sh_iface = 0, sh_handler = zero_proto_handler, sh_script_name = [],
     sh_config = None, sh_teardown_timeout = None, sh_checkup_interval = 0, sh_checkup_timeout = None,
     sh_script_task = False, sh_proto_task = False, sh_sm = S_IDLE, sh_proto_task_killed = False,
     sh_renew_pending = False, sh_last_error = 0, sh_deps = [], sh_freed = False\<rparr>"

text \<open>\<open>sd_down\<close>: the callback of the dependency is the one that waits for its interface to go down.\<close>

record proto_shell_dependency =
  sd_proto :: psid
  sd_iface :: "ifid option"
  sd_down :: bool
  sd_host :: if_addr
  sd_v6 :: bool
  sd_any :: bool
  sd_interface :: string

definition zero_shell_dep :: proto_shell_dependency where
  "zero_shell_dep = \<lparr>sd_proto = 0, sd_iface = None, sd_down = False, sd_host = zero_addr,
     sd_v6 = False, sd_any = False, sd_interface = []\<rparr>"

datatype dhcp_state = DHCP_IDLE | DHCP_SETTING_UP | DHCP_DONE

record dhcp_proto_state =
  dh_iface :: ifid
  dh_config :: "blob option"
  dh_dhcpv6 :: bool
  dh_teardown :: bool
  dh_state :: dhcp_state
  dh_client :: bool
  dh_freed :: bool

definition zero_dhcp_state :: dhcp_proto_state where
  "zero_dhcp_state = \<lparr>dh_iface = 0, dh_config = None, dh_dhcpv6 = False, dh_teardown = False,
     dh_state = DHCP_IDLE, dh_client = False, dh_freed = False\<rparr>"

record isc_dhcp_proto_state =
  ic_iface :: ifid
  ic_config :: "blob option"
  ic_dhcpv6 :: bool
  ic_dad_wait_time :: int
  ic_state :: dhcp_state
  ic_client :: bool
  ic_freed :: bool

definition zero_isc_state :: isc_dhcp_proto_state where
  "zero_isc_state = \<lparr>ic_iface = 0, ic_config = None, ic_dhcpv6 = False, ic_dad_wait_time = 0,
     ic_state = DHCP_IDLE, ic_client = False, ic_freed = False\<rparr>"

datatype zcip_state = ZCIP_IDLE | ZCIP_SETTING_UP | ZCIP_DONE

record zcip_proto_state =
  zc_iface :: ifid
  zc_config :: "blob option"
  zc_teardown :: bool
  zc_state :: zcip_state
  zc_client :: bool
  zc_freed :: bool

definition zero_zcip_state :: zcip_proto_state where
  "zero_zcip_state = \<lparr>zc_iface = 0, zc_config = None, zc_teardown = False, zc_state = ZCIP_IDLE,
     zc_client = False, zc_freed = False\<rparr>"

text \<open>The processes of the program.\<close>

datatype process =
    ScriptTask psid | ProtoTask psid | UdhcpClient psid | IscDhcpClient psid | ZcipClient psid

section \<open>Kernel requests\<close>

text \<open>
  One constructor per \<open>system_*\<close> function that configures the kernel. A missing device
  is the \<open>NULL\<close> that the code passes for unreachable routes.
\<close>

datatype kreq =
    KAddRoute "did option" device_route
  | KDelRoute "did option" device_route
  | KAddAddress "did option" device_addr
  | KDelAddress "did option" device_addr
  | KAddNeighbor "did option" device_neighbor
  | KDelNeighbor "did option" device_neighbor
  | KAddIprule iprule
  | KDelIprule iprule
  | KFlushIprules
  | KFlushRoutes
  | KUpdateIpv6Mtu did int
  | KIfUp did
  | KIfDown did
  | KIfResolve did
  | KIfGetSettings did
  | KIfApplySettings did device_settings u64
  | KIfClearState did
  | KVlanAdd did int
  | KVlanDel did
  | KVlandevAdd did "did option" vlandev_config
  | KVlandevDel did
  | KMacvlanAdd did "did option" macvlan_config
  | KMacvlanDel did
  | KVethAdd did veth_config
  | KVethDel did
  | KTunnelAdd did "blob option"
  | KTunnelDel did
  | KBridgeAddbr did bridge_config
  | KBridgeDelbr did
  | KBridgeAddif did did
  | KBridgeDelif did did
  | KBridgeVlan string u16 bool u16
  | KBridgeStpState did bool

type_synonym klog = "kreq list"

text \<open>What the kernel answers to a request, given everything requested before.\<close>

type_synonym kernel = "klog \<Rightarrow> kreq \<Rightarrow> int"

definition ksys :: "kernel \<Rightarrow> kreq \<Rightarrow> klog \<Rightarrow> int \<times> klog" where
  "ksys K q log = (K log q, log @ [q])"

definition kdo :: "kreq \<Rightarrow> klog \<Rightarrow> klog" where
  "kdo q log = log @ [q]"

end
