(* ===== verification/IfAddr.thy ===== *)
theory IfAddr
  imports Types
begin

text \<open>
  Addresses and address lookups of \<open>src/interface-ip.c\<close>: clearing the host part of an
  address, comparing two addresses under a prefix length, the comparison functions of the
  address, neighbour, route and prefix trees, and the search for the address or route of an
  interface that reaches a target.

  A \<open>union if_addr\<close> is its 16 bytes. A \<open>struct in_addr\<close> value held in an integer is written
  in host order, so that \<open>htonl\<close> and \<open>ntohl\<close> need no counterpart.
\<close>

unbundle bit_operations_syntax

text \<open>
  With \<open>plen = 0\<close> the code also rewrites the byte in front of the area with its own value
  (\<open>p[-1] &= 0xff\<close>): an access outside of the object that changes nothing. It has no
  counterpart in the result; \<open>clear_if_addr_in_bounds\<close> says when every access is inside.
\<close>

definition clear_m_bytes :: "nat \<Rightarrow> nat" where
  "clear_m_bytes plen = (plen + 7) div 8"

definition clear_m_clear :: "nat \<Rightarrow> u8" where
  "clear_m_clear plen = push_bit (clear_m_bytes plen * 8 - plen) 1 - 1"

definition clear_if_addr :: "if_addr \<Rightarrow> nat \<Rightarrow> if_addr" where
  "clear_if_addr a plen =
     (let m_bytes = clear_m_bytes plen;
          m_clear = clear_m_clear plen;
          p = take m_bytes a @ replicate (length a - m_bytes) 0
      in if m_bytes = 0 then p
         else p[m_bytes - 1 := (p ! (m_bytes - 1)) AND NOT m_clear])"

definition clear_if_addr_in_bounds :: "nat \<Rightarrow> bool" where
  "clear_if_addr_in_bounds plen \<longleftrightarrow> 1 \<le> clear_m_bytes plen \<and> clear_m_bytes plen \<le> 16"

definition match_if_addr :: "if_addr \<Rightarrow> if_addr \<Rightarrow> nat \<Rightarrow> bool" where
  "match_if_addr a1 a2 plen \<longleftrightarrow> clear_if_addr a1 plen = clear_if_addr a2 plen"

definition in_s_addr :: "if_addr \<Rightarrow> u32" where
  "in_s_addr a = push_bit 24 (ucast (a ! 0)) OR push_bit 16 (ucast (a ! 1)) OR
                 push_bit 8 (ucast (a ! 2)) OR ucast (a ! 3)"

section \<open>Tree keys\<close>

fun memcmp :: "u8 list \<Rightarrow> u8 list \<Rightarrow> int" where
  "memcmp (x # xs) (y # ys) = (if x = y then memcmp xs ys else if x < y then -1 else 1)"
| "memcmp _ _ = 0"

text \<open>The bytes of a 32-bit field in memory, least significant byte first.\<close>

definition u32_bytes :: "u32 \<Rightarrow> u8 list" where
  "u32_bytes w = [ucast w, ucast (drop_bit 8 w), ucast (drop_bit 16 w), ucast (drop_bit 24 w)]"

definition addr_cmp :: "device_addr \<Rightarrow> device_addr \<Rightarrow> int" where
  "addr_cmp a1 a2 =
     (if ad_index a1 \<noteq> ad_index a2 then ad_index a1 - ad_index a2
      else memcmp (u32_bytes (ad_flags a1) @ u32_bytes (ad_mask a1) @ ad_addr a1)
                  (u32_bytes (ad_flags a2) @ u32_bytes (ad_mask a2) @ ad_addr a2))"

definition neighbor_cmp :: "device_neighbor \<Rightarrow> device_neighbor \<Rightarrow> int" where
  "neighbor_cmp n1 n2 = memcmp (nb_addr n1) (nb_addr n2)"

definition route_cmp :: "device_route \<Rightarrow> device_route \<Rightarrow> int" where
  "route_cmp r1 r2 =
     (if rt_mask r1 \<noteq> rt_mask r2 then c_int (rt_mask r2 - rt_mask r1)
      else if rt_metric r1 \<noteq> rt_metric r2 then rt_metric r1 - rt_metric r2
      else if rt_flags r1 \<noteq> rt_flags r2 then c_int (rt_flags r2 - rt_flags r1)
      else if rt_sourcemask r1 \<noteq> rt_sourcemask r2 then c_int (rt_sourcemask r1 - rt_sourcemask r2)
      else if rt_table r1 \<noteq> rt_table r2 then c_int (rt_table r1 - rt_table r2)
      else let maskcmp = memcmp (rt_source r1) (rt_source r2)
           in if maskcmp \<noteq> 0 then maskcmp
              else memcmp (rt_addr r1) (rt_addr r2))"

text \<open>The key of a prefix is its address and its length.\<close>

definition prefix_cmp :: "device_prefix \<Rightarrow> device_prefix \<Rightarrow> int" where
  "prefix_cmp p1 p2 = memcmp (pf_addr p1 @ [word_of_nat (pf_length p1)])
                             (pf_addr p2 @ [word_of_nat (pf_length p2)])"

section \<open>Target lookup\<close>

fun find_ip_addr_target :: "device_addr list \<Rightarrow> if_addr \<Rightarrow> bool \<Rightarrow> bool" where
  "find_ip_addr_target [] a v6 = False"
| "find_ip_addr_target (addr # rest) a v6 =
     (if \<not> ad_enabled addr then find_ip_addr_target rest a v6
      else if v6 \<noteq> is_inet6 (ad_flags addr) then find_ip_addr_target rest a v6
      else if ad_flags addr AND DEVADDR_FAMILY = DEVADDR_INET4 \<and> ad_point_to_point addr \<noteq> 0
              \<and> in_s_addr a = ad_point_to_point addr then True
      else let plen = (if is_inet6 (ad_flags addr) \<and> has_flag (ad_flags addr) DEVADDR_OFFLINK
                       then 128 else ad_mask addr)
           in if \<not> match_if_addr (ad_addr addr) a (unat plen) then find_ip_addr_target rest a v6
              else True)"

definition route_better :: "device_route \<Rightarrow> device_route option \<Rightarrow> bool" where
  "route_better route res \<longleftrightarrow>
     (case res of None \<Rightarrow> True
      | Some r \<Rightarrow> rt_mask route > rt_mask r \<or>
          (rt_mask route = rt_mask r \<and> has_flag (rt_flags route) DEVROUTE_METRIC
           \<and> rt_metric route < rt_metric r))"

fun find_ip_route_target ::
  "device_route list \<Rightarrow> if_addr \<Rightarrow> bool \<Rightarrow> device_route option \<Rightarrow> device_route option" where
  "find_ip_route_target [] a v6 res = res"
| "find_ip_route_target (route # rest) a v6 res =
     (if \<not> rt_enabled route then find_ip_route_target rest a v6 res
      else if v6 \<noteq> is_inet6 (rt_flags route) then find_ip_route_target rest a v6 res
      else if \<not> match_if_addr (rt_addr route) a (unat (rt_mask route))
        then find_ip_route_target rest a v6 res
      else if has_flag (rt_flags route) DEVROUTE_TABLE then find_ip_route_target rest a v6 res
      else find_ip_route_target rest a v6 (if route_better route res then Some route else res))"

definition interface_ip_find_addr_target ::
  "interface_ip_settings \<Rightarrow> interface_ip_settings \<Rightarrow> if_addr \<Rightarrow> bool \<Rightarrow> bool" where
  "interface_ip_find_addr_target proto_ip config_ip a v6 \<longleftrightarrow>
     find_ip_addr_target (ip_addr proto_ip) a v6 \<or> find_ip_addr_target (ip_addr config_ip) a v6"

definition interface_ip_find_route_target ::
  "interface_ip_settings \<Rightarrow> interface_ip_settings \<Rightarrow> if_addr \<Rightarrow> bool \<Rightarrow>
   device_route option \<Rightarrow> device_route option" where
  "interface_ip_find_route_target proto_ip config_ip a v6 res =
     find_ip_route_target (ip_route config_ip) a v6
       (find_ip_route_target (ip_route proto_ip) a v6 res)"

section \<open>Lemmas: address bits\<close>

text \<open>Bit \<open>k\<close> of an address, counted from the most significant bit of its first byte.\<close>

definition addr_bit :: "if_addr \<Rightarrow> nat \<Rightarrow> bool" where
  "addr_bit a k = bit (a ! (k div 8)) (7 - k mod 8)"

lemma length_clear_if_addr [simp]: "plen \<le> 8 * length a \<Longrightarrow> length (clear_if_addr a plen) = length a"
  by (simp add: clear_if_addr_def Let_def clear_m_bytes_def)

lemma clear_m_clear_mask:
  assumes "0 < plen"
  shows "clear_m_clear plen = mask (clear_m_bytes plen * 8 - plen)"
  by (simp add: clear_m_clear_def mask_eq_exp_minus_1 push_bit_of_1)

lemma clear_if_addr_nth:
  assumes len: "plen \<le> 8 * length a" and i: "i < length a"
  shows "clear_if_addr a plen ! i =
    (if i < plen div 8 then a ! i
     else if i = plen div 8 \<and> plen mod 8 \<noteq> 0 then (a ! i) AND NOT (mask (8 - plen mod 8))
     else 0)"
proof (cases "plen mod 8 = 0")
  case True
  then have b: "clear_m_bytes plen = plen div 8" and z: "clear_m_bytes plen * 8 - plen = 0"
    by (auto simp: clear_m_bytes_def)
  have "clear_m_clear plen = 0" by (simp add: clear_m_clear_def z)
  with b True i len show ?thesis
    by (auto simp: clear_if_addr_def Let_def nth_append nth_list_update)
next
  case False
  have split: "plen = 8 * (plen div 8) + plen mod 8" by simp
  have b: "clear_m_bytes plen = Suc (plen div 8)"
    unfolding clear_m_bytes_def
  proof (rule div_nat_eqI)
    show "8 * Suc (plen div 8) \<le> plen + 7" using False by arith
    show "plen + 7 < 8 * Suc (Suc (plen div 8))" by arith
  qed
  then have k: "clear_m_bytes plen * 8 - plen = 8 - plen mod 8" using split by linarith
  have "clear_m_clear plen = mask (8 - plen mod 8)"
    using False clear_m_clear_mask [of plen] k by (cases "plen = 0") auto
  moreover have "plen div 8 < length a" using False len split by linarith
  ultimately show ?thesis
    using False i b by (auto simp: clear_if_addr_def Let_def nth_append nth_list_update min_def)
qed

lemma addr_bit_clear:
  assumes "plen \<le> 8 * length a" and "k < 8 * length a"
  shows "addr_bit (clear_if_addr a plen) k \<longleftrightarrow> k < plen \<and> addr_bit a k"
proof -
  have i: "k div 8 < length a" using assms(2) by (simp add: less_mult_imp_div_less mult.commute)
  have c: "k < plen \<longleftrightarrow> k div 8 < plen div 8 \<or> (k div 8 = plen div 8 \<and> k mod 8 < plen mod 8)"
    by (rule nat_less_div_mod_iff)
  consider "k div 8 < plen div 8" | "k div 8 = plen div 8" | "k div 8 > plen div 8" by linarith
  then show ?thesis
  proof cases
    case 1
    with c show ?thesis by (simp add: addr_bit_def clear_if_addr_nth [OF assms(1) i])
  next
    case 2
    have m8: "k mod 8 < 8" "plen mod 8 < 8" by simp_all
    have b7: "7 - k mod 8 < 8" by linarith
    have "7 - k mod 8 < 8 - plen mod 8 \<longleftrightarrow> \<not> k mod 8 < plen mod 8"
      if "plen mod 8 \<noteq> 0" using m8 that by linarith
    with 2 c b7 show ?thesis
      unfolding addr_bit_def clear_if_addr_nth [OF assms(1) i]
      by (auto simp: bit_and_iff bit_not_iff bit_mask_iff)
  next
    case 3
    with c show ?thesis by (simp add: addr_bit_def clear_if_addr_nth [OF assms(1) i])
  qed
qed

lemma addr_eq_iff_bits:
  assumes "length a = n" "length b = n"
  shows "a = b \<longleftrightarrow> (\<forall>k < 8 * n. addr_bit a k = addr_bit b k)"
proof
  assume all: "\<forall>k < 8 * n. addr_bit a k = addr_bit b k"
  show "a = b"
  proof (rule nth_equalityI)
    show "length a = length b" using assms by simp
    fix i assume i: "i < length a"
    show "a ! i = b ! i"
    proof (rule bit_word_eqI)
      fix j assume "j < LENGTH(8)"
      then have j: "j \<le> 7" by simp
      have "8 * i + (7 - j) < 8 * n" using i assms by linarith
      with all have "addr_bit a (8 * i + (7 - j)) = addr_bit b (8 * i + (7 - j))" by blast
      moreover have "(8 * i + (7 - j)) div 8 = i" "(8 * i + (7 - j)) mod 8 = 7 - j"
        by simp_all
      ultimately show "bit (a ! i) j = bit (b ! i) j" using j by (simp add: addr_bit_def)
    qed
  qed
qed simp


section \<open>Lemmas: tree keys\<close>

lemma memcmp_eq_0: "length xs = length ys \<Longrightarrow> memcmp xs ys = 0 \<longleftrightarrow> xs = ys"
  by (induction xs ys rule: memcmp.induct) auto

lemma c_int_eq_0: "c_int w = 0 \<longleftrightarrow> w = 0"
  by (simp add: c_int_def signed_eq_0_iff)

lemma memcmp_sym: "memcmp ys xs = - memcmp xs ys"
  by (induction xs ys rule: memcmp.induct) auto

text \<open>The key of a route in its tree.\<close>

definition route_key where
  "route_key r = (rt_mask r, rt_metric r, rt_flags r, rt_sourcemask r, rt_table r, rt_source r, rt_addr r)"

section \<open>Lemmas: route lookup\<close>

text \<open>The routes that compete for a target.\<close>

definition route_candidate :: "if_addr \<Rightarrow> bool \<Rightarrow> device_route \<Rightarrow> bool" where
  "route_candidate a v6 r \<longleftrightarrow> rt_enabled r \<and> is_inet6 (rt_flags r) = v6
     \<and> match_if_addr (rt_addr r) a (unat (rt_mask r)) \<and> \<not> has_flag (rt_flags r) DEVROUTE_TABLE"

lemma find_ip_route_target_fold:
  "find_ip_route_target rs a v6 res =
     foldl (\<lambda>res r. if route_better r res then Some r else res) res (filter (route_candidate a v6) rs)"
  by (induction rs a v6 res rule: find_ip_route_target.induct)
     (auto simp: route_candidate_def)

lemma route_better_fold:
  "foldl (\<lambda>res r. if route_better r res then Some r else res) res rs = Some r \<Longrightarrow>
     (r \<in> set rs \<or> res = Some r) \<and> (\<forall>r' \<in> set rs. rt_mask r' \<le> rt_mask r)
     \<and> (\<forall>r0. res = Some r0 \<longrightarrow> rt_mask r0 \<le> rt_mask r)"
proof (induction rs arbitrary: res)
  case Nil
  then show ?case by simp
next
  case (Cons x rs)
  define res' where "res' = (if route_better x res then Some x else res)"
  have ih: "(r \<in> set rs \<or> res' = Some r) \<and> (\<forall>r' \<in> set rs. rt_mask r' \<le> rt_mask r)
     \<and> (\<forall>r0. res' = Some r0 \<longrightarrow> rt_mask r0 \<le> rt_mask r)"
    using Cons.prems by (intro Cons.IH) (simp add: res'_def)
  show ?case
  proof (cases "route_better x res")
    case True
    with ih have "rt_mask x \<le> rt_mask r" by (simp add: res'_def)
    moreover have "rt_mask r0 \<le> rt_mask x" if "res = Some r0" for r0
      using True that by (auto simp: route_better_def)
    ultimately show ?thesis using ih True by (fastforce simp: res'_def)
  next
    case False
    then obtain r0 where r0: "res = Some r0" and le: "rt_mask x \<le> rt_mask r0"
      by (cases res) (auto simp: route_better_def not_less)
    with ih False show ?thesis by (fastforce simp: res'_def)
  qed
qed

lemma route_better_fold_None:
  "foldl (\<lambda>res r. if route_better r res then Some r else res) res rs = None \<longleftrightarrow> res = None \<and> rs = []"
proof (induction rs arbitrary: res)
  case (Cons x rs)
  then show ?case by (cases res) (simp_all add: route_better_def)
qed simp

lemmas lookup_eval = zero_route_def zero_addr_def match_if_addr_def clear_if_addr_def
  clear_m_bytes_def clear_m_clear_def is_inet6_def has_flag_def devaddr_flags route_better_def

lemma match_bits:
  assumes "length a = 16" "length b = 16" "plen \<le> 128"
  shows "match_if_addr a b plen \<longleftrightarrow> (\<forall>k < plen. addr_bit a k = addr_bit b k)"
proof -
  have la: "length (clear_if_addr a plen) = 16" "length (clear_if_addr b plen) = 16"
    using assms by simp_all
  have "match_if_addr a b plen \<longleftrightarrow>
      (\<forall>k < 8 * 16. addr_bit (clear_if_addr a plen) k = addr_bit (clear_if_addr b plen) k)"
    unfolding match_if_addr_def by (rule addr_eq_iff_bits [OF la])
  also have "\<dots> \<longleftrightarrow> (\<forall>k < 8 * 16. k < plen \<longrightarrow> addr_bit a k = addr_bit b k)"
    using assms by (simp add: addr_bit_clear cong: conj_cong) blast
  finally show ?thesis using assms(3) by auto
qed

section \<open>Properties\<close>

text \<open>Two addresses match under a prefix length exactly when their leading bits up to
  that length agree.\<close>

theorem match_if_addr_iff_leading_bits:
  assumes "length a = 16" "length b = 16" "plen \<le> 128"
  shows "match_if_addr a b plen \<longleftrightarrow> (\<forall>k < plen. addr_bit a k = addr_bit b k)"
  using assms by (rule match_bits)

theorem match_if_addr_iff_leading_bits_witness:
  "match_if_addr ([0xfd, 1, 0x80] @ replicate 13 0) ([0xfd, 1, 0xff] @ replicate 13 0) 17"
proof -
  have "\<forall>k < 17. addr_bit ([0xfd, 1, 0x80] @ replicate 13 0) k = addr_bit ([0xfd, 1, 0xff] @ replicate 13 0) k"
  proof (intro allI impI)
    fix k :: nat assume "k < 17"
    then have "k div 8 = 0 \<or> k div 8 = 1 \<or> k = 16" by linarith
    then show "addr_bit ([0xfd, 1, 0x80] @ replicate 13 0) k = addr_bit ([0xfd, 1, 0xff] @ replicate 13 0) k"
      by (auto simp: addr_bit_def)
  qed
  then show ?thesis
    using match_if_addr_iff_leading_bits
      [of "[0xfd, 1, 0x80] @ replicate 13 0" "[0xfd, 1, 0xff] @ replicate 13 0" 17] by simp
qed

text \<open>The route lookup of one interface finds a route exactly when some enabled route of
  the main table matches the target, and then returns such a route with the longest prefix of
  all of them.\<close>

theorem find_ip_route_target_longest_prefix:
  "(find_ip_route_target rs a v6 None = None \<longleftrightarrow> (\<forall>r \<in> set rs. \<not> route_candidate a v6 r)) \<and>
   (\<forall>r. find_ip_route_target rs a v6 None = Some r \<longrightarrow>
        r \<in> set rs \<and> route_candidate a v6 r \<and>
        (\<forall>r' \<in> set rs. route_candidate a v6 r' \<longrightarrow> rt_mask r' \<le> rt_mask r))"
proof (intro conjI allI impI)
  let ?cs = "filter (route_candidate a v6) rs"
  show "find_ip_route_target rs a v6 None = None \<longleftrightarrow> (\<forall>r \<in> set rs. \<not> route_candidate a v6 r)"
    by (simp add: find_ip_route_target_fold route_better_fold_None filter_empty_conv)
  fix r assume "find_ip_route_target rs a v6 None = Some r"
  then have "(r \<in> set ?cs \<or> None = Some r) \<and> (\<forall>r' \<in> set ?cs. rt_mask r' \<le> rt_mask r)"
    using route_better_fold [of None ?cs r] unfolding find_ip_route_target_fold by blast
  then show "r \<in> set rs" and "route_candidate a v6 r"
    and "\<forall>r' \<in> set rs. route_candidate a v6 r' \<longrightarrow> rt_mask r' \<le> rt_mask r"
    by simp_all
qed

theorem find_ip_route_target_longest_prefix_witness:
  "find_ip_route_target
     [zero_route\<lparr>rt_enabled := True, rt_mask := 8, rt_addr := 10 # replicate 15 0\<rparr>,
      zero_route\<lparr>rt_enabled := True, rt_mask := 16, rt_addr := 10 # 1 # replicate 14 0\<rparr>]
     ([10, 1, 2, 3] @ replicate 12 0) False None
   = Some (zero_route\<lparr>rt_enabled := True, rt_mask := 16, rt_addr := 10 # 1 # replicate 14 0\<rparr>)
   \<and> rt_mask (zero_route\<lparr>rt_mask := 8\<rparr>) \<le> rt_mask (zero_route\<lparr>rt_mask := 16\<rparr>)"
  (is "find_ip_route_target [?r1, ?r2] ?a False None = _ \<and> _")
proof -
  have e: "find_ip_route_target [?r1, ?r2] ?a False None = Some ?r2"
    by (simp add: lookup_eval)
  have "route_candidate ?a False ?r1" by (simp add: route_candidate_def lookup_eval)
  with e find_ip_route_target_longest_prefix [of "[?r1, ?r2]" ?a False]
  have "rt_mask ?r1 \<le> rt_mask ?r2" by auto
  with e show ?thesis by simp
qed

text \<open>Two routes collide in a route tree (\<open>route_cmp\<close> gives 0) exactly when prefix
  length, metric, flags, source prefix length, table, source and target address are equal.\<close>

theorem route_cmp_zero_iff_same_key:
  assumes "length (rt_addr r1) = length (rt_addr r2)"
    and "length (rt_source r1) = length (rt_source r2)"
  shows "route_cmp r1 r2 = 0 \<longleftrightarrow> route_key r1 = route_key r2"
  using assms by (auto simp: route_cmp_def route_key_def c_int_eq_0 memcmp_eq_0 Let_def)

theorem route_cmp_zero_iff_same_key_witness:
  "route_cmp (zero_route\<lparr>rt_metric := 10, rt_mtu := 1500\<rparr>) (zero_route\<lparr>rt_metric := 10, rt_mtu := 1280\<rparr>) = 0"
  using route_cmp_zero_iff_same_key
    [of "zero_route\<lparr>rt_metric := 10, rt_mtu := 1500\<rparr>" "zero_route\<lparr>rt_metric := 10, rt_mtu := 1280\<rparr>"]
  by (simp add: route_key_def)

end
