(* ===== verification/PrefixAssign.thy ===== *)
theory PrefixAssign
  imports IfAddr
begin

text \<open>
  How a delegated IPv6 prefix is split among interfaces: \<open>interface_prefix_assign\<close> (first
  fit in an ordered list of assignments that ends with a sentinel), the order in which
  interfaces are served, and the two passes of \<open>interface_update_prefix_assignments\<close> in
  \<open>src/interface-ip.c\<close> that place requested subprefixes first and all others, with growing
  prefix length, afterwards.

  Positions are numbers of /64 networks inside the prefix. \<open>1 << n\<close> is a 32-bit signed
  shift: it has its mathematical value up to \<open>n = 30\<close>, so the theorems are about prefixes
  of length 34 and more. Memory allocation is taken to succeed.
\<close>

unbundle bit_operations_syntax

definition shl1 :: "nat \<Rightarrow> int" where
  "shl1 n = c_int (push_bit n 1)"

text \<open>The search loop over the list, with the running position \<open>cur\<close>.\<close>

fun prefix_assign_loop ::
  "int \<Rightarrow> int \<Rightarrow> device_prefix_assignment list \<Rightarrow> device_prefix_assignment \<Rightarrow>
   (device_prefix_assignment list \<times> device_prefix_assignment) option" where
  "prefix_assign_loop cur asize [] assign = None"
| "prefix_assign_loop cur asize (c # cs) assign =
     (let next = map_option (\<lambda>(l, a). (c # l, a))
                   (prefix_assign_loop (pa_assigned c + shl1 (64 - pa_length c)) asize cs assign)
      in if pa_assigned assign \<noteq> -1 then
           (if pa_assigned assign \<ge> cur \<and> pa_assigned assign + asize < pa_assigned c
            then Some (assign # c # cs, assign)
            else next)
         else
           (let cur' = (cur + asize) AND NOT asize
            in if cur' + asize < pa_assigned c
               then (let a = assign\<lparr>pa_assigned := cur'\<rparr> in Some (a # c # cs, a))
               else next))"

definition interface_prefix_assign ::
  "device_prefix_assignment list \<Rightarrow> device_prefix_assignment \<Rightarrow>
   (device_prefix_assignment list \<times> device_prefix_assignment) option" where
  "interface_prefix_assign list assign =
     prefix_assign_loop 0 (shl1 (64 - pa_length assign) - 1) list assign"

fun strcmp :: "string \<Rightarrow> string \<Rightarrow> int" where
  "strcmp [] [] = 0"
| "strcmp [] (y # ys) = -1"
| "strcmp (x # xs) [] = 1"
| "strcmp (x # xs) (y # ys) =
     (if x = y then strcmp xs ys else if char_code x < char_code y then -1 else 1)"

definition prefix_assignment_cmp ::
  "device_prefix_assignment \<Rightarrow> device_prefix_assignment \<Rightarrow> int" where
  "prefix_assignment_cmp a1 a2 =
     (if pa_length a1 \<noteq> pa_length a2 then int (pa_length a1) - int (pa_length a2)
      else if pa_weight a1 \<noteq> pa_weight a2 then pa_weight a2 - pa_weight a1
      else strcmp (pa_name a1) (pa_name a2))"

text \<open>
  An AVL tree without duplicates is the list of its keys in the order of the comparison
  function; inserting a key that is already there changes nothing.
\<close>

fun avl_insert :: "('a \<Rightarrow> 'a \<Rightarrow> int) \<Rightarrow> 'a \<Rightarrow> 'a list \<Rightarrow> 'a list" where
  "avl_insert cmp x [] = [x]"
| "avl_insert cmp x (y # ys) =
     (if cmp x y < 0 then x # y # ys
      else if cmp x y = 0 then y # ys
      else y # avl_insert cmp x ys)"

section \<open>The two passes of interface_update_prefix_assignments\<close>

definition s6_addr32 :: "if_addr \<Rightarrow> nat \<Rightarrow> u32" where
  "s6_addr32 a i = in_s_addr (drop (4 * i) a)"

definition prefix_sentinel :: "device_prefix \<Rightarrow> device_prefix_assignment" where
  "prefix_sentinel prefix =
     \<lparr>pa_assigned = shl1 (64 - pf_length prefix), pa_length = 64, pa_weight = 0,
      pa_addr = zero_addr, pa_enabled = False, pa_name = []\<rparr>"

definition prefix_excluded :: "device_prefix \<Rightarrow> device_prefix_assignment" where
  "prefix_excluded prefix =
     \<lparr>pa_assigned = c_int (s6_addr32 (pf_excl_addr prefix) 1
                           AND to_u32 (shl1 (64 - pf_length prefix) - 1)),
      pa_length = pf_excl_length prefix, pa_weight = 0,
      pa_addr = zero_addr, pa_enabled = False, pa_name = ''!excluded''\<rparr>"

definition initial_assignments :: "device_prefix \<Rightarrow> device_prefix_assignment list" where
  "initial_assignments prefix =
     (if pf_excl_length prefix > 0 then [prefix_excluded prefix, prefix_sentinel prefix]
      else [prefix_sentinel prefix])"

definition wants_subprefix :: "device_prefix \<Rightarrow> interface \<Rightarrow> bool" where
  "wants_subprefix prefix iface \<longleftrightarrow>
     \<not> (if_assignment_length iface < 48 \<or> if_assignment_length iface > 64) \<and>
     (if_assignment_classes iface \<noteq> [] \<longrightarrow> pf_pclass prefix \<in> set (if_assignment_classes iface))"

definition new_assignment :: "interface \<Rightarrow> device_prefix_assignment" where
  "new_assignment iface =
     \<lparr>pa_assigned = if_assignment_hint iface, pa_length = if_assignment_length iface,
      pa_weight = if_assignment_weight iface, pa_addr = zero_addr, pa_enabled = False,
      pa_name = if_name iface\<rparr>"

type_synonym assign_state =
  "device_prefix_assignment list \<times> device_prefix_assignment list \<times> bool"

fun custom_pass :: "device_prefix \<Rightarrow> interface list \<Rightarrow> assign_state \<Rightarrow> assign_state" where
  "custom_pass prefix [] st = st"
| "custom_pass prefix (iface # rest) (as, later, assigned_any) =
     (if \<not> wants_subprefix prefix iface then custom_pass prefix rest (as, later, assigned_any)
      else
        let c = new_assignment iface
        in case (if pa_assigned c = -1 then None else interface_prefix_assign as c) of
             Some (as', c') \<Rightarrow>
               custom_pass prefix rest (as', later, assigned_any \<or> pa_assigned c' \<noteq> -1)
           | None \<Rightarrow>
               custom_pass prefix rest
                 (as, avl_insert prefix_assignment_cmp (c\<lparr>pa_assigned := -1\<rparr>) later, assigned_any))"

text \<open>The inner \<open>do ... while (!assigned && ++c->length <= 64)\<close>.\<close>

function assign_retry ::
  "device_prefix_assignment list \<Rightarrow> device_prefix_assignment \<Rightarrow>
   (device_prefix_assignment list \<times> device_prefix_assignment) option" where
  "assign_retry as c =
     (case interface_prefix_assign as c of
        Some r \<Rightarrow> Some r
      | None \<Rightarrow> if Suc (pa_length c) \<le> 64 then assign_retry as (c\<lparr>pa_length := Suc (pa_length c)\<rparr>)
                else None)"
  by pat_completeness auto
termination
  by (relation "measure (\<lambda>(as, c). 64 - pa_length c)") auto

declare assign_retry.simps [simp del]

fun later_pass ::
  "device_prefix_assignment list \<Rightarrow> device_prefix_assignment list \<Rightarrow> bool \<Rightarrow>
   device_prefix_assignment list \<times> bool" where
  "later_pass [] as assigned_any = (as, assigned_any)"
| "later_pass (c # cs) as assigned_any =
     (case assign_retry as c of
        None \<Rightarrow> later_pass cs as assigned_any
      | Some (as', c') \<Rightarrow> later_pass cs as' True)"

definition assign_subprefixes ::
  "device_prefix \<Rightarrow> interface list \<Rightarrow> device_prefix_assignment list \<times> bool" where
  "assign_subprefixes prefix ifaces =
     (let (as, later, assigned_any) = custom_pass prefix ifaces (initial_assignments prefix, [], False)
      in later_pass later as assigned_any)"

section \<open>The layout of a prefix\<close>

text \<open>The first position behind an assignment.\<close>

definition pa_end :: "device_prefix_assignment \<Rightarrow> int" where
  "pa_end c = pa_assigned c + 2 ^ (64 - pa_length c)"

text \<open>Ordered, disjoint blocks from position \<open>cur\<close> on, each of a representable size.\<close>

fun layout_ok :: "int \<Rightarrow> device_prefix_assignment list \<Rightarrow> bool" where
  "layout_ok cur [] = True"
| "layout_ok cur (c # cs) =
     (cur \<le> pa_assigned c \<and> 34 \<le> pa_length c \<and> pa_length c \<le> 64 \<and> layout_ok (pa_end c) cs)"

lemma shl1_pow:
  assumes "n \<le> 30"
  shows "shl1 n = 2 ^ n"
proof -
  have lt: "(2::nat) ^ n < 2 ^ 31" using assms by (intro power_strict_increasing) auto
  have "unat (push_bit n 1 :: u32) = 2 ^ n mod 2 ^ 32"
    by (simp only: unat_push_bit) simp
  then have u: "unat (push_bit n 1 :: u32) = 2 ^ n" using lt by simp
  have "uint (push_bit n 1 :: u32) = int (unat (push_bit n 1 :: u32))"
    by (simp only: uint_nat)
  then have "uint (push_bit n 1 :: u32) = 2 ^ n" by (simp only: u) simp
  moreover have "signed_take_bit 31 ((2::int) ^ n) = 2 ^ n"
  proof (rule signed_take_bit_int_eq_self)
    show "(2::int) ^ n < 2 ^ 31" using assms by (intro power_strict_increasing) auto
    show "- (2 ^ 31) \<le> (2::int) ^ n" by (rule order_trans [of _ 0]) simp_all
  qed
  ultimately show ?thesis
    unfolding shl1_def c_int_def sint_uint by simp
qed

lemma and_not_mask_round:
  fixes cur :: int and k :: nat
  shows "(cur + (2 ^ k - 1)) AND NOT (2 ^ k - 1) = (cur + (2 ^ k - 1)) div 2 ^ k * 2 ^ k"
proof -
  have "(cur + (2 ^ k - 1)) AND NOT (mask k) = push_bit k (drop_bit k (cur + (2 ^ k - 1)))"
    by (rule bit_eqI) (auto simp: bit_simps)
  then show ?thesis
    by (simp add: mask_eq_exp_minus_1 push_bit_eq_mult drop_bit_eq_div)
qed

text \<open>Rounding up: the least multiple of the block size that is not below \<open>cur\<close>.\<close>

lemma round_up_props:
  fixes cur :: int and k :: nat
  defines "r \<equiv> (cur + (2 ^ k - 1)) div 2 ^ k * 2 ^ k"
  shows "cur \<le> r" and "2 ^ k dvd r" and "2 ^ k dvd v \<Longrightarrow> cur \<le> v \<Longrightarrow> r \<le> v"
proof -
  define d where "d = (2::int) ^ k"
  have d: "0 < d" by (simp add: d_def)
  have e: "r = (cur + (d - 1)) - (cur + (d - 1)) mod d"
    unfolding r_def d_def by (simp add: minus_mod_eq_div_mult)
  show "cur \<le> r" unfolding e using pos_mod_bound [OF d, of "cur + (d - 1)"] by linarith
  show "2 ^ k dvd r" by (simp add: r_def)
  assume v: "2 ^ k dvd v" "cur \<le> v"
  then obtain q where q: "v = d * q" by (auto simp: d_def dvd_def)
  have "(cur + (d - 1)) div d \<le> (v + (d - 1)) div d" using v d by (intro zdiv_mono1) auto
  also have "\<dots> = q" using d by (simp add: q div_add1_eq)
  finally have "(cur + (d - 1)) div d * d \<le> q * d" using d by (simp add: mult_right_mono)
  then show "r \<le> v" by (simp add: r_def q d_def mult.commute)
qed


section \<open>Lemmas: one assignment\<close>

text \<open>Where the loop tries to place a block of size \<open>2 ^ k\<close> from position \<open>cur\<close> on.\<close>

definition fit_pos :: "int \<Rightarrow> nat \<Rightarrow> device_prefix_assignment \<Rightarrow> int" where
  "fit_pos cur k assign = (if pa_assigned assign \<noteq> -1 then pa_assigned assign
                           else (cur + (2 ^ k - 1)) div 2 ^ k * 2 ^ k)"

lemma prefix_assign_loop_Cons:
  assumes "34 \<le> pa_length c"
  shows "prefix_assign_loop cur (2 ^ k - 1) (c # cs) assign =
    (if cur \<le> fit_pos cur k assign \<and> fit_pos cur k assign + 2 ^ k \<le> pa_assigned c
     then Some (assign\<lparr>pa_assigned := fit_pos cur k assign\<rparr> # c # cs,
                assign\<lparr>pa_assigned := fit_pos cur k assign\<rparr>)
     else map_option (\<lambda>(l, a). (c # l, a)) (prefix_assign_loop (pa_end c) (2 ^ k - 1) cs assign))"
proof -
  have e: "pa_assigned c + shl1 (64 - pa_length c) = pa_end c"
    using assms by (simp add: pa_end_def shl1_pow)
  have lt: "x + (2 ^ k - 1) < pa_assigned c \<longleftrightarrow> x + 2 ^ k \<le> pa_assigned c" for x by linarith
  have same: "assign\<lparr>pa_assigned := pa_assigned assign\<rparr> = assign" by simp
  note r = round_up_props(1) [of cur k]
  show ?thesis
    by (cases "pa_assigned assign = -1")
       (simp_all only: prefix_assign_loop.simps Let_def e and_not_mask_round fit_pos_def lt same r
          simp_thms if_True if_False)
qed

text \<open>
  What a successful search means: the new block is inserted somewhere in front of the last
  entry, the list stays ordered and disjoint, and a block without a request is aligned.
\<close>

lemma prefix_assign_loop_Some:
  assumes "prefix_assign_loop cur (2 ^ k - 1) l assign = Some (l', a)" "layout_ok cur l"
    and "k = 64 - pa_length assign" "34 \<le> pa_length assign" "pa_length assign \<le> 64"
  shows "\<exists>xs ys. l = xs @ ys \<and> ys \<noteq> [] \<and> l' = xs @ a # ys
           \<and> layout_ok cur l' \<and> cur \<le> pa_assigned a
           \<and> a = assign\<lparr>pa_assigned := pa_assigned a\<rparr>
           \<and> (if pa_assigned assign = -1 then 2 ^ k dvd pa_assigned a
              else pa_assigned a = pa_assigned assign)"
  using assms(1,2)
proof (induction l arbitrary: cur l')
  case Nil
  then show ?case by simp
next
  case (Cons c cs)
  from Cons.prems(2) have c: "cur \<le> pa_assigned c" "34 \<le> pa_length c" "pa_length c \<le> 64"
    and rest: "layout_ok (pa_end c) cs" by auto
  define pos where "pos = fit_pos cur k assign"
  have step: "(if cur \<le> pos \<and> pos + 2 ^ k \<le> pa_assigned c
                then Some (assign\<lparr>pa_assigned := pos\<rparr> # c # cs, assign\<lparr>pa_assigned := pos\<rparr>)
                else map_option (\<lambda>(l, a). (c # l, a)) (prefix_assign_loop (pa_end c) (2 ^ k - 1) cs assign))
              = Some (l', a)"
    using Cons.prems(1) c by (simp only: prefix_assign_loop_Cons pos_def)
  show ?case
  proof (cases "cur \<le> pos \<and> pos + 2 ^ k \<le> pa_assigned c")
    case True
    then have a: "a = assign\<lparr>pa_assigned := pos\<rparr>" "l' = a # c # cs" using step by auto
    have "pa_end a = pos + 2 ^ k" by (simp add: a pa_end_def assms(3))
    then have "layout_ok cur l'" using True a c rest assms(4,5) by simp
    moreover have "pa_assigned assign = -1 \<Longrightarrow> 2 ^ k dvd pos" by (simp add: pos_def fit_pos_def)
    ultimately show ?thesis
      using True a by (intro exI [of _ "[]"] exI [of _ "c # cs"]) (auto simp: pos_def fit_pos_def)
  next
    case False
    with step obtain l'' where l'': "prefix_assign_loop (pa_end c) (2 ^ k - 1) cs assign = Some (l'', a)"
      "l' = c # l''"
      by (auto split: prod.splits)
    from Cons.IH [OF l''(1) rest] obtain xs ys where
      ih: "cs = xs @ ys" "ys \<noteq> []" "l'' = xs @ a # ys" "layout_ok (pa_end c) l''"
        "pa_end c \<le> pa_assigned a" "a = assign\<lparr>pa_assigned := pa_assigned a\<rparr>"
        "if pa_assigned assign = -1 then 2 ^ k dvd pa_assigned a
         else pa_assigned a = pa_assigned assign"
      by blast
    have "cur \<le> pa_assigned a"
      using c(1) ih(5) zero_le_power [of "2::int" "64 - pa_length c"]
      unfolding pa_end_def by linarith
    then show ?thesis
      using ih c l''(2) by (intro exI [of _ "c # xs"] exI [of _ ys]) simp
  qed
qed

text \<open>A position is free for a block of size \<open>2 ^ k\<close> in front of the last entry of \<open>l\<close>.\<close>

fun slot_free :: "int \<Rightarrow> int \<Rightarrow> device_prefix_assignment list \<Rightarrow> bool" where
  "slot_free v n [] = False"
| "slot_free v n (c # cs) = (v + n \<le> pa_assigned c \<or> (pa_end c \<le> v \<and> slot_free v n cs))"

lemma prefix_assign_loop_None:
  assumes "prefix_assign_loop cur (2 ^ k - 1) l assign = None" "layout_ok cur l"
    and "cur \<le> v" "if pa_assigned assign = -1 then 2 ^ k dvd v else v = pa_assigned assign"
  shows "\<not> slot_free v (2 ^ k) l"
  using assms(1-3)
proof (induction l arbitrary: cur)
  case Nil
  then show ?case by simp
next
  case (Cons c cs)
  from Cons.prems(2) have c: "34 \<le> pa_length c" "pa_length c \<le> 64" "cur \<le> pa_assigned c"
    and rest: "layout_ok (pa_end c) cs" by auto
  define pos where "pos = fit_pos cur k assign"
  from Cons.prems(1) c have nofit: "\<not> (cur \<le> pos \<and> pos + 2 ^ k \<le> pa_assigned c)"
    and nxt: "prefix_assign_loop (pa_end c) (2 ^ k - 1) cs assign = None"
    by (simp_all only: prefix_assign_loop_Cons pos_def option.distinct option.map_disc_iff
        simp_thms split: if_splits)
  have "cur \<le> pos" "pos \<le> v"
    using assms(4) Cons.prems(3) round_up_props(1,3) [where cur = cur and k = k] by (auto simp: pos_def fit_pos_def split: if_splits)
  with nofit have "\<not> v + 2 ^ k \<le> pa_assigned c" by linarith
  moreover have "\<not> slot_free v (2 ^ k) cs" if "pa_end c \<le> v"
    using Cons.IH [OF nxt rest that] .
  ultimately show ?case by auto
qed


lemma interface_prefix_assign_loop:
  "34 \<le> pa_length a \<Longrightarrow>
   interface_prefix_assign l a = prefix_assign_loop 0 (2 ^ (64 - pa_length a) - 1) l a"
  by (simp add: interface_prefix_assign_def shl1_pow)

lemma interface_prefix_assign_Some:
  assumes "interface_prefix_assign l assign = Some (l', a)" "layout_ok 0 l"
    and "34 \<le> pa_length assign" "pa_length assign \<le> 64"
  shows "\<exists>xs ys. l = xs @ ys \<and> ys \<noteq> [] \<and> l' = xs @ a # ys
           \<and> layout_ok 0 l' \<and> 0 \<le> pa_assigned a
           \<and> a = assign\<lparr>pa_assigned := pa_assigned a\<rparr>
           \<and> (if pa_assigned assign = -1 then 2 ^ (64 - pa_length assign) dvd pa_assigned a
              else pa_assigned a = pa_assigned assign)"
  using assms by (intro prefix_assign_loop_Some [OF _ _ refl]) (simp_all add: interface_prefix_assign_loop)

section \<open>Lemmas: whole layouts\<close>

lemma layout_ok_ge: "layout_ok cur l \<Longrightarrow> c \<in> set l \<Longrightarrow> cur \<le> pa_assigned c"
proof (induction cur l rule: layout_ok.induct)
  case (2 cur c' cs)
  have "pa_assigned c' \<le> pa_end c'" by (simp add: pa_end_def)
  with 2 show ?case by fastforce
qed simp

lemma layout_ok_sorted: "layout_ok cur l \<Longrightarrow> sorted_wrt (\<lambda>a b. pa_end a \<le> pa_assigned b) l"
  by (induction cur l rule: layout_ok.induct) (auto dest: layout_ok_ge)

lemma layout_ok_lengths: "layout_ok cur l \<Longrightarrow> c \<in> set l \<Longrightarrow> 34 \<le> pa_length c \<and> pa_length c \<le> 64"
  by (induction cur l rule: layout_ok.induct) auto

text \<open>
  The invariant of the two passes over a prefix: an ordered disjoint layout that still
  begins with the reserved entries' blocks and ends with the sentinel, in which every other
  entry belongs to an interface that wants a part of the prefix, is no larger than asked and has no
  address yet.
\<close>

definition assigned_to :: "device_prefix \<Rightarrow> interface list \<Rightarrow> device_prefix_assignment \<Rightarrow> bool" where
  "assigned_to prefix ifaces c \<longleftrightarrow>
     (\<exists>iface \<in> set ifaces. wants_subprefix prefix iface \<and> pa_name c = if_name iface
        \<and> if_assignment_length iface \<le> pa_length c \<and> pa_length c \<le> 64)
     \<and> pa_addr c = zero_addr \<and> \<not> pa_enabled c"

definition layout_inv :: "device_prefix \<Rightarrow> interface list \<Rightarrow> device_prefix_assignment list \<Rightarrow> bool" where
  "layout_inv prefix ifaces as \<longleftrightarrow>
     layout_ok 0 as \<and> as \<noteq> [] \<and> last as = prefix_sentinel prefix
     \<and> set (initial_assignments prefix) \<subseteq> set as
     \<and> (\<forall>c \<in> set as. c \<in> set (initial_assignments prefix) \<or> assigned_to prefix ifaces c)"

lemma layout_inv_assign:
  assumes inv: "layout_inv prefix ifaces as" and some: "interface_prefix_assign as c = Some (as', c')"
    and to: "assigned_to prefix ifaces c" and len: "34 \<le> pa_length c"
  shows "layout_inv prefix ifaces as'"
proof -
  have l64: "pa_length c \<le> 64" using to by (auto simp: assigned_to_def)
  from inv have lo: "layout_ok 0 as" by (simp add: layout_inv_def)
  from interface_prefix_assign_Some [OF some lo len l64]
  obtain xs ys where xy: "as = xs @ ys" "ys \<noteq> []" "as' = xs @ c' # ys" "layout_ok 0 as'"
    and c': "c' = c\<lparr>pa_assigned := pa_assigned c'\<rparr>"
    by auto
  have "pa_name c' = pa_name c" "pa_length c' = pa_length c" "pa_addr c' = pa_addr c" "pa_enabled c' = pa_enabled c"
    by (subst c'; simp)+
  then have "assigned_to prefix ifaces c'" using to by (simp add: assigned_to_def)
  then show ?thesis using inv xy by (auto simp: layout_inv_def)
qed

lemma layout_inv_retry:
  assumes "layout_inv prefix ifaces as" "assign_retry as c = Some (as', c')"
    and "assigned_to prefix ifaces c" "34 \<le> pa_length c"
  shows "layout_inv prefix ifaces as'"
  using assms
proof (induction as c rule: assign_retry.induct)
  case (1 as c)
  show ?case
  proof (cases "interface_prefix_assign as c")
    case None
    let ?c = "c\<lparr>pa_length := Suc (pa_length c)\<rparr>"
    from None "1.prems"(2) have s: "Suc (pa_length c) \<le> 64" "assign_retry as ?c = Some (as', c')"
      by (auto simp: assign_retry.simps [of as c] split: if_splits)
    have "assigned_to prefix ifaces ?c" using "1.prems"(3) s(1) by (auto simp: assigned_to_def)
    then show ?thesis using "1.IH" [OF None s(1) "1.prems"(1) s(2)] "1.prems"(4) by simp
  next
    case (Some r)
    then have "interface_prefix_assign as c = Some (as', c')"
      using "1.prems"(2) by (simp add: assign_retry.simps [of as c])
    then show ?thesis by (rule layout_inv_assign [OF "1.prems"(1) _ "1.prems"(3,4)])
  qed
qed

lemma set_avl_insert: "set (avl_insert cmp x ys) \<subseteq> insert x (set ys)"
  by (induction ys) auto

definition later_ok :: "device_prefix \<Rightarrow> interface list \<Rightarrow> device_prefix_assignment list \<Rightarrow> bool" where
  "later_ok prefix ifaces later \<longleftrightarrow>
     (\<forall>c \<in> set later. assigned_to prefix ifaces c \<and> 34 \<le> pa_length c \<and> pa_assigned c = -1)"

lemma wants_new_assignment:
  assumes "iface \<in> set ifaces" "wants_subprefix prefix iface"
  shows "assigned_to prefix ifaces (new_assignment iface\<lparr>pa_assigned := v\<rparr>)"
    and "34 \<le> pa_length (new_assignment iface)"
proof -
  have l: "48 \<le> if_assignment_length iface" "if_assignment_length iface \<le> 64"
    using assms(2) by (simp_all add: wants_subprefix_def)
  then show "34 \<le> pa_length (new_assignment iface)" by (simp add: new_assignment_def)
  show "assigned_to prefix ifaces (new_assignment iface\<lparr>pa_assigned := v\<rparr>)"
    unfolding assigned_to_def using assms l by (intro conjI bexI [of _ iface]) (simp_all add: new_assignment_def)
qed

lemma custom_pass_inv:
  assumes "set rest \<subseteq> set ifaces" "layout_inv prefix ifaces as" "later_ok prefix ifaces later"
    and "custom_pass prefix rest (as, later, any) = (as', later', any')"
  shows "layout_inv prefix ifaces as' \<and> later_ok prefix ifaces later'"
  using assms
proof (induction rest arbitrary: as later any)
  case Nil
  then show ?case by simp
next
  case (Cons iface rest)
  show ?case
  proof (cases "wants_subprefix prefix iface")
    case False
    with Cons show ?thesis by simp
  next
    case True
    let ?c = "new_assignment iface"
    have to: "assigned_to prefix ifaces (?c\<lparr>pa_assigned := v\<rparr>)" "34 \<le> pa_length ?c" for v
      using wants_new_assignment [of iface ifaces prefix] True Cons.prems(1) by auto
    have to0: "assigned_to prefix ifaces ?c" using to(1) [of "pa_assigned ?c"] by simp
    show ?thesis
    proof (cases "if pa_assigned ?c = -1 then None else interface_prefix_assign as ?c")
      case None
      let ?l = "avl_insert prefix_assignment_cmp (?c\<lparr>pa_assigned := -1\<rparr>) later"
      have "later_ok prefix ifaces ?l"
        using set_avl_insert [of prefix_assignment_cmp "?c\<lparr>pa_assigned := -1\<rparr>" later]
          Cons.prems(3) to by (auto simp: later_ok_def)
      with None True Cons.prems show ?thesis
        by (intro Cons.IH [of as ?l any]) (simp_all add: Let_def)
    next
      case (Some r)
      then obtain as1 c1 where r: "r = (as1, c1)" and s: "interface_prefix_assign as ?c = Some (as1, c1)"
        by (cases r) (auto split: if_splits)
      have "layout_inv prefix ifaces as1"
        using layout_inv_assign [OF Cons.prems(2) s to0 to(2)] .
      with Some r True Cons.prems show ?thesis
        by (intro Cons.IH [of as1 later "any \<or> pa_assigned c1 \<noteq> -1"]) (simp_all add: Let_def)
    qed
  qed
qed

lemma later_pass_inv:
  assumes "layout_inv prefix ifaces as" "later_ok prefix ifaces later"
  shows "layout_inv prefix ifaces (fst (later_pass later as any))"
  using assms
proof (induction later as any rule: later_pass.induct)
  case (2 c cs as any)
  then show ?case
    by (cases "assign_retry as c") (auto simp: later_ok_def dest: layout_inv_retry)
qed simp

text \<open>
  A prefix whose arithmetic stays within 32 bits and whose excluded part, if any, lies
  inside of it.
\<close>

definition prefix_ok :: "device_prefix \<Rightarrow> bool" where
  "prefix_ok prefix \<longleftrightarrow> 34 \<le> pf_length prefix \<and> pf_length prefix \<le> 64 \<and>
     (pf_excl_length prefix > 0 \<longrightarrow>
        34 \<le> pf_excl_length prefix \<and> pf_excl_length prefix \<le> 64 \<and>
        pa_assigned (prefix_excluded prefix) \<ge> 0 \<and>
        pa_end (prefix_excluded prefix) \<le> 2 ^ (64 - pf_length prefix))"

lemma initial_layout_inv: "prefix_ok prefix \<Longrightarrow> layout_inv prefix ifaces (initial_assignments prefix)"
  by (auto simp: layout_inv_def initial_assignments_def prefix_ok_def prefix_sentinel_def shl1_pow
      prefix_excluded_def)

lemma assign_subprefixes_inv:
  assumes "prefix_ok prefix"
  shows "layout_inv prefix ifaces (fst (assign_subprefixes prefix ifaces))"
proof -
  obtain as later any where cp: "custom_pass prefix ifaces (initial_assignments prefix, [], False) = (as, later, any)"
    by (metis prod_cases3)
  have "layout_inv prefix ifaces as \<and> later_ok prefix ifaces later"
    using initial_layout_inv [OF assms] by (intro custom_pass_inv [OF _ _ _ cp]) (auto simp: later_ok_def)
  then show ?thesis by (simp add: assign_subprefixes_def cp later_pass_inv)
qed


section \<open>Lemmas: completeness of the search\<close>

lemma slot_free_inserted:
  "layout_ok cur (xs @ a # ys) \<Longrightarrow> ys \<noteq> [] \<Longrightarrow> slot_free (pa_assigned a) (2 ^ (64 - pa_length a)) (xs @ ys)"
proof (induction xs arbitrary: cur)
  case Nil
  then show ?case by (cases ys) (auto simp: pa_end_def)
next
  case (Cons x xs)
  then have "pa_end x \<le> pa_assigned a" using layout_ok_ge [of "pa_end x" "xs @ a # ys" a] by simp
  with Cons show ?case by auto
qed

lemma prefix_assign_loop_least:
  assumes "prefix_assign_loop cur (2 ^ k - 1) l assign = Some (l', a)" "layout_ok cur l"
    and "pa_assigned assign = -1" "cur \<le> v" "2 ^ k dvd v" "slot_free v (2 ^ k) l"
  shows "pa_assigned a \<le> v"
  using assms(1,2,4,6)
proof (induction l arbitrary: cur l')
  case (Cons c cs)
  from Cons.prems(2) have c: "34 \<le> pa_length c" and rest: "layout_ok (pa_end c) cs" by auto
  have pos: "cur \<le> fit_pos cur k assign" "fit_pos cur k assign \<le> v"
    using round_up_props(1,3) [where cur = cur and k = k] assms(3,5) Cons.prems(3)
    by (auto simp: fit_pos_def)
  show ?case
  proof (cases "fit_pos cur k assign + 2 ^ k \<le> pa_assigned c")
    case True
    with Cons.prems(1) pos have "a = assign\<lparr>pa_assigned := fit_pos cur k assign\<rparr>"
      unfolding prefix_assign_loop_Cons [OF c] by auto
    with pos show ?thesis by simp
  next
    case False
    with Cons.prems(1) obtain l'' where "prefix_assign_loop (pa_end c) (2 ^ k - 1) cs assign = Some (l'', a)"
      unfolding prefix_assign_loop_Cons [OF c] by (auto split: prod.splits)
    moreover have "pa_end c \<le> v" "slot_free v (2 ^ k) cs" using False pos Cons.prems(4) by auto
    ultimately show ?thesis using Cons.IH rest by blast
  qed
qed simp

lemma assign_retry_None:
  assumes "assign_retry as c = None" "layout_ok 0 as" "pa_assigned c = -1"
    and "34 \<le> pa_length c" "pa_length c \<le> 64" "0 \<le> v"
  shows "\<not> slot_free v 1 as"
  using assms(1-5)
proof (induction as c rule: assign_retry.induct)
  case (1 as c)
  let ?c = "c\<lparr>pa_length := Suc (pa_length c)\<rparr>"
  have None: "interface_prefix_assign as c = None"
    using "1.prems"(1) by (auto simp: assign_retry.simps [of as c] split: option.splits)
  show ?case
  proof (cases "pa_length c = 64")
    case True
    with None "1.prems" show ?thesis
      using prefix_assign_loop_None [of 0 0 as c v] assms(6)
      by (simp add: interface_prefix_assign_loop)
  next
    case False
    then have s: "Suc (pa_length c) \<le> 64" using "1.prems"(5) by simp
    then have "assign_retry as ?c = None"
      using "1.prems"(1) None by (simp add: assign_retry.simps [of as c])
    then show ?thesis using "1.IH" [OF None s] "1.prems" s by simp
  qed
qed

section \<open>Lemmas: the order of service\<close>

lemma strcmp_sym: "strcmp ys xs = - strcmp xs ys"
proof (induction xs ys rule: strcmp.induct)
  case (4 x xs y ys)
  have "char_code x = char_code y \<longleftrightarrow> x = y" by (simp add: char_code_def)
  with 4 show ?case by (cases "x = y") auto
qed simp_all

lemma strcmp_trans: "strcmp xs ys < 0 \<Longrightarrow> strcmp ys zs < 0 \<Longrightarrow> strcmp xs zs < 0"
proof (induction xs ys arbitrary: zs rule: strcmp.induct)
  case (2 y ys)
  then show ?case by (cases zs) auto
next
  case (4 x xs y ys)
  then show ?case by (cases zs) (auto split: if_splits)
qed simp_all

lemma prefix_assignment_cmp_trans:
  "prefix_assignment_cmp a b < 0 \<Longrightarrow> prefix_assignment_cmp b c < 0 \<Longrightarrow> prefix_assignment_cmp a c < 0"
  by (auto simp: prefix_assignment_cmp_def split: if_splits intro: strcmp_trans)

lemma prefix_assignment_cmp_sym: "prefix_assignment_cmp b a = - prefix_assignment_cmp a b"
  using strcmp_sym [of "pa_name b" "pa_name a"] by (auto simp: prefix_assignment_cmp_def)

lemma avl_insert_sorted:
  assumes trans: "\<And>a b c. cmp a b < 0 \<Longrightarrow> cmp b c < 0 \<Longrightarrow> cmp a c < (0::int)"
    and sym: "\<And>a b. cmp b a = - cmp a b"
  shows "sorted_wrt (\<lambda>a b. cmp a b < 0) ys \<Longrightarrow> sorted_wrt (\<lambda>a b. cmp a b < 0) (avl_insert cmp x ys)"
proof (induction ys)
  case (Cons y ys)
  show ?case
  proof (cases "cmp x y < 0")
    case True
    with Cons.prems show ?thesis by (auto intro: trans)
  next
    case False
    have "cmp y x < 0" if "cmp x y \<noteq> 0" using False that sym [of x y] by linarith
    then show ?thesis
      using False Cons set_avl_insert [of cmp x ys] by (auto dest!: subsetD)
  qed
qed simp

lemma custom_pass_later_sorted:
  "sorted_wrt (\<lambda>a b. prefix_assignment_cmp a b < 0) later \<Longrightarrow>
   custom_pass prefix ifaces (as, later, any) = (as', later', any') \<Longrightarrow>
   sorted_wrt (\<lambda>a b. prefix_assignment_cmp a b < 0) later'"
proof (induction ifaces arbitrary: as later any)
  case (Cons iface ifaces)
  have "sorted_wrt (\<lambda>a b. prefix_assignment_cmp a b < 0)
          (avl_insert prefix_assignment_cmp (new_assignment iface\<lparr>pa_assigned := -1\<rparr>) later)"
    by (rule avl_insert_sorted [OF prefix_assignment_cmp_trans prefix_assignment_cmp_sym
          Cons.prems(1)])
  with Cons.prems show ?case
    by (auto simp: Let_def split: if_splits option.splits intro: Cons.IH)
qed simp

section \<open>Properties\<close>

text \<open>C8: splitting a delegated prefix among the interfaces never hands out overlapping
  networks. The blocks come in ascending order and are pairwise disjoint, they keep clear of
  the excluded prefix, all but the sentinel lie inside the prefix, and every block that is not
  reserved belongs to an interface that asks for a part of this prefix and is at most as large
  as requested.\<close>

theorem assign_subprefixes_disjoint:
  assumes "prefix_ok prefix" and "as = fst (assign_subprefixes prefix ifaces)"
  shows "sorted_wrt (\<lambda>a b. pa_end a \<le> pa_assigned b) as
    \<and> set (initial_assignments prefix) \<subseteq> set as
    \<and> (\<forall>c \<in> set (butlast as). 0 \<le> pa_assigned c \<and> pa_end c \<le> 2 ^ (64 - pf_length prefix))
    \<and> (\<forall>c \<in> set as. c \<in> set (initial_assignments prefix) \<or> assigned_to prefix ifaces c)"
proof -
  from assign_subprefixes_inv [OF assms(1), of ifaces]
  have inv: "layout_ok 0 as" "as \<noteq> []" "last as = prefix_sentinel prefix"
    "set (initial_assignments prefix) \<subseteq> set as"
    "\<forall>c \<in> set as. c \<in> set (initial_assignments prefix) \<or> assigned_to prefix ifaces c"
    by (simp_all add: layout_inv_def assms(2))
  have sorted: "sorted_wrt (\<lambda>a b. pa_end a \<le> pa_assigned b) as"
    using inv(1) by (rule layout_ok_sorted)
  have split: "as = butlast as @ [prefix_sentinel prefix]"
    using inv(2,3) by (metis append_butlast_last_id)
  have "pa_end c \<le> pa_assigned (prefix_sentinel prefix)" if "c \<in> set (butlast as)" for c
    using sorted that by (subst (asm) split) (simp add: sorted_wrt_append)
  moreover have "pa_assigned (prefix_sentinel prefix) = 2 ^ (64 - pf_length prefix)"
    using assms(1) shl1_pow [of "64 - pf_length prefix"]
    by (auto simp: prefix_sentinel_def prefix_ok_def)
  moreover have "0 \<le> pa_assigned c" if "c \<in> set (butlast as)" for c
    using inv(1) that by (auto dest: layout_ok_ge in_set_butlastD)
  ultimately show ?thesis using sorted inv by simp
qed

definition example_ifaces :: "interface list" where
  "example_ifaces =
     [zero_interface\<lparr>if_name := ''guest'', if_assignment_length := 64, if_assignment_hint := 16\<rparr>,
      zero_interface\<lparr>if_name := ''iot'', if_assignment_length := 64, if_assignment_hint := -1\<rparr>,
      zero_interface\<lparr>if_name := ''lan'', if_assignment_length := 60, if_assignment_hint := -1\<rparr>]"

definition example_prefix :: device_prefix where
  "example_prefix = zero_prefix\<lparr>pf_length := 56, pf_excl_length := 64\<rparr>"

lemma example_prefix_ok: "prefix_ok example_prefix"
  by code_simp

theorem assign_subprefixes_disjoint_witness:
  "map (\<lambda>c. (pa_name c, pa_assigned c, pa_length c)) (fst (assign_subprefixes example_prefix example_ifaces))
     = [(''!excluded'', 0, 64), (''iot'', 1, 64), (''guest'', 16, 64), (''lan'', 32, 60), ([], 256, 64)]
   \<and> sorted_wrt (\<lambda>a b. pa_end a \<le> pa_assigned b) (fst (assign_subprefixes example_prefix example_ifaces))"
proof
  show "map (\<lambda>c. (pa_name c, pa_assigned c, pa_length c)) (fst (assign_subprefixes example_prefix example_ifaces))
     = [(''!excluded'', 0, 64), (''iot'', 1, 64), (''guest'', 16, 64), (''lan'', 32, 60), ([], 256, 64)]"
    by code_simp
  show "sorted_wrt (\<lambda>a b. pa_end a \<le> pa_assigned b) (fst (assign_subprefixes example_prefix example_ifaces))"
    using assign_subprefixes_disjoint [OF example_prefix_ok refl, of example_ifaces] by blast
qed

text \<open>C29: the search for one assignment succeeds exactly when a suitable position is free (for
  a requested position this one, otherwise any multiple of the block size), and without a
  request it takes the lowest such position.\<close>

theorem interface_prefix_assign_first_fit:
  assumes lo: "layout_ok 0 l" and len: "34 \<le> pa_length a" "pa_length a \<le> 64"
  shows "((\<exists>r. interface_prefix_assign l a = Some r) \<longleftrightarrow>
           (\<exists>v\<ge>0. (if pa_assigned a = -1 then 2 ^ (64 - pa_length a) dvd v else v = pa_assigned a)
                 \<and> slot_free v (2 ^ (64 - pa_length a)) l))
    \<and> (\<forall>l' a' v. interface_prefix_assign l a = Some (l', a') \<and> pa_assigned a = -1
          \<and> 0 \<le> v \<and> 2 ^ (64 - pa_length a) dvd v \<and> slot_free v (2 ^ (64 - pa_length a)) l
          \<longrightarrow> pa_assigned a' \<le> v)"
proof -
  let ?k = "64 - pa_length a"
  note loop = interface_prefix_assign_loop [OF len(1), of l]
  have fw: "\<exists>v\<ge>0. (if pa_assigned a = -1 then 2 ^ ?k dvd v else v = pa_assigned a) \<and> slot_free v (2 ^ ?k) l"
    if some: "interface_prefix_assign l a = Some (l', a')" for l' a'
  proof -
    from interface_prefix_assign_Some [OF some lo len] obtain xs ys where
      xy: "l = xs @ ys" "ys \<noteq> []" "l' = xs @ a' # ys" "layout_ok 0 l'" "0 \<le> pa_assigned a'"
        "a' = a\<lparr>pa_assigned := pa_assigned a'\<rparr>"
        "if pa_assigned a = -1 then 2 ^ ?k dvd pa_assigned a' else pa_assigned a' = pa_assigned a"
      by blast
    have "pa_length a' = pa_length a" by (subst xy(6)) simp
    then have "slot_free (pa_assigned a') (2 ^ ?k) l"
      using slot_free_inserted [of 0 xs a' ys] xy by simp
    with xy show ?thesis by blast
  qed
  have bw: "\<exists>r. interface_prefix_assign l a = Some r"
    if "0 \<le> v" "if pa_assigned a = -1 then 2 ^ ?k dvd v else v = pa_assigned a" "slot_free v (2 ^ ?k) l" for v
    using prefix_assign_loop_None [OF _ lo that(1,2)] that(3) loop by (metis not_None_eq)
  have least: "pa_assigned a' \<le> v"
    if "interface_prefix_assign l a = Some (l', a')" "pa_assigned a = -1" "0 \<le> v"
      "2 ^ ?k dvd v" "slot_free v (2 ^ ?k) l" for l' a' v
    using prefix_assign_loop_least [OF _ lo that(2-5)] that(1) loop by simp
  show ?thesis
  proof (intro conjI iffI allI impI)
    assume "\<exists>r. interface_prefix_assign l a = Some r"
    then obtain l' a' where "interface_prefix_assign l a = Some (l', a')" by auto
    then show "\<exists>v\<ge>0. (if pa_assigned a = -1 then 2 ^ ?k dvd v else v = pa_assigned a) \<and> slot_free v (2 ^ ?k) l"
      by (rule fw)
  next
    assume "\<exists>v\<ge>0. (if pa_assigned a = -1 then 2 ^ ?k dvd v else v = pa_assigned a) \<and> slot_free v (2 ^ ?k) l"
    then show "\<exists>r. interface_prefix_assign l a = Some r" using bw by blast
  qed (use least in blast)
qed

definition example_request :: device_prefix_assignment where
  "example_request = \<lparr>pa_assigned = -1, pa_length = 62, pa_weight = 0, pa_addr = zero_addr,
     pa_enabled = False, pa_name = ''lan''\<rparr>"

theorem interface_prefix_assign_first_fit_witness:
  "\<exists>r. interface_prefix_assign (initial_assignments example_prefix) example_request = Some r"
proof -
  have lo: "layout_ok 0 (initial_assignments example_prefix)" by code_simp
  have "slot_free 4 (2 ^ (64 - pa_length example_request)) (initial_assignments example_prefix)"
    by code_simp
  moreover have "pa_assigned example_request = -1" "(2::int) ^ (64 - pa_length example_request) dvd 4"
    by (simp_all add: example_request_def)
  ultimately show ?thesis
    using interface_prefix_assign_first_fit [OF lo, of example_request]
    by (auto simp: example_request_def intro: exI [of _ 4])
qed

text \<open>C37: an interface goes without a subprefix only when not even a single /64 network of
  the prefix is free: if all retries with growing prefix length fail, no position is free for
  a block of size one.\<close>

theorem assign_retry_fails_only_when_full:
  assumes "assign_retry as c = None" and "layout_ok 0 as" and "pa_assigned c = -1"
    and "34 \<le> pa_length c" "pa_length c \<le> 64"
  shows "\<forall>v\<ge>0. \<not> slot_free v 1 as"
  using assign_retry_None [OF assms] by blast

theorem assign_retry_fails_only_when_full_witness:
  "assign_retry (initial_assignments (zero_prefix\<lparr>pf_length := 64, pf_excl_length := 64\<rparr>)) example_request = None
   \<and> \<not> slot_free 0 1 (initial_assignments (zero_prefix\<lparr>pf_length := 64, pf_excl_length := 64\<rparr>))"
  (is "assign_retry ?as _ = None \<and> _")
proof -
  have n: "assign_retry ?as example_request = None" by code_simp
  have l: "layout_ok 0 ?as" by code_simp
  show ?thesis
    using assign_retry_fails_only_when_full [OF n l] n by (simp add: example_request_def)
qed

text \<open>The interfaces without a (satisfiable) request are served in the documented order:
  by prefix length, then by descending weight, then by name.\<close>

theorem later_assignments_ordered:
  assumes "custom_pass prefix ifaces (initial_assignments prefix, [], False) = (as, later, any)"
  shows "sorted_wrt (\<lambda>a b. pa_length a < pa_length b
           \<or> (pa_length a = pa_length b \<and> pa_weight a > pa_weight b)
           \<or> (pa_length a = pa_length b \<and> pa_weight a = pa_weight b
              \<and> strcmp (pa_name a) (pa_name b) < 0)) later"
proof -
  have "sorted_wrt (\<lambda>a b. prefix_assignment_cmp a b < 0) later"
    by (rule custom_pass_later_sorted [OF _ assms]) simp
  then show ?thesis
    by (rule sorted_wrt_mono_rel [rotated]) (auto simp: prefix_assignment_cmp_def split: if_splits)
qed


theorem later_assignments_ordered_witness:
  "case custom_pass example_prefix example_ifaces (initial_assignments example_prefix, [], False) of
     (as, later, any) \<Rightarrow> map pa_name later = [''lan'', ''iot'']
       \<and> sorted_wrt (\<lambda>a b. pa_length a < pa_length b
           \<or> (pa_length a = pa_length b \<and> pa_weight a > pa_weight b)
           \<or> (pa_length a = pa_length b \<and> pa_weight a = pa_weight b
              \<and> strcmp (pa_name a) (pa_name b) < 0)) later"
proof -
  obtain as later any where
    e: "custom_pass example_prefix example_ifaces (initial_assignments example_prefix, [], False) = (as, later, any)"
    by (metis prod_cases3)
  have "map pa_name (fst (snd (custom_pass example_prefix example_ifaces
          (initial_assignments example_prefix, [], False)))) = [''lan'', ''iot'']"
    by code_simp
  with e later_assignments_ordered [OF e] show ?thesis by simp
qed

end
