(* ===== verification/DeviceSettings.thy ===== *)
theory DeviceSettings
  imports Types
begin

text \<open>
  Device options: the option flags of \<open>device.h\<close>, the attribute table of \<open>device.c\<close>, and
  the functions that turn parsed attributes into settings
  (\<open>device_init_settings\<close>), complete them with a default MAC address, merge them with what
  the kernel reported and list them in a status dump.

  The MAC address parser \<open>ether_aton\<close> is an argument.
\<close>

unbundle bit_operations_syntax

section \<open>Options and attributes\<close>

datatype dev_attr =
    DEV_ATTR_TYPE | DEV_ATTR_MTU | DEV_ATTR_MTU6
  | DEV_ATTR_MACADDR | DEV_ATTR_TXQUEUELEN | DEV_ATTR_ENABLED
  | DEV_ATTR_IPV6 | DEV_ATTR_PROMISC | DEV_ATTR_RPFILTER
  | DEV_ATTR_ACCEPTLOCAL | DEV_ATTR_IGMPVERSION | DEV_ATTR_MLDVERSION
  | DEV_ATTR_NEIGHREACHABLETIME | DEV_ATTR_DADTRANSMITS | DEV_ATTR_MULTICAST_TO_UNICAST
  | DEV_ATTR_MULTICAST_ROUTER | DEV_ATTR_MULTICAST_FAST_LEAVE | DEV_ATTR_MULTICAST
  | DEV_ATTR_LEARNING | DEV_ATTR_UNICAST_FLOOD | DEV_ATTR_NEIGHGCSTALETIME
  | DEV_ATTR_SENDREDIRECTS | DEV_ATTR_NEIGHLOCKTIME | DEV_ATTR_ISOLATE
  | DEV_ATTR_IP6SEGMENTROUTING | DEV_ATTR_DROP_V4_UNICAST_IN_L2_MULTICAST | DEV_ATTR_DROP_V6_UNICAST_IN_L2_MULTICAST
  | DEV_ATTR_DROP_GRATUITOUS_ARP | DEV_ATTR_DROP_UNSOLICITED_NA | DEV_ATTR_ARP_ACCEPT
  | DEV_ATTR_AUTH | DEV_ATTR_SPEED | DEV_ATTR_DUPLEX
  | DEV_ATTR_IP_FORWARDING | DEV_ATTR_IP6_FORWARDING | DEV_ATTR_ARP
  | DEV_ATTR_IP6_ACCEPT_ROUTING_HEADER | DEV_ATTR_IP6_HOP_LIMIT

fun dev_attrs :: "dev_attr \<Rightarrow> string \<times> blobmsg_type" where
  "dev_attrs DEV_ATTR_TYPE = (''type'', BLOBMSG_TYPE_STRING)"
| "dev_attrs DEV_ATTR_MTU = (''mtu'', BLOBMSG_TYPE_INT32)"
| "dev_attrs DEV_ATTR_MTU6 = (''mtu6'', BLOBMSG_TYPE_INT32)"
| "dev_attrs DEV_ATTR_MACADDR = (''macaddr'', BLOBMSG_TYPE_STRING)"
| "dev_attrs DEV_ATTR_TXQUEUELEN = (''txqueuelen'', BLOBMSG_TYPE_INT32)"
| "dev_attrs DEV_ATTR_ENABLED = (''enabled'', BLOBMSG_TYPE_BOOL)"
| "dev_attrs DEV_ATTR_IPV6 = (''ipv6'', BLOBMSG_TYPE_BOOL)"
| "dev_attrs DEV_ATTR_IP6SEGMENTROUTING = (''ip6segmentrouting'', BLOBMSG_TYPE_BOOL)"
| "dev_attrs DEV_ATTR_PROMISC = (''promisc'', BLOBMSG_TYPE_BOOL)"
| "dev_attrs DEV_ATTR_RPFILTER = (''rpfilter'', BLOBMSG_TYPE_STRING)"
| "dev_attrs DEV_ATTR_ACCEPTLOCAL = (''acceptlocal'', BLOBMSG_TYPE_BOOL)"
| "dev_attrs DEV_ATTR_IGMPVERSION = (''igmpversion'', BLOBMSG_TYPE_INT32)"
| "dev_attrs DEV_ATTR_MLDVERSION = (''mldversion'', BLOBMSG_TYPE_INT32)"
| "dev_attrs DEV_ATTR_NEIGHREACHABLETIME = (''neighreachabletime'', BLOBMSG_TYPE_INT32)"
| "dev_attrs DEV_ATTR_NEIGHGCSTALETIME = (''neighgcstaletime'', BLOBMSG_TYPE_INT32)"
| "dev_attrs DEV_ATTR_DADTRANSMITS = (''dadtransmits'', BLOBMSG_TYPE_INT32)"
| "dev_attrs DEV_ATTR_MULTICAST_TO_UNICAST = (''multicast_to_unicast'', BLOBMSG_TYPE_BOOL)"
| "dev_attrs DEV_ATTR_MULTICAST_ROUTER = (''multicast_router'', BLOBMSG_TYPE_INT32)"
| "dev_attrs DEV_ATTR_MULTICAST_FAST_LEAVE = (''multicast_fast_leave'', BLOBMSG_TYPE_BOOL)"
| "dev_attrs DEV_ATTR_MULTICAST = (''multicast'', BLOBMSG_TYPE_BOOL)"
| "dev_attrs DEV_ATTR_LEARNING = (''learning'', BLOBMSG_TYPE_BOOL)"
| "dev_attrs DEV_ATTR_UNICAST_FLOOD = (''unicast_flood'', BLOBMSG_TYPE_BOOL)"
| "dev_attrs DEV_ATTR_SENDREDIRECTS = (''sendredirects'', BLOBMSG_TYPE_BOOL)"
| "dev_attrs DEV_ATTR_NEIGHLOCKTIME = (''neighlocktime'', BLOBMSG_TYPE_INT32)"
| "dev_attrs DEV_ATTR_ISOLATE = (''isolate'', BLOBMSG_TYPE_BOOL)"
| "dev_attrs DEV_ATTR_DROP_V4_UNICAST_IN_L2_MULTICAST = (''drop_v4_unicast_in_l2_multicast'', BLOBMSG_TYPE_BOOL)"
| "dev_attrs DEV_ATTR_DROP_V6_UNICAST_IN_L2_MULTICAST = (''drop_v6_unicast_in_l2_multicast'', BLOBMSG_TYPE_BOOL)"
| "dev_attrs DEV_ATTR_DROP_GRATUITOUS_ARP = (''drop_gratuitous_arp'', BLOBMSG_TYPE_BOOL)"
| "dev_attrs DEV_ATTR_DROP_UNSOLICITED_NA = (''drop_unsolicited_na'', BLOBMSG_TYPE_BOOL)"
| "dev_attrs DEV_ATTR_ARP_ACCEPT = (''arp_accept'', BLOBMSG_TYPE_BOOL)"
| "dev_attrs DEV_ATTR_AUTH = (''auth'', BLOBMSG_TYPE_BOOL)"
| "dev_attrs DEV_ATTR_SPEED = (''speed'', BLOBMSG_TYPE_INT32)"
| "dev_attrs DEV_ATTR_DUPLEX = (''duplex'', BLOBMSG_TYPE_BOOL)"
| "dev_attrs DEV_ATTR_IP_FORWARDING = (''ip_forwarding'', BLOBMSG_TYPE_BOOL)"
| "dev_attrs DEV_ATTR_IP6_FORWARDING = (''ip6_forwarding'', BLOBMSG_TYPE_BOOL)"
| "dev_attrs DEV_ATTR_ARP = (''arp'', BLOBMSG_TYPE_BOOL)"
| "dev_attrs DEV_ATTR_IP6_ACCEPT_ROUTING_HEADER = (''ip6_accept_routing_header'', BLOBMSG_TYPE_STRING)"
| "dev_attrs DEV_ATTR_IP6_HOP_LIMIT = (''ip6_hop_limit'', BLOBMSG_TYPE_INT32)"

definition DEV_OPT_MTU :: u64 where "DEV_OPT_MTU = 0x1"
definition DEV_OPT_MACADDR :: u64 where "DEV_OPT_MACADDR = 0x2"
definition DEV_OPT_TXQUEUELEN :: u64 where "DEV_OPT_TXQUEUELEN = 0x4"
definition DEV_OPT_IPV6 :: u64 where "DEV_OPT_IPV6 = 0x8"
definition DEV_OPT_PROMISC :: u64 where "DEV_OPT_PROMISC = 0x10"
definition DEV_OPT_RPFILTER :: u64 where "DEV_OPT_RPFILTER = 0x20"
definition DEV_OPT_ACCEPTLOCAL :: u64 where "DEV_OPT_ACCEPTLOCAL = 0x40"
definition DEV_OPT_IGMPVERSION :: u64 where "DEV_OPT_IGMPVERSION = 0x80"
definition DEV_OPT_MLDVERSION :: u64 where "DEV_OPT_MLDVERSION = 0x100"
definition DEV_OPT_NEIGHREACHABLETIME :: u64 where "DEV_OPT_NEIGHREACHABLETIME = 0x200"
definition DEV_OPT_DEFAULT_MACADDR :: u64 where "DEV_OPT_DEFAULT_MACADDR = 0x400"
definition DEV_OPT_AUTH :: u64 where "DEV_OPT_AUTH = 0x800"
definition DEV_OPT_MTU6 :: u64 where "DEV_OPT_MTU6 = 0x1000"
definition DEV_OPT_DADTRANSMITS :: u64 where "DEV_OPT_DADTRANSMITS = 0x2000"
definition DEV_OPT_MULTICAST_TO_UNICAST :: u64 where "DEV_OPT_MULTICAST_TO_UNICAST = 0x4000"
definition DEV_OPT_MULTICAST_ROUTER :: u64 where "DEV_OPT_MULTICAST_ROUTER = 0x8000"
definition DEV_OPT_MULTICAST :: u64 where "DEV_OPT_MULTICAST = 0x10000"
definition DEV_OPT_LEARNING :: u64 where "DEV_OPT_LEARNING = 0x20000"
definition DEV_OPT_UNICAST_FLOOD :: u64 where "DEV_OPT_UNICAST_FLOOD = 0x40000"
definition DEV_OPT_NEIGHGCSTALETIME :: u64 where "DEV_OPT_NEIGHGCSTALETIME = 0x80000"
definition DEV_OPT_MULTICAST_FAST_LEAVE :: u64 where "DEV_OPT_MULTICAST_FAST_LEAVE = 0x100000"
definition DEV_OPT_SENDREDIRECTS :: u64 where "DEV_OPT_SENDREDIRECTS = 0x200000"
definition DEV_OPT_NEIGHLOCKTIME :: u64 where "DEV_OPT_NEIGHLOCKTIME = 0x400000"
definition DEV_OPT_ISOLATE :: u64 where "DEV_OPT_ISOLATE = 0x800000"
definition DEV_OPT_IP6SEGMENTROUTING :: u64 where "DEV_OPT_IP6SEGMENTROUTING = 0x1000000"
definition DEV_OPT_DROP_V4_UNICAST_IN_L2_MULTICAST :: u64 where "DEV_OPT_DROP_V4_UNICAST_IN_L2_MULTICAST = 0x2000000"
definition DEV_OPT_DROP_V6_UNICAST_IN_L2_MULTICAST :: u64 where "DEV_OPT_DROP_V6_UNICAST_IN_L2_MULTICAST = 0x4000000"
definition DEV_OPT_DROP_GRATUITOUS_ARP :: u64 where "DEV_OPT_DROP_GRATUITOUS_ARP = 0x8000000"
definition DEV_OPT_DROP_UNSOLICITED_NA :: u64 where "DEV_OPT_DROP_UNSOLICITED_NA = 0x10000000"
definition DEV_OPT_ARP_ACCEPT :: u64 where "DEV_OPT_ARP_ACCEPT = 0x20000000"
definition DEV_OPT_SPEED :: u64 where "DEV_OPT_SPEED = 0x40000000"
definition DEV_OPT_DUPLEX :: u64 where "DEV_OPT_DUPLEX = 0x80000000"
definition DEV_OPT_IP_FORWARDING :: u64 where "DEV_OPT_IP_FORWARDING = 0x100000000"
definition DEV_OPT_IP6_FORWARDING :: u64 where "DEV_OPT_IP6_FORWARDING = 0x200000000"
definition DEV_OPT_ARP :: u64 where "DEV_OPT_ARP = 0x400000000"
definition DEV_OPT_IP6_ACCEPT_ROUTING_HEADER :: u64 where "DEV_OPT_IP6_ACCEPT_ROUTING_HEADER = 0x800000000"
definition DEV_OPT_IP6_HOP_LIMIT :: u64 where "DEV_OPT_IP6_HOP_LIMIT = 0x1000000000"

lemmas dev_opts [nd_defs] =
  DEV_OPT_MTU_def DEV_OPT_MACADDR_def DEV_OPT_TXQUEUELEN_def
  DEV_OPT_IPV6_def DEV_OPT_PROMISC_def DEV_OPT_RPFILTER_def
  DEV_OPT_ACCEPTLOCAL_def DEV_OPT_IGMPVERSION_def DEV_OPT_MLDVERSION_def
  DEV_OPT_NEIGHREACHABLETIME_def DEV_OPT_DEFAULT_MACADDR_def DEV_OPT_AUTH_def
  DEV_OPT_MTU6_def DEV_OPT_DADTRANSMITS_def DEV_OPT_MULTICAST_TO_UNICAST_def
  DEV_OPT_MULTICAST_ROUTER_def DEV_OPT_MULTICAST_def DEV_OPT_LEARNING_def
  DEV_OPT_UNICAST_FLOOD_def DEV_OPT_NEIGHGCSTALETIME_def DEV_OPT_MULTICAST_FAST_LEAVE_def
  DEV_OPT_SENDREDIRECTS_def DEV_OPT_NEIGHLOCKTIME_def DEV_OPT_ISOLATE_def
  DEV_OPT_IP6SEGMENTROUTING_def DEV_OPT_DROP_V4_UNICAST_IN_L2_MULTICAST_def DEV_OPT_DROP_V6_UNICAST_IN_L2_MULTICAST_def
  DEV_OPT_DROP_GRATUITOUS_ARP_def DEV_OPT_DROP_UNSOLICITED_NA_def DEV_OPT_ARP_ACCEPT_def
  DEV_OPT_SPEED_def DEV_OPT_DUPLEX_def DEV_OPT_IP_FORWARDING_def
  DEV_OPT_IP6_FORWARDING_def DEV_OPT_ARP_def DEV_OPT_IP6_ACCEPT_ROUTING_HEADER_def
  DEV_OPT_IP6_HOP_LIMIT_def

type_synonym dev_tb = "dev_attr attr_tb"

section \<open>Reading settings from attributes\<close>

text \<open>
  The shape of every block of \<open>device_init_settings\<close>: if the attribute is there, store its
  value, and if the value is acceptable, set the option flag.
\<close>

definition set_opt ::
  "u64 \<Rightarrow> 'v option \<Rightarrow> ('v \<Rightarrow> bool) \<Rightarrow> ('v \<Rightarrow> device_settings \<Rightarrow> device_settings) \<Rightarrow>
   device_settings \<Rightarrow> device_settings" where
  "set_opt flag v ok store s =
     (case v of None \<Rightarrow> s
      | Some x \<Rightarrow> (let s' = store x s in
                   if ok x then s'\<lparr>ds_flags := ds_flags s' OR flag\<rparr> else s'))"

text \<open>A value that is only stored when it is at least \<open>lo\<close>.\<close>

definition at_least :: "u32 \<Rightarrow> u32 option \<Rightarrow> u32 option" where
  "at_least lo v = (case v of Some x \<Rightarrow> if x \<ge> lo then Some x else None | None \<Rightarrow> None)"

definition system_resolve_rpfilter :: "string \<Rightarrow> u32 option" where
  "system_resolve_rpfilter flt =
     (if flt = ''strict'' then Some 1
      else if flt = ''loose'' then Some 2
      else let (r, e) = strtoul 0 flt; n = word_of_nat r :: u32
           in if e \<noteq> [] \<or> e = flt \<or> n > 2 then None else Some n)"

definition to_lower :: "char \<Rightarrow> char" where
  "to_lower c = (if 65 \<le> char_code c \<and> char_code c \<le> 90 then char_of (char_code c + 32) else c)"

definition strcaseeq :: "string \<Rightarrow> string \<Rightarrow> bool" where
  "strcaseeq a b \<longleftrightarrow> map to_lower a = map to_lower b"

definition routing_header_value :: "string \<Rightarrow> int option" where
  "routing_header_value val =
     (if strcaseeq val ''all'' then Some 1
      else if strcaseeq val ''rh2'' then Some 0
      else if strcaseeq val ''none'' then Some (-1)
      else None)"

definition init_link_settings ::
  "(string \<Rightarrow> u8 list option) \<Rightarrow> dev_tb \<Rightarrow> device_settings \<Rightarrow> device_settings" where
  "init_link_settings ether_aton tb =
     set_opt DEV_OPT_RPFILTER (Option.bind (attr_string tb DEV_ATTR_RPFILTER) system_resolve_rpfilter)
       (\<lambda>_. True) (\<lambda>v s. s\<lparr>ds_rpfilter := v\<rparr>) \<circ>
     set_opt DEV_OPT_PROMISC (attr_bool tb DEV_ATTR_PROMISC) (\<lambda>_. True) (\<lambda>v s. s\<lparr>ds_promisc := v\<rparr>) \<circ>
     set_opt DEV_OPT_IP6SEGMENTROUTING (attr_bool tb DEV_ATTR_IP6SEGMENTROUTING) (\<lambda>_. True)
       (\<lambda>v s. s\<lparr>ds_ip6segmentrouting := v\<rparr>) \<circ>
     set_opt DEV_OPT_IPV6 (attr_bool tb DEV_ATTR_IPV6) (\<lambda>_. True) (\<lambda>v s. s\<lparr>ds_ipv6 := v\<rparr>) \<circ>
     set_opt DEV_OPT_MACADDR (Option.bind (attr_string tb DEV_ATTR_MACADDR) ether_aton)
       (\<lambda>_. True) (\<lambda>v s. s\<lparr>ds_macaddr := v\<rparr>) \<circ>
     set_opt DEV_OPT_TXQUEUELEN (attr_u32 tb DEV_ATTR_TXQUEUELEN) (\<lambda>_. True)
       (\<lambda>v s. s\<lparr>ds_txqueuelen := v\<rparr>) \<circ>
     set_opt DEV_OPT_MTU6 (at_least 1280 (attr_u32 tb DEV_ATTR_MTU6)) (\<lambda>_. True)
       (\<lambda>v s. s\<lparr>ds_mtu6 := v\<rparr>) \<circ>
     set_opt DEV_OPT_MTU (at_least 68 (attr_u32 tb DEV_ATTR_MTU)) (\<lambda>_. True)
       (\<lambda>v s. s\<lparr>ds_mtu := v\<rparr>)"

definition init_neigh_settings :: "dev_tb \<Rightarrow> device_settings \<Rightarrow> device_settings" where
  "init_neigh_settings tb =
     set_opt DEV_OPT_DADTRANSMITS (attr_u32 tb DEV_ATTR_DADTRANSMITS) (\<lambda>_. True)
       (\<lambda>v s. s\<lparr>ds_dadtransmits := v\<rparr>) \<circ>
     set_opt DEV_OPT_NEIGHLOCKTIME (attr_u32 tb DEV_ATTR_NEIGHLOCKTIME) (\<lambda>_. True)
       (\<lambda>v s. s\<lparr>ds_neigh4locktime := c_int v\<rparr>) \<circ>
     set_opt DEV_OPT_NEIGHGCSTALETIME (attr_u32 tb DEV_ATTR_NEIGHGCSTALETIME) (\<lambda>_. True)
       (\<lambda>v s. s\<lparr>ds_neigh4gcstaletime := v, ds_neigh6gcstaletime := v\<rparr>) \<circ>
     set_opt DEV_OPT_NEIGHREACHABLETIME (attr_u32 tb DEV_ATTR_NEIGHREACHABLETIME) (\<lambda>_. True)
       (\<lambda>v s. s\<lparr>ds_neigh4reachabletime := v, ds_neigh6reachabletime := v\<rparr>) \<circ>
     set_opt DEV_OPT_MLDVERSION (attr_u32 tb DEV_ATTR_MLDVERSION) (\<lambda>v. v \<ge> 1 \<and> v \<le> 2)
       (\<lambda>v s. s\<lparr>ds_mldversion := v\<rparr>) \<circ>
     set_opt DEV_OPT_IGMPVERSION (attr_u32 tb DEV_ATTR_IGMPVERSION) (\<lambda>v. v \<ge> 1 \<and> v \<le> 3)
       (\<lambda>v s. s\<lparr>ds_igmpversion := v\<rparr>) \<circ>
     set_opt DEV_OPT_ACCEPTLOCAL (attr_bool tb DEV_ATTR_ACCEPTLOCAL) (\<lambda>_. True)
       (\<lambda>v s. s\<lparr>ds_acceptlocal := v\<rparr>)"

definition init_bridge_settings :: "dev_tb \<Rightarrow> device_settings \<Rightarrow> device_settings" where
  "init_bridge_settings tb =
     set_opt DEV_OPT_ISOLATE (attr_bool tb DEV_ATTR_ISOLATE) (\<lambda>_. True) (\<lambda>v s. s\<lparr>ds_isolate := v\<rparr>) \<circ>
     set_opt DEV_OPT_SENDREDIRECTS (attr_bool tb DEV_ATTR_SENDREDIRECTS) (\<lambda>_. True)
       (\<lambda>v s. s\<lparr>ds_sendredirects := v\<rparr>) \<circ>
     set_opt DEV_OPT_UNICAST_FLOOD (attr_bool tb DEV_ATTR_UNICAST_FLOOD) (\<lambda>_. True)
       (\<lambda>v s. s\<lparr>ds_unicast_flood := v\<rparr>) \<circ>
     set_opt DEV_OPT_LEARNING (attr_bool tb DEV_ATTR_LEARNING) (\<lambda>_. True) (\<lambda>v s. s\<lparr>ds_learning := v\<rparr>) \<circ>
     set_opt DEV_OPT_MULTICAST (attr_bool tb DEV_ATTR_MULTICAST) (\<lambda>_. True) (\<lambda>v s. s\<lparr>ds_multicast := v\<rparr>) \<circ>
     set_opt DEV_OPT_MULTICAST_FAST_LEAVE (attr_bool tb DEV_ATTR_MULTICAST_FAST_LEAVE) (\<lambda>_. True)
       (\<lambda>v s. s\<lparr>ds_multicast_fast_leave := v\<rparr>) \<circ>
     set_opt DEV_OPT_MULTICAST_ROUTER (attr_u32 tb DEV_ATTR_MULTICAST_ROUTER) (\<lambda>v. v \<le> 2)
       (\<lambda>v s. s\<lparr>ds_multicast_router := v\<rparr>) \<circ>
     set_opt DEV_OPT_MULTICAST_TO_UNICAST (attr_bool tb DEV_ATTR_MULTICAST_TO_UNICAST) (\<lambda>_. True)
       (\<lambda>v s. s\<lparr>ds_multicast_to_unicast := v\<rparr>)"

definition init_filter_settings :: "dev_tb \<Rightarrow> device_settings \<Rightarrow> device_settings" where
  "init_filter_settings tb =
     set_opt DEV_OPT_AUTH (attr_bool tb DEV_ATTR_AUTH) (\<lambda>_. True) (\<lambda>v s. s\<lparr>ds_auth := v\<rparr>) \<circ>
     set_opt DEV_OPT_ARP_ACCEPT (attr_bool tb DEV_ATTR_ARP_ACCEPT) (\<lambda>_. True)
       (\<lambda>v s. s\<lparr>ds_arp_accept := v\<rparr>) \<circ>
     set_opt DEV_OPT_DROP_UNSOLICITED_NA (attr_bool tb DEV_ATTR_DROP_UNSOLICITED_NA) (\<lambda>_. True)
       (\<lambda>v s. s\<lparr>ds_drop_unsolicited_na := v\<rparr>) \<circ>
     set_opt DEV_OPT_DROP_GRATUITOUS_ARP (attr_bool tb DEV_ATTR_DROP_GRATUITOUS_ARP) (\<lambda>_. True)
       (\<lambda>v s. s\<lparr>ds_drop_gratuitous_arp := v\<rparr>) \<circ>
     set_opt DEV_OPT_DROP_V6_UNICAST_IN_L2_MULTICAST
       (attr_bool tb DEV_ATTR_DROP_V6_UNICAST_IN_L2_MULTICAST) (\<lambda>_. True)
       (\<lambda>v s. s\<lparr>ds_drop_v6_unicast_in_l2_multicast := v\<rparr>) \<circ>
     set_opt DEV_OPT_DROP_V4_UNICAST_IN_L2_MULTICAST
       (attr_bool tb DEV_ATTR_DROP_V4_UNICAST_IN_L2_MULTICAST) (\<lambda>_. True)
       (\<lambda>v s. s\<lparr>ds_drop_v4_unicast_in_l2_multicast := v\<rparr>)"

definition init_phy_settings :: "dev_tb \<Rightarrow> device_settings \<Rightarrow> device_settings" where
  "init_phy_settings tb =
     set_opt DEV_OPT_IP6_HOP_LIMIT (attr_u32 tb DEV_ATTR_IP6_HOP_LIMIT) (\<lambda>_. True)
       (\<lambda>v s. s\<lparr>ds_hop_limit := c_int v\<rparr>) \<circ>
     set_opt DEV_OPT_IP6_ACCEPT_ROUTING_HEADER
       (Option.bind (attr_string tb DEV_ATTR_IP6_ACCEPT_ROUTING_HEADER) routing_header_value)
       (\<lambda>_. True) (\<lambda>v s. s\<lparr>ds_accept_routing_header := v\<rparr>) \<circ>
     set_opt DEV_OPT_ARP (attr_bool tb DEV_ATTR_ARP) (\<lambda>_. True) (\<lambda>v s. s\<lparr>ds_arp := v\<rparr>) \<circ>
     set_opt DEV_OPT_IP6_FORWARDING (attr_bool tb DEV_ATTR_IP6_FORWARDING) (\<lambda>_. True)
       (\<lambda>v s. s\<lparr>ds_ip6_forwarding := v\<rparr>) \<circ>
     set_opt DEV_OPT_IP_FORWARDING (attr_bool tb DEV_ATTR_IP_FORWARDING) (\<lambda>_. True)
       (\<lambda>v s. s\<lparr>ds_ip_forwarding := v\<rparr>) \<circ>
     set_opt DEV_OPT_DUPLEX (attr_bool tb DEV_ATTR_DUPLEX) (\<lambda>_. True) (\<lambda>v s. s\<lparr>ds_duplex := v\<rparr>) \<circ>
     set_opt DEV_OPT_SPEED (attr_u32 tb DEV_ATTR_SPEED) (\<lambda>_. True) (\<lambda>v s. s\<lparr>ds_speed := v\<rparr>)"

text \<open>
  The settings and the \<open>disabled\<close> state that \<open>device_init_settings\<close> ends up with; it
  passes the latter to \<open>device_set_disabled\<close>.
\<close>

definition init_settings ::
  "(string \<Rightarrow> u8 list option) \<Rightarrow> dev_tb \<Rightarrow> device_settings \<Rightarrow> device_settings \<times> bool" where
  "init_settings ether_aton tb s =
     (let disabled = (case attr_bool tb DEV_ATTR_ENABLED of None \<Rightarrow> False | Some v \<Rightarrow> \<not> v);
          s = s\<lparr>ds_flags := 0\<rparr>;
          s = init_link_settings ether_aton tb s;
          s = init_neigh_settings tb s;
          s = init_bridge_settings tb s;
          s = init_filter_settings tb s;
          s = init_phy_settings tb s
      in (s, disabled))"

text \<open>\<open>default_mac\<close> is the result of \<open>config_get_default_macaddr\<close> for the device.\<close>

definition fill_default_settings :: "u8 list option \<Rightarrow> device_settings \<Rightarrow> device_settings" where
  "fill_default_settings default_mac s =
     (if \<not> has_flag (ds_flags s) DEV_OPT_MACADDR then
        (case default_mac of
           None \<Rightarrow> s
         | Some ea \<Rightarrow> s\<lparr>ds_macaddr := ea, ds_flags := ds_flags s OR DEV_OPT_DEFAULT_MACADDR\<rparr>)
      else s)"

section \<open>Merging and dumping\<close>

definition device_merge_settings :: "device_settings \<Rightarrow> device_settings \<Rightarrow> device_settings" where
  "device_merge_settings os s = zero_settings\<lparr>
     ds_mtu := (if has_flag (ds_flags s) DEV_OPT_MTU then ds_mtu s else ds_mtu os),
     ds_mtu6 := (if has_flag (ds_flags s) DEV_OPT_MTU6 then ds_mtu6 s else ds_mtu6 os),
     ds_txqueuelen := (if has_flag (ds_flags s) DEV_OPT_TXQUEUELEN then ds_txqueuelen s else ds_txqueuelen os),
     ds_macaddr := (if has_flag (ds_flags s) (DEV_OPT_MACADDR OR DEV_OPT_DEFAULT_MACADDR) then ds_macaddr s else ds_macaddr os),
     ds_ipv6 := (if has_flag (ds_flags s) DEV_OPT_IPV6 then ds_ipv6 s else ds_ipv6 os),
     ds_ip6segmentrouting := (if has_flag (ds_flags s) DEV_OPT_IP6SEGMENTROUTING then ds_ip6segmentrouting s else ds_ip6segmentrouting os),
     ds_promisc := (if has_flag (ds_flags s) DEV_OPT_PROMISC then ds_promisc s else ds_promisc os),
     ds_rpfilter := (if has_flag (ds_flags s) DEV_OPT_RPFILTER then ds_rpfilter s else ds_rpfilter os),
     ds_acceptlocal := (if has_flag (ds_flags s) DEV_OPT_ACCEPTLOCAL then ds_acceptlocal s else ds_acceptlocal os),
     ds_igmpversion := (if has_flag (ds_flags s) DEV_OPT_IGMPVERSION then ds_igmpversion s else ds_igmpversion os),
     ds_mldversion := (if has_flag (ds_flags s) DEV_OPT_MLDVERSION then ds_mldversion s else ds_mldversion os),
     ds_neigh4reachabletime := (if has_flag (ds_flags s) DEV_OPT_NEIGHREACHABLETIME then ds_neigh4reachabletime s else ds_neigh4reachabletime os),
     ds_neigh6reachabletime := (if has_flag (ds_flags s) DEV_OPT_NEIGHREACHABLETIME then ds_neigh6reachabletime s else ds_neigh6reachabletime os),
     ds_neigh4gcstaletime := (if has_flag (ds_flags s) DEV_OPT_NEIGHGCSTALETIME then ds_neigh4gcstaletime s else ds_neigh4gcstaletime os),
     ds_neigh6gcstaletime := (if has_flag (ds_flags s) DEV_OPT_NEIGHGCSTALETIME then ds_neigh6gcstaletime s else ds_neigh6gcstaletime os),
     ds_neigh4locktime := (if has_flag (ds_flags s) DEV_OPT_NEIGHLOCKTIME then ds_neigh4locktime s else ds_neigh4locktime os),
     ds_dadtransmits := (if has_flag (ds_flags s) DEV_OPT_DADTRANSMITS then ds_dadtransmits s else ds_dadtransmits os),
     ds_multicast := (if has_flag (ds_flags s) DEV_OPT_MULTICAST then ds_multicast s else ds_multicast os),
     ds_multicast_to_unicast := ds_multicast_to_unicast s,
     ds_multicast_router := ds_multicast_router s,
     ds_multicast_fast_leave := ds_multicast_fast_leave s,
     ds_learning := ds_learning s,
     ds_unicast_flood := ds_unicast_flood s,
     ds_sendredirects := (if has_flag (ds_flags s) DEV_OPT_SENDREDIRECTS then ds_sendredirects s else ds_sendredirects os),
     ds_drop_v4_unicast_in_l2_multicast := (if has_flag (ds_flags s) DEV_OPT_DROP_V4_UNICAST_IN_L2_MULTICAST then ds_drop_v4_unicast_in_l2_multicast s else ds_drop_v4_unicast_in_l2_multicast os),
     ds_drop_v6_unicast_in_l2_multicast := (if has_flag (ds_flags s) DEV_OPT_DROP_V6_UNICAST_IN_L2_MULTICAST then ds_drop_v6_unicast_in_l2_multicast s else ds_drop_v6_unicast_in_l2_multicast os),
     ds_drop_gratuitous_arp := (if has_flag (ds_flags s) DEV_OPT_DROP_GRATUITOUS_ARP then ds_drop_gratuitous_arp s else ds_drop_gratuitous_arp os),
     ds_drop_unsolicited_na := (if has_flag (ds_flags s) DEV_OPT_DROP_UNSOLICITED_NA then ds_drop_unsolicited_na s else ds_drop_unsolicited_na os),
     ds_arp_accept := (if has_flag (ds_flags s) DEV_OPT_ARP_ACCEPT then ds_arp_accept s else ds_arp_accept os),
     ds_auth := (if has_flag (ds_flags s) DEV_OPT_AUTH then ds_auth s else ds_auth os),
     ds_speed := (if has_flag (ds_flags s) DEV_OPT_SPEED then ds_speed s else ds_speed os),
     ds_duplex := (if has_flag (ds_flags s) DEV_OPT_DUPLEX then ds_duplex s else ds_duplex os),
     ds_ip_forwarding := (if has_flag (ds_flags s) DEV_OPT_IP_FORWARDING then ds_ip_forwarding s else ds_ip_forwarding os),
     ds_ip6_forwarding := (if has_flag (ds_flags s) DEV_OPT_IP6_FORWARDING then ds_ip6_forwarding s else ds_ip6_forwarding os),
     ds_arp := (if has_flag (ds_flags s) DEV_OPT_ARP then ds_arp s else ds_arp os),
     ds_accept_routing_header := (if has_flag (ds_flags s) DEV_OPT_IP6_ACCEPT_ROUTING_HEADER then ds_accept_routing_header s else ds_accept_routing_header os),
     ds_hop_limit := (if has_flag (ds_flags s) DEV_OPT_IP6_HOP_LIMIT then ds_hop_limit s else ds_hop_limit os),
     ds_flags := ds_flags s OR ds_flags os OR ds_valid_flags os\<rparr>"

datatype dump_value = DumpU32 u32 | DumpU8 bool | DumpString string

definition dump_opt ::
  "device_settings \<Rightarrow> u64 \<Rightarrow> (string \<times> dump_value) list \<Rightarrow> (string \<times> dump_value) list" where
  "dump_opt st flag entries = (if has_flag (ds_flags st) flag then entries else [])"

definition dump_routing_header :: "int \<Rightarrow> string" where
  "dump_routing_header v = (if v = 0 then ''rh2'' else if v < 0 then ''none'' else ''all'')"

text \<open>The part of \<open>device_dump_status\<close> that lists the settings of an active device.\<close>

definition dump_settings :: "device_settings \<Rightarrow> (string \<times> dump_value) list" where
  "dump_settings st =
     dump_opt st DEV_OPT_MTU [(''mtu'', DumpU32 (ds_mtu st))] @
     dump_opt st DEV_OPT_MTU6 [(''mtu6'', DumpU32 (ds_mtu6 st))] @
     dump_opt st DEV_OPT_MACADDR [(''macaddr'', DumpString (format_macaddr (ds_macaddr st)))] @
     dump_opt st DEV_OPT_TXQUEUELEN [(''txqueuelen'', DumpU32 (ds_txqueuelen st))] @
     dump_opt st DEV_OPT_IPV6 [(''ipv6'', DumpU8 (ds_ipv6 st))] @
     dump_opt st DEV_OPT_IP6SEGMENTROUTING [(''ip6segmentrouting'', DumpU8 (ds_ip6segmentrouting st))] @
     dump_opt st DEV_OPT_PROMISC [(''promisc'', DumpU8 (ds_promisc st))] @
     dump_opt st DEV_OPT_RPFILTER [(''rpfilter'', DumpU32 (ds_rpfilter st))] @
     dump_opt st DEV_OPT_ACCEPTLOCAL [(''acceptlocal'', DumpU8 (ds_acceptlocal st))] @
     dump_opt st DEV_OPT_IGMPVERSION [(''igmpversion'', DumpU32 (ds_igmpversion st))] @
     dump_opt st DEV_OPT_MLDVERSION [(''mldversion'', DumpU32 (ds_mldversion st))] @
     dump_opt st DEV_OPT_NEIGHREACHABLETIME [(''neigh4reachabletime'', DumpU32 (ds_neigh4reachabletime st)), (''neigh6reachabletime'', DumpU32 (ds_neigh6reachabletime st))] @
     dump_opt st DEV_OPT_NEIGHGCSTALETIME [(''neigh4gcstaletime'', DumpU32 (ds_neigh4gcstaletime st)), (''neigh6gcstaletime'', DumpU32 (ds_neigh6gcstaletime st))] @
     dump_opt st DEV_OPT_NEIGHLOCKTIME [(''neigh4locktime'', DumpU32 (to_u32 (ds_neigh4locktime st)))] @
     dump_opt st DEV_OPT_DADTRANSMITS [(''dadtransmits'', DumpU32 (ds_dadtransmits st))] @
     dump_opt st DEV_OPT_MULTICAST_TO_UNICAST [(''multicast_to_unicast'', DumpU8 (ds_multicast_to_unicast st))] @
     dump_opt st DEV_OPT_MULTICAST_ROUTER [(''multicast_router'', DumpU32 (ds_multicast_router st))] @
     dump_opt st DEV_OPT_MULTICAST_FAST_LEAVE [(''multicast_fast_leave'', DumpU8 (ds_multicast_fast_leave st))] @
     dump_opt st DEV_OPT_MULTICAST [(''multicast'', DumpU8 (ds_multicast st))] @
     dump_opt st DEV_OPT_LEARNING [(''learning'', DumpU8 (ds_learning st))] @
     dump_opt st DEV_OPT_UNICAST_FLOOD [(''unicast_flood'', DumpU8 (ds_unicast_flood st))] @
     dump_opt st DEV_OPT_SENDREDIRECTS [(''sendredirects'', DumpU8 (ds_sendredirects st))] @
     dump_opt st DEV_OPT_DROP_V4_UNICAST_IN_L2_MULTICAST [(''drop_v4_unicast_in_l2_multicast'', DumpU8 (ds_drop_v4_unicast_in_l2_multicast st))] @
     dump_opt st DEV_OPT_DROP_V6_UNICAST_IN_L2_MULTICAST [(''drop_v6_unicast_in_l2_multicast'', DumpU8 (ds_drop_v6_unicast_in_l2_multicast st))] @
     dump_opt st DEV_OPT_DROP_GRATUITOUS_ARP [(''drop_gratuitous_arp'', DumpU8 (ds_drop_gratuitous_arp st))] @
     dump_opt st DEV_OPT_DROP_UNSOLICITED_NA [(''drop_unsolicited_na'', DumpU8 (ds_drop_unsolicited_na st))] @
     dump_opt st DEV_OPT_ARP_ACCEPT [(''arp_accept'', DumpU8 (ds_arp_accept st))] @
     dump_opt st DEV_OPT_AUTH [(''auth'', DumpU8 (ds_auth st))] @
     dump_opt st DEV_OPT_IP_FORWARDING [(''ip_forwarding'', DumpU8 (ds_ip_forwarding st))] @
     dump_opt st DEV_OPT_IP6_FORWARDING [(''ip6_forwarding'', DumpU8 (ds_ip6_forwarding st))] @
     dump_opt st DEV_OPT_IP6_ACCEPT_ROUTING_HEADER [(''ip6_accept_routing_header'', DumpString (dump_routing_header (ds_accept_routing_header st)))] @
     dump_opt st DEV_OPT_IP6_HOP_LIMIT [(''ip6_hop_limit'', DumpU32 (to_u32 (ds_hop_limit st)))]"

section \<open>What the options amount to\<close>

lemma has_flag_if [simp]: "has_flag (if b then f else 0) m \<longleftrightarrow> b \<and> has_flag f m"
  by simp

text \<open>The flag that an option block adds.\<close>

definition opt_flag :: "u64 \<Rightarrow> 'v option \<Rightarrow> ('v \<Rightarrow> bool) \<Rightarrow> u64" where
  "opt_flag flag v ok = (case v of None \<Rightarrow> 0 | Some x \<Rightarrow> if ok x then flag else 0)"

lemma has_flag_opt_flag [simp]:
  "has_flag (opt_flag flag v ok) m \<longleftrightarrow> has_flag flag m \<and> (case v of None \<Rightarrow> False | Some x \<Rightarrow> ok x)"
  by (auto simp: opt_flag_def split: option.split)

lemma set_opt_flags [simp]:
  assumes "\<And>x s. ds_flags (store x s) = ds_flags s"
  shows "ds_flags (set_opt flag v ok store s) = ds_flags s OR opt_flag flag v ok"
  using assms by (simp add: set_opt_def opt_flag_def Let_def split: option.split)

lemma set_opt_keeps:
  assumes "\<And>s g. fld (s\<lparr>ds_flags := g\<rparr>) = fld s" and "\<And>x s. fld (store x s) = fld s"
  shows "fld (set_opt flag v ok store s) = fld s"
  using assms by (simp add: set_opt_def Let_def split: option.split)

lemma set_opt_sets:
  assumes "\<And>s g. fld (s\<lparr>ds_flags := g\<rparr>) = fld s"
    and "\<And>x s s'. fld (store x s) = fld (store x s')"
  shows "fld (set_opt flag v ok store s) =
    (case v of None \<Rightarrow> fld s | Some x \<Rightarrow> fld (store x zero_settings))"
  using assms(1) assms(2) [of _ s zero_settings]
  by (simp add: set_opt_def Let_def split: option.split)

lemmas set_opt_kept [simp] =
  set_opt_keeps [of ds_valid_flags, simplified]
  set_opt_keeps [of ds_mtu, simplified]
  set_opt_keeps [of ds_mtu6, simplified]
  set_opt_keeps [of ds_txqueuelen, simplified]
  set_opt_keeps [of ds_macaddr, simplified]
  set_opt_keeps [of ds_ipv6, simplified]
  set_opt_keeps [of ds_promisc, simplified]
  set_opt_keeps [of ds_rpfilter, simplified]
  set_opt_keeps [of ds_acceptlocal, simplified]
  set_opt_keeps [of ds_igmpversion, simplified]
  set_opt_keeps [of ds_mldversion, simplified]
  set_opt_keeps [of ds_neigh4reachabletime, simplified]
  set_opt_keeps [of ds_neigh6reachabletime, simplified]
  set_opt_keeps [of ds_neigh4gcstaletime, simplified]
  set_opt_keeps [of ds_neigh6gcstaletime, simplified]
  set_opt_keeps [of ds_neigh4locktime, simplified]
  set_opt_keeps [of ds_dadtransmits, simplified]
  set_opt_keeps [of ds_multicast_to_unicast, simplified]
  set_opt_keeps [of ds_multicast_router, simplified]
  set_opt_keeps [of ds_multicast_fast_leave, simplified]
  set_opt_keeps [of ds_multicast, simplified]
  set_opt_keeps [of ds_learning, simplified]
  set_opt_keeps [of ds_unicast_flood, simplified]
  set_opt_keeps [of ds_sendredirects, simplified]
  set_opt_keeps [of ds_ip6segmentrouting, simplified]
  set_opt_keeps [of ds_isolate, simplified]
  set_opt_keeps [of ds_drop_v4_unicast_in_l2_multicast, simplified]
  set_opt_keeps [of ds_drop_v6_unicast_in_l2_multicast, simplified]
  set_opt_keeps [of ds_drop_gratuitous_arp, simplified]
  set_opt_keeps [of ds_drop_unsolicited_na, simplified]
  set_opt_keeps [of ds_arp_accept, simplified]
  set_opt_keeps [of ds_auth, simplified]
  set_opt_keeps [of ds_speed, simplified]
  set_opt_keeps [of ds_duplex, simplified]
  set_opt_keeps [of ds_ip_forwarding, simplified]
  set_opt_keeps [of ds_ip6_forwarding, simplified]
  set_opt_keeps [of ds_arp, simplified]
  set_opt_keeps [of ds_accept_routing_header, simplified]
  set_opt_keeps [of ds_hop_limit, simplified]

lemmas set_opt_stored [simp] =
  set_opt_sets [of ds_valid_flags, simplified]
  set_opt_sets [of ds_mtu, simplified]
  set_opt_sets [of ds_mtu6, simplified]
  set_opt_sets [of ds_txqueuelen, simplified]
  set_opt_sets [of ds_macaddr, simplified]
  set_opt_sets [of ds_ipv6, simplified]
  set_opt_sets [of ds_promisc, simplified]
  set_opt_sets [of ds_rpfilter, simplified]
  set_opt_sets [of ds_acceptlocal, simplified]
  set_opt_sets [of ds_igmpversion, simplified]
  set_opt_sets [of ds_mldversion, simplified]
  set_opt_sets [of ds_neigh4reachabletime, simplified]
  set_opt_sets [of ds_neigh6reachabletime, simplified]
  set_opt_sets [of ds_neigh4gcstaletime, simplified]
  set_opt_sets [of ds_neigh6gcstaletime, simplified]
  set_opt_sets [of ds_neigh4locktime, simplified]
  set_opt_sets [of ds_dadtransmits, simplified]
  set_opt_sets [of ds_multicast_to_unicast, simplified]
  set_opt_sets [of ds_multicast_router, simplified]
  set_opt_sets [of ds_multicast_fast_leave, simplified]
  set_opt_sets [of ds_multicast, simplified]
  set_opt_sets [of ds_learning, simplified]
  set_opt_sets [of ds_unicast_flood, simplified]
  set_opt_sets [of ds_sendredirects, simplified]
  set_opt_sets [of ds_ip6segmentrouting, simplified]
  set_opt_sets [of ds_isolate, simplified]
  set_opt_sets [of ds_drop_v4_unicast_in_l2_multicast, simplified]
  set_opt_sets [of ds_drop_v6_unicast_in_l2_multicast, simplified]
  set_opt_sets [of ds_drop_gratuitous_arp, simplified]
  set_opt_sets [of ds_drop_unsolicited_na, simplified]
  set_opt_sets [of ds_arp_accept, simplified]
  set_opt_sets [of ds_auth, simplified]
  set_opt_sets [of ds_speed, simplified]
  set_opt_sets [of ds_duplex, simplified]
  set_opt_sets [of ds_ip_forwarding, simplified]
  set_opt_sets [of ds_ip6_forwarding, simplified]
  set_opt_sets [of ds_arp, simplified]
  set_opt_sets [of ds_accept_routing_header, simplified]
  set_opt_sets [of ds_hop_limit, simplified]

lemma has_flag_numeral:
  "has_flag (numeral a :: u64) (numeral b) \<longleftrightarrow> (numeral a AND numeral b :: u64) \<noteq> 0"
  "has_flag (1 :: u64) (numeral b) \<longleftrightarrow> (1 AND numeral b :: u64) \<noteq> 0"
  "has_flag (numeral a :: u64) 1 \<longleftrightarrow> (numeral a AND 1 :: u64) \<noteq> 0"
  "has_flag (1 :: u64) 1"
  by (simp_all add: has_flag_def)

lemmas init_groups =
  init_link_settings_def init_neigh_settings_def init_bridge_settings_def
  init_filter_settings_def init_phy_settings_def

lemmas effective_simps =
  device_merge_settings_def init_groups init_settings_def Let_def dev_opts has_flag_numeral
  has_flag_or_right

text \<open>Whether the configuration gives a valid value of a checked option.\<close>

definition valid_attr :: "dev_tb \<Rightarrow> dev_attr \<Rightarrow> (u32 \<Rightarrow> bool) \<Rightarrow> bool" where
  "valid_attr tb a P = (case attr_u32 tb a of Some v \<Rightarrow> P v | None \<Rightarrow> False)"

text \<open>C18: The settings of a configured device are the configured ones as far as they are valid.
  For the MTU, the IPv6 MTU, the reverse path filter, the IGMP and MLD version, the MAC address and the
  routing header policy, whose values are checked, the merged settings hold the configured value
  exactly if it is there and passes the check, and what the kernel reported otherwise, whatever the
  settings were before. The number of the multicast router mode is checked too, but the merged
  settings hold the configured number even if it fails the check, and the old one if none is
  configured, never what the kernel reported. The flag of each numeric option, which decides whether
  the value is used, is set exactly if a valid value is configured or the kernel reported one.
\<close>

theorem validated_settings_take_effect:
  "let n = device_merge_settings os (fst (init_settings ether_aton tb s));
       reported = has_flag (ds_flags os OR ds_valid_flags os) in
     ds_mtu n = (case attr_u32 tb DEV_ATTR_MTU of
        Some v \<Rightarrow> if v \<ge> 68 then v else ds_mtu os | None \<Rightarrow> ds_mtu os) \<and>
     ds_mtu6 n = (case attr_u32 tb DEV_ATTR_MTU6 of
        Some v \<Rightarrow> if v \<ge> 1280 then v else ds_mtu6 os | None \<Rightarrow> ds_mtu6 os) \<and>
     ds_rpfilter n = (case Option.bind (attr_string tb DEV_ATTR_RPFILTER) system_resolve_rpfilter of
        Some v \<Rightarrow> v | None \<Rightarrow> ds_rpfilter os) \<and>
     ds_igmpversion n = (case attr_u32 tb DEV_ATTR_IGMPVERSION of
        Some v \<Rightarrow> if 1 \<le> v \<and> v \<le> 3 then v else ds_igmpversion os | None \<Rightarrow> ds_igmpversion os) \<and>
     ds_mldversion n = (case attr_u32 tb DEV_ATTR_MLDVERSION of
        Some v \<Rightarrow> if 1 \<le> v \<and> v \<le> 2 then v else ds_mldversion os | None \<Rightarrow> ds_mldversion os) \<and>
     ds_macaddr n = (case Option.bind (attr_string tb DEV_ATTR_MACADDR) ether_aton of
        Some v \<Rightarrow> v | None \<Rightarrow> ds_macaddr os) \<and>
     ds_accept_routing_header n =
       (case Option.bind (attr_string tb DEV_ATTR_IP6_ACCEPT_ROUTING_HEADER) routing_header_value of
        Some v \<Rightarrow> v | None \<Rightarrow> ds_accept_routing_header os) \<and>
     ds_multicast_router n = (case attr_u32 tb DEV_ATTR_MULTICAST_ROUTER of
        Some v \<Rightarrow> v | None \<Rightarrow> ds_multicast_router s) \<and>
     (has_flag (ds_flags n) DEV_OPT_MTU \<longleftrightarrow> valid_attr tb DEV_ATTR_MTU (\<lambda>v. v \<ge> 68) \<or> reported DEV_OPT_MTU) \<and>
     (has_flag (ds_flags n) DEV_OPT_MTU6 \<longleftrightarrow>
        valid_attr tb DEV_ATTR_MTU6 (\<lambda>v. v \<ge> 1280) \<or> reported DEV_OPT_MTU6) \<and>
     (has_flag (ds_flags n) DEV_OPT_IGMPVERSION \<longleftrightarrow>
        valid_attr tb DEV_ATTR_IGMPVERSION (\<lambda>v. 1 \<le> v \<and> v \<le> 3) \<or> reported DEV_OPT_IGMPVERSION) \<and>
     (has_flag (ds_flags n) DEV_OPT_MLDVERSION \<longleftrightarrow>
        valid_attr tb DEV_ATTR_MLDVERSION (\<lambda>v. 1 \<le> v \<and> v \<le> 2) \<or> reported DEV_OPT_MLDVERSION) \<and>
     (has_flag (ds_flags n) DEV_OPT_MULTICAST_ROUTER \<longleftrightarrow>
        valid_attr tb DEV_ATTR_MULTICAST_ROUTER (\<lambda>v. v \<le> 2) \<or> reported DEV_OPT_MULTICAST_ROUTER)"
  unfolding Let_def
  by (intro conjI;
      simp add: effective_simps at_least_def valid_attr_def split: option.split cong del: option.case_cong_weak)

text \<open>The options of bridge ports, which the kernel side never reports.\<close>

definition bridge_port_opts :: "u64 list" where
  "bridge_port_opts = [DEV_OPT_MULTICAST_TO_UNICAST, DEV_OPT_MULTICAST_ROUTER,
     DEV_OPT_MULTICAST_FAST_LEAVE, DEV_OPT_LEARNING, DEV_OPT_UNICAST_FLOOD]"

lemma dump_opt_cong:
  assumes "has_flag (ds_flags a) f = has_flag (ds_flags b) f"
    and "has_flag (ds_flags b) f \<Longrightarrow> es = es'"
  shows "dump_opt a f es = dump_opt b f es'"
  using assms by (simp add: dump_opt_def)

lemma init_flags_memoryless:
  "ds_flags (fst (init_settings ether_aton tb s)) = ds_flags (fst (init_settings ether_aton tb s'))"
  by (simp add: init_groups init_settings_def Let_def)

lemma init_no_default_macaddr:
  "\<not> has_flag (ds_flags (fst (init_settings ether_aton tb s))) DEV_OPT_DEFAULT_MACADDR"
  by (simp add: init_groups init_settings_def Let_def dev_opts has_flag_numeral)

lemma merge_has_flag:
  "has_flag (ds_flags (device_merge_settings os s)) f \<longleftrightarrow>
   has_flag (ds_flags s) f \<or> has_flag (ds_flags os OR ds_valid_flags os) f"
  by (simp add: device_merge_settings_def)

text \<open>A flagged setting is the configured one.\<close>

lemma init_values_memoryless:
  fixes ether_aton tb s s'
  defines "i \<equiv> fst (init_settings ether_aton tb s)" and "i' \<equiv> fst (init_settings ether_aton tb s')"
  shows
  "has_flag (ds_flags i) DEV_OPT_MTU \<Longrightarrow> ds_mtu i = ds_mtu i'"
  "has_flag (ds_flags i) DEV_OPT_MTU6 \<Longrightarrow> ds_mtu6 i = ds_mtu6 i'"
  "has_flag (ds_flags i) DEV_OPT_MACADDR \<Longrightarrow> ds_macaddr i = ds_macaddr i'"
  "has_flag (ds_flags i) DEV_OPT_TXQUEUELEN \<Longrightarrow> ds_txqueuelen i = ds_txqueuelen i'"
  "has_flag (ds_flags i) DEV_OPT_IPV6 \<Longrightarrow> ds_ipv6 i = ds_ipv6 i'"
  "has_flag (ds_flags i) DEV_OPT_IP6SEGMENTROUTING \<Longrightarrow> ds_ip6segmentrouting i = ds_ip6segmentrouting i'"
  "has_flag (ds_flags i) DEV_OPT_PROMISC \<Longrightarrow> ds_promisc i = ds_promisc i'"
  "has_flag (ds_flags i) DEV_OPT_RPFILTER \<Longrightarrow> ds_rpfilter i = ds_rpfilter i'"
  "has_flag (ds_flags i) DEV_OPT_ACCEPTLOCAL \<Longrightarrow> ds_acceptlocal i = ds_acceptlocal i'"
  "has_flag (ds_flags i) DEV_OPT_IGMPVERSION \<Longrightarrow> ds_igmpversion i = ds_igmpversion i'"
  "has_flag (ds_flags i) DEV_OPT_MLDVERSION \<Longrightarrow> ds_mldversion i = ds_mldversion i'"
  "has_flag (ds_flags i) DEV_OPT_NEIGHREACHABLETIME \<Longrightarrow> ds_neigh4reachabletime i = ds_neigh4reachabletime i'"
  "has_flag (ds_flags i) DEV_OPT_NEIGHREACHABLETIME \<Longrightarrow> ds_neigh6reachabletime i = ds_neigh6reachabletime i'"
  "has_flag (ds_flags i) DEV_OPT_NEIGHGCSTALETIME \<Longrightarrow> ds_neigh4gcstaletime i = ds_neigh4gcstaletime i'"
  "has_flag (ds_flags i) DEV_OPT_NEIGHGCSTALETIME \<Longrightarrow> ds_neigh6gcstaletime i = ds_neigh6gcstaletime i'"
  "has_flag (ds_flags i) DEV_OPT_NEIGHLOCKTIME \<Longrightarrow> ds_neigh4locktime i = ds_neigh4locktime i'"
  "has_flag (ds_flags i) DEV_OPT_DADTRANSMITS \<Longrightarrow> ds_dadtransmits i = ds_dadtransmits i'"
  "has_flag (ds_flags i) DEV_OPT_MULTICAST_TO_UNICAST \<Longrightarrow> ds_multicast_to_unicast i = ds_multicast_to_unicast i'"
  "has_flag (ds_flags i) DEV_OPT_MULTICAST_ROUTER \<Longrightarrow> ds_multicast_router i = ds_multicast_router i'"
  "has_flag (ds_flags i) DEV_OPT_MULTICAST_FAST_LEAVE \<Longrightarrow> ds_multicast_fast_leave i = ds_multicast_fast_leave i'"
  "has_flag (ds_flags i) DEV_OPT_MULTICAST \<Longrightarrow> ds_multicast i = ds_multicast i'"
  "has_flag (ds_flags i) DEV_OPT_LEARNING \<Longrightarrow> ds_learning i = ds_learning i'"
  "has_flag (ds_flags i) DEV_OPT_UNICAST_FLOOD \<Longrightarrow> ds_unicast_flood i = ds_unicast_flood i'"
  "has_flag (ds_flags i) DEV_OPT_SENDREDIRECTS \<Longrightarrow> ds_sendredirects i = ds_sendredirects i'"
  "has_flag (ds_flags i) DEV_OPT_DROP_V4_UNICAST_IN_L2_MULTICAST \<Longrightarrow> ds_drop_v4_unicast_in_l2_multicast i = ds_drop_v4_unicast_in_l2_multicast i'"
  "has_flag (ds_flags i) DEV_OPT_DROP_V6_UNICAST_IN_L2_MULTICAST \<Longrightarrow> ds_drop_v6_unicast_in_l2_multicast i = ds_drop_v6_unicast_in_l2_multicast i'"
  "has_flag (ds_flags i) DEV_OPT_DROP_GRATUITOUS_ARP \<Longrightarrow> ds_drop_gratuitous_arp i = ds_drop_gratuitous_arp i'"
  "has_flag (ds_flags i) DEV_OPT_DROP_UNSOLICITED_NA \<Longrightarrow> ds_drop_unsolicited_na i = ds_drop_unsolicited_na i'"
  "has_flag (ds_flags i) DEV_OPT_ARP_ACCEPT \<Longrightarrow> ds_arp_accept i = ds_arp_accept i'"
  "has_flag (ds_flags i) DEV_OPT_AUTH \<Longrightarrow> ds_auth i = ds_auth i'"
  "has_flag (ds_flags i) DEV_OPT_IP_FORWARDING \<Longrightarrow> ds_ip_forwarding i = ds_ip_forwarding i'"
  "has_flag (ds_flags i) DEV_OPT_IP6_FORWARDING \<Longrightarrow> ds_ip6_forwarding i = ds_ip6_forwarding i'"
  "has_flag (ds_flags i) DEV_OPT_IP6_ACCEPT_ROUTING_HEADER \<Longrightarrow> ds_accept_routing_header i = ds_accept_routing_header i'"
  "has_flag (ds_flags i) DEV_OPT_IP6_HOP_LIMIT \<Longrightarrow> ds_hop_limit i = ds_hop_limit i'"
  unfolding i_def i'_def
  by (simp_all add: init_groups init_settings_def Let_def dev_opts has_flag_numeral
      split: option.splits cong del: option.case_cong_weak)

text \<open>C19: Reloading the configuration of a device forgets the options it had before: the settings
  listed in its status depend on the new attributes and on what the kernel reported, not on
  the settings from before the reload, as long as the kernel reports none of the bridge port
  options (the code never reads those back).
\<close>

theorem reload_forgets_old_settings:
  assumes "\<forall>m \<in> set bridge_port_opts. \<not> has_flag (ds_flags os OR ds_valid_flags os) m"
  shows "dump_settings (device_merge_settings os (fst (init_settings ether_aton tb s))) =
         dump_settings (device_merge_settings os (fst (init_settings ether_aton tb s')))"
  unfolding dump_settings_def using assms
  by (intro arg_cong2 [where f = append] dump_opt_cong;
      simp add: merge_has_flag bridge_port_opts_def init_flags_memoryless [of ether_aton tb s s']
        device_merge_settings_def has_flag_or_right init_no_default_macaddr
        init_values_memoryless [of ether_aton tb s s'])

theorem reload_forgets_old_settings_witness:
  "dump_settings (device_merge_settings zero_settings (fst (init_settings (\<lambda>_. None)
     (\<lambda>a. if a = DEV_ATTR_MTU then Some (AttrInt32 1400) else None) zero_settings))) =
   dump_settings (device_merge_settings zero_settings (fst (init_settings (\<lambda>_. None)
     (\<lambda>a. if a = DEV_ATTR_MTU then Some (AttrInt32 1400) else None)
     (zero_settings\<lparr>ds_flags := DEV_OPT_TXQUEUELEN, ds_txqueuelen := 9\<rparr>))))"
  by (rule reload_forgets_old_settings, simp add: zero_settings_def bridge_port_opts_def)

end
