(* ===== verification/SystemNames.thy ===== *)
theory SystemNames
  imports Types
begin

text \<open>
  Name resolution of \<open>system-linux.c\<close>: route types and rule actions, route protocols and
  routing tables. The files below \<open>/etc/iproute2\<close> are arguments: the pieces that successive
  \<open>fgets\<close> calls return, or \<open>None\<close> when the file cannot be opened.
\<close>

section \<open>Definitions\<close>

text \<open>\<open>strtok\<close> on white space: the first token of a line and what follows it.\<close>

definition is_blank :: "char \<Rightarrow> bool" where
  "is_blank c \<longleftrightarrow> char_code c = 32 \<or> char_code c = 9 \<or> char_code c = 10"

definition strtok_blank :: "string \<Rightarrow> (string \<times> string) option" where
  "strtok_blank s =
     (let t = dropWhile is_blank s
      in if t = [] then None
         else Some (takeWhile (\<lambda>c. \<not> is_blank c) t, tl (dropWhile (\<lambda>c. \<not> is_blank c) t)))"

definition system_rtn_aton :: "string \<Rightarrow> u32 option" where
  "system_rtn_aton src =
     (if src = ''local'' then Some 2
      else if src = ''nat'' then Some 10
      else if src = ''broadcast'' then Some 3
      else if src = ''anycast'' then Some 4
      else if src = ''multicast'' then Some 5
      else if src = ''prohibit'' then Some 8
      else if src = ''unreachable'' then Some 7
      else if src = ''blackhole'' then Some 6
      else if src = ''xresolve'' then Some 11
      else if src = ''unicast'' then Some 1
      else if src = ''throw'' then Some 9
      else if src = ''failed_policy'' then Some 12
      else let (r, e) = strtoul 0 src; n = word_of_nat r :: u32
           in if e \<noteq> [] \<or> e = src \<or> n > 255 then None else Some n)"

definition system_resolve_rt_type :: "string \<Rightarrow> u32 option" where
  "system_resolve_rt_type = system_rtn_aton"

definition system_resolve_iprule_action :: "string \<Rightarrow> u32 option" where
  "system_resolve_iprule_action = system_rtn_aton"

text \<open>The first line of an \<open>iproute2\<close> file that gives a number to the name.\<close>

fun lookup_iproute2 :: "string \<Rightarrow> string list \<Rightarrow> u32 option" where
  "lookup_iproute2 name [] = None"
| "lookup_iproute2 name (buf # bufs) =
     (case strtok_blank buf of
        None \<Rightarrow> lookup_iproute2 name bufs
      | Some (e, rest) \<Rightarrow>
          if take 1 e = ''#'' then lookup_iproute2 name bufs
          else (case strtok_blank rest of
                  None \<Rightarrow> lookup_iproute2 name bufs
                | Some (e', _) \<Rightarrow>
                    if e' = name then Some (word_of_nat (fst (strtoul 10 e)))
                    else lookup_iproute2 name bufs))"

definition system_resolve_rt_proto :: "string list option \<Rightarrow> string \<Rightarrow> u32 option" where
  "system_resolve_rt_proto rt_protos type =
     (let (r, e) = strtoul 0 type;
          n = word_of_nat r :: u32;
          proto =
            (if e = [] \<and> e \<noteq> type then n
             else if type = ''unspec'' then 0
             else if type = ''kernel'' then 2
             else if type = ''boot'' then 3
             else if type = ''static'' then 4
             else case rt_protos of
                    None \<Rightarrow> 256
                  | Some bufs \<Rightarrow> (case lookup_iproute2 type bufs of None \<Rightarrow> 256 | Some p \<Rightarrow> p))
      in if proto > 255 then None else Some proto)"

definition RT_TABLE_UNSPEC :: u32 where "RT_TABLE_UNSPEC = 0"
definition RT_TABLE_DEFAULT :: u32 where "RT_TABLE_DEFAULT = 253"
definition RT_TABLE_MAIN :: u32 where "RT_TABLE_MAIN = 254"
definition RT_TABLE_LOCAL :: u32 where "RT_TABLE_LOCAL = 255"

definition system_resolve_rt_table :: "string list option \<Rightarrow> string \<Rightarrow> u32 option" where
  "system_resolve_rt_table rt_tables name =
     (let (r, e) = strtoul 0 name;
          n = word_of_nat r :: u32;
          table =
            (if n > 0 \<and> e = [] then n
             else if name = ''default'' then RT_TABLE_DEFAULT
             else if name = ''main'' then RT_TABLE_MAIN
             else if name = ''local'' then RT_TABLE_LOCAL
             else case rt_tables of
                    None \<Rightarrow> RT_TABLE_UNSPEC
                  | Some bufs \<Rightarrow>
                      (case lookup_iproute2 name bufs of None \<Rightarrow> RT_TABLE_UNSPEC | Some t \<Rightarrow> t))
      in if table = RT_TABLE_UNSPEC then None else Some table)"

definition system_is_default_rt_table :: "u32 \<Rightarrow> bool" where
  "system_is_default_rt_table t \<longleftrightarrow> t = RT_TABLE_MAIN"

section \<open>Lemmas\<close>

lemma resolve_kernel: "system_resolve_rt_proto files ''kernel'' = Some 2"
  by (simp add: system_resolve_rt_proto_def strtoul_def is_space_def char_code_def digit_val_def)

lemma resolve_actions:
  "system_resolve_iprule_action ''unreachable'' = Some 7"
  "system_resolve_iprule_action ''failed_policy'' = Some 12"
  by (simp_all add: system_resolve_iprule_action_def system_rtn_aton_def)

lemma resolve_rt_table_nonzero: "system_resolve_rt_table files name = Some t \<Longrightarrow> t \<noteq> 0"
  by (auto simp: system_resolve_rt_table_def RT_TABLE_UNSPEC_def Let_def split: prod.splits if_splits)

end
