(* ===== verification/RouteConfig.thy ===== *)
theory RouteConfig
  imports IfAddr SystemNames
begin

text \<open>
  How \<open>src/interface-ip.c\<close> reads static neighbours and routes from attributes
  (\<open>interface_ip_add_neighbor\<close>, \<open>interface_ip_add_route\<close>) and which interface a host
  route goes to (\<open>interface_ip_add_target_route\<close>).

  The functions that insert into a versioned tree of libubox (\<open>vlist_add\<close>) are given the
  insertion as an argument; the interfaces are a list in the order of their tree.
\<close>

unbundle bit_operations_syntax

type_synonym ifaces = "(ifid \<times> interface) list"

text \<open>What the rest of the system provides: host name parsers, tables on disk, the clock.\<close>

record parse_env =
  pe_inet_aton :: inet_aton
  pe_inet_pton :: inet_pton
  pe_ether_aton :: "string \<Rightarrow> u8 list option"
  pe_rt_protos :: "string list option"
  pe_rt_tables :: "string list option"
  pe_rtime :: int

section \<open>Attributes\<close>

datatype route_attr =
    ROUTE_INTERFACE | ROUTE_TARGET | ROUTE_MASK | ROUTE_GATEWAY | ROUTE_METRIC | ROUTE_MTU
  | ROUTE_VALID | ROUTE_TABLE | ROUTE_SOURCE | ROUTE_ONLINK | ROUTE_TYPE | ROUTE_PROTO
  | ROUTE_DISABLED | ROUTE_ADVMSS

fun route_attr_policy :: "route_attr \<Rightarrow> string \<times> blobmsg_type" where
  "route_attr_policy ROUTE_INTERFACE = (''interface'', BLOBMSG_TYPE_STRING)"
| "route_attr_policy ROUTE_TARGET = (''target'', BLOBMSG_TYPE_STRING)"
| "route_attr_policy ROUTE_MASK = (''netmask'', BLOBMSG_TYPE_STRING)"
| "route_attr_policy ROUTE_GATEWAY = (''gateway'', BLOBMSG_TYPE_STRING)"
| "route_attr_policy ROUTE_METRIC = (''metric'', BLOBMSG_TYPE_INT32)"
| "route_attr_policy ROUTE_MTU = (''mtu'', BLOBMSG_TYPE_INT32)"
| "route_attr_policy ROUTE_TABLE = (''table'', BLOBMSG_TYPE_STRING)"
| "route_attr_policy ROUTE_VALID = (''valid'', BLOBMSG_TYPE_INT32)"
| "route_attr_policy ROUTE_SOURCE = (''source'', BLOBMSG_TYPE_STRING)"
| "route_attr_policy ROUTE_ONLINK = (''onlink'', BLOBMSG_TYPE_BOOL)"
| "route_attr_policy ROUTE_TYPE = (''type'', BLOBMSG_TYPE_STRING)"
| "route_attr_policy ROUTE_PROTO = (''proto'', BLOBMSG_TYPE_STRING)"
| "route_attr_policy ROUTE_DISABLED = (''disabled'', BLOBMSG_TYPE_BOOL)"
| "route_attr_policy ROUTE_ADVMSS = (''advmss'', BLOBMSG_TYPE_INT32)"

datatype neighbor_attr =
    NEIGHBOR_INTERFACE | NEIGHBOR_ADDRESS | NEIGHBOR_MAC | NEIGHBOR_PROXY | NEIGHBOR_ROUTER

fun neighbor_attr_policy :: "neighbor_attr \<Rightarrow> string \<times> blobmsg_type" where
  "neighbor_attr_policy NEIGHBOR_INTERFACE = (''interface'', BLOBMSG_TYPE_STRING)"
| "neighbor_attr_policy NEIGHBOR_ADDRESS = (''ipaddr'', BLOBMSG_TYPE_STRING)"
| "neighbor_attr_policy NEIGHBOR_MAC = (''mac'', BLOBMSG_TYPE_STRING)"
| "neighbor_attr_policy NEIGHBOR_PROXY = (''proxy'', BLOBMSG_TYPE_BOOL)"
| "neighbor_attr_policy NEIGHBOR_ROUTER = (''router'', BLOBMSG_TYPE_BOOL)"

section \<open>Neighbours and routes\<close>

text \<open>\<open>vlist_find(&interfaces, name, ...)\<close>.\<close>

definition find_iface :: "ifaces \<Rightarrow> string \<Rightarrow> (ifid \<times> interface) option" where
  "find_iface ifs name = find (\<lambda>(i, f). if_name f = name) ifs"

text \<open>
  The interface a parsed object belongs to: the given one (its \<open>proto_ip\<close> settings) or the
  one that the attribute names (its \<open>config_ip\<close> settings, marked \<open>True\<close>).
\<close>

definition attr_iface ::
  "ifaces \<Rightarrow> (ifid \<times> interface) option \<Rightarrow> string option \<Rightarrow> (bool \<times> ifid \<times> interface) option" where
  "attr_iface ifs iface name =
     (case iface of
        Some f \<Rightarrow> Some (False, f)
      | None \<Rightarrow> (case name of None \<Rightarrow> None | Some n \<Rightarrow> map_option (Pair True) (find_iface ifs n)))"

definition v6_flag :: "bool \<Rightarrow> u32" where
  "v6_flag v6 = (if v6 then DEVADDR_INET6 else DEVADDR_INET4)"

definition parse_neighbor ::
  "parse_env \<Rightarrow> neighbor_attr attr_tb \<Rightarrow> bool \<Rightarrow> device_neighbor option" where
  "parse_neighbor E tb v6 =
     (let neighbor = zero_neighbor\<lparr>nb_flags := v6_flag v6\<rparr>
      in case Option.bind (attr_string tb NEIGHBOR_ADDRESS) (pe_inet_pton E v6) of
           None \<Rightarrow> None
         | Some bs \<Rightarrow>
             let neighbor = neighbor\<lparr>nb_addr := store_bytes bs (nb_addr neighbor)\<rparr>;
                 with_mac =
                   (case attr_string tb NEIGHBOR_MAC of
                      None \<Rightarrow> Some neighbor
                    | Some s \<Rightarrow>
                        map_option (\<lambda>ea. neighbor\<lparr>nb_flags := nb_flags neighbor OR DEVNEIGH_MAC,
                                                  nb_macaddr := ea\<rparr>) (pe_ether_aton E s))
             in map_option (\<lambda>n.
                  let n = (case attr_bool tb NEIGHBOR_PROXY of None \<Rightarrow> n | Some b \<Rightarrow> n\<lparr>nb_proxy := b\<rparr>)
                  in case attr_bool tb NEIGHBOR_ROUTER of None \<Rightarrow> n | Some b \<Rightarrow> n\<lparr>nb_router := b\<rparr>)
                  with_mac)"

text \<open>\<open>add config i n s\<close> is \<open>vlist_add\<close> on the neighbour tree of interface \<open>i\<close>.\<close>

definition interface_ip_add_neighbor ::
  "(bool \<Rightarrow> ifid \<Rightarrow> device_neighbor \<Rightarrow> 's \<Rightarrow> 's) \<Rightarrow> parse_env \<Rightarrow> ifaces \<Rightarrow> (ifid \<times> interface) option \<Rightarrow>
   neighbor_attr attr_tb \<Rightarrow> bool \<Rightarrow> 's \<Rightarrow> 's" where
  "interface_ip_add_neighbor add E ifs iface tb v6 s =
     (case attr_iface ifs iface (attr_string tb NEIGHBOR_INTERFACE) of
        None \<Rightarrow> s
      | Some (config, i, f) \<Rightarrow>
          (case parse_neighbor E tb v6 of None \<Rightarrow> s | Some n \<Rightarrow> add config i n s))"

definition interface_set_route_info :: "interface option \<Rightarrow> device_route \<Rightarrow> device_route" where
  "interface_set_route_info iface route =
     (case iface of
        None \<Rightarrow> route
      | Some f \<Rightarrow>
          let v6 = is_inet6 (rt_flags route);
              route = (if \<not> has_flag (rt_flags route) DEVROUTE_METRIC
                       then route\<lparr>rt_metric := if_metric f\<rparr> else route)
          in if \<not> has_flag (rt_flags route) DEVROUTE_TABLE then
               let route = route\<lparr>rt_table := (if v6 then if_ip6table f else if_ip4table f)\<rparr>
               in if rt_table route \<noteq> 0
                  then route\<lparr>rt_flags := rt_flags route OR DEVROUTE_SRCTABLE\<rparr> else route
             else route)"

definition max_plen :: "bool \<Rightarrow> u32" where
  "max_plen v6 = (if v6 then 128 else 32)"

text \<open>The target of a route: netmask, then address with an optional netmask of its own.\<close>

definition parse_route_target ::
  "parse_env \<Rightarrow> route_attr attr_tb \<Rightarrow> bool \<Rightarrow> device_route \<Rightarrow> device_route option" where
  "parse_route_target E tb v6 route =
     (let route = route\<lparr>rt_flags := v6_flag v6, rt_mask := max_plen v6\<rparr>;
          route' = (case attr_string tb ROUTE_MASK of
                      None \<Rightarrow> Some route
                    | Some s \<Rightarrow>
                        let m = parse_netmask_string (pe_inet_aton E) s v6
                        in if m > max_plen v6 then None else Some (route\<lparr>rt_mask := m\<rparr>))
      in case route' of
           None \<Rightarrow> None
         | Some route \<Rightarrow>
             (case attr_string tb ROUTE_TARGET of
                None \<Rightarrow> Some route
              | Some s \<Rightarrow>
                  map_option (\<lambda>(a, m). route\<lparr>rt_addr := a, rt_mask := m\<rparr>)
                    (parse_ip_and_netmask (pe_inet_aton E) (pe_inet_pton E) v6 s
                       (rt_addr route) (rt_mask route))))"

definition parse_route_gateway ::
  "parse_env \<Rightarrow> route_attr attr_tb \<Rightarrow> bool \<Rightarrow> device_route \<Rightarrow> device_route option" where
  "parse_route_gateway E tb v6 route =
     (case attr_string tb ROUTE_GATEWAY of
        None \<Rightarrow> Some route
      | Some s \<Rightarrow> map_option (\<lambda>bs. route\<lparr>rt_nexthop := store_bytes bs (rt_nexthop route)\<rparr>)
                    (pe_inet_pton E v6 s))"

definition parse_route_metrics :: "route_attr attr_tb \<Rightarrow> device_route \<Rightarrow> device_route" where
  "parse_route_metrics tb route =
     (let route = (case attr_u32 tb ROUTE_METRIC of None \<Rightarrow> route
                   | Some v \<Rightarrow> route\<lparr>rt_metric := c_int v, rt_flags := rt_flags route OR DEVROUTE_METRIC\<rparr>);
          route = (case attr_u32 tb ROUTE_MTU of None \<Rightarrow> route
                   | Some v \<Rightarrow> route\<lparr>rt_mtu := c_int v, rt_flags := rt_flags route OR DEVROUTE_MTU\<rparr>)
      in case attr_u32 tb ROUTE_ADVMSS of None \<Rightarrow> route
         | Some v \<Rightarrow> route\<lparr>rt_advmss := v, rt_flags := rt_flags route OR DEVROUTE_ADVMSS\<rparr>)"

definition parse_route_source ::
  "parse_env \<Rightarrow> route_attr attr_tb \<Rightarrow> bool \<Rightarrow> device_route \<Rightarrow> device_route option" where
  "parse_route_source E tb v6 route =
     (case attr_string tb ROUTE_SOURCE of
        None \<Rightarrow> Some route
      | Some s \<Rightarrow>
          (case strtok CHR ''/'' s of
             None \<Rightarrow> None
           | Some (addr, rest) \<Rightarrow>
               map_option (\<lambda>bs. route\<lparr>rt_source := store_bytes bs (rt_source route),
                 rt_sourcemask := (case strtok CHR ''/'' rest of
                                     None \<Rightarrow> max_plen v6 | Some (m, _) \<Rightarrow> to_u32 (atoi m))\<rparr>)
                 (pe_inet_pton E v6 addr)))"

definition parse_route_table ::
  "parse_env \<Rightarrow> route_attr attr_tb \<Rightarrow> device_route \<Rightarrow> device_route option" where
  "parse_route_table E tb route =
     (let route = (if attr_bool tb ROUTE_ONLINK = Some True
                   then route\<lparr>rt_flags := rt_flags route OR DEVROUTE_ONLINK\<rparr> else route)
      in case attr_string tb ROUTE_TABLE of
           None \<Rightarrow> Some route
         | Some s \<Rightarrow>
             map_option (\<lambda>t.
               let route = route\<lparr>rt_table := (if system_is_default_rt_table t then 0 else t)\<rparr>
               in if rt_table route \<noteq> 0
                  then route\<lparr>rt_flags := rt_flags route OR DEVROUTE_TABLE\<rparr> else route)
               (system_resolve_rt_table (pe_rt_tables E) s))"

definition parse_route_valid ::
  "parse_env \<Rightarrow> route_attr attr_tb \<Rightarrow> device_route \<Rightarrow> device_route" where
  "parse_route_valid E tb route =
     (case attr_u32 tb ROUTE_VALID of
        None \<Rightarrow> route
      | Some v \<Rightarrow>
          let valid_until = int (unat v) + pe_rtime E
          in if valid_until \<le> 2 ^ 63 - 1 \<and> v \<noteq> 0xffffffff
             then route\<lparr>rt_valid_until := valid_until\<rparr> else route)"

definition parse_route_type ::
  "parse_env \<Rightarrow> route_attr attr_tb \<Rightarrow> device_route \<Rightarrow> device_route option" where
  "parse_route_type E tb route =
     Option.bind
       (case attr_string tb ROUTE_TYPE of
          None \<Rightarrow> Some route
        | Some s \<Rightarrow> map_option (\<lambda>v. route\<lparr>rt_type := v, rt_flags := rt_flags route OR DEVROUTE_TYPE\<rparr>)
                      (system_resolve_rt_type s))
       (\<lambda>route. case attr_string tb ROUTE_PROTO of
          None \<Rightarrow> Some route
        | Some s \<Rightarrow> map_option (\<lambda>v. route\<lparr>rt_proto := v, rt_flags := rt_flags route OR DEVROUTE_PROTO\<rparr>)
                      (system_resolve_rt_proto (pe_rt_protos E) s))"

definition parse_route ::
  "parse_env \<Rightarrow> interface \<Rightarrow> route_attr attr_tb \<Rightarrow> bool \<Rightarrow> device_route option" where
  "parse_route E iface tb v6 =
     Option.bind (parse_route_target E tb v6 zero_route) (\<lambda>route.
     Option.bind (parse_route_gateway E tb v6 route) (\<lambda>route.
     Option.bind (parse_route_source E tb v6 (parse_route_metrics tb route)) (\<lambda>route.
     Option.bind (parse_route_table E tb route) (\<lambda>route.
     Option.bind (parse_route_type E tb (parse_route_valid E tb route)) (\<lambda>route.
     Some (interface_set_route_info (Some iface) route))))))"

definition interface_ip_add_route ::
  "(bool \<Rightarrow> ifid \<Rightarrow> device_route \<Rightarrow> 's \<Rightarrow> 's) \<Rightarrow> parse_env \<Rightarrow> ifaces \<Rightarrow> (ifid \<times> interface) option \<Rightarrow>
   route_attr attr_tb \<Rightarrow> bool \<Rightarrow> 's \<Rightarrow> 's" where
  "interface_ip_add_route add E ifs iface tb v6 s =
     (if attr_bool tb ROUTE_DISABLED = Some True then s
      else case attr_iface ifs iface (attr_string tb ROUTE_INTERFACE) of
             None \<Rightarrow> s
           | Some (config, i, f) \<Rightarrow>
               (case parse_route E f tb v6 of None \<Rightarrow> s | Some r \<Rightarrow> add config i r s))"

section \<open>Host routes\<close>

text \<open>
  The search of \<open>interface_ip_add_target_route\<close>: \<open>Inl\<close> an interface that has the target
  on one of its links, or \<open>Inr\<close> the best route found.
\<close>

fun search_target ::
  "ifaces \<Rightarrow> ifid option \<Rightarrow> if_addr \<Rightarrow> bool \<Rightarrow> device_route option \<Rightarrow> ifid + device_route option" where
  "search_target [] excl addr v6 r_next = Inr r_next"
| "search_target ((i, f) # ifs) excl addr v6 r_next =
     (if Some i = excl then search_target ifs excl addr v6 r_next
      else if interface_ip_find_addr_target (if_proto_ip f) (if_config_ip f) addr v6 then Inl i
      else search_target ifs excl addr v6
             (interface_ip_find_route_target (if_proto_ip f) (if_config_ip f) addr v6 r_next))"

definition host_route :: "if_addr \<Rightarrow> bool \<Rightarrow> device_route \<Rightarrow> device_route" where
  "host_route addr v6 r_next =
     (let addrsize = (if v6 then 16 else 4) in
      zero_route\<lparr>rt_flags := v6_flag v6, rt_mask := max_plen v6,
        rt_addr := store_bytes (take addrsize addr) zero_addr,
        rt_nexthop := rt_nexthop r_next, rt_mtu := rt_mtu r_next, rt_metric := rt_metric r_next,
        rt_table := rt_table r_next, rt_iface := rt_iface r_next\<rparr>)"

text \<open>
  \<open>add i r s\<close> is \<open>vlist_add\<close> on the host routes of interface \<open>i\<close>. The interface of a
  route is set before the route is enabled, and only enabled routes are found, so the code
  uses \<open>r_next->iface\<close> without a check.
\<close>

definition interface_ip_add_target_route ::
  "(ifid \<Rightarrow> device_route \<Rightarrow> 's \<Rightarrow> 's) \<Rightarrow> ifaces \<Rightarrow> if_addr \<Rightarrow> bool \<Rightarrow> (ifid \<times> interface) option \<Rightarrow> bool \<Rightarrow>
   's \<Rightarrow> ifid option \<times> 's" where
  "interface_ip_add_target_route add ifs addr v6 iface exclude s =
     (let addrsize = (if v6 then 16 else 4);
          exclude_iface = (if exclude then map_option fst iface else None);
          iface = (if exclude then None else iface);
          defaultroute_target = (take addrsize addr = replicate addrsize 0);
          found = (case iface of
                     Some f \<Rightarrow> search_target [f] None addr v6 None
                   | None \<Rightarrow> search_target ifs exclude_iface addr v6 None)
      in case found of
           Inl i \<Rightarrow> (Some i, s)
         | Inr None \<Rightarrow> (None, s)
         | Inr (Some r_next) \<Rightarrow>
             if defaultroute_target then (rt_iface r_next, s)
             else case rt_iface r_next of
                    None \<Rightarrow> (None, s)
                  | Some i \<Rightarrow> (Some i, add i (host_route addr v6 r_next) s))"

section \<open>Lemmas\<close>

lemma is_inet6_bit: "is_inet6 f \<longleftrightarrow> bit f 0"
  using and_single_bit [of f 0] by (simp add: is_inet6_def devaddr_flags)

lemma is_inet6_or: "is_inet6 (a OR b) \<longleftrightarrow> is_inet6 a \<or> is_inet6 b"
  by (simp add: is_inet6_bit bit_or_iff)

lemma is_inet6_const:
  "is_inet6 DEVADDR_INET6" "\<not> is_inet6 DEVADDR_INET4" "\<not> is_inet6 DEVROUTE_METRIC"
  "\<not> is_inet6 DEVROUTE_MTU" "\<not> is_inet6 DEVROUTE_PROTO" "\<not> is_inet6 DEVROUTE_TABLE"
  "\<not> is_inet6 DEVROUTE_SRCTABLE" "\<not> is_inet6 DEVROUTE_ONLINK" "\<not> is_inet6 DEVROUTE_TYPE"
  "\<not> is_inet6 DEVROUTE_ADVMSS" "\<not> is_inet6 DEVADDR_OFFLINK" "\<not> is_inet6 DEVADDR_EXTERNAL"
  by (simp_all add: is_inet6_def devaddr_flags)

lemma v6_flag_simps [simp]:
  "is_inet6 (v6_flag v6) = v6"
  "\<not> has_flag (v6_flag v6) DEVROUTE_METRIC" "\<not> has_flag (v6_flag v6) DEVROUTE_TABLE"
  "\<not> has_flag (v6_flag v6) DEVROUTE_SRCTABLE" "\<not> has_flag (v6_flag v6) DEVADDR_EXTERNAL"
  "\<not> has_flag (v6_flag v6) DEVADDR_OFFLINK"
  by (simp_all add: v6_flag_def is_inet6_const, simp_all add: has_flag_def devaddr_flags)

lemma route_flag_consts:
  "has_flag DEVROUTE_METRIC DEVROUTE_METRIC" "has_flag DEVROUTE_TABLE DEVROUTE_TABLE"
  "has_flag DEVROUTE_SRCTABLE DEVROUTE_SRCTABLE"
  "\<not> has_flag DEVROUTE_METRIC DEVROUTE_TABLE" "\<not> has_flag DEVROUTE_METRIC DEVROUTE_SRCTABLE"
  "\<not> has_flag DEVROUTE_TABLE DEVROUTE_METRIC" "\<not> has_flag DEVROUTE_TABLE DEVROUTE_SRCTABLE"
  "\<not> has_flag DEVROUTE_SRCTABLE DEVROUTE_METRIC" "\<not> has_flag DEVROUTE_SRCTABLE DEVROUTE_TABLE"
  "\<not> has_flag DEVROUTE_SRCTABLE DEVADDR_EXTERNAL"
  "\<not> has_flag DEVROUTE_MTU DEVROUTE_METRIC" "\<not> has_flag DEVROUTE_MTU DEVROUTE_TABLE"
  "\<not> has_flag DEVROUTE_MTU DEVROUTE_SRCTABLE"
  "\<not> has_flag DEVROUTE_ADVMSS DEVROUTE_METRIC" "\<not> has_flag DEVROUTE_ADVMSS DEVROUTE_TABLE"
  "\<not> has_flag DEVROUTE_ADVMSS DEVROUTE_SRCTABLE"
  "\<not> has_flag DEVROUTE_ONLINK DEVROUTE_METRIC" "\<not> has_flag DEVROUTE_ONLINK DEVROUTE_TABLE"
  "\<not> has_flag DEVROUTE_ONLINK DEVROUTE_SRCTABLE"
  "\<not> has_flag DEVROUTE_TYPE DEVROUTE_METRIC" "\<not> has_flag DEVROUTE_TYPE DEVROUTE_TABLE"
  "\<not> has_flag DEVROUTE_TYPE DEVROUTE_SRCTABLE"
  "\<not> has_flag DEVROUTE_PROTO DEVROUTE_METRIC" "\<not> has_flag DEVROUTE_PROTO DEVROUTE_TABLE"
  "\<not> has_flag DEVROUTE_PROTO DEVROUTE_SRCTABLE"
  by (simp_all add: has_flag_def devaddr_flags)

lemmas route_flag_simps = is_inet6_or is_inet6_const route_flag_consts

text \<open>What \<open>interface_set_route_info\<close> establishes, and that doing it again changes nothing.\<close>

definition route_info_ok :: "interface \<Rightarrow> device_route \<Rightarrow> bool" where
  "route_info_ok f r \<longleftrightarrow>
     (\<not> has_flag (rt_flags r) DEVROUTE_METRIC \<longrightarrow> rt_metric r = if_metric f) \<and>
     (\<not> has_flag (rt_flags r) DEVROUTE_TABLE \<longrightarrow>
        rt_table r = (if is_inet6 (rt_flags r) then if_ip6table f else if_ip4table f) \<and>
        (rt_table r \<noteq> 0 \<longrightarrow> has_flag (rt_flags r) DEVROUTE_SRCTABLE))"

lemma set_route_info_ok: "route_info_ok f (interface_set_route_info (Some f) r)"
  by (simp add: route_info_ok_def interface_set_route_info_def Let_def route_flag_simps)

lemma or_absorb_srctable:
  "has_flag (f :: u32) DEVROUTE_SRCTABLE \<Longrightarrow> f OR DEVROUTE_SRCTABLE = f"
  using has_flag_single_bit [of f 8] or_single_bit [of f 8] by (simp add: devaddr_flags)

lemma set_route_info_stable:
  assumes "route_info_ok f r"
  shows "interface_set_route_info (Some f) r = r"
  using assms by (simp add: route_info_ok_def interface_set_route_info_def Let_def
      route_flag_simps or_absorb_srctable)

lemma length_store_zero: "length bs \<le> 16 \<Longrightarrow> length a = 16 \<Longrightarrow> length (store_bytes bs a) = 16"
  by simp

text \<open>Documented behaviour of \<open>inet_pton\<close>: four bytes for IPv4, sixteen for IPv6.\<close>

definition pton_lengths :: "inet_pton \<Rightarrow> bool" where
  "pton_lengths pton \<longleftrightarrow> (\<forall>v6 s bs. pton v6 s = Some bs \<longrightarrow> length bs = (if v6 then 16 else 4))"

lemma pton_length_le: "pton_lengths pton \<Longrightarrow> pton v6 s = Some bs \<Longrightarrow> length bs \<le> 16"
  by (auto simp: pton_lengths_def split: if_splits)

text \<open>The shape of a route while it is read: family, prefix length, sizes of the addresses.\<close>

definition route_shape :: "bool \<Rightarrow> device_route \<Rightarrow> bool" where
  "route_shape v6 r \<longleftrightarrow> is_inet6 (rt_flags r) = v6 \<and> rt_mask r \<le> max_plen v6
     \<and> length (rt_addr r) = 16 \<and> length (rt_nexthop r) = 16 \<and> length (rt_source r) = 16"

definition table_flag_ok :: "device_route \<Rightarrow> bool" where
  "table_flag_ok r \<longleftrightarrow> (has_flag (rt_flags r) DEVROUTE_TABLE \<longleftrightarrow> rt_table r \<noteq> 0)"

lemma zero_route_lengths [simp]:
  "length (rt_addr zero_route) = 16" "length (rt_nexthop zero_route) = 16"
  "length (rt_source zero_route) = 16"
  by (simp_all add: zero_route_def zero_addr_def)

lemma zero_route_fields [simp]:
  "rt_table zero_route = 0" "rt_valid_until zero_route = 0" "rt_flags zero_route = 0"
  "rt_enabled zero_route = False" "rt_failed zero_route = False" "rt_metric zero_route = 0"
  "rt_iface zero_route = None"
  by (simp_all add: zero_route_def)

lemma parse_route_target_shape:
  assumes "parse_route_target E tb v6 zero_route = Some r" "pton_lengths (pe_inet_pton E)"
  shows "route_shape v6 r \<and> table_flag_ok r \<and> rt_valid_until r = 0"
  using assms
  by (auto simp: parse_route_target_def route_shape_def table_flag_ok_def max_plen_def Let_def
      parse_ip_and_netmask_def pton_length_le not_less
      split: option.splits if_splits prod.splits)

lemma parse_route_gateway_shape:
  assumes "parse_route_gateway E tb v6 r = Some r'" "pton_lengths (pe_inet_pton E)"
    and "route_shape v6 r \<and> table_flag_ok r \<and> rt_valid_until r = 0"
  shows "route_shape v6 r' \<and> table_flag_ok r' \<and> rt_valid_until r' = 0"
  using assms by (auto simp: parse_route_gateway_def route_shape_def table_flag_ok_def pton_length_le
      split: option.splits)

lemma parse_route_metrics_shape:
  assumes "route_shape v6 r \<and> table_flag_ok r \<and> rt_valid_until r = 0"
  shows "route_shape v6 (parse_route_metrics tb r) \<and> table_flag_ok (parse_route_metrics tb r)
    \<and> rt_valid_until (parse_route_metrics tb r) = 0"
  using assms by (simp add: parse_route_metrics_def route_shape_def table_flag_ok_def Let_def
      route_flag_simps split: option.split)

lemma parse_route_source_shape:
  assumes "parse_route_source E tb v6 r = Some r'" "pton_lengths (pe_inet_pton E)"
    and "route_shape v6 r \<and> table_flag_ok r \<and> rt_valid_until r = 0"
  shows "route_shape v6 r' \<and> table_flag_ok r' \<and> rt_valid_until r' = 0"
  using assms by (auto simp: parse_route_source_def route_shape_def table_flag_ok_def pton_length_le
      split: option.splits)

lemma parse_route_table_shape:
  assumes "parse_route_table E tb r = Some r'"
    and "route_shape v6 r \<and> rt_table r = 0 \<and> table_flag_ok r \<and> rt_valid_until r = 0"
  shows "route_shape v6 r' \<and> table_flag_ok r' \<and> rt_valid_until r' = 0"
proof -
  define r0 where "r0 = (if attr_bool tb ROUTE_ONLINK = Some True
    then r\<lparr>rt_flags := rt_flags r OR DEVROUTE_ONLINK\<rparr> else r)"
  have r0: "route_shape v6 r0" "rt_table r0 = 0" "\<not> has_flag (rt_flags r0) DEVROUTE_TABLE"
    "rt_valid_until r0 = 0"
    using assms(2) by (simp_all add: r0_def route_shape_def table_flag_ok_def route_flag_simps)
  show ?thesis
  proof (cases "attr_string tb ROUTE_TABLE")
    case None
    then show ?thesis using assms(1) r0
      by (simp add: parse_route_table_def table_flag_ok_def flip: r0_def)
  next
    case (Some s)
    then obtain v where "r' = (let q = r0\<lparr>rt_table := v\<rparr> in
        if rt_table q \<noteq> 0 then q\<lparr>rt_flags := rt_flags q OR DEVROUTE_TABLE\<rparr> else q)"
      using assms(1) by (auto simp: parse_route_table_def Let_def simp flip: r0_def)
    with r0 show ?thesis by (simp add: Let_def route_shape_def table_flag_ok_def route_flag_simps)
  qed
qed

lemma parse_route_before_table:
  assumes "parse_route_target E tb v6 zero_route = Some r0"
    and "parse_route_gateway E tb v6 r0 = Some r1"
    and "parse_route_source E tb v6 (parse_route_metrics tb r1) = Some r2"
  shows "rt_table r2 = 0"
proof -
  have "rt_table r0 = 0" using assms(1)
    by (auto simp: parse_route_target_def zero_route_def Let_def split: option.splits if_splits)
  moreover have "rt_table r1 = rt_table r0" using assms(2)
    by (auto simp: parse_route_gateway_def split: option.splits)
  moreover have "rt_table (parse_route_metrics tb r1) = rt_table r1"
    by (simp add: parse_route_metrics_def Let_def split: option.split)
  moreover have "rt_table r2 = rt_table (parse_route_metrics tb r1)" using assms(3)
    by (auto simp: parse_route_source_def split: option.splits)
  ultimately show ?thesis by simp
qed

definition valid_until_ok :: "parse_env \<Rightarrow> route_attr attr_tb \<Rightarrow> device_route \<Rightarrow> bool" where
  "valid_until_ok E tb r \<longleftrightarrow> rt_valid_until r =
     (case attr_u32 tb ROUTE_VALID of
        None \<Rightarrow> 0
      | Some v \<Rightarrow> if v = 0xffffffff \<or> int (unat v) + pe_rtime E > 2 ^ 63 - 1 then 0
                  else pe_rtime E + int (unat v))"

lemma parse_route_valid_shape:
  assumes "route_shape v6 r \<and> table_flag_ok r \<and> rt_valid_until r = 0"
  shows "route_shape v6 (parse_route_valid E tb r) \<and> table_flag_ok (parse_route_valid E tb r)
    \<and> valid_until_ok E tb (parse_route_valid E tb r)"
  using assms by (auto simp: parse_route_valid_def route_shape_def table_flag_ok_def
      valid_until_ok_def Let_def split: option.splits)

lemma parse_route_type_shape:
  assumes "parse_route_type E tb r = Some r'"
    and "route_shape v6 r \<and> table_flag_ok r \<and> valid_until_ok E tb r"
  shows "route_shape v6 r' \<and> table_flag_ok r' \<and> valid_until_ok E tb r'"
proof -
  obtain r0 where r0: "r0 = r \<or> (\<exists>v. r0 = r\<lparr>rt_type := v, rt_flags := rt_flags r OR DEVROUTE_TYPE\<rparr>)"
    and r': "r' = r0 \<or> (\<exists>v. r' = r0\<lparr>rt_proto := v, rt_flags := rt_flags r0 OR DEVROUTE_PROTO\<rparr>)"
    using assms(1) unfolding parse_route_type_def by (auto split: option.splits bind_splits)
  from r0 assms(2) have "route_shape v6 r0 \<and> table_flag_ok r0 \<and> valid_until_ok E tb r0"
    by (elim disjE exE)
       (simp_all add: route_shape_def table_flag_ok_def valid_until_ok_def route_flag_simps)
  with r' show ?thesis
    by (elim disjE exE)
       (simp_all add: route_shape_def table_flag_ok_def valid_until_ok_def route_flag_simps)
qed

lemma set_route_info_shape:
  assumes "route_shape v6 r \<and> table_flag_ok r \<and> valid_until_ok E tb r"
  shows "route_shape v6 (interface_set_route_info (Some f) r) \<and>
    valid_until_ok E tb (interface_set_route_info (Some f) r)"
  using assms by (simp add: interface_set_route_info_def route_shape_def valid_until_ok_def Let_def
      route_flag_simps)

text \<open>All routes of an interface, in the order the search looks at them.\<close>

definition iface_routes :: "interface \<Rightarrow> device_route list" where
  "iface_routes f = ip_route (if_proto_ip f) @ ip_route (if_config_ip f)"

definition searched :: "ifid option \<Rightarrow> ifaces \<Rightarrow> device_route list" where
  "searched excl ifs = concat (map (\<lambda>(i, f). iface_routes f) (filter (\<lambda>(i, f). Some i \<noteq> excl) ifs))"

lemma find_ip_route_target_append:
  "find_ip_route_target (xs @ ys) a v6 res = find_ip_route_target ys a v6 (find_ip_route_target xs a v6 res)"
  by (simp add: find_ip_route_target_fold)

lemma search_target_Inr:
  assumes "\<forall>(i, f) \<in> set ifs. Some i \<noteq> excl \<longrightarrow>
    \<not> interface_ip_find_addr_target (if_proto_ip f) (if_config_ip f) a v6"
  shows "search_target ifs excl a v6 res = Inr (find_ip_route_target (searched excl ifs) a v6 res)"
  using assms
  by (induction ifs excl a v6 res rule: search_target.induct)
     (auto simp: searched_def iface_routes_def find_ip_route_target_append interface_ip_find_route_target_def)

lemma search_target_Inl:
  assumes "search_target ifs excl a v6 res = Inl i"
  shows "\<exists>f. (i, f) \<in> set ifs \<and> Some i \<noteq> excl \<and>
    interface_ip_find_addr_target (if_proto_ip f) (if_config_ip f) a v6"
  using assms
  by (induction ifs excl a v6 res rule: search_target.induct) (auto split: if_splits)

lemma search_target_Inr_none:
  assumes "search_target ifs excl a v6 res = Inr res'"
  shows "\<forall>(i, f) \<in> set ifs. Some i \<noteq> excl \<longrightarrow>
    \<not> interface_ip_find_addr_target (if_proto_ip f) (if_config_ip f) a v6"
  using assms
  by (induction ifs excl a v6 res arbitrary: res' rule: search_target.induct) (auto split: if_splits)

lemma set_searched:
  "r \<in> set (searched excl ifs) \<longleftrightarrow> (\<exists>i f. (i, f) \<in> set ifs \<and> Some i \<noteq> excl \<and> r \<in> set (iface_routes f))"
  by (auto simp: searched_def)

lemma best_route:
  assumes "find_ip_route_target rs a v6 None = Some r"
  shows "r \<in> set rs \<and> route_candidate a v6 r \<and>
    (\<forall>r' \<in> set rs. route_candidate a v6 r' \<longrightarrow> rt_mask r' \<le> rt_mask r)"
  using route_better_fold [of None "filter (route_candidate a v6) rs" r] assms
  unfolding find_ip_route_target_fold by auto

text \<open>Every enabled route of an interface names that interface.\<close>

definition routes_owned :: "ifaces \<Rightarrow> bool" where
  "routes_owned ifs \<longleftrightarrow>
     (\<forall>(i, f) \<in> set ifs. \<forall>r \<in> set (iface_routes f). rt_enabled r \<longrightarrow> rt_iface r = Some i)"

section \<open>Properties\<close>

text \<open>C17: Every route that is accepted from attributes is well-formed: its family is the one asked
  for, its prefix length fits the family, its addresses have their full size, it expires at
  the given time (never, for the reserved value or on overflow), and without a metric or table
  of its own it carries those of the interface. Its tree key no longer changes when the route
  information is applied again, as it is when the interface comes up.
\<close>

theorem parse_route_well_formed:
  assumes "parse_route E iface tb v6 = Some r" and "pton_lengths (pe_inet_pton E)"
  shows "route_shape v6 r \<and> route_info_ok iface r \<and> valid_until_ok E tb r \<and>
    route_key (interface_set_route_info (Some iface) r) = route_key r"
proof -
  obtain r0 r1 r2 r3 r4 where
    r0: "parse_route_target E tb v6 zero_route = Some r0" and
    r1: "parse_route_gateway E tb v6 r0 = Some r1" and
    r2: "parse_route_source E tb v6 (parse_route_metrics tb r1) = Some r2" and
    r3: "parse_route_table E tb r2 = Some r3" and
    r4: "parse_route_type E tb (parse_route_valid E tb r3) = Some r4" and
    r: "r = interface_set_route_info (Some iface) r4"
    using assms(1) by (auto simp: parse_route_def split: bind_splits)
  have "route_shape v6 r1 \<and> table_flag_ok r1 \<and> rt_valid_until r1 = 0"
    using parse_route_gateway_shape [OF r1 assms(2)] parse_route_target_shape [OF r0 assms(2)] by blast
  then have "route_shape v6 r2 \<and> table_flag_ok r2 \<and> rt_valid_until r2 = 0"
    using parse_route_source_shape [OF r2 assms(2)] parse_route_metrics_shape by blast
  with parse_route_before_table [OF r0 r1 r2]
  have "route_shape v6 r3 \<and> table_flag_ok r3 \<and> rt_valid_until r3 = 0"
    using parse_route_table_shape [OF r3] by blast
  then have "route_shape v6 r4 \<and> table_flag_ok r4 \<and> valid_until_ok E tb r4"
    using parse_route_type_shape [OF r4] parse_route_valid_shape by blast
  then show ?thesis
    using set_route_info_shape [of v6 r4] set_route_info_ok [of iface r4]
      set_route_info_stable [OF set_route_info_ok] r by metis
qed

definition example_env :: parse_env where
  "example_env = \<lparr>pe_inet_aton = (\<lambda>_. None), pe_inet_pton = (\<lambda>v6 s. if v6 then None else Some [10, 0, 0, 1]),
     pe_ether_aton = (\<lambda>_. None), pe_rt_protos = None, pe_rt_tables = None, pe_rtime = 50\<rparr>"

theorem parse_route_well_formed_witness:
  "\<exists>r. parse_route example_env (zero_interface\<lparr>if_metric := 5\<rparr>)
       (\<lambda>a. if a = ROUTE_GATEWAY then Some (AttrString ''10.0.0.1'')
            else if a = ROUTE_VALID then Some (AttrInt32 100) else None) False = Some r
     \<and> rt_mask r = 32 \<and> rt_metric r = 5 \<and> rt_valid_until r = 150 \<and> route_shape False r"
proof -
  let ?f = "zero_interface\<lparr>if_metric := 5\<rparr>"
  let ?tb = "\<lambda>a. if a = ROUTE_GATEWAY then Some (AttrString ''10.0.0.1'')
            else if a = ROUTE_VALID then Some (AttrInt32 100) else None"
  have "\<exists>r. parse_route example_env ?f ?tb False = Some r \<and> rt_mask r = 32"
    by (simp add: parse_route_def parse_route_target_def parse_route_gateway_def parse_route_metrics_def
        parse_route_source_def parse_route_table_def parse_route_valid_def parse_route_type_def
        example_env_def attr_string_def attr_u32_def attr_bool_def max_plen_def
        interface_set_route_info_def Let_def)
  then obtain r where r: "parse_route example_env ?f ?tb False = Some r" "rt_mask r = 32" by blast
  have "pton_lengths (pe_inet_pton example_env)" by (simp add: pton_lengths_def example_env_def)
  from parse_route_well_formed [OF r(1) this]
  have wf: "route_shape False r" "route_info_ok ?f r" "valid_until_ok example_env ?tb r" by blast+
  from r(1) have "\<not> has_flag (rt_flags r) DEVROUTE_METRIC"
    by (auto simp: parse_route_def parse_route_target_def parse_route_gateway_def parse_route_metrics_def
        parse_route_source_def parse_route_table_def parse_route_valid_def parse_route_type_def
        example_env_def attr_string_def attr_u32_def attr_bool_def max_plen_def
        interface_set_route_info_def Let_def route_flag_simps split: if_splits)
  with wf r show ?thesis
    by (intro exI [of _ r]) (simp add: route_info_ok_def valid_until_ok_def attr_u32_def example_env_def)
qed

text \<open>C16: Asking for a host route either finds an interface that has the target on its own link,
  and then adds no route, or it takes, among the enabled main-table routes of all interfaces
  that are not excluded, one with the longest matching prefix: the host route is added to the
  interface of that route with its next hop (nothing is added for the unspecified address),
  and without any such route nothing happens.
\<close>

theorem target_route_follows_longest_prefix:
  fixes ifs :: ifaces and iface :: "(ifid \<times> interface) option" and s :: 's
    and add :: "ifid \<Rightarrow> device_route \<Rightarrow> 's \<Rightarrow> 's" and addr :: if_addr and v6 :: bool
  assumes "routes_owned ifs"
  defines "excl \<equiv> map_option fst iface"
  defines "res \<equiv> interface_ip_add_target_route add ifs addr v6 iface True s"
  shows "(\<exists>i f. (i, f) \<in> set ifs \<and> Some i \<noteq> excl \<and>
            interface_ip_find_addr_target (if_proto_ip f) (if_config_ip f) addr v6 \<and> res = (Some i, s)) \<or>
    (res = (None, s) \<and> (\<forall>r \<in> set (searched excl ifs). \<not> route_candidate addr v6 r)) \<or>
    (\<exists>i f r. (i, f) \<in> set ifs \<and> Some i \<noteq> excl \<and> r \<in> set (iface_routes f) \<and> route_candidate addr v6 r \<and>
       (\<forall>r' \<in> set (searched excl ifs). route_candidate addr v6 r' \<longrightarrow> rt_mask r' \<le> rt_mask r) \<and>
       res = (Some i, if take (if v6 then 16 else 4) addr = replicate (if v6 then 16 else 4) 0
                      then s else add i (host_route addr v6 r) s))"
proof (cases "search_target ifs excl addr v6 None")
  case (Inl i)
  then have "res = (Some i, s)" by (simp add: res_def excl_def interface_ip_add_target_route_def Let_def)
  with search_target_Inl [OF Inl] show ?thesis by blast
next
  case (Inr res')
  note found = search_target_Inr [OF search_target_Inr_none [OF Inr], of None]
  show ?thesis
  proof (cases "find_ip_route_target (searched excl ifs) addr v6 None")
    case None
    then have "\<forall>r \<in> set (searched excl ifs). \<not> route_candidate addr v6 r"
      by (simp add: find_ip_route_target_fold route_better_fold_None filter_empty_conv)
    with None found show ?thesis
      by (simp add: res_def excl_def interface_ip_add_target_route_def Let_def)
  next
    case (Some r)
    from best_route [OF Some] obtain i f where r: "(i, f) \<in> set ifs" "Some i \<noteq> excl"
      "r \<in> set (iface_routes f)" "route_candidate addr v6 r"
      "\<forall>r' \<in> set (searched excl ifs). route_candidate addr v6 r' \<longrightarrow> rt_mask r' \<le> rt_mask r"
      by (auto simp: set_searched)
    with assms(1) have "rt_iface r = Some i" by (fastforce simp: routes_owned_def route_candidate_def)
    with Some found have "res = (Some i, if take (if v6 then 16 else 4) addr =
        replicate (if v6 then 16 else 4) 0 then s else add i (host_route addr v6 r) s)"
      by (simp add: res_def excl_def interface_ip_add_target_route_def Let_def)
    with r show ?thesis by blast
  qed
qed

definition example_route :: "ifid \<Rightarrow> u32 \<Rightarrow> device_route" where
  "example_route i m =
     zero_route\<lparr>rt_enabled := True, rt_iface := Some i, rt_mask := m, rt_addr := 10 # 1 # replicate 14 0\<rparr>"

definition example_uplink :: "ifid \<Rightarrow> u32 \<Rightarrow> interface" where
  "example_uplink i m = zero_interface\<lparr>if_proto_ip := zero_ip_settings\<lparr>ip_route := [example_route i m]\<rparr>\<rparr>"

lemma example_uplink_simps:
  "iface_routes (example_uplink i m) = [example_route i m]"
  "\<not> interface_ip_find_addr_target (if_proto_ip (example_uplink i m)) (if_config_ip (example_uplink i m)) a v6"
  "rt_iface (example_route i m) = Some i" "rt_mask (example_route i m) = m"
  by (simp_all add: iface_routes_def example_uplink_def zero_interface_def zero_ip_settings_def
      interface_ip_find_addr_target_def example_route_def)

theorem target_route_follows_longest_prefix_witness:
  "routes_owned [(1, example_uplink 1 8), (2, example_uplink 2 16)] \<and>
   interface_ip_add_target_route (\<lambda>i r s. (i, rt_mask r) # s)
     [(1, example_uplink 1 8), (2, example_uplink 2 16)]
     ([10, 1, 2, 3] @ replicate 12 0) False None True [] = (Some 2, [(2, 32)])"
proof -
  let ?ifs = "[(1, example_uplink 1 8), (2, example_uplink 2 16)]"
  let ?a = "[10, 1, 2, 3] @ replicate 12 0 :: u8 list"
  have o: "routes_owned ?ifs" by (simp add: routes_owned_def example_uplink_simps)
  have c: "route_candidate ?a False (example_route 1 8)" "route_candidate ?a False (example_route 2 16)"
    by (simp_all add: route_candidate_def example_route_def lookup_eval)
  have s: "searched None ?ifs = [example_route 1 8, example_route 2 16]"
    by (simp add: searched_def example_uplink_simps)
  have n: "[10, 1, 2, 3] \<noteq> replicate 4 (0 :: u8)" by (simp add: numeral_eq_Suc)
  show ?thesis
    using target_route_follows_longest_prefix
      [OF o, where iface = None and add = "\<lambda>i r s. (i, rt_mask r) # s" and addr = ?a
         and ?v6.0 = False and s = "[]"] o c s n
    by (auto simp: example_uplink_simps host_route_def max_plen_def)
qed

end
