(* ===== verification/IpUpdate.thy ===== *)
theory IpUpdate
  imports RouteConfig
begin

text \<open>
  What \<open>src/interface-ip.c\<close> does to the kernel when the address, route and neighbour trees
  of an interface change: the update callbacks of the trees
  (\<open>interface_update_proto_addr\<close>, \<open>interface_update_proto_neighbor\<close>,
  \<open>__interface_update_route\<close>), the policy rules and subnet routes that go with an address,
  and switching the routes on and off (\<open>interface_ip_set_route_enabled\<close>).

  An operation takes the log of kernel requests and returns it extended. The environment
  holds what the operations read but do not change: the kernel's answers, the devices, the
  files, the clock and the random numbers.
\<close>

unbundle bit_operations_syntax

record sys_env =
  se_kernel :: kernel
  se_dev :: "did \<Rightarrow> device"
  se_rt_protos :: "string list option"
  se_rtime :: int
  se_mrand48 :: "klog \<Rightarrow> u32 \<times> u32"

section \<open>Policy rules\<close>

definition source_policy_rule ::
  "sys_env \<Rightarrow> bool \<Rightarrow> u32 \<Rightarrow> if_addr option \<Rightarrow> u32 \<Rightarrow> u32 \<Rightarrow> interface option \<Rightarrow> string option \<Rightarrow>
   bool \<Rightarrow> iprule" where
  "source_policy_rule E v6 priority addr plen table in_iface action src =
     (let rule = zero_iprule\<lparr>ru_flags := IPRULE_PRIORITY, ru_priority := priority\<rparr>;
          plen = plen AND 0xff;
          rule = (case addr of
                    None \<Rightarrow> rule
                  | Some a \<Rightarrow>
                      if src then rule\<lparr>ru_flags := ru_flags rule OR IPRULE_SRC,
                                       ru_src_addr := a, ru_src_mask := plen\<rparr>
                      else rule\<lparr>ru_flags := ru_flags rule OR IPRULE_DEST,
                                ru_dest_addr := a, ru_dest_mask := plen\<rparr>);
          rule = (if table \<noteq> 0
                  then rule\<lparr>ru_flags := ru_flags rule OR IPRULE_LOOKUP, ru_lookup := table\<rparr>
                  else case action of
                         None \<Rightarrow> rule
                       | Some s \<Rightarrow>
                           let rule = rule\<lparr>ru_flags := ru_flags rule OR IPRULE_ACTION\<rparr>
                           in case system_resolve_iprule_action s of
                                None \<Rightarrow> rule | Some n \<Rightarrow> rule\<lparr>ru_action := n\<rparr>);
          rule = (case Option.bind in_iface l3_device of
                    None \<Rightarrow> rule
                  | Some d \<Rightarrow> rule\<lparr>ru_flags := ru_flags rule OR IPRULE_IN,
                                   ru_in_dev := dv_ifname (se_dev E d)\<rparr>)
      in rule\<lparr>ru_flags := ru_flags rule OR (if v6 then IPRULE_INET6 else IPRULE_INET4)\<rparr>)"

definition iprule_req :: "bool \<Rightarrow> iprule \<Rightarrow> kreq" where
  "iprule_req add rule = (if add then KAddIprule rule else KDelIprule rule)"

definition set_ip_source_policy ::
  "sys_env \<Rightarrow> bool \<Rightarrow> bool \<Rightarrow> u32 \<Rightarrow> if_addr option \<Rightarrow> u32 \<Rightarrow> u32 \<Rightarrow> interface option \<Rightarrow> string option \<Rightarrow>
   bool \<Rightarrow> klog \<Rightarrow> klog" where
  "set_ip_source_policy E add v6 priority addr plen table in_iface action src log =
     kdo (iprule_req add (source_policy_rule E v6 priority addr plen table in_iface action src)) log"

text \<open>\<open>d\<close> is the layer 3 device of the interface, which the callers have checked to be there.\<close>

definition set_ip_lo_policy ::
  "sys_env \<Rightarrow> bool \<Rightarrow> bool \<Rightarrow> interface \<Rightarrow> did \<Rightarrow> klog \<Rightarrow> klog" where
  "set_ip_lo_policy E add v6 iface d log =
     (let rule = zero_iprule\<lparr>
            ru_flags := IPRULE_IN OR IPRULE_LOOKUP OR IPRULE_PRIORITY,
            ru_priority := IPRULE_PRIORITY_NW + to_u32 (dv_ifindex (se_dev E d)),
            ru_lookup := (if v6 then if_ip6table iface else if_ip4table iface),
            ru_in_dev := ''lo''\<rparr>
      in if ru_lookup rule = 0 then log
         else kdo (iprule_req add
                (rule\<lparr>ru_flags := ru_flags rule OR (if v6 then IPRULE_INET6 else IPRULE_INET4)\<rparr>)) log)"

definition interface_add_addr_rules :: "sys_env \<Rightarrow> device_addr \<Rightarrow> bool \<Rightarrow> klog \<Rightarrow> klog" where
  "interface_add_addr_rules E addr enabled log =
     (let v6 = is_inet6 (ad_flags addr);
          log = set_ip_source_policy E enabled v6 IPRULE_PRIORITY_ADDR (Some (ad_addr addr))
                  (max_plen v6) (ad_policy_table addr) None None True log
      in set_ip_source_policy E enabled v6 IPRULE_PRIORITY_ADDR_MASK (Some (ad_addr addr))
           (ad_mask addr) (ad_policy_table addr) None None False log)"

section \<open>Addresses\<close>

definition interface_handle_subnet_route ::
  "sys_env \<Rightarrow> ifid \<Rightarrow> interface \<Rightarrow> device_addr \<Rightarrow> bool \<Rightarrow> klog \<Rightarrow> device_addr \<times> klog" where
  "interface_handle_subnet_route E i iface addr add log =
     (let dev = l3_device iface; r = ad_subnet addr
      in if has_flag (ad_flags addr) DEVADDR_OFFLINK then (addr, log)
         else if \<not> add then
           (if rt_iface r = None then (addr, log)
            else (addr\<lparr>ad_subnet := zero_route\<rparr>, kdo (KDelRoute dev r) log))
         else
           let r = r\<lparr>rt_iface := Some i, rt_flags := ad_flags addr, rt_mask := ad_mask addr,
                     rt_addr := clear_if_addr (ad_addr addr) (unat (ad_mask addr))\<rparr>
           in case system_resolve_rt_proto (se_rt_protos E) ''kernel'' of
                None \<Rightarrow> (addr\<lparr>ad_subnet := r\<rparr>, log)
              | Some p \<Rightarrow>
                  let r = r\<lparr>rt_proto := p, rt_flags := rt_flags r OR DEVROUTE_PROTO\<rparr>;
                      log = kdo (KDelRoute dev r) log;
                      r = r\<lparr>rt_flags := rt_flags r AND NOT DEVROUTE_PROTO\<rparr>;
                      r = interface_set_route_info (Some iface) r
                  in (addr\<lparr>ad_subnet := r\<rparr>, kdo (KAddRoute dev r) log))"

definition fill_broadcast :: "device_addr \<Rightarrow> device_addr" where
  "fill_broadcast a =
     (if ad_flags a AND DEVADDR_FAMILY = DEVADDR_INET4 \<and> ad_broadcast a = 0 then
        (if ad_mask a \<ge> 31 then a\<lparr>ad_broadcast := NOT 0\<rparr>
         else a\<lparr>ad_broadcast := in_s_addr (ad_addr a) OR drop_bit (unat (ad_mask a)) (NOT 0)\<rparr>)
      else a)"

text \<open>The unreachable route that keeps the traffic of an off-link prefix from looping.\<close>

definition null_route :: "bool \<Rightarrow> u32 \<Rightarrow> if_addr \<Rightarrow> device_route" where
  "null_route v6 plen addr =
     zero_route\<lparr>rt_flags := v6_flag v6, rt_metric := 2147483647, rt_mask := plen,
       rt_addr := clear_if_addr addr (unat plen)\<rparr>"

definition addr_keep :: "device_addr option \<Rightarrow> device_addr option \<Rightarrow> bool" where
  "addr_keep a_new a_old =
     (case (a_new, a_old) of
        (Some n, Some old) \<Rightarrow>
          \<not> (ad_flags old \<noteq> ad_flags n \<or> ad_failed old) \<and>
          \<not> (ad_flags n AND DEVADDR_FAMILY = DEVADDR_INET4 \<and>
             (ad_broadcast n \<noteq> ad_broadcast old \<or> ad_point_to_point n \<noteq> ad_point_to_point old))
      | _ \<Rightarrow> False)"

definition addr_replace :: "device_addr option \<Rightarrow> device_addr option \<Rightarrow> bool" where
  "addr_replace a_new a_old =
     (case (a_new, a_old) of
        (Some n, Some old) \<Rightarrow>
          ad_valid_until old \<noteq> ad_valid_until n \<or> ad_preferred_until old \<noteq> ad_preferred_until n
      | _ \<Rightarrow> False)"

text \<open>
  Taking an old address out of the kernel. The variable \<open>v6\<close> of the code is still
  \<open>false\<close> here, whatever the family of the address.
\<close>

definition remove_old_addr ::
  "sys_env \<Rightarrow> ifid \<Rightarrow> interface \<Rightarrow> device_addr \<Rightarrow> klog \<Rightarrow> klog" where
  "remove_old_addr E i iface a_old log =
     (let v6 = False;
          log = (if ad_policy_table a_old \<noteq> 0 then interface_add_addr_rules E a_old False log else log)
      in if has_flag (ad_flags a_old) DEVADDR_EXTERNAL then log
         else let (a_old, log) = interface_handle_subnet_route E i iface a_old False log;
                  log = kdo (KDelAddress (l3_device iface) a_old) log
              in if has_flag (ad_flags a_old) DEVADDR_OFFLINK \<and> ad_mask a_old < max_plen v6
                 then kdo (KDelRoute None (null_route v6 (ad_mask a_old) (ad_addr a_old))) log
                 else log)"

text \<open>Putting a new address into the kernel: the address and its subnet route, then the rest.\<close>

definition install_addr ::
  "sys_env \<Rightarrow> ifid \<Rightarrow> interface \<Rightarrow> device_addr \<Rightarrow> klog \<Rightarrow> device_addr \<times> klog" where
  "install_addr E i iface a log =
     (let (ret, log) = ksys (se_kernel E) (KAddAddress (l3_device iface) a) log;
          a = (if ret \<noteq> 0 then a\<lparr>ad_failed := True\<rparr> else a)
      in if if_metric iface \<noteq> 0 \<or> ad_policy_table a \<noteq> 0
         then interface_handle_subnet_route E i iface a True log else (a, log))"

definition install_addr_extras :: "sys_env \<Rightarrow> device_addr \<Rightarrow> klog \<Rightarrow> klog" where
  "install_addr_extras E a log =
     (let v6 = is_inet6 (ad_flags a);
          log = (if \<not> has_flag (ad_flags a) DEVADDR_EXTERNAL \<and> has_flag (ad_flags a) DEVADDR_OFFLINK
                    \<and> ad_mask a < max_plen v6
                 then kdo (KAddRoute None (null_route v6 (ad_mask a) (ad_addr a))) log
                 else log)
      in if ad_policy_table a \<noteq> 0 then interface_add_addr_rules E a True log else log)"

definition install_new_addr ::
  "sys_env \<Rightarrow> ifid \<Rightarrow> interface \<Rightarrow> bool \<Rightarrow> bool \<Rightarrow> device_addr \<Rightarrow> klog \<Rightarrow> device_addr \<times> klog" where
  "install_new_addr E i iface keep replace a log =
     (let v6 = is_inet6 (ad_flags a);
          a = a\<lparr>ad_enabled := True,
                ad_policy_table := (if v6 then if_ip6table iface else if_ip4table iface)\<rparr>
      in if \<not> keep \<or> replace then
           let (a, log) = (if \<not> has_flag (ad_flags a) DEVADDR_EXTERNAL
                           then install_addr E i iface a log else (a, log))
           in (a, if \<not> keep then install_addr_extras E a log else log)
         else (a, log))"

text \<open>The result: the interface, the new tree element as it is left, the log.\<close>

definition interface_update_proto_addr ::
  "sys_env \<Rightarrow> ifid \<Rightarrow> interface \<Rightarrow> device_addr option \<Rightarrow> device_addr option \<Rightarrow> klog \<Rightarrow>
   interface \<times> device_addr option \<times> klog" where
  "interface_update_proto_addr E i iface node_new node_old log =
     (let iface = (if node_new = None \<or> node_old = None
                   then iface\<lparr>if_updated := if_updated iface OR IUF_ADDRESS\<rparr> else iface);
          a_new = map_option fill_broadcast node_new;
          keep = addr_keep a_new node_old;
          replace = addr_replace a_new node_old;
          log = (case node_old of
                   Some a_old \<Rightarrow> if ad_enabled a_old \<and> \<not> keep
                                 then remove_old_addr E i iface a_old log else log
                 | None \<Rightarrow> log)
      in case a_new of
           None \<Rightarrow> (iface, None, log)
         | Some a \<Rightarrow> (let (a, log) = install_new_addr E i iface keep replace a log
                      in (iface, Some a, log)))"

section \<open>Neighbours and routes\<close>

definition enable_route :: "interface_ip_settings \<Rightarrow> device_route \<Rightarrow> bool" where
  "enable_route ip route =
     (if ip_no_defaultroute ip \<and> rt_mask route = 0 then False else ip_enabled ip)"

definition neighbor_keep :: "device_neighbor option \<Rightarrow> device_neighbor option \<Rightarrow> bool" where
  "neighbor_keep node_new node_old =
     (case (node_new, node_old) of
        (Some n, Some old) \<Rightarrow> nb_macaddr old = nb_macaddr n \<and> nb_proxy old = nb_proxy n
                              \<and> nb_router old = nb_router n
      | _ \<Rightarrow> False)"

definition interface_update_proto_neighbor ::
  "sys_env \<Rightarrow> interface \<Rightarrow> interface_ip_settings \<Rightarrow> device_neighbor option \<Rightarrow> device_neighbor option \<Rightarrow>
   klog \<Rightarrow> device_neighbor option \<times> klog" where
  "interface_update_proto_neighbor E iface ip node_new node_old log =
     (let dev = l3_device iface;
          keep = neighbor_keep node_new node_old;
          log = (case node_old of
                   Some old \<Rightarrow> if \<not> keep \<and> nb_enabled old then kdo (KDelNeighbor dev old) log else log
                 | None \<Rightarrow> log)
      in case node_new of
           None \<Rightarrow> (None, log)
         | Some n \<Rightarrow>
             let (n, log) =
                   (if \<not> keep \<and> ip_enabled ip then
                      let (ret, log) = ksys (se_kernel E) (KAddNeighbor dev n) log
                      in (if ret \<noteq> 0 then n\<lparr>nb_failed := True\<rparr> else n, log)
                    else (n, log))
             in (Some (n\<lparr>nb_enabled := ip_enabled ip\<rparr>), log))"

definition route_keep :: "device_route option \<Rightarrow> device_route option \<Rightarrow> bool" where
  "route_keep node_new node_old =
     (case (node_new, node_old) of
        (Some n, Some old) \<Rightarrow> rt_nexthop old = rt_nexthop n \<and> rt_mtu old = rt_mtu n
          \<and> rt_type old = rt_type n \<and> rt_proto old = rt_proto n \<and> \<not> rt_failed old
      | _ \<Rightarrow> False)"

definition interface_update_route ::
  "sys_env \<Rightarrow> ifid \<Rightarrow> interface \<Rightarrow> interface_ip_settings \<Rightarrow> device_route option \<Rightarrow> device_route option \<Rightarrow>
   klog \<Rightarrow> interface \<times> device_route option \<times> klog" where
  "interface_update_route E i iface ip node_new node_old log =
     (let dev = l3_device iface;
          iface = (if node_new = None \<or> node_old = None
                   then iface\<lparr>if_updated := if_updated iface OR IUF_ROUTE\<rparr> else iface);
          keep = route_keep node_new node_old;
          log = (case node_old of
                   Some old \<Rightarrow>
                     if \<not> has_flag (rt_flags old) DEVADDR_EXTERNAL \<and> rt_enabled old \<and> \<not> keep
                     then kdo (KDelRoute dev old) log else log
                 | None \<Rightarrow> log)
      in case node_new of
           None \<Rightarrow> (iface, None, log)
         | Some n \<Rightarrow>
             let enabled = enable_route ip n;
                 (n, log) =
                   (if \<not> has_flag (rt_flags n) DEVADDR_EXTERNAL \<and> \<not> keep \<and> enabled then
                      let (ret, log) = ksys (se_kernel E) (KAddRoute dev n) log
                      in (if ret \<noteq> 0 then n\<lparr>rt_failed := True\<rparr> else n, log)
                    else (n, log))
             in (iface, Some (n\<lparr>rt_iface := Some i, rt_enabled := enabled\<rparr>), log))"

definition interface_update_proto_route ::
  "sys_env \<Rightarrow> ifid \<Rightarrow> interface \<Rightarrow> interface_ip_settings \<Rightarrow> device_route option \<Rightarrow> device_route option \<Rightarrow>
   klog \<Rightarrow> interface \<times> device_route option \<times> klog" where
  "interface_update_proto_route E i iface ip = interface_update_route E i iface ip"

definition interface_update_host_route ::
  "sys_env \<Rightarrow> ifid \<Rightarrow> interface \<Rightarrow> device_route option \<Rightarrow> device_route option \<Rightarrow> klog \<Rightarrow>
   interface \<times> device_route option \<times> klog" where
  "interface_update_host_route E i iface = interface_update_route E i iface (if_proto_ip iface)"

definition interface_ip_set_route_enabled ::
  "sys_env \<Rightarrow> interface \<Rightarrow> interface_ip_settings \<Rightarrow> device_route \<Rightarrow> bool \<Rightarrow> klog \<Rightarrow> device_route \<times> klog" where
  "interface_ip_set_route_enabled E iface ip route enabled log =
     (let dev = l3_device iface
      in if has_flag (rt_flags route) DEVADDR_EXTERNAL then (route, log)
         else let enabled = (if \<not> enable_route ip route then False else enabled)
              in if rt_enabled route = enabled then (route, log)
                 else if enabled then
                   let route = interface_set_route_info (Some iface) route;
                       (ret, log) = ksys (se_kernel E) (KAddRoute dev route) log;
                       route = (if ret \<noteq> 0 then route\<lparr>rt_failed := True\<rparr> else route)
                   in (route\<lparr>rt_enabled := True\<rparr>, log)
                 else (route\<lparr>rt_enabled := False\<rparr>, kdo (KDelRoute dev route) log))"

end
