(* ===== verification/RouteSync.thy ===== *)
theory RouteSync
  imports IpUpdate
begin

text \<open>
  The route tree of an interface against the kernel's routing table. The table that results
  from a log of requests is a map from device and route key to the installed route. The
  relation \<open>route_run\<close> collects every state of a route tree that its update callback can
  reach: the versioned tree of libubox calls back with a new element, with a new element that
  replaces the old one of equal key, or with an element that goes away, and in between the
  settings are switched on and off.
\<close>

unbundle bit_operations_syntax

declare split_paired_All [simp del] split_paired_Ex [simp del]

section \<open>The routing table a log leaves behind\<close>

text \<open>
  A request to add a route takes effect when the kernel answers 0. A request to delete one
  leaves no such route behind.
\<close>

type_synonym rkey = "u32 \<times> int \<times> u32 \<times> u32 \<times> u32 \<times> if_addr \<times> if_addr"
type_synonym fib = "did option \<times> rkey \<Rightarrow> device_route option"

fun fib_step :: "kernel \<Rightarrow> klog \<Rightarrow> kreq \<Rightarrow> fib \<Rightarrow> fib" where
  "fib_step K log (KAddRoute d r) m =
     (if K log (KAddRoute d r) = 0 then m((d, route_key r) := Some r) else m)"
| "fib_step K log (KDelRoute d r) m = m((d, route_key r) := None)"
| "fib_step K log _ m = m"

fun fib_rev :: "kernel \<Rightarrow> klog \<Rightarrow> fib" where
  "fib_rev K [] = (\<lambda>_. None)"
| "fib_rev K (q # l) = fib_step K (rev l) q (fib_rev K l)"

definition fib_of :: "kernel \<Rightarrow> klog \<Rightarrow> fib" where
  "fib_of K log = fib_rev K (rev log)"

lemma fib_of_Nil [simp]: "fib_of K [] = (\<lambda>_. None)"
  by (simp add: fib_of_def)

lemma fib_of_snoc [simp]: "fib_of K (log @ [q]) = fib_step K log q (fib_of K log)"
  by (simp add: fib_of_def)

definition touches_route :: "kreq \<Rightarrow> bool" where
  "touches_route q = (case q of KAddRoute _ _ \<Rightarrow> True | KDelRoute _ _ \<Rightarrow> True | _ \<Rightarrow> False)"

lemma fib_step_other: "\<not> touches_route q \<Longrightarrow> fib_step K log q m = m"
  by (cases q) (simp_all add: touches_route_def)

section \<open>Trees and runs\<close>

text \<open>The tree without the element of a given key.\<close>

definition without_key :: "rkey \<Rightarrow> device_route list \<Rightarrow> device_route list" where
  "without_key k rs = filter (\<lambda>r. route_key r \<noteq> k) rs"

lemma without_key_set [simp]: "r \<in> set (without_key k rs) \<longleftrightarrow> r \<in> set rs \<and> route_key r \<noteq> k"
  by (simp add: without_key_def)

lemma without_key_keys [simp]: "route_key ` set (without_key k rs) = route_key ` set rs - {k}"
  by (auto simp: without_key_def)

text \<open>\<open>interface_ip_set_enabled\<close>, the loop over the routes.\<close>

fun set_routes_enabled ::
  "sys_env \<Rightarrow> interface \<Rightarrow> interface_ip_settings \<Rightarrow> bool \<Rightarrow> device_route list \<Rightarrow> klog \<Rightarrow>
   device_route list \<times> klog" where
  "set_routes_enabled E iface ip enabled [] log = ([], log)"
| "set_routes_enabled E iface ip enabled (r # rs) log =
     (let (r, log) = interface_ip_set_route_enabled E iface ip r enabled log;
          (rs, log) = set_routes_enabled E iface ip enabled rs log
      in (r # rs, log))"

text \<open>A route as the configuration or a protocol handler hands it to the tree.\<close>

definition fresh_route :: "interface \<Rightarrow> device_route \<Rightarrow> bool" where
  "fresh_route iface r \<longleftrightarrow> route_info_ok iface r \<and> \<not> rt_failed r \<and> \<not> rt_enabled r"

inductive route_run ::
  "sys_env \<Rightarrow> ifid \<Rightarrow> interface \<Rightarrow> interface_ip_settings \<Rightarrow> device_route list \<Rightarrow> klog \<Rightarrow> bool"
  for E i iface where
  run_init: "(\<forall>k. fib_of (se_kernel E) log (l3_device iface, k) = None) \<Longrightarrow>
     route_run E i iface ip [] log"
| run_add: "route_run E i iface ip rs log \<Longrightarrow> fresh_route iface new \<Longrightarrow>
     route_key new \<notin> route_key ` set rs \<Longrightarrow>
     interface_update_route E i iface ip (Some new) None log = (iface', Some new', log') \<Longrightarrow>
     route_run E i iface ip (new' # rs) log'"
| run_replace: "route_run E i iface ip rs log \<Longrightarrow> fresh_route iface new \<Longrightarrow>
     old \<in> set rs \<Longrightarrow> route_key old = route_key new \<Longrightarrow>
     interface_update_route E i iface ip (Some new) (Some old) log = (iface', Some new', log') \<Longrightarrow>
     route_run E i iface ip (new' # without_key (route_key old) rs) log'"
| run_delete: "route_run E i iface ip rs log \<Longrightarrow> old \<in> set rs \<Longrightarrow>
     interface_update_route E i iface ip None (Some old) log = (iface', None, log') \<Longrightarrow>
     route_run E i iface ip (without_key (route_key old) rs) log'"
| run_enable: "route_run E i iface ip rs log \<Longrightarrow>
     set_routes_enabled E iface (ip\<lparr>ip_enabled := enabled\<rparr>) enabled rs log = (rs', log') \<Longrightarrow>
     route_run E i iface (ip\<lparr>ip_enabled := enabled\<rparr>) rs' log'"
| run_other: "route_run E i iface ip rs log \<Longrightarrow> \<not> touches_route q \<Longrightarrow>
     route_run E i iface ip rs (log @ [q])"

section \<open>The invariant\<close>

definition route_body :: "device_route \<Rightarrow> if_addr \<times> int \<times> u32 \<times> u32" where
  "route_body r = (rt_nexthop r, rt_mtu r, rt_type r, rt_proto r)"

abbreviation external :: "device_route \<Rightarrow> bool" where
  "external r \<equiv> has_flag (rt_flags r) DEVADDR_EXTERNAL"

definition entry_ok :: "interface \<Rightarrow> interface_ip_settings \<Rightarrow> device_route option \<Rightarrow> device_route \<Rightarrow> bool" where
  "entry_ok iface ip entry r \<longleftrightarrow> route_info_ok iface r \<and>
     (if external r then entry = None
      else rt_enabled r = enable_route ip r \<and>
        (case entry of
           None \<Rightarrow> \<not> rt_enabled r \<or> rt_failed r
         | Some r0 \<Rightarrow> rt_enabled r \<and> route_body r0 = route_body r))"

definition routes_synced ::
  "sys_env \<Rightarrow> interface \<Rightarrow> interface_ip_settings \<Rightarrow> device_route list \<Rightarrow> klog \<Rightarrow> bool" where
  "routes_synced E iface ip rs log \<longleftrightarrow>
     distinct (map route_key rs) \<and>
     (\<forall>r \<in> set rs. entry_ok iface ip (fib_of (se_kernel E) log (l3_device iface, route_key r)) r) \<and>
     (\<forall>k. k \<notin> route_key ` set rs \<longrightarrow> fib_of (se_kernel E) log (l3_device iface, k) = None)"

lemma route_key_simps [simp]:
  "route_key (r\<lparr>rt_failed := a\<rparr>) = route_key r" "route_key (r\<lparr>rt_iface := b\<rparr>) = route_key r"
  "route_key (r\<lparr>rt_enabled := c\<rparr>) = route_key r"
  by (simp_all add: route_key_def)

lemma route_body_simps [simp]:
  "route_body (r\<lparr>rt_failed := a\<rparr>) = route_body r" "route_body (r\<lparr>rt_iface := b\<rparr>) = route_body r"
  "route_body (r\<lparr>rt_enabled := c\<rparr>) = route_body r"
  by (simp_all add: route_body_def)

lemma route_info_ok_simps [simp]:
  "route_info_ok f (r\<lparr>rt_failed := a\<rparr>) = route_info_ok f r"
  "route_info_ok f (r\<lparr>rt_iface := b\<rparr>) = route_info_ok f r"
  "route_info_ok f (r\<lparr>rt_enabled := c\<rparr>) = route_info_ok f r"
  by (simp_all add: route_info_ok_def)

lemma enable_route_simps [simp]:
  "enable_route ip (r\<lparr>rt_failed := a\<rparr>) = enable_route ip r"
  "enable_route ip (r\<lparr>rt_iface := b\<rparr>) = enable_route ip r"
  "enable_route ip (r\<lparr>rt_enabled := c\<rparr>) = enable_route ip r"
  by (simp_all add: enable_route_def)

lemma route_key_external: "route_key a = route_key b \<Longrightarrow> external a = external b"
  by (simp add: route_key_def)

lemma route_key_enable: "route_key a = route_key b \<Longrightarrow> enable_route ip a = enable_route ip b"
  by (simp add: route_key_def enable_route_def)

text \<open>
  One call of the update callback: the entry of the key is right for the new element (none
  if there is no new element), every other entry of the table is as before.
\<close>

lemma update_route_new:
  assumes "interface_update_route E i iface ip (Some new) node_old log = (iface', Some new', log')"
    and "fresh_route iface new"
    and "case node_old of
           None \<Rightarrow> fib_of (se_kernel E) log (l3_device iface, route_key new) = None
         | Some old \<Rightarrow> route_key old = route_key new \<and>
             entry_ok iface ip (fib_of (se_kernel E) log (l3_device iface, route_key old)) old"
  shows "entry_ok iface ip (fib_of (se_kernel E) log' (l3_device iface, route_key new)) new' \<and>
    route_key new' = route_key new \<and>
    (\<forall>dk. dk \<noteq> (l3_device iface, route_key new) \<longrightarrow>
       fib_of (se_kernel E) log' dk = fib_of (se_kernel E) log dk)"
proof (cases node_old)
  case None
  then show ?thesis using assms
    by (auto simp: interface_update_route_def route_keep_def entry_ok_def fresh_route_def Let_def
        ksys_def split: if_splits)
next
  case (Some old)
  let ?dk = "(l3_device iface, route_key new)"
  define del where "del = (\<not> external new \<and> rt_enabled old \<and> \<not> route_keep (Some new) (Some old))"
  define add where "add = (\<not> external new \<and> \<not> route_keep (Some new) (Some old) \<and> enable_route ip new)"
  define log1 where "log1 = (if del then log @ [KDelRoute (l3_device iface) old] else log)"
  have key: "route_key old = route_key new"
    and ok: "entry_ok iface ip (fib_of (se_kernel E) log ?dk) old"
    using assms(3) Some by auto
  note ext = route_key_external [OF key] route_key_enable [OF key, of ip]
  have res: "log' = (if add then log1 @ [KAddRoute (l3_device iface) new] else log1)"
    "new' = new\<lparr>rt_failed := add \<and> se_kernel E log1 (KAddRoute (l3_device iface) new) \<noteq> 0,
       rt_iface := Some i, rt_enabled := enable_route ip new\<rparr>"
    using assms(1, 2) Some ext
    by (auto simp: interface_update_route_def Let_def ksys_def kdo_def del_def add_def log1_def
        fresh_route_def split: if_splits)
  have fib1: "fib_of (se_kernel E) log1 = (if del then (fib_of (se_kernel E) log)(?dk := None)
      else fib_of (se_kernel E) log)"
    by (simp add: log1_def key)
  have info: "route_info_ok iface new" using assms(2) by (simp add: fresh_route_def)
  have "entry_ok iface ip (fib_of (se_kernel E) log' ?dk) new'"
  proof (cases "route_keep (Some new) (Some old)")
    case True
    then have "log' = log" "\<not> add" by (simp_all add: res add_def del_def log1_def)
    with True ok info ext show ?thesis
      by (auto simp: res entry_ok_def route_keep_def route_body_def split: option.splits)
  next
    case False
    with ok info ext show ?thesis
      by (auto simp: res fib1 entry_ok_def add_def del_def split: option.splits)
  qed
  then show ?thesis by (auto simp: res fib1)
qed

lemma update_route_gone:
  assumes "interface_update_route E i iface ip None (Some old) log = (iface', None, log')"
    and "entry_ok iface ip (fib_of (se_kernel E) log (l3_device iface, route_key old)) old"
  shows "fib_of (se_kernel E) log' (l3_device iface, route_key old) = None \<and>
    (\<forall>dk. dk \<noteq> (l3_device iface, route_key old) \<longrightarrow>
       fib_of (se_kernel E) log' dk = fib_of (se_kernel E) log dk)"
  using assms
  by (auto simp: interface_update_route_def route_keep_def entry_ok_def Let_def kdo_def
      split: if_splits option.splits)

lemma set_route_enabled_entry:
  assumes "interface_ip_set_route_enabled E iface (ip\<lparr>ip_enabled := e\<rparr>) r e log = (r', log')"
    and "entry_ok iface ip (fib_of (se_kernel E) log (l3_device iface, route_key r)) r"
  shows "entry_ok iface (ip\<lparr>ip_enabled := e\<rparr>)
           (fib_of (se_kernel E) log' (l3_device iface, route_key r)) r' \<and>
    route_key r' = route_key r \<and>
    (\<forall>dk. dk \<noteq> (l3_device iface, route_key r) \<longrightarrow>
       fib_of (se_kernel E) log' dk = fib_of (se_kernel E) log dk)"
proof -
  have info: "interface_set_route_info (Some iface) r = r"
    using assms(2) by (intro set_route_info_stable) (simp add: entry_ok_def)
  have en: "enable_route (ip\<lparr>ip_enabled := e\<rparr>) r \<Longrightarrow> e" by (simp add: enable_route_def split: if_splits)
  show ?thesis
  proof (cases "external r")
    case True
    with assms show ?thesis by (simp add: interface_ip_set_route_enabled_def entry_ok_def)
  next
    case False
    let ?t = "enable_route (ip\<lparr>ip_enabled := e\<rparr>) r"
    show ?thesis
    proof (cases "rt_enabled r = ?t")
      case True
      with assms False en have "r' = r" "log' = log"
        by (simp_all add: interface_ip_set_route_enabled_def Let_def split: if_splits)
      with assms(2) False True show ?thesis by (simp add: entry_ok_def)
    next
      case neq: False
      show ?thesis using assms info en False neq
        by (cases "?t") (auto simp: interface_ip_set_route_enabled_def entry_ok_def Let_def ksys_def kdo_def
            split: if_splits option.splits)
    qed
  qed
qed

lemma set_routes_enabled_sync:
  assumes "set_routes_enabled E iface (ip\<lparr>ip_enabled := e\<rparr>) e rs log = (rs', log')"
    and "distinct (map route_key rs)"
    and "\<forall>r \<in> set rs. entry_ok iface ip (fib_of (se_kernel E) log (l3_device iface, route_key r)) r"
  shows "map route_key rs' = map route_key rs \<and>
    (\<forall>r \<in> set rs'. entry_ok iface (ip\<lparr>ip_enabled := e\<rparr>)
       (fib_of (se_kernel E) log' (l3_device iface, route_key r)) r) \<and>
    (\<forall>dk. dk \<notin> Pair (l3_device iface) ` route_key ` set rs \<longrightarrow>
       fib_of (se_kernel E) log' dk = fib_of (se_kernel E) log dk)"
  using assms
proof (induction rs arbitrary: log rs')
  case Nil
  then show ?case by simp
next
  case (Cons r rs)
  obtain r1 log1 where r1: "interface_ip_set_route_enabled E iface (ip\<lparr>ip_enabled := e\<rparr>) r e log = (r1, log1)"
    by force
  obtain rs1 where rs1: "set_routes_enabled E iface (ip\<lparr>ip_enabled := e\<rparr>) e rs log1 = (rs1, log')"
    and rs': "rs' = r1 # rs1" using Cons.prems(1) r1 by (auto split: prod.splits)
  have step: "entry_ok iface (ip\<lparr>ip_enabled := e\<rparr>)
       (fib_of (se_kernel E) log1 (l3_device iface, route_key r)) r1" "route_key r1 = route_key r"
    "\<And>dk. dk \<noteq> (l3_device iface, route_key r) \<Longrightarrow> fib_of (se_kernel E) log1 dk = fib_of (se_kernel E) log dk"
    using set_route_enabled_entry [OF r1] Cons.prems(3) by auto
  have "\<forall>x \<in> set rs. entry_ok iface ip (fib_of (se_kernel E) log1 (l3_device iface, route_key x)) x"
  proof
    fix x assume "x \<in> set rs"
    then have "route_key x \<noteq> route_key r" using Cons.prems(2) by (metis distinct.simps(2) image_eqI list.simps(9) set_map)
    then show "entry_ok iface ip (fib_of (se_kernel E) log1 (l3_device iface, route_key x)) x"
      using step(3) [of "(l3_device iface, route_key x)"] Cons.prems(3) \<open>x \<in> set rs\<close> by simp
  qed
  with Cons.IH [OF rs1] Cons.prems(2)
  have ih: "map route_key rs1 = map route_key rs"
    "\<forall>x \<in> set rs1. entry_ok iface (ip\<lparr>ip_enabled := e\<rparr>)
       (fib_of (se_kernel E) log' (l3_device iface, route_key x)) x"
    "\<forall>dk. dk \<notin> Pair (l3_device iface) ` route_key ` set rs \<longrightarrow>
       fib_of (se_kernel E) log' dk = fib_of (se_kernel E) log1 dk"
    by simp_all
  have "(l3_device iface, route_key r) \<notin> Pair (l3_device iface) ` route_key ` set rs"
    using Cons.prems(2) by auto
  with ih(3) step(1, 2) have "entry_ok iface (ip\<lparr>ip_enabled := e\<rparr>)
      (fib_of (se_kernel E) log' (l3_device iface, route_key r1)) r1" by simp
  with ih step(2, 3) show ?case by (auto simp: rs')
qed

lemma route_run_synced: "route_run E i iface ip rs log \<Longrightarrow> routes_synced E iface ip rs log"
proof (induction rule: route_run.induct)
  case (run_init log ip)
  then show ?case by (simp add: routes_synced_def)
next
  case (run_add ip rs log new iface' new' log')
  have "fib_of (se_kernel E) log (l3_device iface, route_key new) = None"
    using run_add.IH run_add.hyps(3) by (simp add: routes_synced_def)
  with update_route_new [OF run_add.hyps(4, 2)]
  have n: "entry_ok iface ip (fib_of (se_kernel E) log' (l3_device iface, route_key new)) new'"
    "route_key new' = route_key new"
    "\<And>dk. dk \<noteq> (l3_device iface, route_key new) \<Longrightarrow> fib_of (se_kernel E) log' dk = fib_of (se_kernel E) log dk"
    by simp_all
  have "fib_of (se_kernel E) log' (l3_device iface, k) = fib_of (se_kernel E) log (l3_device iface, k)"
    if "k \<noteq> route_key new" for k using n(3) that by simp
  moreover have "route_key r \<noteq> route_key new" if "r \<in> set rs" for r
    using run_add.hyps(3) that by (metis imageI)
  ultimately show ?case using n(1, 2) run_add.IH run_add.hyps(3) by (simp add: routes_synced_def)
next
  case (run_replace ip rs log new old iface' new' log')
  from run_replace.IH run_replace.hyps(3)
  have "entry_ok iface ip (fib_of (se_kernel E) log (l3_device iface, route_key old)) old"
    by (simp add: routes_synced_def)
  with update_route_new [OF run_replace.hyps(5, 2)] run_replace.hyps(4)
  have n: "entry_ok iface ip (fib_of (se_kernel E) log' (l3_device iface, route_key new)) new'"
    "route_key new' = route_key new"
    "\<And>dk. dk \<noteq> (l3_device iface, route_key new) \<Longrightarrow> fib_of (se_kernel E) log' dk = fib_of (se_kernel E) log dk"
    by simp_all
  have "fib_of (se_kernel E) log' (l3_device iface, k) = fib_of (se_kernel E) log (l3_device iface, k)"
    if "k \<noteq> route_key new" for k using n(3) that by simp
  moreover have "distinct (map route_key (without_key (route_key old) rs))"
    using run_replace.IH by (simp add: routes_synced_def without_key_def distinct_map_filter)
  ultimately show ?case using n(1, 2) run_replace.IH run_replace.hyps(4)
    by (simp add: routes_synced_def)
next
  case (run_delete ip rs log old iface' log')
  from run_delete.IH run_delete.hyps(2)
  have "entry_ok iface ip (fib_of (se_kernel E) log (l3_device iface, route_key old)) old"
    by (simp add: routes_synced_def)
  from update_route_gone [OF run_delete.hyps(3) this]
  have n: "fib_of (se_kernel E) log' (l3_device iface, route_key old) = None"
    "\<And>k. k \<noteq> route_key old \<Longrightarrow> fib_of (se_kernel E) log' (l3_device iface, k) =
       fib_of (se_kernel E) log (l3_device iface, k)" by simp_all
  moreover have "distinct (map route_key (without_key (route_key old) rs))"
    using run_delete.IH by (simp add: routes_synced_def without_key_def distinct_map_filter)
  moreover have "\<forall>k. k \<notin> route_key ` set rs - {route_key old} \<longrightarrow>
      fib_of (se_kernel E) log' (l3_device iface, k) = None"
  proof (intro allI impI)
    fix k assume k: "k \<notin> route_key ` set rs - {route_key old}"
    show "fib_of (se_kernel E) log' (l3_device iface, k) = None"
    proof (cases "k = route_key old")
      case True
      then show ?thesis using n(1) by (simp only:)
    next
      case False
      with k have "k \<notin> route_key ` set rs" by blast
      with run_delete.IH have "fib_of (se_kernel E) log (l3_device iface, k) = None"
        unfolding routes_synced_def by blast
      with n(2) [OF False] show ?thesis by (simp only:)
    qed
  qed
  ultimately show ?case using run_delete.IH by (simp add: routes_synced_def)
next
  case (run_enable ip rs log enabled rs' log')
  from run_enable.IH have "distinct (map route_key rs)" and
    "\<forall>r \<in> set rs. entry_ok iface ip (fib_of (se_kernel E) log (l3_device iface, route_key r)) r"
    by (simp_all add: routes_synced_def)
  note s = set_routes_enabled_sync [OF run_enable.hyps(2) this]
  then have n: "map route_key rs' = map route_key rs"
    "\<forall>r \<in> set rs'. entry_ok iface (ip\<lparr>ip_enabled := enabled\<rparr>)
       (fib_of (se_kernel E) log' (l3_device iface, route_key r)) r" by simp_all
  have "fib_of (se_kernel E) log' (l3_device iface, k) = fib_of (se_kernel E) log (l3_device iface, k)"
    if "k \<notin> route_key ` set rs" for k
  proof -
    have "(l3_device iface, k) \<notin> Pair (l3_device iface) ` route_key ` set rs" using that by blast
    with s show ?thesis by blast
  qed
  moreover have "route_key ` set rs' = route_key ` set rs" using n(1) by (metis set_map)
  ultimately show ?case using n run_enable.IH by (simp add: routes_synced_def)
next
  case (run_other ip rs log q)
  then show ?case by (simp add: routes_synced_def fib_step_other)
qed

section \<open>Properties\<close>

text \<open>C9: Whatever sequence of additions, replacements, removals and switching on and off the
  route tree of an interface goes through, the kernel's table for the device of the interface
  stays in step with it: an installed route is an enabled, not external element of the tree
  with the same next hop, MTU, type and protocol, and every element that should be enabled
  and whose installation has not failed is installed.
\<close>

theorem route_tree_matches_kernel:
  assumes "route_run E i iface ip rs log"
  shows "(\<forall>k r0. fib_of (se_kernel E) log (l3_device iface, k) = Some r0 \<longrightarrow>
       (\<exists>r \<in> set rs. route_key r = k \<and> rt_enabled r \<and> \<not> external r \<and> route_body r = route_body r0)) \<and>
    (\<forall>r \<in> set rs. \<not> external r \<and> enable_route ip r \<and> \<not> rt_failed r \<longrightarrow>
       (\<exists>r0. fib_of (se_kernel E) log (l3_device iface, route_key r) = Some r0 \<and>
             route_body r0 = route_body r))"
proof -
  from route_run_synced [OF assms] have
    ok: "\<And>r. r \<in> set rs \<Longrightarrow> entry_ok iface ip (fib_of (se_kernel E) log (l3_device iface, route_key r)) r" and
    none: "\<And>k. k \<notin> route_key ` set rs \<Longrightarrow> fib_of (se_kernel E) log (l3_device iface, k) = None"
    by (simp_all add: routes_synced_def)
  have "\<exists>r \<in> set rs. route_key r = k \<and> rt_enabled r \<and> \<not> external r \<and> route_body r = route_body r0"
    if "fib_of (se_kernel E) log (l3_device iface, k) = Some r0" for k r0
  proof -
    from that none obtain r where r: "r \<in> set rs" "route_key r = k"
      by (metis imageE option.distinct(1))
    with ok [OF r(1)] that show ?thesis by (auto simp: entry_ok_def split: if_splits)
  qed
  moreover have "\<exists>r0. fib_of (se_kernel E) log (l3_device iface, route_key r) = Some r0 \<and>
      route_body r0 = route_body r"
    if "r \<in> set rs" "\<not> external r" "enable_route ip r" "\<not> rt_failed r" for r
    using ok [OF that(1)] that by (auto simp: entry_ok_def split: option.splits)
  ultimately show ?thesis by blast
qed

definition example_sys :: sys_env where
  "example_sys = \<lparr>se_kernel = (\<lambda>_ _. 0), se_dev = (\<lambda>_. zero_device), se_rt_protos = None,
     se_rtime = 1000, se_mrand48 = (\<lambda>_. (0, 0))\<rparr>"

theorem route_tree_matches_kernel_witness:
  "\<exists>log r. route_run example_sys 1 zero_interface (zero_ip_settings\<lparr>ip_enabled := True\<rparr>) [r] log \<and>
     rt_mask r = 8 \<and> fib_of (se_kernel example_sys) log (l3_device zero_interface, route_key r) \<noteq> None"
proof -
  let ?ip = "zero_ip_settings\<lparr>ip_enabled := True\<rparr>"
  let ?new = "zero_route\<lparr>rt_mask := 8\<rparr>"
  let ?new' = "?new\<lparr>rt_iface := Some 1, rt_enabled := True\<rparr>"
  let ?log = "[KAddRoute (l3_device zero_interface) ?new]"
  have "interface_update_route example_sys 1 zero_interface ?ip (Some ?new) None [] =
      (zero_interface\<lparr>if_updated := if_updated zero_interface OR IUF_ROUTE\<rparr>, Some ?new', ?log)"
    by (simp add: interface_update_route_def route_keep_def enable_route_def ksys_def example_sys_def
        Let_def)
  moreover have "fresh_route zero_interface ?new"
    by (simp add: fresh_route_def route_info_ok_def zero_interface_def)
  ultimately have run: "route_run example_sys 1 zero_interface ?ip [?new'] ?log"
    using run_add [OF run_init, of example_sys "[]" zero_interface ?new 1 ?ip] by simp
  have "\<not> external ?new'" "enable_route ?ip ?new'" "\<not> rt_failed ?new'" "?new' \<in> set [?new']"
    by (simp_all add: enable_route_def)
  with route_tree_matches_kernel [OF run]
  have "fib_of (se_kernel example_sys) ?log (l3_device zero_interface, route_key ?new') \<noteq> None"
    by (metis option.distinct(1))
  with run show ?thesis by (intro exI [of _ ?log] exI [of _ ?new']) simp
qed

end
