(* ===== verification/AddrSync.thy ===== *)
theory AddrSync
  imports RouteSync
begin

text \<open>
  What an address leaves in the kernel. The objects that a log of requests leaves behind are
  a set: routes, addresses, neighbours and policy rules. The theory shows which addresses
  come and go without a trace, and for which ones \<open>interface_update_proto_addr\<close> leaves
  routes behind.
\<close>

unbundle bit_operations_syntax

section \<open>Objects in the kernel\<close>

datatype kobj =
    ORoute "did option" rkey
  | OAddr "did option" u32 u32 if_addr
  | ONeigh "did option" if_addr
  | ORule iprule

definition addr_obj :: "did option \<Rightarrow> device_addr \<Rightarrow> kobj" where
  "addr_obj d a = OAddr d (ad_flags a AND DEVADDR_FAMILY) (ad_mask a) (ad_addr a)"

fun kobj_step :: "kernel \<Rightarrow> klog \<Rightarrow> kreq \<Rightarrow> kobj set \<Rightarrow> kobj set" where
  "kobj_step K log (KAddRoute d r) S =
     (if K log (KAddRoute d r) = 0 then insert (ORoute d (route_key r)) S else S)"
| "kobj_step K log (KDelRoute d r) S = S - {ORoute d (route_key r)}"
| "kobj_step K log (KAddAddress d a) S =
     (if K log (KAddAddress d a) = 0 then insert (addr_obj d a) S else S)"
| "kobj_step K log (KDelAddress d a) S = S - {addr_obj d a}"
| "kobj_step K log (KAddNeighbor d n) S =
     (if K log (KAddNeighbor d n) = 0 then insert (ONeigh d (nb_addr n)) S else S)"
| "kobj_step K log (KDelNeighbor d n) S = S - {ONeigh d (nb_addr n)}"
| "kobj_step K log (KAddIprule r) S = (if K log (KAddIprule r) = 0 then insert (ORule r) S else S)"
| "kobj_step K log (KDelIprule r) S = S - {ORule r}"
| "kobj_step K log _ S = S"

fun kobjs_rev :: "kernel \<Rightarrow> klog \<Rightarrow> kobj set" where
  "kobjs_rev K [] = {}"
| "kobjs_rev K (q # l) = kobj_step K (rev l) q (kobjs_rev K l)"

definition kobjs :: "kernel \<Rightarrow> klog \<Rightarrow> kobj set" where
  "kobjs K log = kobjs_rev K (rev log)"

lemma kobjs_Nil [simp]: "kobjs K [] = {}"
  by (simp add: kobjs_def)

lemma kobjs_snoc [simp]: "kobjs K (log @ [q]) = kobj_step K log q (kobjs K log)"
  by (simp add: kobjs_def)

lemma kobjs_kdo: "kobjs K (kdo q log) = kobj_step K log q (kobjs K log)"
  by (simp add: kdo_def)

lemma addr_obj_simps [simp]:
  "addr_obj d (a\<lparr>ad_subnet := r\<rparr>) = addr_obj d a" "addr_obj d (a\<lparr>ad_failed := f\<rparr>) = addr_obj d a"
  "addr_obj d (a\<lparr>ad_enabled := e\<rparr>) = addr_obj d a" "addr_obj d (a\<lparr>ad_policy_table := t\<rparr>) = addr_obj d a"
  "addr_obj d (a\<lparr>ad_broadcast := w\<rparr>) = addr_obj d a"
  by (simp_all add: addr_obj_def)

section \<open>One address\<close>

text \<open>The rules that belong to an address.\<close>

definition addr_rules :: "sys_env \<Rightarrow> device_addr \<Rightarrow> kobj set" where
  "addr_rules E a =
     (let v6 = is_inet6 (ad_flags a) in
      {ORule (source_policy_rule E v6 IPRULE_PRIORITY_ADDR (Some (ad_addr a)) (max_plen v6)
                (ad_policy_table a) None None True),
       ORule (source_policy_rule E v6 IPRULE_PRIORITY_ADDR_MASK (Some (ad_addr a)) (ad_mask a)
                (ad_policy_table a) None None False)})"

lemma add_addr_rules_kobjs:
  "kobjs K (interface_add_addr_rules E a True log) \<subseteq> kobjs K log \<union> addr_rules E a"
  by (auto simp: interface_add_addr_rules_def set_ip_source_policy_def iprule_req_def kobjs_kdo
      addr_rules_def Let_def)

lemma del_addr_rules_kobjs:
  "kobjs K (interface_add_addr_rules E a False log) = kobjs K log - addr_rules E a"
  by (auto simp: interface_add_addr_rules_def set_ip_source_policy_def iprule_req_def kobjs_kdo
      addr_rules_def Let_def)

text \<open>The subnet route of an address that is switched on.\<close>

definition subnet_route :: "sys_env \<Rightarrow> ifid \<Rightarrow> interface \<Rightarrow> device_addr \<Rightarrow> device_route" where
  "subnet_route E i iface a =
     ad_subnet (fst (interface_handle_subnet_route E i iface a True []))"

lemma set_route_info_iface [simp]: "rt_iface (interface_set_route_info f r) = rt_iface r"
  by (simp add: interface_set_route_info_def Let_def split: option.split)

lemma handle_subnet_route_on:
  assumes "\<not> has_flag (ad_flags a) DEVADDR_OFFLINK"
    and "interface_handle_subnet_route E i iface a True log = (a', log')"
  shows "a' = a\<lparr>ad_subnet := subnet_route E i iface a\<rparr> \<and> rt_iface (ad_subnet a') = Some i \<and>
    kobjs K log' \<subseteq> kobjs K log \<union> {ORoute (l3_device iface) (route_key (ad_subnet a'))}"
  using assms
  by (auto simp: interface_handle_subnet_route_def subnet_route_def resolve_kernel Let_def kobjs_kdo
      split: if_splits)

lemma handle_subnet_route_off:
  "\<exists>a'. interface_handle_subnet_route E i iface a False log =
     (a', if has_flag (ad_flags a) DEVADDR_OFFLINK \<or> rt_iface (ad_subnet a) = None then log
          else kdo (KDelRoute (l3_device iface) (ad_subnet a)) log) \<and>
     ad_flags a' = ad_flags a \<and> ad_mask a' = ad_mask a \<and> ad_addr a' = ad_addr a"
  by (simp add: interface_handle_subnet_route_def Let_def)

lemma handle_subnet_offlink:
  "has_flag (ad_flags a) DEVADDR_OFFLINK \<Longrightarrow>
     interface_handle_subnet_route E i iface a add log = (a, log)"
  by (simp add: interface_handle_subnet_route_def Let_def)

text \<open>What an installed address owns in the kernel.\<close>

definition owned_null_route :: "device_addr \<Rightarrow> kobj set" where
  "owned_null_route a =
     (let v6 = is_inet6 (ad_flags a) in
      if \<not> has_flag (ad_flags a) DEVADDR_EXTERNAL \<and> has_flag (ad_flags a) DEVADDR_OFFLINK
         \<and> ad_mask a < max_plen v6
      then {ORoute None (route_key (null_route v6 (ad_mask a) (ad_addr a)))} else {})"

definition owned :: "sys_env \<Rightarrow> interface \<Rightarrow> device_addr \<Rightarrow> kobj set" where
  "owned E iface a =
     (if has_flag (ad_flags a) DEVADDR_EXTERNAL then {}
      else {addr_obj (l3_device iface) a} \<union>
        (if \<not> has_flag (ad_flags a) DEVADDR_OFFLINK \<and> rt_iface (ad_subnet a) \<noteq> None
         then {ORoute (l3_device iface) (route_key (ad_subnet a))} else {})) \<union>
     (if ad_policy_table a \<noteq> 0 then addr_rules E a else {})"

lemma addr_rules_simps [simp]:
  "addr_rules E (a\<lparr>ad_subnet := r\<rparr>) = addr_rules E a" "addr_rules E (a\<lparr>ad_failed := f\<rparr>) = addr_rules E a"
  by (simp_all add: addr_rules_def)

lemma owned_null_route_simps [simp]:
  "owned_null_route (a\<lparr>ad_subnet := r\<rparr>) = owned_null_route a"
  "owned_null_route (a\<lparr>ad_failed := f\<rparr>) = owned_null_route a"
  by (simp_all add: owned_null_route_def Let_def)

lemma install_addr_result:
  assumes "install_addr E i iface a log = (a', log')"
  shows "\<exists>f r. a' = a\<lparr>ad_failed := f, ad_subnet := r\<rparr> \<and>
    (\<not> has_flag (ad_flags a) DEVADDR_OFFLINK \<or> r = ad_subnet a) \<and>
    kobjs (se_kernel E) log' \<subseteq> kobjs (se_kernel E) log \<union> {addr_obj (l3_device iface) a} \<union>
      (if \<not> has_flag (ad_flags a) DEVADDR_OFFLINK \<and> rt_iface r \<noteq> None
       then {ORoute (l3_device iface) (route_key r)} else {})"
proof -
  let ?K = "se_kernel E"
  define a1 where "a1 = (if ?K log (KAddAddress (l3_device iface) a) \<noteq> 0 then a\<lparr>ad_failed := True\<rparr> else a)"
  define log1 where "log1 = log @ [KAddAddress (l3_device iface) a]"
  define f where "f = (?K log (KAddAddress (l3_device iface) a) \<noteq> 0 \<or> ad_failed a)"
  have a1: "a1 = a\<lparr>ad_failed := f\<rparr>" by (cases a) (simp add: a1_def f_def)
  have l1: "kobjs ?K log1 \<subseteq> kobjs ?K log \<union> {addr_obj (l3_device iface) a}"
    by (auto simp: log1_def)
  have flags: "ad_flags a1 = ad_flags a" by (simp add: a1_def)
  show ?thesis
  proof (cases "(if_metric iface \<noteq> 0 \<or> ad_policy_table a1 \<noteq> 0) \<and> \<not> has_flag (ad_flags a) DEVADDR_OFFLINK")
    case True
    then have "interface_handle_subnet_route E i iface a1 True log1 = (a', log')"
      using assms by (simp add: install_addr_def ksys_def a1_def log1_def Let_def)
    with handle_subnet_route_on [of a1 E i iface log1 a' log' ?K] True flags a1 l1
    show ?thesis by (intro exI [of _ f] exI [of _ "subnet_route E i iface a1"]) auto
  next
    case False
    then have "a' = a1" "log' = log1"
      using assms handle_subnet_offlink [of a1 E i iface True log1]
      by (auto simp: install_addr_def ksys_def a1_def log1_def Let_def split: if_splits)
    with a1 l1 show ?thesis
      by (intro exI [of _ f] exI [of _ "ad_subnet a"]) (cases a, auto)
  qed
qed

lemma install_addr_extras_objs:
  "kobjs K (install_addr_extras E a log) \<subseteq> kobjs K log \<union> owned_null_route a \<union>
     (if ad_policy_table a \<noteq> 0 then addr_rules E a else {})"
proof -
  define log1 where "log1 = (if owned_null_route a \<noteq> {}
    then kdo (KAddRoute None (null_route (is_inet6 (ad_flags a)) (ad_mask a) (ad_addr a))) log else log)"
  have "kobjs K log1 \<subseteq> kobjs K log \<union> owned_null_route a"
    by (auto simp: log1_def owned_null_route_def kobjs_kdo Let_def)
  moreover have "install_addr_extras E a log =
      (if ad_policy_table a \<noteq> 0 then interface_add_addr_rules E a True log1 else log1)"
    by (auto simp: install_addr_extras_def log1_def owned_null_route_def Let_def)
  ultimately show ?thesis using add_addr_rules_kobjs [of K E a log1] by auto
qed

lemma install_new_addr_objs:
  assumes "install_new_addr E i iface False False a log = (a', log')"
  shows "kobjs (se_kernel E) log' \<subseteq> kobjs (se_kernel E) log \<union> owned E iface a' \<union> owned_null_route a' \<and>
    ad_flags a' = ad_flags a \<and> ad_mask a' = ad_mask a \<and> ad_addr a' = ad_addr a \<and> ad_enabled a'"
proof -
  let ?K = "se_kernel E"
  define a0 where "a0 = a\<lparr>ad_enabled := True,
    ad_policy_table := (if is_inet6 (ad_flags a) then if_ip6table iface else if_ip4table iface)\<rparr>"
  have fields: "ad_flags a0 = ad_flags a" "ad_mask a0 = ad_mask a" "ad_addr a0 = ad_addr a" "ad_enabled a0"
    by (simp_all add: a0_def)
  obtain a1 log1 where a1: "(if \<not> has_flag (ad_flags a) DEVADDR_EXTERNAL then install_addr E i iface a0 log
      else (a0, log)) = (a1, log1)" by force
  have res: "a' = a1" "log' = install_addr_extras E a1 log1"
    using assms a1 fields(1) unfolding install_new_addr_def Let_def a0_def [symmetric]
    by (auto split: prod.splits)
  show ?thesis
  proof (cases "has_flag (ad_flags a) DEVADDR_EXTERNAL")
    case True
    then show ?thesis using a1 res fields install_addr_extras_objs [of ?K E a0 log]
      by (auto simp: owned_def owned_null_route_def)
  next
    case False
    with a1 have "install_addr E i iface a0 log = (a1, log1)" by simp
    from install_addr_result [OF this] obtain f r where r: "a1 = a0\<lparr>ad_failed := f, ad_subnet := r\<rparr>"
      "kobjs ?K log1 \<subseteq> kobjs ?K log \<union> {addr_obj (l3_device iface) a0} \<union>
      (if \<not> has_flag (ad_flags a0) DEVADDR_OFFLINK \<and> rt_iface r \<noteq> None
       then {ORoute (l3_device iface) (route_key r)} else {})" by blast
    then have "kobjs ?K log1 \<subseteq> kobjs ?K log \<union> owned E iface a1"
      using False fields by (auto simp: owned_def)
    with res install_addr_extras_objs [of ?K E a1 log1] r(1) fields show ?thesis
      by (auto simp: owned_def split: if_splits)
  qed
qed

lemma remove_old_addr_objs:
  "kobjs K (remove_old_addr E i iface a log) \<subseteq> kobjs K log - owned E iface a -
     (if is_inet6 (ad_flags a) then {} else owned_null_route a)"
proof -
  define log1 where "log1 = (if ad_policy_table a \<noteq> 0 then interface_add_addr_rules E a False log else log)"
  have l1: "kobjs K log1 = kobjs K log - (if ad_policy_table a \<noteq> 0 then addr_rules E a else {})"
    by (simp add: log1_def del_addr_rules_kobjs)
  show ?thesis
  proof (cases "has_flag (ad_flags a) DEVADDR_EXTERNAL")
    case True
    then have "remove_old_addr E i iface a log = log1" by (simp add: remove_old_addr_def log1_def Let_def)
    with True l1 show ?thesis by (auto simp: owned_def owned_null_route_def)
  next
    case False
    obtain a' where a': "interface_handle_subnet_route E i iface a False log1 =
       (a', if has_flag (ad_flags a) DEVADDR_OFFLINK \<or> rt_iface (ad_subnet a) = None then log1
          else kdo (KDelRoute (l3_device iface) (ad_subnet a)) log1)"
      "ad_flags a' = ad_flags a" "ad_mask a' = ad_mask a" "ad_addr a' = ad_addr a"
      using handle_subnet_route_off [of E i iface a log1] by blast
    then have o: "addr_obj (l3_device iface) a' = addr_obj (l3_device iface) a" by (simp add: addr_obj_def)
    show ?thesis using a' o l1 False
      by (auto simp: remove_old_addr_def log1_def [symmetric] Let_def kobjs_kdo owned_def
          owned_null_route_def split: if_splits)
  qed
qed

lemma fill_broadcast_fields [simp]:
  "ad_flags (fill_broadcast a) = ad_flags a" "ad_mask (fill_broadcast a) = ad_mask a"
  "ad_addr (fill_broadcast a) = ad_addr a" "ad_subnet (fill_broadcast a) = ad_subnet a"
  "ad_failed (fill_broadcast a) = ad_failed a"
  "ad_point_to_point (fill_broadcast a) = ad_point_to_point a"
  by (simp_all add: fill_broadcast_def)

lemma update_addr_add:
  "interface_update_proto_addr E i iface (Some a) None log =
     (let (a', log') = install_new_addr E i (iface\<lparr>if_updated := if_updated iface OR IUF_ADDRESS\<rparr>)
                         False False (fill_broadcast a) log
      in (iface\<lparr>if_updated := if_updated iface OR IUF_ADDRESS\<rparr>, Some a', log'))"
  by (simp add: interface_update_proto_addr_def addr_keep_def addr_replace_def Let_def)

lemma update_addr_del:
  "ad_enabled a \<Longrightarrow> interface_update_proto_addr E i iface None (Some a) log =
     (iface\<lparr>if_updated := if_updated iface OR IUF_ADDRESS\<rparr>, None,
      remove_old_addr E i (iface\<lparr>if_updated := if_updated iface OR IUF_ADDRESS\<rparr>) a log)"
  by (simp add: interface_update_proto_addr_def addr_keep_def addr_replace_def Let_def)

lemma owned_updated [simp]: "owned E (iface\<lparr>if_updated := u\<rparr>) a = owned E iface a"
  by (simp add: owned_def)

lemma enabled_after_install:
  "install_new_addr E i iface keep replace a log = (a', log') \<Longrightarrow> ad_enabled a'"
proof -
  assume h: "install_new_addr E i iface keep replace a log = (a', log')"
  have "ad_enabled b' = ad_enabled b" if "install_addr E i iface b l = (b', l')" for b l b' l'
    using install_addr_result [OF that] by auto
  then show ?thesis using h
    by (auto simp: install_new_addr_def Let_def split: if_splits prod.splits)
qed

section \<open>Properties\<close>

text \<open>C15: An address that is added to an interface and removed again leaves nothing in the kernel:
  no address, no subnet route, no null route and no policy rule, whatever the kernel answered
  and whether the address is external or not, unless it is an off-link IPv6 address.
\<close>

theorem addr_add_remove_leaves_nothing:
  assumes "has_flag (ad_flags a) DEVADDR_OFFLINK \<longrightarrow> \<not> is_inet6 (ad_flags a)"
  shows "let (f1, n1, log1) = interface_update_proto_addr E i iface (Some a) None log;
             (f2, n2, log2) = interface_update_proto_addr E i f1 None n1 log1
         in n2 = None \<and> kobjs (se_kernel E) log2 \<subseteq> kobjs (se_kernel E) log"
proof -
  let ?f1 = "iface\<lparr>if_updated := if_updated iface OR IUF_ADDRESS\<rparr>"
  obtain a' log1 where i: "install_new_addr E i ?f1 False False (fill_broadcast a) log = (a', log1)"
    by force
  note o = install_new_addr_objs [OF i]
  have "owned_null_route a' = (if is_inet6 (ad_flags a') then {} else owned_null_route a')"
    using assms o by (simp add: owned_null_route_def Let_def)
  with o remove_old_addr_objs [of "se_kernel E" E i "?f1\<lparr>if_updated := if_updated ?f1 OR IUF_ADDRESS\<rparr>" a' log1]
  have "kobjs (se_kernel E) (remove_old_addr E i (?f1\<lparr>if_updated := if_updated ?f1 OR IUF_ADDRESS\<rparr>) a' log1)
      \<subseteq> kobjs (se_kernel E) log" by auto
  with i enabled_after_install [OF i] show ?thesis
    by (simp add: update_addr_add update_addr_del Let_def)
qed

theorem addr_add_remove_leaves_nothing_witness:
  "\<not> has_flag (ad_flags zero_device_addr) DEVADDR_OFFLINK \<and>
   (let (f1, n1, log1) = interface_update_proto_addr example_sys 1
          (zero_interface\<lparr>if_metric := 10, if_ip4table := 7\<rparr>) (Some (zero_device_addr\<lparr>ad_mask := 24\<rparr>)) None [];
        (f2, n2, log2) = interface_update_proto_addr example_sys 1 f1 None n1 log1
    in n2 = None \<and> kobjs (se_kernel example_sys) log2 \<subseteq> kobjs (se_kernel example_sys) [])"
  by (rule conjI, simp add: zero_device_addr_def, rule addr_add_remove_leaves_nothing,
      simp add: zero_device_addr_def)

text \<open>C27: An off-link IPv6 address leaves its null route behind: when such an address is added
  and removed again, the unreachable route for its prefix is still installed, since the
  removal takes the address for an IPv4 one.
\<close>

theorem offlink_v6_null_route_stays:
  assumes "is_inet6 (ad_flags a)" "has_flag (ad_flags a) DEVADDR_OFFLINK"
    and "\<not> has_flag (ad_flags a) DEVADDR_EXTERNAL" "ad_mask a < 128"
    and "\<forall>l q. se_kernel E l q = 0"
  shows "let (f1, n1, log1) = interface_update_proto_addr E i iface (Some a) None log;
             (f2, n2, log2) = interface_update_proto_addr E i f1 None n1 log1
         in ORoute None (route_key (null_route True (ad_mask a) (ad_addr a))) \<in> kobjs (se_kernel E) log2"
proof -
  let ?f1 = "iface\<lparr>if_updated := if_updated iface OR IUF_ADDRESS\<rparr>"
  let ?f2 = "?f1\<lparr>if_updated := if_updated ?f1 OR IUF_ADDRESS\<rparr>"
  let ?null = "ORoute None (route_key (null_route True (ad_mask a) (ad_addr a)))"
  have differ: "route_key (null_route True m b) \<noteq> route_key (null_route False m b)" for m b
    by (simp add: route_key_def null_route_def v6_flag_def devaddr_flags)
  obtain a' log1 where i: "install_new_addr E i ?f1 False False (fill_broadcast a) log = (a', log1)"
    by force
  have f: "ad_flags a' = ad_flags a" "ad_mask a' = ad_mask a" "ad_addr a' = ad_addr a"
    using install_new_addr_objs [OF i] by simp_all
  obtain l where "log1 = install_addr_extras E a' l"
    using i by (auto simp: install_new_addr_def Let_def split: prod.splits if_splits)
  then have in1: "?null \<in> kobjs (se_kernel E) log1"
    using assms f by (auto simp: install_addr_extras_def Let_def max_plen_def kobjs_kdo
        interface_add_addr_rules_def set_ip_source_policy_def iprule_req_def)
  have "?null \<in> kobjs (se_kernel E) (remove_old_addr E i ?f2 a' log1)"
    using in1 assms f differ handle_subnet_offlink [of a' E i ?f2 False]
    by (auto simp: remove_old_addr_def Let_def kobjs_kdo del_addr_rules_kobjs addr_rules_def
        addr_obj_def)
  with i enabled_after_install [OF i] show ?thesis
    by (simp add: update_addr_add update_addr_del Let_def)
qed

theorem offlink_v6_null_route_stays_witness:
  "let a = zero_device_addr\<lparr>ad_flags := DEVADDR_INET6 OR DEVADDR_OFFLINK, ad_mask := 64\<rparr>;
       (f1, n1, log1) = interface_update_proto_addr example_sys 1 zero_interface (Some a) None [];
       (f2, n2, log2) = interface_update_proto_addr example_sys 1 f1 None n1 log1
   in ORoute None (route_key (null_route True 64 (ad_addr a))) \<in> kobjs (se_kernel example_sys) log2"
proof -
  let ?a = "zero_device_addr\<lparr>ad_flags := DEVADDR_INET6 OR DEVADDR_OFFLINK, ad_mask := 64\<rparr>"
  have "is_inet6 (ad_flags ?a)" "has_flag (ad_flags ?a) DEVADDR_OFFLINK"
    "\<not> has_flag (ad_flags ?a) DEVADDR_EXTERNAL" "ad_mask ?a < 128" "\<forall>l q. se_kernel example_sys l q = 0"
    by (simp_all add: is_inet6_def has_flag_def devaddr_flags example_sys_def)
  from offlink_v6_null_route_stays [OF this, of 1 zero_interface "[]"]
  show ?thesis by (simp add: Let_def)
qed

lemma kept_addr_update:
  assumes "addr_keep (Some (fill_broadcast a)) (Some old)" "\<not> addr_replace (Some (fill_broadcast a)) (Some old)"
  shows "interface_update_proto_addr E i iface (Some a) (Some old) log =
     (iface, Some ((fill_broadcast a)\<lparr>ad_enabled := True,
        ad_policy_table := (if is_inet6 (ad_flags a) then if_ip6table iface else if_ip4table iface)\<rparr>), log)"
  using assms by (simp add: interface_update_proto_addr_def install_new_addr_def Let_def)

text \<open>C28: An address that is configured again without a change is kept in the kernel, but the tree
  element that replaces it does not know its subnet route any more: when the address is
  removed after that, the subnet route stays.
\<close>

theorem kept_addr_forgets_subnet_route:
  assumes "\<not> has_flag (ad_flags a) DEVADDR_OFFLINK" "\<not> has_flag (ad_flags a) DEVADDR_EXTERNAL"
    and "rt_iface (ad_subnet a) = None" "\<not> ad_failed a" "if_metric iface \<noteq> 0"
    and "\<forall>l q. se_kernel E l q = 0"
  shows "let (f1, n1, log1) = interface_update_proto_addr E i iface (Some a) None log;
             (f2, n2, log2) = interface_update_proto_addr E i f1 (Some a) n1 log1;
             (f3, n3, log3) = interface_update_proto_addr E i f2 None n2 log2
         in \<exists>old. n1 = Some old \<and> n3 = None \<and>
              ORoute (l3_device iface) (route_key (ad_subnet old)) \<in> kobjs (se_kernel E) log3"
proof -
  let ?f1 = "iface\<lparr>if_updated := if_updated iface OR IUF_ADDRESS\<rparr>"
  let ?f3 = "?f1\<lparr>if_updated := if_updated ?f1 OR IUF_ADDRESS\<rparr>"
  define a0 where "a0 = (fill_broadcast a)\<lparr>ad_enabled := True,
    ad_policy_table := (if is_inet6 (ad_flags a) then if_ip6table iface else if_ip4table iface)\<rparr>"
  obtain a' l where h: "interface_handle_subnet_route E i ?f1 a0 True
      (log @ [KAddAddress (l3_device iface) a0]) = (a', l)" by force
  have inst: "install_new_addr E i ?f1 False False (fill_broadcast a) log = (a', install_addr_extras E a' l)"
    using assms h by (simp add: install_new_addr_def install_addr_def ksys_def Let_def a0_def
        split del: if_split cong del: if_weak_cong)
  have a': "\<exists>r. a' = a0\<lparr>ad_subnet := r\<rparr>"
    using handle_subnet_route_on [OF _ h, of "se_kernel E"] assms(1) by (auto simp: a0_def)
  then have keep: "addr_keep (Some (fill_broadcast a)) (Some a')" "\<not> addr_replace (Some (fill_broadcast a)) (Some a')"
    using assms(4) by (auto simp: addr_keep_def addr_replace_def a0_def fill_broadcast_def)
  have "ORoute (l3_device iface) (route_key (ad_subnet a')) \<in> kobjs (se_kernel E) l"
    using h assms(1, 6) by (auto simp: interface_handle_subnet_route_def resolve_kernel Let_def kobjs_kdo a0_def)
  then have in1: "ORoute (l3_device iface) (route_key (ad_subnet a')) \<in>
      kobjs (se_kernel E) (install_addr_extras E a' l)"
    using assms(6) by (auto simp: install_addr_extras_def Let_def kobjs_kdo interface_add_addr_rules_def
        set_ip_source_policy_def iprule_req_def)
  have "ORoute (l3_device iface) (route_key (ad_subnet a')) \<in>
      kobjs (se_kernel E) (remove_old_addr E i ?f3 a0 (install_addr_extras E a' l))"
    using in1 assms by (auto simp: remove_old_addr_def interface_handle_subnet_route_def Let_def
        kobjs_kdo del_addr_rules_kobjs addr_rules_def addr_obj_def a0_def)
  with inst show ?thesis
    by (cases "is_inet6 (ad_flags a)")
       (simp_all add: update_addr_add kept_addr_update [OF keep] update_addr_del Let_def a0_def)
qed

theorem kept_addr_forgets_subnet_route_witness:
  "let a = zero_device_addr\<lparr>ad_mask := 24\<rparr>;
       (f1, n1, log1) = interface_update_proto_addr example_sys 1 (zero_interface\<lparr>if_metric := 10\<rparr>) (Some a) None [];
       (f2, n2, log2) = interface_update_proto_addr example_sys 1 f1 (Some a) n1 log1;
       (f3, n3, log3) = interface_update_proto_addr example_sys 1 f2 None n2 log2
   in \<exists>old. n1 = Some old \<and> n3 = None \<and>
        ORoute (l3_device (zero_interface\<lparr>if_metric := 10\<rparr>)) (route_key (ad_subnet old))
          \<in> kobjs (se_kernel example_sys) log3"
proof -
  let ?a = "zero_device_addr\<lparr>ad_mask := 24\<rparr>" and ?f = "zero_interface\<lparr>if_metric := 10\<rparr>"
  have "\<not> has_flag (ad_flags ?a) DEVADDR_OFFLINK" "\<not> has_flag (ad_flags ?a) DEVADDR_EXTERNAL"
    "rt_iface (ad_subnet ?a) = None" "\<not> ad_failed ?a" "if_metric ?f \<noteq> 0"
    "\<forall>l q. se_kernel example_sys l q = 0"
    by (simp_all add: zero_device_addr_def example_sys_def)
  from kept_addr_forgets_subnet_route [OF this, of 1 "[]"]
  show ?thesis by (simp only: Let_def)
qed

end
