(* ===== verification/PrefixAddr.thy ===== *)
theory PrefixAddr
  imports AddrSync PrefixAssign DeviceSettings
begin

text \<open>
  Addresses from delegated prefixes, \<open>src/interface-ip.c\<close>: choosing the interface identifier
  (\<open>generate_ifaceid\<close>), putting the address of an assignment on an interface and taking it
  off again (\<open>interface_set_prefix_address\<close>), and the whole of
  \<open>interface_update_prefix_assignments\<close>.
\<close>

unbundle bit_operations_syntax

section \<open>Interface identifiers\<close>

text \<open>\<open>mrand48\<close> is an argument: the two numbers it returns next.\<close>

definition random_ifaceid :: "u32 \<times> u32 \<Rightarrow> if_addr \<Rightarrow> if_addr" where
  "random_ifaceid r addr = take 8 addr @ u32_bytes (fst r) @ u32_bytes (snd r)"

definition eui64_ifaceid :: "device \<Rightarrow> if_addr \<Rightarrow> if_addr option" where
  "eui64_ifaceid dev addr =
     (let st = device_merge_settings (dv_orig_settings dev) (dv_settings dev); mac = ds_macaddr st
      in if \<not> has_flag (ds_flags st) DEV_OPT_MACADDR then None
         else Some (take 8 addr @
           [mac ! 0 XOR 2, mac ! 1, mac ! 2, 0xff, 0xfe, mac ! 3, mac ! 4, mac ! 5]))"

definition generate_ifaceid ::
  "sys_env \<Rightarrow> interface \<Rightarrow> did \<Rightarrow> if_addr \<Rightarrow> klog \<Rightarrow> if_addr option" where
  "generate_ifaceid E iface l3 addr log =
     (case if_assignment_iface_id_selection iface of
        IFID_FIXED \<Rightarrow> Some (take 8 addr @ drop 8 (if_assignment_fixed_iface_id iface))
      | IFID_RANDOM \<Rightarrow> Some (random_ifaceid (se_mrand48 E log) addr)
      | IFID_EUI64 \<Rightarrow> eui64_ifaceid (se_dev E l3) addr)"

section \<open>The address of an assignment\<close>

text \<open>The address of the assigned subnet: \<open>s6_addr32[1] |= htonl(assigned)\<close>.\<close>

definition or_subnet :: "if_addr \<Rightarrow> int \<Rightarrow> if_addr" where
  "or_subnet addr assigned =
     take 4 addr @ map2 (\<lambda>x y. x OR y) (take 4 (drop 4 addr)) (rev (u32_bytes (to_u32 assigned))) @ drop 8 addr"

definition prefix_route :: "interface \<Rightarrow> u32 \<Rightarrow> if_addr \<Rightarrow> device_route" where
  "prefix_route iface plen addr =
     (let m = (if plen < 64 then 64 else plen) in
      interface_set_route_info (Some iface)
        (zero_route\<lparr>rt_flags := DEVADDR_INET6, rt_mask := m, rt_addr := clear_if_addr addr (unat m)\<rparr>))"

text \<open>
  The policy rules of a delegated address. The order differs: on removal the rule of the
  uplink table goes before the reject rule, on addition it comes after it.
\<close>

definition prefix_addr_rule ::
  "sys_env \<Rightarrow> interface \<Rightarrow> bool \<Rightarrow> u32 \<Rightarrow> if_addr \<Rightarrow> klog \<Rightarrow> klog" where
  "prefix_addr_rule E iface add plen addr log =
     (if if_ip6table iface \<noteq> 0
      then set_ip_source_policy E add True IPRULE_PRIORITY_ADDR_MASK (Some addr)
             (if plen < 64 then 64 else plen) (if_ip6table iface) None None False log
      else log)"

definition prefix_nw_rule ::
  "sys_env \<Rightarrow> interface \<Rightarrow> interface \<Rightarrow> bool \<Rightarrow> u32 \<Rightarrow> if_addr \<Rightarrow> klog \<Rightarrow> klog" where
  "prefix_nw_rule E uplink iface add plen addr log =
     (if if_ip6table uplink \<noteq> 0
      then set_ip_source_policy E add True IPRULE_PRIORITY_NW (Some addr) plen (if_ip6table uplink)
             (Some iface) None True log
      else log)"

definition prefix_reject_rule ::
  "sys_env \<Rightarrow> interface \<Rightarrow> bool \<Rightarrow> u32 \<Rightarrow> if_addr \<Rightarrow> klog \<Rightarrow> klog" where
  "prefix_reject_rule E iface add plen addr log =
     set_ip_source_policy E add True IPRULE_PRIORITY_REJECT (Some addr) plen 0 (Some iface)
       (Some ''unreachable'') True log"

definition prefix_addr ::
  "device_prefix \<Rightarrow> device_prefix_assignment \<Rightarrow> device_addr" where
  "prefix_addr prefix assignment =
     zero_device_addr\<lparr>ad_addr := pa_addr assignment, ad_mask := word_of_nat (pa_length assignment),
       ad_flags := DEVADDR_INET6, ad_preferred_until := pf_preferred_until prefix,
       ad_valid_until := pf_valid_until prefix\<rparr>"

definition retire_times :: "int \<Rightarrow> device_addr \<Rightarrow> device_addr" where
  "retire_times now addr =
     (if ad_valid_until addr \<noteq> 0 \<and> ad_valid_until addr - 1 \<le> now
      then addr\<lparr>ad_valid_until := 0, ad_preferred_until := 0\<rparr>
      else let addr = addr\<lparr>ad_preferred_until := now\<rparr>
           in if ad_valid_until addr = 0 \<or> ad_valid_until addr > now + 7200
              then addr\<lparr>ad_valid_until := now + 7200\<rparr> else addr)"

definition prefix_address_off ::
  "sys_env \<Rightarrow> interface option \<Rightarrow> interface \<Rightarrow> did \<Rightarrow> device_prefix \<Rightarrow> device_prefix_assignment \<Rightarrow> klog \<Rightarrow>
   device_prefix_assignment \<times> klog" where
  "prefix_address_off E uplink iface l3 prefix assignment log =
     (let addr = retire_times (se_rtime E) (prefix_addr prefix assignment);
          log = prefix_addr_rule E iface False (ad_mask addr) (ad_addr addr) log;
          log = (case uplink of
                   None \<Rightarrow> log
                 | Some up \<Rightarrow> prefix_reject_rule E iface False (ad_mask addr) (ad_addr addr)
                                (prefix_nw_rule E up iface False (ad_mask addr) (ad_addr addr) log));
          log = kdo (KDelRoute (Some l3) (prefix_route iface (ad_mask addr) (ad_addr addr))) log;
          log = (if ad_valid_until addr \<noteq> 0 then kdo (KAddAddress (Some l3) addr) log
                 else kdo (KDelAddress (Some l3) addr) log)
      in (assignment\<lparr>pa_addr := zero_addr, pa_enabled := False\<rparr>, log))"

definition follow_uplink_mtu ::
  "sys_env \<Rightarrow> interface option \<Rightarrow> did \<Rightarrow> klog \<Rightarrow> klog" where
  "follow_uplink_mtu E uplink l3 log =
     (case Option.bind uplink l3_device of
        None \<Rightarrow> log
      | Some up \<Rightarrow>
          if has_flag (ds_flags (dv_settings (se_dev E l3))) DEV_OPT_MTU6 then log
          else let (mtu, log) = ksys (se_kernel E) (KUpdateIpv6Mtu up 0) log;
                   (mtu_old, log) = ksys (se_kernel E) (KUpdateIpv6Mtu l3 0) log
               in if mtu > 0 \<and> mtu_old \<noteq> mtu then kdo (KUpdateIpv6Mtu l3 mtu) log else log)"

text \<open>The address to use: the one assigned before, or a new one.\<close>

definition pick_address ::
  "sys_env \<Rightarrow> interface \<Rightarrow> did \<Rightarrow> device_prefix \<Rightarrow> device_prefix_assignment \<Rightarrow> klog \<Rightarrow> if_addr option" where
  "pick_address E iface l3 prefix assignment log =
     (if pa_addr assignment = zero_addr
      then generate_ifaceid E iface l3 (or_subnet (pf_addr prefix) (pa_assigned assignment)) log
      else Some (pa_addr assignment))"

definition prefix_address_on ::
  "sys_env \<Rightarrow> interface option \<Rightarrow> interface \<Rightarrow> did \<Rightarrow> device_prefix \<Rightarrow> device_prefix_assignment \<Rightarrow> klog \<Rightarrow>
   device_prefix_assignment \<times> klog" where
  "prefix_address_on E uplink iface l3 prefix assignment log =
     (let addr = prefix_addr prefix assignment
      in case pick_address E iface l3 prefix assignment log of
           None \<Rightarrow> (assignment, log)
         | Some a \<Rightarrow>
             let assignment = assignment\<lparr>pa_addr := a\<rparr>;
                 addr = addr\<lparr>ad_addr := a, ad_flags := ad_flags addr OR DEVADDR_OFFLINK\<rparr>;
                 (ret, log) = ksys (se_kernel E) (KAddAddress (Some l3) addr) log
             in if ret \<noteq> 0 then (assignment, log)
                else let log = (if pa_enabled assignment then log
                                else let log = prefix_addr_rule E iface True (ad_mask addr) a log
                                     in case uplink of
                                          None \<Rightarrow> log
                                        | Some up \<Rightarrow>
                                            prefix_nw_rule E up iface True (ad_mask addr) a
                                              (prefix_reject_rule E iface True (ad_mask addr) a log));
                         log = kdo (KAddRoute (Some l3) (prefix_route iface (ad_mask addr) a)) log;
                         log = follow_uplink_mtu E uplink l3 log
                     in (assignment\<lparr>pa_enabled := True\<rparr>, log))"

text \<open>\<open>uplink\<close> is the interface of the prefix, \<open>NULL\<close> for the local (ULA) prefix.\<close>

definition interface_set_prefix_address ::
  "sys_env \<Rightarrow> interface option \<Rightarrow> device_prefix_assignment \<Rightarrow> device_prefix \<Rightarrow> interface \<Rightarrow> bool \<Rightarrow> klog \<Rightarrow>
   device_prefix_assignment \<times> klog" where
  "interface_set_prefix_address E uplink assignment prefix iface add log =
     (case l3_device iface of
        None \<Rightarrow> (assignment, log)
      | Some l3 \<Rightarrow>
          if \<not> add \<and> pa_enabled assignment
          then prefix_address_off E uplink iface l3 prefix assignment log
          else if add \<and> (if_state iface = IFS_UP \<or> if_state iface = IFS_SETUP)
          then prefix_address_on E uplink iface l3 prefix assignment log
          else (assignment, log))"

section \<open>All assignments of a prefix\<close>

text \<open>The interfaces of a prefix are found by name; \<open>ifs\<close> is the interface tree.\<close>

fun set_prefix_addresses ::
  "sys_env \<Rightarrow> ifaces \<Rightarrow> interface option \<Rightarrow> device_prefix \<Rightarrow> bool \<Rightarrow> device_prefix_assignment list \<Rightarrow> klog \<Rightarrow>
   device_prefix_assignment list \<times> klog" where
  "set_prefix_addresses E ifs uplink prefix add [] log = ([], log)"
| "set_prefix_addresses E ifs uplink prefix add (c # cs) log =
     (let (c, log) = (case find_iface ifs (pa_name c) of
                        None \<Rightarrow> (c, log)
                      | Some (i, f) \<Rightarrow> interface_set_prefix_address E uplink c prefix f add log);
          (cs, log) = set_prefix_addresses E ifs uplink prefix add cs log
      in (c # cs, log))"

definition prefix_uplink :: "ifaces \<Rightarrow> device_prefix \<Rightarrow> interface option" where
  "prefix_uplink ifs prefix = Option.bind (pf_iface prefix) (map_of ifs)"

definition interface_update_prefix_assignments ::
  "sys_env \<Rightarrow> ifaces \<Rightarrow> device_prefix \<Rightarrow> bool \<Rightarrow> klog \<Rightarrow> device_prefix \<times> klog" where
  "interface_update_prefix_assignments E ifs prefix setup log =
     (let uplink = prefix_uplink ifs prefix;
          (_, log) = set_prefix_addresses E ifs uplink prefix False (pf_assignments prefix) log;
          prefix = prefix\<lparr>pf_assignments := []\<rparr>
      in if \<not> setup then (prefix, log)
         else let (as, assigned_any) = assign_subprefixes prefix (map snd ifs);
                  (as, log) = set_prefix_addresses E ifs uplink prefix True as log
              in (prefix\<lparr>pf_assignments := as\<rparr>, log))"

definition prefix_expired :: "int \<Rightarrow> device_prefix \<Rightarrow> bool" where
  "prefix_expired now p \<longleftrightarrow> pf_valid_until p \<noteq> 0 \<and> pf_valid_until p - 1 \<le> now"

section \<open>Lemmas: where a delegated address lies\<close>

lemma length_u32_bytes [simp]: "length (u32_bytes w) = 4"
  by (simp add: u32_bytes_def)

lemma length_or_subnet [simp]: "length p = 16 \<Longrightarrow> length (or_subnet p s) = 16"
  by (simp add: or_subnet_def)

lemma u32_bytes_bit:
  assumes "i < 4" "b < 8"
  shows "bit (rev (u32_bytes w) ! i) b = bit w (8 * (3 - i) + b)"
proof -
  from assms(1) consider "i = 0" | "i = 1" | "i = 2" | "i = 3" by linarith
  then show ?thesis using assms(2)
    by cases (simp_all add: u32_bytes_def bit_simps add.commute)
qed

lemma or_subnet_nth:
  assumes "length p = 16" "i < 16"
  shows "or_subnet p s ! i =
    (if 4 \<le> i \<and> i < 8 then p ! i OR rev (u32_bytes (to_u32 s)) ! (i - 4) else p ! i)"
proof -
  have "or_subnet p s ! i = p ! i" if "i < 4 \<or> 8 \<le> i"
    using assms that by (auto simp: or_subnet_def nth_append)
  moreover have "or_subnet p s ! i = p ! i OR rev (u32_bytes (to_u32 s)) ! (i - 4)" if "4 \<le> i" "i < 8"
  proof -
    have "i - 4 < 4" using that by simp
    with assms that show ?thesis by (simp add: or_subnet_def nth_append)
  qed
  ultimately show ?thesis by auto
qed

lemma or_subnet_bit:
  assumes "length p = 16" "k < 64"
  shows "addr_bit (or_subnet p s) k \<longleftrightarrow> addr_bit p k \<or> (32 \<le> k \<and> bit (to_u32 s) (63 - k))"
proof (cases "32 \<le> k")
  case True
  define i where "i = k div 8"
  have i: "4 \<le> i" "i < 8" "k = 8 * i + k mod 8" using True assms(2) by (auto simp: i_def)
  have "8 * (3 - (i - 4)) + (7 - k mod 8) = 63 - k" using i by linarith
  then have "bit (rev (u32_bytes (to_u32 s)) ! (i - 4)) (7 - k mod 8) = bit (to_u32 s) (63 - k)"
    using i u32_bytes_bit [of "i - 4" "7 - k mod 8" "to_u32 s"] by simp
  with True i assms(1) show ?thesis
    by (simp add: addr_bit_def or_subnet_nth bit_or_iff flip: i_def)
next
  case False
  then have "k div 8 < 4" by simp
  with False assms(1) show ?thesis by (simp add: addr_bit_def or_subnet_nth)
qed

lemma bit_above: "0 \<le> (s :: int) \<Longrightarrow> s < 2 ^ n \<Longrightarrow> n \<le> j \<Longrightarrow> \<not> bit s j"
proof -
  assume "0 \<le> s" "s < 2 ^ n" "n \<le> j"
  then have "take_bit n s = s" by (simp add: take_bit_int_eq_self)
  then show ?thesis using \<open>n \<le> j\<close> by (metis bit_take_bit_iff not_le)
qed

text \<open>A prefix as \<open>interface_ip_add_device_prefix\<close> stores it: no bits behind its length.\<close>

definition prefix_masked :: "device_prefix \<Rightarrow> bool" where
  "prefix_masked p \<longleftrightarrow> length (pf_addr p) = 16 \<and> pf_length p \<le> 64 \<and>
     (\<forall>k. pf_length p \<le> k \<and> k < 128 \<longrightarrow> \<not> addr_bit (pf_addr p) k)"

lemma subnet_bits:
  assumes "prefix_masked p" "0 \<le> s" "s < 2 ^ (64 - pf_length p)" "s < 2 ^ 32" "k < 64"
  shows "addr_bit (or_subnet (pf_addr p) s) k =
    (if k < pf_length p then addr_bit (pf_addr p) k else bit s (63 - k))"
proof -
  have len: "length (pf_addr p) = 16" using assms(1) by (simp add: prefix_masked_def)
  have w: "bit (to_u32 s) (63 - k) \<longleftrightarrow> 63 - k < 32 \<and> bit s (63 - k)"
    by (simp add: to_u32_def bit_word_of_int_iff)
  show ?thesis
  proof (cases "k < pf_length p")
    case True
    then have "64 - pf_length p \<le> 63 - k" by linarith
    then have "\<not> bit s (63 - k)" using assms(2, 3) bit_above by blast
    with True len assms(5) w show ?thesis by (simp add: or_subnet_bit)
  next
    case False
    have "\<not> addr_bit (pf_addr p) k" using assms(1, 5) False by (simp add: prefix_masked_def)
    moreover have "bit s (63 - k) \<Longrightarrow> 32 \<le> k"
      using bit_above [OF assms(2, 4), of "63 - k"] assms(5) by linarith
    ultimately show ?thesis using False len assms(5) w by (auto simp: or_subnet_bit)
  qed
qed

lemma generate_ifaceid_length:
  assumes "generate_ifaceid E iface l3 p log = Some a" "length p = 16"
    and "length (if_assignment_fixed_iface_id iface) = 16"
  shows "length a = 16"
  using assms by (auto simp: generate_ifaceid_def random_ifaceid_def eui64_ifaceid_def Let_def
      split: interface_id_selection_type.splits if_splits)

lemma take8_bit:
  assumes "take 8 a = take 8 p" "k < 64"
  shows "addr_bit a k = addr_bit p k"
proof -
  have "k div 8 < 8" using assms(2) by simp
  then have "a ! (k div 8) = p ! (k div 8)" using assms(1) by (metis nth_take)
  then show ?thesis by (simp add: addr_bit_def)
qed

lemma generate_ifaceid_take:
  assumes "generate_ifaceid E iface l3 p log = Some a" "length p = 16"
  shows "take 8 a = take 8 p"
  using assms by (auto simp: generate_ifaceid_def random_ifaceid_def eui64_ifaceid_def Let_def
      split: interface_id_selection_type.splits if_splits)

text \<open>What \<open>set_prefix_addresses\<close> makes of an assignment without an address.\<close>

definition got_address ::
  "ifaces \<Rightarrow> device_prefix \<Rightarrow> device_prefix_assignment \<Rightarrow> device_prefix_assignment \<Rightarrow> bool" where
  "got_address ifs p c c' \<longleftrightarrow> pa_assigned c' = pa_assigned c \<and>
     (pa_enabled c' \<longrightarrow> find_iface ifs (pa_name c) \<noteq> None \<and> length (pa_addr c') = 16 \<and>
        take 8 (pa_addr c') = take 8 (or_subnet (pf_addr p) (pa_assigned c)))"

lemma prefix_address_got:
  assumes "interface_set_prefix_address E uplink c p f True log = (c', log')"
    and "\<not> pa_enabled c" "pa_addr c = zero_addr" "length (pf_addr p) = 16"
    and "length (if_assignment_fixed_iface_id f) = 16"
  shows "pa_assigned c' = pa_assigned c" "pa_enabled c' \<Longrightarrow> length (pa_addr c') = 16 \<and>
        take 8 (pa_addr c') = take 8 (or_subnet (pf_addr p) (pa_assigned c))"
proof -
  have pick: "pick_address E f l3 p c log = generate_ifaceid E f l3 (or_subnet (pf_addr p) (pa_assigned c)) log" for l3
    using assms(3) by (simp add: pick_address_def)
  have len: "length (or_subnet (pf_addr p) (pa_assigned c)) = 16" using assms(4) by simp
  show "pa_assigned c' = pa_assigned c"
    using assms(1,2) by (auto simp: interface_set_prefix_address_def prefix_address_on_def Let_def ksys_def
        split: option.splits if_splits)
  assume "pa_enabled c'"
  then obtain l3 where "pick_address E f l3 p c log = Some (pa_addr c')"
    using assms(1,2) by (auto simp: interface_set_prefix_address_def prefix_address_on_def Let_def ksys_def
        split: option.splits if_splits)
  then show "length (pa_addr c') = 16 \<and> take 8 (pa_addr c') = take 8 (or_subnet (pf_addr p) (pa_assigned c))"
    using generate_ifaceid_take [OF _ len] generate_ifaceid_length [OF _ len assms(5)] by (simp add: pick)
qed

lemma set_prefix_addresses_got:
  assumes "\<forall>c \<in> set cs. \<not> pa_enabled c \<and> pa_addr c = zero_addr" "length (pf_addr p) = 16"
    and "\<forall>x \<in> set ifs. length (if_assignment_fixed_iface_id (snd x)) = 16"
  shows "list_all2 (got_address ifs p) cs (fst (set_prefix_addresses E ifs uplink p True cs log))"
  using assms(1)
proof (induction cs arbitrary: log)
  case (Cons c cs)
  define r where "r = (case find_iface ifs (pa_name c) of None \<Rightarrow> (c, log)
    | Some (i, f) \<Rightarrow> interface_set_prefix_address E uplink c p f True log)"
  have "got_address ifs p c (fst r)"
  proof (cases "find_iface ifs (pa_name c)")
    case None
    then show ?thesis using Cons.prems by (simp add: r_def got_address_def)
  next
    case (Some x)
    then have "x \<in> set ifs" unfolding find_iface_def by (simp add: find_Some_iff) (metis nth_mem)
    with assms(3) have "length (if_assignment_fixed_iface_id (snd x)) = 16" by blast
    then show ?thesis
      using Some Cons.prems prefix_address_got [of E uplink c p "snd x" log "fst r" "snd r"] assms(2)
      by (simp add: r_def got_address_def split_beta)
  qed
  then show ?case
    using Cons by (simp add: Let_def split_beta flip: r_def)
qed simp

text \<open>The assignments after an update: the splitting of the prefix, with addresses.\<close>

lemma update_assignments_got:
  assumes "prefix_ok p" "prefix_masked p" "\<forall>x \<in> set ifs. length (if_assignment_fixed_iface_id (snd x)) = 16"
    and "as = fst (assign_subprefixes (p\<lparr>pf_assignments := []\<rparr>) (map snd ifs))"
    and "as' = pf_assignments (fst (interface_update_prefix_assignments E ifs p True log))"
  shows "list_all2 (got_address ifs p) as as'"
proof -
  let ?p = "p\<lparr>pf_assignments := []\<rparr>"
  have ok: "prefix_ok ?p" using assms(1) by (simp add: prefix_ok_def prefix_excluded_def)
  have plain: "\<not> pa_enabled c \<and> pa_addr c = zero_addr" if "c \<in> set as" for c
  proof -
    from assign_subprefixes_inv [OF ok, of "map snd ifs"] that assms(4)
    have "c \<in> set (initial_assignments ?p) \<or> assigned_to ?p (map snd ifs) c" unfolding layout_inv_def by blast
    then show ?thesis
      by (auto simp: assigned_to_def initial_assignments_def prefix_sentinel_def prefix_excluded_def split: if_splits)
  qed
  have "list_all2 (got_address ifs ?p) as as'"
    using set_prefix_addresses_got [of as ?p ifs] plain assms(2-5)
    by (simp add: interface_update_prefix_assignments_def Let_def split_beta prefix_masked_def)
  then show ?thesis by (rule list_all2_mono) (simp add: got_address_def)
qed

section \<open>Lemmas: rules and routes of a delegated address\<close>

text \<open>The rules and the route that belong to the address of an assignment.\<close>

definition prefix_objs ::
  "sys_env \<Rightarrow> interface option \<Rightarrow> interface \<Rightarrow> did \<Rightarrow> u32 \<Rightarrow> if_addr \<Rightarrow> kobj set" where
  "prefix_objs E uplink iface l3 plen a =
     {ORoute (Some l3) (route_key (prefix_route iface plen a))} \<union>
     (if if_ip6table iface \<noteq> 0
      then {ORule (source_policy_rule E True IPRULE_PRIORITY_ADDR_MASK (Some a)
              (if plen < 64 then 64 else plen) (if_ip6table iface) None None False)} else {}) \<union>
     (case uplink of None \<Rightarrow> {} | Some up \<Rightarrow>
        {ORule (source_policy_rule E True IPRULE_PRIORITY_REJECT (Some a) plen 0 (Some iface)
           (Some ''unreachable'') True)} \<union>
        (if if_ip6table up \<noteq> 0
         then {ORule (source_policy_rule E True IPRULE_PRIORITY_NW (Some a) plen (if_ip6table up)
                 (Some iface) None True)} else {}))"

lemmas prefix_rule_defs = prefix_addr_rule_def prefix_nw_rule_def prefix_reject_rule_def
  set_ip_source_policy_def iprule_req_def

lemma kobjs_snoc2 [simp]:
  "kobjs K (log @ [a, b]) = kobj_step K (log @ [a]) b (kobj_step K log a (kobjs K log))"
  using kobjs_snoc [of K "log @ [a]" b] by simp

lemma follow_uplink_mtu_kobjs [simp]: "kobjs K (follow_uplink_mtu E uplink l3 log) = kobjs K log"
  by (auto simp: follow_uplink_mtu_def ksys_def kobjs_kdo Let_def split: option.split)

lemma retire_times_fields [simp]:
  "ad_mask (retire_times now a) = ad_mask a" "ad_addr (retire_times now a) = ad_addr a"
  "ad_flags (retire_times now a) = ad_flags a" "addr_obj d (retire_times now a) = addr_obj d a"
  by (simp_all add: retire_times_def addr_obj_def Let_def)

text \<open>Taking an address away ends with the request that deletes it or hands it over to the kernel.\<close>

lemma prefix_address_off_log:
  "\<exists>log1. snd (prefix_address_off E uplink iface l3 p c log) =
     log1 @ [(if ad_valid_until (retire_times (se_rtime E) (prefix_addr p c)) \<noteq> 0 then KAddAddress else KDelAddress)
               (Some l3) (retire_times (se_rtime E) (prefix_addr p c))] \<and>
     kobjs K log1 \<subseteq> kobjs K log - prefix_objs E uplink iface l3 (word_of_nat (pa_length c)) (pa_addr c)"
proof -
  let ?a = "retire_times (se_rtime E) (prefix_addr p c)"
  let ?log1 = "kdo (KDelRoute (Some l3) (prefix_route iface (ad_mask ?a) (ad_addr ?a)))
    (case uplink of None \<Rightarrow> prefix_addr_rule E iface False (ad_mask ?a) (ad_addr ?a) log
       | Some up \<Rightarrow> prefix_reject_rule E iface False (ad_mask ?a) (ad_addr ?a)
           (prefix_nw_rule E up iface False (ad_mask ?a) (ad_addr ?a)
             (prefix_addr_rule E iface False (ad_mask ?a) (ad_addr ?a) log)))"
  have "kobjs K ?log1 \<subseteq> kobjs K log - prefix_objs E uplink iface l3 (word_of_nat (pa_length c)) (pa_addr c)"
    by (auto simp: prefix_objs_def prefix_rule_defs kobjs_kdo prefix_addr_def split: option.split)
  moreover have "snd (prefix_address_off E uplink iface l3 p c log) =
      ?log1 @ [(if ad_valid_until ?a \<noteq> 0 then KAddAddress else KDelAddress) (Some l3) ?a]"
    by (simp add: prefix_address_off_def Let_def kdo_def)
  ultimately show ?thesis by blast
qed

lemma retire_times_expired:
  "0 \<le> now \<Longrightarrow> ad_valid_until (retire_times now (prefix_addr p c)) = 0 \<longleftrightarrow> prefix_expired now p"
  "\<not> prefix_expired now p \<Longrightarrow> ad_preferred_until (retire_times now (prefix_addr p c)) = now"
  "\<not> prefix_expired now p \<Longrightarrow> now < ad_valid_until (retire_times now (prefix_addr p c))"
  "\<not> prefix_expired now p \<Longrightarrow> ad_valid_until (retire_times now (prefix_addr p c)) \<le> now + 7200"
  by (auto simp: retire_times_def prefix_addr_def prefix_expired_def Let_def)

lemma prefix_address_on_kobjs:
  assumes "prefix_address_on E uplink iface l3 p c log = (c', log')" "\<not> pa_enabled c"
  shows "kobjs (se_kernel E) log' \<subseteq> kobjs (se_kernel E) log \<union>
      (if pa_enabled c' then prefix_objs E uplink iface l3 (word_of_nat (pa_length c)) (pa_addr c') \<union>
         {addr_obj (Some l3) (prefix_addr p c')} else {}) \<and> pa_length c' = pa_length c"
proof (cases "pick_address E iface l3 p c log")
  case None
  with assms show ?thesis by (simp add: prefix_address_on_def prefix_addr_def Let_def)
next
  case (Some a)
  define addr where "addr = (prefix_addr p c)\<lparr>ad_addr := a,
    ad_flags := ad_flags (prefix_addr p c) OR DEVADDR_OFFLINK\<rparr>"
  have o: "addr_obj (Some l3) addr = addr_obj (Some l3) (prefix_addr p (c\<lparr>pa_addr := a, pa_enabled := e\<rparr>))" for e
    by (simp add: addr_def addr_obj_def prefix_addr_def devaddr_flags)
  have mask: "ad_mask addr = word_of_nat (pa_length c)" by (simp add: addr_def prefix_addr_def)
  have eq: "prefix_address_on E uplink iface l3 p c log =
      (let (ret, log) = ksys (se_kernel E) (KAddAddress (Some l3) addr) log
       in if ret \<noteq> 0 then (c\<lparr>pa_addr := a\<rparr>, log)
          else (c\<lparr>pa_addr := a, pa_enabled := True\<rparr>, follow_uplink_mtu E uplink l3
            (kdo (KAddRoute (Some l3) (prefix_route iface (ad_mask addr) a))
              (let log = prefix_addr_rule E iface True (ad_mask addr) a log
               in case uplink of None \<Rightarrow> log
                  | Some up \<Rightarrow> prefix_nw_rule E up iface True (ad_mask addr) a
                      (prefix_reject_rule E iface True (ad_mask addr) a log)))))"
    using Some assms(2) unfolding prefix_address_on_def Let_def ksys_def addr_def prod.case
    by simp
  show ?thesis
  proof (cases "se_kernel E log (KAddAddress (Some l3) addr) = 0")
    case True
    with assms(1) eq have "c' = c\<lparr>pa_addr := a, pa_enabled := True\<rparr>"
      "kobjs (se_kernel E) log' \<subseteq> kobjs (se_kernel E) log \<union> {addr_obj (Some l3) addr} \<union>
         prefix_objs E uplink iface l3 (ad_mask addr) a"
      by (auto simp: ksys_def Let_def prefix_objs_def prefix_rule_defs kobjs_kdo split: option.splits if_splits)
    with o mask show ?thesis by auto
  next
    case False
    with assms eq show ?thesis by (auto simp: ksys_def)
  qed
qed

section \<open>Properties\<close>

text \<open>The number of the /64 network of a prefix in which an enabled assignment has its address.\<close>

lemma enabled_in_prefix:
  assumes "prefix_ok p" "prefix_masked p" "\<forall>x \<in> set ifs. length (if_assignment_fixed_iface_id (snd x)) = 16 \<and> if_name (snd x) \<noteq> []"
    and "as = fst (assign_subprefixes (p\<lparr>pf_assignments := []\<rparr>) (map snd ifs))"
    and "as' = pf_assignments (fst (interface_update_prefix_assignments E ifs p True log))"
    and "k < length as'" "pa_enabled (as' ! k)"
  shows "0 \<le> pa_assigned (as ! k) \<and> pa_assigned (as ! k) < 2 ^ (64 - pf_length p)"
    "pa_assigned (as' ! k) = pa_assigned (as ! k)" "length (pa_addr (as' ! k)) = 16"
    "b < 64 \<Longrightarrow> addr_bit (pa_addr (as' ! k)) b =
       (if b < pf_length p then addr_bit (pf_addr p) b else bit (pa_assigned (as ! k)) (63 - b))"
proof -
  let ?p = "p\<lparr>pf_assignments := []\<rparr>"
  have ok: "prefix_ok ?p" using assms(1) by (simp add: prefix_ok_def prefix_excluded_def)
  have got: "list_all2 (got_address ifs p) as as'"
    using assms(3) by (intro update_assignments_got [OF assms(1,2) _ assms(4,5)]) blast
  then have len: "length as = length as'" by (rule list_all2_lengthD)
  have g: "got_address ifs p (as ! k) (as' ! k)" using got assms(6) len by (simp add: list_all2_conv_all_nth)
  then have found: "find_iface ifs (pa_name (as ! k)) \<noteq> None" using assms(7) by (simp add: got_address_def)
  note inv = assign_subprefixes_inv [OF ok, of "map snd ifs", folded assms(4), unfolded layout_inv_def]
  have "find_iface ifs [] = None" using assms(3) by (auto simp: find_iface_def find_None_iff)
  then have "as ! k \<noteq> last as" using found inv by (auto simp: prefix_sentinel_def)
  moreover have "last as = as ! (length as - 1)" using inv by (intro last_conv_nth) blast
  ultimately have "k \<noteq> length as - 1" by force
  then have k: "k < length as - 1" "k < length as" using assms(6) len by linarith+
  have split: "as = butlast as @ [prefix_sentinel ?p]"
    using inv append_butlast_last_id [of as] by argo
  have "as ! k \<in> set (butlast as)" using k(1) nth_butlast [of k as] nth_mem [of k "butlast as"] by simp
  moreover have "sorted_wrt (\<lambda>a b. pa_end a \<le> pa_assigned b) as" using inv layout_ok_sorted by blast
  ultimately have "pa_end (as ! k) \<le> pa_assigned (prefix_sentinel ?p)"
    by (subst (asm) (2) split) (simp add: sorted_wrt_append)
  moreover have "pa_assigned (prefix_sentinel ?p) = 2 ^ (64 - pf_length p)"
  proof -
    have "64 - pf_length p \<le> 30" using assms(1) by (auto simp: prefix_ok_def)
    then show ?thesis using shl1_pow by (simp add: prefix_sentinel_def)
  qed
  moreover have "pa_assigned (as ! k) < pa_end (as ! k)" by (simp add: pa_end_def)
  moreover have "0 \<le> pa_assigned (as ! k)" using inv layout_ok_ge [of 0 as "as ! k"] nth_mem [OF k(2)] by blast
  ultimately show range: "0 \<le> pa_assigned (as ! k) \<and> pa_assigned (as ! k) < 2 ^ (64 - pf_length p)" by simp
  show "pa_assigned (as' ! k) = pa_assigned (as ! k)" "length (pa_addr (as' ! k)) = 16"
    using g assms(7) by (simp_all add: got_address_def)
  have "(2::int) ^ (64 - pf_length p) \<le> 2 ^ 32" using assms(1) by (intro power_increasing) (auto simp: prefix_ok_def)
  then have "pa_assigned (as ! k) < 2 ^ 32" using range by linarith
  moreover assume b: "b < 64"
  moreover have "take 8 (pa_addr (as' ! k)) = take 8 (or_subnet (pf_addr p) (pa_assigned (as ! k)))"
    using g assms(7) by (simp add: got_address_def)
  then have "addr_bit (pa_addr (as' ! k)) b = addr_bit (or_subnet (pf_addr p) (pa_assigned (as ! k))) b"
    using b by (intro take8_bit)
  ultimately show "addr_bit (pa_addr (as' ! k)) b =
       (if b < pf_length p then addr_bit (pf_addr p) b else bit (pa_assigned (as ! k)) (63 - b))"
    using range subnet_bits [OF assms(2), of "pa_assigned (as ! k)" b] by simp
qed

text \<open>C20: when the assignments of a delegated prefix are made anew, the addresses that the interfaces
  get, however their interface identifiers are chosen, lie inside of the prefix and in the /64 network
  at the position of the assignment, and no two assignments have addresses in the same /64
  network. No interface has an empty name.\<close>

theorem delegated_addresses_separate:
  assumes "prefix_ok p" "prefix_masked p"
    and "\<forall>x \<in> set ifs. length (if_assignment_fixed_iface_id (snd x)) = 16 \<and> if_name (snd x) \<noteq> []"
    and "interface_update_prefix_assignments E ifs p True log = (p', log')"
  shows "(\<forall>c \<in> set (pf_assignments p'). pa_enabled c \<longrightarrow>
           match_if_addr (pa_addr c) (pf_addr p) (pf_length p) \<and>
           match_if_addr (pa_addr c) (or_subnet (pf_addr p) (pa_assigned c)) 64) \<and>
         (\<forall>j k. j < k \<and> k < length (pf_assignments p') \<and>
            pa_enabled (pf_assignments p' ! j) \<and> pa_enabled (pf_assignments p' ! k) \<longrightarrow>
            \<not> match_if_addr (pa_addr (pf_assignments p' ! j)) (pa_addr (pf_assignments p' ! k)) 64)"
proof (intro conjI ballI allI impI)
  let ?as' = "pf_assignments p'"
  define as where "as = fst (assign_subprefixes (p\<lparr>pf_assignments := []\<rparr>) (map snd ifs))"
  have as': "?as' = pf_assignments (fst (interface_update_prefix_assignments E ifs p True log))" using assms(4) by simp
  note e = enabled_in_prefix [OF assms(1-3) as_def as']
  have plen: "length (pf_addr p) = 16" "pf_length p \<le> 64" using assms(2) by (simp_all add: prefix_masked_def)
  {
    fix c assume "c \<in> set ?as'" "pa_enabled c"
    then obtain k where k: "k < length ?as'" "c = ?as' ! k" by (metis in_set_conv_nth)
    note c = e [OF k(1) \<open>pa_enabled c\<close> [unfolded k(2)]]
    have "(2::int) ^ (64 - pf_length p) \<le> 2 ^ 32" using assms(1) by (intro power_increasing) (auto simp: prefix_ok_def)
    then have "pa_assigned (as ! k) < 2 ^ 32" using c(1) by linarith
    then show "match_if_addr (pa_addr c) (pf_addr p) (pf_length p)"
      "match_if_addr (pa_addr c) (or_subnet (pf_addr p) (pa_assigned c)) 64"
      using c plen subnet_bits [OF assms(2)] by (simp_all add: k(2) match_bits)
  }
  fix j k assume jk: "j < k \<and> k < length ?as' \<and> pa_enabled (?as' ! j) \<and> pa_enabled (?as' ! k)"
  have j: "j < length ?as'" "pa_enabled (?as' ! j)" and k: "k < length ?as'" "pa_enabled (?as' ! k)" using jk by simp_all
  have "length as = length ?as'"
    using assms(3) by (intro list_all2_lengthD [OF update_assignments_got [OF assms(1,2) _ as_def as']]) blast
  moreover have "prefix_ok (p\<lparr>pf_assignments := []\<rparr>)" using assms(1) by (simp add: prefix_ok_def prefix_excluded_def)
  then have "sorted_wrt (\<lambda>a b. pa_end a \<le> pa_assigned b) as"
    using assign_subprefixes_inv layout_ok_sorted unfolding as_def layout_inv_def by blast
  ultimately have "pa_end (as ! j) \<le> pa_assigned (as ! k)" using jk by (simp add: sorted_wrt_iff_nth_less)
  moreover have "pa_assigned (as ! j) < pa_end (as ! j)" by (simp add: pa_end_def)
  ultimately have "pa_assigned (as ! j) \<noteq> pa_assigned (as ! k)" by simp
  then obtain i where i: "bit (pa_assigned (as ! j)) i \<noteq> bit (pa_assigned (as ! k)) i" by (metis bit_eqI)
  then have "i < 64 - pf_length p" using bit_above e(1) [OF j] e(1) [OF k] by (meson not_le)
  then have "63 - i < 64" "\<not> 63 - i < pf_length p" "63 - (63 - i) = i" by linarith+
  with e(4) [OF j, of "63 - i"] e(4) [OF k, of "63 - i"] i
  have "addr_bit (pa_addr (?as' ! j)) (63 - i) \<noteq> addr_bit (pa_addr (?as' ! k)) (63 - i)" by simp
  with e(3) [OF j] e(3) [OF k] \<open>63 - i < 64\<close>
  show "\<not> match_if_addr (pa_addr (?as' ! j)) (pa_addr (?as' ! k)) 64" by (auto simp: match_bits)
qed

text \<open>C21: Giving an interface the address of an assignment and taking it away again leaves no
  policy rule and no route in the kernel, whether the kernel accepted the address or not. If it did
  and the prefix has expired, the last request deletes the address and nothing is left. If the
  prefix is still valid, the last request hands the address over to the kernel, deprecated from now
  on and valid for at most two more hours; it is all that is left.\<close>

theorem prefix_address_comes_and_goes:
  assumes "\<not> pa_enabled c" and "0 \<le> se_rtime E"
  shows "let (c1, log1) = interface_set_prefix_address E uplink c p iface True log;
             (c2, log2) = interface_set_prefix_address E uplink c1 p iface False log1;
             now = se_rtime E
         in \<not> pa_enabled c2 \<and>
            (if \<not> pa_enabled c1 then kobjs (se_kernel E) log2 \<subseteq> kobjs (se_kernel E) log
             else \<exists>l3 a. l3_device iface = Some l3 \<and>
               ad_addr a = pa_addr c1 \<and> ad_mask a = word_of_nat (pa_length c1) \<and>
               (if prefix_expired now p
                then last log2 = KDelAddress (Some l3) a \<and> kobjs (se_kernel E) log2 \<subseteq> kobjs (se_kernel E) log
                else last log2 = KAddAddress (Some l3) a \<and>
                  ad_preferred_until a = now \<and> now < ad_valid_until a \<and> ad_valid_until a \<le> now + 7200 \<and>
                  kobjs (se_kernel E) log2 \<subseteq> kobjs (se_kernel E) log \<union> {addr_obj (Some l3) a}))"
proof (cases "l3_device iface")
  case None
  with assms show ?thesis by (auto simp: interface_set_prefix_address_def)
next
  case (Some l3)
  show ?thesis
  proof (cases "if_state iface = IFS_UP \<or> if_state iface = IFS_SETUP")
    case False
    with assms show ?thesis by (auto simp: interface_set_prefix_address_def split: option.split)
  next
    case True
    obtain c1 log1 where on: "prefix_address_on E uplink iface l3 p c log = (c1, log1)" by force
    note o = prefix_address_on_kobjs [OF on assms(1)]
    have first: "interface_set_prefix_address E uplink c p iface True log = (c1, log1)"
      using Some True on by (simp add: interface_set_prefix_address_def)
    show ?thesis
    proof (cases "pa_enabled c1")
      case False
      with o first Some show ?thesis by (auto simp: interface_set_prefix_address_def)
    next
      case True
      let ?a = "retire_times (se_rtime E) (prefix_addr p c1)"
      obtain c2 log2 where off: "prefix_address_off E uplink iface l3 p c1 log1 = (c2, log2)" by force
      then have c2: "\<not> pa_enabled c2" by (auto simp: prefix_address_off_def Let_def)
      have second: "interface_set_prefix_address E uplink c1 p iface False log1 = (c2, log2)"
        using Some True off by (simp add: interface_set_prefix_address_def)
      have a: "ad_addr ?a = pa_addr c1" "ad_mask ?a = word_of_nat (pa_length c1)" by (simp_all add: prefix_addr_def)
      from prefix_address_off_log [of E uplink iface l3 p c1 log1 "se_kernel E"] off True o
      obtain log' where log': "log2 = log' @ [(if ad_valid_until ?a \<noteq> 0 then KAddAddress else KDelAddress) (Some l3) ?a]"
        "kobjs (se_kernel E) log' \<subseteq> kobjs (se_kernel E) log \<union> {addr_obj (Some l3) ?a}" by auto
      then show ?thesis
        using first second Some True c2 a retire_times_expired [of "se_rtime E" p c1] assms(2)
        by (cases "prefix_expired (se_rtime E) p") (auto intro!: exI [of _ ?a])
    qed
  qed
qed

definition example_lan :: interface where
  "example_lan = zero_interface\<lparr>if_name := ''lan'', if_state := IFS_UP, if_assignment_length := 64,
     if_assignment_hint := -1, if_l3_dev := zero_device_user\<lparr>du_dev := Some 0\<rparr>\<rparr>"

definition example_delegated :: device_prefix where
  "example_delegated = zero_prefix\<lparr>pf_addr := 0xfd # replicate 15 0, pf_length := 60, pf_valid_until := 90000\<rparr>"

theorem prefix_address_comes_and_goes_witness:
  "let (c1, log1) = interface_set_prefix_address example_sys None (new_assignment example_lan) example_delegated
         example_lan True [];
       (c2, log2) = interface_set_prefix_address example_sys None c1 example_delegated example_lan False log1
   in pa_enabled c1 \<and> \<not> pa_enabled c2 \<and> (\<exists>a. last log2 = KAddAddress (Some 0) a \<and> ad_valid_until a \<le> 1000 + 7200)"
proof -
  let ?c = "new_assignment example_lan" and ?p = example_delegated
  obtain c1 log1 where 1: "interface_set_prefix_address example_sys None ?c ?p example_lan True [] = (c1, log1)" by force
  obtain c2 log2 where 2: "interface_set_prefix_address example_sys None c1 ?p example_lan False log1 = (c2, log2)" by force
  have "pa_enabled (fst (interface_set_prefix_address example_sys None ?c ?p example_lan True []))" by code_simp
  then have on: "pa_enabled c1" using 1 by simp
  have "\<not> pa_enabled ?c" "0 \<le> se_rtime example_sys" "\<not> prefix_expired (se_rtime example_sys) ?p"
    "l3_device example_lan = Some 0" "se_rtime example_sys = 1000" by code_simp+
  with prefix_address_comes_and_goes [of ?c example_sys None ?p example_lan "[]"] 1 2 on
  show ?thesis by auto
qed

theorem delegated_addresses_separate_witness:
  "let ifs = [(0, example_lan), (1, example_lan\<lparr>if_name := ''guest''\<rparr>)];
       (p', log') = interface_update_prefix_assignments example_sys ifs example_delegated True []
   in map pa_enabled (pf_assignments p') = [True, True, False] \<and>
      \<not> match_if_addr (pa_addr (pf_assignments p' ! 0)) (pa_addr (pf_assignments p' ! 1)) 64"
proof -
  let ?ifs = "[(0, example_lan), (1, example_lan\<lparr>if_name := ''guest''\<rparr>)]" and ?p = example_delegated
  obtain p' log' where p': "interface_update_prefix_assignments example_sys ?ifs ?p True [] = (p', log')" by force
  have "map pa_enabled (pf_assignments (fst (interface_update_prefix_assignments example_sys ?ifs ?p True []))) =
      [True, True, False]" by code_simp
  then have en: "map pa_enabled (pf_assignments p') = [True, True, False]" using p' by simp
  then have "length (pf_assignments p') = 3" by (metis length_map list.size(3,4) numeral_3_eq_3 One_nat_def add_Suc_right add_0_right)
  moreover have "pa_enabled (pf_assignments p' ! 0)" "pa_enabled (pf_assignments p' ! 1)"
    using en calculation by (auto simp: list_eq_iff_nth_eq numeral_3_eq_3)
  moreover have zero: "\<not> addr_bit (0xfd # replicate 15 0) k" if "60 \<le> k" "k < 128" for k
  proof -
    have "0 < k div 8" "k div 8 - 1 < 15" using that by linarith+
    then have "(0xfd # replicate 15 0 :: u8 list) ! (k div 8) = 0" by (simp add: nth_Cons')
    then show ?thesis by (simp add: addr_bit_def)
  qed
  then have "prefix_masked ?p" by (simp add: prefix_masked_def example_delegated_def)
  moreover have "prefix_ok ?p" by code_simp
  moreover have "\<forall>x \<in> set ?ifs. length (if_assignment_fixed_iface_id (snd x)) = 16 \<and> if_name (snd x) \<noteq> []"
    by (simp add: example_lan_def zero_interface_def zero_addr_def)
  ultimately show ?thesis
    using delegated_addresses_separate [OF _ _ _ p'] en p' by auto
qed

end
