(* ===== verification/World.thy ===== *)
theory World
  imports PrefixAddr "HOL-Library.Monad_Syntax"
begin

text \<open>
  The state that the components of netifd share, and the calls between them. Devices,
  interfaces and delegated prefixes live in stores addressed by identifiers, beside the
  containers that list them. A function that is called through a pointer in the code (the
  callback of a device user, the \<open>set_state\<close> method of a device, the event callback of a
  protocol, the callback of an interface user) is called through the argument \<open>rec\<close>, so that
  every operation is a definition of its own and the recursion through callbacks is tied in
  one place, with fuel. A result \<open>None\<close> means that the fuel was used up or that an assertion
  of the code failed.

  An event of an interface is recorded twice: when it is raised (\<open>OutEvent\<close>), and when it
  reaches the listeners for all interfaces (\<open>OutNotify\<close>). What lies outside, ubus, the hotplug scripts, the resolver file and the
  timers, is told of by entries of the list \<open>w_out\<close>.
\<close>

unbundle bit_operations_syntax

datatype out =
    OutEvent ifid interface_event
  | OutNotify ifid interface_event
  | OutResolvConf "string option"
  | OutFreeUnused
  | OutFreeDevice did
  | OutUbusAdd ifid
  | OutUbusRemove ifid
  | OutFreeInterface ifid
  | OutAllocInterface ifid
  | OutProtoState ifid
  | OutLostConnection ifid
  | OutStpInit string bridge_config
  | OutStart process "string list" "string list"
  | OutKill process int
  | OutDefaultTtl u32
  | OutNetnsMove did "string option"
  | OutRestartTimer

text \<open>
  \<open>w_ifusers\<close> lists the users that follow an interface, alias interfaces and host dependencies of
  shell protocols; \<open>w_allusers\<close> lists those that are registered for the events of all interfaces.
  \<open>w_config_init\<close> is set while the configuration is read.
  \<open>w_devlist\<close> is the device tree, \<open>w_iflist\<close> the interface tree and \<open>w_prefixes\<close> the list of
  prefixes that can be assigned from, \<open>w_ula\<close> the local prefix; \<open>w_refresh\<close> is the static variable of
  \<open>interface_refresh_assignments\<close>. An object that is allocated
  takes the next free identifier. The structures of the device types that embed a device are
  in stores of their own, by the identifier of the device (\<open>w_vlan\<close> to \<open>w_bridge\<close>);
  \<open>w_aliases\<close> is the tree of alias devices. \<open>w_bridge_dev\<close> is where the hotplug operation
  \<open>prepare\<close> writes the device that it found. The states of the protocols that run programs are in
  stores of their own too; they take their identifiers from \<open>w_next_proto\<close>.
\<close>

datatype if_user = AliasUser ifid | ShellDep depid

record world =
  w_devs :: "did \<Rightarrow> device"
  w_devlist :: "did list"
  w_next_dev :: did
  w_ifs :: "ifid \<Rightarrow> interface"
  w_iflist :: "ifid list"
  w_ifs_version :: int
  w_next_if :: ifid
  w_config_init :: bool
  w_ifusers :: "ifid \<Rightarrow> if_user list"
  w_allusers :: "if_user list"
  w_prefix :: "pid \<Rightarrow> device_prefix"
  w_next_prefix :: pid
  w_prefixes :: "pid list"
  w_ula :: "pid option"
  w_refresh :: bool
  w_vlan :: "did \<Rightarrow> vlan_device"
  w_vlandev :: "did \<Rightarrow> vlandev_device"
  w_macvlan :: "did \<Rightarrow> macvlan_device"
  w_veth :: "did \<Rightarrow> veth"
  w_alias :: "did \<Rightarrow> alias_device"
  w_aliases :: "did list"
  w_bridge :: "did \<Rightarrow> bridge_state"
  w_member :: "mid \<Rightarrow> bridge_member"
  w_next_member :: mid
  w_bridge_dev :: "did option"
  w_shell :: "psid \<Rightarrow> proto_shell_state"
  w_udhcp :: "psid \<Rightarrow> dhcp_proto_state"
  w_isc :: "psid \<Rightarrow> isc_dhcp_proto_state"
  w_zcip :: "psid \<Rightarrow> zcip_proto_state"
  w_next_proto :: psid
  w_dep :: "depid \<Rightarrow> proto_shell_dependency"
  w_next_dep :: depid
  w_log :: klog
  w_out :: "out list"

text \<open>The VLANs of a hotplug operation: the elements of an array, \<open>None\<close> for one that is no string.\<close>

type_synonym vlan_list = "string option list option"

datatype call =
    CUser uid device_event
  | CSetState did bool
  | CProtoCmd ifid interface_proto_cmd bool
  | CProtoEvent ifid interface_proto_event
  | CIfUser if_user ifid interface_event
  | CHotplug did did vlan_list bool
  | CPrepare did

type_synonym rec = "call \<Rightarrow> world \<Rightarrow> (int \<times> world) option"

text \<open>
  The environment. \<open>we_visit\<close> is the order in which \<open>safe_list_for_each\<close> of libubox visits the
  elements of a list; elements that have left the list before their turn are skipped.
  \<open>we_if_resolve\<close>, \<open>we_if_get_settings\<close>, \<open>we_if_parent\<close> (the name of the device below,
  from \<open>iflink\<close>) and \<open>we_if_check\<close> are what the kernel reports on a device.

  The methods of a device type other than the simple one are \<open>ty_*\<close>; like the operations of
  the model they make their calls through pointers by \<open>rec\<close>. \<open>we_vlan_chain\<close> and
  \<open>we_alias_get\<close> look up VLAN and alias devices. \<open>DeviceTypes\<close> fills in the types that are
  modelled; \<open>we_hotplug\<close> and \<open>we_prepare\<close> are the hotplug operations of the others.
  \<open>we_vlandev_attrs\<close>, \<open>we_macvlan_attrs\<close>, \<open>we_veth_attrs\<close> and \<open>we_bridge_attrs\<close> parse the
  attributes of a type (the latter with the elements of the array of ports), \<open>we_dev_diff\<close> and \<open>we_type_diff\<close>
  are \<open>uci_blob_diff\<close> on the attributes of devices and of a type, \<open>we_bridge_diff\<close> the attributes of a bridge that
  differ, and \<open>we_vlan_check\<close> is the answer of \<open>system_bridge_vlan_check\<close>. \<open>we_proto_attach\<close> tells whether
  there is memory for the state of a protocol, \<open>we_fork\<close> whether a process can be made, given what was
  done before; \<open>we_json\<close> formats the configuration of a shell protocol, \<open>we_checkup\<close> and \<open>we_dad_wait\<close>
  parse the attributes \<open>checkup_interval\<close> and \<open>dad_wait_time\<close>. \<open>we_handlers\<close> is the tree of protocol handlers. \<open>we_parse\<close> holds the library
  functions that parse addresses, \<open>we_blob_equal\<close> is \<open>uci_blob_check_equal\<close>, \<open>we_dev_attrs\<close>, \<open>we_proto_opts\<close> and
  \<open>we_iface_attrs\<close> parse the attributes of a device, of the static protocol and of an interface.
\<close>

datatype proto_opt =
    OPT_IPADDR | OPT_IP6ADDR | OPT_NETMASK | OPT_BROADCAST | OPT_PTPADDR | OPT_GATEWAY | OPT_IP6GW
  | OPT_IP6PREFIX | OPT_IP6DEPRECATED

datatype addr_attr =
    ADDR_IPADDR | ADDR_MASK | ADDR_BROADCAST | ADDR_PTP | ADDR_PREFERRED | ADDR_VALID | ADDR_OFFLINK
  | ADDR_CLASS | ADDR_SCOPE

text \<open>An element of an attribute of type array: a string, a table of address attributes, or else.\<close>

datatype proto_item = ItemString string | ItemTable "addr_attr attr_tb" | ItemOther

datatype iface_attr =
    IFACE_ATTR_DEVICE | IFACE_ATTR_IFNAME | IFACE_ATTR_PROTO | IFACE_ATTR_AUTO | IFACE_ATTR_ZONE
  | IFACE_ATTR_JAIL | IFACE_ATTR_JAIL_DEVICE | IFACE_ATTR_JAIL_IFNAME | IFACE_ATTR_HOST_DEVICE
  | IFACE_ATTR_DEFAULTROUTE | IFACE_ATTR_PEERDNS | IFACE_ATTR_DNS | IFACE_ATTR_DNS_SEARCH
  | IFACE_ATTR_DNS_METRIC | IFACE_ATTR_METRIC | IFACE_ATTR_INTERFACE | IFACE_ATTR_IP6ASSIGN
  | IFACE_ATTR_IP6HINT | IFACE_ATTR_IP4TABLE | IFACE_ATTR_IP6TABLE | IFACE_ATTR_IP6CLASS
  | IFACE_ATTR_DELEGATE | IFACE_ATTR_IP6IFACEID | IFACE_ATTR_FORCE_LINK | IFACE_ATTR_IP6WEIGHT

text \<open>The attributes of an interface, with the elements of its arrays.\<close>

record iface_opts =
  io_tb :: "iface_attr attr_tb"
  io_dns :: "proto_item list option"
  io_dns_search :: "proto_item list option"
  io_ip6class :: "string option list option"

record proto_opts =
  po_tb :: "proto_opt attr_tb"
  po_array :: "proto_opt \<Rightarrow> proto_item list option"

datatype vlandev_attr =
    VLANDEV_ATTR_IFNAME | VLANDEV_ATTR_VID | VLANDEV_ATTR_INGRESS_QOS_MAPPING
  | VLANDEV_ATTR_EGRESS_QOS_MAPPING

datatype macvlan_attr = MACVLAN_ATTR_IFNAME | MACVLAN_ATTR_MACADDR | MACVLAN_ATTR_MODE

datatype veth_attr = VETH_ATTR_MACADDR | VETH_ATTR_PEER_NAME | VETH_ATTR_PEER_MACADDR

datatype bridge_attr =
    BRIDGE_ATTR_PORTS | BRIDGE_ATTR_STP | BRIDGE_ATTR_FORWARD_DELAY | BRIDGE_ATTR_PRIORITY
  | BRIDGE_ATTR_IGMP_SNOOP | BRIDGE_ATTR_AGEING_TIME | BRIDGE_ATTR_HELLO_TIME | BRIDGE_ATTR_MAX_AGE
  | BRIDGE_ATTR_BRIDGE_EMPTY | BRIDGE_ATTR_MULTICAST_QUERIER | BRIDGE_ATTR_HASH_MAX
  | BRIDGE_ATTR_ROBUSTNESS | BRIDGE_ATTR_QUERY_INTERVAL | BRIDGE_ATTR_QUERY_RESPONSE_INTERVAL
  | BRIDGE_ATTR_LAST_MEMBER_INTERVAL | BRIDGE_ATTR_VLAN_FILTERING | BRIDGE_ATTR_HAS_VLANS
  | BRIDGE_ATTR_STP_KERNEL | BRIDGE_ATTR_STP_PROTO

datatype if_check_reply = CheckLink int bool | CheckError int

record dev_type_ops =
  ty_set_state :: "rec \<Rightarrow> did \<Rightarrow> bool \<Rightarrow> world \<Rightarrow> (int \<times> world) option"
  ty_check_state :: "(rec \<Rightarrow> did \<Rightarrow> world \<Rightarrow> (int \<times> world) option) option"
  ty_reload :: "(rec \<Rightarrow> did \<Rightarrow> blob option \<Rightarrow> world \<Rightarrow> (dev_change_type \<times> world) option) option"
  ty_create :: "rec \<Rightarrow> string \<Rightarrow> blob option \<Rightarrow> world \<Rightarrow> (did option \<times> world) option"
  ty_config_init :: "rec \<Rightarrow> did \<Rightarrow> world \<Rightarrow> world option"
  ty_free :: "rec \<Rightarrow> did \<Rightarrow> world \<Rightarrow> world option"
  ty_device_attrs :: bool

record world_env =
  we_sys :: sys_env
  we_parse :: parse_env
  we_visit :: "uid list \<Rightarrow> uid list"
  we_if_resolve :: "did \<Rightarrow> klog \<Rightarrow> int"
  we_if_get_settings :: "did \<Rightarrow> klog \<Rightarrow> device_settings"
  we_if_parent :: "did \<Rightarrow> klog \<Rightarrow> string option"
  we_if_check :: "did \<Rightarrow> klog \<Rightarrow> if_check_reply"
  we_force_external :: "string \<Rightarrow> bool"
  we_type :: "string \<Rightarrow> dev_type_ops"
  we_vlan_chain :: "rec \<Rightarrow> string \<Rightarrow> nat \<Rightarrow> world \<Rightarrow> (did option \<times> world) option"
  we_alias_get :: "rec \<Rightarrow> string \<Rightarrow> world \<Rightarrow> (did option \<times> world) option"
  we_default_macaddr :: "string \<Rightarrow> u8 list option"
  we_ether_aton :: "string \<Rightarrow> u8 list option"
  we_dev_attrs :: "blob option \<Rightarrow> dev_tb"
  we_blob_equal :: "blob option \<Rightarrow> blob option \<Rightarrow> bool"
  we_hotplug :: "string \<Rightarrow> rec \<Rightarrow> did \<Rightarrow> did \<Rightarrow> vlan_list \<Rightarrow> bool \<Rightarrow> world \<Rightarrow> (int \<times> world) option"
  we_prepare :: "string \<Rightarrow> rec \<Rightarrow> did \<Rightarrow> world \<Rightarrow> (int \<times> world) option"
  we_vlandev_attrs :: "blob option \<Rightarrow> vlandev_attr attr_tb \<times> (vlandev_attr \<Rightarrow> string option list option)"
  we_macvlan_attrs :: "blob option \<Rightarrow> macvlan_attr attr_tb"
  we_veth_attrs :: "blob option \<Rightarrow> veth_attr attr_tb"
  we_bridge_attrs :: "blob option \<Rightarrow> bridge_attr attr_tb \<times> string list option"
  we_dev_diff :: "blob option \<Rightarrow> blob option \<Rightarrow> bool"
  we_type_diff :: "string \<Rightarrow> blob option \<Rightarrow> blob option \<Rightarrow> bool"
  we_bridge_diff :: "blob option \<Rightarrow> blob option \<Rightarrow> bridge_attr set"
  we_vlan_check :: "did \<Rightarrow> string \<Rightarrow> klog \<Rightarrow> int"
  we_proto_opts :: "blob option \<Rightarrow> proto_opts"
  we_iface_attrs :: "blob option \<Rightarrow> iface_opts"
  we_proto_attach :: "string \<Rightarrow> interface \<Rightarrow> bool"
  we_handlers :: "string \<Rightarrow> proto_handler option"
  we_fork :: "process \<Rightarrow> out list \<Rightarrow> bool"
  we_json :: "blob option \<Rightarrow> string option"
  we_checkup :: "blob option \<Rightarrow> u32 option"
  we_dad_wait :: "blob option \<Rightarrow> u32 option"

text \<open>What the operations on addresses, routes and prefixes see of the world.\<close>

definition sys_of :: "world_env \<Rightarrow> world \<Rightarrow> sys_env" where
  "sys_of E w = (we_sys E)\<lparr>se_dev := w_devs w\<rparr>"

definition upd_dev :: "did \<Rightarrow> (device \<Rightarrow> device) \<Rightarrow> world \<Rightarrow> world" where
  "upd_dev d f w = w\<lparr>w_devs := (w_devs w)(d := f (w_devs w d))\<rparr>"

definition upd_if :: "ifid \<Rightarrow> (interface \<Rightarrow> interface) \<Rightarrow> world \<Rightarrow> world" where
  "upd_if i f w = w\<lparr>w_ifs := (w_ifs w)(i := f (w_ifs w i))\<rparr>"

definition emit :: "out \<Rightarrow> world \<Rightarrow> world" where
  "emit x w = w\<lparr>w_out := w_out w @ [x]\<rparr>"

definition klog_do :: "kreq \<Rightarrow> world \<Rightarrow> world" where
  "klog_do q w = w\<lparr>w_log := kdo q (w_log w)\<rparr>"

definition upd_vlan :: "did \<Rightarrow> (vlan_device \<Rightarrow> vlan_device) \<Rightarrow> world \<Rightarrow> world" where
  "upd_vlan d f w = w\<lparr>w_vlan := (w_vlan w)(d := f (w_vlan w d))\<rparr>"

definition upd_vlandev :: "did \<Rightarrow> (vlandev_device \<Rightarrow> vlandev_device) \<Rightarrow> world \<Rightarrow> world" where
  "upd_vlandev d f w = w\<lparr>w_vlandev := (w_vlandev w)(d := f (w_vlandev w d))\<rparr>"

definition upd_macvlan :: "did \<Rightarrow> (macvlan_device \<Rightarrow> macvlan_device) \<Rightarrow> world \<Rightarrow> world" where
  "upd_macvlan d f w = w\<lparr>w_macvlan := (w_macvlan w)(d := f (w_macvlan w d))\<rparr>"

definition upd_veth :: "did \<Rightarrow> (veth \<Rightarrow> veth) \<Rightarrow> world \<Rightarrow> world" where
  "upd_veth d f w = w\<lparr>w_veth := (w_veth w)(d := f (w_veth w d))\<rparr>"

definition upd_alias :: "did \<Rightarrow> (alias_device \<Rightarrow> alias_device) \<Rightarrow> world \<Rightarrow> world" where
  "upd_alias d f w = w\<lparr>w_alias := (w_alias w)(d := f (w_alias w d))\<rparr>"

definition upd_bridge :: "did \<Rightarrow> (bridge_state \<Rightarrow> bridge_state) \<Rightarrow> world \<Rightarrow> world" where
  "upd_bridge d f w = w\<lparr>w_bridge := (w_bridge w)(d := f (w_bridge w d))\<rparr>"

definition upd_member :: "mid \<Rightarrow> (bridge_member \<Rightarrow> bridge_member) \<Rightarrow> world \<Rightarrow> world" where
  "upd_member m f w = w\<lparr>w_member := (w_member w)(m := f (w_member w m))\<rparr>"

definition upd_shell :: "psid \<Rightarrow> (proto_shell_state \<Rightarrow> proto_shell_state) \<Rightarrow> world \<Rightarrow> world" where
  "upd_shell s f w = w\<lparr>w_shell := (w_shell w)(s := f (w_shell w s))\<rparr>"

definition upd_udhcp :: "psid \<Rightarrow> (dhcp_proto_state \<Rightarrow> dhcp_proto_state) \<Rightarrow> world \<Rightarrow> world" where
  "upd_udhcp s f w = w\<lparr>w_udhcp := (w_udhcp w)(s := f (w_udhcp w s))\<rparr>"

definition upd_isc :: "psid \<Rightarrow> (isc_dhcp_proto_state \<Rightarrow> isc_dhcp_proto_state) \<Rightarrow> world \<Rightarrow> world" where
  "upd_isc s f w = w\<lparr>w_isc := (w_isc w)(s := f (w_isc w s))\<rparr>"

definition upd_zcip :: "psid \<Rightarrow> (zcip_proto_state \<Rightarrow> zcip_proto_state) \<Rightarrow> world \<Rightarrow> world" where
  "upd_zcip s f w = w\<lparr>w_zcip := (w_zcip w)(s := f (w_zcip w s))\<rparr>"

definition upd_dep :: "depid \<Rightarrow> (proto_shell_dependency \<Rightarrow> proto_shell_dependency) \<Rightarrow> world \<Rightarrow> world" where
  "upd_dep k f w = w\<lparr>w_dep := (w_dep w)(k := f (w_dep w k))\<rparr>"

fun get_user :: "world \<Rightarrow> uid \<Rightarrow> device_user" where
  "get_user w (UMain i) = if_main_dev (w_ifs w i)"
| "get_user w (UL3 i) = if_l3_dev (w_ifs w i)"
| "get_user w (UExt i) = if_ext_dev (w_ifs w i)"
| "get_user w (UParent d) = dv_parent (w_devs w d)"
| "get_user w (UVlan d) = vl_dep (w_vlan w d)"
| "get_user w (UVlandev d) = vd_parent (w_vlandev w d)"
| "get_user w (UMacvlan d) = mv_parent (w_macvlan w d)"
| "get_user w (UAlias d) = al_dep (w_alias w d)"
| "get_user w (UAliasNew d) = al_new_dep (w_alias w d)"
| "get_user w (UMember m) = bm_dev (w_member w m)"

fun upd_user :: "uid \<Rightarrow> (device_user \<Rightarrow> device_user) \<Rightarrow> world \<Rightarrow> world" where
  "upd_user (UMain i) f w = upd_if i (\<lambda>x. x\<lparr>if_main_dev := f (if_main_dev x)\<rparr>) w"
| "upd_user (UL3 i) f w = upd_if i (\<lambda>x. x\<lparr>if_l3_dev := f (if_l3_dev x)\<rparr>) w"
| "upd_user (UExt i) f w = upd_if i (\<lambda>x. x\<lparr>if_ext_dev := f (if_ext_dev x)\<rparr>) w"
| "upd_user (UParent d) f w = upd_dev d (\<lambda>x. x\<lparr>dv_parent := f (dv_parent x)\<rparr>) w"
| "upd_user (UVlan d) f w = upd_vlan d (\<lambda>x. x\<lparr>vl_dep := f (vl_dep x)\<rparr>) w"
| "upd_user (UVlandev d) f w = upd_vlandev d (\<lambda>x. x\<lparr>vd_parent := f (vd_parent x)\<rparr>) w"
| "upd_user (UMacvlan d) f w = upd_macvlan d (\<lambda>x. x\<lparr>mv_parent := f (mv_parent x)\<rparr>) w"
| "upd_user (UAlias d) f w = upd_alias d (\<lambda>x. x\<lparr>al_dep := f (al_dep x)\<rparr>) w"
| "upd_user (UAliasNew d) f w = upd_alias d (\<lambda>x. x\<lparr>al_new_dep := f (al_new_dep x)\<rparr>) w"
| "upd_user (UMember m) f w = upd_member m (\<lambda>x. x\<lparr>bm_dev := f (bm_dev x)\<rparr>) w"

text \<open>The embedded registration of an interface user: the interface that it follows.\<close>

fun set_user_iface :: "if_user \<Rightarrow> ifid option \<Rightarrow> world \<Rightarrow> world" where
  "set_user_iface (AliasUser a) iface w = upd_if a (\<lambda>f. f\<lparr>if_parent_iface := iface\<rparr>) w"
| "set_user_iface (ShellDep k) iface w = upd_dep k (\<lambda>x. x\<lparr>sd_iface := iface\<rparr>) w"

section \<open>Processes\<close>

text \<open>\<open>src/main.c\<close>. Starting a process first kills the one that its structure still runs.\<close>

fun process_pending :: "world \<Rightarrow> process \<Rightarrow> bool" where
  "process_pending w (ScriptTask s) = sh_script_task (w_shell w s)"
| "process_pending w (ProtoTask s) = sh_proto_task (w_shell w s)"
| "process_pending w (UdhcpClient s) = dh_client (w_udhcp w s)"
| "process_pending w (IscDhcpClient s) = ic_client (w_isc w s)"
| "process_pending w (ZcipClient s) = zc_client (w_zcip w s)"

fun set_pending :: "process \<Rightarrow> bool \<Rightarrow> world \<Rightarrow> world" where
  "set_pending (ScriptTask s) b w = upd_shell s (\<lambda>x. x\<lparr>sh_script_task := b\<rparr>) w"
| "set_pending (ProtoTask s) b w = upd_shell s (\<lambda>x. x\<lparr>sh_proto_task := b\<rparr>) w"
| "set_pending (UdhcpClient s) b w = upd_udhcp s (\<lambda>x. x\<lparr>dh_client := b\<rparr>) w"
| "set_pending (IscDhcpClient s) b w = upd_isc s (\<lambda>x. x\<lparr>ic_client := b\<rparr>) w"
| "set_pending (ZcipClient s) b w = upd_zcip s (\<lambda>x. x\<lparr>zc_client := b\<rparr>) w"

definition SIGKILL :: int where "SIGKILL = 9"
definition SIGUSR1 :: int where "SIGUSR1 = 10"
definition SIGTERM :: int where "SIGTERM = 15"

definition netifd_kill_process :: "process \<Rightarrow> world \<Rightarrow> world" where
  "netifd_kill_process p w =
     (if \<not> process_pending w p then w else set_pending p False (emit (OutKill p SIGKILL) w))"

definition netifd_start_process ::
  "world_env \<Rightarrow> string list \<Rightarrow> string list \<Rightarrow> process \<Rightarrow> world \<Rightarrow> int \<times> world" where
  "netifd_start_process E argv env p w =
     (let w = netifd_kill_process p w
      in if \<not> we_fork E p (w_out w) then (-1, w)
         else (0, set_pending p True (emit (OutStart p argv env) w)))"

text \<open>A request to the kernel with its answer.\<close>

definition klog_ask :: "world_env \<Rightarrow> kreq \<Rightarrow> world \<Rightarrow> int \<times> world" where
  "klog_ask E q w = (se_kernel (we_sys E) (w_log w) q, klog_do q w)"

definition call_void :: "rec \<Rightarrow> call \<Rightarrow> world \<Rightarrow> world option" where
  "call_void rec c w = map_option snd (rec c w)"

end
