(* ===== verification/DeviceCore.thy ===== *)
theory DeviceCore
  imports World
begin

text \<open>
  The life of a device, \<open>src/device.c\<close>: events to its users, claiming and releasing, the
  state methods of simple devices, presence and link, the registration of users, creating and
  finding devices, applying a configuration, replacing and freeing devices.

  \<open>rec\<close> is called wherever the code calls through a function pointer.
\<close>

unbundle bit_operations_syntax

section \<open>Events of a device\<close>

definition user_list :: "bool \<Rightarrow> device \<Rightarrow> uid list" where
  "user_list alias dev = (if alias then dv_aliases dev else dv_users dev)"

fun broadcast_loop ::
  "rec \<Rightarrow> did \<Rightarrow> bool \<Rightarrow> device_event \<Rightarrow> uid list \<Rightarrow> world \<Rightarrow> world option" where
  "broadcast_loop rec d alias ev [] w = Some w"
| "broadcast_loop rec d alias ev (u # us) w =
     (if u \<notin> set (user_list alias (w_devs w d)) \<or> du_dev (get_user w u) = None
      then broadcast_loop rec d alias ev us w
      else do {
        w \<leftarrow> call_void rec (CUser u ev) w;
        broadcast_loop rec d alias ev us w
      })"

definition device_broadcast_event ::
  "world_env \<Rightarrow> rec \<Rightarrow> did \<Rightarrow> device_event \<Rightarrow> world \<Rightarrow> world option" where
  "device_broadcast_event E rec d ev w = do {
     w \<leftarrow> broadcast_loop rec d True ev (we_visit E (dv_aliases (w_devs w d))) w;
     broadcast_loop rec d False ev (we_visit E (dv_users (w_devs w d))) w
   }"

definition device_set_ifindex :: "world_env \<Rightarrow> rec \<Rightarrow> did \<Rightarrow> int \<Rightarrow> world \<Rightarrow> world option" where
  "device_set_ifindex E rec d ifindex w =
     (if dv_ifindex (w_devs w d) = ifindex then Some w
      else device_broadcast_event E rec d DEV_EVENT_UPDATE_IFINDEX
             (upd_dev d (\<lambda>x. x\<lparr>dv_ifindex := ifindex\<rparr>) w))"

definition device_fill_default_settings :: "world_env \<Rightarrow> did \<Rightarrow> world \<Rightarrow> world" where
  "device_fill_default_settings E d w =
     upd_dev d (\<lambda>x. x\<lparr>dv_settings :=
       fill_default_settings (we_default_macaddr E (dv_ifname x)) (dv_settings x)\<rparr>) w"

section \<open>Claiming and releasing\<close>

text \<open>Claiming an external device, which is not brought up.\<close>

definition claim_external :: "world_env \<Rightarrow> rec \<Rightarrow> did \<Rightarrow> world \<Rightarrow> (int \<times> world) option" where
  "claim_external E rec d w = do {
     w \<leftarrow> device_set_ifindex E rec d (we_if_resolve E d (w_log w)) (klog_do (KIfResolve d) w);
     let ret = (if dv_ifindex (w_devs w d) = 0 then -1 else 0);
     let w = upd_dev d (\<lambda>x. x\<lparr>dv_orig_settings := we_if_get_settings E d (w_log w)\<rparr>)
               (klog_do (KIfGetSettings d) w);
     Some (ret, w)
   }"

definition device_claim :: "world_env \<Rightarrow> rec \<Rightarrow> uid \<Rightarrow> world \<Rightarrow> (int \<times> world) option" where
  "device_claim E rec u w =
     (let dep = get_user w u in
      if du_claimed dep then Some (0, w)
      else case du_dev dep of
             None \<Rightarrow> Some (-1, w)
           | Some d \<Rightarrow>
               let w = upd_user u (\<lambda>x. x\<lparr>du_claimed := True\<rparr>) w;
                   w = upd_dev d (\<lambda>x. x\<lparr>dv_active := dv_active x + 1\<rparr>) w
               in if dv_active (w_devs w d) \<noteq> 1 then Some (0, w)
                  else do {
                    w \<leftarrow> device_broadcast_event E rec d DEV_EVENT_SETUP w;
                    let w = device_fill_default_settings E d w;
                    (ret, w) \<leftarrow> (if dv_external (w_devs w d) then claim_external E rec d w
                                else rec (CSetState d True) w);
                    if ret = 0 then do {
                      w \<leftarrow> device_broadcast_event E rec d DEV_EVENT_UP w;
                      Some (0, w)
                    }
                    else Some (ret, upd_user u (\<lambda>x. x\<lparr>du_claimed := False\<rparr>)
                                      (upd_dev d (\<lambda>x. x\<lparr>dv_active := 0\<rparr>) w))
                  })"

definition device_release :: "world_env \<Rightarrow> rec \<Rightarrow> uid \<Rightarrow> world \<Rightarrow> world option" where
  "device_release E rec u w =
     (let dep = get_user w u in
      if \<not> du_claimed dep then Some w
      else case du_dev dep of
             None \<Rightarrow> None
           | Some d \<Rightarrow>
               let w = upd_user u (\<lambda>x. x\<lparr>du_claimed := False\<rparr>) w;
                   w = upd_dev d (\<lambda>x. x\<lparr>dv_active := dv_active x - 1\<rparr>) w
               in if dv_active (w_devs w d) < 0 then None
                  else if dv_active (w_devs w d) \<noteq> 0 then Some w
                  else do {
                    w \<leftarrow> device_broadcast_event E rec d DEV_EVENT_TEARDOWN w;
                    w \<leftarrow> (if dv_external (w_devs w d) then Some w
                         else call_void rec (CSetState d False) w);
                    if dv_active (w_devs w d) \<noteq> 0 then Some w
                    else device_broadcast_event E rec d DEV_EVENT_DOWN w
                  })"

section \<open>Presence and link\<close>

definition device_set_present_flag ::
  "world_env \<Rightarrow> rec \<Rightarrow> did \<Rightarrow> bool \<Rightarrow> world \<Rightarrow> world option" where
  "device_set_present_flag E rec d state w =
     (if dv_present (w_devs w d) = state then Some w
      else device_broadcast_event E rec d (if state then DEV_EVENT_ADD else DEV_EVENT_REMOVE)
             (upd_dev d (\<lambda>x. x\<lparr>dv_present := state\<rparr>) w))"

definition device_refresh_present :: "world_env \<Rightarrow> rec \<Rightarrow> did \<Rightarrow> world \<Rightarrow> world option" where
  "device_refresh_present E rec d w =
     (let dev = w_devs w d;
          state = (if dv_disabled dev \<or> dv_deferred dev then False else dv_sys_present dev)
      in device_set_present_flag E rec d state w)"

definition device_set_present :: "world_env \<Rightarrow> rec \<Rightarrow> did \<Rightarrow> bool \<Rightarrow> world \<Rightarrow> world option" where
  "device_set_present E rec d state w =
     (if dv_sys_present (w_devs w d) = state then Some w
      else device_refresh_present E rec d (upd_dev d (\<lambda>x. x\<lparr>dv_sys_present := state\<rparr>) w))"

definition device_set_deferred :: "world_env \<Rightarrow> rec \<Rightarrow> did \<Rightarrow> bool \<Rightarrow> world \<Rightarrow> world option" where
  "device_set_deferred E rec d value w =
     device_refresh_present E rec d (upd_dev d (\<lambda>x. x\<lparr>dv_deferred := value\<rparr>) w)"

definition device_set_disabled :: "world_env \<Rightarrow> rec \<Rightarrow> did \<Rightarrow> bool \<Rightarrow> world \<Rightarrow> world option" where
  "device_set_disabled E rec d value w =
     device_refresh_present E rec d (upd_dev d (\<lambda>x. x\<lparr>dv_disabled := value\<rparr>) w)"

definition device_link_active :: "device \<Rightarrow> bool" where
  "device_link_active dev =
     (if ds_auth (dv_settings dev) \<and> \<not> dv_auth_status dev then False else dv_link_active dev)"

definition device_set_auth_status :: "world_env \<Rightarrow> rec \<Rightarrow> did \<Rightarrow> bool \<Rightarrow> world \<Rightarrow> world option" where
  "device_set_auth_status E rec d value w =
     (if dv_auth_status (w_devs w d) = value then Some w
      else let w = upd_dev d (\<lambda>x. x\<lparr>dv_auth_status := value\<rparr>) w
           in if \<not> dv_present (w_devs w d) then Some w
              else if value then device_broadcast_event E rec d DEV_EVENT_AUTH_UP w
              else do {
                w \<leftarrow> device_broadcast_event E rec d DEV_EVENT_LINK_DOWN w;
                if \<not> dv_link_active (w_devs w d) then Some w
                else device_broadcast_event E rec d DEV_EVENT_LINK_UP w
              })"

definition device_set_link :: "world_env \<Rightarrow> rec \<Rightarrow> did \<Rightarrow> bool \<Rightarrow> world \<Rightarrow> world option" where
  "device_set_link E rec d state w =
     (if dv_link_active (w_devs w d) = state then Some w
      else let w = upd_dev d (\<lambda>x. x\<lparr>dv_link_active := state\<rparr>) w;
               w = (if \<not> state then upd_dev d (\<lambda>x. x\<lparr>dv_auth_status := False\<rparr>) w else w)
           in device_broadcast_event E rec d (if state then DEV_EVENT_LINK_UP else DEV_EVENT_LINK_DOWN) w)"

section \<open>Users of a device\<close>

definition list_add_user :: "uid \<Rightarrow> did \<Rightarrow> world \<Rightarrow> world" where
  "list_add_user u d w =
     (if du_alias (get_user w u)
      then upd_dev d (\<lambda>x. x\<lparr>dv_aliases := dv_aliases x @ [u]\<rparr>) w
      else upd_dev d (\<lambda>x. x\<lparr>dv_users := dv_users x @ [u]\<rparr>) w)"

definition safe_list_del :: "uid \<Rightarrow> world \<Rightarrow> world" where
  "safe_list_del u w =
     (case du_dev (get_user w u) of
        None \<Rightarrow> w
      | Some d \<Rightarrow> upd_dev d (\<lambda>x. x\<lparr>dv_users := removeAll u (dv_users x),
                                   dv_aliases := removeAll u (dv_aliases x)\<rparr>) w)"

text \<open>A new user hears of what it has missed.\<close>

definition device_add_user_to :: "rec \<Rightarrow> uid \<Rightarrow> did \<Rightarrow> world \<Rightarrow> world option" where
  "device_add_user_to rec u d w = do {
     let w = list_add_user u d (upd_user u (\<lambda>x. x\<lparr>du_dev := Some d\<rparr>) w);
     if \<not> dv_present (w_devs w d) then Some w
     else do {
       w \<leftarrow> call_void rec (CUser u DEV_EVENT_ADD) w;
       w \<leftarrow> (if dv_active (w_devs w d) \<noteq> 0 then call_void rec (CUser u DEV_EVENT_UP) w else Some w);
       if dv_link_active (w_devs w d) then call_void rec (CUser u DEV_EVENT_LINK_UP) w else Some w
     }
   }"

definition device_remove_user :: "world_env \<Rightarrow> rec \<Rightarrow> uid \<Rightarrow> world \<Rightarrow> world option" where
  "device_remove_user E rec u w =
     (if du_dev (get_user w u) = None then Some w
      else do {
        let w = upd_user u (\<lambda>x. x\<lparr>du_hotplug := False\<rparr>) w;
        w \<leftarrow> (if du_claimed (get_user w u) then device_release E rec u w else Some w);
        let w = upd_user u (\<lambda>x. x\<lparr>du_dev := None\<rparr>) (safe_list_del u w);
        Some (emit OutFreeUnused w)
      })"

definition device_add_user ::
  "world_env \<Rightarrow> rec \<Rightarrow> uid \<Rightarrow> did option \<Rightarrow> world \<Rightarrow> world option" where
  "device_add_user E rec u dev w =
     (if du_dev (get_user w u) = dev then Some w
      else do {
        w \<leftarrow> (if du_dev (get_user w u) \<noteq> None then device_remove_user E rec u w else Some w);
        case dev of None \<Rightarrow> Some w | Some d \<Rightarrow> device_add_user_to rec u d w
      })"

section \<open>Finding and creating devices\<close>

definition device_find :: "world \<Rightarrow> string \<Rightarrow> did option" where
  "device_find w name = find (\<lambda>d. dv_ifname (w_devs w d) = name) (w_devlist w)"

text \<open>The tree is sorted by name; a name may occur more than once.\<close>

fun avl_insert_dup :: "('a \<Rightarrow> 'a \<Rightarrow> int) \<Rightarrow> 'a \<Rightarrow> 'a list \<Rightarrow> 'a list" where
  "avl_insert_dup cmp x [] = [x]"
| "avl_insert_dup cmp x (y # ys) =
     (if cmp x y < 0 then x # y # ys else y # avl_insert_dup cmp x ys)"

definition devices_insert :: "did \<Rightarrow> world \<Rightarrow> world" where
  "devices_insert d w =
     w\<lparr>w_devlist := avl_insert_dup (\<lambda>a b. strcmp (dv_ifname (w_devs w a)) (dv_ifname (w_devs w b)))
                      d (w_devlist w)\<rparr>"

definition device_delete :: "did \<Rightarrow> world \<Rightarrow> world" where
  "device_delete d w = w\<lparr>w_devlist := removeAll d (w_devlist w)\<rparr>"

definition system_if_check :: "world_env \<Rightarrow> rec \<Rightarrow> did \<Rightarrow> world \<Rightarrow> (int \<times> world) option" where
  "system_if_check E rec d w =
     (let simple = (dv_type (w_devs w d) = DevSimple)
      in case we_if_check E d (w_log w) of
           CheckLink ifindex lower_up \<Rightarrow> do {
             w \<leftarrow> (if simple then device_set_present E rec d (ifindex > 0) w else Some w);
             w \<leftarrow> device_set_link E rec d lower_up w;
             Some (0, w)
           }
         | CheckError err \<Rightarrow> do {
             w \<leftarrow> (if simple then device_set_present E rec d False w else Some w);
             w \<leftarrow> device_set_link E rec d False w;
             Some (err, w)
           })"

definition device_check_state :: "world_env \<Rightarrow> rec \<Rightarrow> did \<Rightarrow> world \<Rightarrow> (int \<times> world) option" where
  "device_check_state E rec d w =
     (case dv_type (w_devs w d) of
        DevSimple \<Rightarrow> system_if_check E rec d w
      | DevOther n \<Rightarrow> (case ty_check_state (we_type E n) of
                        None \<Rightarrow> system_if_check E rec d w
                      | Some f \<Rightarrow> f rec d w))"

definition device_set_ifname ::
  "world_env \<Rightarrow> rec \<Rightarrow> did \<Rightarrow> string \<Rightarrow> world \<Rightarrow> (int \<times> world) option" where
  "device_set_ifname E rec d name w =
     (if dv_ifname (w_devs w d) = name then Some (0, w)
      else if length name > 16 then Some (-1, w)
      else let listed = (d \<in> set (w_devlist w));
               w = upd_dev d (\<lambda>x. x\<lparr>dv_ifname := name\<rparr>) (device_delete d w);
               w = (if listed then devices_insert d w else w)
           in do {
             w \<leftarrow> device_broadcast_event E rec d DEV_EVENT_UPDATE_IFNAME w;
             Some (0, w)
           })"

definition system_if_clear_state :: "world_env \<Rightarrow> rec \<Rightarrow> did \<Rightarrow> world \<Rightarrow> world option" where
  "system_if_clear_state E rec d w = do {
     w \<leftarrow> device_set_ifindex E rec d (we_if_resolve E d (w_log w)) (klog_do (KIfResolve d) w);
     if dv_external (w_devs w d) \<or> dv_ifindex (w_devs w d) = 0 then Some w
     else Some (klog_do (KIfClearState d) w)
   }"

text \<open>
  The new device is the one with the identifier \<open>d\<close>. A device with a name that is too long is
  not created.
\<close>

definition device_init_virtual ::
  "world_env \<Rightarrow> rec \<Rightarrow> did \<Rightarrow> device_type \<Rightarrow> string option \<Rightarrow> world \<Rightarrow> (int \<times> world) option" where
  "device_init_virtual E rec d type name w = do {
     let w = upd_dev d (\<lambda>x. x\<lparr>dv_users := [], dv_aliases := [], dv_type := type\<rparr>) w;
     (ret, w) \<leftarrow> (case name of None \<Rightarrow> Some (0, w) | Some name \<Rightarrow> device_set_ifname E rec d name w);
     if ret < 0 then Some (ret, w)
     else Some (0, upd_dev d (\<lambda>x. x\<lparr>dv_set_state := (case dv_set_state x of None \<Rightarrow> Some StateDefault
                                                                    | Some s \<Rightarrow> Some s)\<rparr>) w)
   }"

definition device_init ::
  "world_env \<Rightarrow> rec \<Rightarrow> did \<Rightarrow> device_type \<Rightarrow> string option \<Rightarrow> world \<Rightarrow> (int \<times> world) option" where
  "device_init E rec d type ifname w = do {
     (ret, w) \<leftarrow> device_init_virtual E rec d type ifname w;
     if ret < 0 then Some (ret, w)
     else do {
       w \<leftarrow> system_if_clear_state E rec d (devices_insert d w);
       Some (0, w)
     }
   }"

definition device_create_default ::
  "world_env \<Rightarrow> rec \<Rightarrow> string \<Rightarrow> bool \<Rightarrow> world \<Rightarrow> (did option \<times> world) option" where
  "device_create_default E rec name ext w =
     (if \<not> ext \<and> we_force_external E name then Some (None, w)
      else do {
        let d = w_next_dev w;
        let w = upd_dev d (\<lambda>_. zero_device\<lparr>dv_external := ext, dv_set_state := Some StateSimple\<rparr>) (w\<lparr>w_next_dev := d + 1\<rparr>);
        (ret, w) \<leftarrow> device_init E rec d DevSimple (Some name) w;
        if ret < 0 then Some (None, w)
        else do {
          let w = upd_dev d (\<lambda>x. x\<lparr>dv_default_config := True\<rparr>) w;
          let s = dv_settings (w_devs w d);
          let w = (if ext then klog_do (KIfApplySettings d s (ds_flags s)) w else w);
          (_, w) \<leftarrow> device_check_state E rec d w;
          Some (Some d, w)
        }
      })"

text \<open>
  \<open>create\<close> is 0 to find only, 1 to create, 2 to create or make external. \<open>device_get_plain\<close> is
  \<open>__device_get\<close> without the check for a VLAN.
\<close>

definition device_get_plain ::
  "world_env \<Rightarrow> rec \<Rightarrow> string \<Rightarrow> nat \<Rightarrow> world \<Rightarrow> (did option \<times> world) option" where
  "device_get_plain E rec name create w =
     (if name \<noteq> [] \<and> hd name = CHR ''@'' then we_alias_get E rec (tl name) w
      else case device_find w name of
             Some d \<Rightarrow>
               if create > 1 \<and> \<not> dv_external (w_devs w d)
               then do {
                 let s = dv_settings (w_devs w d);
                 let w = klog_do (KIfApplySettings d s (ds_flags s)) w;
                 w \<leftarrow> device_set_present E rec d True (upd_dev d (\<lambda>x. x\<lparr>dv_external := True\<rparr>) w);
                 Some (Some d, w)
               }
               else Some (Some d, w)
           | None \<Rightarrow>
               if create = 0 then Some (None, w)
               else device_create_default E rec name (create > 1) w)"

definition device_get ::
  "world_env \<Rightarrow> rec \<Rightarrow> string \<Rightarrow> nat \<Rightarrow> world \<Rightarrow> (did option \<times> world) option" where
  "device_get E rec name create w =
     (if device_find w name = None \<and> CHR ''.'' \<in> set name then we_vlan_chain E rec name create w
      else device_get_plain E rec name create w)"

section \<open>The state method of simple devices\<close>

definition keep_orig_settings :: "device_settings \<Rightarrow> device_settings \<Rightarrow> device_settings" where
  "keep_orig_settings s orig =
     orig\<lparr>ds_valid_flags := ds_flags orig, ds_flags := ds_flags orig AND ds_flags s\<rparr>"

definition set_device_state ::
  "world_env \<Rightarrow> rec \<Rightarrow> did \<Rightarrow> bool \<Rightarrow> world \<Rightarrow> (int \<times> world) option" where
  "set_device_state E rec d state w =
     (if state then do {
        w \<leftarrow> device_set_ifindex E rec d (we_if_resolve E d (w_log w)) (klog_do (KIfResolve d) w);
        if dv_ifindex (w_devs w d) = 0 then Some (-1, w)
        else do {
          let orig = we_if_get_settings E d (w_log w);
          let s = dv_settings (w_devs w d);
          let w = upd_dev d (\<lambda>x. x\<lparr>dv_orig_settings := keep_orig_settings s orig\<rparr>)
                    (klog_do (KIfGetSettings d) w);
          Some (0, klog_do (KIfUp d) (klog_do (KIfApplySettings d s (ds_flags s)) w))
        }
      }
      else let os = dv_orig_settings (w_devs w d)
           in Some (0, klog_do (KIfApplySettings d os (ds_flags os)) (klog_do (KIfDown d) w)))"

definition system_if_get_parent ::
  "world_env \<Rightarrow> rec \<Rightarrow> did \<Rightarrow> world \<Rightarrow> (did option \<times> world) option" where
  "system_if_get_parent E rec d w =
     (case we_if_parent E d (w_log w) of
        None \<Rightarrow> Some (None, w)
      | Some devname \<Rightarrow> device_get E rec devname 1 w)"

definition simple_device_set_state ::
  "world_env \<Rightarrow> rec \<Rightarrow> did \<Rightarrow> bool \<Rightarrow> world \<Rightarrow> (int \<times> world) option" where
  "simple_device_set_state E rec d state w = do {
     let pdev = du_dev (dv_parent (w_devs w d));
     (pdev, w) \<leftarrow>
       (if state \<and> pdev = None then do {
          (pdev, w) \<leftarrow> system_if_get_parent E rec d w;
          w \<leftarrow> (case pdev of None \<Rightarrow> Some w
                           | Some p \<Rightarrow> device_add_user E rec (UParent d) (Some p) w);
          Some (pdev, w)
        }
        else Some (pdev, w));
     (ret, w) \<leftarrow>
       (if pdev = None then Some (0, w)
        else if state then device_claim E rec (UParent d) w
        else do { w \<leftarrow> device_release E rec (UParent d) w; Some (0, w) });
     if ret < 0 then Some (ret, w) else set_device_state E rec d state w
   }"

text \<open>What a call of \<open>dev->set_state\<close> runs.\<close>

definition device_set_state_cb ::
  "world_env \<Rightarrow> rec \<Rightarrow> did \<Rightarrow> bool \<Rightarrow> world \<Rightarrow> (int \<times> world) option" where
  "device_set_state_cb E rec d state w =
     (case dv_set_state (w_devs w d) of
        None \<Rightarrow> None
      | Some StateDefault \<Rightarrow> set_device_state E rec d state w
      | Some StateSimple \<Rightarrow> simple_device_set_state E rec d state w
      | Some StateOfType \<Rightarrow> (case dv_type (w_devs w d) of
                               DevSimple \<Rightarrow> None
                             | DevOther n \<Rightarrow> ty_set_state (we_type E n) rec d state w))"

section \<open>Configuration\<close>

definition device_init_settings ::
  "world_env \<Rightarrow> rec \<Rightarrow> did \<Rightarrow> dev_tb \<Rightarrow> world \<Rightarrow> world option" where
  "device_init_settings E rec d tb w =
     (let (s, disabled) = init_settings (we_ether_aton E) tb (dv_settings (w_devs w d))
      in device_set_disabled E rec d disabled (upd_dev d (\<lambda>x. x\<lparr>dv_settings := s\<rparr>) w))"

definition device_set_config ::
  "world_env \<Rightarrow> rec \<Rightarrow> did \<Rightarrow> device_type \<Rightarrow> blob option \<Rightarrow> world \<Rightarrow> (dev_change_type \<times> world) option" where
  "device_set_config E rec d type attr w =
     (if type \<noteq> dv_type (w_devs w d) then Some (DEV_CONFIG_RECREATE, w)
      else let reload = (case type of DevSimple \<Rightarrow> None | DevOther n \<Rightarrow> ty_reload (we_type E n));
               device_attrs = (case type of DevSimple \<Rightarrow> True | DevOther n \<Rightarrow> ty_device_attrs (we_type E n))
           in case reload of
                Some f \<Rightarrow> f rec d attr w
              | None \<Rightarrow>
                  if we_blob_equal E (dv_config (w_devs w d)) attr
                  then Some (DEV_CONFIG_NO_CHANGE, w)
                  else if device_attrs then do {
                    w \<leftarrow> device_init_settings E rec d (we_dev_attrs E attr) w;
                    Some (DEV_CONFIG_RESTART, w)
                  }
                  else Some (DEV_CONFIG_RECREATE, w))"

definition device_restart :: "world_env \<Rightarrow> rec \<Rightarrow> did \<Rightarrow> world \<Rightarrow> world option" where
  "device_restart E rec d w = do {
     w \<leftarrow> device_set_present E rec d False w;
     (ret, w) \<leftarrow>
       (if dv_active (w_devs w d) \<noteq> 0 \<and> \<not> dv_external (w_devs w d) then do {
          (ret, w) \<leftarrow> rec (CSetState d False) w;
          if ret = 0 then rec (CSetState d True) w else Some (ret, w)
        }
        else Some (0, w));
     if ret = 0 then device_set_present E rec d True w else Some w
   }"

definition device_apply_config ::
  "world_env \<Rightarrow> rec \<Rightarrow> did \<Rightarrow> device_type \<Rightarrow> blob option \<Rightarrow> world \<Rightarrow> (dev_change_type \<times> world) option" where
  "device_apply_config E rec d type config w = do {
     (change, w) \<leftarrow> device_set_config E rec d type config w;
     let s = dv_settings (w_devs w d);
     let (change, w) = (if dv_external (w_devs w d)
                        then (DEV_CONFIG_APPLIED, klog_do (KIfApplySettings d s (ds_flags s)) w)
                        else (change, w));
     if change = DEV_CONFIG_RESTART \<or> change = DEV_CONFIG_APPLIED then do {
       let w = upd_dev d (\<lambda>x. x\<lparr>dv_config := config\<rparr>) w;
       w \<leftarrow> (if change = DEV_CONFIG_RESTART \<and> dv_present (w_devs w d)
            then device_restart E rec d w else Some w);
       Some (change, w)
     }
     else Some (change, w)
   }"

section \<open>Freeing and replacing\<close>

fun cleanup_loop :: "world_env \<Rightarrow> rec \<Rightarrow> did \<Rightarrow> bool \<Rightarrow> uid list \<Rightarrow> world \<Rightarrow> world option" where
  "cleanup_loop E rec d alias [] w = Some w"
| "cleanup_loop E rec d alias (u # us) w =
     (if u \<notin> set (user_list alias (w_devs w d)) then cleanup_loop E rec d alias us w
      else do {
        w \<leftarrow> call_void rec (CUser u DEV_EVENT_REMOVE) w;
        w \<leftarrow> device_release E rec u w;
        cleanup_loop E rec d alias us w
      })"

definition device_cleanup :: "world_env \<Rightarrow> rec \<Rightarrow> did \<Rightarrow> world \<Rightarrow> world option" where
  "device_cleanup E rec d w = do {
     w \<leftarrow> cleanup_loop E rec d False (we_visit E (dv_users (w_devs w d))) w;
     w \<leftarrow> cleanup_loop E rec d True (we_visit E (dv_aliases (w_devs w d))) w;
     Some (device_delete d w)
   }"

definition simple_device_free :: "world_env \<Rightarrow> rec \<Rightarrow> did \<Rightarrow> world \<Rightarrow> world option" where
  "simple_device_free E rec d w = do {
     w \<leftarrow> (if du_dev (dv_parent (w_devs w d)) \<noteq> None then device_remove_user E rec (UParent d) w
          else Some w);
     Some (emit (OutFreeDevice d) w)
   }"

definition device_free :: "world_env \<Rightarrow> rec \<Rightarrow> did \<Rightarrow> world \<Rightarrow> world option" where
  "device_free E rec d w = do {
     w \<leftarrow> device_cleanup E rec d w;
     case dv_type (w_devs w d) of
       DevSimple \<Rightarrow> simple_device_free E rec d w
     | DevOther n \<Rightarrow> ty_free (we_type E n) rec d w
   }"

definition device_unused :: "device \<Rightarrow> bool" where
  "device_unused dev \<longleftrightarrow> dv_users dev = [] \<and> dv_aliases dev = [] \<and> \<not> dv_current_config dev"

fun free_unused_loop :: "world_env \<Rightarrow> rec \<Rightarrow> did list \<Rightarrow> world \<Rightarrow> world option" where
  "free_unused_loop E rec [] w = Some w"
| "free_unused_loop E rec (d # ds) w = do {
     w \<leftarrow> (if device_unused (w_devs w d) then device_free E rec d w else Some w);
     free_unused_loop E rec ds w
   }"

definition device_free_unused :: "world_env \<Rightarrow> rec \<Rightarrow> world \<Rightarrow> world option" where
  "device_free_unused E rec w = free_unused_loop E rec (w_devlist w) w"

fun replace_loop :: "world_env \<Rightarrow> rec \<Rightarrow> did \<Rightarrow> uid list \<Rightarrow> world \<Rightarrow> world option" where
  "replace_loop E rec d [] w = Some w"
| "replace_loop E rec d (u # us) w = do {
     w \<leftarrow> device_release E rec u w;
     w \<leftarrow> device_add_user_to rec u d (safe_list_del u w);
     replace_loop E rec d us w
   }"

definition device_replace :: "world_env \<Rightarrow> rec \<Rightarrow> did \<Rightarrow> did \<Rightarrow> world \<Rightarrow> world option" where
  "device_replace E rec d od w = do {
     w \<leftarrow> (if dv_present (w_devs w od) then device_set_present E rec od False w else Some w);
     w \<leftarrow> replace_loop E rec d (dv_users (w_devs w od)) w;
     device_free E rec od w
   }"

definition device_reset_config :: "world \<Rightarrow> world" where
  "device_reset_config w =
     fold (\<lambda>d. upd_dev d (\<lambda>x. x\<lparr>dv_current_config := False\<rparr>)) (w_devlist w) w"

fun reset_old_loop :: "world_env \<Rightarrow> rec \<Rightarrow> did list \<Rightarrow> world \<Rightarrow> world option" where
  "reset_old_loop E rec [] w = Some w"
| "reset_old_loop E rec (d # ds) w =
     (let dev = w_devs w d
      in if dv_current_config dev \<or> dv_default_config dev \<or> dv_type dev \<noteq> DevSimple
         then reset_old_loop E rec ds w
         else do {
           (ndev, w) \<leftarrow> device_create_default E rec (dv_ifname dev) (dv_external dev) w;
           w \<leftarrow> (case ndev of None \<Rightarrow> Some w | Some n \<Rightarrow> device_replace E rec n d w);
           reset_old_loop E rec ds w
         })"

definition device_reset_old :: "world_env \<Rightarrow> rec \<Rightarrow> world \<Rightarrow> world option" where
  "device_reset_old E rec w = reset_old_loop E rec (w_devlist w) w"

definition simple_device_create ::
  "world_env \<Rightarrow> rec \<Rightarrow> string \<Rightarrow> blob option \<Rightarrow> world \<Rightarrow> (did option \<times> world) option" where
  "simple_device_create E rec name attr w = do {
     (dev, w) \<leftarrow> device_get E rec name 1 w;
     case dev of
       None \<Rightarrow> Some (None, w)
     | Some d \<Rightarrow> do {
         w \<leftarrow> device_init_settings E rec d (we_dev_attrs E attr)
               (upd_dev d (\<lambda>x. x\<lparr>dv_set_state := Some StateSimple\<rparr>) w);
         Some (Some d, w)
       }
   }"

definition device_type_config_init ::
  "world_env \<Rightarrow> rec \<Rightarrow> did \<Rightarrow> world \<Rightarrow> world option" where
  "device_type_config_init E rec d w =
     (case dv_type (w_devs w d) of
        DevSimple \<Rightarrow> None
      | DevOther n \<Rightarrow> ty_config_init (we_type E n) rec d w)"

definition device_create_new ::
  "world_env \<Rightarrow> rec \<Rightarrow> string \<Rightarrow> device_type \<Rightarrow> blob option \<Rightarrow> did option \<Rightarrow> world \<Rightarrow>
   (did option \<times> world) option" where
  "device_create_new E rec name type config odev w = do {
     (dev, w) \<leftarrow> (case type of DevSimple \<Rightarrow> simple_device_create E rec name config w
                            | DevOther n \<Rightarrow> ty_create (we_type E n) rec name config w);
     case dev of
       None \<Rightarrow> Some (None, w)
     | Some d \<Rightarrow> do {
         let w = upd_dev d (\<lambda>x. x\<lparr>dv_current_config := True, dv_config := config\<rparr>) w;
         w \<leftarrow> (case odev of None \<Rightarrow> Some w | Some od \<Rightarrow> device_replace E rec d od w);
         w \<leftarrow> (if \<not> w_config_init w \<and> dv_config_pending (w_devs w d) then do {
                w \<leftarrow> device_type_config_init E rec d w;
                Some (upd_dev d (\<lambda>x. x\<lparr>dv_config_pending := False\<rparr>) w)
              }
              else Some w);
         (_, w) \<leftarrow> device_check_state E rec d w;
         Some (Some d, w)
       }
   }"

definition device_create ::
  "world_env \<Rightarrow> rec \<Rightarrow> string \<Rightarrow> device_type \<Rightarrow> blob option \<Rightarrow> world \<Rightarrow> (did option \<times> world) option" where
  "device_create E rec name type config w =
     (case device_find w name of
        None \<Rightarrow> device_create_new E rec name type config None w
      | Some od \<Rightarrow> do {
          (change, w) \<leftarrow> device_apply_config E rec od type config
                          (upd_dev od (\<lambda>x. x\<lparr>dv_current_config := True\<rparr>) w);
          if change = DEV_CONFIG_RECREATE
          then device_create_new E rec name type config (Some od) (device_delete od w)
          else Some (Some od, w)
        })"

fun init_pending_loop :: "world_env \<Rightarrow> rec \<Rightarrow> did list \<Rightarrow> world \<Rightarrow> world option" where
  "init_pending_loop E rec [] w = Some w"
| "init_pending_loop E rec (d # ds) w =
     (if \<not> dv_config_pending (w_devs w d) then init_pending_loop E rec ds w
      else do {
        w \<leftarrow> device_type_config_init E rec d w;
        (_, w) \<leftarrow> device_check_state E rec d (upd_dev d (\<lambda>x. x\<lparr>dv_config_pending := False\<rparr>) w);
        init_pending_loop E rec ds w
      })"

definition device_init_pending :: "world_env \<Rightarrow> rec \<Rightarrow> world \<Rightarrow> world option" where
  "device_init_pending E rec w = init_pending_loop E rec (w_devlist w) w"

definition device_check_ip6segmentrouting :: "world \<Rightarrow> bool" where
  "device_check_ip6segmentrouting w =
     list_ex (\<lambda>d. ds_ip6segmentrouting (dv_settings (w_devs w d))) (w_devlist w)"

definition device_hotplug_event :: "world_env \<Rightarrow> rec \<Rightarrow> string \<Rightarrow> bool \<Rightarrow> world \<Rightarrow> world option" where
  "device_hotplug_event E rec name add w =
     (case device_find w name of
        None \<Rightarrow> Some w
      | Some d \<Rightarrow> if dv_type (w_devs w d) \<noteq> DevSimple then Some w
                  else device_set_present E rec d add w)"

end
