(* ===== verification/AliasDev.thy ===== *)
theory AliasDev
  imports DeviceCore
begin

text \<open>
  Alias devices, \<open>src/alias.c\<close>: a device \<open>@name\<close> that stands for the layer 3 device of the
  interface \<open>name\<close> while that is up. A change of the device below is put off until the alias
  device is not in use any more.
\<close>

definition find_interface :: "world \<Rightarrow> string \<Rightarrow> ifid option" where
  "find_interface w name = find (\<lambda>i. if_name (w_ifs w i) = name) (w_iflist w)"

definition zero_alias_device :: alias_device where
  "zero_alias_device = \<lparr>al_dep = zero_device_user, al_new_dep = zero_device_user, al_update = False, al_name = []\<rparr>"

definition alias_set_device ::
  "world_env \<Rightarrow> rec \<Rightarrow> did \<Rightarrow> did option \<Rightarrow> world \<Rightarrow> world option" where
  "alias_set_device E rec a dev w =
     (if dev = du_dev (al_dep (w_alias w a)) then
        if al_update (w_alias w a) then do {
          w \<leftarrow> device_remove_user E rec (UAliasNew a) w;
          let w = upd_alias a (\<lambda>x. x\<lparr>al_update := False\<rparr>) w;
          if dev \<noteq> None then device_set_present E rec a True w else Some w
        }
        else Some w
      else do {
        w \<leftarrow> device_set_present E rec a False w;
        w \<leftarrow> device_remove_user E rec (UAliasNew a) w;
        if dv_active (w_devs w a) \<noteq> 0 then do {
          w \<leftarrow> (if dev \<noteq> None then device_add_user E rec (UAliasNew a) dev w else Some w);
          Some (upd_alias a (\<lambda>x. x\<lparr>al_update := True\<rparr>) w)
        }
        else do {
          w \<leftarrow> device_remove_user E rec (UAlias a) (upd_alias a (\<lambda>x. x\<lparr>al_update := False\<rparr>) w);
          let w = upd_dev a (\<lambda>x. x\<lparr>dv_hidden := (dev = None)\<rparr>) w;
          case dev of
            Some d \<Rightarrow> do {
              w \<leftarrow> device_set_ifindex E rec a (dv_ifindex (w_devs w d)) w;
              (_, w) \<leftarrow> device_set_ifname E rec a (dv_ifname (w_devs w d)) w;
              device_add_user E rec (UAlias a) dev w
            }
          | None \<Rightarrow> do {
              (_, w) \<leftarrow> device_set_ifname E rec a [] w;
              device_set_link E rec a False w
            }
        }
      })"

definition alias_device_set_state ::
  "world_env \<Rightarrow> rec \<Rightarrow> did \<Rightarrow> bool \<Rightarrow> world \<Rightarrow> (int \<times> world) option" where
  "alias_device_set_state E rec a state w =
     (if du_dev (al_dep (w_alias w a)) = None then Some (-1, w)
      else if state then device_claim E rec (UAlias a) w
      else do {
        w \<leftarrow> device_release E rec (UAlias a) w;
        w \<leftarrow> (if al_update (w_alias w a)
             then alias_set_device E rec a (du_dev (al_new_dep (w_alias w a))) w else Some w);
        Some (0, w)
      })"

definition alias_device_cb ::
  "world_env \<Rightarrow> rec \<Rightarrow> did \<Rightarrow> device_event \<Rightarrow> world \<Rightarrow> world option" where
  "alias_device_cb E rec a ev w =
     (case ev of
        DEV_EVENT_ADD \<Rightarrow> device_set_present E rec a True w
      | DEV_EVENT_REMOVE \<Rightarrow> device_set_present E rec a False w
      | DEV_EVENT_LINK_UP \<Rightarrow> device_set_link E rec a True w
      | DEV_EVENT_LINK_DOWN \<Rightarrow> device_set_link E rec a False w
      | DEV_EVENT_UPDATE_IFINDEX \<Rightarrow>
          (case du_dev (al_dep (w_alias w a)) of
             None \<Rightarrow> None
           | Some d \<Rightarrow> device_set_ifindex E rec a (dv_ifindex (w_devs w d)) w)
      | _ \<Rightarrow> device_broadcast_event E rec a ev w)"

definition alias_check_state :: "world_env \<Rightarrow> rec \<Rightarrow> did \<Rightarrow> world \<Rightarrow> (int \<times> world) option" where
  "alias_check_state E rec a w = do {
     let ndev = (case find_interface w (al_name (w_alias w a)) of
                   None \<Rightarrow> None
                 | Some i \<Rightarrow> if if_state (w_ifs w i) = IFS_UP then du_dev (if_l3_dev (w_ifs w i)) else None);
     w \<leftarrow> alias_set_device E rec a ndev w;
     Some (0, w)
   }"

text \<open>The check of the state that ends the creation is the one of the type, \<open>alias_check_state\<close>.\<close>

definition alias_device_create ::
  "world_env \<Rightarrow> rec \<Rightarrow> string \<Rightarrow> world \<Rightarrow> (did option \<times> world) option" where
  "alias_device_create E rec name w = do {
     let a = w_next_dev w;
     let w = upd_alias a (\<lambda>_. zero_alias_device\<lparr>al_name := name\<rparr>)
               (upd_dev a (\<lambda>_. zero_device\<lparr>dv_set_state := Some StateOfType, dv_hidden := True\<rparr>)
                 (w\<lparr>w_next_dev := a + 1\<rparr>));
     (ret, w) \<leftarrow> device_init_virtual E rec a (DevOther ''Network alias'') None w;
     if ret < 0 then Some (None, w)
     else do {
       let w = w\<lparr>w_aliases := avl_insert (\<lambda>x y. strcmp (al_name (w_alias w x)) (al_name (w_alias w y)))
                                a (w_aliases w)\<rparr>;
       let w = upd_alias a (\<lambda>x. x\<lparr>al_dep := (al_dep x)\<lparr>du_alias := True\<rparr>\<rparr>) w;
       (_, w) \<leftarrow> alias_check_state E rec a w;
       Some (Some a, w)
     }
   }"

definition alias_device_free :: "world_env \<Rightarrow> rec \<Rightarrow> did \<Rightarrow> world \<Rightarrow> world option" where
  "alias_device_free E rec a w = do {
     w \<leftarrow> device_remove_user E rec (UAliasNew a) w;
     w \<leftarrow> device_remove_user E rec (UAlias a) w;
     Some (emit (OutFreeDevice a) (w\<lparr>w_aliases := removeAll a (w_aliases w)\<rparr>))
   }"

definition find_alias :: "world \<Rightarrow> string \<Rightarrow> did option" where
  "find_alias w name = find (\<lambda>a. al_name (w_alias w a) = name) (w_aliases w)"

definition alias_notify_device ::
  "world_env \<Rightarrow> rec \<Rightarrow> string \<Rightarrow> did option \<Rightarrow> world \<Rightarrow> world option" where
  "alias_notify_device E rec name dev w =
     (case find_alias w name of None \<Rightarrow> Some w | Some a \<Rightarrow> alias_set_device E rec a dev w)"

definition device_alias_get :: "world_env \<Rightarrow> rec \<Rightarrow> string \<Rightarrow> world \<Rightarrow> (did option \<times> world) option" where
  "device_alias_get E rec name w =
     (case find_alias w name of
        Some a \<Rightarrow> Some (Some a, w)
      | None \<Rightarrow> alias_device_create E rec name w)"

end
