(* ===== verification/IpWorld.thy ===== *)
theory IpWorld
  imports DeviceCore
begin

text \<open>
  The IP settings of an interface as a whole, \<open>src/interface-ip.c\<close>: switching them on and off
  (\<open>interface_ip_set_enabled\<close>), flushing them, delegated prefixes coming and going
  (\<open>interface_update_prefix\<close>), and the timer that drops what has expired. None of these
  operations calls back into devices or interfaces: they are functions on the world.
\<close>

unbundle bit_operations_syntax

datatype ipsel = ConfigIp | ProtoIp

fun get_ip :: "ipsel \<Rightarrow> interface \<Rightarrow> interface_ip_settings" where
  "get_ip ConfigIp iface = if_config_ip iface"
| "get_ip ProtoIp iface = if_proto_ip iface"

fun upd_ip :: "ipsel \<Rightarrow> (interface_ip_settings \<Rightarrow> interface_ip_settings) \<Rightarrow> interface \<Rightarrow> interface" where
  "upd_ip ConfigIp f iface = iface\<lparr>if_config_ip := f (if_config_ip iface)\<rparr>"
| "upd_ip ProtoIp f iface = iface\<lparr>if_proto_ip := f (if_proto_ip iface)\<rparr>"

definition ifaces_of :: "world \<Rightarrow> ifaces" where
  "ifaces_of w = map (\<lambda>i. (i, w_ifs w i)) (w_iflist w)"

section \<open>Switching the settings on and off\<close>

definition set_addr_enabled ::
  "sys_env \<Rightarrow> ifid \<Rightarrow> interface \<Rightarrow> did \<Rightarrow> bool \<Rightarrow> device_addr \<Rightarrow> klog \<Rightarrow> device_addr \<times> klog" where
  "set_addr_enabled S i iface dev enabled addr log =
     (let v6 = is_inet6 (ad_flags addr);
          offlink = (has_flag (ad_flags addr) DEVADDR_OFFLINK \<and> ad_mask addr < max_plen v6)
      in if has_flag (ad_flags addr) DEVADDR_EXTERNAL \<or> ad_enabled addr = enabled then (addr, log)
         else if enabled then
           let log = kdo (KAddAddress (Some dev) addr) log;
               addr = addr\<lparr>ad_policy_table := (if v6 then if_ip6table iface else if_ip4table iface)\<rparr>;
               (addr, log) = (if if_metric iface \<noteq> 0 \<or> ad_policy_table addr \<noteq> 0
                              then interface_handle_subnet_route S i iface addr True log
                              else (addr, log));
               log = (if offlink
                      then kdo (KAddRoute None (null_route v6 (ad_mask addr) (ad_addr addr))) log
                      else log);
               log = (if ad_policy_table addr \<noteq> 0 then interface_add_addr_rules S addr True log else log)
           in (addr\<lparr>ad_enabled := True\<rparr>, log)
         else
           let (addr, log) = interface_handle_subnet_route S i iface addr False log;
               log = kdo (KDelAddress (Some dev) addr) log;
               log = (if offlink
                      then kdo (KDelRoute None (null_route v6 (ad_mask addr) (ad_addr addr))) log
                      else log);
               log = (if ad_policy_table addr \<noteq> 0 then interface_add_addr_rules S addr False log else log)
           in (addr\<lparr>ad_enabled := False\<rparr>, log))"

fun set_addrs_enabled ::
  "sys_env \<Rightarrow> ifid \<Rightarrow> interface \<Rightarrow> did \<Rightarrow> bool \<Rightarrow> device_addr list \<Rightarrow> klog \<Rightarrow> device_addr list \<times> klog" where
  "set_addrs_enabled S i iface dev enabled [] log = ([], log)"
| "set_addrs_enabled S i iface dev enabled (a # as) log =
     (let (a, log) = set_addr_enabled S i iface dev enabled a log;
          (as, log) = set_addrs_enabled S i iface dev enabled as log
      in (a # as, log))"

fun set_neighbors_enabled ::
  "sys_env \<Rightarrow> did \<Rightarrow> bool \<Rightarrow> device_neighbor list \<Rightarrow> klog \<Rightarrow> device_neighbor list \<times> klog" where
  "set_neighbors_enabled S dev enabled [] log = ([], log)"
| "set_neighbors_enabled S dev enabled (n # ns) log =
     (let (n, log) =
            (if nb_enabled n = enabled then (n, log)
             else if enabled then
               let (ret, log) = ksys (se_kernel S) (KAddNeighbor (Some dev) n) log
               in ((if ret \<noteq> 0 then n\<lparr>nb_failed := True\<rparr> else n)\<lparr>nb_enabled := True\<rparr>, log)
             else (n\<lparr>nb_enabled := False\<rparr>, kdo (KDelNeighbor (Some dev) n) log));
          (ns, log) = set_neighbors_enabled S dev enabled ns log
      in (n # ns, log))"

text \<open>The addresses that the interface has from one prefix.\<close>

fun set_own_assignments ::
  "sys_env \<Rightarrow> interface option \<Rightarrow> device_prefix \<Rightarrow> interface \<Rightarrow> bool \<Rightarrow> device_prefix_assignment list \<Rightarrow>
   klog \<Rightarrow> device_prefix_assignment list \<times> klog" where
  "set_own_assignments S uplink prefix iface enabled [] log = ([], log)"
| "set_own_assignments S uplink prefix iface enabled (a # as) log =
     (let (a, log) = (if pa_name a = if_name iface
                      then interface_set_prefix_address S uplink a prefix iface enabled log
                      else (a, log));
          (as, log) = set_own_assignments S uplink prefix iface enabled as log
      in (a # as, log))"

fun set_prefixes_enabled :: "world_env \<Rightarrow> ifid \<Rightarrow> bool \<Rightarrow> pid list \<Rightarrow> world \<Rightarrow> world" where
  "set_prefixes_enabled E i enabled [] w = w"
| "set_prefixes_enabled E i enabled (p # ps) w =
     (let prefix = w_prefix w p;
          (as, log) = set_own_assignments (sys_of E w) (prefix_uplink (ifaces_of w) prefix) prefix
                        (w_ifs w i) enabled (pf_assignments prefix) (w_log w);
          w = w\<lparr>w_prefix := (w_prefix w)(p := prefix\<lparr>pf_assignments := as\<rparr>), w_log := log\<rparr>
      in set_prefixes_enabled E i enabled ps w)"

definition set_policy_rules ::
  "sys_env \<Rightarrow> interface \<Rightarrow> did \<Rightarrow> bool \<Rightarrow> klog \<Rightarrow> klog" where
  "set_policy_rules S iface dev enabled log =
     (let log = (if ds_ipv6 (dv_settings (se_dev S dev)) then
                   let log = set_ip_lo_policy S enabled True iface dev log
                   in set_ip_source_policy S enabled True
                        (IPRULE_PRIORITY_REJECT + to_u32 (dv_ifindex (se_dev S dev))) None 0 0
                        (Some iface) (Some ''failed_policy'') True log
                 else log)
      in set_ip_lo_policy S enabled False iface dev log)"

definition interface_ip_set_enabled :: "world_env \<Rightarrow> ifid \<Rightarrow> ipsel \<Rightarrow> bool \<Rightarrow> world \<Rightarrow> world" where
  "interface_ip_set_enabled E i sel enabled w =
     (let w = upd_if i (upd_ip sel (\<lambda>ip. ip\<lparr>ip_enabled := enabled\<rparr>)) w;
          iface = w_ifs w i; ip = get_ip sel iface; S = sys_of E w
      in case l3_device iface of
           None \<Rightarrow> w
         | Some dev \<Rightarrow>
             let (addrs, log) = set_addrs_enabled S i iface dev enabled (ip_addr ip) (w_log w);
                 (routes, log) = set_routes_enabled S iface ip enabled (ip_route ip) log;
                 (host_routes, log) =
                   (if sel = ProtoIp
                    then set_routes_enabled S iface ip enabled (if_host_routes iface) log
                    else (if_host_routes iface, log));
                 (neighbors, log) = set_neighbors_enabled S dev enabled (ip_neighbor ip) log;
                 w = upd_if i (\<lambda>f. (upd_ip sel (\<lambda>ip. ip\<lparr>ip_addr := addrs, ip_route := routes,
                                                       ip_neighbor := neighbors\<rparr>) f)
                                   \<lparr>if_host_routes := host_routes\<rparr>) (w\<lparr>w_log := log\<rparr>);
                 w = set_prefixes_enabled E i enabled (w_prefixes w) w
             in if if_policy_rules_set (w_ifs w i) = enabled then w
                else upd_if i (\<lambda>f. f\<lparr>if_policy_rules_set := enabled\<rparr>)
                       (w\<lparr>w_log := set_policy_rules S (w_ifs w i) dev enabled (w_log w)\<rparr>))"

section \<open>Delegated prefixes\<close>

definition update_assignments :: "world_env \<Rightarrow> pid \<Rightarrow> bool \<Rightarrow> world \<Rightarrow> world" where
  "update_assignments E p setup w =
     (let (prefix, log) = interface_update_prefix_assignments (sys_of E w) (ifaces_of w) (w_prefix w p)
                            setup (w_log w)
      in w\<lparr>w_prefix := (w_prefix w)(p := prefix), w_log := log\<rparr>)"

definition delegated :: "world \<Rightarrow> pid \<Rightarrow> bool" where
  "delegated w p \<longleftrightarrow> (case pf_iface (w_prefix w p) of
                       None \<Rightarrow> True
                     | Some i \<Rightarrow> \<not> ip_no_delegation (if_proto_ip (w_ifs w i)))"

definition prefix_null_route :: "device_prefix \<Rightarrow> device_route" where
  "prefix_null_route prefix =
     zero_route\<lparr>rt_flags := DEVADDR_INET6, rt_metric := 2147483647,
       rt_mask := word_of_nat (pf_length prefix), rt_addr := pf_addr prefix\<rparr>"

text \<open>
  \<open>tree\<close> is the interface whose prefix tree the prefix is in, \<open>None\<close> for the local prefix. The
  null route of a prefix keeps traffic to unassigned subnets from looping. The three cases are
  a prefix that replaces one, a new prefix, and one that goes.
\<close>

definition touch_prefix :: "ifid option \<Rightarrow> world \<Rightarrow> world" where
  "touch_prefix tree w =
     (case tree of
        None \<Rightarrow> w
      | Some i \<Rightarrow> upd_if i (\<lambda>f. f\<lparr>if_updated := if_updated f OR IUF_PREFIX\<rparr>) w)"

definition prefix_replaced :: "world_env \<Rightarrow> ifid option \<Rightarrow> pid \<Rightarrow> pid \<Rightarrow> world \<Rightarrow> world" where
  "prefix_replaced E tree n p_old w =
     (let prefix = (w_prefix w n)\<lparr>pf_assignments :=
                      pf_assignments (w_prefix w p_old) @ pf_assignments (w_prefix w n)\<rparr>;
          (as, log) = set_prefix_addresses (sys_of E w) (ifaces_of w) (prefix_uplink (ifaces_of w) prefix)
                        prefix (\<not> prefix_expired (se_rtime (we_sys E)) prefix) (pf_assignments prefix) (w_log w);
          w' = w\<lparr>w_prefix := (w_prefix w)(n := prefix\<lparr>pf_assignments := as\<rparr>), w_log := log\<rparr>
      in if pf_preferred_until prefix \<noteq> pf_preferred_until (w_prefix w p_old)
            \<or> pf_valid_until prefix \<noteq> pf_valid_until (w_prefix w p_old)
         then touch_prefix tree w' else w')"

definition prefix_added :: "world_env \<Rightarrow> pid \<Rightarrow> world \<Rightarrow> world" where
  "prefix_added E n w =
     (let w = klog_do (KAddRoute None (prefix_null_route (w_prefix w n))) w
      in if delegated w n
         then update_assignments E n (\<not> prefix_expired (se_rtime (we_sys E)) (w_prefix w n)) w else w)"

definition prefix_removed :: "world_env \<Rightarrow> pid \<Rightarrow> world \<Rightarrow> world" where
  "prefix_removed E p_old w =
     (let w = update_assignments E p_old False w
      in klog_do (KDelRoute None (prefix_null_route (w_prefix w p_old))) w)"

definition interface_update_prefix ::
  "world_env \<Rightarrow> ifid option \<Rightarrow> pid option \<Rightarrow> pid option \<Rightarrow> world \<Rightarrow> world" where
  "interface_update_prefix E tree node_new node_old w =
     (let w = (if node_new = None \<or> node_old = None then touch_prefix tree w else w);
          w = (case (node_new, node_old) of
                 (Some n, Some p_old) \<Rightarrow> prefix_replaced E tree n p_old w
               | (Some n, None) \<Rightarrow> prefix_added E n w
               | (None, Some p_old) \<Rightarrow> prefix_removed E p_old w
               | (None, None) \<Rightarrow> w);
          w = (case node_old of
                 None \<Rightarrow> w
               | Some p_old \<Rightarrow> w\<lparr>w_prefixes := removeAll p_old (w_prefixes w)\<rparr>)
      in case node_new of
           None \<Rightarrow> w
         | Some n \<Rightarrow> if delegated w n then w\<lparr>w_prefixes := n # w_prefixes w\<rparr> else w)"

text \<open>
  Adding to a tree (\<open>vlist_add\<close>): an element with the same key is replaced, and the update
  callback of the tree hears of the new and the old element.
\<close>

definition vlist_old :: "('a \<Rightarrow> 'a \<Rightarrow> int) \<Rightarrow> 'a \<Rightarrow> 'a list \<Rightarrow> 'a option" where
  "vlist_old cmp x xs = find (\<lambda>y. cmp x y = 0) xs"

definition vlist_put :: "('a \<Rightarrow> 'a \<Rightarrow> int) \<Rightarrow> 'a \<Rightarrow> 'a list \<Rightarrow> 'a list" where
  "vlist_put cmp x xs = avl_insert cmp x (filter (\<lambda>y. cmp x y \<noteq> 0) xs)"

text \<open>The new prefix is the one with the identifier \<open>p\<close>.\<close>

definition interface_ip_add_device_prefix ::
  "world_env \<Rightarrow> ifid option \<Rightarrow> if_addr \<Rightarrow> nat \<Rightarrow> int \<Rightarrow> int \<Rightarrow> (if_addr \<times> nat) option \<Rightarrow> string option \<Rightarrow>
   world \<Rightarrow> pid \<times> world" where
  "interface_ip_add_device_prefix E iface addr plen valid_until preferred_until excl pclass w =
     (let p = w_next_prefix w;
          pclass = (case pclass of
                      Some c \<Rightarrow> c
                    | None \<Rightarrow> (case iface of Some i \<Rightarrow> if_name (w_ifs w i) | None \<Rightarrow> ''local''));
          prefix = zero_prefix\<lparr>pf_length := plen, pf_addr := clear_if_addr addr plen,
                     pf_preferred_until := preferred_until, pf_valid_until := valid_until,
                     pf_iface := iface, pf_assignments := [], pf_pclass := pclass\<rparr>;
          prefix = (case excl of
                      None \<Rightarrow> prefix
                    | Some (a, l) \<Rightarrow> prefix\<lparr>pf_excl_addr := a, pf_excl_length := l\<rparr>);
          w = w\<lparr>w_next_prefix := p + 1, w_prefix := (w_prefix w)(p := prefix)\<rparr>
      in case iface of
           None \<Rightarrow> (p, interface_update_prefix E None (Some p) None w)
         | Some i \<Rightarrow>
             let cmp = (\<lambda>a b. prefix_cmp (w_prefix w a) (w_prefix w b));
                 tree = ip_prefix (if_proto_ip (w_ifs w i));
                 version = ip_prefix_version (if_proto_ip (w_ifs w i));
                 w = w\<lparr>w_prefix := (w_prefix w)(p := (w_prefix w p)\<lparr>pf_version := version\<rparr>)\<rparr>;
                 w = upd_if i (upd_ip ProtoIp (\<lambda>ip. ip\<lparr>ip_prefix := vlist_put cmp p tree\<rparr>)) w
             in (p, interface_update_prefix E (Some i) (Some p) (vlist_old cmp p tree) w))"

text \<open>The buffer of \<open>interface_ip_set_ula_prefix\<close> holds 49 characters.\<close>

definition drop_ula :: "world_env \<Rightarrow> world \<Rightarrow> world" where
  "drop_ula E w =
     (case w_ula w of
        None \<Rightarrow> w
      | Some u \<Rightarrow> interface_update_prefix E None None (Some u) w)"

definition interface_ip_set_ula_prefix :: "world_env \<Rightarrow> string option \<Rightarrow> world \<Rightarrow> world" where
  "interface_ip_set_ula_prefix E prefix w =
     (let buf = (case prefix of None \<Rightarrow> [] | Some s \<Rightarrow> take 49 s);
          parsed = Option.bind (strtok CHR ''/'' buf)
                     (\<lambda>(prefixaddr, rest). map_option (\<lambda>a. (a, rest)) (pe_inet_pton (we_parse E) True prefixaddr))
      in case parsed of
           None \<Rightarrow> (drop_ula E w)\<lparr>w_ula := None\<rparr>
         | Some (addr, rest) \<Rightarrow>
             case strtok CHR '','' rest of
               None \<Rightarrow> w
             | Some (prefixlen, _) \<Rightarrow>
                 let plen = atoi prefixlen;
                     same = (case w_ula w of
                               None \<Rightarrow> False
                             | Some u \<Rightarrow> addr = pf_addr (w_prefix w u) \<and> int (pf_length (w_prefix w u)) = plen)
                 in if plen < 1 \<or> plen > 64 \<or> same then w
                    else let (p, w) = interface_ip_add_device_prefix E None addr (nat plen) 0 0 None None
                                        (drop_ula E w)
                         in w\<lparr>w_ula := Some p\<rparr>)"

definition interface_refresh_assignments :: "world_env \<Rightarrow> bool \<Rightarrow> world \<Rightarrow> world" where
  "interface_refresh_assignments E hint w =
     (let now = se_rtime (we_sys E);
          w = (if \<not> hint \<and> w_refresh w
               then fold (\<lambda>p w. update_assignments E p (\<not> prefix_expired now (w_prefix w p)) w)
                      (w_prefixes w) w
               else w)
      in w\<lparr>w_refresh := hint\<rparr>)"

definition interface_update_prefix_delegation :: "world_env \<Rightarrow> ifid \<Rightarrow> world \<Rightarrow> world" where
  "interface_update_prefix_delegation E i w =
     (let ip = if_proto_ip (w_ifs w i); now = se_rtime (we_sys E)
      in fold (\<lambda>p w.
                 let w = update_assignments E p
                           (\<not> ip_no_delegation ip \<and> \<not> prefix_expired now (w_prefix w p)) w
                 in if ip_no_delegation ip then w\<lparr>w_prefixes := removeAll p (w_prefixes w)\<rparr>
                    else w\<lparr>w_prefixes := p # w_prefixes w\<rparr>)
           (ip_prefix ip) w)"

section \<open>Tree updates on the world\<close>

definition update_addr ::
  "world_env \<Rightarrow> ifid \<Rightarrow> device_addr option \<Rightarrow> device_addr option \<Rightarrow> world \<Rightarrow> device_addr option \<times> world" where
  "update_addr E i node_new node_old w =
     (let (iface, n, log) = interface_update_proto_addr (sys_of E w) i (w_ifs w i) node_new node_old (w_log w)
      in (n, upd_if i (\<lambda>_. iface) (w\<lparr>w_log := log\<rparr>)))"

definition update_route ::
  "world_env \<Rightarrow> ifid \<Rightarrow> ipsel \<Rightarrow> device_route option \<Rightarrow> device_route option \<Rightarrow> world \<Rightarrow> device_route option \<times> world" where
  "update_route E i sel node_new node_old w =
     (let (iface, n, log) = interface_update_proto_route (sys_of E w) i (w_ifs w i) (get_ip sel (w_ifs w i))
                              node_new node_old (w_log w)
      in (n, upd_if i (\<lambda>_. iface) (w\<lparr>w_log := log\<rparr>)))"

definition update_host_route ::
  "world_env \<Rightarrow> ifid \<Rightarrow> device_route option \<Rightarrow> device_route option \<Rightarrow> world \<Rightarrow> device_route option \<times> world" where
  "update_host_route E i node_new node_old w =
     (let (iface, n, log) = interface_update_host_route (sys_of E w) i (w_ifs w i) node_new node_old (w_log w)
      in (n, upd_if i (\<lambda>_. iface) (w\<lparr>w_log := log\<rparr>)))"

definition update_neighbor ::
  "world_env \<Rightarrow> ifid \<Rightarrow> ipsel \<Rightarrow> device_neighbor option \<Rightarrow> device_neighbor option \<Rightarrow> world \<Rightarrow>
   device_neighbor option \<times> world" where
  "update_neighbor E i sel node_new node_old w =
     (let (n, log) = interface_update_proto_neighbor (sys_of E w) (w_ifs w i) (get_ip sel (w_ifs w i))
                       node_new node_old (w_log w)
      in (n, w\<lparr>w_log := log\<rparr>))"

definition ip_add_addr :: "world_env \<Rightarrow> ifid \<Rightarrow> device_addr \<Rightarrow> world \<Rightarrow> world" where
  "ip_add_addr E i a w =
     (let tree = ip_addr (if_proto_ip (w_ifs w i));
          a = a\<lparr>ad_version := ip_addr_version (if_proto_ip (w_ifs w i))\<rparr>;
          (n, w) = update_addr E i (Some a) (vlist_old addr_cmp a tree) w
      in case n of
           None \<Rightarrow> w
         | Some a' \<Rightarrow> upd_if i (upd_ip ProtoIp (\<lambda>ip. ip\<lparr>ip_addr := vlist_put addr_cmp a' tree\<rparr>)) w)"

definition ip_add_route :: "world_env \<Rightarrow> ifid \<Rightarrow> ipsel \<Rightarrow> device_route \<Rightarrow> world \<Rightarrow> world" where
  "ip_add_route E i sel r w =
     (let tree = ip_route (get_ip sel (w_ifs w i));
          r = r\<lparr>rt_version := ip_route_version (get_ip sel (w_ifs w i))\<rparr>;
          (n, w) = update_route E i sel (Some r) (vlist_old route_cmp r tree) w
      in case n of
           None \<Rightarrow> w
         | Some r' \<Rightarrow> upd_if i (upd_ip sel (\<lambda>ip. ip\<lparr>ip_route := vlist_put route_cmp r' tree\<rparr>)) w)"

definition ip_add_neighbor :: "world_env \<Rightarrow> ifid \<Rightarrow> ipsel \<Rightarrow> device_neighbor \<Rightarrow> world \<Rightarrow> world" where
  "ip_add_neighbor E i sel n w =
     (let tree = ip_neighbor (get_ip sel (w_ifs w i));
          n = n\<lparr>nb_version := ip_neighbor_version (get_ip sel (w_ifs w i))\<rparr>;
          (n', w) = update_neighbor E i sel (Some n) (vlist_old neighbor_cmp n tree) w
      in case n' of
           None \<Rightarrow> w
         | Some n' \<Rightarrow> upd_if i (upd_ip sel (\<lambda>ip. ip\<lparr>ip_neighbor := vlist_put neighbor_cmp n' tree\<rparr>)) w)"

text \<open>
  The tree of host routes is only ever flushed as a whole: the version of its elements plays no
  part.
\<close>

definition ip_add_host_route :: "world_env \<Rightarrow> ifid \<Rightarrow> device_route \<Rightarrow> world \<Rightarrow> world" where
  "ip_add_host_route E i r w =
     (let tree = if_host_routes (w_ifs w i);
          (n, w) = update_host_route E i (Some r) (vlist_old route_cmp r tree) w
      in case n of
           None \<Rightarrow> w
         | Some r' \<Rightarrow> upd_if i (\<lambda>f. f\<lparr>if_host_routes := vlist_put route_cmp r' tree\<rparr>) w)"

section \<open>Flushing\<close>

text \<open>
  \<open>vlist_flush\<close> takes the elements of older versions out of a tree and tells the callback of
  each; \<open>vlist_flush_all\<close> first sets the version of the tree to -1, so that every element goes.
\<close>

definition vlist_flush_addrs :: "world_env \<Rightarrow> ifid \<Rightarrow> ipsel \<Rightarrow> world \<Rightarrow> world" where
  "vlist_flush_addrs E i sel w =
     (let ip = get_ip sel (w_ifs w i); keeps = (\<lambda>a. vlist_keeps (ip_addr_version ip) (ad_version a))
      in fold (\<lambda>a w. snd (update_addr E i None (Some a) w)) (filter (\<lambda>a. \<not> keeps a) (ip_addr ip))
           (upd_if i (upd_ip sel (\<lambda>ip. ip\<lparr>ip_addr := filter keeps (ip_addr ip)\<rparr>)) w))"

definition flush_addrs :: "world_env \<Rightarrow> ifid \<Rightarrow> ipsel \<Rightarrow> world \<Rightarrow> world" where
  "flush_addrs E i sel w =
     vlist_flush_addrs E i sel (upd_if i (upd_ip sel (\<lambda>ip. ip\<lparr>ip_addr_version := -1\<rparr>)) w)"

definition vlist_flush_routes :: "world_env \<Rightarrow> ifid \<Rightarrow> ipsel \<Rightarrow> world \<Rightarrow> world" where
  "vlist_flush_routes E i sel w =
     (let ip = get_ip sel (w_ifs w i); keeps = (\<lambda>r. vlist_keeps (ip_route_version ip) (rt_version r))
      in fold (\<lambda>r w. snd (update_route E i sel None (Some r) w)) (filter (\<lambda>r. \<not> keeps r) (ip_route ip))
           (upd_if i (upd_ip sel (\<lambda>ip. ip\<lparr>ip_route := filter keeps (ip_route ip)\<rparr>)) w))"

definition flush_routes :: "world_env \<Rightarrow> ifid \<Rightarrow> ipsel \<Rightarrow> world \<Rightarrow> world" where
  "flush_routes E i sel w =
     vlist_flush_routes E i sel (upd_if i (upd_ip sel (\<lambda>ip. ip\<lparr>ip_route_version := -1\<rparr>)) w)"

definition flush_host_routes :: "world_env \<Rightarrow> ifid \<Rightarrow> world \<Rightarrow> world" where
  "flush_host_routes E i w =
     fold (\<lambda>r w. snd (update_host_route E i None (Some r) w)) (if_host_routes (w_ifs w i))
       (upd_if i (\<lambda>f. f\<lparr>if_host_routes := []\<rparr>) w)"

definition vlist_flush_neighbors :: "world_env \<Rightarrow> ifid \<Rightarrow> ipsel \<Rightarrow> world \<Rightarrow> world" where
  "vlist_flush_neighbors E i sel w =
     (let ip = get_ip sel (w_ifs w i); keeps = (\<lambda>n. vlist_keeps (ip_neighbor_version ip) (nb_version n))
      in fold (\<lambda>n w. snd (update_neighbor E i sel None (Some n) w)) (filter (\<lambda>n. \<not> keeps n) (ip_neighbor ip))
           (upd_if i (upd_ip sel (\<lambda>ip. ip\<lparr>ip_neighbor := filter keeps (ip_neighbor ip)\<rparr>)) w))"

definition flush_neighbors :: "world_env \<Rightarrow> ifid \<Rightarrow> ipsel \<Rightarrow> world \<Rightarrow> world" where
  "flush_neighbors E i sel w =
     vlist_flush_neighbors E i sel (upd_if i (upd_ip sel (\<lambda>ip. ip\<lparr>ip_neighbor_version := -1\<rparr>)) w)"

definition vlist_flush_prefixes :: "world_env \<Rightarrow> ifid \<Rightarrow> ipsel \<Rightarrow> world \<Rightarrow> world" where
  "vlist_flush_prefixes E i sel w =
     (let ip = get_ip sel (w_ifs w i);
          keeps = (\<lambda>p. vlist_keeps (ip_prefix_version ip) (pf_version (w_prefix w p)))
      in fold (\<lambda>p. interface_update_prefix E (Some i) None (Some p)) (filter (\<lambda>p. \<not> keeps p) (ip_prefix ip))
           (upd_if i (upd_ip sel (\<lambda>ip. ip\<lparr>ip_prefix := filter keeps (ip_prefix ip)\<rparr>)) w))"

definition flush_prefixes :: "world_env \<Rightarrow> ifid \<Rightarrow> ipsel \<Rightarrow> world \<Rightarrow> world" where
  "flush_prefixes E i sel w =
     vlist_flush_prefixes E i sel (upd_if i (upd_ip sel (\<lambda>ip. ip\<lparr>ip_prefix_version := -1\<rparr>)) w)"

definition interface_ip_flush :: "world_env \<Rightarrow> ifid \<Rightarrow> ipsel \<Rightarrow> world \<Rightarrow> world" where
  "interface_ip_flush E i sel w =
     (let w = (if sel = ProtoIp then flush_host_routes E i w else w);
          w = upd_if i (upd_ip sel (\<lambda>ip. ip\<lparr>ip_dns_servers := vlist_simple_flush_all (ip_dns_servers ip),
                                          ip_dns_search := vlist_simple_flush_all (ip_dns_search ip)\<rparr>)) w;
          w = flush_routes E i sel w;
          w = flush_addrs E i sel w;
          w = flush_neighbors E i sel w
      in flush_prefixes E i sel w)"

text \<open>
  An update of the settings: between its start and its end everything that is still valid is added
  again, and what is left of older versions goes. The name servers of the configuration are
  replaced as a whole instead.
\<close>

definition interface_ip_update_start :: "ifid \<Rightarrow> ipsel \<Rightarrow> world \<Rightarrow> world" where
  "interface_ip_update_start i sel w =
     (let w = (if sel \<noteq> ConfigIp
               then upd_if i (upd_ip sel (\<lambda>ip. ip\<lparr>ip_dns_servers := vlist_simple_update (ip_dns_servers ip),
                                             ip_dns_search := vlist_simple_update (ip_dns_search ip)\<rparr>)) w
               else w)
      in upd_if i (upd_ip sel (\<lambda>ip. ip\<lparr>ip_route_version := ip_route_version ip + 1,
                                     ip_addr_version := ip_addr_version ip + 1,
                                     ip_prefix_version := ip_prefix_version ip + 1,
                                     ip_neighbor_version := ip_neighbor_version ip + 1\<rparr>)) w)"

definition flush_old_settings :: "world_env \<Rightarrow> ifid \<Rightarrow> ipsel \<Rightarrow> world \<Rightarrow> world" where
  "flush_old_settings E i sel w =
     (let w = upd_if i (upd_ip sel (\<lambda>ip. ip\<lparr>ip_dns_servers := vlist_simple_flush (ip_dns_servers ip),
                                          ip_dns_search := vlist_simple_flush (ip_dns_search ip)\<rparr>)) w;
          w = vlist_flush_routes E i sel w;
          w = vlist_flush_addrs E i sel w;
          w = vlist_flush_prefixes E i sel w
      in vlist_flush_neighbors E i sel w)"

definition interface_ip_update_complete :: "world_env \<Rightarrow> ifid \<Rightarrow> ipsel \<Rightarrow> world \<Rightarrow> world" where
  "interface_ip_update_complete E i sel w =
     (let w = flush_old_settings E i sel w
      in emit (OutResolvConf (if_jail (w_ifs w i))) w)"

text \<open>The timer: what has outlived its validity goes, on interfaces that are up.\<close>

definition outlived :: "int \<Rightarrow> int \<Rightarrow> bool" where
  "outlived now valid_until \<longleftrightarrow> valid_until \<noteq> 0 \<and> valid_until < now"

definition expire_addr :: "world_env \<Rightarrow> ifid \<Rightarrow> device_addr \<Rightarrow> world \<Rightarrow> world" where
  "expire_addr E i a w =
     (if outlived (se_rtime (we_sys E)) (ad_valid_until a)
      then snd (update_addr E i None (Some a)
             (upd_if i (upd_ip ProtoIp (\<lambda>ip. ip\<lparr>ip_addr := removeAll a (ip_addr ip)\<rparr>)) w))
      else w)"

definition expire_route :: "world_env \<Rightarrow> ifid \<Rightarrow> device_route \<Rightarrow> world \<Rightarrow> world" where
  "expire_route E i r w =
     (if outlived (se_rtime (we_sys E)) (rt_valid_until r)
      then snd (update_route E i ProtoIp None (Some r)
             (upd_if i (upd_ip ProtoIp (\<lambda>ip. ip\<lparr>ip_route := removeAll r (ip_route ip)\<rparr>)) w))
      else w)"

definition expire_prefix :: "world_env \<Rightarrow> ifid \<Rightarrow> pid \<Rightarrow> world \<Rightarrow> world" where
  "expire_prefix E i p w =
     (if outlived (se_rtime (we_sys E)) (pf_valid_until (w_prefix w p))
      then interface_update_prefix E (Some i) None (Some p)
             (upd_if i (upd_ip ProtoIp (\<lambda>ip. ip\<lparr>ip_prefix := removeAll p (ip_prefix ip)\<rparr>)) w)
      else w)"

definition expire_interface :: "world_env \<Rightarrow> ifid \<Rightarrow> world \<Rightarrow> world" where
  "expire_interface E i w =
     (if if_state (w_ifs w i) \<noteq> IFS_UP then w
      else let w = fold (expire_addr E i) (ip_addr (if_proto_ip (w_ifs w i))) w;
               w = fold (expire_route E i) (ip_route (if_proto_ip (w_ifs w i))) w
           in fold (expire_prefix E i) (ip_prefix (if_proto_ip (w_ifs w i))) w)"

definition interface_ip_valid_until_handler :: "world_env \<Rightarrow> world \<Rightarrow> world" where
  "interface_ip_valid_until_handler E w = fold (expire_interface E) (w_iflist w) w"

end
