(* ===== verification/Interface.thy ===== *)
theory Interface
  imports AliasDev IpWorld
begin

text \<open>
  The state machine of an interface, \<open>src/interface.c\<close>, with the dispatch of protocol commands
  from \<open>src/proto.c\<close>: raising events, going up and down, following the device and the link,
  aliases, the main and the layer 3 device, errors and data.

  The list of users of an interface is walked over as it was when the walk began, and a user
  that has left in between is skipped.
\<close>

unbundle bit_operations_syntax

section \<open>Errors and data\<close>

definition interface_error_flush :: "interface \<Rightarrow> interface" where
  "interface_error_flush iface = iface\<lparr>if_errors := []\<rparr>"

text \<open>The running protocol handler keeps its last error.\<close>

definition keeps_lasterror :: "interface \<Rightarrow> bool" where
  "keeps_lasterror iface \<longleftrightarrow>
     (case if_proto iface of
        None \<Rightarrow> False
      | Some p \<Rightarrow> has_flag (ph_flags (ps_handler p)) PROTO_FLAG_LASTERROR)"

definition runs_configured_proto :: "interface \<Rightarrow> bool" where
  "runs_configured_proto iface \<longleftrightarrow>
     (case if_proto iface of
        None \<Rightarrow> False
      | Some p \<Rightarrow> ph_name (ps_handler p) = ph_name (if_proto_handler iface))"

definition interface_clear_errors :: "interface \<Rightarrow> interface" where
  "interface_clear_errors iface =
     (if \<not> (keeps_lasterror iface \<and> runs_configured_proto iface)
      then interface_error_flush iface else iface)"

definition interface_add_error ::
  "string option \<Rightarrow> string option \<Rightarrow> string list \<Rightarrow> interface \<Rightarrow> interface" where
  "interface_add_error subsystem code data iface =
     (if keeps_lasterror iface \<and> \<not> runs_configured_proto iface then iface
      else let iface = (if has_flag (ph_flags (if_proto_handler iface)) PROTO_FLAG_LASTERROR
                        then interface_error_flush iface else iface)
           in iface\<lparr>if_errors := if_errors iface @
                [\<lparr>err_subsystem = subsystem, err_code = code, err_data = data\<rparr>]\<rparr>)"

definition interface_data_flush :: "interface \<Rightarrow> interface" where
  "interface_data_flush iface = iface\<lparr>if_data := []\<rparr>"

text \<open>
  \<open>ok\<close> is \<open>blobmsg_check_attr\<close>; an attribute is its name and its bytes. The result 2 is
  \<open>UBUS_STATUS_INVALID_ARGUMENT\<close>.
\<close>

definition interface_add_data :: "bool \<Rightarrow> string \<Rightarrow> blob \<Rightarrow> interface \<Rightarrow> int \<times> interface" where
  "interface_add_data ok name data iface =
     (if \<not> ok then (2, iface)
      else if map_of (if_data iface) name = Some data then (0, iface)
      else (0, iface\<lparr>if_data := avl_insert (\<lambda>a b. strcmp (fst a) (fst b)) (name, data)
                                 (filter (\<lambda>(n, _). n \<noteq> name) (if_data iface)),
                     if_updated := if_updated iface OR IUF_DATA\<rparr>))"

definition interface_force_link :: "world \<Rightarrow> ifid \<Rightarrow> bool" where
  "interface_force_link w i =
     (case du_dev (if_main_dev (w_ifs w i)) of
        Some d \<Rightarrow> if ds_auth (dv_settings (w_devs w d)) then False else if_force_link (w_ifs w i)
      | None \<Rightarrow> if_force_link (w_ifs w i))"

section \<open>Events\<close>

fun notify_users :: "rec \<Rightarrow> ifid \<Rightarrow> interface_event \<Rightarrow> (world \<Rightarrow> if_user list) \<Rightarrow> if_user list \<Rightarrow> world \<Rightarrow> world option" where
  "notify_users rec i ev current [] w = Some w"
| "notify_users rec i ev current (a # as) w =
     (if a \<notin> set (current w) then notify_users rec i ev current as w
      else do {
        w \<leftarrow> call_void rec (CIfUser a i ev) w;
        notify_users rec i ev current as w
      })"

definition after_event :: "world_env \<Rightarrow> rec \<Rightarrow> ifid \<Rightarrow> interface_event \<Rightarrow> world \<Rightarrow> world option" where
  "after_event E rec i ev w =
     (case ev of
        IFEV_UP \<Rightarrow> let w = upd_if i interface_error_flush w
                   in alias_notify_device E rec (if_name (w_ifs w i)) (l3_device (w_ifs w i)) w
      | IFEV_DOWN \<Rightarrow> alias_notify_device E rec (if_name (w_ifs w i)) None w
      | IFEV_UP_FAILED \<Rightarrow> alias_notify_device E rec (if_name (w_ifs w i)) None w
      | _ \<Rightarrow> Some w)"

definition interface_event :: "world_env \<Rightarrow> rec \<Rightarrow> ifid \<Rightarrow> interface_event \<Rightarrow> world \<Rightarrow> world option" where
  "interface_event E rec i ev w = do {
     let w = emit (OutEvent i ev) w;
     w \<leftarrow> notify_users rec i ev (\<lambda>w. w_ifusers w i) (w_ifusers w i) w;
     w \<leftarrow> notify_users rec i ev w_allusers (w_allusers w) w;
     after_event E rec i ev (emit (OutNotify i ev) w)
   }"

definition interface_parse_data ::
  "world_env \<Rightarrow> rec \<Rightarrow> ifid \<Rightarrow> (bool \<times> string \<times> blob) list \<Rightarrow> world \<Rightarrow> (int \<times> world) option" where
  "interface_parse_data E rec i attrs w =
     (let add = (\<lambda>(ok, name, data) (ret, iface). if ret \<noteq> 0 then (ret, iface)
                                                 else interface_add_data ok name data iface);
          (ret, iface) = fold add attrs (0, (w_ifs w i)\<lparr>if_updated := 0\<rparr>);
          w = upd_if i (\<lambda>_. iface) w
      in if ret \<noteq> 0 then Some (ret, w)
         else if if_updated iface \<noteq> 0 \<and> if_state iface = IFS_UP
         then do { w \<leftarrow> interface_event E rec i IFEV_UPDATE w; Some (0, w) }
         else Some (0, w))"

section \<open>Protocol commands\<close>

fun cmd_event :: "interface_proto_cmd \<Rightarrow> interface_proto_event" where
  "cmd_event PROTO_CMD_SETUP = IFPEV_UP"
| "cmd_event PROTO_CMD_TEARDOWN = IFPEV_DOWN"
| "cmd_event PROTO_CMD_RENEW = IFPEV_RENEW"

text \<open>A handler with \<open>PROTO_FLAG_IMMEDIATE\<close> is done when its command returns.\<close>

definition interface_proto_event ::
  "rec \<Rightarrow> ifid \<Rightarrow> interface_proto_cmd \<Rightarrow> bool \<Rightarrow> world \<Rightarrow> (int \<times> world) option" where
  "interface_proto_event rec i cmd force w =
     (case if_proto (w_ifs w i) of
        None \<Rightarrow> None
      | Some proto \<Rightarrow> do {
          (ret, w) \<leftarrow> rec (CProtoCmd i cmd force) w;
          if ret \<noteq> 0 \<or> \<not> has_flag (ph_flags (ps_handler proto)) PROTO_FLAG_IMMEDIATE
          then Some (ret, w)
          else do {
            w \<leftarrow> call_void rec (CProtoEvent i (cmd_event cmd)) w;
            Some (ret, w)
          }
        })"

section \<open>Up and down\<close>

definition set_state :: "ifid \<Rightarrow> interface_state \<Rightarrow> world \<Rightarrow> world" where
  "set_state i s = upd_if i (\<lambda>f. f\<lparr>if_state := s\<rparr>)"

definition interface_flush_state :: "world_env \<Rightarrow> rec \<Rightarrow> ifid \<Rightarrow> world \<Rightarrow> world option" where
  "interface_flush_state E rec i w = do {
     w \<leftarrow> (if l3_device (w_ifs w i) \<noteq> None then device_release E rec (UL3 i) w else Some w);
     Some (upd_if i interface_data_flush w)
   }"

definition disable_ip :: "world_env \<Rightarrow> ifid \<Rightarrow> world \<Rightarrow> world" where
  "disable_ip E i w =
     (let w = interface_ip_set_enabled E i ConfigIp False w;
          w = interface_ip_set_enabled E i ProtoIp False w
      in interface_ip_flush E i ProtoIp w)"

definition mark_interface_down :: "world_env \<Rightarrow> rec \<Rightarrow> ifid \<Rightarrow> world \<Rightarrow> world option" where
  "mark_interface_down E rec i w =
     (let state = if_state (w_ifs w i)
      in if state = IFS_DOWN then Some w
         else do {
           let w = set_state i IFS_DOWN (upd_if i (\<lambda>f. f\<lparr>if_link_up_event := False\<rparr>) w);
           w \<leftarrow> interface_event E rec i (if state = IFS_SETUP then IFEV_UP_FAILED else IFEV_DOWN) w;
           w \<leftarrow> interface_flush_state E rec i (disable_ip E i w);
           Some (klog_do KFlushRoutes w)
         })"

definition set_config_state_field :: "ifid \<Rightarrow> interface_config_state \<Rightarrow> world \<Rightarrow> world" where
  "set_config_state_field i s = upd_if i (\<lambda>f. f\<lparr>if_config_state := s\<rparr>)"

text \<open>Tearing down: a dynamic interface is removed when it is down.\<close>

definition begin_teardown :: "ifid \<Rightarrow> world \<Rightarrow> world" where
  "begin_teardown i w =
     (let w = set_state i IFS_TEARDOWN w
      in if if_dynamic (w_ifs w i) then set_config_state_field i IFC_REMOVE w else w)"

text \<open>\<open>__interface_set_down\<close>.\<close>

definition do_set_down :: "world_env \<Rightarrow> rec \<Rightarrow> ifid \<Rightarrow> bool \<Rightarrow> world \<Rightarrow> world option" where
  "do_set_down E rec i force w =
     (let state = if_state (w_ifs w i)
      in case state of
           IFS_DOWN \<Rightarrow> if du_dev (if_main_dev (w_ifs w i)) \<noteq> None then device_release E rec (UMain i) w
                       else Some w
         | IFS_TEARDOWN \<Rightarrow> Some w
         | _ \<Rightarrow> do {
             let w = begin_teardown i w;
             w \<leftarrow> (if state = IFS_UP then interface_event E rec i IFEV_DOWN w else Some w);
             (_, w) \<leftarrow> interface_proto_event rec i PROTO_CMD_TEARDOWN force w;
             if force then interface_flush_state E rec i w else Some w
           })"

text \<open>\<open>__interface_set_up\<close>.\<close>

definition do_set_up :: "world_env \<Rightarrow> rec \<Rightarrow> ifid \<Rightarrow> world \<Rightarrow> (int \<times> world) option" where
  "do_set_up E rec i w = do {
     (ret, w) \<leftarrow> interface_proto_event rec i PROTO_CMD_SETUP False (set_state i IFS_SETUP w);
     w \<leftarrow> (if ret \<noteq> 0 then mark_interface_down E rec i w else Some w);
     Some (ret, w)
   }"

definition interface_check_state :: "world_env \<Rightarrow> rec \<Rightarrow> ifid \<Rightarrow> world \<Rightarrow> world option" where
  "interface_check_state E rec i w =
     (let iface = w_ifs w i;
          link_state = (if_link_state iface \<or> interface_force_link w i)
      in case if_state iface of
           IFS_TEARDOWN \<Rightarrow> Some w
         | IFS_DOWN \<Rightarrow>
             if \<not> if_available iface then Some w
             else if if_autostart iface \<and> if_enabled iface \<and> link_state \<and> \<not> w_config_init w
             then map_option snd (do_set_up E rec i w) else Some w
         | _ \<Rightarrow>
             if \<not> if_enabled iface \<or> \<not> link_state
             then map_option snd (interface_proto_event rec i PROTO_CMD_TEARDOWN False (begin_teardown i w))
             else Some w)"

definition interface_set_enabled :: "world_env \<Rightarrow> rec \<Rightarrow> ifid \<Rightarrow> bool \<Rightarrow> world \<Rightarrow> world option" where
  "interface_set_enabled E rec i new_state w =
     (if if_enabled (w_ifs w i) = new_state then Some w
      else interface_check_state E rec i (upd_if i (\<lambda>f. f\<lparr>if_enabled := new_state\<rparr>) w))"

definition interface_set_link_state :: "world_env \<Rightarrow> rec \<Rightarrow> ifid \<Rightarrow> bool \<Rightarrow> world \<Rightarrow> world option" where
  "interface_set_link_state E rec i new_state w =
     (if if_link_state (w_ifs w i) = new_state then Some w
      else do {
        w \<leftarrow> interface_check_state E rec i (upd_if i (\<lambda>f. f\<lparr>if_link_state := new_state\<rparr>) w);
        w \<leftarrow> (if new_state \<and> interface_force_link w i \<and> if_state (w_ifs w i) = IFS_UP
                \<and> \<not> if_link_up_event (w_ifs w i)
             then do {
               w \<leftarrow> interface_event E rec i IFEV_LINK_UP w;
               Some (upd_if i (\<lambda>f. f\<lparr>if_link_up_event := True\<rparr>) w)
             }
             else Some w);
        interface_event E rec i IFEV_LINK_UP w
      })"

definition interface_set_up :: "world_env \<Rightarrow> rec \<Rightarrow> ifid \<Rightarrow> world \<Rightarrow> world option" where
  "interface_set_up E rec i w =
     (let w = upd_if i (\<lambda>f. f\<lparr>if_autostart := True\<rparr>) w
      in if if_state (w_ifs w i) \<noteq> IFS_DOWN then Some w
         else do {
           let w = upd_if i interface_clear_errors w;
           (error, w) \<leftarrow>
             (if if_available (w_ifs w i) then
                (if du_dev (if_main_dev (w_ifs w i)) \<noteq> None then do {
                   (ret, w) \<leftarrow> device_claim E rec (UMain i) w;
                   if ret = 0 then do { w \<leftarrow> interface_check_state E rec i w; Some (None, w) }
                   else Some (Some ''DEVICE_CLAIM_FAILED'', w)
                 }
                 else do {
                   (ret, w) \<leftarrow> do_set_up E rec i w;
                   Some (if ret \<noteq> 0 then Some ''SETUP_FAILED'' else None, w)
                 })
              else Some (Some ''NO_DEVICE'', w));
           Some (case error of
                   None \<Rightarrow> w
                 | Some e \<Rightarrow> upd_if i (interface_add_error (Some ''interface'') (Some e) []) w)
         })"

definition interface_set_available :: "world_env \<Rightarrow> rec \<Rightarrow> ifid \<Rightarrow> bool \<Rightarrow> world \<Rightarrow> world option" where
  "interface_set_available E rec i new_state w =
     (if if_available (w_ifs w i) = new_state then Some w
      else let w = upd_if i (\<lambda>f. f\<lparr>if_available := new_state\<rparr>) w
           in if new_state then
                (if if_autostart (w_ifs w i) \<and> \<not> w_config_init w then interface_set_up E rec i w
                 else Some w)
              else do_set_down E rec i True w)"

section \<open>The layer 3 and the main device\<close>

definition interface_set_l3_dev :: "world_env \<Rightarrow> rec \<Rightarrow> ifid \<Rightarrow> did option \<Rightarrow> world \<Rightarrow> world option" where
  "interface_set_l3_dev E rec i dev w =
     (let enabled = ip_enabled (if_config_ip (w_ifs w i));
          claimed = du_claimed (if_l3_dev (w_ifs w i))
      in if l3_device (w_ifs w i) = dev then Some w
         else do {
           w \<leftarrow> device_add_user E rec (UL3 i) dev (disable_ip E i w);
           case dev of
             None \<Rightarrow> Some w
           | Some d \<Rightarrow> do {
               (ret, w) \<leftarrow> (if claimed then device_claim E rec (UL3 i) w else Some (0, w));
               if ret < 0 then Some w
               else Some (interface_ip_set_enabled E i ProtoIp enabled
                           (interface_ip_set_enabled E i ConfigIp enabled w))
             }
         })"

definition interface_set_main_dev :: "world_env \<Rightarrow> rec \<Rightarrow> ifid \<Rightarrow> did option \<Rightarrow> world \<Rightarrow> world option" where
  "interface_set_main_dev E rec i dev w =
     (let claimed = du_claimed (if_l3_dev (w_ifs w i))
      in if du_dev (if_main_dev (w_ifs w i)) = dev then Some w
         else do {
           w \<leftarrow> interface_set_available E rec i False w;
           w \<leftarrow> device_add_user E rec (UMain i) dev w;
           case dev of
             None \<Rightarrow> interface_set_link_state E rec i False w
           | Some d \<Rightarrow> do {
               (ret, w) \<leftarrow> (if claimed then device_claim E rec (UL3 i) w else Some (0, w));
               if ret < 0 then Some w
               else if l3_device (w_ifs w i) = None then interface_set_l3_dev E rec i (Some d) w
               else Some w
             }
         })"

section \<open>Callbacks of the device registrations\<close>

definition interface_ext_dev_cb ::
  "world_env \<Rightarrow> rec \<Rightarrow> ifid \<Rightarrow> device_event \<Rightarrow> world \<Rightarrow> world option" where
  "interface_ext_dev_cb E rec i ev w =
     (if ev = DEV_EVENT_REMOVE then device_remove_user E rec (UExt i) w else Some w)"

definition interface_main_dev_cb ::
  "world_env \<Rightarrow> rec \<Rightarrow> ifid \<Rightarrow> device_event \<Rightarrow> world \<Rightarrow> world option" where
  "interface_main_dev_cb E rec i ev w =
     (let dev = du_dev (if_main_dev (w_ifs w i));
          link = (case dev of None \<Rightarrow> None
                            | Some d \<Rightarrow> interface_set_link_state E rec i (device_link_active (w_devs w d)) w)
      in case ev of
           DEV_EVENT_ADD \<Rightarrow> interface_set_available E rec i True w
         | DEV_EVENT_REMOVE \<Rightarrow> do {
             w \<leftarrow> interface_set_available E rec i False w;
             (case du_dev (if_main_dev (w_ifs w i)) of
                Some d \<Rightarrow> if dv_external (w_devs w d) then interface_set_main_dev E rec i None w
                          else Some w
              | None \<Rightarrow> Some w)
           }
         | DEV_EVENT_UP \<Rightarrow> interface_set_enabled E rec i True w
         | DEV_EVENT_DOWN \<Rightarrow> interface_set_enabled E rec i False w
         | DEV_EVENT_AUTH_UP \<Rightarrow> link
         | DEV_EVENT_LINK_UP \<Rightarrow> link
         | DEV_EVENT_LINK_DOWN \<Rightarrow> link
         | DEV_EVENT_TOPO_CHANGE \<Rightarrow> map_option snd (interface_proto_event rec i PROTO_CMD_RENEW False w)
         | _ \<Rightarrow> Some w)"

definition interface_l3_dev_cb :: "rec \<Rightarrow> ifid \<Rightarrow> device_event \<Rightarrow> world \<Rightarrow> world option" where
  "interface_l3_dev_cb rec i ev w =
     (let iface = w_ifs w i
      in if l3_device iface = du_dev (if_main_dev iface) then Some w
         else if ev = DEV_EVENT_LINK_DOWN
                 \<and> has_flag (ph_flags (if_proto_handler iface)) PROTO_FLAG_TEARDOWN_ON_L3_LINK_DOWN
         then map_option snd (interface_proto_event rec i PROTO_CMD_TEARDOWN False w)
         else Some w)"

end
