(* ===== verification/InterfaceLife.thy ===== *)
theory InterfaceLife
  imports Interface
begin

text \<open>
  The life of an interface, \<open>src/interface.c\<close>: users and alias interfaces, claiming a device, protocol
  events, reloading and freeing, links, starting and stopping; and from \<open>src/proto.c\<close> and the files of
  the protocols (\<open>src/proto-*.c\<close>) attaching and freeing a protocol. Status codes of ubus are numbers: 2 for an invalid argument, 4 for not found, 8
  for not supported.
\<close>

unbundle bit_operations_syntax

section \<open>Interface users\<close>

definition interface_add_user :: "rec \<Rightarrow> if_user \<Rightarrow> ifid option \<Rightarrow> world \<Rightarrow> world option" where
  "interface_add_user rec dep iface w =
     (case iface of
        None \<Rightarrow> Some (w\<lparr>w_allusers := dep # w_allusers w\<rparr>)
      | Some i \<Rightarrow>
          let w = set_user_iface dep (Some i) w;
              w = w\<lparr>w_ifusers := (w_ifusers w)(i := dep # w_ifusers w i)\<rparr>
          in if if_state (w_ifs w i) = IFS_UP then call_void rec (CIfUser dep i IFEV_UP) w else Some w)"

definition interface_remove_user :: "if_user \<Rightarrow> world \<Rightarrow> world" where
  "interface_remove_user dep w =
     (let w = w\<lparr>w_ifusers := (\<lambda>i. removeAll dep (w_ifusers w i)), w_allusers := removeAll dep (w_allusers w)\<rparr>
      in set_user_iface dep None w)"

text \<open>\<open>a\<close> is the alias, \<open>i\<close> the interface the event is about.\<close>

definition interface_alias_cb ::
  "world_env \<Rightarrow> rec \<Rightarrow> ifid \<Rightarrow> ifid \<Rightarrow> interface_event \<Rightarrow> world \<Rightarrow> world option" where
  "interface_alias_cb E rec a i ev w =
     (let dev = l3_device (w_ifs w i);
          gone = do {
            w \<leftarrow> interface_set_available E rec a False w;
            interface_set_main_dev E rec a None w
          }
      in case ev of
           IFEV_UP \<Rightarrow>
             if dev = None then Some w
             else do {
               w \<leftarrow> interface_set_main_dev E rec a dev w;
               interface_set_available E rec a True w
             }
         | IFEV_DOWN \<Rightarrow> gone
         | IFEV_UP_FAILED \<Rightarrow> gone
         | IFEV_FREE \<Rightarrow> Some (interface_remove_user (AliasUser a) w)
         | _ \<Rightarrow> Some w)"

section \<open>Attaching a protocol\<close>

definition no_proto :: proto_handler where
  "no_proto = \<lparr>ph_flags = PROTO_FLAG_IMMEDIATE, ph_name = ''none'', ph_config_params = False,
     ph_attach = DefaultAttach\<rparr>"

definition static_proto :: proto_handler where
  "static_proto = \<lparr>ph_flags = PROTO_FLAG_IMMEDIATE OR PROTO_FLAG_FORCE_LINK_DEFAULT,
                   ph_name = ''static'', ph_config_params = True, ph_attach = StaticAttach\<rparr>"

definition get_proto_handler :: "(string \<Rightarrow> proto_handler option) \<Rightarrow> string \<Rightarrow> proto_handler option" where
  "get_proto_handler handlers name =
     (if name = ''none'' then Some no_proto
      else if name = ''static'' then Some static_proto
      else handlers name)"

definition proto_attach_interface ::
  "(string \<Rightarrow> proto_handler option) \<Rightarrow> string option \<Rightarrow> interface \<Rightarrow> interface" where
  "proto_attach_interface handlers proto_name iface =
     (case proto_name of
        None \<Rightarrow> iface\<lparr>if_proto_handler := no_proto\<rparr>
      | Some n \<Rightarrow>
          (case get_proto_handler handlers n of
             Some h \<Rightarrow> iface\<lparr>if_proto_handler := h\<rparr>
           | None \<Rightarrow> interface_add_error (Some ''proto'') (Some ''INVALID_PROTO'') []
                       (iface\<lparr>if_proto_handler := no_proto\<rparr>)))"

text \<open>
  The \<open>attach\<close> methods of the handlers. A protocol with a state of its own takes the next
  identifier for it, unless there is no memory. The interface of the state, which
  \<open>interface_set_proto_state\<close> enters right afterwards, is set here.
\<close>

definition default_proto_attach :: "proto_handler \<Rightarrow> interface_proto_state option" where
  "default_proto_attach h = Some \<lparr>ps_handler = h, ps_cb = NoProtoHandler, ps_config = None\<rparr>"

definition static_attach :: "proto_handler \<Rightarrow> blob option \<Rightarrow> interface_proto_state option" where
  "static_attach h attr = Some \<lparr>ps_handler = h, ps_cb = StaticHandler, ps_config = attr\<rparr>"

definition proto_shell_checkup_attach :: "world_env \<Rightarrow> blob option \<Rightarrow> proto_shell_state \<Rightarrow> proto_shell_state" where
  "proto_shell_checkup_attach E attr state =
     (case we_checkup E attr of
        None \<Rightarrow> state\<lparr>sh_checkup_interval := -1\<rparr>
      | Some v \<Rightarrow> state\<lparr>sh_checkup_interval := c_int v\<rparr>)"

definition proto_shell_attach ::
  "world_env \<Rightarrow> proto_handler \<Rightarrow> string \<Rightarrow> ifid \<Rightarrow> blob option \<Rightarrow> world \<Rightarrow> interface_proto_state option \<times> world" where
  "proto_shell_attach E h script i attr w =
     (let s = w_next_proto w;
          state = proto_shell_checkup_attach E attr
                    (zero_shell_state\<lparr>sh_iface := i, sh_handler := h, sh_script_name := script,
                                      sh_config := attr\<rparr>)
      in if \<not> we_proto_attach E (ph_name h) (w_ifs w i) then (None, w)
         else (Some \<lparr>ps_handler = h, ps_cb = ShellHandler s, ps_config = attr\<rparr>,
               upd_shell s (\<lambda>_. state) (w\<lparr>w_next_proto := s + 1\<rparr>)))"

definition udhcp_attach ::
  "world_env \<Rightarrow> proto_handler \<Rightarrow> ifid \<Rightarrow> blob option \<Rightarrow> world \<Rightarrow> interface_proto_state option \<times> world" where
  "udhcp_attach E h i attr w =
     (let s = w_next_proto w;
          state = zero_dhcp_state\<lparr>dh_iface := i, dh_config := attr, dh_dhcpv6 := (ph_name h = ''udhcp6'')\<rparr>
      in if \<not> we_proto_attach E (ph_name h) (w_ifs w i) then (None, w)
         else (Some \<lparr>ps_handler = h, ps_cb = UdhcpHandler s, ps_config = attr\<rparr>,
               upd_udhcp s (\<lambda>_. state) (w\<lparr>w_next_proto := s + 1\<rparr>)))"

definition isc_dhcp_attach ::
  "world_env \<Rightarrow> proto_handler \<Rightarrow> ifid \<Rightarrow> blob option \<Rightarrow> world \<Rightarrow> interface_proto_state option \<times> world" where
  "isc_dhcp_attach E h i attr w =
     (let s = w_next_proto w;
          state = zero_isc_state\<lparr>ic_iface := i, ic_config := attr, ic_dhcpv6 := (ph_name h = ''isc-dhcp6'')\<rparr>
      in if \<not> we_proto_attach E (ph_name h) (w_ifs w i) then (None, w)
         else (Some \<lparr>ps_handler = h, ps_cb = IscDhcpHandler s, ps_config = attr\<rparr>,
               upd_isc s (\<lambda>_. state) (w\<lparr>w_next_proto := s + 1\<rparr>)))"

definition zcip_attach ::
  "world_env \<Rightarrow> proto_handler \<Rightarrow> ifid \<Rightarrow> blob option \<Rightarrow> world \<Rightarrow> interface_proto_state option \<times> world" where
  "zcip_attach E h i attr w =
     (let s = w_next_proto w;
          state = zero_zcip_state\<lparr>zc_iface := i, zc_config := attr\<rparr>
      in if \<not> we_proto_attach E (ph_name h) (w_ifs w i) then (None, w)
         else (Some \<lparr>ps_handler = h, ps_cb = ZcipHandler s, ps_config = attr\<rparr>,
               upd_zcip s (\<lambda>_. state) (w\<lparr>w_next_proto := s + 1\<rparr>)))"

definition proto_attach ::
  "world_env \<Rightarrow> ifid \<Rightarrow> blob option \<Rightarrow> world \<Rightarrow> interface_proto_state option \<times> world" where
  "proto_attach E i attr w =
     (let h = if_proto_handler (w_ifs w i)
      in case ph_attach h of
           DefaultAttach \<Rightarrow> (default_proto_attach h, w)
         | StaticAttach \<Rightarrow> (static_attach h attr, w)
         | ShellAttach script \<Rightarrow> proto_shell_attach E h script i attr w
         | UdhcpAttach \<Rightarrow> udhcp_attach E h i attr w
         | IscDhcpAttach \<Rightarrow> isc_dhcp_attach E h i attr w
         | ZcipAttach \<Rightarrow> zcip_attach E h i attr w)"

text \<open>
  The \<open>free\<close> methods. A shell protocol stops its timers, forgets its dependencies and kills its
  processes; the states of the DHCP and the zero-configuration protocol are just freed.
\<close>

definition proto_shell_clear_host_dep :: "psid \<Rightarrow> world \<Rightarrow> world" where
  "proto_shell_clear_host_dep s w =
     upd_shell s (\<lambda>x. x\<lparr>sh_deps := []\<rparr>)
       (fold (\<lambda>k. interface_remove_user (ShellDep k)) (sh_deps (w_shell w s)) w)"

definition proto_shell_free :: "psid \<Rightarrow> world \<Rightarrow> world" where
  "proto_shell_free s w =
     (let w = upd_shell s (\<lambda>x. x\<lparr>sh_freed := True, sh_teardown_timeout := None, sh_checkup_timeout := None\<rparr>) w;
          w = proto_shell_clear_host_dep s w;
          w = netifd_kill_process (ScriptTask s) w
      in netifd_kill_process (ProtoTask s) w)"

definition udhcp_free :: "psid \<Rightarrow> world \<Rightarrow> world" where
  "udhcp_free s w = upd_udhcp s (\<lambda>x. x\<lparr>dh_freed := True\<rparr>) w"

definition isc_dhcp_free :: "psid \<Rightarrow> world \<Rightarrow> world" where
  "isc_dhcp_free s w = upd_isc s (\<lambda>x. x\<lparr>ic_freed := True\<rparr>) w"

definition zcip_free :: "psid \<Rightarrow> world \<Rightarrow> world" where
  "zcip_free s w = upd_zcip s (\<lambda>x. x\<lparr>zc_freed := True\<rparr>) w"

definition proto_free :: "proto_cb \<Rightarrow> world \<Rightarrow> world" where
  "proto_free cb w =
     (case cb of
        ShellHandler s \<Rightarrow> proto_shell_free s w
      | UdhcpHandler s \<Rightarrow> udhcp_free s w
      | IscDhcpHandler s \<Rightarrow> isc_dhcp_free s w
      | ZcipHandler s \<Rightarrow> zcip_free s w
      | _ \<Rightarrow> w)"

definition interface_set_proto_state :: "ifid \<Rightarrow> interface_proto_state option \<Rightarrow> world \<Rightarrow> world" where
  "interface_set_proto_state i state w =
     (let w = (case if_proto (w_ifs w i) of None \<Rightarrow> w | Some p \<Rightarrow> proto_free (ps_cb p) w)
      in upd_if i (\<lambda>f. f\<lparr>if_proto := state\<rparr>) (set_state i IFS_DOWN (emit (OutProtoState i) w)))"

definition proto_init_interface :: "world_env \<Rightarrow> ifid \<Rightarrow> blob option \<Rightarrow> world \<Rightarrow> world" where
  "proto_init_interface E i attr w =
     (let h = if_proto_handler (w_ifs w i);
          (state, w) = proto_attach E i attr w;
          state = (case state of
                     Some s \<Rightarrow> s
                   | None \<Rightarrow> \<lparr>ps_handler = no_proto, ps_cb = InvalidProtoHandler, ps_config = None\<rparr>)
      in interface_set_proto_state i (Some (state\<lparr>ps_handler := h\<rparr>)) w)"

section \<open>Claiming a device\<close>

definition interface_set_device_config ::
  "world_env \<Rightarrow> rec \<Rightarrow> ifid \<Rightarrow> did option \<Rightarrow> world \<Rightarrow> world option" where
  "interface_set_device_config E rec i dev w =
     (case dev of
        None \<Rightarrow> Some w
      | Some d \<Rightarrow>
          let iface = w_ifs w i; x = w_devs w d
          in if \<not> dv_default_config x
                \<or> (\<not> if_device_config iface \<and> (\<not> dv_iface_config x \<or> dv_config_iface x \<noteq> Some i))
             then Some w
             else let w = upd_dev d (\<lambda>x. x\<lparr>dv_config_iface := Some i,
                                            dv_iface_config := if_device_config iface\<rparr>) w
                  in map_option snd (device_apply_config E rec d (dv_type x) (if_config iface) w))"

definition interface_claim_device :: "world_env \<Rightarrow> rec \<Rightarrow> ifid \<Rightarrow> world \<Rightarrow> world option" where
  "interface_claim_device E rec i w = do {
     let w = (if if_parent_iface (w_ifs w i) \<noteq> None then interface_remove_user (AliasUser i) w else w);
     let iface = w_ifs w i;
     (dev, w) \<leftarrow>
       (case if_parent_ifname iface of
          Some pn \<Rightarrow> do {
            w \<leftarrow> interface_add_user rec (AliasUser i) (find_interface w pn) w;
            Some (None, w)
          }
        | None \<Rightarrow>
            (case if_device iface of
               Some name \<Rightarrow>
                 if \<not> has_flag (ph_flags (if_proto_handler iface)) PROTO_FLAG_NODEV then do {
                   (dev, w) \<leftarrow> device_get E rec name 1 w;
                   w \<leftarrow> interface_set_device_config E rec i dev w;
                   Some (dev, w)
                 }
                 else Some (du_dev (if_ext_dev iface), w)
             | None \<Rightarrow> Some (du_dev (if_ext_dev iface), w)));
     w \<leftarrow> (if dev \<noteq> None then interface_set_main_dev E rec i dev w else Some w);
     if has_flag (ph_flags (if_proto_handler (w_ifs w i))) PROTO_FLAG_INIT_AVAILABLE
     then interface_set_available E rec i True w else Some w
   }"

section \<open>Cleaning up, reloading, freeing\<close>

definition interface_cleanup_state :: "world_env \<Rightarrow> rec \<Rightarrow> ifid \<Rightarrow> world \<Rightarrow> world option" where
  "interface_cleanup_state E rec i w = do {
     w \<leftarrow> interface_set_available E rec i False w;
     w \<leftarrow> interface_flush_state E rec i w;
     let w = interface_set_proto_state i None (upd_if i interface_clear_errors w);
     w \<leftarrow> interface_set_main_dev E rec i None w;
     interface_set_l3_dev E rec i None w
   }"

definition interface_cleanup :: "world_env \<Rightarrow> rec \<Rightarrow> ifid \<Rightarrow> world \<Rightarrow> world option" where
  "interface_cleanup E rec i w = do {
     let w = upd_if i (\<lambda>f. f\<lparr>if_remove_timer := map_option (\<lambda>_. False) (if_remove_timer f)\<rparr>) w;
     w \<leftarrow> device_remove_user E rec (UExt i) w;
     let w = (if if_parent_iface (w_ifs w i) \<noteq> None then interface_remove_user (AliasUser i) w else w);
     let w = fold interface_remove_user (w_ifusers w i) w;
     let w = upd_if i (\<lambda>f. f\<lparr>if_assignment_classes := []\<rparr>) w;
     interface_cleanup_state E rec i (interface_ip_flush E i ConfigIp w)
   }"

definition interface_do_free :: "world_env \<Rightarrow> rec \<Rightarrow> ifid \<Rightarrow> world \<Rightarrow> world option" where
  "interface_do_free E rec i w = do {
     w \<leftarrow> interface_event E rec i IFEV_FREE w;
     w \<leftarrow> interface_cleanup E rec i w;
     let w = emit (OutUbusRemove i) w;
     Some (emit (OutFreeInterface i) (w\<lparr>w_iflist := removeAll i (w_iflist w)\<rparr>))
   }"

definition interface_do_reload :: "world_env \<Rightarrow> rec \<Rightarrow> ifid \<Rightarrow> world \<Rightarrow> world option" where
  "interface_do_reload E rec i w = do {
     w \<leftarrow> interface_event E rec i IFEV_RELOAD w;
     w \<leftarrow> interface_cleanup_state E rec i w;
     interface_claim_device E rec i (proto_init_interface E i (if_config (w_ifs w i)) w)
   }"

definition interface_handle_config_change :: "world_env \<Rightarrow> rec \<Rightarrow> ifid \<Rightarrow> world \<Rightarrow> world option" where
  "interface_handle_config_change E rec i w =
     (let state = if_config_state (w_ifs w i); w = set_config_state_field i IFC_NORMAL w
      in if state = IFC_REMOVE then interface_do_free E rec i w
         else do {
           w \<leftarrow> (if state = IFC_RELOAD then interface_do_reload E rec i w else Some w);
           if if_autostart (w_ifs w i) then interface_set_up E rec i w else Some w
         })"

section \<open>Protocol events\<close>

definition proto_event_up :: "world_env \<Rightarrow> rec \<Rightarrow> ifid \<Rightarrow> world \<Rightarrow> world option" where
  "proto_event_up E rec i w = do {
     w \<leftarrow> (if l3_device (w_ifs w i) = None
          then interface_set_l3_dev E rec i (du_dev (if_main_dev (w_ifs w i))) w else Some w);
     let w = interface_ip_set_enabled E i ProtoIp True (interface_ip_set_enabled E i ConfigIp True w);
     let w = set_state i IFS_UP (klog_do KFlushRoutes w);
     interface_event E rec i IFEV_UP (upd_if i (\<lambda>f. f\<lparr>if_start_time := se_rtime (we_sys E)\<rparr>) w)
   }"

definition proto_event_down :: "world_env \<Rightarrow> rec \<Rightarrow> ifid \<Rightarrow> world \<Rightarrow> world option" where
  "proto_event_down E rec i w = do {
     w \<leftarrow> mark_interface_down E rec i w;
     w \<leftarrow> (if du_dev (if_main_dev (w_ifs w i)) \<noteq> None then device_release E rec (UMain i) w else Some w);
     w \<leftarrow> (if l3_device (w_ifs w i) \<noteq> None then device_remove_user E rec (UL3 i) w else Some w);
     interface_handle_config_change E rec i w
   }"

definition interface_proto_event_cb ::
  "world_env \<Rightarrow> rec \<Rightarrow> ifid \<Rightarrow> interface_proto_event \<Rightarrow> world \<Rightarrow> world option" where
  "interface_proto_event_cb E rec i ev w =
     (let state = if_state (w_ifs w i);
          write_resolv_conf = (\<lambda>w. emit (OutResolvConf (if_jail (w_ifs w i))) w)
      in case ev of
           IFPEV_UP \<Rightarrow>
             if state \<noteq> IFS_SETUP then
               (if state = IFS_UP \<and> if_updated (w_ifs w i) \<noteq> 0 then interface_event E rec i IFEV_UPDATE w
                else Some w)
             else map_option write_resolv_conf (proto_event_up E rec i w)
         | IFPEV_DOWN \<Rightarrow>
             if state = IFS_DOWN then Some w
             else map_option write_resolv_conf (proto_event_down E rec i w)
         | IFPEV_LINK_LOST \<Rightarrow>
             if state \<noteq> IFS_UP then Some w
             else do {
               w \<leftarrow> mark_interface_down E rec i (emit (OutLostConnection i) w);
               Some (write_resolv_conf (set_state i IFS_SETUP w))
             }
         | IFPEV_RENEW \<Rightarrow> Some w)"

section \<open>Links\<close>

definition interface_remove_link ::
  "world_env \<Rightarrow> rec \<Rightarrow> ifid \<Rightarrow> did \<Rightarrow> vlan_list \<Rightarrow> world \<Rightarrow> (int \<times> world) option" where
  "interface_remove_link E rec i d vlan w =
     (let plain = do {
            w \<leftarrow> (if du_dev (if_ext_dev (w_ifs w i)) = Some d then device_remove_user E rec (UExt i) w
                 else Some w);
            if \<not> du_hotplug (if_main_dev (w_ifs w i)) \<or> du_dev (if_main_dev (w_ifs w i)) \<noteq> Some d
            then Some (2, w)
            else do { w \<leftarrow> interface_set_main_dev E rec i None w; Some (0, w) }
          }
      in case du_dev (if_main_dev (w_ifs w i)) of
           Some m \<Rightarrow> if dv_hotplug_ops (w_devs w m) \<noteq> None then rec (CHotplug m d vlan False) w else plain
         | None \<Rightarrow> plain)"

definition interface_add_link ::
  "world_env \<Rightarrow> rec \<Rightarrow> ifid \<Rightarrow> did \<Rightarrow> vlan_list \<Rightarrow> bool \<Rightarrow> world \<Rightarrow> (int \<times> world) option" where
  "interface_add_link E rec i d vlan link_ext w =
     (let mdev = du_dev (if_main_dev (w_ifs w i))
      in if mdev = Some d then Some (0, w)
         else do {
           w \<leftarrow> (if du_hotplug (if_main_dev (w_ifs w i)) then device_remove_user E rec (UMain i) w
                else Some w);
           case mdev of
             Some m \<Rightarrow> if dv_hotplug_ops (w_devs w m) \<noteq> None then rec (CHotplug m d vlan True) w
                       else Some (8, w)
           | None \<Rightarrow> do {
               w \<leftarrow> (if link_ext then device_add_user E rec (UExt i) (Some d) w else Some w);
               w \<leftarrow> interface_set_main_dev E rec i (Some d) w;
               Some (0, upd_user (UMain i) (\<lambda>u. u\<lparr>du_hotplug := True\<rparr>) w)
             }
         })"

definition interface_handle_link ::
  "world_env \<Rightarrow> rec \<Rightarrow> ifid \<Rightarrow> string \<Rightarrow> vlan_list \<Rightarrow> bool \<Rightarrow> bool \<Rightarrow> world \<Rightarrow> (int \<times> world) option" where
  "interface_handle_link E rec i name vlan add link_ext w = do {
     (dev, w) \<leftarrow> device_get E rec name (if add then if link_ext then 2 else 1 else 0) w;
     case dev of
       None \<Rightarrow> Some (4, w)
     | Some d \<Rightarrow>
         if \<not> add then interface_remove_link E rec i d vlan w
         else do {
           w \<leftarrow> interface_set_device_config E rec i (Some d) w;
           w \<leftarrow> (if \<not> link_ext then device_set_present E rec d True w else Some w);
           interface_add_link E rec i d vlan link_ext w
         }
   }"

section \<open>Starting and stopping\<close>

definition interface_set_down :: "world_env \<Rightarrow> rec \<Rightarrow> ifid \<Rightarrow> world \<Rightarrow> world option" where
  "interface_set_down E rec i w =
     do_set_down E rec i False (upd_if i (\<lambda>f. f\<lparr>if_autostart := False\<rparr>) w)"

fun each_interface :: "(ifid \<Rightarrow> world \<Rightarrow> world option) \<Rightarrow> ifid list \<Rightarrow> world \<Rightarrow> world option" where
  "each_interface f [] w = Some w"
| "each_interface f (i # is) w = do { w \<leftarrow> f i w; each_interface f is w }"

text \<open>\<open>interface_set_down(NULL)\<close> leaves the autostart flags alone.\<close>

definition interface_set_down_all :: "world_env \<Rightarrow> rec \<Rightarrow> world \<Rightarrow> world option" where
  "interface_set_down_all E rec w = each_interface (\<lambda>i. do_set_down E rec i False) (w_iflist w) w"

definition interface_start_pending :: "world_env \<Rightarrow> rec \<Rightarrow> world \<Rightarrow> world option" where
  "interface_start_pending E rec w =
     each_interface (\<lambda>i w. if if_autostart (w_ifs w i) then interface_set_up E rec i w else Some w)
       (w_iflist w) w"

definition interface_renew :: "rec \<Rightarrow> ifid \<Rightarrow> world \<Rightarrow> (int \<times> world) option" where
  "interface_renew rec i w =
     (if if_state (w_ifs w i) = IFS_TEARDOWN \<or> if_state (w_ifs w i) = IFS_DOWN then Some (-1, w)
      else interface_proto_event rec i PROTO_CMD_RENEW False w)"

definition set_config_state ::
  "world_env \<Rightarrow> rec \<Rightarrow> ifid \<Rightarrow> interface_config_state \<Rightarrow> world \<Rightarrow> world option" where
  "set_config_state E rec i s w =
     (let w = set_config_state_field i s w
      in if if_state (w_ifs w i) = IFS_DOWN then interface_handle_config_change E rec i w
         else do_set_down E rec i False w)"

end
