(* ===== verification/ProtoConfig.thy ===== *)
theory ProtoConfig
  imports InterfaceLife
begin

text \<open>
  Addresses, gateways and delegated prefixes from the options of a protocol, \<open>src/proto.c\<close>, and
  the handler of the static protocol, \<open>src/proto-static.c\<close>. The attribute tables come parsed;
  an array is the list of its elements.
\<close>

unbundle bit_operations_syntax

fun proto_ip_attributes :: "proto_opt \<Rightarrow> string \<times> blobmsg_type" where
  "proto_ip_attributes OPT_IPADDR = (''ipaddr'', BLOBMSG_TYPE_ARRAY)"
| "proto_ip_attributes OPT_IP6ADDR = (''ip6addr'', BLOBMSG_TYPE_ARRAY)"
| "proto_ip_attributes OPT_NETMASK = (''netmask'', BLOBMSG_TYPE_STRING)"
| "proto_ip_attributes OPT_BROADCAST = (''broadcast'', BLOBMSG_TYPE_STRING)"
| "proto_ip_attributes OPT_PTPADDR = (''ptpaddr'', BLOBMSG_TYPE_STRING)"
| "proto_ip_attributes OPT_GATEWAY = (''gateway'', BLOBMSG_TYPE_STRING)"
| "proto_ip_attributes OPT_IP6GW = (''ip6gw'', BLOBMSG_TYPE_STRING)"
| "proto_ip_attributes OPT_IP6PREFIX = (''ip6prefix'', BLOBMSG_TYPE_ARRAY)"
| "proto_ip_attributes OPT_IP6DEPRECATED = (''ip6deprecated'', BLOBMSG_TYPE_BOOL)"

fun proto_ip_addr :: "addr_attr \<Rightarrow> string \<times> blobmsg_type" where
  "proto_ip_addr ADDR_IPADDR = (''ipaddr'', BLOBMSG_TYPE_STRING)"
| "proto_ip_addr ADDR_MASK = (''mask'', BLOBMSG_TYPE_STRING)"
| "proto_ip_addr ADDR_BROADCAST = (''broadcast'', BLOBMSG_TYPE_STRING)"
| "proto_ip_addr ADDR_PTP = (''ptp'', BLOBMSG_TYPE_STRING)"
| "proto_ip_addr ADDR_PREFERRED = (''preferred'', BLOBMSG_TYPE_INT32)"
| "proto_ip_addr ADDR_VALID = (''valid'', BLOBMSG_TYPE_INT32)"
| "proto_ip_addr ADDR_OFFLINK = (''offlink'', BLOBMSG_TYPE_BOOL)"
| "proto_ip_addr ADDR_CLASS = (''class'', BLOBMSG_TYPE_STRING)"
| "proto_ip_addr ADDR_SCOPE = (''scope'', BLOBMSG_TYPE_STRING)"

section \<open>Addresses\<close>

definition alloc_device_addr :: "bool \<Rightarrow> bool \<Rightarrow> device_addr" where
  "alloc_device_addr v6 ext =
     zero_device_addr\<lparr>ad_flags := v6_flag v6 OR (if ext then DEVADDR_EXTERNAL else 0)\<rparr>"

definition parse_addr ::
  "parse_env \<Rightarrow> string \<Rightarrow> bool \<Rightarrow> u32 \<Rightarrow> bool \<Rightarrow> u32 \<Rightarrow> u32 \<Rightarrow> bool \<Rightarrow> device_addr option" where
  "parse_addr P str v6 plen ext broadcast ptp deprecated =
     (let addr = alloc_device_addr v6 ext
      in case parse_ip_and_netmask (pe_inet_aton P) (pe_inet_pton P) v6 str (ad_addr addr) plen of
           None \<Rightarrow> None
         | Some (a, m) \<Rightarrow>
             if v6 \<and> a ! 0 = 0xff then None
             else let addr = addr\<lparr>ad_addr := a, ad_mask := m\<rparr>;
                      addr = (if broadcast \<noteq> 0 then addr\<lparr>ad_broadcast := broadcast\<rparr> else addr);
                      addr = (if ptp \<noteq> 0 then addr\<lparr>ad_point_to_point := ptp\<rparr> else addr)
                  in Some (if deprecated then addr\<lparr>ad_preferred_until := pe_rtime P\<rparr> else addr))"

definition proto_error :: "ifid \<Rightarrow> string \<Rightarrow> string list \<Rightarrow> world \<Rightarrow> world" where
  "proto_error i code data = upd_if i (interface_add_error (Some ''proto'') (Some code) data)"

text \<open>The number of addresses so far is the index of the next one; the result is -1 on an error.\<close>

fun parse_static_address_option ::
  "world_env \<Rightarrow> ifid \<Rightarrow> bool \<Rightarrow> u32 \<Rightarrow> bool \<Rightarrow> u32 \<Rightarrow> u32 \<Rightarrow> bool \<Rightarrow> int \<Rightarrow> proto_item list \<Rightarrow> world \<Rightarrow>
   int \<times> world" where
  "parse_static_address_option E i v6 plen ext broadcast ptp deprecated n_addr [] w = (n_addr, w)"
| "parse_static_address_option E i v6 plen ext broadcast ptp deprecated n_addr (cur # rest) w =
     (case cur of
        ItemString str \<Rightarrow>
          (case parse_addr (we_parse E) str v6 plen ext broadcast ptp deprecated of
             None \<Rightarrow> (-1, proto_error i ''INVALID_ADDRESS'' [str] w)
           | Some addr \<Rightarrow>
               parse_static_address_option E i v6 plen ext broadcast ptp deprecated (n_addr + 1) rest
                 (ip_add_addr E i (addr\<lparr>ad_index := n_addr\<rparr>) w))
      | _ \<Rightarrow> (-1, w))"

text \<open>A lifetime of \<open>0xffffffff\<close> seconds is for ever; \<open>LONG_MAX\<close> bounds the absolute time.\<close>

definition lifetime_until :: "int \<Rightarrow> u32 \<Rightarrow> int option" where
  "lifetime_until now v =
     (if int (unat v) + now \<le> 2 ^ 63 - 1 \<and> v \<noteq> 0xffffffff then Some (int (unat v) + now) else None)"

definition parse_item_mask :: "parse_env \<Rightarrow> addr_attr attr_tb \<Rightarrow> bool \<Rightarrow> u32 option" where
  "parse_item_mask P tb v6 =
     (case attr_string tb ADDR_MASK of
        None \<Rightarrow> Some (max_plen v6)
      | Some s \<Rightarrow> let new_mask = parse_netmask_string (pe_inet_aton P) s v6
                  in if new_mask > max_plen v6 then None else Some new_mask)"

definition parse_item_v4 :: "parse_env \<Rightarrow> addr_attr attr_tb \<Rightarrow> device_addr \<Rightarrow> device_addr option" where
  "parse_item_v4 P tb addr = do {
     addr \<leftarrow> (case attr_string tb ADDR_BROADCAST of
               None \<Rightarrow> Some addr
             | Some s \<Rightarrow> map_option (\<lambda>bs. addr\<lparr>ad_broadcast := in_s_addr bs\<rparr>) (pe_inet_pton P False s));
     (case attr_string tb ADDR_PTP of
        None \<Rightarrow> Some addr
      | Some s \<Rightarrow> map_option (\<lambda>bs. addr\<lparr>ad_point_to_point := in_s_addr bs\<rparr>) (pe_inet_pton P False s))
   }"

definition parse_item_v6 :: "parse_env \<Rightarrow> addr_attr attr_tb \<Rightarrow> device_addr \<Rightarrow> device_addr option" where
  "parse_item_v6 P tb addr =
     (let addr = (case Option.bind (attr_u32 tb ADDR_PREFERRED) (lifetime_until (pe_rtime P)) of
                    None \<Rightarrow> addr | Some t \<Rightarrow> addr\<lparr>ad_preferred_until := t\<rparr>);
          addr = (case Option.bind (attr_u32 tb ADDR_VALID) (lifetime_until (pe_rtime P)) of
                    None \<Rightarrow> addr | Some t \<Rightarrow> addr\<lparr>ad_valid_until := t\<rparr>);
          pclass = (\<lambda>a. case attr_string tb ADDR_CLASS of None \<Rightarrow> a | Some c \<Rightarrow> a\<lparr>ad_pclass := Some c\<rparr>)
      in if ad_valid_until addr = 0 then Some (pclass addr)
         else if ad_preferred_until addr = 0
         then Some (pclass (addr\<lparr>ad_preferred_until := ad_valid_until addr\<rparr>))
         else if ad_preferred_until addr > ad_valid_until addr then None
         else Some (pclass addr))"

definition parse_address_item :: "parse_env \<Rightarrow> proto_item \<Rightarrow> bool \<Rightarrow> bool \<Rightarrow> device_addr option" where
  "parse_address_item P attr v6 ext =
     (case attr of
        ItemTable tb \<Rightarrow> do {
          m \<leftarrow> parse_item_mask P tb v6;
          ipaddr \<leftarrow> attr_string tb ADDR_IPADDR;
          bs \<leftarrow> pe_inet_pton P v6 ipaddr;
          let addr = alloc_device_addr v6 ext;
          let addr = addr\<lparr>ad_mask := m, ad_is_scope_link := (attr_string tb ADDR_SCOPE = Some ''link''),
                          ad_addr := store_bytes bs (ad_addr addr)\<rparr>;
          let addr = (if attr_bool tb ADDR_OFFLINK = Some True
                      then addr\<lparr>ad_flags := ad_flags addr OR DEVADDR_OFFLINK\<rparr> else addr);
          if v6 then parse_item_v6 P tb addr else parse_item_v4 P tb addr
        }
      | _ \<Rightarrow> None)"

fun parse_address_list ::
  "world_env \<Rightarrow> ifid \<Rightarrow> bool \<Rightarrow> bool \<Rightarrow> int \<Rightarrow> proto_item list \<Rightarrow> world \<Rightarrow> int \<times> world" where
  "parse_address_list E i v6 ext n_addr [] w = (n_addr, w)"
| "parse_address_list E i v6 ext n_addr (cur # rest) w =
     (case parse_address_item (we_parse E) cur v6 ext of
        None \<Rightarrow> (-1, w)
      | Some addr \<Rightarrow> parse_address_list E i v6 ext (n_addr + 1) rest
                       (ip_add_addr E i (addr\<lparr>ad_index := n_addr\<rparr>) w))"

section \<open>Gateways\<close>

definition parse_gateway_option :: "world_env \<Rightarrow> ifid \<Rightarrow> string \<Rightarrow> bool \<Rightarrow> world \<Rightarrow> bool \<times> world" where
  "parse_gateway_option E i str v6 w =
     (case pe_inet_pton (we_parse E) v6 str of
        None \<Rightarrow> (False, proto_error i ''INVALID_GATEWAY'' [str] w)
      | Some bs \<Rightarrow>
          let iface = w_ifs w i;
              table = (if v6 then if_ip6table iface else if_ip4table iface);
              route = zero_route\<lparr>rt_nexthop := store_bytes bs zero_addr, rt_mask := 0,
                        rt_flags := v6_flag v6, rt_metric := if_metric iface\<rparr>;
              route = (if table \<noteq> 0
                       then route\<lparr>rt_table := table, rt_flags := rt_flags route OR DEVROUTE_SRCTABLE\<rparr>
                       else route)
          in (True, ip_add_route E i ProtoIp route w))"

section \<open>Delegated prefixes\<close>

lemma strtok_shorter:
  assumes "strtok d s = Some (t, r)"
  shows "length r < length s"
proof -
  define u where "u = dropWhile (\<lambda>c. c = d) s"
  have ne: "u \<noteq> []" and r: "r = tl (dropWhile (\<lambda>c. c \<noteq> d) u)"
    using assms unfolding strtok_def Let_def u_def[symmetric]
    by (cases "u = []", simp, simp)+
  have "length r \<le> length (dropWhile (\<lambda>c. c \<noteq> d) u) - 1"
    unfolding r by simp
  also have "length (dropWhile (\<lambda>c. c \<noteq> d) u) \<le> length u" by (rule length_dropWhile_le)
  finally have "length r \<le> length u - 1" by simp
  moreover have "length u \<le> length s" unfolding u_def by (rule length_dropWhile_le)
  moreover have "0 < length u" using ne by simp
  ultimately show ?thesis by linarith
qed

text \<open>
  The key and value pairs at the end of a prefix option: the excluded prefix and the class.
  \<open>None\<close> stands for the result \<open>false\<close>.
\<close>

type_synonym prefix_extras = "(if_addr \<times> nat) option \<times> string option"

definition prefix_extra :: "parse_env \<Rightarrow> string \<Rightarrow> prefix_extras \<Rightarrow> prefix_extras option" where
  "prefix_extra P addstr ex =
     (case strtok CHR ''='' addstr of
        None \<Rightarrow> Some ex
      | Some (key, rest) \<Rightarrow>
          (case strtok CHR '','' rest of
             None \<Rightarrow> Some ex
           | Some (val, _) \<Rightarrow>
               if key = ''excluded'' then
                 (case strchr val CHR ''/'' of
                    None \<Rightarrow> None
                  | Some (a, l) \<Rightarrow>
                      map_option (\<lambda>bs. (Some (bs, unat (ucast (to_u32 (atoi l)) :: u8)), snd ex))
                        (pe_inet_pton P True a))
               else if key = ''class'' then Some (fst ex, Some val)
               else Some ex))"

function prefix_extras_loop :: "parse_env \<Rightarrow> string \<Rightarrow> prefix_extras \<Rightarrow> prefix_extras option" where
  "prefix_extras_loop P s ex =
     (case strtok CHR '','' s of
        None \<Rightarrow> Some ex
      | Some (addstr, rest) \<Rightarrow>
          (case prefix_extra P addstr ex of
             None \<Rightarrow> None
           | Some ex' \<Rightarrow> prefix_extras_loop P rest ex'))"
  by pat_completeness auto
termination
  by (relation "measure (\<lambda>(P, s, ex). length s)") (auto dest: strtok_shorter)

declare prefix_extras_loop.simps [simp del]

definition prefix_until :: "int \<Rightarrow> string option \<Rightarrow> int" where
  "prefix_until now str =
     (case str of
        None \<Rightarrow> 0
      | Some s \<Rightarrow> let v = sint (word_of_nat (fst (strtoul 10 s)) :: u64)
                  in if v \<noteq> 0xffffffff \<and> v + now \<le> 2 ^ 63 - 1 then v + now else 0)"

record prefix_option =
  po_addr :: if_addr
  po_len :: nat
  po_valid_until :: int
  po_preferred_until :: int
  po_excluded :: "(if_addr \<times> nat) option"
  po_class :: "string option"

text \<open>The buffer holds 128 bytes with the terminator.\<close>

definition parse_prefix_string :: "parse_env \<Rightarrow> string \<Rightarrow> prefix_option option" where
  "parse_prefix_string P str =
     (if length str + 1 \<ge> 128 then None
      else do {
        (addrstr, rest) \<leftarrow> strtok CHR ''/'' str;
        (lengthstr, rest) \<leftarrow> strtok CHR '','' rest;
        let pref = strtok CHR '','' rest;
        let valid = Option.bind pref (\<lambda>(_, rest). strtok CHR '','' rest);
        let plen = unat (word_of_nat (fst (strtoul 10 lengthstr)) :: u8);
        if plen < 1 \<or> plen > 64 then None
        else do {
          addr \<leftarrow> pe_inet_pton P True addrstr;
          (excl, pclass) \<leftarrow> (case valid of
                              None \<Rightarrow> Some (None, None)
                            | Some (_, rest) \<Rightarrow> prefix_extras_loop P rest (None, None));
          Some \<lparr>po_addr = addr, po_len = plen,
                po_valid_until = prefix_until (pe_rtime P) (map_option fst valid),
                po_preferred_until = prefix_until (pe_rtime P) (map_option fst pref),
                po_excluded = excl, po_class = pclass\<rparr>
        }
      })"

definition parse_prefix_option :: "world_env \<Rightarrow> ifid \<Rightarrow> string \<Rightarrow> world \<Rightarrow> bool \<times> world" where
  "parse_prefix_option E i str w =
     (case parse_prefix_string (we_parse E) str of
        None \<Rightarrow> (False, w)
      | Some p \<Rightarrow>
          (True, snd (interface_ip_add_device_prefix E (Some i) (po_addr p) (po_len p)
                        (po_valid_until p) (po_preferred_until p) (po_excluded p) (po_class p) w)))"

fun parse_prefix_list :: "world_env \<Rightarrow> ifid \<Rightarrow> int \<Rightarrow> proto_item list \<Rightarrow> world \<Rightarrow> int \<times> world" where
  "parse_prefix_list E i n_addr [] w = (n_addr, w)"
| "parse_prefix_list E i n_addr (cur # rest) w =
     (case cur of
        ItemString str \<Rightarrow>
          (let (ok, w) = parse_prefix_option E i str w
           in if ok then parse_prefix_list E i (n_addr + 1) rest w else (-1, w))
      | _ \<Rightarrow> (-1, w))"

section \<open>All settings\<close>

text \<open>What both kinds of settings end with: prefixes, then the gateways.\<close>

definition apply_gateway ::
  "world_env \<Rightarrow> ifid \<Rightarrow> proto_opts \<Rightarrow> proto_opt \<Rightarrow> bool \<Rightarrow> int \<Rightarrow> world \<Rightarrow> bool \<times> world" where
  "apply_gateway E i opts opt v6 n w =
     (case attr_string (po_tb opts) opt of
        None \<Rightarrow> (True, w)
      | Some str \<Rightarrow> if n \<noteq> 0 then parse_gateway_option E i str v6 w else (True, w))"

definition apply_prefixes_and_gateways ::
  "world_env \<Rightarrow> ifid \<Rightarrow> proto_opts \<Rightarrow> int \<Rightarrow> int \<Rightarrow> world \<Rightarrow> int \<times> world" where
  "apply_prefixes_and_gateways E i opts n_v4 n_v6 w =
     (let (n_pref, w) = (case po_array opts OPT_IP6PREFIX of
                           None \<Rightarrow> (0, w) | Some items \<Rightarrow> parse_prefix_list E i 0 items w)
      in if n_pref < 0 \<or> n_v4 < 0 \<or> n_v6 < 0 then (-1, w)
         else let (ok, w) = apply_gateway E i opts OPT_GATEWAY False n_v4 w
              in if \<not> ok then (-1, w)
                 else let (ok, w) = apply_gateway E i opts OPT_IP6GW True n_v6 w
                      in (if ok then 0 else -1, w))"

definition parse_opt_addr :: "parse_env \<Rightarrow> proto_opts \<Rightarrow> proto_opt \<Rightarrow> u32 option" where
  "parse_opt_addr P opts opt =
     (case attr_string (po_tb opts) opt of
        None \<Rightarrow> Some 0 | Some s \<Rightarrow> map_option in_s_addr (pe_inet_pton P False s))"

definition proto_apply_static_ip_settings ::
  "world_env \<Rightarrow> ifid \<Rightarrow> proto_opts \<Rightarrow> world \<Rightarrow> int \<times> world" where
  "proto_apply_static_ip_settings E i opts w =
     (let P = we_parse E;
          netmask = (case attr_string (po_tb opts) OPT_NETMASK of
                       None \<Rightarrow> 32 | Some s \<Rightarrow> parse_netmask_string (pe_inet_aton P) s False)
      in if netmask > 32 then (-1, proto_error i ''INVALID_NETMASK'' [] w)
         else case parse_opt_addr P opts OPT_BROADCAST of
           None \<Rightarrow> (-1, proto_error i ''INVALID_BROADCAST'' [] w)
         | Some bcast \<Rightarrow>
             (case parse_opt_addr P opts OPT_PTPADDR of
                None \<Rightarrow> (-1, proto_error i ''INVALID_PTPADDR'' [] w)
              | Some ptp \<Rightarrow>
                  let ip6deprecated = (attr_bool (po_tb opts) OPT_IP6DEPRECATED = Some True);
                      (n_v4, w) = (case po_array opts OPT_IPADDR of
                                     None \<Rightarrow> (0, w)
                                   | Some items \<Rightarrow> parse_static_address_option E i False netmask False
                                                     bcast ptp False 0 items w);
                      (n_v6, w) = (case po_array opts OPT_IP6ADDR of
                                     None \<Rightarrow> (0, w)
                                   | Some items \<Rightarrow> parse_static_address_option E i True 128 False
                                                     0 0 ip6deprecated 0 items w)
                  in apply_prefixes_and_gateways E i opts n_v4 n_v6 w))"

definition proto_apply_ip_settings ::
  "world_env \<Rightarrow> ifid \<Rightarrow> proto_opts \<Rightarrow> bool \<Rightarrow> world \<Rightarrow> int \<times> world" where
  "proto_apply_ip_settings E i opts ext w =
     (let (n_v4, w) = (case po_array opts OPT_IPADDR of
                         None \<Rightarrow> (0, w) | Some items \<Rightarrow> parse_address_list E i False ext 0 items w);
          (n_v6, w) = (case po_array opts OPT_IP6ADDR of
                         None \<Rightarrow> (0, w) | Some items \<Rightarrow> parse_address_list E i True ext 0 items w)
      in apply_prefixes_and_gateways E i opts n_v4 n_v6 w)"

section \<open>The static protocol\<close>

definition static_proto_setup ::
  "world_env \<Rightarrow> rec \<Rightarrow> ifid \<Rightarrow> blob option \<Rightarrow> world \<Rightarrow> (bool \<times> world) option" where
  "static_proto_setup E rec i config w = do {
     w \<leftarrow> interface_set_l3_dev E rec i (du_dev (if_main_dev (w_ifs w i))) w;
     let (ret, w) = proto_apply_static_ip_settings E i (we_proto_opts E config) w;
     Some (ret = 0, w)
   }"

definition static_handler ::
  "world_env \<Rightarrow> rec \<Rightarrow> ifid \<Rightarrow> blob option \<Rightarrow> interface_proto_cmd \<Rightarrow> world \<Rightarrow> (int \<times> world) option" where
  "static_handler E rec i config cmd w =
     (case cmd of
        PROTO_CMD_SETUP \<Rightarrow> do {
          (ok, w) \<leftarrow> static_proto_setup E rec i config w;
          Some (if ok then 0 else -1, w)
        }
      | _ \<Rightarrow> Some (0, w))"

end
