(* ===== verification/Contract.thy ===== *)
theory Contract
  imports ProtoConfig
begin

text \<open>
  What the operations on devices and interfaces keep, whatever the callbacks do that they
  call. The locale \<open>world_rel\<close> is a relation between a world and a later one; \<open>device_contract\<close>
  adds what device operations rely on: that callbacks and the methods of other device types
  stay in the relation, and that the relation holds across changes that concern no interface
  state. Its lemmas carry the relation through every operation of \<open>DeviceCore\<close>.
  \<open>Lifecycle\<close> interprets it with the steps of the interface state machine.
\<close>

definition istate :: "world \<Rightarrow> ifid \<Rightarrow> interface_state" where
  "istate w i = if_state (w_ifs w i)"

text \<open>
  A shell protocol that waits for its processes to end has its timer running, so that the wait is
  bounded.
\<close>

definition shell_armed :: "proto_shell_state \<Rightarrow> bool" where
  "shell_armed x \<longleftrightarrow> sh_freed x \<or> (sh_sm x = S_TEARDOWN \<or> sh_sm x = S_SETUP_ABORT \<longrightarrow> sh_teardown_timeout x \<noteq> None)"

text \<open>
  Two worlds that agree on the states of the interfaces and on what was told outside, and where the
  second keeps the timers of the shell protocols.
\<close>

definition same_state :: "world \<Rightarrow> world \<Rightarrow> bool" where
  "same_state w w' \<longleftrightarrow> w_out w' = w_out w \<and> istate w' = istate w
     \<and> (\<forall>s. shell_armed (w_shell w s) \<longrightarrow> shell_armed (w_shell w' s))"

lemma same_state_refl [simp]: "same_state w w"
  by (simp add: same_state_def)

lemma same_state_trans: "same_state w w' \<Longrightarrow> same_state w' w'' \<Longrightarrow> same_state w w''"
  by (simp add: same_state_def)

lemma istate_upd_dev [simp]: "istate (upd_dev d f w) = istate w"
  by (simp add: istate_def upd_dev_def fun_eq_iff)

lemmas upd_proto_defs = upd_shell_def upd_udhcp_def upd_isc_def upd_zcip_def upd_dep_def

lemmas upd_type_defs =
  upd_vlan_def upd_vlandev_def upd_macvlan_def upd_veth_def upd_alias_def upd_bridge_def upd_member_def

lemma istate_upd_type [simp]:
  "istate (upd_vlan d f1 w) = istate w" "istate (upd_vlandev d f2 w) = istate w"
  "istate (upd_macvlan d f3 w) = istate w" "istate (upd_veth d f4 w) = istate w"
  "istate (upd_alias d f5 w) = istate w" "istate (upd_bridge d f6 w) = istate w"
  "istate (upd_member m f7 w) = istate w"
  by (simp_all add: istate_def upd_type_defs fun_eq_iff)

lemma out_upd_type [simp]:
  "w_out (upd_vlan d f1 w) = w_out w" "w_out (upd_vlandev d f2 w) = w_out w"
  "w_out (upd_macvlan d f3 w) = w_out w" "w_out (upd_veth d f4 w) = w_out w"
  "w_out (upd_alias d f5 w) = w_out w" "w_out (upd_bridge d f6 w) = w_out w"
  "w_out (upd_member m f7 w) = w_out w"
  by (simp_all add: upd_type_defs)

lemma istate_upd_user [simp]: "istate (upd_user u f w) = istate w"
  by (cases u) (simp_all add: istate_def upd_dev_def upd_if_def upd_type_defs fun_eq_iff)

lemma istate_upd_if: "(\<And>x. if_state (f x) = if_state x) \<Longrightarrow> istate (upd_if i f w) = istate w"
  by (simp add: istate_def upd_if_def fun_eq_iff)

lemma istate_world_updates [simp]:
  "istate (klog_do q w) = istate w" "istate (emit x w) = istate w"
  "istate (w\<lparr>w_log := l\<rparr>) = istate w" "istate (w\<lparr>w_prefix := p\<rparr>) = istate w"
  "istate (w\<lparr>w_prefixes := ps\<rparr>) = istate w" "istate (w\<lparr>w_devlist := ds\<rparr>) = istate w"
  "istate (w\<lparr>w_next_dev := n\<rparr>) = istate w" "istate (w\<lparr>w_next_prefix := m\<rparr>) = istate w"
  "istate (w\<lparr>w_ula := u\<rparr>) = istate w" "istate (w\<lparr>w_refresh := b\<rparr>) = istate w"
  "istate (w\<lparr>w_ifusers := us\<rparr>) = istate w" "istate (w\<lparr>w_allusers := as\<rparr>) = istate w"
  "istate (w\<lparr>w_iflist := is\<rparr>) = istate w" "istate (w\<lparr>w_aliases := al\<rparr>) = istate w"
  "istate (w\<lparr>w_next_member := m\<rparr>) = istate w" "istate (w\<lparr>w_bridge_dev := bd\<rparr>) = istate w"
  by (simp_all add: istate_def klog_do_def emit_def fun_eq_iff)

lemma out_world_updates [simp]:
  "w_out (upd_dev d f w) = w_out w" "w_out (upd_user u g w) = w_out w"
  "w_out (upd_if i h w) = w_out w" "w_out (klog_do q w) = w_out w"
  "w_out (emit x w) = w_out w @ [x]"
  by (cases u; simp add: upd_dev_def upd_if_def upd_type_defs klog_do_def emit_def)+

lemma shell_world_updates [simp]:
  "w_shell (upd_dev d f w) = w_shell w" "w_shell (upd_user u g w) = w_shell w"
  "w_shell (upd_if i h w) = w_shell w" "w_shell (klog_do q w) = w_shell w"
  "w_shell (emit x w) = w_shell w"
  "w_shell (upd_vlan d f1 w) = w_shell w" "w_shell (upd_vlandev d f2 w) = w_shell w"
  "w_shell (upd_macvlan d f3 w) = w_shell w" "w_shell (upd_veth d f4 w) = w_shell w"
  "w_shell (upd_alias d f5 w) = w_shell w" "w_shell (upd_bridge d f6 w) = w_shell w"
  "w_shell (upd_member m f7 w) = w_shell w"
  "w_shell (upd_udhcp s g1 w) = w_shell w" "w_shell (upd_isc s g2 w) = w_shell w"
  "w_shell (upd_zcip s g3 w) = w_shell w" "w_shell (upd_dep k g4 w) = w_shell w"
  by (cases u; simp add: upd_dev_def upd_if_def upd_type_defs upd_proto_defs klog_do_def emit_def)+

lemma proto_world_updates [simp]:
  "istate (upd_shell s f w) = istate w" "istate (upd_udhcp s g1 w) = istate w"
  "istate (upd_isc s g2 w) = istate w" "istate (upd_zcip s g3 w) = istate w" "istate (upd_dep k g4 w) = istate w"
  "w_out (upd_shell s f w) = w_out w" "w_out (upd_udhcp s g1 w) = w_out w"
  "w_out (upd_isc s g2 w) = w_out w" "w_out (upd_zcip s g3 w) = w_out w" "w_out (upd_dep k g4 w) = w_out w"
  "istate (w\<lparr>w_next_proto := n\<rparr>) = istate w" "istate (w\<lparr>w_next_dep := m\<rparr>) = istate w"
  "istate (w\<lparr>w_config_init := b\<rparr>) = istate w" "istate (w\<lparr>w_next_if := j\<rparr>) = istate w"
  "istate (w\<lparr>w_ifs_version := v\<rparr>) = istate w"
  by (simp_all add: upd_proto_defs istate_def fun_eq_iff)

lemma w_shell_upd: "w_shell (upd_shell s f w) t = (if t = s then f (w_shell w s) else w_shell w t)"
  by (simp add: upd_shell_def)

definition quiet :: "out \<Rightarrow> bool" where
  "quiet x \<longleftrightarrow> (case x of OutEvent i ev \<Rightarrow> ev \<noteq> IFEV_UP \<and> ev \<noteq> IFEV_DOWN \<and> ev \<noteq> IFEV_UP_FAILED
                       | OutProtoState i \<Rightarrow> False | OutAllocInterface i \<Rightarrow> False | _ \<Rightarrow> True)"

section \<open>The relation\<close>

locale world_rel =
  fixes R :: "world \<Rightarrow> world \<Rightarrow> bool"
  assumes rel_refl: "R w w"
    and rel_trans: "R w1 w2 \<Longrightarrow> R w2 w3 \<Longrightarrow> R w1 w3"
    and rel_same: "same_state w1 w2 \<Longrightarrow> R w1 w2"
    and rel_quiet: "quiet x \<Longrightarrow> R w (emit x w)"
begin

text \<open>A computation that starts in the relation to \<open>w0\<close> ends in it, if it ends.\<close>

definition ok :: "('a \<Rightarrow> world) \<Rightarrow> world \<Rightarrow> 'a option \<Rightarrow> bool" where
  "ok p w0 m \<longleftrightarrow> (\<forall>x. m = Some x \<longrightarrow> R w0 (p x))"

abbreviation okw :: "world \<Rightarrow> world option \<Rightarrow> bool" where
  "okw \<equiv> ok (\<lambda>x. x)"

abbreviation okp :: "world \<Rightarrow> ('a \<times> world) option \<Rightarrow> bool" where
  "okp \<equiv> ok snd"

lemma ok_None [intro!, simp]: "ok p w0 None"
  by (simp add: ok_def)

lemma ok_Some: "R w0 (p x) \<Longrightarrow> ok p w0 (Some x)"
  by (simp add: ok_def)

lemma ok_bind: "okw w0 m \<Longrightarrow> (\<And>x. R w0 x \<Longrightarrow> ok p w0 (f x)) \<Longrightarrow> ok p w0 (m \<bind> f)"
  by (cases m) (simp_all add: ok_def)

lemma ok_bind_pair:
  "okp w0 m \<Longrightarrow> (\<And>r x. R w0 x \<Longrightarrow> ok p w0 (f r x)) \<Longrightarrow> ok p w0 (m \<bind> case_prod f)"
  by (cases m) (auto simp add: ok_def)

lemma ok_map_snd: "okp w0 m \<Longrightarrow> okw w0 (map_option snd m)"
  by (auto simp: ok_def)

lemma ok_map: "okw w0 m \<Longrightarrow> (\<And>x. R w0 x \<Longrightarrow> R w0 (p (f x))) \<Longrightarrow> ok p w0 (map_option f m)"
  by (auto simp: ok_def)

lemma ok_if: "(b \<Longrightarrow> ok p w0 m) \<Longrightarrow> (\<not> b \<Longrightarrow> ok p w0 n) \<Longrightarrow> ok p w0 (if b then m else n)"
  by simp

lemma ok_option:
  "(x = None \<Longrightarrow> ok p w0 m) \<Longrightarrow> (\<And>y. x = Some y \<Longrightarrow> ok p w0 (f y)) \<Longrightarrow>
   ok p w0 (case x of None \<Rightarrow> m | Some y \<Rightarrow> f y)"
  by (simp split: option.split)

lemma rel_step: "R w0 w \<Longrightarrow> same_state w w' \<Longrightarrow> R w0 w'"
  using rel_same rel_trans by blast

lemma rel_upd_dev: "R w0 w \<Longrightarrow> R w0 (upd_dev d f w)"
  by (erule rel_step) (simp add: same_state_def)

lemma rel_upd_user: "R w0 w \<Longrightarrow> R w0 (upd_user u f w)"
  by (erule rel_step) (simp add: same_state_def)

lemma rel_klog_do: "R w0 w \<Longrightarrow> R w0 (klog_do q w)"
  by (erule rel_step) (simp add: same_state_def)

lemma rel_emit: "R w0 w \<Longrightarrow> quiet x \<Longrightarrow> R w0 (emit x w)"
  using rel_quiet rel_trans by blast

lemma rel_devlist: "R w0 w \<Longrightarrow> R w0 (w\<lparr>w_devlist := ds\<rparr>)"
  by (erule rel_step) (simp add: same_state_def)

lemma rel_next_dev: "R w0 w \<Longrightarrow> R w0 (w\<lparr>w_next_dev := n\<rparr>)"
  by (erule rel_step) (simp add: same_state_def)

lemma rel_if: "R w0 w \<Longrightarrow> (\<And>x. if_state (f x) = if_state x) \<Longrightarrow> R w0 (upd_if i f w)"
  by (erule rel_step) (simp add: same_state_def istate_upd_if)

lemma rel_upd_type:
  assumes "R w0 w"
  shows "R w0 (upd_vlan d f1 w)" and "R w0 (upd_vlandev d f2 w)" and "R w0 (upd_macvlan d f3 w)"
    and "R w0 (upd_veth d f4 w)" and "R w0 (upd_alias d f5 w)" and "R w0 (upd_bridge d f6 w)"
    and "R w0 (upd_member m f7 w)" and "R w0 (w\<lparr>w_aliases := al\<rparr>)" and "R w0 (w\<lparr>w_next_member := m\<rparr>)"
    and "R w0 (w\<lparr>w_bridge_dev := bd\<rparr>)"
  by (rule rel_step [OF assms], simp add: same_state_def)+

lemma rel_upd_proto:
  assumes "R w0 w"
  shows "R w0 (upd_udhcp s g1 w)" and "R w0 (upd_isc s g2 w)" and "R w0 (upd_zcip s g3 w)"
    and "R w0 (upd_dep k g4 w)" and "R w0 (w\<lparr>w_next_proto := n\<rparr>)" and "R w0 (w\<lparr>w_next_dep := m\<rparr>)"
  by (rule rel_step [OF assms], simp add: same_state_def)+

text \<open>A change of a shell protocol that keeps its timer.\<close>

lemma rel_upd_shell:
  assumes "R w0 w" and "shell_armed (w_shell w s) \<Longrightarrow> shell_armed (f (w_shell w s))"
  shows "R w0 (upd_shell s f w)"
  by (rule rel_step [OF assms(1)]) (simp add: same_state_def w_shell_upd assms(2))

lemma rel_set_pending: "R w0 w \<Longrightarrow> R w0 (set_pending p b w)"
  by (cases p) (auto intro!: rel_upd_shell rel_upd_proto simp: shell_armed_def)

lemma rel_kill_process: "R w0 w \<Longrightarrow> R w0 (netifd_kill_process p w)"
  by (simp add: netifd_kill_process_def rel_set_pending rel_emit quiet_def)

lemma rel_start_process: "R w0 w \<Longrightarrow> R w0 (snd (netifd_start_process E argv env p w))"
  by (auto simp: netifd_start_process_def Let_def quiet_def intro!: rel_kill_process rel_set_pending rel_emit)

lemmas ok_rules = ok_None ok_Some ok_bind_pair ok_bind ok_map_snd ok_if ok_option
lemmas rel_rules = rel_upd_dev rel_upd_user rel_klog_do rel_devlist rel_next_dev

end

section \<open>Device operations\<close>

locale device_contract = world_rel +
  fixes E :: world_env and rec :: rec
  assumes rec_rel: "rec c w = Some (r, w') \<Longrightarrow> R w w'"
    and type_set_state: "ty_set_state (we_type E n) rec d b w = Some (r, w') \<Longrightarrow> R w w'"
    and type_check_state:
      "ty_check_state (we_type E n) = Some f \<Longrightarrow> f rec d w = Some (r, w') \<Longrightarrow> R w w'"
    and type_reload:
      "ty_reload (we_type E n) = Some g \<Longrightarrow> g rec d a w = Some (change, w') \<Longrightarrow> R w w'"
    and type_create: "ty_create (we_type E n) rec name a w = Some (dev, w') \<Longrightarrow> R w w'"
    and type_config_init: "ty_config_init (we_type E n) rec d w = Some w' \<Longrightarrow> R w w'"
    and type_free: "ty_free (we_type E n) rec d w = Some w' \<Longrightarrow> R w w'"
    and vlan_chain: "we_vlan_chain E rec name create w = Some (dev, w') \<Longrightarrow> R w w'"
    and alias_get: "we_alias_get E rec name w = Some (dev, w') \<Longrightarrow> R w w'"
    and type_hotplug: "we_hotplug E n rec d d' vl add w = Some (r, w') \<Longrightarrow> R w w'"
    and type_prepare: "we_prepare E n rec d w = Some (r, w') \<Longrightarrow> R w w'"
begin

lemma rec_ok: "R w0 w \<Longrightarrow> okp w0 (rec c w)"
  unfolding ok_def using rec_rel rel_trans by fastforce

lemma call_void_ok: "R w0 w \<Longrightarrow> okw w0 (call_void rec c w)"
  unfolding call_void_def by (intro ok_map_snd rec_ok)

lemma broadcast_loop_ok: "R w0 w \<Longrightarrow> okw w0 (broadcast_loop rec d alias ev us w)"
  by (induction us arbitrary: w) (auto intro!: ok_Some ok_bind call_void_ok)

lemma broadcast_ok: "R w0 w \<Longrightarrow> okw w0 (device_broadcast_event E rec d ev w)"
  unfolding device_broadcast_event_def by (intro ok_bind broadcast_loop_ok)

lemma set_ifindex_ok: "R w0 w \<Longrightarrow> okw w0 (device_set_ifindex E rec d n w)"
  unfolding device_set_ifindex_def by (intro ok_if ok_Some broadcast_ok rel_upd_dev)

lemma claim_external_ok: "R w0 w \<Longrightarrow> okp w0 (claim_external E rec d w)"
  unfolding claim_external_def Let_def
  by (intro ok_bind set_ifindex_ok ok_Some) (simp_all add: rel_rules)

lemma claim_ok: "R w0 w \<Longrightarrow> okp w0 (device_claim E rec u w)"
  unfolding device_claim_def Let_def device_fill_default_settings_def
  by (intro ok_rules broadcast_ok claim_external_ok rec_ok)
    (simp_all add: rel_rules)

lemma release_ok: "R w0 w \<Longrightarrow> okw w0 (device_release E rec u w)"
  unfolding device_release_def Let_def
  by (intro ok_rules broadcast_ok call_void_ok) (simp_all add: rel_rules)

lemma set_present_flag_ok: "R w0 w \<Longrightarrow> okw w0 (device_set_present_flag E rec d b w)"
  unfolding device_set_present_flag_def by (intro ok_if ok_Some broadcast_ok rel_upd_dev)

lemma refresh_present_ok: "R w0 w \<Longrightarrow> okw w0 (device_refresh_present E rec d w)"
  unfolding device_refresh_present_def Let_def by (rule set_present_flag_ok)

lemma set_present_ok: "R w0 w \<Longrightarrow> okw w0 (device_set_present E rec d b w)"
  unfolding device_set_present_def by (intro ok_if ok_Some refresh_present_ok rel_upd_dev)

lemma set_deferred_ok: "R w0 w \<Longrightarrow> okw w0 (device_set_deferred E rec d b w)"
  unfolding device_set_deferred_def by (intro refresh_present_ok rel_upd_dev)

lemma set_disabled_ok: "R w0 w \<Longrightarrow> okw w0 (device_set_disabled E rec d b w)"
  unfolding device_set_disabled_def by (intro refresh_present_ok rel_upd_dev)

lemma set_auth_status_ok: "R w0 w \<Longrightarrow> okw w0 (device_set_auth_status E rec d b w)"
  unfolding device_set_auth_status_def Let_def
  by (intro ok_rules broadcast_ok rel_upd_dev)

lemma set_link_ok: "R w0 w \<Longrightarrow> okw w0 (device_set_link E rec d b w)"
  unfolding device_set_link_def Let_def
  by (intro ok_if ok_Some broadcast_ok) (simp_all add: rel_rules)

lemma rel_list_add_user: "R w0 w \<Longrightarrow> R w0 (list_add_user u d w)"
  by (simp add: list_add_user_def rel_rules)

lemma rel_safe_list_del: "R w0 w \<Longrightarrow> R w0 (safe_list_del u w)"
  by (simp add: safe_list_del_def rel_rules split: option.split)

lemma add_user_to_ok: "R w0 w \<Longrightarrow> okw w0 (device_add_user_to rec u d w)"
  unfolding device_add_user_to_def Let_def
  by (intro ok_rules call_void_ok) (simp_all add: rel_list_add_user rel_upd_user)

lemma remove_user_ok: "R w0 w \<Longrightarrow> okw w0 (device_remove_user E rec u w)"
  unfolding device_remove_user_def Let_def
  by (intro ok_rules release_ok rel_emit) (simp_all add: rel_safe_list_del rel_upd_user quiet_def)

lemma add_user_ok: "R w0 w \<Longrightarrow> okw w0 (device_add_user E rec u dev w)"
  unfolding device_add_user_def
  by (intro ok_rules remove_user_ok add_user_to_ok)

lemma if_check_ok: "R w0 w \<Longrightarrow> okp w0 (system_if_check E rec d w)"
  unfolding system_if_check_def Let_def
  by (cases "we_if_check E d (w_log w)")
    (simp_all split del: if_split, (intro ok_rules set_present_ok set_link_ok; simp)+)

lemma check_state_ok:
  assumes "R w0 w"
  shows "okp w0 (device_check_state E rec d w)"
proof -
  have "okp w0 (f rec d w)" if "ty_check_state (we_type E n) = Some f" for n f
    using assms type_check_state[OF that] rel_trans unfolding ok_def by fastforce
  then show ?thesis
    using assms if_check_ok unfolding device_check_state_def
    by (simp split: device_type.split option.split)
qed

lemma rel_devices: "R w0 w \<Longrightarrow> R w0 (devices_insert d w)" "R w0 w \<Longrightarrow> R w0 (device_delete d w)"
  by (simp_all add: devices_insert_def device_delete_def rel_devlist)

lemma set_ifname_ok: "R w0 w \<Longrightarrow> okp w0 (device_set_ifname E rec d name w)"
  unfolding device_set_ifname_def Let_def
  by (intro ok_rules broadcast_ok) (simp_all add: rel_rules rel_devices)

lemma clear_state_ok: "R w0 w \<Longrightarrow> okw w0 (system_if_clear_state E rec d w)"
  unfolding system_if_clear_state_def
  by (intro ok_rules set_ifindex_ok rel_klog_do)

lemma init_virtual_ok: "R w0 w \<Longrightarrow> okp w0 (device_init_virtual E rec d type name w)"
  unfolding device_init_virtual_def Let_def
  by (intro ok_rules set_ifname_ok) (simp_all add: rel_rules)

lemma init_ok: "R w0 w \<Longrightarrow> okp w0 (device_init E rec d type name w)"
  unfolding device_init_def
  by (intro ok_rules init_virtual_ok clear_state_ok) (simp_all add: rel_devices)

lemma create_default_ok: "R w0 w \<Longrightarrow> okp w0 (device_create_default E rec name ext w)"
  unfolding device_create_default_def Let_def
  by (intro ok_rules init_ok check_state_ok) (simp_all add: rel_rules)

lemma alias_get_ok: "R w0 w \<Longrightarrow> okp w0 (we_alias_get E rec name w)"
  using alias_get rel_trans unfolding ok_def by fastforce

lemma get_plain_ok: "R w0 w \<Longrightarrow> okp w0 (device_get_plain E rec name create w)"
  unfolding device_get_plain_def Let_def
  by (intro ok_rules set_present_ok create_default_ok alias_get_ok) (simp_all add: rel_rules)

lemma vlan_chain_ok: "R w0 w \<Longrightarrow> okp w0 (we_vlan_chain E rec name create w)"
  using vlan_chain rel_trans unfolding ok_def by fastforce

lemma get_ok: "R w0 w \<Longrightarrow> okp w0 (device_get E rec name create w)"
  unfolding device_get_def by (intro ok_rules vlan_chain_ok get_plain_ok)

lemma set_device_state_ok: "R w0 w \<Longrightarrow> okp w0 (set_device_state E rec d b w)"
  unfolding set_device_state_def Let_def
  by (intro ok_rules set_ifindex_ok) (simp_all add: rel_rules)

lemma get_parent_ok: "R w0 w \<Longrightarrow> okp w0 (system_if_get_parent E rec d w)"
  unfolding system_if_get_parent_def by (intro ok_rules get_ok) simp_all

lemma simple_set_state_ok: "R w0 w \<Longrightarrow> okp w0 (simple_device_set_state E rec d b w)"
  unfolding simple_device_set_state_def Let_def
  by (intro ok_rules get_parent_ok add_user_ok claim_ok release_ok set_device_state_ok) simp_all

lemma set_state_cb_ok:
  assumes "R w0 w"
  shows "okp w0 (device_set_state_cb E rec d b w)"
proof -
  have "okp w0 (ty_set_state (we_type E n) rec d b w)" for n
    using assms type_set_state rel_trans unfolding ok_def by fastforce
  then show ?thesis
    unfolding device_set_state_cb_def
    using assms set_device_state_ok simple_set_state_ok
    by (auto split: option.split state_cb.split device_type.split)
qed

lemma init_settings_ok: "R w0 w \<Longrightarrow> okw w0 (device_init_settings E rec d tb w)"
  unfolding device_init_settings_def
  by (simp add: split_beta set_disabled_ok rel_upd_dev)

lemma set_config_ok:
  assumes "R w0 w"
  shows "okp w0 (device_set_config E rec d type attr w)"
proof -
  have "okp w0 (g rec d attr w)" if "ty_reload (we_type E n) = Some g" for n g
    using assms type_reload[OF that] rel_trans unfolding ok_def by fastforce
  then show ?thesis
    using assms unfolding device_set_config_def Let_def
    by (auto intro!: ok_rules init_settings_ok split: device_type.split)
qed

lemma restart_ok: "R w0 w \<Longrightarrow> okw w0 (device_restart E rec d w)"
  unfolding device_restart_def
  by (intro ok_rules set_present_ok rec_ok) simp_all

lemma apply_config_ok: "R w0 w \<Longrightarrow> okp w0 (device_apply_config E rec d type config w)"
  unfolding device_apply_config_def Let_def
  by (intro ok_bind_pair set_config_ok)
    (auto intro!: ok_rules restart_ok simp: rel_rules split_beta)

lemma cleanup_loop_ok: "R w0 w \<Longrightarrow> okw w0 (cleanup_loop E rec d alias us w)"
  by (induction us arbitrary: w) (auto intro!: ok_Some ok_bind call_void_ok release_ok)

lemma device_cleanup_ok: "R w0 w \<Longrightarrow> okw w0 (device_cleanup E rec d w)"
  unfolding device_cleanup_def by (intro ok_rules cleanup_loop_ok rel_devices)

lemma simple_free_ok: "R w0 w \<Longrightarrow> okw w0 (simple_device_free E rec d w)"
  unfolding simple_device_free_def
  by (intro ok_rules remove_user_ok rel_emit) (simp_all add: quiet_def)

lemma device_free_ok: "R w0 w \<Longrightarrow> okw w0 (device_free E rec d w)"
proof -
  assume w: "R w0 w"
  have "R w0 x \<Longrightarrow> okw w0 (ty_free (we_type E n) rec d x)" for n x
    using type_free rel_trans unfolding ok_def by blast
  then show ?thesis
    unfolding device_free_def
    by (intro ok_bind device_cleanup_ok w) (auto intro: simple_free_ok split: device_type.split)
qed

lemma free_unused_ok: "R w0 w \<Longrightarrow> okw w0 (free_unused_loop E rec ds w)"
  by (induction ds arbitrary: w) (auto intro!: ok_rules device_free_ok)

lemma replace_loop_ok: "R w0 w \<Longrightarrow> okw w0 (replace_loop E rec d us w)"
  by (induction us arbitrary: w)
    (auto intro!: ok_rules release_ok add_user_to_ok rel_safe_list_del)

lemma replace_ok: "R w0 w \<Longrightarrow> okw w0 (device_replace E rec d od w)"
  unfolding device_replace_def by (intro ok_rules set_present_ok replace_loop_ok device_free_ok)

lemma reset_old_ok: "R w0 w \<Longrightarrow> okw w0 (reset_old_loop E rec ds w)"
  by (induction ds arbitrary: w) (auto simp: Let_def intro!: ok_rules create_default_ok replace_ok)

lemma rel_reset_config: "R w0 w \<Longrightarrow> R w0 (device_reset_config w)"
proof -
  have "R w0 w \<Longrightarrow> R w0 (fold (\<lambda>d. upd_dev d (\<lambda>x. x\<lparr>dv_current_config := False\<rparr>)) ds w)" for ds
    by (induction ds arbitrary: w) (simp_all add: rel_upd_dev)
  then show "R w0 w \<Longrightarrow> ?thesis" unfolding device_reset_config_def .
qed

lemma config_init_ok: "R w0 w \<Longrightarrow> okw w0 (device_type_config_init E rec d w)"
  unfolding device_type_config_init_def ok_def
  by (auto split: device_type.splits dest: type_config_init intro: rel_trans)

lemma simple_create_ok: "R w0 w \<Longrightarrow> okp w0 (simple_device_create E rec name attr w)"
  unfolding simple_device_create_def
  by (intro ok_rules get_ok init_settings_ok) (simp_all add: rel_upd_dev)

lemma create_new_ok:
  assumes "R w0 w"
  shows "okp w0 (device_create_new E rec name type config odev w)"
proof -
  have "okp w0 (ty_create (we_type E n) rec name config w)" for n
    using assms type_create rel_trans unfolding ok_def by fastforce
  then have "okp w0 (case type of DevSimple \<Rightarrow> simple_device_create E rec name config w
                           | DevOther n \<Rightarrow> ty_create (we_type E n) rec name config w)"
    using assms simple_create_ok by (simp split: device_type.split)
  then show ?thesis
    unfolding device_create_new_def Let_def
    by (intro ok_rules replace_ok config_init_ok check_state_ok) (simp_all add: rel_upd_dev)
qed

lemma create_ok: "R w0 w \<Longrightarrow> okp w0 (device_create E rec name type config w)"
  unfolding device_create_def
  by (intro ok_rules create_new_ok apply_config_ok) (simp_all add: rel_upd_dev rel_devices)

lemma init_pending_ok: "R w0 w \<Longrightarrow> okw w0 (init_pending_loop E rec ds w)"
  by (induction ds arbitrary: w)
    (auto intro!: ok_rules config_init_ok check_state_ok simp: rel_upd_dev)

lemma hotplug_event_ok: "R w0 w \<Longrightarrow> okw w0 (device_hotplug_event E rec name add w)"
  unfolding device_hotplug_event_def by (intro ok_rules set_present_ok)

end

end
