(* ===== verification/VlanDev.thy ===== *)
theory VlanDev
  imports AliasDev
begin

text \<open>
  VLAN devices that are made from a name, \<open>src/vlan.c\<close>: \<open>eth0.5\<close> is VLAN 5 on \<open>eth0\<close>, and
  \<open>eth0.5.7\<close> VLAN 7 on that. A part of the name that is no number may be an alias of a VLAN of a bridge.
  Status 8 is \<open>UBUS_STATUS_NOT_SUPPORTED\<close>.
\<close>

definition zero_vlan_device :: vlan_device where
  "zero_vlan_device = \<lparr>vl_dep = zero_device_user, vl_id = 0\<rparr>"

text \<open>The conversion \<open>%d\<close> of \<open>printf\<close>.\<close>

fun digits_of :: "nat \<Rightarrow> string" where
  "digits_of n = (if n < 10 then [char_of (48 + n)] else digits_of (n div 10) @ [char_of (48 + n mod 10)])"

declare digits_of.simps [simp del]

definition format_d :: "int \<Rightarrow> string" where
  "format_d k = (if k < 0 then CHR ''-'' # digits_of (nat (- k)) else digits_of (nat k))"

definition vlan_name :: "string \<Rightarrow> int \<Rightarrow> string" where
  "vlan_name base k = base @ ''.'' @ format_d k"

section \<open>Ports that come and go\<close>

definition vlan_hotplug_op ::
  "rec \<Rightarrow> did \<Rightarrow> did \<Rightarrow> bool \<Rightarrow> world \<Rightarrow> (int \<times> world) option" where
  "vlan_hotplug_op rec d member add w =
     (case du_dev (vl_dep (w_vlan w d)) of
        None \<Rightarrow> Some (8, w)
      | Some p \<Rightarrow>
          if dv_hotplug_ops (w_devs w p) = None then Some (8, w)
          else rec (CHotplug p member (Some [Some (format_d (vl_id (w_vlan w d)))]) add) w)"

definition vlan_hotplug_prepare :: "rec \<Rightarrow> did \<Rightarrow> world \<Rightarrow> (int \<times> world) option" where
  "vlan_hotplug_prepare rec d w =
     (case du_dev (vl_dep (w_vlan w d)) of
        None \<Rightarrow> Some (8, w)
      | Some p \<Rightarrow> if dv_hotplug_ops (w_devs w p) = None then Some (8, w) else rec (CPrepare p) w)"

definition vlan_hotplug_check :: "did \<Rightarrow> did option \<Rightarrow> world \<Rightarrow> world" where
  "vlan_hotplug_check d dev w =
     upd_dev d (\<lambda>x. x\<lparr>dv_hotplug_ops :=
       (case dev of
          None \<Rightarrow> None
        | Some p \<Rightarrow> if dv_hotplug_ops (w_devs w p) = None \<or> dv_vlans (w_devs w p) = [] then None
                    else Some VlanOps)\<rparr>) w"

section \<open>The methods of the type\<close>

definition free_vlan_if :: "world_env \<Rightarrow> rec \<Rightarrow> did \<Rightarrow> world \<Rightarrow> world option" where
  "free_vlan_if E rec d w = do {
     w \<leftarrow> device_remove_user E rec (UVlan d) w;
     w \<leftarrow> device_cleanup E rec d w;
     Some (emit (OutFreeDevice d) w)
   }"

text \<open>The answer of the kernel to \<open>system_vlan_add\<close> is not looked at.\<close>

definition vlan_set_device_state ::
  "world_env \<Rightarrow> rec \<Rightarrow> did \<Rightarrow> bool \<Rightarrow> world \<Rightarrow> (int \<times> world) option" where
  "vlan_set_device_state E rec d up w =
     (if \<not> up then do {
        (_, w) \<leftarrow> set_device_state E rec d False w;
        w \<leftarrow> device_release E rec (UVlan d) (klog_do (KVlanDel d) w);
        Some (0, w)
      }
      else do {
        (ret, w) \<leftarrow> device_claim E rec (UVlan d) w;
        if ret < 0 then Some (ret, w)
        else case du_dev (vl_dep (w_vlan w d)) of
          None \<Rightarrow> None
        | Some p \<Rightarrow> do {
            (ret, w) \<leftarrow> set_device_state E rec d True (klog_do (KVlanAdd p (vl_id (w_vlan w d))) w);
            w \<leftarrow> (if ret \<noteq> 0 then device_release E rec (UVlan d) w else Some w);
            Some (ret, w)
          }
      })"

definition vlan_dev_cb :: "world_env \<Rightarrow> rec \<Rightarrow> did \<Rightarrow> device_event \<Rightarrow> world \<Rightarrow> world option" where
  "vlan_dev_cb E rec d ev w =
     (case ev of
        DEV_EVENT_ADD \<Rightarrow> device_set_present E rec d True w
      | DEV_EVENT_REMOVE \<Rightarrow> device_set_present E rec d False w
      | DEV_EVENT_UPDATE_IFNAME \<Rightarrow>
          (case du_dev (vl_dep (w_vlan w d)) of
             None \<Rightarrow> None
           | Some p \<Rightarrow> do {
               let w = upd_dev d (\<lambda>x. x\<lparr>dv_hidden := dv_hidden (w_devs w p)\<rparr>) (vlan_hotplug_check d (Some p) w);
               let name = vlan_name (dv_ifname (w_devs w p)) (vl_id (w_vlan w d));
               if length name \<ge> 16 then free_vlan_if E rec d w
               else do {
                 (ret, w) \<leftarrow> device_set_ifname E rec d name w;
                 if ret \<noteq> 0 then free_vlan_if E rec d w else Some w
               }
             })
      | DEV_EVENT_TOPO_CHANGE \<Rightarrow> device_broadcast_event E rec d DEV_EVENT_TOPO_CHANGE w
      | _ \<Rightarrow> Some w)"

definition vlan_config_init :: "rec \<Rightarrow> did \<Rightarrow> world \<Rightarrow> world option" where
  "vlan_config_init rec d w = Some (vlan_hotplug_check d (du_dev (vl_dep (w_vlan w d))) w)"

section \<open>Finding and creating VLAN devices\<close>

text \<open>The number of a VLAN, by its text or by an alias on the device.\<close>

definition vlan_number :: "device \<Rightarrow> string \<Rightarrow> int option" where
  "vlan_number dev id_str =
     (let (n, err) = strtoul 10 id_str
      in if err \<noteq> [] then map_option (\<lambda>a. c_int a) (dv_vlan_aliases dev id_str)
         else Some (c_int (to_u32 (int n))))"

fun is_vlan_user :: "world \<Rightarrow> int \<Rightarrow> uid \<Rightarrow> did option" where
  "is_vlan_user w k (UVlan d) = (if vl_id (w_vlan w d) = k then Some d else None)"
| "is_vlan_user w k _ = None"

fun find_vlan_user :: "world \<Rightarrow> int \<Rightarrow> uid list \<Rightarrow> did option" where
  "find_vlan_user w k [] = None"
| "find_vlan_user w k (u # us) =
     (case is_vlan_user w k u of None \<Rightarrow> find_vlan_user w k us | Some d \<Rightarrow> Some d)"

definition vlan_create ::
  "world_env \<Rightarrow> rec \<Rightarrow> did \<Rightarrow> int \<Rightarrow> world \<Rightarrow> (did option \<times> world) option" where
  "vlan_create E rec p k w = do {
     let name = vlan_name (dv_ifname (w_devs w p)) k;
     if length name \<ge> 16 then Some (None, w)
     else do {
       let d = w_next_dev w;
       let dev = zero_device\<lparr>dv_hidden := dv_hidden (w_devs w p), dv_ifname := name\<rparr>;
       let w = upd_vlan d (\<lambda>_. zero_vlan_device\<lparr>vl_id := k\<rparr>) (upd_dev d (\<lambda>_. dev) (w\<lparr>w_next_dev := d + 1\<rparr>));
       (ret, w) \<leftarrow> device_init E rec d (DevOther ''VLAN'') None w;
       if ret < 0 then do { w \<leftarrow> device_cleanup E rec d w; Some (None, w) }
       else do {
         let w = upd_dev d (\<lambda>x. x\<lparr>dv_default_config := True, dv_config_pending := True,
                                  dv_set_state := Some StateOfType\<rparr>) w;
         w \<leftarrow> device_add_user E rec (UVlan d) (Some p) (vlan_hotplug_check d (du_dev (vl_dep (w_vlan w d))) w);
         Some (Some d, w)
       }
     }
   }"

definition get_vlan_device ::
  "world_env \<Rightarrow> rec \<Rightarrow> did \<Rightarrow> string \<Rightarrow> nat \<Rightarrow> world \<Rightarrow> (did option \<times> world) option" where
  "get_vlan_device E rec p id_str create w =
     (case vlan_number (w_devs w p) id_str of
        None \<Rightarrow> Some (None, w)
      | Some k \<Rightarrow>
          (case find_vlan_user w k (dv_users (w_devs w p)) of
             Some d \<Rightarrow> Some (Some d, w)
           | None \<Rightarrow> if create = 0 then Some (None, w) else vlan_create E rec p k w))"

text \<open>The text up to the first dot, and what follows it.\<close>

definition split_vlan :: "string \<Rightarrow> string \<times> string option" where
  "split_vlan s =
     (takeWhile (\<lambda>c. c \<noteq> CHR ''.'') s,
      if CHR ''.'' \<in> set s then Some (tl (dropWhile (\<lambda>c. c \<noteq> CHR ''.'') s)) else None)"

definition isdigit :: "char \<Rightarrow> bool" where
  "isdigit c \<longleftrightarrow> 48 \<le> char_code c \<and> char_code c \<le> 57"

lemma split_vlan_shorter:
  assumes "(part, Some r) = split_vlan s"
  shows "length r < length s"
  using assms length_dropWhile_le [of "\<lambda>c. c \<noteq> CHR ''.''" s]
  by (cases "dropWhile (\<lambda>c. c \<noteq> CHR ''.'') s")
    (auto simp: split_vlan_def dropWhile_eq_Nil_conv split: if_splits)

text \<open>The loop over the parts of the name.\<close>

function vlan_loop ::
  "world_env \<Rightarrow> rec \<Rightarrow> did \<Rightarrow> string \<Rightarrow> nat \<Rightarrow> world \<Rightarrow> (did option \<times> world) option" where
  "vlan_loop E rec d s create w = do {
     let (part, rest) = split_vlan s;
     (dev, w) \<leftarrow> get_vlan_device E rec d part create w;
     case dev of
       None \<Rightarrow> Some (None, w)
     | Some d' \<Rightarrow> (case rest of None \<Rightarrow> Some (Some d', w) | Some s' \<Rightarrow> vlan_loop E rec d' s' create w)
   }"
  by auto
termination
  by (relation "measure (\<lambda>(E, rec, d, s, create, w). length s)") (auto dest: split_vlan_shorter)

declare vlan_loop.simps [simp del]

text \<open>
  When the first part is no number and no alias, the name is taken for the name of a device with a dot in
  it; the loop starts with that part again.
\<close>

definition get_vlan_device_chain ::
  "world_env \<Rightarrow> rec \<Rightarrow> string \<Rightarrow> nat \<Rightarrow> world \<Rightarrow> (did option \<times> world) option" where
  "get_vlan_device_chain E rec ifname create w = do {
     let (buf, s) = split_vlan ifname;
     (dev, w) \<leftarrow> device_get_plain E rec buf create w;
     case (dev, s) of
       (Some d, Some s) \<Rightarrow>
         if s \<noteq> [] \<and> isdigit (hd s) then vlan_loop E rec d s create w
         else do {
           let (part, rest) = split_vlan s;
           (vldev, w) \<leftarrow> get_vlan_device E rec d part create w;
           case vldev of
             Some d' \<Rightarrow> (case rest of None \<Rightarrow> Some (Some d', w) | Some s' \<Rightarrow> vlan_loop E rec d' s' create w)
           | None \<Rightarrow> do {
               (dev, w) \<leftarrow> device_get_plain E rec (buf @ ''.'' @ part) create w;
               case dev of None \<Rightarrow> Some (None, w) | Some d' \<Rightarrow> vlan_loop E rec d' s create w
             }
         }
     | _ \<Rightarrow> Some (dev, w)
   }"

end
