(* ===== verification/StackedDev.thy ===== *)
theory StackedDev
  imports VlanDev
begin

text \<open>
  Device types that are configured and make a kernel device of their own: 802.1q and 802.1ad
  VLAN devices (\<open>src/vlandev.c\<close>), macvlan (\<open>src/macvlan.c\<close>), veth pairs (\<open>src/veth.c\<close>) and
  tunnels (\<open>src/tunnel.c\<close>). The first two stand on another device, which they claim while they
  are up.
\<close>

unbundle bit_operations_syntax

text \<open>The names and types of the attributes.\<close>

fun vlandev_attrs :: "vlandev_attr \<Rightarrow> string \<times> blobmsg_type" where
  "vlandev_attrs VLANDEV_ATTR_IFNAME = (''ifname'', BLOBMSG_TYPE_STRING)"
| "vlandev_attrs VLANDEV_ATTR_VID = (''vid'', BLOBMSG_TYPE_STRING)"
| "vlandev_attrs VLANDEV_ATTR_INGRESS_QOS_MAPPING = (''ingress_qos_mapping'', BLOBMSG_TYPE_ARRAY)"
| "vlandev_attrs VLANDEV_ATTR_EGRESS_QOS_MAPPING = (''egress_qos_mapping'', BLOBMSG_TYPE_ARRAY)"

fun macvlan_attrs :: "macvlan_attr \<Rightarrow> string \<times> blobmsg_type" where
  "macvlan_attrs MACVLAN_ATTR_IFNAME = (''ifname'', BLOBMSG_TYPE_STRING)"
| "macvlan_attrs MACVLAN_ATTR_MACADDR = (''macaddr'', BLOBMSG_TYPE_STRING)"
| "macvlan_attrs MACVLAN_ATTR_MODE = (''mode'', BLOBMSG_TYPE_STRING)"

fun veth_attrs :: "veth_attr \<Rightarrow> string \<times> blobmsg_type" where
  "veth_attrs VETH_ATTR_MACADDR = (''macaddr'', BLOBMSG_TYPE_STRING)"
| "veth_attrs VETH_ATTR_PEER_NAME = (''peer_name'', BLOBMSG_TYPE_STRING)"
| "veth_attrs VETH_ATTR_PEER_MACADDR = (''peer_macaddr'', BLOBMSG_TYPE_STRING)"

section \<open>802.1q and 802.1ad devices\<close>

definition zero_vlandev_config :: vlandev_config where
  "zero_vlandev_config = \<lparr>vc_proto = VLAN_PROTO_8021Q, vc_vid = 0, vc_ingress = vlist_simple_init 0,
     vc_egress = vlist_simple_init 0\<rparr>"

definition zero_vlandev :: vlandev_device where
  "zero_vlandev = \<lparr>vd_parent = zero_device_user, vd_config_data = None, vd_ifname = None, vd_vid = None,
     vd_config = zero_vlandev_config\<rparr>"

definition vlandev_hotplug_op ::
  "rec \<Rightarrow> did \<Rightarrow> did \<Rightarrow> bool \<Rightarrow> world \<Rightarrow> (int \<times> world) option" where
  "vlandev_hotplug_op rec d member add w =
     (case du_dev (vd_parent (w_vlandev w d)) of
        None \<Rightarrow> Some (8, w)
      | Some p \<Rightarrow>
          if dv_hotplug_ops (w_devs w p) = None then Some (8, w)
          else rec (CHotplug p member (Some [Some (digits_of (unat (vc_vid (vd_config (w_vlandev w d)))))]) add) w)"

definition vlandev_hotplug_prepare :: "rec \<Rightarrow> did \<Rightarrow> world \<Rightarrow> (int \<times> world) option" where
  "vlandev_hotplug_prepare rec d w =
     (case du_dev (vd_parent (w_vlandev w d)) of
        None \<Rightarrow> Some (8, w)
      | Some p \<Rightarrow> if dv_hotplug_ops (w_devs w p) = None then Some (8, w) else rec (CPrepare p) w)"

definition vlandev_hotplug_check :: "did \<Rightarrow> world \<Rightarrow> world" where
  "vlandev_hotplug_check d w =
     upd_dev d (\<lambda>x. x\<lparr>dv_hotplug_ops :=
       (case du_dev (vd_parent (w_vlandev w d)) of
          None \<Rightarrow> None
        | Some p \<Rightarrow> if dv_hotplug_ops (w_devs w p) = None \<or> dv_vlans (w_devs w p) = [] \<or>
                       dv_type x \<noteq> DevOther ''8021q'' then None
                    else Some VlandevOps)\<rparr>) w"

definition vlandev_base_cb :: "world_env \<Rightarrow> rec \<Rightarrow> did \<Rightarrow> device_event \<Rightarrow> world \<Rightarrow> world option" where
  "vlandev_base_cb E rec d ev w =
     (case ev of
        DEV_EVENT_ADD \<Rightarrow> device_set_present E rec d True w
      | DEV_EVENT_REMOVE \<Rightarrow> device_set_present E rec d False w
      | DEV_EVENT_UPDATE_IFNAME \<Rightarrow> Some (vlandev_hotplug_check d w)
      | _ \<Rightarrow> Some w)"

definition vlandev_set_down :: "world_env \<Rightarrow> rec \<Rightarrow> did \<Rightarrow> world \<Rightarrow> (int \<times> world) option" where
  "vlandev_set_down E rec d w = do {
     (_, w) \<leftarrow> set_device_state E rec d False w;
     w \<leftarrow> device_release E rec (UVlandev d) (klog_do (KVlandevDel d) w);
     Some (0, w)
   }"

definition vlandev_set_up :: "world_env \<Rightarrow> rec \<Rightarrow> did \<Rightarrow> world \<Rightarrow> (int \<times> world) option" where
  "vlandev_set_up E rec d w = do {
     (ret, w) \<leftarrow> device_claim E rec (UVlandev d) w;
     if ret < 0 then Some (ret, w)
     else do {
       let (ret, w) = klog_ask E (KVlandevAdd d (du_dev (vd_parent (w_vlandev w d))) (vd_config (w_vlandev w d))) w;
       if ret < 0 then do { w \<leftarrow> device_release E rec (UVlandev d) w; Some (ret, w) }
       else do {
         (ret, w) \<leftarrow> set_device_state E rec d True w;
         if ret \<noteq> 0 then do {
           w \<leftarrow> device_release E rec (UVlandev d) (klog_do (KVlandevDel d) w);
           Some (ret, w)
         }
         else Some (0, w)
       }
     }
   }"

definition vlandev_set_state ::
  "world_env \<Rightarrow> rec \<Rightarrow> did \<Rightarrow> bool \<Rightarrow> world \<Rightarrow> (int \<times> world) option" where
  "vlandev_set_state E rec d up w =
     (if up then vlandev_set_up E rec d w else vlandev_set_down E rec d w)"

definition vlandev_free :: "world_env \<Rightarrow> rec \<Rightarrow> did \<Rightarrow> world \<Rightarrow> world option" where
  "vlandev_free E rec d w = do {
     w \<leftarrow> device_remove_user E rec (UVlandev d) w;
     Some (emit (OutFreeDevice d) w)
   }"

text \<open>
  An alias of a VLAN is stored as an \<open>unsigned int\<close> and read as a \<open>uint16_t\<close>, which are its low
  bits on a little-endian machine.
\<close>

definition vlandev_get_vid :: "device option \<Rightarrow> string \<Rightarrow> u16" where
  "vlandev_get_vid dev id_str =
     (let (n, err) = strtoul 10 id_str
      in if err = [] then word_of_nat n
         else case dev of
                None \<Rightarrow> 1
              | Some x \<Rightarrow> (case dv_vlan_aliases x id_str of None \<Rightarrow> 1 | Some a \<Rightarrow> ucast a))"

definition vlandev_config_init :: "world_env \<Rightarrow> rec \<Rightarrow> did \<Rightarrow> world \<Rightarrow> world option" where
  "vlandev_config_init E rec d w = do {
     (basedev, w) \<leftarrow> (case vd_ifname (w_vlandev w d) of
                       None \<Rightarrow> Some (None, w)
                     | Some name \<Rightarrow> device_get E rec name 1 w);
     let vid = (case vd_vid (w_vlandev w d) of
                  None \<Rightarrow> 1
                | Some s \<Rightarrow> vlandev_get_vid (map_option (w_devs w) basedev) s);
     let w = upd_vlandev d (\<lambda>x. x\<lparr>vd_config := (vd_config x)\<lparr>vc_vid := vid\<rparr>\<rparr>) w;
     w \<leftarrow> device_add_user E rec (UVlandev d) basedev w;
     Some (vlandev_hotplug_check d w)
   }"

text \<open>\<open>sscanf(s, "%u:%u", ...)\<close> when it reads both numbers.\<close>

definition scan_qos :: "string \<Rightarrow> vlan_qos_mapping option" where
  "scan_qos s =
     (let (a, e) = strtoul 10 s
      in if e = s \<or> take 1 e \<noteq> '':'' then None
         else let (b, e') = strtoul 10 (tl e)
              in if e' = tl e then None
                 else Some \<lparr>qm_from = word_of_nat a, qm_to = word_of_nat b\<rparr>)"

fun vlandev_qos_mapping_list_apply ::
  "vlan_qos_mapping vlist_simple_tree \<Rightarrow> string option list \<Rightarrow> vlan_qos_mapping vlist_simple_tree" where
  "vlandev_qos_mapping_list_apply li [] = li"
| "vlandev_qos_mapping_list_apply li (cur # rest) =
     vlandev_qos_mapping_list_apply
       (case Option.bind cur scan_qos of
          None \<Rightarrow> li
        | Some q \<Rightarrow> vlist_simple_add li \<lparr>node_version = 0, node_data = q\<rparr>) rest"

definition qos_list_update ::
  "string option list option \<Rightarrow> vlan_qos_mapping vlist_simple_tree \<Rightarrow> vlan_qos_mapping vlist_simple_tree" where
  "qos_list_update cur li =
     vlist_simple_flush (case cur of
        None \<Rightarrow> vlist_simple_update li
      | Some xs \<Rightarrow> vlandev_qos_mapping_list_apply (vlist_simple_update li) xs)"

definition vlandev_apply_settings ::
  "device_type \<Rightarrow> (vlandev_attr \<Rightarrow> string option list option) \<Rightarrow> vlandev_config \<Rightarrow> vlandev_config" where
  "vlandev_apply_settings type arr cfg =
     cfg\<lparr>vc_proto := (if type = DevOther ''8021q'' then VLAN_PROTO_8021Q else VLAN_PROTO_8021AD),
         vc_ingress := qos_list_update (arr VLANDEV_ATTR_INGRESS_QOS_MAPPING) (vc_ingress cfg),
         vc_egress := qos_list_update (arr VLANDEV_ATTR_EGRESS_QOS_MAPPING) (vc_egress cfg)\<rparr>"

text \<open>How a change of the attributes is handled: those of all devices, and those of the type.\<close>

definition reload_change :: "world_env \<Rightarrow> string \<Rightarrow> blob option \<Rightarrow> blob option \<Rightarrow> dev_change_type" where
  "reload_change E type attr old =
     (if we_dev_diff E attr old \<or> we_type_diff E type attr old then DEV_CONFIG_RESTART
      else DEV_CONFIG_APPLIED)"

definition vlandev_reload ::
  "world_env \<Rightarrow> rec \<Rightarrow> did \<Rightarrow> blob option \<Rightarrow> world \<Rightarrow> (dev_change_type \<times> world) option" where
  "vlandev_reload E rec d attr w = do {
     let (tb, arr) = we_vlandev_attrs E attr;
     w \<leftarrow> device_init_settings E rec d (we_dev_attrs E attr) w;
     let w = upd_vlandev d (\<lambda>x. x\<lparr>vd_config := vlandev_apply_settings (dv_type (w_devs w d)) arr (vd_config x),
                                  vd_ifname := attr_string tb VLANDEV_ATTR_IFNAME,
                                  vd_vid := attr_string tb VLANDEV_ATTR_VID\<rparr>) w;
     let old = vd_config_data (w_vlandev w d);
     (ret, w) \<leftarrow> (if old \<noteq> None then do {
                    w \<leftarrow> vlandev_config_init E rec d w;
                    Some (reload_change E ''vlandev'' attr old, w)
                  }
                  else Some (DEV_CONFIG_APPLIED, w));
     Some (ret, upd_vlandev d (\<lambda>x. x\<lparr>vd_config_data := attr\<rparr>) w)
   }"

definition vlandev_create ::
  "world_env \<Rightarrow> string \<Rightarrow> rec \<Rightarrow> string \<Rightarrow> blob option \<Rightarrow> world \<Rightarrow> (did option \<times> world) option" where
  "vlandev_create E devtype rec name attr w = do {
     let d = w_next_dev w;
     let w = upd_vlandev d (\<lambda>_. zero_vlandev) (upd_dev d (\<lambda>_. zero_device) (w\<lparr>w_next_dev := d + 1\<rparr>));
     (ret, w) \<leftarrow> device_init E rec d (DevOther devtype) (Some name) w;
     if ret < 0 then do { w \<leftarrow> device_cleanup E rec d w; Some (None, w) }
     else do {
       let w = upd_dev d (\<lambda>x. x\<lparr>dv_config_pending := True, dv_set_state := Some StateOfType,
                                dv_hotplug_ops := None\<rparr>) w;
       (_, w) \<leftarrow> vlandev_reload E rec d attr w;
       Some (Some d, w)
     }
   }"

section \<open>macvlan devices\<close>

definition zero_macvlan :: macvlan_device where
  "zero_macvlan = \<lparr>mv_parent = zero_device_user, mv_config_data = None, mv_ifname = None,
     mv_config = \<lparr>mc_mode = None, mc_flags = 0, mc_macaddr = replicate 6 0\<rparr>\<rparr>"

definition macvlan_base_cb :: "world_env \<Rightarrow> rec \<Rightarrow> did \<Rightarrow> device_event \<Rightarrow> world \<Rightarrow> world option" where
  "macvlan_base_cb E rec d ev w =
     (case ev of
        DEV_EVENT_ADD \<Rightarrow> device_set_present E rec d True w
      | DEV_EVENT_REMOVE \<Rightarrow> device_set_present E rec d False w
      | _ \<Rightarrow> Some w)"

definition macvlan_set_down :: "world_env \<Rightarrow> rec \<Rightarrow> did \<Rightarrow> world \<Rightarrow> (int \<times> world) option" where
  "macvlan_set_down E rec d w = do {
     (_, w) \<leftarrow> set_device_state E rec d False w;
     w \<leftarrow> device_release E rec (UMacvlan d) (klog_do (KMacvlanDel d) w);
     Some (0, w)
   }"

definition macvlan_set_up :: "world_env \<Rightarrow> rec \<Rightarrow> did \<Rightarrow> world \<Rightarrow> (int \<times> world) option" where
  "macvlan_set_up E rec d w = do {
     (ret, w) \<leftarrow> device_claim E rec (UMacvlan d) w;
     if ret < 0 then Some (ret, w)
     else do {
       let (ret, w) = klog_ask E (KMacvlanAdd d (du_dev (mv_parent (w_macvlan w d))) (mv_config (w_macvlan w d))) w;
       if ret < 0 then do { w \<leftarrow> device_release E rec (UMacvlan d) w; Some (ret, w) }
       else do {
         (ret, w) \<leftarrow> set_device_state E rec d True w;
         if ret \<noteq> 0 then do {
           w \<leftarrow> device_release E rec (UMacvlan d) (klog_do (KMacvlanDel d) w);
           Some (ret, w)
         }
         else Some (0, w)
       }
     }
   }"

definition macvlan_set_state ::
  "world_env \<Rightarrow> rec \<Rightarrow> did \<Rightarrow> bool \<Rightarrow> world \<Rightarrow> (int \<times> world) option" where
  "macvlan_set_state E rec d up w =
     (if up then macvlan_set_up E rec d w else macvlan_set_down E rec d w)"

definition macvlan_free :: "world_env \<Rightarrow> rec \<Rightarrow> did \<Rightarrow> world \<Rightarrow> world option" where
  "macvlan_free E rec d w = do {
     w \<leftarrow> device_remove_user E rec (UMacvlan d) w;
     Some (emit (OutFreeDevice d) w)
   }"

definition macvlan_config_init :: "world_env \<Rightarrow> rec \<Rightarrow> did \<Rightarrow> world \<Rightarrow> world option" where
  "macvlan_config_init E rec d w = do {
     (basedev, w) \<leftarrow> (case mv_ifname (w_macvlan w d) of
                       None \<Rightarrow> Some (None, w)
                     | Some name \<Rightarrow> device_get E rec name 1 w);
     device_add_user E rec (UMacvlan d) basedev w
   }"

definition macvlan_apply_settings ::
  "(string \<Rightarrow> u8 list option) \<Rightarrow> macvlan_attr attr_tb \<Rightarrow> macvlan_config \<Rightarrow> macvlan_config" where
  "macvlan_apply_settings aton tb cfg =
     (let cfg = cfg\<lparr>mc_flags := 0, mc_mode := attr_string tb MACVLAN_ATTR_MODE\<rparr>
      in case Option.bind (attr_string tb MACVLAN_ATTR_MACADDR) aton of
           None \<Rightarrow> cfg
         | Some ea \<Rightarrow> cfg\<lparr>mc_macaddr := ea, mc_flags := MACVLAN_OPT_MACADDR\<rparr>)"

definition macvlan_reload ::
  "world_env \<Rightarrow> rec \<Rightarrow> did \<Rightarrow> blob option \<Rightarrow> world \<Rightarrow> (dev_change_type \<times> world) option" where
  "macvlan_reload E rec d attr w = do {
     let tb = we_macvlan_attrs E attr;
     w \<leftarrow> device_init_settings E rec d (we_dev_attrs E attr) w;
     let w = upd_macvlan d (\<lambda>x. x\<lparr>mv_config := macvlan_apply_settings (we_ether_aton E) tb (mv_config x),
                                  mv_ifname := attr_string tb MACVLAN_ATTR_IFNAME\<rparr>) w;
     let old = mv_config_data (w_macvlan w d);
     (ret, w) \<leftarrow> (if old \<noteq> None then do {
                    w \<leftarrow> macvlan_config_init E rec d w;
                    Some (reload_change E ''macvlan'' attr old, w)
                  }
                  else Some (DEV_CONFIG_APPLIED, w));
     Some (ret, upd_macvlan d (\<lambda>x. x\<lparr>mv_config_data := attr\<rparr>) w)
   }"

definition macvlan_create ::
  "world_env \<Rightarrow> rec \<Rightarrow> string \<Rightarrow> blob option \<Rightarrow> world \<Rightarrow> (did option \<times> world) option" where
  "macvlan_create E rec name attr w = do {
     let d = w_next_dev w;
     let w = upd_macvlan d (\<lambda>_. zero_macvlan) (upd_dev d (\<lambda>_. zero_device) (w\<lparr>w_next_dev := d + 1\<rparr>));
     (ret, w) \<leftarrow> device_init E rec d (DevOther ''macvlan'') (Some name) w;
     if ret < 0 then do { w \<leftarrow> device_cleanup E rec d w; Some (None, w) }
     else do {
       let w = upd_dev d (\<lambda>x. x\<lparr>dv_config_pending := True, dv_set_state := Some StateOfType,
                                dv_hotplug_ops := None\<rparr>) w;
       (_, w) \<leftarrow> macvlan_reload E rec d attr w;
       Some (Some d, w)
     }
   }"

section \<open>veth pairs\<close>

definition zero_veth :: veth where
  "zero_veth = \<lparr>vt_config_data = None, vt_config = \<lparr>ve_flags = 0, ve_macaddr = replicate 6 0,
     ve_peer_name = [], ve_peer_macaddr = replicate 6 0\<rparr>\<rparr>"

definition veth_set_state ::
  "world_env \<Rightarrow> rec \<Rightarrow> did \<Rightarrow> bool \<Rightarrow> world \<Rightarrow> (int \<times> world) option" where
  "veth_set_state E rec d up w =
     (if up then do {
        let (ret, w) = klog_ask E (KVethAdd d (vt_config (w_veth w d))) w;
        if ret < 0 then Some (ret, w)
        else do {
          (ret, w) \<leftarrow> set_device_state E rec d True w;
          Some (if ret \<noteq> 0 then (ret, klog_do (KVethDel d) w) else (0, w))
        }
      }
      else do {
        (_, w) \<leftarrow> set_device_state E rec d False w;
        Some (0, klog_do (KVethDel d) w)
      })"

definition veth_free :: "rec \<Rightarrow> did \<Rightarrow> world \<Rightarrow> world option" where
  "veth_free rec d w = Some (emit (OutFreeDevice d) w)"

definition veth_config_init :: "world_env \<Rightarrow> rec \<Rightarrow> did \<Rightarrow> world \<Rightarrow> world option" where
  "veth_config_init E rec d w = device_set_present E rec d True w"

text \<open>\<open>strncpy\<close> copies at most 15 characters of the name of the peer.\<close>

definition veth_apply_settings ::
  "(string \<Rightarrow> u8 list option) \<Rightarrow> veth_attr attr_tb \<Rightarrow> veth_config \<Rightarrow> veth_config" where
  "veth_apply_settings aton tb cfg =
     (let cfg = cfg\<lparr>ve_flags := 0\<rparr>;
          cfg = (case Option.bind (attr_string tb VETH_ATTR_MACADDR) aton of
                   None \<Rightarrow> cfg
                 | Some ea \<Rightarrow> cfg\<lparr>ve_macaddr := ea, ve_flags := ve_flags cfg OR VETH_OPT_MACADDR\<rparr>);
          cfg = (case attr_string tb VETH_ATTR_PEER_NAME of
                   None \<Rightarrow> cfg
                 | Some s \<Rightarrow> cfg\<lparr>ve_peer_name := take 15 s, ve_flags := ve_flags cfg OR VETH_OPT_PEER_NAME\<rparr>)
      in case Option.bind (attr_string tb VETH_ATTR_PEER_MACADDR) aton of
           None \<Rightarrow> cfg
         | Some ea \<Rightarrow> cfg\<lparr>ve_peer_macaddr := ea, ve_flags := ve_flags cfg OR VETH_OPT_PEER_MACADDR\<rparr>)"

definition veth_reload ::
  "world_env \<Rightarrow> rec \<Rightarrow> did \<Rightarrow> blob option \<Rightarrow> world \<Rightarrow> (dev_change_type \<times> world) option" where
  "veth_reload E rec d attr w = do {
     w \<leftarrow> device_init_settings E rec d (we_dev_attrs E attr) w;
     let w = upd_veth d (\<lambda>x. x\<lparr>vt_config := veth_apply_settings (we_ether_aton E) (we_veth_attrs E attr)
                                             (vt_config x)\<rparr>) w;
     let old = vt_config_data (w_veth w d);
     (ret, w) \<leftarrow> (if old \<noteq> None then do {
                    w \<leftarrow> veth_config_init E rec d w;
                    Some (reload_change E ''veth'' attr old, w)
                  }
                  else Some (DEV_CONFIG_APPLIED, w));
     Some (ret, upd_veth d (\<lambda>x. x\<lparr>vt_config_data := attr\<rparr>) w)
   }"

definition veth_create ::
  "world_env \<Rightarrow> rec \<Rightarrow> string \<Rightarrow> blob option \<Rightarrow> world \<Rightarrow> (did option \<times> world) option" where
  "veth_create E rec name attr w = do {
     let d = w_next_dev w;
     let w = upd_veth d (\<lambda>_. zero_veth) (upd_dev d (\<lambda>_. zero_device) (w\<lparr>w_next_dev := d + 1\<rparr>));
     (ret, w) \<leftarrow> device_init E rec d (DevOther ''veth'') (Some name) w;
     if ret < 0 then do { w \<leftarrow> device_cleanup E rec d w; Some (None, w) }
     else do {
       let w = upd_dev d (\<lambda>x. x\<lparr>dv_config_pending := True, dv_set_state := Some StateOfType,
                                dv_hotplug_ops := None\<rparr>) w;
       (_, w) \<leftarrow> veth_reload E rec d attr w;
       Some (Some d, w)
     }
   }"

section \<open>Tunnels\<close>

definition tunnel_set_state ::
  "world_env \<Rightarrow> rec \<Rightarrow> did \<Rightarrow> bool \<Rightarrow> world \<Rightarrow> (int \<times> world) option" where
  "tunnel_set_state E rec d up w = do {
     let (ret, w) = (if up then klog_ask E (KTunnelAdd d (dv_config (w_devs w d))) w else (0, w));
     if ret \<noteq> 0 then Some (ret, w)
     else do {
       (ret, w) \<leftarrow> set_device_state E rec d up w;
       Some (ret, if ret \<noteq> 0 \<or> \<not> up then klog_do (KTunnelDel d) w else w)
     }
   }"

definition tunnel_reload ::
  "world_env \<Rightarrow> rec \<Rightarrow> did \<Rightarrow> blob option \<Rightarrow> world \<Rightarrow> (dev_change_type \<times> world) option" where
  "tunnel_reload E rec d attr w =
     (if we_blob_equal E (dv_config (w_devs w d)) attr then Some (DEV_CONFIG_NO_CHANGE, w)
      else do {
        w \<leftarrow> device_init_settings E rec d (if attr = None then (\<lambda>_. None) else we_dev_attrs E attr) w;
        Some (DEV_CONFIG_RESTART, w)
      })"

text \<open>The tunnel type as far as \<open>device_apply_config\<close> uses it.\<close>

definition with_tunnel :: "world_env \<Rightarrow> world_env" where
  "with_tunnel E = E\<lparr>we_type := (we_type E)(''tunnel'' := (we_type E ''tunnel'')\<lparr>ty_reload := Some (tunnel_reload E)\<rparr>)\<rparr>"

definition tunnel_create ::
  "world_env \<Rightarrow> rec \<Rightarrow> string \<Rightarrow> blob option \<Rightarrow> world \<Rightarrow> (did option \<times> world) option" where
  "tunnel_create E rec name attr w = do {
     let d = w_next_dev w;
     let w = upd_dev d (\<lambda>_. zero_device) (w\<lparr>w_next_dev := d + 1\<rparr>);
     (ret, w) \<leftarrow> device_init E rec d (DevOther ''tunnel'') (Some name) w;
     if ret < 0 then do { w \<leftarrow> device_cleanup E rec d w; Some (None, w) }
     else do {
       (_, w) \<leftarrow> device_apply_config (with_tunnel E) rec d (DevOther ''tunnel'') attr
                   (upd_dev d (\<lambda>x. x\<lparr>dv_set_state := Some StateOfType\<rparr>) w);
       w \<leftarrow> device_set_present E rec d True w;
       Some (Some d, w)
     }
   }"

definition tunnel_free :: "rec \<Rightarrow> did \<Rightarrow> world \<Rightarrow> world option" where
  "tunnel_free rec d w = Some (emit (OutFreeDevice d) w)"

end
