(* ===== verification/Bridge.thy ===== *)
theory Bridge
  imports StackedDev
begin

text \<open>
  Bridge devices, \<open>src/bridge.c\<close>: the members of a bridge, which are device users that follow
  their devices, the VLANs of the members, ports that other programs add and remove, and the
  settings. A loop over the members of a bridge visits those that were members when it began and
  skips the ones that have left; a NULL pointer that is followed ends the program (\<open>None\<close>).
\<close>

unbundle bit_operations_syntax

fun bridge_attrs :: "bridge_attr \<Rightarrow> string \<times> blobmsg_type" where
  "bridge_attrs BRIDGE_ATTR_PORTS = (''ports'', BLOBMSG_TYPE_ARRAY)"
| "bridge_attrs BRIDGE_ATTR_STP = (''stp'', BLOBMSG_TYPE_BOOL)"
| "bridge_attrs BRIDGE_ATTR_FORWARD_DELAY = (''forward_delay'', BLOBMSG_TYPE_INT32)"
| "bridge_attrs BRIDGE_ATTR_PRIORITY = (''priority'', BLOBMSG_TYPE_INT32)"
| "bridge_attrs BRIDGE_ATTR_AGEING_TIME = (''ageing_time'', BLOBMSG_TYPE_INT32)"
| "bridge_attrs BRIDGE_ATTR_HELLO_TIME = (''hello_time'', BLOBMSG_TYPE_INT32)"
| "bridge_attrs BRIDGE_ATTR_MAX_AGE = (''max_age'', BLOBMSG_TYPE_INT32)"
| "bridge_attrs BRIDGE_ATTR_IGMP_SNOOP = (''igmp_snooping'', BLOBMSG_TYPE_BOOL)"
| "bridge_attrs BRIDGE_ATTR_BRIDGE_EMPTY = (''bridge_empty'', BLOBMSG_TYPE_BOOL)"
| "bridge_attrs BRIDGE_ATTR_MULTICAST_QUERIER = (''multicast_querier'', BLOBMSG_TYPE_BOOL)"
| "bridge_attrs BRIDGE_ATTR_HASH_MAX = (''hash_max'', BLOBMSG_TYPE_INT32)"
| "bridge_attrs BRIDGE_ATTR_ROBUSTNESS = (''robustness'', BLOBMSG_TYPE_INT32)"
| "bridge_attrs BRIDGE_ATTR_QUERY_INTERVAL = (''query_interval'', BLOBMSG_TYPE_INT32)"
| "bridge_attrs BRIDGE_ATTR_QUERY_RESPONSE_INTERVAL = (''query_response_interval'', BLOBMSG_TYPE_INT32)"
| "bridge_attrs BRIDGE_ATTR_LAST_MEMBER_INTERVAL = (''last_member_interval'', BLOBMSG_TYPE_INT32)"
| "bridge_attrs BRIDGE_ATTR_VLAN_FILTERING = (''vlan_filtering'', BLOBMSG_TYPE_BOOL)"
| "bridge_attrs BRIDGE_ATTR_HAS_VLANS = (''__has_vlans'', BLOBMSG_TYPE_BOOL)"
| "bridge_attrs BRIDGE_ATTR_STP_KERNEL = (''stp_kernel'', BLOBMSG_TYPE_BOOL)"
| "bridge_attrs BRIDGE_ATTR_STP_PROTO = (''stp_proto'', BLOBMSG_TYPE_STRING)"

definition zero_bridge_config :: bridge_config where
  "zero_bridge_config = \<lparr>bc_flags = 0, bc_stp = False, bc_stp_kernel = False, bc_stp_proto = None,
     bc_igmp_snoop = False, bc_multicast_querier = False, bc_robustness = 0, bc_query_interval = 0,
     bc_query_response_interval = 0, bc_last_member_interval = 0, bc_priority = 0, bc_forward_delay = 0,
     bc_bridge_empty = False, bc_ageing_time = 0, bc_hello_time = 0, bc_max_age = 0, bc_hash_max = 0,
     bc_vlan_filtering = False\<rparr>"

definition zero_bridge :: bridge_state where
  "zero_bridge = \<lparr>bs_config_data = None, bs_config = zero_bridge_config, bs_ports = None, bs_active = False,
     bs_force_active = False, bs_has_vlans = False, bs_retry = False, bs_primary_port = None,
     bs_members = [], bs_members_version = 1, bs_n_present = 0, bs_n_failed = 0\<rparr>"

definition zero_member :: bridge_member where
  "zero_member = \<lparr>bm_version = 0, bm_bst = 0, bm_dev = zero_device_user, bm_check = False, bm_pvid = 0,
     bm_present = False, bm_active = False, bm_name = []\<rparr>"

definition member_dev :: "world \<Rightarrow> mid \<Rightarrow> did option" where
  "member_dev w m = du_dev (bm_dev (w_member w m))"

text \<open>A loop over the members of bridge \<open>b\<close>.\<close>

fun each_member :: "did \<Rightarrow> (mid \<Rightarrow> world \<Rightarrow> world option) \<Rightarrow> mid list \<Rightarrow> world \<Rightarrow> world option" where
  "each_member b f [] w = Some w"
| "each_member b f (m # ms) w = do {
     w \<leftarrow> (if m \<in> set (bs_members (w_bridge w b)) then f m w else Some w);
     each_member b f ms w
   }"

definition bridge_reset_primary :: "did \<Rightarrow> world \<Rightarrow> world option" where
  "bridge_reset_primary b w =
     (if bs_primary_port (w_bridge w b) = None \<and> has_flag (ds_flags (dv_settings (w_devs w b))) DEV_OPT_MACADDR
      then Some w
      else let w = upd_bridge b (\<lambda>x. x\<lparr>bs_primary_port := None\<rparr>) w;
               w = upd_dev b (\<lambda>x. x\<lparr>dv_settings := (dv_settings x)
                     \<lparr>ds_flags := ds_flags (dv_settings x) AND NOT DEV_OPT_MACADDR\<rparr>\<rparr>) w
           in case find (\<lambda>m. bm_present (w_member w m)) (bs_members (w_bridge w b)) of
                None \<Rightarrow> Some w
              | Some m \<Rightarrow>
                  (case member_dev w m of
                     None \<Rightarrow> None
                   | Some d \<Rightarrow>
                       let dev = w_devs w d;
                           macaddr = (if has_flag (ds_flags (dv_settings dev)) DEV_OPT_MACADDR
                                      then ds_macaddr (dv_settings dev) else ds_macaddr (dv_orig_settings dev))
                       in Some (upd_dev b (\<lambda>x. x\<lparr>dv_settings := (dv_settings x)
                                  \<lparr>ds_macaddr := macaddr, ds_flags := ds_flags (dv_settings x) OR DEV_OPT_MACADDR\<rparr>\<rparr>)
                                (upd_bridge b (\<lambda>x. x\<lparr>bs_primary_port := Some m\<rparr>) w))))"

section \<open>The VLANs of members\<close>

definition bridge_find_vlan_member_port :: "string \<Rightarrow> bridge_vlan \<Rightarrow> bridge_vlan_port option" where
  "bridge_find_vlan_member_port ifname vlan =
     (case find (\<lambda>p. bp_ifname p = ifname) (bv_ports vlan) of
        Some p \<Rightarrow> Some p
      | None \<Rightarrow> find (\<lambda>p. bp_ifname p = ifname) (bv_hotplug_ports vlan))"

definition bridge_member_vlan_is_pvid :: "u16 \<Rightarrow> bridge_vlan_port \<Rightarrow> bool" where
  "bridge_member_vlan_is_pvid pvid port \<longleftrightarrow>
     pvid = 0 \<and> has_flag (bp_flags port) BRVLAN_F_UNTAGGED \<or> has_flag (bp_flags port) BRVLAN_F_PVID"

definition set_member_vlan_req :: "u16 \<Rightarrow> bridge_vlan \<Rightarrow> bridge_vlan_port \<Rightarrow> bool \<Rightarrow> kreq" where
  "set_member_vlan_req pvid vlan port add =
     KBridgeVlan (bp_ifname port) (bv_vid vlan) add
       (if pvid = bv_vid vlan then bp_flags port OR BRVLAN_F_PVID else bp_flags port)"

definition bridge_set_member_vlan :: "mid \<Rightarrow> bridge_vlan \<Rightarrow> bool \<Rightarrow> world \<Rightarrow> world option" where
  "bridge_set_member_vlan m vlan add w =
     (if \<not> bm_present (w_member w m) then Some w
      else case member_dev w m of
             None \<Rightarrow> None
           | Some d \<Rightarrow>
               (case bridge_find_vlan_member_port (dv_ifname (w_devs w d)) vlan of
                  None \<Rightarrow> Some w
                | Some port \<Rightarrow>
                    let w = (if bridge_member_vlan_is_pvid (bm_pvid (w_member w m)) port
                             then upd_member m (\<lambda>x. x\<lparr>bm_pvid := bv_vid vlan\<rparr>) w else w)
                    in Some (klog_do (set_member_vlan_req (bm_pvid (w_member w m)) vlan port add) w)))"

fun set_member_vlans :: "mid \<Rightarrow> bridge_vlan list \<Rightarrow> bool \<Rightarrow> world \<Rightarrow> world option" where
  "set_member_vlans m [] add w = Some w"
| "set_member_vlans m (v # vs) add w = do {
     w \<leftarrow> bridge_set_member_vlan m v add w;
     set_member_vlans m vs add w
   }"

definition bridge_set_local_vlan :: "did \<Rightarrow> bridge_vlan \<Rightarrow> bool \<Rightarrow> world \<Rightarrow> world" where
  "bridge_set_local_vlan b vlan add w =
     (if \<not> bv_local vlan \<and> add then w
      else klog_do (KBridgeVlan (dv_ifname (w_devs w b)) (bv_vid vlan) add BRVLAN_F_SELF) w)"

definition bridge_set_local_vlans :: "did \<Rightarrow> bool \<Rightarrow> world \<Rightarrow> world" where
  "bridge_set_local_vlans b add w =
     fold (\<lambda>vlan. bridge_set_local_vlan b vlan add) (dv_vlans (w_devs w b)) w"

fun recalc_pvid :: "string \<Rightarrow> u16 \<Rightarrow> bridge_vlan list \<Rightarrow> bridge_vlan option \<Rightarrow> bridge_vlan option" where
  "recalc_pvid ifname pvid [] ret = ret"
| "recalc_pvid ifname pvid (vlan # vs) ret =
     (case bridge_find_vlan_member_port ifname vlan of
        None \<Rightarrow> recalc_pvid ifname pvid vs ret
      | Some port \<Rightarrow>
          if \<not> bridge_member_vlan_is_pvid pvid port then recalc_pvid ifname pvid vs ret
          else if has_flag (bp_flags port) BRVLAN_F_PVID then Some vlan
          else recalc_pvid ifname pvid vs (Some vlan))"

definition bridge_recalc_member_pvid :: "did \<Rightarrow> string \<Rightarrow> mid \<Rightarrow> world \<Rightarrow> bridge_vlan option" where
  "bridge_recalc_member_pvid b ifname m w =
     recalc_pvid ifname (bm_pvid (w_member w m)) (dv_vlans (w_devs w b)) None"

text \<open>What \<open>bridge_set_vlan_state\<close> does for one member.\<close>

definition member_vlan_state ::
  "did \<Rightarrow> bridge_vlan \<Rightarrow> bool \<Rightarrow> mid \<Rightarrow> world \<Rightarrow> world option" where
  "member_vlan_state b vlan add m w =
     (case member_dev w m of
        None \<Rightarrow> None
      | Some d \<Rightarrow>
          (case bridge_find_vlan_member_port (dv_ifname (w_devs w d)) vlan of
             None \<Rightarrow> Some w
           | Some port \<Rightarrow> do {
               (new_pvid, w) \<leftarrow>
                 (if add then
                    Some (None, if bridge_member_vlan_is_pvid (bm_pvid (w_member w m)) port
                                then upd_member m (\<lambda>x. x\<lparr>bm_pvid := bv_vid vlan\<rparr>) w else w)
                  else if bm_pvid (w_member w m) = bv_vid vlan then do {
                    let vlan2 = bridge_recalc_member_pvid b (dv_ifname (w_devs w d)) m w;
                    w \<leftarrow> (case vlan2 of
                           None \<Rightarrow> Some w
                         | Some v2 \<Rightarrow>
                             if bv_vid v2 = bv_vid vlan then Some w
                             else do {
                               w \<leftarrow> bridge_set_member_vlan m v2 False w;
                               bridge_set_member_vlan m v2 True w
                             });
                    Some (Some (case vlan2 of None \<Rightarrow> 0 | Some v2 \<Rightarrow> bv_vid v2), w)
                  }
                  else Some (None, w));
               if \<not> bm_present (w_member w m) then Some w
               else do {
                 let w = klog_do (set_member_vlan_req (bm_pvid (w_member w m)) vlan port add) w;
                 Some (case new_pvid of None \<Rightarrow> w | Some k \<Rightarrow> upd_member m (\<lambda>x. x\<lparr>bm_pvid := k\<rparr>) w)
               }
             }))"

definition bridge_set_vlan_state :: "did \<Rightarrow> bridge_vlan \<Rightarrow> bool \<Rightarrow> world \<Rightarrow> world option" where
  "bridge_set_vlan_state b vlan add w =
     each_member b (member_vlan_state b vlan add) (bs_members (w_bridge w b))
       (bridge_set_local_vlan b vlan add w)"

section \<open>Members\<close>

definition bridge_disable_member ::
  "world_env \<Rightarrow> rec \<Rightarrow> mid \<Rightarrow> bool \<Rightarrow> world \<Rightarrow> world option" where
  "bridge_disable_member E rec m keep_dev w =
     (if \<not> bm_present (w_member w m) \<or> \<not> bm_active (w_member w m) then Some w
      else do {
        let b = bm_bst (w_member w m);
        w \<leftarrow> set_member_vlans m (dv_vlans (w_devs w b)) False (upd_member m (\<lambda>x. x\<lparr>bm_active := False\<rparr>) w);
        case member_dev w m of
          None \<Rightarrow> None
        | Some d \<Rightarrow> do {
            let w = klog_do (KBridgeDelif b d) w;
            w \<leftarrow> (if keep_dev then Some w else device_release E rec (UMember m) w);
            device_broadcast_event E rec b DEV_EVENT_TOPO_CHANGE w
          }
      })"

definition bridge_stp_notify :: "did \<Rightarrow> world \<Rightarrow> world" where
  "bridge_stp_notify b w =
     (let cfg = bs_config (w_bridge w b)
      in if \<not> bc_stp cfg \<or> bc_stp_kernel cfg then w else emit (OutStpInit (dv_ifname (w_devs w b)) cfg) w)"

definition bridge_enable_interface :: "world_env \<Rightarrow> did \<Rightarrow> world \<Rightarrow> int \<times> world" where
  "bridge_enable_interface E b w =
     (if bs_active (w_bridge w b) then (0, w)
      else let w = bridge_stp_notify b w;
               (ret, w) = klog_ask E (KBridgeAddbr b (bs_config (w_bridge w b))) w
           in if ret < 0 then (ret, w)
              else let w = (if bs_has_vlans (w_bridge w b)
                            then bridge_set_local_vlans b True
                                   (klog_do (KBridgeVlan (dv_ifname (w_devs w b)) 1 False BRVLAN_F_SELF) w)
                            else w)
                   in (0, upd_bridge b (\<lambda>x. x\<lparr>bs_active := True\<rparr>) w))"

definition bridge_stp_init :: "did \<Rightarrow> world \<Rightarrow> world" where
  "bridge_stp_init b w =
     (if \<not> bc_stp (bs_config (w_bridge w b)) \<or> \<not> bs_active (w_bridge w b) then w
      else klog_do (KBridgeStpState b True) (klog_do (KBridgeStpState b False) (bridge_stp_notify b w)))"

definition bridge_disable_interface :: "did \<Rightarrow> world \<Rightarrow> world" where
  "bridge_disable_interface b w =
     (if \<not> bs_active (w_bridge w b) then w
      else upd_bridge b (\<lambda>x. x\<lparr>bs_active := False\<rparr>) (klog_do (KBridgeDelbr b) w))"

text \<open>The error path of \<open>bridge_enable_member\<close>.\<close>

definition enable_member_error ::
  "world_env \<Rightarrow> rec \<Rightarrow> mid \<Rightarrow> int \<Rightarrow> world \<Rightarrow> (int \<times> world) option" where
  "enable_member_error E rec m ret w = do {
     let b = bm_bst (w_member w m);
     let w = upd_bridge b (\<lambda>x. x\<lparr>bs_n_failed := bs_n_failed x + 1, bs_n_present := bs_n_present x - 1\<rparr>) w;
     w \<leftarrow> device_release E rec (UMember m) (upd_member m (\<lambda>x. x\<lparr>bm_present := False\<rparr>) w);
     Some (ret, w)
   }"

text \<open>Adding a claimed device to the bridge.\<close>

definition add_member_dev ::
  "world_env \<Rightarrow> rec \<Rightarrow> mid \<Rightarrow> did \<Rightarrow> world \<Rightarrow> (int \<times> world) option" where
  "add_member_dev E rec m d w = do {
     let b = bm_bst (w_member w m);
     let (ret, w) = klog_ask E (KBridgeAddif b d) w;
     if ret < 0 then enable_member_error E rec m ret w
     else do {
       let w = upd_member m (\<lambda>x. x\<lparr>bm_active := True\<rparr>) w;
       w \<leftarrow> (if bs_has_vlans (w_bridge w b)
            then set_member_vlans m (dv_vlans (w_devs w b)) True
                   (klog_do (KBridgeVlan (dv_ifname (w_devs w d)) 1 False 0) w)
            else Some w);
       w \<leftarrow> device_set_present E rec b True w;
       w \<leftarrow> device_broadcast_event E rec b DEV_EVENT_TOPO_CHANGE w;
       Some (0, w)
     }
   }"

definition no_ipv6 :: "device_settings \<Rightarrow> device_settings" where
  "no_ipv6 s = (if has_flag (ds_flags s) DEV_OPT_IPV6 then s
                else s\<lparr>ds_ipv6 := False, ds_flags := ds_flags s OR DEV_OPT_IPV6\<rparr>)"

definition bridge_enable_member :: "world_env \<Rightarrow> rec \<Rightarrow> mid \<Rightarrow> world \<Rightarrow> (int \<times> world) option" where
  "bridge_enable_member E rec m w =
     (if \<not> bm_present (w_member w m) then Some (0, w)
      else do {
        let (ret, w) = bridge_enable_interface E (bm_bst (w_member w m)) w;
        if ret \<noteq> 0 then enable_member_error E rec m ret w
        else case member_dev w m of
          None \<Rightarrow> None
        | Some d \<Rightarrow> do {
            let w = upd_dev d (\<lambda>x. x\<lparr>dv_settings := no_ipv6 (dv_settings x)\<rparr>) w;
            (ret, w) \<leftarrow> device_claim E rec (UMember m) w;
            if ret < 0 then enable_member_error E rec m ret w
            else case member_dev w m of
              None \<Rightarrow> None
            | Some d \<Rightarrow>
                if ds_auth (dv_settings (w_devs w d)) \<and> \<not> dv_auth_status (w_devs w d) then Some (-1, w)
                else if bm_active (w_member w m) then Some (0, w)
                else add_member_dev E rec m d w
          }
      })"

definition bridge_remove_member :: "world_env \<Rightarrow> rec \<Rightarrow> mid \<Rightarrow> world \<Rightarrow> world option" where
  "bridge_remove_member E rec m w =
     (if \<not> bm_present (w_member w m) then Some w
      else do {
        let b = bm_bst (w_member w m);
        w \<leftarrow> (if dv_active (w_devs w b) \<noteq> 0 then bridge_disable_member E rec m False w else Some w);
        let w = upd_bridge b (\<lambda>x. x\<lparr>bs_n_present := bs_n_present x - 1\<rparr>)
                  (upd_member m (\<lambda>x. x\<lparr>bm_present := False\<rparr>) w);
        w \<leftarrow> (if bs_primary_port (w_bridge w b) = Some m then bridge_reset_primary b w else Some w);
        if bc_bridge_empty (bs_config (w_bridge w b)) then Some w
        else do {
          let w = upd_bridge b (\<lambda>x. x\<lparr>bs_force_active := False\<rparr>) w;
          if bs_n_present (w_bridge w b) = 0 then device_set_present E rec b False w else Some w
        }
      })"

section \<open>The tree of VLANs\<close>

definition bridge_vlan_equal :: "bridge_vlan \<Rightarrow> bridge_vlan \<Rightarrow> bool" where
  "bridge_vlan_equal v1 v2 \<longleftrightarrow>
     length (bv_ports v1) = length (bv_ports v2) \<and>
     list_all2 (\<lambda>p q. bp_flags p = bp_flags q \<and> bp_ifname p = bp_ifname q) (bv_ports v1) (bv_ports v2)"

definition bridge_find_vlan :: "did \<Rightarrow> u16 \<Rightarrow> world \<Rightarrow> bridge_vlan option" where
  "bridge_find_vlan b vid w = find (\<lambda>v. bv_vid v = vid) (dv_vlans (w_devs w b))"

definition upd_bridge_vlan :: "did \<Rightarrow> u16 \<Rightarrow> (bridge_vlan \<Rightarrow> bridge_vlan) \<Rightarrow> world \<Rightarrow> world" where
  "upd_bridge_vlan b vid f =
     upd_dev b (\<lambda>x. x\<lparr>dv_vlans := map (\<lambda>v. if bv_vid v = vid then f v else v) (dv_vlans x)\<rparr>)"

definition bridge_avl_cmp_u16 :: "u16 \<Rightarrow> u16 \<Rightarrow> int" where
  "bridge_avl_cmp_u16 a b = uint a - uint b"

text \<open>
  \<open>vlan_new\<close> is in the tree already and \<open>vlan_old\<close> has left it. The ports that were added at run
  time move to the new VLAN.
\<close>

definition bridge_vlan_update ::
  "did \<Rightarrow> bridge_vlan option \<Rightarrow> bridge_vlan option \<Rightarrow> world \<Rightarrow> world option" where
  "bridge_vlan_update b vlan_new vlan_old w =
     (let take_ports = (case (vlan_new, vlan_old) of
            (Some n, Some v) \<Rightarrow> upd_bridge_vlan b (bv_vid n) (\<lambda>x. x\<lparr>bv_hotplug_ports := bv_hotplug_ports v @ bv_hotplug_ports x\<rparr>)
          | _ \<Rightarrow> (\<lambda>w. w))
      in if \<not> bs_has_vlans (w_bridge w b) \<or> \<not> bs_active (w_bridge w b) then Some w
         else if (case (vlan_new, vlan_old) of (Some n, Some v) \<Rightarrow> bridge_vlan_equal v n | _ \<Rightarrow> False)
         then Some (take_ports w)
         else do {
           w \<leftarrow> (case vlan_old of None \<Rightarrow> Some w | Some v \<Rightarrow> bridge_set_vlan_state b v False w);
           let w = take_ports w;
           let w = (case vlan_new of None \<Rightarrow> w
                                  | Some n \<Rightarrow> upd_bridge_vlan b (bv_vid n) (\<lambda>x. x\<lparr>bv_pending := True\<rparr>) w);
           Some (upd_dev b (\<lambda>x. x\<lparr>dv_config_pending := True\<rparr>) w)
         })"

definition vlan_vlist_add :: "did \<Rightarrow> bridge_vlan \<Rightarrow> world \<Rightarrow> world option" where
  "vlan_vlist_add b vlan w =
     (let old = bridge_find_vlan b (bv_vid vlan) w;
          vlan = vlan\<lparr>bv_version := dv_vlans_version (w_devs w b)\<rparr>
      in bridge_vlan_update b (Some vlan) old
           (upd_dev b (\<lambda>x. x\<lparr>dv_vlans := avl_insert (\<lambda>p q. bridge_avl_cmp_u16 (bv_vid p) (bv_vid q)) vlan
                               (filter (\<lambda>v. bv_vid v \<noteq> bv_vid vlan) (dv_vlans x))\<rparr>) w))"

definition vlan_vlist_delete :: "did \<Rightarrow> bridge_vlan \<Rightarrow> world \<Rightarrow> world option" where
  "vlan_vlist_delete b vlan w =
     bridge_vlan_update b None (Some vlan)
       (upd_dev b (\<lambda>x. x\<lparr>dv_vlans := filter (\<lambda>v. bv_vid v \<noteq> bv_vid vlan) (dv_vlans x)\<rparr>) w)"

fun vlan_vlist_flush :: "did \<Rightarrow> bridge_vlan list \<Rightarrow> world \<Rightarrow> world option" where
  "vlan_vlist_flush b [] w = Some w"
| "vlan_vlist_flush b (v # vs) w = do {
     let version = dv_vlans_version (w_devs w b);
     w \<leftarrow> (if (bv_version v = version \<or> bv_version v = -1) \<and> version \<noteq> -1 then Some w
          else vlan_vlist_delete b v w);
     vlan_vlist_flush b vs w
   }"

fun bridge_dev_vlan_update :: "did \<Rightarrow> bridge_vlan list \<Rightarrow> world \<Rightarrow> world option" where
  "bridge_dev_vlan_update b [] w = Some w"
| "bridge_dev_vlan_update b (v # vs) w = do {
     w \<leftarrow> (if \<not> bv_pending v then Some w
          else bridge_set_vlan_state b (v\<lparr>bv_pending := False\<rparr>) True
                 (upd_bridge_vlan b (bv_vid v) (\<lambda>x. x\<lparr>bv_pending := False\<rparr>) w));
     bridge_dev_vlan_update b vs w
   }"

section \<open>Removing and creating members\<close>

text \<open>
  The ports of a member that were added at run time, and the VLANs that were made for them, go with
  it. After a deletion the code walks over the VLANs from the start; those before the deleted one
  have no such port any more, so going on with the next one is the same.
\<close>

fun free_member_vlans :: "did \<Rightarrow> string \<Rightarrow> bridge_vlan list \<Rightarrow> world \<Rightarrow> world option" where
  "free_member_vlans b ifname [] w = Some w"
| "free_member_vlans b ifname (v # vs) w = do {
     let ports = filter (\<lambda>p. bp_ifname p \<noteq> ifname) (bv_hotplug_ports v);
     let free_port = (length ports < length (bv_hotplug_ports v));
     let v = v\<lparr>bv_hotplug_ports := ports\<rparr>;
     let w = upd_bridge_vlan b (bv_vid v) (\<lambda>_. v) w;
     w \<leftarrow> (if \<not> free_port \<or> ports \<noteq> [] \<or> bv_ports v \<noteq> [] \<or> bv_version v \<noteq> -1 then Some w
          else vlan_vlist_delete b v w);
     free_member_vlans b ifname vs w
   }"

definition bridge_free_member :: "world_env \<Rightarrow> rec \<Rightarrow> mid \<Rightarrow> world \<Rightarrow> world option" where
  "bridge_free_member E rec m w =
     (case member_dev w m of
        None \<Rightarrow> None
      | Some d \<Rightarrow> do {
          let b = bm_bst (w_member w m);
          w \<leftarrow> bridge_remove_member E rec m w;
          w \<leftarrow> free_member_vlans b (dv_ifname (w_devs w d)) (dv_vlans (w_devs w b)) w;
          w \<leftarrow> device_remove_user E rec (UMember m) w;
          let w = upd_member m (\<lambda>x. x\<lparr>bm_check := False\<rparr>) w;
          if dv_present (w_devs w d) then do {
            w \<leftarrow> device_set_present E rec d False w;
            device_set_present E rec d True w
          }
          else Some w
        })"

definition bridge_check_retry :: "did \<Rightarrow> world \<Rightarrow> world" where
  "bridge_check_retry b w =
     (if bs_n_failed (w_bridge w b) = 0 then w else upd_bridge b (\<lambda>x. x\<lparr>bs_retry := True\<rparr>) w)"

text \<open>\<open>vlist_delete\<close> on the tree of members, and what \<open>bridge_member_update\<close> does then.\<close>

definition member_vlist_delete :: "world_env \<Rightarrow> rec \<Rightarrow> mid \<Rightarrow> world \<Rightarrow> world option" where
  "member_vlist_delete E rec m w =
     bridge_free_member E rec m
       (upd_bridge (bm_bst (w_member w m)) (\<lambda>x. x\<lparr>bs_members := removeAll m (bs_members x)\<rparr>) w)"

fun member_vlist_flush :: "world_env \<Rightarrow> rec \<Rightarrow> did \<Rightarrow> mid list \<Rightarrow> world \<Rightarrow> world option" where
  "member_vlist_flush E rec b [] w = Some w"
| "member_vlist_flush E rec b (m # ms) w = do {
     let version = bs_members_version (w_bridge w b);
     w \<leftarrow> (if m \<notin> set (bs_members (w_bridge w b)) \<or>
             (bm_version (w_member w m) = version \<or> bm_version (w_member w m) = -1) \<and> version \<noteq> -1
          then Some w else member_vlist_delete E rec m w);
     member_vlist_flush E rec b ms w
   }"

definition bridge_member_check_cb :: "world_env \<Rightarrow> rec \<Rightarrow> mid \<Rightarrow> world \<Rightarrow> world option" where
  "bridge_member_check_cb E rec m w =
     (case member_dev w m of
        None \<Rightarrow> None
      | Some d \<Rightarrow>
          if we_vlan_check E (bm_bst (w_member w m)) (dv_ifname (w_devs w d)) (w_log w) \<le> 0 then Some w
          else do {
            w \<leftarrow> bridge_disable_member E rec m True w;
            map_option snd (bridge_enable_member E rec m w)
          })"

definition bridge_member_cb :: "world_env \<Rightarrow> rec \<Rightarrow> mid \<Rightarrow> device_event \<Rightarrow> world \<Rightarrow> world option" where
  "bridge_member_cb E rec m ev w =
     (let b = bm_bst (w_member w m);
          enable = (\<lambda>w.
            if dv_active (w_devs w b) = 0 then Some w
            else do {
              (ret, w) \<leftarrow> bridge_enable_member E rec m w;
              Some (if ret \<noteq> 0 then w
                    else klog_do (KIfApplySettings b (dv_settings (w_devs w b)) (DEV_OPT_MTU OR DEV_OPT_MTU6)) w)
            })
      in case ev of
           DEV_EVENT_ADD \<Rightarrow>
             if bm_present (w_member w m) then None
             else do {
               let w = upd_bridge b (\<lambda>x. x\<lparr>bs_n_present := bs_n_present x + 1\<rparr>)
                         (upd_member m (\<lambda>x. x\<lparr>bm_present := True\<rparr>) w);
               w \<leftarrow> (if bs_n_present (w_bridge w b) = 1 then device_set_present E rec b True w else Some w);
               enable w
             }
         | DEV_EVENT_AUTH_UP \<Rightarrow> enable w
         | DEV_EVENT_LINK_UP \<Rightarrow>
             Some (if bs_has_vlans (w_bridge w b) then upd_member m (\<lambda>x. x\<lparr>bm_check := True\<rparr>) w else w)
         | DEV_EVENT_LINK_DOWN \<Rightarrow>
             (case member_dev w m of
                None \<Rightarrow> None
              | Some d \<Rightarrow> if \<not> ds_auth (dv_settings (w_devs w d)) then Some w
                          else bridge_disable_member E rec m True w)
         | DEV_EVENT_REMOVE \<Rightarrow>
             if du_hotplug (bm_dev (w_member w m)) then member_vlist_delete E rec m w
             else if bm_present (w_member w m) then bridge_remove_member E rec m w
             else Some w
         | _ \<Rightarrow> Some w)"

section \<open>Going up and down\<close>

definition bridge_set_down :: "world_env \<Rightarrow> rec \<Rightarrow> did \<Rightarrow> world \<Rightarrow> (int \<times> world) option" where
  "bridge_set_down E rec b w = do {
     (_, w) \<leftarrow> set_device_state E rec b False w;
     w \<leftarrow> each_member b (\<lambda>m. bridge_disable_member E rec m False) (bs_members (w_bridge w b)) w;
     Some (0, bridge_disable_interface b w)
   }"

text \<open>The error \<open>-2\<close> is \<open>-ENOENT\<close>.\<close>

definition bridge_set_up :: "world_env \<Rightarrow> rec \<Rightarrow> did \<Rightarrow> world \<Rightarrow> (int \<times> world) option" where
  "bridge_set_up E rec b w = do {
     let w = upd_bridge b (\<lambda>x. x\<lparr>bs_has_vlans := (dv_vlans (w_devs w b) \<noteq> [])\<rparr>) w;
     let (ret, w) = (if bs_n_present (w_bridge w b) \<noteq> 0 then (0, w)
                     else if \<not> bs_force_active (w_bridge w b) then (-2, w)
                     else bridge_enable_interface E b w);
     if ret \<noteq> 0 then Some (ret, w)
     else do {
       let w = upd_bridge b (\<lambda>x. x\<lparr>bs_n_failed := 0\<rparr>) w;
       w \<leftarrow> each_member b (\<lambda>m w. map_option snd (bridge_enable_member E rec m w)) (bs_members (w_bridge w b)) w;
       let w = bridge_check_retry b w;
       if \<not> bs_force_active (w_bridge w b) \<and> bs_n_present (w_bridge w b) = 0 then do {
         w \<leftarrow> device_set_present E rec b False (bridge_disable_interface b w);
         Some (-2, w)
       }
       else do {
         w \<leftarrow> bridge_reset_primary b w;
         (ret, w) \<leftarrow> set_device_state E rec b True w;
         if ret < 0 then do { (_, w) \<leftarrow> bridge_set_down E rec b w; Some (ret, w) }
         else Some (ret, w)
       }
     }
   }"

definition bridge_set_state ::
  "world_env \<Rightarrow> rec \<Rightarrow> did \<Rightarrow> bool \<Rightarrow> world \<Rightarrow> (int \<times> world) option" where
  "bridge_set_state E rec b up w = (if up then bridge_set_up E rec b w else bridge_set_down E rec b w)"

definition find_member :: "did \<Rightarrow> string \<Rightarrow> world \<Rightarrow> mid option" where
  "find_member b name w = find (\<lambda>m. bm_name (w_member w m) = name) (bs_members (w_bridge w b))"

definition bridge_create_member ::
  "world_env \<Rightarrow> rec \<Rightarrow> did \<Rightarrow> string \<Rightarrow> did \<Rightarrow> bool \<Rightarrow> world \<Rightarrow> world option" where
  "bridge_create_member E rec b name d hotplug w = do {
     let version = bs_members_version (w_bridge w b);
     w \<leftarrow> (case find_member b name w of
            Some m \<Rightarrow> Some (upd_member m (\<lambda>x. x\<lparr>bm_version := version\<rparr>) w)
          | None \<Rightarrow> do {
              let m = w_next_member w;
              let w = upd_member m (\<lambda>_. zero_member\<lparr>bm_version := version, bm_bst := b, bm_name := name,
                        bm_dev := zero_device_user\<lparr>du_hotplug := hotplug\<rparr>\<rparr>) (w\<lparr>w_next_member := m + 1\<rparr>);
              let w = upd_bridge b (\<lambda>x. x\<lparr>bs_members :=
                        avl_insert (\<lambda>p q. strcmp (bm_name (w_member w p)) (bm_name (w_member w q))) m (bs_members x)\<rparr>) w;
              device_add_user E rec (UMember m) (Some d) w
            });
     Some (case find_member b name w of
             None \<Rightarrow> w
           | Some m \<Rightarrow> if hotplug then upd_member m (\<lambda>x. x\<lparr>bm_version := -1\<rparr>) w else w)
   }"

definition bridge_add_member :: "world_env \<Rightarrow> rec \<Rightarrow> did \<Rightarrow> string \<Rightarrow> world \<Rightarrow> world option" where
  "bridge_add_member E rec b name w = do {
     (dev, w) \<leftarrow> device_get E rec name 1 w;
     case dev of None \<Rightarrow> Some w | Some d \<Rightarrow> bridge_create_member E rec b name d False w
   }"

fun bridge_add_members :: "world_env \<Rightarrow> rec \<Rightarrow> did \<Rightarrow> string list \<Rightarrow> world \<Rightarrow> world option" where
  "bridge_add_members E rec b [] w = Some w"
| "bridge_add_members E rec b (name # names) w = do {
     w \<leftarrow> bridge_add_member E rec b name w;
     bridge_add_members E rec b names w
   }"

section \<open>Ports that come and go\<close>

text \<open>A VLAN that is made for a port is not removed when the configuration is read again (version -1).\<close>

definition bridge_hotplug_get_vlan :: "did \<Rightarrow> u16 \<Rightarrow> world \<Rightarrow> world option" where
  "bridge_hotplug_get_vlan b vid w =
     (case bridge_find_vlan b vid w of
        Some _ \<Rightarrow> Some w
      | None \<Rightarrow> do {
          w \<leftarrow> vlan_vlist_add b \<lparr>bv_version = 0, bv_ports = [], bv_hotplug_ports = [], bv_vid = vid,
                 bv_local = True, bv_pending = False\<rparr> w;
          Some (upd_bridge_vlan b vid (\<lambda>x. x\<lparr>bv_version := -1\<rparr>) w)
        })"

definition vlan_flag :: "char \<Rightarrow> u16 \<Rightarrow> u16" where
  "vlan_flag c flags =
     (if c = CHR ''t'' then flags AND NOT BRVLAN_F_UNTAGGED
      else if c = CHR ''*'' then flags OR BRVLAN_F_PVID else flags)"

definition hotplug_vlan_flags :: "string \<Rightarrow> u16 option" where
  "hotplug_vlan_flags rest =
     (if rest = [] then Some BRVLAN_F_UNTAGGED
      else if hd rest \<noteq> CHR '':'' then None
      else Some (fold vlan_flag (tl rest) BRVLAN_F_UNTAGGED))"

definition set_port_vlan ::
  "mid option \<Rightarrow> bridge_vlan \<Rightarrow> bridge_vlan_port \<Rightarrow> bool \<Rightarrow> world \<Rightarrow> world option" where
  "set_port_vlan bm vlan port add w =
     (case bm of
        None \<Rightarrow> None
      | Some m \<Rightarrow> Some (klog_do (set_member_vlan_req (bm_pvid (w_member w m)) vlan port add) w))"

text \<open>One VLAN of the list, with its number and the flags that follow it.\<close>

definition hotplug_set_member_vlan ::
  "did \<Rightarrow> string \<Rightarrow> mid option \<Rightarrow> bool \<Rightarrow> u16 \<Rightarrow> u16 option \<Rightarrow> world \<Rightarrow> world option" where
  "hotplug_set_member_vlan b ifname bm add vid flags w = do {
     w \<leftarrow> bridge_hotplug_get_vlan b vid w;
     vlan \<leftarrow> bridge_find_vlan b vid w;
     w \<leftarrow> (if bv_pending vlan
          then bridge_set_vlan_state b (vlan\<lparr>bv_pending := False\<rparr>) True
                 (upd_bridge_vlan b vid (\<lambda>x. x\<lparr>bv_pending := False\<rparr>) w)
          else Some w);
     case flags of
       None \<Rightarrow> Some w
     | Some flags \<Rightarrow>
         (case find (\<lambda>p. bp_ifname p = ifname) (bv_hotplug_ports vlan) of
            Some port \<Rightarrow>
              if \<not> add then do {
                w \<leftarrow> set_port_vlan bm vlan port False w;
                Some (upd_bridge_vlan b vid (\<lambda>x. x\<lparr>bv_hotplug_ports := remove1 port (bv_hotplug_ports x)\<rparr>) w)
              }
              else if bp_flags port = flags then Some w
              else do {
                w \<leftarrow> set_port_vlan bm vlan port False w;
                let w = upd_bridge_vlan b vid (\<lambda>x. x\<lparr>bv_hotplug_ports :=
                          map (\<lambda>p. if p = port then port\<lparr>bp_flags := flags\<rparr> else p) (bv_hotplug_ports x)\<rparr>) w;
                set_port_vlan bm vlan (port\<lparr>bp_flags := flags\<rparr>) True w
              }
          | None \<Rightarrow>
              if \<not> add then Some w
              else do {
                let port = \<lparr>bp_ifname = ifname, bp_flags = flags\<rparr>;
                let w = upd_bridge_vlan b vid (\<lambda>x. x\<lparr>bv_hotplug_ports := bv_hotplug_ports x @ [port]\<rparr>) w;
                if bm = None then Some w else set_port_vlan bm vlan port True w
              })
   }"

fun hotplug_set_vlans ::
  "did \<Rightarrow> string option list \<Rightarrow> string \<Rightarrow> mid option \<Rightarrow> bool \<Rightarrow> world \<Rightarrow> world option" where
  "hotplug_set_vlans b [] ifname bm add w = Some w"
| "hotplug_set_vlans b (cur # rest) ifname bm add w = do {
     w \<leftarrow> (case cur of
            None \<Rightarrow> Some w
          | Some s \<Rightarrow>
              let (n, end) = strtoul 0 s; vid = (word_of_nat n :: u32)
              in if vid = 0 \<or> vid > 4095 then Some w
                 else hotplug_set_member_vlan b ifname bm add (ucast vid) (hotplug_vlan_flags end) w);
     hotplug_set_vlans b rest ifname bm add w
   }"

definition bridge_hotplug_set_member_vlans ::
  "did \<Rightarrow> vlan_list \<Rightarrow> string \<Rightarrow> mid option \<Rightarrow> bool \<Rightarrow> world \<Rightarrow> world option" where
  "bridge_hotplug_set_member_vlans b vlans ifname bm add w =
     (case vlans of None \<Rightarrow> Some w | Some vs \<Rightarrow> hotplug_set_vlans b vs ifname bm add w)"

definition bridge_hotplug_add ::
  "world_env \<Rightarrow> rec \<Rightarrow> did \<Rightarrow> did \<Rightarrow> vlan_list \<Rightarrow> world \<Rightarrow> (int \<times> world) option" where
  "bridge_hotplug_add E rec b member vlan w = do {
     let ifname = dv_ifname (w_devs w member);
     let bm = find_member b ifname w;
     w \<leftarrow> bridge_hotplug_set_member_vlans b vlan ifname bm True w;
     w \<leftarrow> (if bm = None then bridge_create_member E rec b ifname member True w else Some w);
     Some (0, w)
   }"

definition bridge_hotplug_del ::
  "world_env \<Rightarrow> rec \<Rightarrow> did \<Rightarrow> did \<Rightarrow> vlan_list \<Rightarrow> world \<Rightarrow> (int \<times> world) option" where
  "bridge_hotplug_del E rec b member vlan w =
     (let ifname = dv_ifname (w_devs w member)
      in case find_member b ifname w of
           None \<Rightarrow> Some (4, w)
         | Some m \<Rightarrow> do {
             w \<leftarrow> bridge_hotplug_set_member_vlans b vlan ifname (Some m) False w;
             w \<leftarrow> (if du_hotplug (bm_dev (w_member w m)) then member_vlist_delete E rec m w else Some w);
             Some (0, w)
           })"

definition bridge_hotplug_prepare :: "world_env \<Rightarrow> rec \<Rightarrow> did \<Rightarrow> world \<Rightarrow> (int \<times> world) option" where
  "bridge_hotplug_prepare E rec b w = do {
     w \<leftarrow> device_set_present E rec b True
           (upd_bridge b (\<lambda>x. x\<lparr>bs_force_active := True\<rparr>) (w\<lparr>w_bridge_dev := Some b\<rparr>));
     Some (0, w)
   }"

section \<open>Configuration\<close>

definition bridge_free :: "world_env \<Rightarrow> rec \<Rightarrow> did \<Rightarrow> world \<Rightarrow> world option" where
  "bridge_free E rec b w = do {
     let w = upd_bridge b (\<lambda>x. x\<lparr>bs_members_version := -1\<rparr>) w;
     w \<leftarrow> member_vlist_flush E rec b (bs_members (w_bridge w b)) w;
     let w = upd_dev b (\<lambda>x. x\<lparr>dv_vlans_version := -1\<rparr>) w;
     w \<leftarrow> vlan_vlist_flush b (dv_vlans (w_devs w b)) w;
     Some (emit (OutFreeDevice b) (upd_dev b (\<lambda>x. x\<lparr>dv_vlan_aliases := Map.empty\<rparr>) w))
   }"

definition bridge_config_init :: "world_env \<Rightarrow> rec \<Rightarrow> did \<Rightarrow> world \<Rightarrow> world option" where
  "bridge_config_init E rec b w = do {
     w \<leftarrow> (if bc_bridge_empty (bs_config (w_bridge w b))
          then device_set_present E rec b True (upd_bridge b (\<lambda>x. x\<lparr>bs_force_active := True\<rparr>) w) else Some w);
     let w = upd_bridge b (\<lambda>x. x\<lparr>bs_n_failed := 0, bs_members_version := bs_members_version x + 1\<rparr>) w;
     w \<leftarrow> (case bs_ports (w_bridge w b) of None \<Rightarrow> Some w | Some names \<Rightarrow> bridge_add_members E rec b names w);
     w \<leftarrow> bridge_add_members E rec b (concat (map (map bp_ifname \<circ> bv_ports) (dv_vlans (w_devs w b)))) w;
     w \<leftarrow> member_vlist_flush E rec b (bs_members (w_bridge w b)) w;
     Some (bridge_check_retry b w)
   }"

definition default_bridge_config :: bridge_config where
  "default_bridge_config = zero_bridge_config\<lparr>bc_robustness := 2, bc_query_interval := 12500,
     bc_query_response_interval := 1000, bc_last_member_interval := 100, bc_hash_max := 512,
     bc_priority := 0x7FFF, bc_forward_delay := 8, bc_max_age := 10, bc_hello_time := 1\<rparr>"

definition set_field :: "'v option \<Rightarrow> ('v \<Rightarrow> 'a \<Rightarrow> 'a) \<Rightarrow> 'a \<Rightarrow> 'a" where
  "set_field v f x = (case v of None \<Rightarrow> x | Some y \<Rightarrow> f y x)"

definition bridge_apply_settings :: "bridge_attr attr_tb \<Rightarrow> bridge_config" where
  "bridge_apply_settings tb =
     (set_field (attr_bool tb BRIDGE_ATTR_VLAN_FILTERING) (\<lambda>v c. c\<lparr>bc_vlan_filtering := v\<rparr>) \<circ>
      set_field (attr_bool tb BRIDGE_ATTR_BRIDGE_EMPTY) (\<lambda>v c. c\<lparr>bc_bridge_empty := v\<rparr>) \<circ>
      set_field (attr_u32 tb BRIDGE_ATTR_MAX_AGE) (\<lambda>v c. c\<lparr>bc_max_age := v\<rparr>) \<circ>
      set_field (attr_u32 tb BRIDGE_ATTR_HELLO_TIME) (\<lambda>v c. c\<lparr>bc_hello_time := v\<rparr>) \<circ>
      set_field (attr_u32 tb BRIDGE_ATTR_AGEING_TIME)
        (\<lambda>v c. c\<lparr>bc_ageing_time := v, bc_flags := bc_flags c OR BRIDGE_OPT_AGEING_TIME\<rparr>) \<circ>
      set_field (attr_u32 tb BRIDGE_ATTR_LAST_MEMBER_INTERVAL)
        (\<lambda>v c. c\<lparr>bc_last_member_interval := v, bc_flags := bc_flags c OR BRIDGE_OPT_LAST_MEMBER_INTERVAL\<rparr>) \<circ>
      set_field (attr_u32 tb BRIDGE_ATTR_QUERY_RESPONSE_INTERVAL)
        (\<lambda>v c. c\<lparr>bc_query_response_interval := v, bc_flags := bc_flags c OR BRIDGE_OPT_QUERY_RESPONSE_INTERVAL\<rparr>) \<circ>
      set_field (attr_u32 tb BRIDGE_ATTR_QUERY_INTERVAL)
        (\<lambda>v c. c\<lparr>bc_query_interval := v, bc_flags := bc_flags c OR BRIDGE_OPT_QUERY_INTERVAL\<rparr>) \<circ>
      set_field (attr_u32 tb BRIDGE_ATTR_ROBUSTNESS)
        (\<lambda>v c. c\<lparr>bc_robustness := v, bc_flags := bc_flags c OR BRIDGE_OPT_ROBUSTNESS\<rparr>) \<circ>
      set_field (attr_u32 tb BRIDGE_ATTR_HASH_MAX) (\<lambda>v c. c\<lparr>bc_hash_max := v\<rparr>) \<circ>
      set_field (attr_bool tb BRIDGE_ATTR_MULTICAST_QUERIER) (\<lambda>v c. c\<lparr>bc_multicast_querier := v\<rparr>) \<circ>
      set_field (attr_bool tb BRIDGE_ATTR_IGMP_SNOOP) (\<lambda>v c. c\<lparr>bc_multicast_querier := v, bc_igmp_snoop := v\<rparr>) \<circ>
      set_field (attr_u32 tb BRIDGE_ATTR_PRIORITY) (\<lambda>v c. c\<lparr>bc_priority := ucast v\<rparr>) \<circ>
      set_field (attr_u32 tb BRIDGE_ATTR_FORWARD_DELAY) (\<lambda>v c. c\<lparr>bc_forward_delay := v\<rparr>) \<circ>
      set_field (attr_string tb BRIDGE_ATTR_STP_PROTO) (\<lambda>v c. c\<lparr>bc_stp_proto := Some v\<rparr>) \<circ>
      set_field (attr_bool tb BRIDGE_ATTR_STP_KERNEL) (\<lambda>v c. c\<lparr>bc_stp := v\<rparr>) \<circ>
      set_field (attr_bool tb BRIDGE_ATTR_STP) (\<lambda>v c. c\<lparr>bc_stp := v\<rparr>)) default_bridge_config"

definition bridge_reload ::
  "world_env \<Rightarrow> rec \<Rightarrow> did \<Rightarrow> blob option \<Rightarrow> world \<Rightarrow> (dev_change_type \<times> world) option" where
  "bridge_reload E rec b attr w = do {
     let tb_dev = we_dev_attrs E attr;
     let (tb_br, ports) = we_bridge_attrs E attr;
     let w = (if tb_dev DEV_ATTR_MACADDR \<noteq> None then upd_bridge b (\<lambda>x. x\<lparr>bs_primary_port := None\<rparr>) w else w);
     w \<leftarrow> device_init_settings E rec b tb_dev (upd_bridge b (\<lambda>x. x\<lparr>bs_ports := ports\<rparr>) w);
     let w = upd_bridge b (\<lambda>x. x\<lparr>bs_config := bridge_apply_settings tb_br\<rparr>) w;
     let old = bs_config_data (w_bridge w b);
     (ret, w) \<leftarrow> (if old \<noteq> None then do {
                    w \<leftarrow> bridge_config_init E rec b w;
                    Some (if we_dev_diff E attr old \<or> \<not> we_bridge_diff E attr old \<subseteq> {BRIDGE_ATTR_PORTS}
                          then DEV_CONFIG_RESTART else DEV_CONFIG_APPLIED, w)
                  }
                  else Some (DEV_CONFIG_APPLIED, w));
     Some (ret, upd_bridge b (\<lambda>x. x\<lparr>bs_config_data := attr\<rparr>) w)
   }"

definition retry_member :: "world_env \<Rightarrow> rec \<Rightarrow> did \<Rightarrow> mid \<Rightarrow> world \<Rightarrow> world option" where
  "retry_member E rec b m w =
     (if bm_present (w_member w m) then Some w
      else case member_dev w m of
             None \<Rightarrow> None
           | Some d \<Rightarrow>
               if \<not> dv_present (w_devs w d) then Some w
               else map_option snd (bridge_enable_member E rec m
                      (upd_bridge b (\<lambda>x. x\<lparr>bs_n_present := bs_n_present x + 1\<rparr>)
                        (upd_member m (\<lambda>x. x\<lparr>bm_present := True\<rparr>) w))))"

definition bridge_retry_members :: "world_env \<Rightarrow> rec \<Rightarrow> did \<Rightarrow> world \<Rightarrow> world option" where
  "bridge_retry_members E rec b w =
     each_member b (retry_member E rec b) (bs_members (w_bridge w b))
       (upd_bridge b (\<lambda>x. x\<lparr>bs_n_failed := 0\<rparr>) w)"

definition bridge_create ::
  "world_env \<Rightarrow> rec \<Rightarrow> string \<Rightarrow> blob option \<Rightarrow> world \<Rightarrow> (did option \<times> world) option" where
  "bridge_create E rec name attr w = do {
     let b = w_next_dev w;
     let w = upd_bridge b (\<lambda>_. zero_bridge) (upd_dev b (\<lambda>_. zero_device) (w\<lparr>w_next_dev := b + 1\<rparr>));
     (ret, w) \<leftarrow> device_init E rec b (DevOther ''bridge'') (Some name) w;
     if ret < 0 then do { w \<leftarrow> device_cleanup E rec b w; Some (None, w) }
     else do {
       let w = upd_dev b (\<lambda>x. x\<lparr>dv_config_pending := True, dv_set_state := Some StateOfType,
                 dv_hotplug_ops := Some BridgeOps, dv_vlans := [], dv_vlans_init := True,
                 dv_vlans_version := 1\<rparr>) w;
       (_, w) \<leftarrow> bridge_reload E rec b attr w;
       Some (Some b, w)
     }
   }"

section \<open>All bridges\<close>

text \<open>From \<open>src/device.c\<close>: the VLANs before and after the configuration is read, and spanning tree.\<close>

fun vlan_update_devices :: "bool \<Rightarrow> did list \<Rightarrow> world \<Rightarrow> world option" where
  "vlan_update_devices done [] w = Some w"
| "vlan_update_devices done (d # ds) w = do {
     w \<leftarrow> (if \<not> dv_vlans_init (w_devs w d) then Some w
          else if \<not> done
          then Some (upd_dev d (\<lambda>x. x\<lparr>dv_vlan_aliases := Map.empty, dv_vlans_version := dv_vlans_version x + 1\<rparr>) w)
          else do {
            w \<leftarrow> vlan_vlist_flush d (dv_vlans (w_devs w d)) w;
            if dv_type (w_devs w d) = DevOther ''bridge'' then bridge_dev_vlan_update d (dv_vlans (w_devs w d)) w
            else Some w
          });
     vlan_update_devices done ds w
   }"

definition device_vlan_update :: "bool \<Rightarrow> world \<Rightarrow> world option" where
  "device_vlan_update done w = vlan_update_devices done (w_devlist w) w"

definition device_stp_init :: "world \<Rightarrow> world" where
  "device_stp_init w =
     fold (\<lambda>d w. if dv_type (w_devs w d) = DevOther ''bridge'' then bridge_stp_init d w else w) (w_devlist w) w"

end
