(* ===== verification/DeviceTypes.thy ===== *)
theory DeviceTypes
  imports Bridge
begin

text \<open>
  The device types of \<open>src/alias.c\<close>, \<open>src/vlan.c\<close>, \<open>src/vlandev.c\<close>, \<open>src/macvlan.c\<close>,
  \<open>src/veth.c\<close>, \<open>src/tunnel.c\<close> and \<open>src/bridge.c\<close> as tables of methods, the callbacks of the
  device users that they hold, and the environment in which the program runs with them. Bonding and external
  device types remain arguments.

  A method that a type does not have is not called: the type is not registered for creation, or its devices
  never wait for an initialisation.
\<close>

definition vlan_type :: "world_env \<Rightarrow> dev_type_ops" where
  "vlan_type E = \<lparr>ty_set_state = vlan_set_device_state E, ty_check_state = None, ty_reload = None,
     ty_create = (\<lambda>rec name attr w. None), ty_config_init = vlan_config_init, ty_free = free_vlan_if E,
     ty_device_attrs = True\<rparr>"

definition alias_device_type :: "world_env \<Rightarrow> dev_type_ops" where
  "alias_device_type E = \<lparr>ty_set_state = alias_device_set_state E, ty_check_state = Some (alias_check_state E),
     ty_reload = None, ty_create = (\<lambda>rec name attr. alias_device_create E rec name),
     ty_config_init = (\<lambda>rec d w. None), ty_free = alias_device_free E, ty_device_attrs = False\<rparr>"

definition vlandev_type :: "world_env \<Rightarrow> string \<Rightarrow> dev_type_ops" where
  "vlandev_type E name = \<lparr>ty_set_state = vlandev_set_state E, ty_check_state = None,
     ty_reload = Some (vlandev_reload E), ty_create = vlandev_create E name,
     ty_config_init = vlandev_config_init E, ty_free = vlandev_free E, ty_device_attrs = False\<rparr>"

definition macvlan_device_type :: "world_env \<Rightarrow> dev_type_ops" where
  "macvlan_device_type E = \<lparr>ty_set_state = macvlan_set_state E, ty_check_state = None,
     ty_reload = Some (macvlan_reload E), ty_create = macvlan_create E,
     ty_config_init = macvlan_config_init E, ty_free = macvlan_free E, ty_device_attrs = False\<rparr>"

definition veth_device_type :: "world_env \<Rightarrow> dev_type_ops" where
  "veth_device_type E = \<lparr>ty_set_state = veth_set_state E, ty_check_state = None,
     ty_reload = Some (veth_reload E), ty_create = veth_create E,
     ty_config_init = veth_config_init E, ty_free = veth_free, ty_device_attrs = False\<rparr>"

definition tunnel_device_type :: "world_env \<Rightarrow> dev_type_ops" where
  "tunnel_device_type E = \<lparr>ty_set_state = tunnel_set_state E, ty_check_state = None,
     ty_reload = Some (tunnel_reload E), ty_create = tunnel_create E,
     ty_config_init = (\<lambda>rec d w. None), ty_free = tunnel_free, ty_device_attrs = False\<rparr>"

definition bridge_device_type :: "world_env \<Rightarrow> dev_type_ops" where
  "bridge_device_type E = \<lparr>ty_set_state = bridge_set_state E, ty_check_state = None,
     ty_reload = Some (bridge_reload E), ty_create = bridge_create E,
     ty_config_init = bridge_config_init E, ty_free = bridge_free E, ty_device_attrs = False\<rparr>"

definition device_types :: "world_env \<Rightarrow> string \<Rightarrow> dev_type_ops" where
  "device_types E n =
     (if n = ''VLAN'' then vlan_type E
      else if n = ''Network alias'' then alias_device_type E
      else if n = ''8021q'' \<or> n = ''8021ad'' then vlandev_type E n
      else if n = ''macvlan'' then macvlan_device_type E
      else if n = ''veth'' then veth_device_type E
      else if n = ''tunnel'' then tunnel_device_type E
      else if n = ''bridge'' then bridge_device_type E
      else we_type E n)"

text \<open>
  The lookup of alias devices needs no device types, that of VLAN devices needs the one of alias devices, and
  the types need both.
\<close>

definition with_alias :: "world_env \<Rightarrow> world_env" where
  "with_alias E = E\<lparr>we_alias_get := device_alias_get E\<rparr>"

definition with_vlan :: "world_env \<Rightarrow> world_env" where
  "with_vlan E = E\<lparr>we_vlan_chain := get_vlan_device_chain E\<rparr>"

definition with_types :: "world_env \<Rightarrow> world_env" where
  "with_types E = E\<lparr>we_type := device_types E\<rparr>"

definition netifd_env :: "world_env \<Rightarrow> world_env" where
  "netifd_env E = with_types (with_vlan (with_alias E))"

section \<open>Calls through pointers\<close>

fun type_user_cb :: "world_env \<Rightarrow> rec \<Rightarrow> uid \<Rightarrow> device_event \<Rightarrow> world \<Rightarrow> world option" where
  "type_user_cb E rec (UVlan d) ev w = vlan_dev_cb E rec d ev w"
| "type_user_cb E rec (UVlandev d) ev w = vlandev_base_cb E rec d ev w"
| "type_user_cb E rec (UMacvlan d) ev w = macvlan_base_cb E rec d ev w"
| "type_user_cb E rec (UAlias d) ev w = alias_device_cb E rec d ev w"
| "type_user_cb E rec (UMember m) ev w = bridge_member_cb E rec m ev w"
| "type_user_cb E rec _ ev w = Some w"

definition hotplug_op ::
  "world_env \<Rightarrow> rec \<Rightarrow> did \<Rightarrow> did \<Rightarrow> vlan_list \<Rightarrow> bool \<Rightarrow> world \<Rightarrow> (int \<times> world) option" where
  "hotplug_op E rec d member vlan add w =
     (case dv_hotplug_ops (w_devs w d) of
        None \<Rightarrow> None
      | Some BridgeOps \<Rightarrow> if add then bridge_hotplug_add E rec d member vlan w
                          else bridge_hotplug_del E rec d member vlan w
      | Some VlanOps \<Rightarrow> vlan_hotplug_op rec d member add w
      | Some VlandevOps \<Rightarrow> vlandev_hotplug_op rec d member add w
      | Some (OtherOps n) \<Rightarrow> we_hotplug E n rec d member vlan add w)"

definition hotplug_prepare :: "world_env \<Rightarrow> rec \<Rightarrow> did \<Rightarrow> world \<Rightarrow> (int \<times> world) option" where
  "hotplug_prepare E rec d w =
     (case dv_hotplug_ops (w_devs w d) of
        None \<Rightarrow> None
      | Some BridgeOps \<Rightarrow> bridge_hotplug_prepare E rec d w
      | Some VlanOps \<Rightarrow> vlan_hotplug_prepare rec d w
      | Some VlandevOps \<Rightarrow> vlandev_hotplug_prepare rec d w
      | Some (OtherOps n) \<Rightarrow> we_prepare E n rec d w)"

end
