(* ===== verification/TypesContract.thy ===== *)
theory TypesContract
  imports Contract DeviceTypes
begin

text \<open>
  The device types keep the contract of device operations: whatever relation the operations of
  \<open>DeviceCore\<close> keep, the methods of the types, their callbacks and lookups keep too. So an
  environment that satisfies the contract still does when the types are filled in.
\<close>

context device_contract
begin

section \<open>Alias devices\<close>

lemma alias_set_device_ok: "R w0 w \<Longrightarrow> okw w0 (alias_set_device E rec a dev w)"
  unfolding alias_set_device_def Let_def
  by (intro ok_rules remove_user_ok set_present_ok add_user_ok set_ifindex_ok set_ifname_ok set_link_ok)
    (simp_all add: rel_upd_type rel_rules)

lemma alias_set_state_ok: "R w0 w \<Longrightarrow> okp w0 (alias_device_set_state E rec a b w)"
  unfolding alias_device_set_state_def
  by (intro ok_rules claim_ok release_ok alias_set_device_ok) simp_all

lemma alias_cb_ok: "R w0 w \<Longrightarrow> okw w0 (alias_device_cb E rec a ev w)"
  unfolding alias_device_cb_def
  by (cases ev) (auto intro!: ok_rules set_present_ok set_link_ok set_ifindex_ok broadcast_ok)

lemma alias_check_state_ok: "R w0 w \<Longrightarrow> okp w0 (alias_check_state E rec a w)"
  unfolding alias_check_state_def Let_def by (intro ok_rules alias_set_device_ok) simp_all

lemma alias_create_ok: "R w0 w \<Longrightarrow> okp w0 (alias_device_create E rec name w)"
  unfolding alias_device_create_def Let_def
  by (intro ok_rules init_virtual_ok alias_check_state_ok) (simp_all add: rel_upd_type rel_rules)

lemma alias_free_ok: "R w0 w \<Longrightarrow> okw w0 (alias_device_free E rec a w)"
  unfolding alias_device_free_def
  by (intro ok_rules remove_user_ok rel_emit) (simp_all add: rel_upd_type quiet_def)

lemma alias_notify_ok: "R w0 w \<Longrightarrow> okw w0 (alias_notify_device E rec name dev w)"
  unfolding alias_notify_device_def by (intro ok_rules alias_set_device_ok)

lemma device_alias_get_ok: "R w0 w \<Longrightarrow> okp w0 (device_alias_get E rec name w)"
  unfolding device_alias_get_def by (intro ok_rules alias_create_ok) simp_all

section \<open>VLAN devices\<close>

lemma vlan_hotplug_op_ok: "R w0 w \<Longrightarrow> okp w0 (vlan_hotplug_op rec d m add w)"
  unfolding vlan_hotplug_op_def by (intro ok_rules rec_ok) simp_all

lemma vlan_prepare_ok: "R w0 w \<Longrightarrow> okp w0 (vlan_hotplug_prepare rec d w)"
  unfolding vlan_hotplug_prepare_def by (intro ok_rules rec_ok) simp_all

lemma vlan_check_rel: "R w0 w \<Longrightarrow> R w0 (vlan_hotplug_check d dev w)"
  by (simp add: vlan_hotplug_check_def rel_rules)

lemma free_vlan_ok: "R w0 w \<Longrightarrow> okw w0 (free_vlan_if E rec d w)"
  unfolding free_vlan_if_def
  by (intro ok_rules remove_user_ok device_cleanup_ok rel_emit) (simp_all add: quiet_def)

lemma vlan_set_state_ok: "R w0 w \<Longrightarrow> okp w0 (vlan_set_device_state E rec d b w)"
  unfolding vlan_set_device_state_def
  by (intro ok_rules set_device_state_ok release_ok claim_ok) (simp_all add: rel_rules)

lemma vlan_cb_ok: "R w0 w \<Longrightarrow> okw w0 (vlan_dev_cb E rec d ev w)"
  unfolding vlan_dev_cb_def Let_def
  by (cases ev) (auto intro!: ok_rules set_present_ok free_vlan_ok set_ifname_ok broadcast_ok
      simp: vlan_check_rel rel_rules)

lemma vlan_create_ok: "R w0 w \<Longrightarrow> okp w0 (vlan_create E rec p k w)"
  unfolding vlan_create_def Let_def
  by (intro ok_rules init_ok device_cleanup_ok add_user_ok) (simp_all add: rel_upd_type rel_rules vlan_check_rel)

lemma get_vlan_device_ok: "R w0 w \<Longrightarrow> okp w0 (get_vlan_device E rec p s create w)"
  unfolding get_vlan_device_def by (intro ok_rules vlan_create_ok) simp_all

lemma vlan_loop_ok: "R w0 w \<Longrightarrow> okp w0 (vlan_loop E rec d s create w)"
proof (induction "length s" arbitrary: s d w rule: less_induct)
  case less
  obtain part rest where s: "split_vlan s = (part, rest)" by fastforce
  have "okp w0 (vlan_loop E rec d' s' create w')" if "rest = Some s'" "R w0 w'" for d' s' w'
    using less(1) [OF split_vlan_shorter that(2)] s that(1) by metis
  then show ?case
    using less(2) by (subst vlan_loop.simps) (auto simp: s intro!: ok_rules get_vlan_device_ok)
qed

lemma chain_ok: "R w0 w \<Longrightarrow> okp w0 (get_vlan_device_chain E rec name create w)"
  unfolding get_vlan_device_chain_def Let_def
  by (auto intro!: ok_rules get_plain_ok get_vlan_device_ok vlan_loop_ok split: prod.splits option.splits)

section \<open>Stacked devices\<close>

lemma rel_klog_ask: "R w0 w \<Longrightarrow> R w0 (snd (klog_ask E' q w))"
  by (simp add: klog_ask_def rel_klog_do)

lemma ok_pair:
  "R w0 (snd q) \<Longrightarrow> (\<And>r w. R w0 w \<Longrightarrow> ok p w0 (f r w)) \<Longrightarrow> ok p w0 (case q of (r, w) \<Rightarrow> f r w)"
  by (simp add: split_beta)

lemmas ok_klog_ask = ok_pair [OF rel_klog_ask]

lemma vlandev_hotplug_op_ok: "R w0 w \<Longrightarrow> okp w0 (vlandev_hotplug_op rec d m add w)"
  unfolding vlandev_hotplug_op_def by (intro ok_rules rec_ok) simp_all

lemma vlandev_prepare_ok: "R w0 w \<Longrightarrow> okp w0 (vlandev_hotplug_prepare rec d w)"
  unfolding vlandev_hotplug_prepare_def by (intro ok_rules rec_ok) simp_all

lemma vlandev_check_rel: "R w0 w \<Longrightarrow> R w0 (vlandev_hotplug_check d w)"
  by (simp add: vlandev_hotplug_check_def rel_rules)

lemma vlandev_cb_ok: "R w0 w \<Longrightarrow> okw w0 (vlandev_base_cb E rec d ev w)"
  unfolding vlandev_base_cb_def
  by (cases ev) (auto intro!: ok_rules set_present_ok vlandev_check_rel)

lemma vlandev_set_down_ok: "R w0 w \<Longrightarrow> okp w0 (vlandev_set_down E rec d w)"
  unfolding vlandev_set_down_def
  by (intro ok_rules set_device_state_ok release_ok) (simp_all add: rel_rules)

lemma vlandev_set_up_ok: "R w0 w \<Longrightarrow> okp w0 (vlandev_set_up E rec d w)"
  unfolding vlandev_set_up_def Let_def
  by (intro ok_klog_ask ok_rules set_device_state_ok release_ok claim_ok) (simp_all add: rel_rules)

lemma vlandev_set_state_ok: "R w0 w \<Longrightarrow> okp w0 (vlandev_set_state E rec d b w)"
  unfolding vlandev_set_state_def by (intro ok_rules vlandev_set_up_ok vlandev_set_down_ok)

lemma vlandev_free_ok: "R w0 w \<Longrightarrow> okw w0 (vlandev_free E rec d w)"
  unfolding vlandev_free_def by (intro ok_rules remove_user_ok rel_emit) (simp_all add: quiet_def)

lemma vlandev_config_init_ok: "R w0 w \<Longrightarrow> okw w0 (vlandev_config_init E rec d w)"
  unfolding vlandev_config_init_def Let_def
  by (intro ok_rules get_ok add_user_ok vlandev_check_rel) (simp_all add: rel_upd_type)

lemma vlandev_reload_ok: "R w0 w \<Longrightarrow> okp w0 (vlandev_reload E rec d attr w)"
  unfolding vlandev_reload_def Let_def
  by (simp add: split_beta, intro ok_rules init_settings_ok vlandev_config_init_ok)
    (simp_all add: rel_upd_type)

lemma vlandev_create_ok: "R w0 w \<Longrightarrow> okp w0 (vlandev_create E type rec name attr w)"
  unfolding vlandev_create_def Let_def
  by (intro ok_rules init_ok device_cleanup_ok vlandev_reload_ok) (simp_all add: rel_upd_type rel_rules)

lemma macvlan_cb_ok: "R w0 w \<Longrightarrow> okw w0 (macvlan_base_cb E rec d ev w)"
  unfolding macvlan_base_cb_def by (cases ev) (auto intro!: ok_rules set_present_ok)

lemma macvlan_set_state_ok: "R w0 w \<Longrightarrow> okp w0 (macvlan_set_state E rec d b w)"
  unfolding macvlan_set_state_def macvlan_set_up_def macvlan_set_down_def Let_def
  by (intro ok_klog_ask ok_rules set_device_state_ok release_ok claim_ok) (simp_all add: rel_rules)

lemma macvlan_free_ok: "R w0 w \<Longrightarrow> okw w0 (macvlan_free E rec d w)"
  unfolding macvlan_free_def by (intro ok_rules remove_user_ok rel_emit) (simp_all add: quiet_def)

lemma macvlan_config_init_ok: "R w0 w \<Longrightarrow> okw w0 (macvlan_config_init E rec d w)"
  unfolding macvlan_config_init_def by (intro ok_rules get_ok add_user_ok) simp_all

lemma macvlan_reload_ok: "R w0 w \<Longrightarrow> okp w0 (macvlan_reload E rec d attr w)"
  unfolding macvlan_reload_def Let_def
  by (intro ok_rules init_settings_ok macvlan_config_init_ok) (simp_all add: rel_upd_type)

lemma macvlan_create_ok: "R w0 w \<Longrightarrow> okp w0 (macvlan_create E rec name attr w)"
  unfolding macvlan_create_def Let_def
  by (intro ok_rules init_ok device_cleanup_ok macvlan_reload_ok) (simp_all add: rel_upd_type rel_rules)

lemma veth_set_state_ok: "R w0 w \<Longrightarrow> okp w0 (veth_set_state E rec d b w)"
  unfolding veth_set_state_def Let_def
  by (intro ok_klog_ask ok_rules set_device_state_ok) (simp_all add: rel_rules)

lemma veth_reload_ok: "R w0 w \<Longrightarrow> okp w0 (veth_reload E rec d attr w)"
  unfolding veth_reload_def veth_config_init_def Let_def
  by (intro ok_rules init_settings_ok set_present_ok) (simp_all add: rel_upd_type)

lemma veth_create_ok: "R w0 w \<Longrightarrow> okp w0 (veth_create E rec name attr w)"
  unfolding veth_create_def Let_def
  by (intro ok_rules init_ok device_cleanup_ok veth_reload_ok) (simp_all add: rel_upd_type rel_rules)

lemma tunnel_set_state_ok: "R w0 w \<Longrightarrow> okp w0 (tunnel_set_state E rec d b w)"
  unfolding tunnel_set_state_def
  by (auto simp: klog_ask_def intro!: ok_rules set_device_state_ok rel_klog_do)

lemma tunnel_reload_ok: "R w0 w \<Longrightarrow> okp w0 (tunnel_reload E rec d attr w)"
  unfolding tunnel_reload_def by (intro ok_rules init_settings_ok) simp_all

lemma with_tunnel_contract: "device_contract R (with_tunnel E) rec"
  by unfold_locales
    (auto simp: with_tunnel_def split: if_splits
      intro: rec_rel type_set_state type_check_state type_reload type_create type_config_init type_free
        vlan_chain alias_get type_hotplug type_prepare
      dest: tunnel_reload_ok [OF rel_refl, unfolded ok_def, rule_format])

lemma tunnel_create_ok: "R w0 w \<Longrightarrow> okp w0 (tunnel_create E rec name attr w)"
  unfolding tunnel_create_def Let_def
  by (intro ok_rules init_ok device_cleanup_ok set_present_ok
      device_contract.apply_config_ok [OF with_tunnel_contract]) (simp_all add: rel_upd_type rel_rules)

section \<open>Bridges\<close>

lemma each_member_ok:
  assumes "\<And>m w. R w0 w \<Longrightarrow> okw w0 (f m w)" and "R w0 w"
  shows "okw w0 (each_member b f ms w)"
  using assms(2) by (induction ms arbitrary: w) (auto intro!: ok_rules assms(1))

lemma reset_primary_ok: "R w0 w \<Longrightarrow> okw w0 (bridge_reset_primary b w)"
  unfolding bridge_reset_primary_def Let_def by (intro ok_rules) (simp_all add: rel_upd_type rel_rules)

lemma set_member_vlan_ok: "R w0 w \<Longrightarrow> okw w0 (bridge_set_member_vlan m v add w)"
  unfolding bridge_set_member_vlan_def Let_def by (intro ok_rules) (simp_all add: rel_upd_type rel_rules)

lemma set_member_vlans_ok: "R w0 w \<Longrightarrow> okw w0 (set_member_vlans m vs add w)"
  by (induction vs arbitrary: w) (auto intro!: ok_rules set_member_vlan_ok)

lemma rel_local_vlan: "R w0 w \<Longrightarrow> R w0 (bridge_set_local_vlan b v add w)"
  by (simp add: bridge_set_local_vlan_def rel_klog_do)

lemma rel_local_vlans: "R w0 w \<Longrightarrow> R w0 (bridge_set_local_vlans b add w)"
proof -
  have "R w0 w \<Longrightarrow> R w0 (fold (\<lambda>v. bridge_set_local_vlan b v add) vs w)" for vs
    by (induction vs arbitrary: w) (simp_all add: rel_local_vlan)
  then show "R w0 w \<Longrightarrow> ?thesis" unfolding bridge_set_local_vlans_def .
qed

lemma member_vlan_state_ok: "R w0 w \<Longrightarrow> okw w0 (member_vlan_state b v add m w)"
  unfolding member_vlan_state_def Let_def
  by (intro ok_rules set_member_vlan_ok) (auto simp: rel_upd_type rel_rules split: option.split)

lemma set_vlan_state_ok: "R w0 w \<Longrightarrow> okw w0 (bridge_set_vlan_state b v add w)"
  unfolding bridge_set_vlan_state_def by (intro each_member_ok member_vlan_state_ok rel_local_vlan)

lemma disable_member_ok: "R w0 w \<Longrightarrow> okw w0 (bridge_disable_member E rec m keep w)"
  unfolding bridge_disable_member_def Let_def
  by (intro ok_rules set_member_vlans_ok release_ok broadcast_ok) (simp_all add: rel_upd_type rel_rules)

lemma rel_stp_notify: "R w0 w \<Longrightarrow> R w0 (bridge_stp_notify b w)"
  by (simp add: bridge_stp_notify_def Let_def rel_emit quiet_def)

lemma rel_enable_interface: "R w0 w \<Longrightarrow> R w0 (snd (bridge_enable_interface E b w))"
  by (simp add: bridge_enable_interface_def klog_ask_def Let_def rel_upd_type rel_klog_do rel_local_vlans
      rel_stp_notify)

lemmas ok_enable_interface = ok_pair [OF rel_enable_interface]

lemma rel_disable_interface: "R w0 w \<Longrightarrow> R w0 (bridge_disable_interface b w)"
  by (simp add: bridge_disable_interface_def rel_upd_type rel_klog_do)

lemma enable_member_error_ok: "R w0 w \<Longrightarrow> okp w0 (enable_member_error E rec m r w)"
  unfolding enable_member_error_def Let_def by (intro ok_rules release_ok) (simp_all add: rel_upd_type)

lemma add_member_dev_ok: "R w0 w \<Longrightarrow> okp w0 (add_member_dev E rec m d w)"
  unfolding add_member_dev_def Let_def
  by (intro ok_klog_ask ok_rules enable_member_error_ok set_member_vlans_ok set_present_ok broadcast_ok)
    (simp_all add: rel_upd_type rel_rules)

lemma enable_member_ok: "R w0 w \<Longrightarrow> okp w0 (bridge_enable_member E rec m w)"
  unfolding bridge_enable_member_def Let_def
  by (intro ok_enable_interface ok_rules enable_member_error_ok claim_ok add_member_dev_ok)
    (simp_all add: rel_rules)

lemma enable_member_snd_ok: "R w0 w \<Longrightarrow> okw w0 (map_option snd (bridge_enable_member E rec m w))"
  by (intro ok_map_snd enable_member_ok)

lemma remove_member_ok: "R w0 w \<Longrightarrow> okw w0 (bridge_remove_member E rec m w)"
  unfolding bridge_remove_member_def Let_def
  by (intro ok_rules disable_member_ok reset_primary_ok set_present_ok) (simp_all add: rel_upd_type)

lemma rel_upd_bridge_vlan: "R w0 w \<Longrightarrow> R w0 (upd_bridge_vlan b vid f w)"
  by (simp add: upd_bridge_vlan_def rel_upd_dev)

lemma vlan_update_ok: "R w0 w \<Longrightarrow> okw w0 (bridge_vlan_update b new old w)"
  unfolding bridge_vlan_update_def Let_def
  by (intro ok_rules set_vlan_state_ok) (auto simp: rel_upd_bridge_vlan rel_upd_dev split: option.split)

lemma vlan_add_ok: "R w0 w \<Longrightarrow> okw w0 (vlan_vlist_add b v w)"
  unfolding vlan_vlist_add_def Let_def by (intro vlan_update_ok rel_upd_dev)

lemma vlan_delete_ok: "R w0 w \<Longrightarrow> okw w0 (vlan_vlist_delete b v w)"
  unfolding vlan_vlist_delete_def by (intro vlan_update_ok rel_upd_dev)

lemma vlan_flush_ok: "R w0 w \<Longrightarrow> okw w0 (vlan_vlist_flush b vs w)"
  by (induction vs arbitrary: w) (auto simp: Let_def intro!: ok_rules vlan_delete_ok)

lemma dev_vlan_update_ok: "R w0 w \<Longrightarrow> okw w0 (bridge_dev_vlan_update b vs w)"
  by (induction vs arbitrary: w) (auto intro!: ok_rules set_vlan_state_ok rel_upd_bridge_vlan)

lemma free_member_vlans_ok: "R w0 w \<Longrightarrow> okw w0 (free_member_vlans b name vs w)"
  by (induction vs arbitrary: w) (auto simp: Let_def intro!: ok_rules vlan_delete_ok rel_upd_bridge_vlan)

lemma free_member_ok: "R w0 w \<Longrightarrow> okw w0 (bridge_free_member E rec m w)"
  unfolding bridge_free_member_def Let_def
  by (intro ok_rules remove_member_ok free_member_vlans_ok remove_user_ok set_present_ok)
    (simp_all add: rel_upd_type)

lemma rel_check_retry: "R w0 w \<Longrightarrow> R w0 (bridge_check_retry b w)"
  by (simp add: bridge_check_retry_def rel_upd_type)

lemma member_delete_ok: "R w0 w \<Longrightarrow> okw w0 (member_vlist_delete E rec m w)"
  unfolding member_vlist_delete_def by (intro free_member_ok rel_upd_type)

lemma member_flush_ok: "R w0 w \<Longrightarrow> okw w0 (member_vlist_flush E rec b ms w)"
  by (induction ms arbitrary: w) (auto simp: Let_def intro!: ok_rules member_delete_ok)

lemma member_check_ok: "R w0 w \<Longrightarrow> okw w0 (bridge_member_check_cb E rec m w)"
  unfolding bridge_member_check_cb_def
  by (intro ok_rules disable_member_ok enable_member_ok) simp_all

lemma member_cb_ok: "R w0 w \<Longrightarrow> okw w0 (bridge_member_cb E rec m ev w)"
  unfolding bridge_member_cb_def Let_def
  by (cases ev)
    (auto intro!: ok_rules enable_member_ok set_present_ok disable_member_ok member_delete_ok remove_member_ok
      simp: rel_upd_type rel_rules)

lemma bridge_set_down_ok: "R w0 w \<Longrightarrow> okp w0 (bridge_set_down E rec b w)"
  unfolding bridge_set_down_def
  by (intro ok_rules set_device_state_ok each_member_ok disable_member_ok) (simp_all add: rel_disable_interface)

lemma bridge_set_up_ok:
  assumes "R w0 w"
  shows "okp w0 (bridge_set_up E rec b w)"
proof -
  let ?w = "upd_bridge b (\<lambda>x. x\<lparr>bs_has_vlans := (dv_vlans (w_devs w b) \<noteq> [])\<rparr>) w"
  let ?p = "if bs_n_present (w_bridge ?w b) \<noteq> 0 then (0, ?w)
            else if \<not> bs_force_active (w_bridge ?w b) then (-2, ?w) else bridge_enable_interface E b ?w"
  have "R w0 (snd ?p)" using assms by (simp add: rel_upd_type rel_enable_interface)
  then show ?thesis
    unfolding bridge_set_up_def Let_def
    by (intro ok_pair ok_rules each_member_ok enable_member_snd_ok set_present_ok reset_primary_ok set_device_state_ok
        bridge_set_down_ok)
      (simp_all add: rel_upd_type rel_check_retry rel_disable_interface)
qed

lemma bridge_set_state_ok: "R w0 w \<Longrightarrow> okp w0 (bridge_set_state E rec b up w)"
  unfolding bridge_set_state_def by (intro ok_rules bridge_set_up_ok bridge_set_down_ok)

lemma create_member_ok: "R w0 w \<Longrightarrow> okw w0 (bridge_create_member E rec b name d hp w)"
  unfolding bridge_create_member_def Let_def
  by (intro ok_rules add_user_ok) (auto simp: rel_upd_type split: option.split)

lemma add_member_ok: "R w0 w \<Longrightarrow> okw w0 (bridge_add_member E rec b name w)"
  unfolding bridge_add_member_def by (intro ok_rules get_ok create_member_ok) simp_all

lemma add_members_ok: "R w0 w \<Longrightarrow> okw w0 (bridge_add_members E rec b names w)"
  by (induction names arbitrary: w) (auto intro!: ok_rules add_member_ok)

lemma hotplug_get_vlan_ok: "R w0 w \<Longrightarrow> okw w0 (bridge_hotplug_get_vlan b vid w)"
  unfolding bridge_hotplug_get_vlan_def by (intro ok_rules vlan_add_ok rel_upd_bridge_vlan)

lemma set_port_vlan_ok: "R w0 w \<Longrightarrow> okw w0 (set_port_vlan bm v p add w)"
  unfolding set_port_vlan_def by (intro ok_rules rel_klog_do)

lemma hotplug_set_vlan_ok: "R w0 w \<Longrightarrow> okw w0 (hotplug_set_member_vlan b name bm add vid flags w)"
proof -
  have bind: "(\<And>x. ok p w0 (f x)) \<Longrightarrow> ok p w0 (m \<bind> f)" for p f and m :: "bridge_vlan option"
    by (cases m) simp_all
  assume "R w0 w"
  then show ?thesis
    unfolding hotplug_set_member_vlan_def Let_def
    by (intro ok_bind [OF hotplug_get_vlan_ok] bind ok_rules set_vlan_state_ok set_port_vlan_ok)
      (simp_all add: rel_upd_bridge_vlan)
qed

lemma hotplug_set_vlans_ok: "R w0 w \<Longrightarrow> okw w0 (hotplug_set_vlans b vs name bm add w)"
  by (induction vs arbitrary: w)
    (auto simp: Let_def split_beta intro!: ok_rules hotplug_set_vlan_ok)

lemma hotplug_set_member_vlans_ok: "R w0 w \<Longrightarrow> okw w0 (bridge_hotplug_set_member_vlans b vs name bm add w)"
  unfolding bridge_hotplug_set_member_vlans_def by (intro ok_rules hotplug_set_vlans_ok)

lemma bridge_hotplug_add_ok: "R w0 w \<Longrightarrow> okp w0 (bridge_hotplug_add E rec b d vlan w)"
  unfolding bridge_hotplug_add_def Let_def
  by (intro ok_rules hotplug_set_member_vlans_ok create_member_ok) simp_all

lemma bridge_hotplug_del_ok: "R w0 w \<Longrightarrow> okp w0 (bridge_hotplug_del E rec b d vlan w)"
  unfolding bridge_hotplug_del_def Let_def
  by (intro ok_rules hotplug_set_member_vlans_ok member_delete_ok) simp_all

lemma bridge_prepare_ok: "R w0 w \<Longrightarrow> okp w0 (bridge_hotplug_prepare E rec b w)"
  unfolding bridge_hotplug_prepare_def by (intro ok_rules set_present_ok) (simp_all add: rel_upd_type)

lemma bridge_free_ok: "R w0 w \<Longrightarrow> okw w0 (bridge_free E rec b w)"
  unfolding bridge_free_def Let_def
  by (intro ok_rules member_flush_ok vlan_flush_ok rel_emit) (simp_all add: rel_upd_type rel_rules quiet_def)

lemma bridge_config_init_ok: "R w0 w \<Longrightarrow> okw w0 (bridge_config_init E rec b w)"
  unfolding bridge_config_init_def Let_def
  by (intro ok_rules set_present_ok add_members_ok member_flush_ok rel_check_retry) (simp_all add: rel_upd_type)

lemma bridge_reload_ok: "R w0 w \<Longrightarrow> okp w0 (bridge_reload E rec b attr w)"
  unfolding bridge_reload_def Let_def
  by (cases "we_bridge_attrs E attr", simp only: prod.case, intro ok_rules init_settings_ok bridge_config_init_ok)
    (simp_all add: rel_upd_type)

lemma retry_members_ok: "R w0 w \<Longrightarrow> okw w0 (bridge_retry_members E rec b w)"
  unfolding bridge_retry_members_def retry_member_def
  by (intro each_member_ok ok_rules enable_member_ok) (simp_all add: rel_upd_type)

lemma bridge_create_ok: "R w0 w \<Longrightarrow> okp w0 (bridge_create E rec name attr w)"
  unfolding bridge_create_def Let_def
  by (intro ok_rules init_ok device_cleanup_ok bridge_reload_ok) (simp_all add: rel_upd_type rel_rules)

lemma vlan_update_devices_ok: "R w0 w \<Longrightarrow> okw w0 (vlan_update_devices done ds w)"
  by (induction ds arbitrary: w)
    (auto intro!: ok_rules vlan_flush_ok dev_vlan_update_ok simp: rel_upd_dev)

lemma rel_stp_init: "R w0 w \<Longrightarrow> R w0 (device_stp_init w)"
proof -
  have *: "R w0 w \<Longrightarrow> R w0 (bridge_stp_init d w)" for d w
    by (simp add: bridge_stp_init_def rel_klog_do rel_stp_notify)
  have "R w0 w \<Longrightarrow> R w0 (fold (\<lambda>d w. if dv_type (w_devs w d) = DevOther ''bridge''
      then bridge_stp_init d w else w) ds w)" for ds
    by (induction ds arbitrary: w) (simp_all add: *)
  then show "R w0 w \<Longrightarrow> ?thesis" unfolding device_stp_init_def .
qed

section \<open>Callbacks and the environment\<close>

lemma type_user_cb_ok: "R w0 w \<Longrightarrow> okw w0 (type_user_cb E rec u ev w)"
  by (cases u) (auto intro: vlan_cb_ok vlandev_cb_ok macvlan_cb_ok alias_cb_ok member_cb_ok ok_Some)

lemma hotplug_op_ok: "R w0 w \<Longrightarrow> okp w0 (hotplug_op E rec d m vlan add w)"
proof -
  assume w: "R w0 w"
  then have "okp w0 (we_hotplug E n rec d m vlan add w)" for n
    using type_hotplug rel_trans unfolding ok_def by fastforce
  then show ?thesis
    using w by (auto simp: hotplug_op_def bridge_hotplug_add_ok bridge_hotplug_del_ok vlan_hotplug_op_ok
        vlandev_hotplug_op_ok split: option.split hotplug_ops.split)
qed

lemma hotplug_prepare_ok: "R w0 w \<Longrightarrow> okp w0 (hotplug_prepare E rec d w)"
proof -
  assume w: "R w0 w"
  then have "okp w0 (we_prepare E n rec d w)" for n
    using type_prepare rel_trans unfolding ok_def by fastforce
  then show ?thesis
    using w by (auto simp: hotplug_prepare_def bridge_prepare_ok vlan_prepare_ok vlandev_prepare_ok
        split: option.split hotplug_ops.split)
qed

lemma ok_rel: "ok p w m \<Longrightarrow> m = Some x \<Longrightarrow> R w (p x)"
  by (simp add: ok_def)

lemmas set_state_rels =
  vlan_set_state_ok alias_set_state_ok vlandev_set_state_ok macvlan_set_state_ok veth_set_state_ok
  tunnel_set_state_ok bridge_set_state_ok

lemmas reload_rels = vlandev_reload_ok macvlan_reload_ok veth_reload_ok tunnel_reload_ok bridge_reload_ok

lemmas create_rels =
  alias_create_ok vlandev_create_ok macvlan_create_ok veth_create_ok tunnel_create_ok bridge_create_ok

lemmas config_init_rels = vlandev_config_init_ok macvlan_config_init_ok bridge_config_init_ok
lemmas free_rels = free_vlan_ok alias_free_ok vlandev_free_ok macvlan_free_ok bridge_free_ok

lemma simple_type_rels:
  "vlan_config_init rec d w = Some w' \<Longrightarrow> R w w'"
  "veth_config_init E rec d w = Some w' \<Longrightarrow> R w w'"
  "veth_free rec d w = Some w' \<Longrightarrow> R w w'"
  "tunnel_free rec d w = Some w' \<Longrightarrow> R w w'"
  using vlan_check_rel [OF rel_refl] set_present_ok [OF rel_refl] rel_quiet
  by (auto simp: vlan_config_init_def veth_config_init_def veth_free_def tunnel_free_def quiet_def ok_def)

lemma with_alias_contract: "device_contract R (with_alias E) rec"
  by unfold_locales
    (auto simp: with_alias_def
      intro: rec_rel type_set_state type_check_state type_reload type_create type_config_init type_free
        vlan_chain type_hotplug type_prepare
      dest: device_alias_get_ok [OF rel_refl, unfolded ok_def, rule_format])

lemma with_vlan_contract: "device_contract R (with_vlan E) rec"
  by unfold_locales
    (auto simp: with_vlan_def
      intro: rec_rel type_set_state type_check_state type_reload type_create type_config_init type_free
        alias_get type_hotplug type_prepare
      dest: chain_ok [OF rel_refl, unfolded ok_def, rule_format])

lemmas type_table_defs =
  device_types_def vlan_type_def alias_device_type_def vlandev_type_def macvlan_device_type_def
  veth_device_type_def tunnel_device_type_def bridge_device_type_def

lemma with_types_contract: "device_contract R (with_types E) rec"
proof unfold_locales
  fix n d b w r w'
  show "ty_set_state (we_type (with_types E) n) rec d b w = Some (r, w') \<Longrightarrow> R w w'"
    by (simp add: with_types_def type_table_defs split: if_splits)
      (drule set_state_rels [OF rel_refl, THEN ok_rel] type_set_state; simp)+
  show "ty_check_state (we_type (with_types E) n) = Some f \<Longrightarrow> f rec d w = Some (r, w') \<Longrightarrow> R w w'" for f
    by (simp add: with_types_def type_table_defs split: if_splits)
      (use alias_check_state_ok [OF rel_refl, THEN ok_rel] type_check_state in force)+
  show "ty_reload (we_type (with_types E) n) = Some g \<Longrightarrow> g rec d a w = Some (change, w') \<Longrightarrow> R w w'" for g a change
    by (simp add: with_types_def type_table_defs split: if_splits)
      (use reload_rels [OF rel_refl, THEN ok_rel] type_reload in force)+
  show "ty_create (we_type (with_types E) n) rec name a w = Some (dev, w') \<Longrightarrow> R w w'" for name a dev
    by (simp add: with_types_def type_table_defs split: if_splits)
      (drule create_rels [OF rel_refl, THEN ok_rel] type_create; simp)+
  show "ty_config_init (we_type (with_types E) n) rec d w = Some w' \<Longrightarrow> R w w'"
    by (simp add: with_types_def type_table_defs split: if_splits)
      (drule config_init_rels [OF rel_refl, THEN ok_rel] simple_type_rels type_config_init; simp)+
  show "ty_free (we_type (with_types E) n) rec d w = Some w' \<Longrightarrow> R w w'"
    by (simp add: with_types_def type_table_defs split: if_splits)
      (drule free_rels [OF rel_refl, THEN ok_rel] simple_type_rels type_free; simp)+
qed (auto simp: with_types_def intro: rec_rel vlan_chain alias_get type_hotplug type_prepare)

end

lemma netifd_env_contract:
  assumes "device_contract R E rec"
  shows "device_contract R (netifd_env E) rec"
  unfolding netifd_env_def
  by (intro device_contract.with_types_contract device_contract.with_vlan_contract
      device_contract.with_alias_contract assms)

end
