(* ===== verification/Lifecycle.thy ===== *)
theory Lifecycle
  imports TypesContract
begin

text \<open>
  The interface state machine, abstractly. An abstract state holds the state of every
  interface and what was told outside; \<open>lstep\<close> lists the transitions that the code can take
  and the events that go with them. The operations of \<open>Interface\<close> and \<open>InterfaceLife\<close> refine it:
  each of them, with everything that its callbacks do, is a sequence of abstract transitions
  (locale \<open>interface_contract\<close>). What holds of all sequences of transitions, such as the order
  of the events of an interface, then holds of the program.
\<close>

section \<open>IP operations change IP settings only\<close>

definition ip_core :: "interface \<Rightarrow> interface" where
  "ip_core f = f\<lparr>if_proto_ip := zero_ip_settings, if_config_ip := zero_ip_settings,
                 if_host_routes := [], if_policy_rules_set := False, if_updated := 0\<rparr>"

definition ip_frame :: "world \<Rightarrow> world \<Rightarrow> bool" where
  "ip_frame w w' \<longleftrightarrow> w_out w' = w_out w \<and> w_devs w' = w_devs w \<and> w_devlist w' = w_devlist w
     \<and> w_iflist w' = w_iflist w \<and> w_ifusers w' = w_ifusers w \<and> w_allusers w' = w_allusers w
     \<and> w_alias w' = w_alias w \<and> w_aliases w' = w_aliases w \<and> w_shell w' = w_shell w
     \<and> w_config_init w' = w_config_init w
     \<and> (\<forall>i. ip_core (w_ifs w' i) = ip_core (w_ifs w i))"

lemma ip_core_upd [simp]:
  "ip_core (upd_ip sel f x) = ip_core x"
  "ip_core (x\<lparr>if_proto_ip := ip\<rparr>) = ip_core x"
  "ip_core (x\<lparr>if_config_ip := ip\<rparr>) = ip_core x"
  "ip_core (x\<lparr>if_host_routes := rs\<rparr>) = ip_core x"
  "ip_core (x\<lparr>if_policy_rules_set := b\<rparr>) = ip_core x"
  "ip_core (x\<lparr>if_updated := u\<rparr>) = ip_core x"
  by (cases sel; simp add: ip_core_def)+

lemma ip_core_eqD:
  assumes "ip_core x = ip_core y"
  shows "if_state x = if_state y" "if_l3_dev x = if_l3_dev y" "if_main_dev x = if_main_dev y"
    "if_ext_dev x = if_ext_dev y" "if_name x = if_name y" "if_proto x = if_proto y"
    "if_available x = if_available y" "if_autostart x = if_autostart y"
  using arg_cong [OF assms, of if_state] arg_cong [OF assms, of if_l3_dev]
    arg_cong [OF assms, of if_main_dev] arg_cong [OF assms, of if_ext_dev]
    arg_cong [OF assms, of if_name] arg_cong [OF assms, of if_proto]
    arg_cong [OF assms, of if_available] arg_cong [OF assms, of if_autostart]
  by (simp_all add: ip_core_def)

lemma ip_frame_refl [simp]: "ip_frame w w"
  by (simp add: ip_frame_def)

lemma ip_frame_trans: "ip_frame w w' \<Longrightarrow> ip_frame w' w'' \<Longrightarrow> ip_frame w w''"
  by (simp add: ip_frame_def)

lemma ip_frame_same: "ip_frame w w' \<Longrightarrow> same_state w w'"
  by (auto simp: ip_frame_def same_state_def istate_def fun_eq_iff dest: ip_core_eqD)

lemma ip_frame_upd: "(\<And>x. ip_core (f x) = ip_core x) \<Longrightarrow> ip_frame w (upd_if i f w)"
  by (simp add: ip_frame_def upd_if_def)

lemma ip_frame_const: "ip_core x = ip_core (w_ifs w i) \<Longrightarrow> ip_frame w (upd_if i (\<lambda>_. x) w)"
  by (simp add: ip_frame_def upd_if_def)

text \<open>The frame rules, as a way to follow a chain of updates.\<close>

lemma frame_chain:
  "ip_frame w w1 \<Longrightarrow> ip_frame w (w1\<lparr>w_log := l\<rparr>)"
  "ip_frame w w1 \<Longrightarrow> ip_frame w (w1\<lparr>w_prefix := p\<rparr>)"
  "ip_frame w w1 \<Longrightarrow> ip_frame w (w1\<lparr>w_prefixes := ps\<rparr>)"
  "ip_frame w w1 \<Longrightarrow> ip_frame w (w1\<lparr>w_next_prefix := m\<rparr>)"
  "ip_frame w w1 \<Longrightarrow> ip_frame w (w1\<lparr>w_ula := u\<rparr>)"
  "ip_frame w w1 \<Longrightarrow> ip_frame w (w1\<lparr>w_refresh := r\<rparr>)"
  "ip_frame w w1 \<Longrightarrow> ip_frame w (klog_do q w1)"
  by (simp_all add: ip_frame_def klog_do_def)

lemma frame_upd_if:
  "ip_frame w w1 \<Longrightarrow> (\<And>x. ip_core (f x) = ip_core x) \<Longrightarrow> ip_frame w (upd_if i f w1)"
  by (rule ip_frame_trans [OF _ ip_frame_upd])

lemma frame_fold:
  assumes "\<And>x w1. ip_frame w w1 \<Longrightarrow> ip_frame w (f x w1)" and "ip_frame w w1"
  shows "ip_frame w (fold f xs w1)"
  using assms(2) by (induction xs arbitrary: w1) (simp_all add: assms(1))

lemma set_prefixes_enabled_frame: "ip_frame w (set_prefixes_enabled E i b ps w)"
proof (induction ps arbitrary: w)
  case (Cons p ps)
  show ?case
    unfolding set_prefixes_enabled.simps Let_def split_beta
    by (rule ip_frame_trans [OF _ Cons.IH]) (simp add: ip_frame_def)
qed simp

lemma ip_set_enabled_frame:
  "ip_frame w w1 \<Longrightarrow> ip_frame w (interface_ip_set_enabled E i sel b w1)"
proof -
  assume w1: "ip_frame w w1"
  have pre: "ip_frame w w2 \<Longrightarrow> ip_frame w (set_prefixes_enabled E i b ps w2)" for w2 ps
    by (rule ip_frame_trans [OF _ set_prefixes_enabled_frame])
  show ?thesis
    unfolding interface_ip_set_enabled_def Let_def split_beta
    using w1 by (auto split: option.split intro!: frame_chain frame_upd_if pre)
qed

lemma update_assignments_frame:
  "ip_frame w w1 \<Longrightarrow> ip_frame w (update_assignments E p b w1)"
  by (auto simp: update_assignments_def split_beta intro!: frame_chain)

lemma touch_prefix_frame: "ip_frame w w1 \<Longrightarrow> ip_frame w (touch_prefix tree w1)"
  by (auto simp: touch_prefix_def intro!: frame_upd_if split: option.split)

lemma update_prefix_cases_frame:
  "ip_frame w w1 \<Longrightarrow> ip_frame w (prefix_replaced E tree n p_old w1)"
  "ip_frame w w1 \<Longrightarrow> ip_frame w (prefix_added E n w1)"
  "ip_frame w w1 \<Longrightarrow> ip_frame w (prefix_removed E p_old w1)"
  by (auto simp: prefix_replaced_def prefix_added_def prefix_removed_def Let_def split_beta
      intro!: frame_chain touch_prefix_frame update_assignments_frame)

lemma update_prefix_frame:
  "ip_frame w w1 \<Longrightarrow> ip_frame w (interface_update_prefix E tree n p_old w1)"
  unfolding interface_update_prefix_def Let_def
  by (auto split: option.split intro!: frame_chain touch_prefix_frame update_prefix_cases_frame)

lemma add_device_prefix_frame:
  "ip_frame w w1 \<Longrightarrow> ip_frame w (snd (interface_ip_add_device_prefix E iface a l v p ex c w1))"
  unfolding interface_ip_add_device_prefix_def Let_def split_beta
  by (auto split: option.split intro!: frame_chain frame_upd_if update_prefix_frame)

lemma update_addr_frame: "ip_frame w w1 \<Longrightarrow> ip_frame w (snd (update_addr E i n a w1))"
proof -
  assume w1: "ip_frame w w1"
  have "ip_core (fst (interface_update_proto_addr S i x n a log)) = ip_core x" for S x log
    by (auto simp: interface_update_proto_addr_def Let_def split_beta split: option.split)
  then show ?thesis
    unfolding update_addr_def
    by (auto simp: split_beta intro!: ip_frame_trans [OF w1] ip_frame_trans [OF _ ip_frame_const] frame_chain)
qed

lemma update_route_frame: "ip_frame w w1 \<Longrightarrow> ip_frame w (snd (update_route E i sel n r w1))"
  and update_host_route_frame: "ip_frame w w1 \<Longrightarrow> ip_frame w (snd (update_host_route E i n r w1))"
proof -
  assume w1: "ip_frame w w1"
  have "ip_core (fst (interface_update_route S i x ip n r log)) = ip_core x" for S x ip log
    by (auto simp: interface_update_route_def Let_def split_beta split: option.split)
  then show "ip_frame w (snd (update_route E i sel n r w1))"
    and "ip_frame w (snd (update_host_route E i n r w1))"
    unfolding update_route_def update_host_route_def interface_update_proto_route_def
      interface_update_host_route_def
    by (auto simp: split_beta
        intro!: ip_frame_trans [OF w1] ip_frame_trans [OF _ ip_frame_const] frame_chain)
qed

lemma update_neighbor_frame: "ip_frame w w1 \<Longrightarrow> ip_frame w (snd (update_neighbor E i sel n a w1))"
  unfolding update_neighbor_def by (auto simp: split_beta intro!: frame_chain)

lemma vlist_flush_frame:
  "ip_frame w w1 \<Longrightarrow> ip_frame w (vlist_flush_routes E i sel w1)"
  "ip_frame w w1 \<Longrightarrow> ip_frame w (vlist_flush_addrs E i sel w1)"
  "ip_frame w w1 \<Longrightarrow> ip_frame w (vlist_flush_neighbors E i sel w1)"
  "ip_frame w w1 \<Longrightarrow> ip_frame w (vlist_flush_prefixes E i sel w1)"
  unfolding vlist_flush_routes_def vlist_flush_addrs_def vlist_flush_neighbors_def
    vlist_flush_prefixes_def Let_def
  by (auto intro!: frame_fold frame_upd_if update_route_frame update_addr_frame
      update_neighbor_frame update_prefix_frame)

lemma ip_flush_frame: "ip_frame w w1 \<Longrightarrow> ip_frame w (interface_ip_flush E i sel w1)"
  unfolding interface_ip_flush_def flush_host_routes_def flush_routes_def flush_addrs_def
    flush_neighbors_def flush_prefixes_def Let_def
  by (auto intro!: frame_fold frame_upd_if update_host_route_frame vlist_flush_frame)

lemma ip_update_frame:
  "ip_frame w w1 \<Longrightarrow> ip_frame w (interface_ip_update_start i sel w1)"
  "ip_frame w w1 \<Longrightarrow> ip_frame w (flush_old_settings E i sel w1)"
  unfolding interface_ip_update_start_def flush_old_settings_def Let_def
  by (auto intro!: frame_upd_if vlist_flush_frame)

lemma disable_ip_frame: "ip_frame w w1 \<Longrightarrow> ip_frame w (disable_ip E i w1)"
  unfolding disable_ip_def Let_def by (intro ip_flush_frame ip_set_enabled_frame)

lemma frame_put:
  assumes "\<And>n w2. r = (n, w2) \<Longrightarrow> ip_frame w w2"
    and "\<And>x n. ip_core (f n x) = ip_core x"
  shows "ip_frame w (case r of (n, w2) \<Rightarrow> case n of None \<Rightarrow> w2 | Some a \<Rightarrow> upd_if i (f a) w2)"
  using assms by (cases r) (auto intro!: frame_upd_if split: option.split)

lemma ip_add_frame:
  assumes w1: "ip_frame w w1"
  shows "ip_frame w (ip_add_addr E i a w1)" and "ip_frame w (ip_add_route E i sel r w1)"
    and "ip_frame w (ip_add_neighbor E i sel n w1)" and "ip_frame w (ip_add_host_route E i r w1)"
  unfolding ip_add_addr_def ip_add_route_def ip_add_neighbor_def ip_add_host_route_def Let_def
  by (rule frame_put, metis w1 update_addr_frame update_route_frame update_neighbor_frame
      update_host_route_frame snd_conv, simp)+

lemma w_ifs_upd:
  "w_ifs (upd_dev d f w) = w_ifs w"
  "w_ifs (upd_if i g w) j = (if j = i then g (w_ifs w i) else w_ifs w j)"
  by (simp_all add: upd_dev_def upd_if_def)

lemma if_state_errors [simp]:
  "if_state (interface_clear_errors f) = if_state f"
  "if_state (interface_add_error s c d f) = if_state f"
  by (auto simp: interface_clear_errors_def interface_add_error_def interface_error_flush_def Let_def)

lemma if_state_proto_error [simp]: "same_state w w1 \<Longrightarrow> same_state w (proto_error i c d w1)"
  by (auto simp: proto_error_def same_state_def istate_upd_if)

lemma ip_steps_same:
  "same_state w w1 \<Longrightarrow> same_state w (ip_add_addr E i a w1)"
  "same_state w w1 \<Longrightarrow> same_state w (ip_add_route E i sel r w1)"
  "same_state w w1 \<Longrightarrow> same_state w (ip_add_neighbor E i sel nb w1)"
  "same_state w w1 \<Longrightarrow> same_state w (ip_add_host_route E i r w1)"
  "same_state w w1 \<Longrightarrow> same_state w (snd (interface_ip_add_device_prefix E iface ad l v p ex c w1))"
  by (erule same_state_trans, rule ip_frame_same,
      intro ip_add_frame add_device_prefix_frame ip_frame_refl)+

lemma static_addresses_same:
  "same_state w w1 \<Longrightarrow>
   same_state w (snd (parse_static_address_option E i v6 m ext b p dep n items w1))"
  by (induction items arbitrary: n w1)
    (simp_all add: ip_steps_same split: proto_item.split option.split)

lemma prefix_list_same: "same_state w w1 \<Longrightarrow> same_state w (snd (parse_prefix_list E i n items w1))"
  by (induction items arbitrary: n w1)
    (simp_all add: parse_prefix_option_def ip_steps_same split: proto_item.split option.split)

lemma gateway_same: "same_state w w1 \<Longrightarrow> same_state w (snd (apply_gateway E i opts opt v6 n w1))"
  by (simp add: apply_gateway_def parse_gateway_option_def Let_def ip_steps_same split: option.split)

lemma prefixes_and_gateways_same:
  "same_state w w1 \<Longrightarrow> same_state w (snd (apply_prefixes_and_gateways E i opts n4 n6 w1))"
  unfolding apply_prefixes_and_gateways_def Let_def split_beta
  by (auto intro!: gateway_same prefix_list_same split: option.split)

lemma static_settings_same:
  "same_state w w1 \<Longrightarrow> same_state w (snd (proto_apply_static_ip_settings E i opts w1))"
  unfolding proto_apply_static_ip_settings_def Let_def split_beta
  by (auto intro!: prefixes_and_gateways_same static_addresses_same split: option.split)

section \<open>The abstract machine\<close>

text \<open>
  \<open>legal out s i s' es\<close>: interface \<open>i\<close> may go from state \<open>s\<close> to \<open>s'\<close>, telling \<open>es\<close>, when \<open>out\<close>
  was told before.
\<close>

inductive legal :: "out list \<Rightarrow> interface_state \<Rightarrow> ifid \<Rightarrow> interface_state \<Rightarrow> out list \<Rightarrow> bool" where
  l_setup: "legal out IFS_DOWN i IFS_SETUP []"
| l_up: "legal out IFS_SETUP i IFS_UP [OutEvent i IFEV_UP]"
| l_teardown: "s = IFS_UP \<or> s = IFS_SETUP \<Longrightarrow> legal out s i IFS_TEARDOWN []"
| l_begin_down: "legal out IFS_UP i IFS_TEARDOWN [OutEvent i IFEV_DOWN]"
| l_down: "s = IFS_UP \<or> s = IFS_TEARDOWN \<Longrightarrow> legal out s i IFS_DOWN [OutEvent i IFEV_DOWN]"
| l_failed: "legal out IFS_SETUP i IFS_DOWN [OutEvent i IFEV_UP_FAILED]"
| l_reset: "legal out s i IFS_DOWN [OutProtoState i]"
| l_alloc: "legal out s i IFS_SETUP [OutAllocInterface i]"
| l_lost: "OutLostConnection i \<in> set out \<Longrightarrow> legal out s i IFS_SETUP []"
| l_quiet: "quiet x \<Longrightarrow> legal out s i s [x]"

inductive_cases legal_cases: "legal out s i s' es"

type_synonym lstate = "(ifid \<Rightarrow> interface_state) \<times> out list"

inductive lstep :: "lstate \<Rightarrow> lstate \<Rightarrow> bool" where
  lstep_move: "legal out (s i) i s' es \<Longrightarrow> lstep (s, out) (s(i := s'), out @ es)"

definition lstate_of :: "world \<Rightarrow> lstate" where
  "lstate_of w = (istate w, w_out w)"

text \<open>A world is reached from another by transitions of the abstract machine.\<close>

definition refines :: "world \<Rightarrow> world \<Rightarrow> bool" where
  "refines w w' \<longleftrightarrow> lstep\<^sup>*\<^sup>* (lstate_of w) (lstate_of w')"

definition moves :: "ifid \<Rightarrow> interface_state \<Rightarrow> out list \<Rightarrow> world \<Rightarrow> world \<Rightarrow> bool" where
  "moves i s es w w' \<longleftrightarrow> w_out w' = w_out w @ es \<and> istate w' = (istate w)(i := s)
     \<and> (\<forall>s. shell_armed (w_shell w s) \<longrightarrow> shell_armed (w_shell w' s))"

lemma moves_set_state [simp]: "moves i s [] w (set_state i s w)"
  by (auto simp: moves_def set_state_def istate_def upd_if_def fun_eq_iff)

lemma istate_set_state [simp]: "istate (set_state i s w) = (istate w)(i := s)"
  by (auto simp: set_state_def istate_def upd_if_def fun_eq_iff)

lemma out_set_state [simp]: "w_out (set_state i s w) = w_out w"
  by (simp add: set_state_def)

lemma shell_set_state [simp]: "w_shell (set_state i s w) = w_shell w"
  by (simp add: set_state_def)

section \<open>Interface operations\<close>

locale interface_contract = device_contract +
  assumes rel_move: "legal (w_out w) (istate w i) i s es \<Longrightarrow> moves i s es w w' \<Longrightarrow> R w w'"
    and rel_out: "R w w' \<Longrightarrow> set (w_out w) \<subseteq> set (w_out w')"
    and rec_l3: "rec (CUser (UL3 i) ev) w = Some (r, w') \<Longrightarrow> ev \<noteq> DEV_EVENT_LINK_DOWN \<Longrightarrow> w' = w"
begin

lemma rel_moved: "R w0 w \<Longrightarrow> legal (w_out w) (istate w i) i s es \<Longrightarrow> moves i s es w w' \<Longrightarrow> R w0 w'"
  using rel_move rel_trans by blast

lemma rel_ip_set_enabled: "R w0 w \<Longrightarrow> R w0 (interface_ip_set_enabled E i sel b w)"
  by (erule rel_step) (rule ip_frame_same, rule ip_set_enabled_frame, simp)

lemma rel_ip_flush: "R w0 w \<Longrightarrow> R w0 (interface_ip_flush E i sel w)"
  by (erule rel_step) (rule ip_frame_same, rule ip_flush_frame, simp)

lemma rel_disable_ip: "R w0 w \<Longrightarrow> R w0 (disable_ip E i w)"
  by (erule rel_step) (rule ip_frame_same, rule disable_ip_frame, simp)

lemma rel_set_config: "R w0 w \<Longrightarrow> R w0 (set_config_state_field i s w)"
  unfolding set_config_state_field_def by (rule rel_if) simp_all

lemma notify_users_ok: "R w0 w \<Longrightarrow> okw w0 (notify_users rec i ev cur as w)"
  by (induction as arbitrary: w) (auto intro!: ok_rules call_void_ok)

lemma after_event_ok: "R w0 w \<Longrightarrow> okw w0 (after_event E rec i ev w)"
  by (cases ev)
    (auto simp: after_event_def Let_def interface_error_flush_def intro!: alias_notify_ok ok_Some rel_if)

lemma event_after: "R w0 (emit (OutEvent i ev) w) \<Longrightarrow> okw w0 (interface_event E rec i ev w)"
  unfolding interface_event_def Let_def
  by (intro ok_bind notify_users_ok after_event_ok) (simp_all add: rel_emit quiet_def)

lemma event_ok: "R w0 w \<Longrightarrow> quiet (OutEvent i ev) \<Longrightarrow> okw w0 (interface_event E rec i ev w)"
  by (rule event_after) (rule rel_emit)

lemma proto_event_ok: "R w0 w \<Longrightarrow> okp w0 (interface_proto_event rec i cmd force w)"
  unfolding interface_proto_event_def by (intro ok_rules rec_ok call_void_ok) simp_all

lemma flush_state_ok: "R w0 w \<Longrightarrow> okw w0 (interface_flush_state E rec i w)"
  unfolding interface_flush_state_def
  by (intro ok_rules release_ok rel_if) (simp_all add: interface_data_flush_def)

lemma mark_down_ok: "R w0 w \<Longrightarrow> okw w0 (mark_interface_down E rec i w)"
proof -
  assume w: "R w0 w"
  let ?ev = "if if_state (w_ifs w i) = IFS_SETUP then IFEV_UP_FAILED else IFEV_DOWN"
  let ?w1 = "set_state i IFS_DOWN (upd_if i (\<lambda>f. f\<lparr>if_link_up_event := False\<rparr>) w)"
  have "R w0 (emit (OutEvent i ?ev) ?w1)" if "if_state (w_ifs w i) \<noteq> IFS_DOWN"
  proof (rule rel_moved [OF w])
    show "legal (w_out w) (istate w i) i IFS_DOWN [OutEvent i ?ev]"
      using that by (cases "if_state (w_ifs w i)") (auto simp: istate_def intro: l_down l_failed)
    show "moves i IFS_DOWN [OutEvent i ?ev] w (emit (OutEvent i ?ev) ?w1)"
      by (auto simp: moves_def istate_def set_state_def upd_if_def emit_def fun_eq_iff)
  qed
  then show ?thesis
    unfolding mark_interface_down_def Let_def
    by (intro ok_rules event_after flush_state_ok rel_klog_do rel_disable_ip) (simp_all add: w)
qed

lemma moves_begin_teardown: "moves i IFS_TEARDOWN [] w (begin_teardown i w)"
  by (auto simp: moves_def begin_teardown_def Let_def set_state_def set_config_state_field_def istate_def
      upd_if_def fun_eq_iff)

lemma begin_teardown_rel:
  assumes "R w0 w" and "istate w i = IFS_UP \<or> istate w i = IFS_SETUP"
  shows "R w0 (begin_teardown i w)"
  using rel_moved [OF assms(1) l_teardown [OF assms(2)] moves_begin_teardown] .

lemma begin_down_rel:
  assumes "R w0 w" and "istate w i = IFS_UP"
  shows "R w0 (emit (OutEvent i IFEV_DOWN) (begin_teardown i w))"
proof (rule rel_moved [OF assms(1)])
  show "legal (w_out w) (istate w i) i IFS_TEARDOWN [OutEvent i IFEV_DOWN]"
    unfolding assms(2) by (rule l_begin_down)
  show "moves i IFS_TEARDOWN [OutEvent i IFEV_DOWN] w (emit (OutEvent i IFEV_DOWN) (begin_teardown i w))"
    using moves_begin_teardown [of i w] by (simp add: moves_def)
qed

lemma set_down_ok: "R w0 w \<Longrightarrow> okw w0 (do_set_down E rec i force w)"
  unfolding do_set_down_def Let_def
  by (cases "if_state (w_ifs w i)")
    (auto intro!: ok_rules release_ok proto_event_ok flush_state_ok event_after begin_down_rel
        begin_teardown_rel simp: istate_def)

lemma set_up_ok':
  assumes "R w0 w" and "istate w i = IFS_DOWN"
  shows "okp w0 (do_set_up E rec i w)"
proof -
  have "R w0 (set_state i IFS_SETUP w)"
    using rel_moved [OF assms(1) _ moves_set_state] assms(2) l_setup by metis
  then show ?thesis
    unfolding do_set_up_def by (intro ok_rules proto_event_ok mark_down_ok) simp_all
qed

lemma check_ok: "R w0 w \<Longrightarrow> okw w0 (interface_check_state E rec i w)"
  unfolding interface_check_state_def Let_def
  by (cases "if_state (w_ifs w i)")
    (auto intro!: ok_rules set_up_ok' proto_event_ok begin_teardown_rel simp: istate_def)

lemma set_enabled_ok: "R w0 w \<Longrightarrow> okw w0 (interface_set_enabled E rec i b w)"
  unfolding interface_set_enabled_def by (intro ok_rules check_ok rel_if) simp_all

lemma set_link_state_ok: "R w0 w \<Longrightarrow> okw w0 (interface_set_link_state E rec i b w)"
  unfolding interface_set_link_state_def
  by (intro ok_rules check_ok event_ok rel_if) (simp_all add: quiet_def)

lemma set_up_ok: "R w0 w \<Longrightarrow> okw w0 (interface_set_up E rec i w)"
proof -
  assume w: "R w0 w"
  let ?w1 = "upd_if i interface_clear_errors (upd_if i (\<lambda>f. f\<lparr>if_autostart := True\<rparr>) w)"
  have w1: "R w0 ?w1" by (intro rel_if w) simp_all
  have down: "istate ?w1 i = IFS_DOWN" if "if_state (w_ifs (upd_if i (\<lambda>f. f\<lparr>if_autostart := True\<rparr>) w) i) = IFS_DOWN"
    using that by (simp add: istate_def upd_if_def)
  show ?thesis
    unfolding interface_set_up_def Let_def
    by (intro ok_rules claim_ok check_ok set_up_ok')
      (auto simp: w1 down intro!: rel_if w split: option.split)
qed

lemma set_available_ok: "R w0 w \<Longrightarrow> okw w0 (interface_set_available E rec i b w)"
  unfolding interface_set_available_def Let_def
  by (intro ok_rules set_up_ok set_down_ok rel_if) simp_all

lemma set_l3_ok: "R w0 w \<Longrightarrow> okw w0 (interface_set_l3_dev E rec i dev w)"
  unfolding interface_set_l3_dev_def Let_def
  by (intro ok_rules add_user_ok claim_ok rel_ip_set_enabled rel_disable_ip) simp_all

lemma set_main_ok: "R w0 w \<Longrightarrow> okw w0 (interface_set_main_dev E rec i dev w)"
  unfolding interface_set_main_dev_def Let_def
  by (intro ok_rules set_available_ok add_user_ok set_link_state_ok claim_ok set_l3_ok) simp_all

lemma ext_cb_ok: "R w0 w \<Longrightarrow> okw w0 (interface_ext_dev_cb E rec i ev w)"
  unfolding interface_ext_dev_cb_def by (intro ok_rules remove_user_ok)

lemma main_cb_ok: "R w0 w \<Longrightarrow> okw w0 (interface_main_dev_cb E rec i ev w)"
  unfolding interface_main_dev_cb_def Let_def
  by (cases ev)
    (auto intro!: ok_rules set_available_ok set_main_ok set_enabled_ok set_link_state_ok proto_event_ok
      split: option.split)

lemma l3_cb_ok: "R w0 w \<Longrightarrow> okw w0 (interface_l3_dev_cb rec i ev w)"
  unfolding interface_l3_dev_cb_def Let_def by (intro ok_rules proto_event_ok) simp_all

lemma rel_users: "R w0 w \<Longrightarrow> R w0 (w\<lparr>w_ifusers := us\<rparr>)" "R w0 w \<Longrightarrow> R w0 (w\<lparr>w_allusers := as\<rparr>)"
  "R w0 w \<Longrightarrow> R w0 (w\<lparr>w_iflist := is\<rparr>)"
  by (erule rel_step, simp add: same_state_def)+

lemma rel_user_iface: "R w0 w \<Longrightarrow> R w0 (set_user_iface dep iface w)"
  by (cases dep) (auto intro!: rel_if rel_upd_proto)

lemma add_if_user_ok: "R w0 w \<Longrightarrow> okw w0 (interface_add_user rec dep iface w)"
  unfolding interface_add_user_def Let_def
  by (intro ok_rules call_void_ok) (simp_all add: rel_users rel_user_iface)

lemma rel_remove_if_user: "R w0 w \<Longrightarrow> R w0 (interface_remove_user dep w)"
  unfolding interface_remove_user_def Let_def
  by (rule rel_user_iface) (auto intro: rel_step simp: same_state_def istate_def)

lemma rel_remove_users: "R w0 w \<Longrightarrow> R w0 (fold (\<lambda>x. interface_remove_user (f x)) us w)"
  by (induction us arbitrary: w) (simp_all add: rel_remove_if_user)

lemma alias_interface_cb_ok: "R w0 w \<Longrightarrow> okw w0 (interface_alias_cb E rec a i ev w)"
  unfolding interface_alias_cb_def Let_def
  by (cases ev)
    (auto intro!: ok_rules set_main_ok set_available_ok rel_remove_if_user)

lemma set_device_config_ok: "R w0 w \<Longrightarrow> okw w0 (interface_set_device_config E rec i dev w)"
  unfolding interface_set_device_config_def Let_def
  by (intro ok_rules apply_config_ok rel_upd_dev) simp_all

lemma claim_device_ok:
  assumes "R w0 w"
  shows "okw w0 (interface_claim_device E rec i w)"
proof -
  define w1 where "w1 = (if if_parent_iface (w_ifs w i) \<noteq> None then interface_remove_user (AliasUser i) w else w)"
  have w1: "R w0 w1" using assms by (simp add: w1_def rel_remove_if_user)
  show ?thesis
    unfolding interface_claim_device_def Let_def w1_def[symmetric]
    by (intro ok_rules add_if_user_ok get_ok set_device_config_ok set_main_ok set_available_ok)
      (simp_all add: w1)
qed

lemma rel_clear_host_dep: "R w0 w \<Longrightarrow> R w0 (proto_shell_clear_host_dep s w)"
  unfolding proto_shell_clear_host_dep_def
  by (intro rel_upd_shell rel_remove_users) (simp_all add: shell_armed_def)

lemma rel_shell_free: "R w0 w \<Longrightarrow> R w0 (proto_shell_free s w)"
  unfolding proto_shell_free_def Let_def
  by (intro rel_kill_process rel_clear_host_dep rel_upd_shell) (simp_all add: shell_armed_def)

lemma rel_proto_free: "R w0 w \<Longrightarrow> R w0 (proto_free cb w)"
  by (simp add: proto_free_def udhcp_free_def isc_dhcp_free_def zcip_free_def rel_shell_free rel_upd_proto
      split: proto_cb.split)

lemma rel_proto_state: "R w0 w \<Longrightarrow> R w0 (interface_set_proto_state i st w)"
proof -
  assume w: "R w0 w"
  have "R w0 (set_state i IFS_DOWN (emit (OutProtoState i) x))" if "R w0 x" for x
    by (rule rel_moved [OF that l_reset]) (simp add: moves_def)
  then show ?thesis
    unfolding interface_set_proto_state_def Let_def
    by (intro rel_if) (simp_all add: w rel_proto_free split: option.split)
qed

lemma rel_proto_attach: "R w0 w \<Longrightarrow> R w0 (snd (proto_attach E i attr w))"
  by (auto simp: proto_attach_def proto_shell_attach_def udhcp_attach_def isc_dhcp_attach_def zcip_attach_def
      proto_shell_checkup_attach_def Let_def zero_shell_state_def shell_armed_def
      intro!: rel_upd_shell rel_upd_proto split: proto_attach_fn.split option.split)

lemma rel_proto_init: "R w0 w \<Longrightarrow> R w0 (proto_init_interface E i attr w)"
  unfolding proto_init_interface_def Let_def split_beta by (intro rel_proto_state rel_proto_attach)

lemma cleanup_state_ok: "R w0 w \<Longrightarrow> okw w0 (interface_cleanup_state E rec i w)"
  unfolding interface_cleanup_state_def Let_def
  by (intro ok_bind set_available_ok flush_state_ok set_main_ok set_l3_ok rel_proto_state rel_if) simp_all

lemma cleanup_ok: "R w0 w \<Longrightarrow> okw w0 (interface_cleanup E rec i w)"
proof -
  assume w: "R w0 w"
  note users = rel_remove_users [where f = "\<lambda>x. x"]
  show ?thesis
    unfolding interface_cleanup_def Let_def
    by (intro ok_bind remove_user_ok cleanup_state_ok rel_ip_flush rel_if users w)
      (simp_all add: rel_remove_if_user)
qed

lemma do_free_ok: "R w0 w \<Longrightarrow> okw w0 (interface_do_free E rec i w)"
  unfolding interface_do_free_def Let_def
  by (intro ok_bind ok_Some event_ok cleanup_ok rel_emit rel_users) (simp_all add: quiet_def)

lemma do_reload_ok: "R w0 w \<Longrightarrow> okw w0 (interface_do_reload E rec i w)"
  unfolding interface_do_reload_def
  by (intro ok_bind event_ok cleanup_state_ok claim_device_ok rel_proto_init) (simp_all add: quiet_def)

lemma config_change_ok: "R w0 w \<Longrightarrow> okw w0 (interface_handle_config_change E rec i w)"
  unfolding interface_handle_config_change_def Let_def
  by (intro ok_rules do_free_ok do_reload_ok set_up_ok rel_set_config)

text \<open>
  Registering the layer 3 device of an interface that has none calls nothing that could move
  the state machine.
\<close>

lemma first_l3_same:
  assumes "l3_device (w_ifs w i) = None" and "interface_set_l3_dev E rec i dev w = Some w'"
  shows "same_state w w'"
proof (cases dev)
  case None
  then show ?thesis using assms by (simp add: interface_set_l3_dev_def)
next
  case (Some d)
  define w1 where "w1 = disable_ip E i w"
  have frame: "ip_frame w w1" unfolding w1_def by (rule disable_ip_frame) simp
  then have l3: "if_l3_dev (w_ifs w1 i) = if_l3_dev (w_ifs w i)"
    by (auto simp: ip_frame_def dest: ip_core_eqD)
  define w2 where "w2 = list_add_user (UL3 i) d (upd_user (UL3 i) (\<lambda>x. x\<lparr>du_dev := Some d\<rparr>) w1)"
  have w2: "same_state w1 w2" "du_claimed (if_l3_dev (w_ifs w2 i)) = du_claimed (if_l3_dev (w_ifs w i))"
    unfolding w2_def list_add_user_def
    by (auto simp: same_state_def istate_upd_if l3 w_ifs_upd)
  have quiet_rec: "call_void rec (CUser (UL3 i) ev) x = Some y \<Longrightarrow> ev \<noteq> DEV_EVENT_LINK_DOWN \<Longrightarrow> y = x" for ev x y
    by (auto simp: call_void_def dest: rec_l3)
  have add: "device_add_user E rec (UL3 i) (Some d) w1 = Some y \<Longrightarrow> y = w2" for y
    using assms(1) l3
    by (auto simp: device_add_user_def device_add_user_to_def w2_def Let_def
        split: if_splits bind_splits dest!: quiet_rec)
  have "w' = w2 \<or> w' = interface_ip_set_enabled E i ProtoIp e (interface_ip_set_enabled E i ConfigIp e w2)"
    if "e = ip_enabled (if_config_ip (w_ifs w i))" for e
    using assms Some w2(2) that unfolding interface_set_l3_dev_def Let_def w1_def [symmetric]
    by (auto split: if_splits bind_splits dest!: add simp: device_claim_def)
  then have "same_state w2 w'"
    by (metis ip_frame_same ip_set_enabled_frame ip_frame_refl same_state_refl)
  then show ?thesis
    using ip_frame_same [OF frame] w2(1) same_state_trans by blast
qed

lemma proto_event_up_ok:
  assumes w: "R w0 w" and in_setup: "istate w i = IFS_SETUP"
  shows "okw w0 (proto_event_up E rec i w)"
proof -
  let ?l3 = "if l3_device (w_ifs w i) = None
             then interface_set_l3_dev E rec i (du_dev (if_main_dev (w_ifs w i))) w else Some w"
  have "okw w0 (interface_event E rec i IFEV_UP (upd_if i (\<lambda>f. f\<lparr>if_start_time := t\<rparr>)
          (set_state i IFS_UP (klog_do KFlushRoutes (interface_ip_set_enabled E i ProtoIp True
            (interface_ip_set_enabled E i ConfigIp True w1))))))"
    (is "okw w0 (interface_event E rec i IFEV_UP (upd_if i ?t (set_state i IFS_UP ?w2)))")
    if "?l3 = Some w1" for w1 t
  proof -
    have "same_state w w1" using that first_l3_same by (auto split: if_splits)
    moreover have "same_state w1 ?w2"
      by (rule ip_frame_same) (intro frame_chain ip_set_enabled_frame ip_frame_refl)
    ultimately have same: "same_state w ?w2" by (rule same_state_trans)
    have "R w0 (emit (OutEvent i IFEV_UP) (upd_if i ?t (set_state i IFS_UP ?w2)))"
    proof (rule rel_moved [OF w])
      show "legal (w_out w) (istate w i) i IFS_UP [OutEvent i IFEV_UP]"
        unfolding in_setup by (rule l_up)
      show "moves i IFS_UP [OutEvent i IFEV_UP] w
              (emit (OutEvent i IFEV_UP) (upd_if i ?t (set_state i IFS_UP ?w2)))"
        using same by (simp add: moves_def same_state_def istate_upd_if)
    qed
    then show ?thesis by (rule event_after)
  qed
  then show ?thesis
    unfolding proto_event_up_def Let_def by (cases ?l3) (simp_all split del: if_split)
qed

lemma proto_event_down_ok: "R w0 w \<Longrightarrow> okw w0 (proto_event_down E rec i w)"
  unfolding proto_event_down_def
  by (intro ok_rules mark_down_ok release_ok remove_user_ok config_change_ok)

lemma proto_event_cb_ok:
  assumes w: "R w0 w"
  shows "okw w0 (interface_proto_event_cb E rec i ev w)"
proof (cases ev)
  case IFPEV_UP
  then show ?thesis
    unfolding interface_proto_event_cb_def Let_def
    by (auto intro!: ok_rules ok_map event_ok proto_event_up_ok rel_emit w simp: istate_def quiet_def)
next
  case IFPEV_LINK_LOST
  let ?w1 = "emit (OutLostConnection i) w"
  have w1: "R w0 ?w1" by (intro rel_emit w) (simp add: quiet_def)
  have "R w0 (emit (OutResolvConf j) (set_state i IFS_SETUP w2))"
    if "mark_interface_down E rec i ?w1 = Some w2" for w2 j
  proof -
    have r: "R ?w1 w2" using mark_down_ok [OF rel_refl] that by (simp add: ok_def)
    then have lost: "OutLostConnection i \<in> set (w_out w2)" using rel_out by force
    have "R w0 (set_state i IFS_SETUP w2)"
      by (rule rel_moved [OF rel_trans [OF w1 r] l_lost [OF lost] moves_set_state])
    then show ?thesis by (rule rel_emit) (simp add: quiet_def)
  qed
  then show ?thesis
    using IFPEV_LINK_LOST w unfolding interface_proto_event_cb_def Let_def ok_def
    by (auto split: bind_splits)
qed (auto simp: interface_proto_event_cb_def Let_def quiet_def
      intro!: ok_rules ok_map proto_event_down_ok rel_emit w)

lemma remove_link_ok: "R w0 w \<Longrightarrow> okp w0 (interface_remove_link E rec i d vlan w)"
  unfolding interface_remove_link_def Let_def
  by (intro ok_rules remove_user_ok set_main_ok rec_ok) simp_all

lemma add_link_ok: "R w0 w \<Longrightarrow> okp w0 (interface_add_link E rec i d vlan ext w)"
  unfolding interface_add_link_def Let_def
  by (intro ok_rules remove_user_ok add_user_ok set_main_ok rec_ok) (simp_all add: rel_upd_user del: upd_user.simps)

lemma handle_link_ok: "R w0 w \<Longrightarrow> okp w0 (interface_handle_link E rec i name vlan add ext w)"
  unfolding interface_handle_link_def
  by (intro ok_rules get_ok remove_link_ok set_device_config_ok set_present_ok add_link_ok) simp_all

lemma if_set_down_ok: "R w0 w \<Longrightarrow> okw w0 (interface_set_down E rec i w)"
  unfolding interface_set_down_def by (intro set_down_ok rel_if) simp_all

lemma each_interface_ok:
  assumes "\<And>i w. R w0 w \<Longrightarrow> okw w0 (f i w)" and "R w0 w"
  shows "okw w0 (each_interface f is w)"
  using assms(2) by (induction "is" arbitrary: w) (auto intro!: ok_rules assms(1))

lemma renew_ok: "R w0 w \<Longrightarrow> okp w0 (interface_renew rec i w)"
  unfolding interface_renew_def by (intro ok_rules proto_event_ok) simp_all

lemma set_config_state_ok: "R w0 w \<Longrightarrow> okw w0 (set_config_state E rec i s w)"
  unfolding set_config_state_def Let_def
  by (intro ok_rules config_change_ok set_down_ok rel_set_config)

lemma static_handler_ok: "R w0 w \<Longrightarrow> okp w0 (static_handler E rec i config cmd w)"
proof -
  assume w: "R w0 w"
  have "okp w0 (static_proto_setup E rec i config w)"
    unfolding static_proto_setup_def Let_def split_beta
    by (intro ok_bind set_l3_ok w ok_Some) (simp add: rel_step [OF _ static_settings_same])
  then show ?thesis
    unfolding static_handler_def
    by (cases cmd) (auto intro!: ok_rules simp: w)
qed

end

end
