(* ===== verification/SettingsUpdate.thy ===== *)
theory SettingsUpdate
  imports ProtoConfig RouteConfig
begin

text \<open>
  Updates of the IP settings of an interface while it runs, \<open>src/interface-ip.c\<close> and
  \<open>src/interface.c\<close>: name servers, routes, neighbours and host routes from attributes, as functions
  on the world, and the start and end of an update. The attribute tables come parsed.
\<close>

unbundle bit_operations_syntax

section \<open>Name servers and search domains\<close>

definition dns_node :: "'a \<Rightarrow> 'a vlist_simple_node" where
  "dns_node x = \<lparr>node_version = 0, node_data = x\<rparr>"

definition interface_add_dns_server ::
  "inet_pton \<Rightarrow> string \<Rightarrow> interface_ip_settings \<Rightarrow> interface_ip_settings" where
  "interface_add_dns_server pton str ip =
     (let add = (\<lambda>v6 bs. ip\<lparr>ip_dns_servers := vlist_simple_add (ip_dns_servers ip)
                    (dns_node \<lparr>dns_af6 = v6, dns_addr = store_bytes bs zero_addr\<rparr>)\<rparr>)
      in case pton False str of
           Some bs \<Rightarrow> add False bs
         | None \<Rightarrow> (case pton True str of Some bs \<Rightarrow> add True bs | None \<Rightarrow> ip))"

text \<open>Elements of the list that are not strings are skipped.\<close>

fun interface_add_dns_server_list ::
  "inet_pton \<Rightarrow> proto_item list \<Rightarrow> interface_ip_settings \<Rightarrow> interface_ip_settings" where
  "interface_add_dns_server_list pton [] ip = ip"
| "interface_add_dns_server_list pton (cur # rest) ip =
     interface_add_dns_server_list pton rest
       (case cur of ItemString s \<Rightarrow> interface_add_dns_server pton s ip | _ \<Rightarrow> ip)"

definition interface_add_dns_search_domain :: "string \<Rightarrow> interface_ip_settings \<Rightarrow> interface_ip_settings" where
  "interface_add_dns_search_domain str ip =
     ip\<lparr>ip_dns_search := vlist_simple_add (ip_dns_search ip) (dns_node str)\<rparr>"

fun interface_add_dns_search_list :: "proto_item list \<Rightarrow> interface_ip_settings \<Rightarrow> interface_ip_settings" where
  "interface_add_dns_search_list [] ip = ip"
| "interface_add_dns_search_list (cur # rest) ip =
     interface_add_dns_search_list rest
       (case cur of ItemString s \<Rightarrow> interface_add_dns_search_domain s ip | _ \<Rightarrow> ip)"

section \<open>Routes and neighbours\<close>

abbreviation config_sel :: "bool \<Rightarrow> ipsel" where
  "config_sel config \<equiv> (if config then ConfigIp else ProtoIp)"

definition iface_ref :: "world \<Rightarrow> ifid option \<Rightarrow> (ifid \<times> interface) option" where
  "iface_ref w = map_option (\<lambda>i. (i, w_ifs w i))"

definition add_route :: "world_env \<Rightarrow> ifid option \<Rightarrow> route_attr attr_tb \<Rightarrow> bool \<Rightarrow> world \<Rightarrow> world" where
  "add_route E iface tb v6 w =
     interface_ip_add_route (\<lambda>config i. ip_add_route E i (config_sel config)) (we_parse E) (ifaces_of w)
       (iface_ref w iface) tb v6 w"

definition add_neighbor :: "world_env \<Rightarrow> ifid option \<Rightarrow> neighbor_attr attr_tb \<Rightarrow> bool \<Rightarrow> world \<Rightarrow> world" where
  "add_neighbor E iface tb v6 w =
     interface_ip_add_neighbor (\<lambda>config i. ip_add_neighbor E i (config_sel config)) (we_parse E) (ifaces_of w)
       (iface_ref w iface) tb v6 w"

definition add_target_route ::
  "world_env \<Rightarrow> if_addr \<Rightarrow> bool \<Rightarrow> ifid option \<Rightarrow> bool \<Rightarrow> world \<Rightarrow> ifid option \<times> world" where
  "add_target_route E addr v6 iface exclude w =
     interface_ip_add_target_route (ip_add_host_route E) (ifaces_of w) addr v6 (iface_ref w iface) exclude w"

definition add_dns :: "world_env \<Rightarrow> ifid \<Rightarrow> ipsel \<Rightarrow> proto_item list \<Rightarrow> world \<Rightarrow> world" where
  "add_dns E i sel items =
     upd_if i (upd_ip sel (interface_add_dns_server_list (pe_inet_pton (we_parse E)) items))"

definition add_dns_search :: "ifid \<Rightarrow> ipsel \<Rightarrow> proto_item list \<Rightarrow> world \<Rightarrow> world" where
  "add_dns_search i sel items = upd_if i (upd_ip sel (interface_add_dns_search_list items))"

section \<open>The start and the end of an update\<close>

definition interface_update_start :: "ifid \<Rightarrow> bool \<Rightarrow> world \<Rightarrow> world" where
  "interface_update_start i keep_old w =
     (let w = upd_if i (\<lambda>f. f\<lparr>if_updated := 0\<rparr>) w
      in if \<not> keep_old then interface_ip_update_start i ProtoIp w else w)"

definition interface_update_complete :: "world_env \<Rightarrow> ifid \<Rightarrow> world \<Rightarrow> world" where
  "interface_update_complete E i w = interface_ip_update_complete E i ProtoIp w"

end
