(* ===== verification/ProtoShell.thy ===== *)
theory ProtoShell
  imports SettingsUpdate VlanDev
begin

text \<open>
  Protocols that run a script, \<open>src/proto-shell.c\<close>: the state machine of the script and of the
  process that it starts, the timers that bound how long they may take, the notifications by
  which the script reports (ubus calls, parsed), and the dependencies on hosts that have to be
  reachable. Status codes of ubus are numbers: 2 for an invalid argument, 4 for not found, 6 for
  permission denied, 9 for an unknown error.
\<close>

unbundle bit_operations_syntax

section \<open>Host dependencies\<close>

definition proto_shell_check_dependencies ::
  "world_env \<Rightarrow> rec \<Rightarrow> psid \<Rightarrow> world \<Rightarrow> world option" where
  "proto_shell_check_dependencies E rec s w =
     interface_set_available E rec (sh_iface (w_shell w s))
       (list_all (\<lambda>k. sd_iface (w_dep w k) \<noteq> None) (sh_deps (w_shell w s))) w"

text \<open>
  The interface that a dependency names, if it has to be searched for: \<open>None\<close> when there is
  nothing to do, \<open>Some None\<close> when any interface will do.
\<close>

definition dep_search :: "depid \<Rightarrow> world \<Rightarrow> ifid option option" where
  "dep_search k w =
     (let dep = w_dep w k
      in if sd_iface dep \<noteq> None then None
         else if sd_interface dep \<noteq> [] then
           (case find_interface w (sd_interface dep) of
              None \<Rightarrow> None
            | Some i \<Rightarrow> if if_state (w_ifs w i) \<noteq> IFS_UP then None else Some (Some i))
         else Some None)"

definition proto_shell_update_host_dep :: "world_env \<Rightarrow> rec \<Rightarrow> depid \<Rightarrow> world \<Rightarrow> world option" where
  "proto_shell_update_host_dep E rec k w =
     (let dep = w_dep w k
      in do {
        w \<leftarrow> (case dep_search k w of
               None \<Rightarrow> Some w
             | Some iface \<Rightarrow>
                 let (iface, w) = (if \<not> sd_any dep
                                   then add_target_route E (sd_host dep) (sd_v6 dep) iface False w
                                   else (iface, w))
                 in case iface of
                      None \<Rightarrow> Some w
                    | Some i \<Rightarrow>
                        interface_add_user rec (ShellDep k) (Some i)
                          (upd_dep k (\<lambda>x. x\<lparr>sd_down := True\<rparr>) (interface_remove_user (ShellDep k) w)));
        proto_shell_check_dependencies E rec (sd_proto dep) w
      })"

section \<open>Commands\<close>

text \<open>Running the script, with the main device as its last argument if there is one.\<close>

definition proto_shell_run ::
  "world_env \<Rightarrow> psid \<Rightarrow> string \<Rightarrow> string list \<Rightarrow> world \<Rightarrow> int \<times> world" where
  "proto_shell_run E s action envp w =
     (let x = w_shell w s; iface = w_ifs w (sh_iface x)
      in case we_json E (sh_config x) of
           None \<Rightarrow> (-1, w)
         | Some config \<Rightarrow>
             netifd_start_process E
               ([sh_script_name x, ph_name (sh_handler x), action, if_name iface, config] @
                (case du_dev (if_main_dev iface) of None \<Rightarrow> [] | Some d \<Rightarrow> [dv_ifname (w_devs w d)]))
               envp (ScriptTask s) w)"

definition proto_shell_setup :: "world_env \<Rightarrow> psid \<Rightarrow> world \<Rightarrow> int \<times> world" where
  "proto_shell_setup E s w =
     (if sh_sm (w_shell w s) \<noteq> S_IDLE then (-1, w)
      else let w = upd_shell s (\<lambda>x. x\<lparr>sh_last_error := -1\<rparr>) w;
               w = proto_shell_clear_host_dep s w
           in proto_shell_run E s ''setup'' [] (upd_shell s (\<lambda>x. x\<lparr>sh_sm := S_SETUP\<rparr>) w))"

definition proto_shell_renew :: "world_env \<Rightarrow> psid \<Rightarrow> world \<Rightarrow> int \<times> world" where
  "proto_shell_renew E s w =
     (if \<not> has_flag (ph_flags (sh_handler (w_shell w s))) PROTO_FLAG_RENEW_AVAILABLE then (0, w)
      else if sh_script_task (w_shell w s) then (0, upd_shell s (\<lambda>x. x\<lparr>sh_renew_pending := True\<rparr>) w)
      else proto_shell_run E s ''renew'' [] (upd_shell s (\<lambda>x. x\<lparr>sh_renew_pending := False\<rparr>) w))"

text \<open>While the script for the setup runs, its processes are asked to end, and the teardown waits for them.\<close>

definition proto_shell_abort :: "psid \<Rightarrow> world \<Rightarrow> int \<times> world" where
  "proto_shell_abort s w =
     (let w = upd_shell s (\<lambda>x. x\<lparr>sh_teardown_timeout := Some 1000\<rparr>) w;
          w = emit (OutKill (ScriptTask s) SIGTERM) w;
          w = (if sh_proto_task (w_shell w s) then emit (OutKill (ProtoTask s) SIGTERM) w else w)
      in (0, upd_shell s (\<lambda>x. x\<lparr>sh_renew_pending := False, sh_sm := S_SETUP_ABORT\<rparr>) w))"

definition proto_shell_begin_teardown :: "world_env \<Rightarrow> psid \<Rightarrow> world \<Rightarrow> int \<times> world" where
  "proto_shell_begin_teardown E s w =
     (let last_error = sh_last_error (w_shell w s);
          envp = (if last_error \<ge> 0 then [''ERROR='' @ format_d last_error] else [])
      in proto_shell_run E s ''teardown'' envp
           (upd_shell s (\<lambda>x. x\<lparr>sh_renew_pending := False, sh_sm := S_TEARDOWN,
                              sh_teardown_timeout := Some 5000\<rparr>) w))"

definition proto_shell_handler :: "world_env \<Rightarrow> psid \<Rightarrow> interface_proto_cmd \<Rightarrow> world \<Rightarrow> int \<times> world" where
  "proto_shell_handler E s cmd w =
     (case cmd of
        PROTO_CMD_SETUP \<Rightarrow> proto_shell_setup E s w
      | PROTO_CMD_RENEW \<Rightarrow> proto_shell_renew E s w
      | PROTO_CMD_TEARDOWN \<Rightarrow>
          (case sh_sm (w_shell w s) of
             S_SETUP \<Rightarrow> if sh_script_task (w_shell w s) then proto_shell_abort s w
                        else proto_shell_begin_teardown E s w
           | S_IDLE \<Rightarrow> proto_shell_begin_teardown E s w
           | S_TEARDOWN \<Rightarrow> (0, w)
           | S_SETUP_ABORT \<Rightarrow> (-1, w)))"

section \<open>Callbacks of the dependencies\<close>

definition proto_shell_event :: "rec \<Rightarrow> psid \<Rightarrow> interface_proto_event \<Rightarrow> world \<Rightarrow> world option" where
  "proto_shell_event rec s ev w = call_void rec (CProtoEvent (sh_iface (w_shell w s)) ev) w"

definition proto_shell_if_up_cb ::
  "world_env \<Rightarrow> rec \<Rightarrow> depid \<Rightarrow> interface_event \<Rightarrow> world \<Rightarrow> world option" where
  "proto_shell_if_up_cb E rec k ev w =
     (if ev \<noteq> IFEV_UP \<and> ev \<noteq> IFEV_UPDATE then Some w else proto_shell_update_host_dep E rec k w)"

definition proto_shell_if_down_cb ::
  "world_env \<Rightarrow> rec \<Rightarrow> depid \<Rightarrow> interface_event \<Rightarrow> world \<Rightarrow> world option" where
  "proto_shell_if_down_cb E rec k ev w =
     (if ev = IFEV_UP \<or> ev = IFEV_UPDATE then Some w
      else do {
        w \<leftarrow> interface_add_user rec (ShellDep k) None
               (upd_dep k (\<lambda>x. x\<lparr>sd_down := False\<rparr>) (interface_remove_user (ShellDep k) w));
        let s = sd_proto (w_dep w k);
        if sh_sm (w_shell w s) = S_IDLE then do {
          w \<leftarrow> proto_shell_event rec s IFPEV_LINK_LOST w;
          Some (snd (proto_shell_handler E s PROTO_CMD_TEARDOWN w))
        }
        else Some w
      })"

definition proto_shell_dep_cb ::
  "world_env \<Rightarrow> rec \<Rightarrow> depid \<Rightarrow> interface_event \<Rightarrow> world \<Rightarrow> world option" where
  "proto_shell_dep_cb E rec k ev w =
     (if sd_down (w_dep w k) then proto_shell_if_down_cb E rec k ev w
      else proto_shell_if_up_cb E rec k ev w)"

section \<open>Processes and timers\<close>

text \<open>What happens in the states \<open>S_IDLE\<close> and \<open>S_SETUP\<close> when a process has ended.\<close>

definition setup_task_finish :: "world_env \<Rightarrow> psid \<Rightarrow> process option \<Rightarrow> world \<Rightarrow> world" where
  "setup_task_finish E s task w =
     (if task = Some (ProtoTask s) then snd (proto_shell_handler E s PROTO_CMD_TEARDOWN w)
      else if task = Some (ScriptTask s) then
        let x = w_shell w s;
            w = (if sh_renew_pending x then snd (proto_shell_handler E s PROTO_CMD_RENEW w)
                 else if \<not> has_flag (ph_flags (sh_handler x)) PROTO_FLAG_NO_TASK \<and> \<not> sh_proto_task x
                         \<and> sh_sm x = S_SETUP
                 then snd (proto_shell_handler E s PROTO_CMD_TEARDOWN w)
                 else w);
            x = w_shell w s
        in if sh_sm x = S_SETUP \<and> sh_checkup_interval x > 0
           then upd_shell s (\<lambda>x. x\<lparr>sh_checkup_timeout := Some (sh_checkup_interval x * 1000)\<rparr>) w else w
      else w)"

definition shell_now_idle :: "psid \<Rightarrow> world \<Rightarrow> world" where
  "shell_now_idle s =
     upd_shell s (\<lambda>x. x\<lparr>sh_teardown_timeout := None, sh_checkup_timeout := None, sh_sm := S_IDLE\<rparr>)"

definition proto_shell_task_finish ::
  "world_env \<Rightarrow> rec \<Rightarrow> psid \<Rightarrow> process option \<Rightarrow> world \<Rightarrow> world option" where
  "proto_shell_task_finish E rec s task w =
     (let x = w_shell w s
      in case sh_sm x of
           S_IDLE \<Rightarrow> do {
             w \<leftarrow> (if task = Some (ProtoTask s) then proto_shell_event rec s IFPEV_LINK_LOST w else Some w);
             Some (setup_task_finish E s task w)
           }
         | S_SETUP \<Rightarrow> Some (setup_task_finish E s task w)
         | S_SETUP_ABORT \<Rightarrow>
             if sh_script_task x \<or> sh_proto_task x then Some w
             else Some (snd (proto_shell_handler E s PROTO_CMD_TEARDOWN (shell_now_idle s w)))
         | S_TEARDOWN \<Rightarrow>
             if sh_script_task x then Some w
             else if sh_proto_task x then
               Some (if \<not> sh_proto_task_killed x then emit (OutKill (ProtoTask s) SIGTERM) w else w)
             else proto_shell_event rec s IFPEV_DOWN (shell_now_idle s w))"

text \<open>
  A timer that fires and a process that ends are no longer pending when their callback is
  called. \<open>WEXITSTATUS\<close> takes the second byte of the status.
\<close>

definition proto_shell_teardown_timeout_cb :: "world_env \<Rightarrow> rec \<Rightarrow> psid \<Rightarrow> world \<Rightarrow> world option" where
  "proto_shell_teardown_timeout_cb E rec s w =
     proto_shell_task_finish E rec s None
       (netifd_kill_process (ProtoTask s) (netifd_kill_process (ScriptTask s) w))"

definition proto_shell_script_cb :: "world_env \<Rightarrow> rec \<Rightarrow> psid \<Rightarrow> world \<Rightarrow> world option" where
  "proto_shell_script_cb E rec s w = proto_shell_task_finish E rec s (Some (ScriptTask s)) w"

definition WEXITSTATUS :: "int \<Rightarrow> int" where
  "WEXITSTATUS status = status div 256 mod 256"

definition proto_shell_task_cb :: "world_env \<Rightarrow> rec \<Rightarrow> psid \<Rightarrow> int \<Rightarrow> world \<Rightarrow> world option" where
  "proto_shell_task_cb E rec s ret w =
     (let w = (if sh_sm (w_shell w s) = S_IDLE \<or> sh_sm (w_shell w s) = S_SETUP
               then upd_shell s (\<lambda>x. x\<lparr>sh_last_error := WEXITSTATUS ret\<rparr>) w else w)
      in proto_shell_task_finish E rec s (Some (ProtoTask s)) w)"

definition proto_shell_checkup_timeout_cb :: "world_env \<Rightarrow> psid \<Rightarrow> world \<Rightarrow> world" where
  "proto_shell_checkup_timeout_cb E s w =
     (let iface = w_ifs w (sh_iface (w_shell w s))
      in if \<not> if_autostart iface \<or> if_state iface = IFS_UP then w
         else snd (proto_shell_handler E s PROTO_CMD_TEARDOWN w))"

end
