(* ===== verification/ShellNotify.thy ===== *)
theory ShellNotify
  imports ProtoShell
begin

text \<open>
  The notifications of a shell protocol, \<open>src/proto-shell.c\<close>, and the description of its handler.
  A notification comes parsed: an array of strings has \<open>None\<close> for an element that is not a valid
  string, an array of tables \<open>None\<close> for one that is no table.
\<close>

unbundle bit_operations_syntax

record shell_notify =
  sn_action :: "u32 option"
  sn_error :: "string option list option"
  sn_command :: "string option list option"
  sn_env :: "string option list option"
  sn_signal :: "u32 option"
  sn_available :: "bool option"
  sn_link_up :: "bool option"
  sn_ifname :: "string option"
  sn_addr_ext :: "bool option"
  sn_routes :: "route_attr attr_tb option list option"
  sn_routes6 :: "route_attr attr_tb option list option"
  sn_tunnel :: "blob option"
  sn_data :: "(bool \<times> string \<times> blob) list option"
  sn_keep :: "bool option"
  sn_host :: "string option"
  sn_dns :: "proto_item list option"
  sn_dns_search :: "proto_item list option"
  sn_neighbors :: "neighbor_attr attr_tb option list option"
  sn_neighbors6 :: "neighbor_attr attr_tb option list option"
  sn_ip :: proto_opts

datatype shell_notify_attr =
    NOTIFY_ACTION | NOTIFY_ERROR | NOTIFY_COMMAND | NOTIFY_ENV | NOTIFY_SIGNAL | NOTIFY_AVAILABLE
  | NOTIFY_LINK_UP | NOTIFY_IFNAME | NOTIFY_ADDR_EXT | NOTIFY_ROUTES | NOTIFY_ROUTES6 | NOTIFY_TUNNEL
  | NOTIFY_DATA | NOTIFY_KEEP | NOTIFY_HOST | NOTIFY_DNS | NOTIFY_DNS_SEARCH | NOTIFY_NEIGHBORS
  | NOTIFY_NEIGHBORS6

fun shell_notify_attrs :: "shell_notify_attr \<Rightarrow> string \<times> blobmsg_type" where
  "shell_notify_attrs NOTIFY_ACTION = (''action'', BLOBMSG_TYPE_INT32)"
| "shell_notify_attrs NOTIFY_ERROR = (''error'', BLOBMSG_TYPE_ARRAY)"
| "shell_notify_attrs NOTIFY_COMMAND = (''command'', BLOBMSG_TYPE_ARRAY)"
| "shell_notify_attrs NOTIFY_ENV = (''env'', BLOBMSG_TYPE_ARRAY)"
| "shell_notify_attrs NOTIFY_SIGNAL = (''signal'', BLOBMSG_TYPE_INT32)"
| "shell_notify_attrs NOTIFY_AVAILABLE = (''available'', BLOBMSG_TYPE_BOOL)"
| "shell_notify_attrs NOTIFY_LINK_UP = (''link-up'', BLOBMSG_TYPE_BOOL)"
| "shell_notify_attrs NOTIFY_IFNAME = (''ifname'', BLOBMSG_TYPE_STRING)"
| "shell_notify_attrs NOTIFY_ADDR_EXT = (''address-external'', BLOBMSG_TYPE_BOOL)"
| "shell_notify_attrs NOTIFY_ROUTES = (''routes'', BLOBMSG_TYPE_ARRAY)"
| "shell_notify_attrs NOTIFY_ROUTES6 = (''routes6'', BLOBMSG_TYPE_ARRAY)"
| "shell_notify_attrs NOTIFY_TUNNEL = (''tunnel'', BLOBMSG_TYPE_TABLE)"
| "shell_notify_attrs NOTIFY_DATA = (''data'', BLOBMSG_TYPE_TABLE)"
| "shell_notify_attrs NOTIFY_KEEP = (''keep'', BLOBMSG_TYPE_BOOL)"
| "shell_notify_attrs NOTIFY_HOST = (''host'', BLOBMSG_TYPE_STRING)"
| "shell_notify_attrs NOTIFY_DNS = (''dns'', BLOBMSG_TYPE_ARRAY)"
| "shell_notify_attrs NOTIFY_DNS_SEARCH = (''dns_search'', BLOBMSG_TYPE_ARRAY)"
| "shell_notify_attrs NOTIFY_NEIGHBORS = (''neighbor'', BLOBMSG_TYPE_ARRAY)"
| "shell_notify_attrs NOTIFY_NEIGHBORS6 = (''neighbor6'', BLOBMSG_TYPE_ARRAY)"

abbreviation for_attr :: "'a option \<Rightarrow> ('a \<Rightarrow> world \<Rightarrow> world) \<Rightarrow> world \<Rightarrow> world" where
  "for_attr cur f w \<equiv> (case cur of None \<Rightarrow> w | Some a \<Rightarrow> f a w)"

section \<open>The link\<close>

fun proto_shell_parse_route_list ::
  "world_env \<Rightarrow> ifid \<Rightarrow> bool \<Rightarrow> route_attr attr_tb option list \<Rightarrow> world \<Rightarrow> world" where
  "proto_shell_parse_route_list E i v6 [] w = w"
| "proto_shell_parse_route_list E i v6 (cur # rest) w =
     proto_shell_parse_route_list E i v6 rest
       (case cur of None \<Rightarrow> w | Some tb \<Rightarrow> add_route E (Some i) tb v6 w)"

fun proto_shell_parse_neighbor_list ::
  "world_env \<Rightarrow> ifid \<Rightarrow> bool \<Rightarrow> neighbor_attr attr_tb option list \<Rightarrow> world \<Rightarrow> world" where
  "proto_shell_parse_neighbor_list E i v6 [] w = w"
| "proto_shell_parse_neighbor_list E i v6 (cur # rest) w =
     proto_shell_parse_neighbor_list E i v6 rest
       (case cur of None \<Rightarrow> w | Some tb \<Rightarrow> add_neighbor E (Some i) tb v6 w)"

definition proto_shell_parse_data :: "ifid \<Rightarrow> (bool \<times> string \<times> blob) list \<Rightarrow> world \<Rightarrow> world" where
  "proto_shell_parse_data i attrs =
     upd_if i (fold (\<lambda>(ok, name, data) f. snd (interface_add_data ok name data f)) attrs)"

definition proto_shell_create_tunnel ::
  "world_env \<Rightarrow> rec \<Rightarrow> string \<Rightarrow> blob \<Rightarrow> world \<Rightarrow> (did option \<times> world) option" where
  "proto_shell_create_tunnel E rec name attr w = device_create E rec name (DevOther ''tunnel'') (Some attr) w"

text \<open>
  Setting the layer 3 device of the interface: the one that the notification names, made when it
  is a tunnel, or else the main device. The result is an error status.
\<close>

definition update_link_device ::
  "world_env \<Rightarrow> rec \<Rightarrow> ifid \<Rightarrow> shell_notify \<Rightarrow> nat \<Rightarrow> world \<Rightarrow> (int option \<times> world) option" where
  "update_link_device E rec i tb dev_create w = do {
     (dev, w) \<leftarrow>
       (case sn_ifname tb of
          None \<Rightarrow> Some (du_dev (if_main_dev (w_ifs w i)), w)
        | Some devname \<Rightarrow>
            (case sn_tunnel tb of
               Some attr \<Rightarrow> proto_shell_create_tunnel E rec devname attr w
             | None \<Rightarrow> device_get E rec devname dev_create w));
     case dev of
       None \<Rightarrow> Some (Some 2, w)
     | Some d \<Rightarrow> do {
         w \<leftarrow> interface_set_l3_dev E rec i (Some d) w;
         (ret, w) \<leftarrow> device_claim E rec (UL3 i) w;
         if ret < 0 then Some (Some 9, w)
         else do {
           w \<leftarrow> device_set_present E rec d True w;
           Some (None, w)
         }
       }
   }"

text \<open>The settings of the notification replace those before, unless they are kept.\<close>

definition update_link_settings ::
  "world_env \<Rightarrow> ifid \<Rightarrow> shell_notify \<Rightarrow> bool \<Rightarrow> bool \<Rightarrow> world \<Rightarrow> world" where
  "update_link_settings E i tb keep addr_ext w =
     (let w = interface_update_start i keep w;
          w = snd (proto_apply_ip_settings E i (sn_ip tb) addr_ext w);
          w = for_attr (sn_routes tb) (proto_shell_parse_route_list E i False) w;
          w = for_attr (sn_routes6 tb) (proto_shell_parse_route_list E i True) w;
          w = for_attr (sn_neighbors tb) (proto_shell_parse_neighbor_list E i False) w;
          w = for_attr (sn_neighbors6 tb) (proto_shell_parse_neighbor_list E i True) w;
          w = for_attr (sn_dns tb) (add_dns E i ProtoIp) w;
          w = for_attr (sn_dns_search tb) (add_dns_search i ProtoIp) w;
          w = for_attr (sn_data tb) (proto_shell_parse_data i) w
      in interface_update_complete E i w)"

definition shell_ending :: "proto_shell_state \<Rightarrow> bool" where
  "shell_ending x \<longleftrightarrow> sh_sm x = S_TEARDOWN \<or> sh_sm x = S_SETUP_ABORT"

definition proto_shell_update_link ::
  "world_env \<Rightarrow> rec \<Rightarrow> psid \<Rightarrow> shell_notify \<Rightarrow> world \<Rightarrow> (int \<times> world) option" where
  "proto_shell_update_link E rec s tb w =
     (let i = sh_iface (w_shell w s)
      in if shell_ending (w_shell w s) then Some (6, w)
         else case sn_link_up tb of
           None \<Rightarrow> Some (2, w)
         | Some False \<Rightarrow> do { w \<leftarrow> proto_shell_event rec s IFPEV_LINK_LOST w; Some (0, w) }
         | Some True \<Rightarrow> do {
             let addr_ext = (sn_addr_ext tb = Some True);
             let keep = (sn_keep tb = Some True \<and> if_state (w_ifs w i) = IFS_UP \<and> l3_device (w_ifs w i) \<noteq> None);
             (err, w) \<leftarrow> (if \<not> keep then update_link_device E rec i tb (if addr_ext then 2 else 1) w
                          else Some (None, w));
             (case err of
                Some e \<Rightarrow> Some (e, w)
              | None \<Rightarrow> do {
                  let w = update_link_settings E i tb keep addr_ext w;
                  if shell_ending (w_shell w s) then Some (0, w)
                  else do {
                    w \<leftarrow> proto_shell_event rec s IFPEV_UP w;
                    Some (0, upd_shell s (\<lambda>x. x\<lparr>sh_sm := S_IDLE\<rparr>) w)
                  }
                })
           })"

section \<open>Commands of the script\<close>

text \<open>An array of strings is copied up to the end of the buffer, where it is refused.\<close>

fun fill_string_list :: "nat \<Rightarrow> nat \<Rightarrow> string option list \<Rightarrow> string list option" where
  "fill_string_list bound argc [] = Some []"
| "fill_string_list bound argc (cur # rest) =
     (case cur of
        None \<Rightarrow> None
      | Some s \<Rightarrow> if argc + 1 = bound - 1 then None
                  else map_option (Cons s) (fill_string_list bound (argc + 1) rest))"

definition fill_attr :: "nat \<Rightarrow> string option list option \<Rightarrow> string list option" where
  "fill_attr bound attr = (case attr of None \<Rightarrow> Some [] | Some xs \<Rightarrow> fill_string_list bound 0 xs)"

definition proto_shell_run_command ::
  "world_env \<Rightarrow> psid \<Rightarrow> shell_notify \<Rightarrow> world \<Rightarrow> int \<times> world" where
  "proto_shell_run_command E s tb w =
     (if shell_ending (w_shell w s) then (6, w)
      else if sn_command tb = None then (2, w)
      else case fill_attr 64 (sn_command tb) of
        None \<Rightarrow> (2, w)
      | Some argv \<Rightarrow>
          (case fill_attr 32 (sn_env tb) of
             None \<Rightarrow> (2, w)
           | Some env \<Rightarrow> (0, snd (netifd_start_process E argv env (ProtoTask s) w))))"

definition proto_shell_kill_command :: "psid \<Rightarrow> shell_notify \<Rightarrow> world \<Rightarrow> int \<times> world" where
  "proto_shell_kill_command s tb w =
     (let signal = (case sn_signal tb of None \<Rightarrow> SIGTERM
                                       | Some v \<Rightarrow> if v > 31 then SIGTERM else int (unat v))
      in if \<not> sh_proto_task (w_shell w s) then (0, w)
         else let w = (if signal = SIGTERM \<or> signal = SIGKILL
                       then upd_shell s (\<lambda>x. x\<lparr>sh_proto_task_killed := True\<rparr>) w else w)
              in (0, emit (OutKill (ProtoTask s) signal) w))"

text \<open>The array of the error messages has 16 elements, of which the last stays free.\<close>

fun error_data :: "nat \<Rightarrow> string option list \<Rightarrow> string list option" where
  "error_data n [] = Some []"
| "error_data n (cur # rest) =
     (if n + 1 = 16 then None
      else case cur of
        None \<Rightarrow> None
      | Some s \<Rightarrow> map_option (Cons s) (error_data (n + 1) rest))"

definition proto_shell_notify_error :: "psid \<Rightarrow> shell_notify \<Rightarrow> world \<Rightarrow> int \<times> world" where
  "proto_shell_notify_error s tb w =
     (case sn_error tb of
        None \<Rightarrow> (2, w)
      | Some items \<Rightarrow>
          (case error_data 0 items of
             Some (code # data) \<Rightarrow>
               (0, upd_if (sh_iface (w_shell w s))
                     (interface_add_error (Some (ph_name (sh_handler (w_shell w s)))) (Some code) data) w)
           | _ \<Rightarrow> (2, w)))"

definition proto_shell_block_restart :: "psid \<Rightarrow> world \<Rightarrow> int \<times> world" where
  "proto_shell_block_restart s w =
     (0, upd_if (sh_iface (w_shell w s)) (\<lambda>f. f\<lparr>if_autostart := False\<rparr>) w)"

definition proto_shell_set_available ::
  "world_env \<Rightarrow> rec \<Rightarrow> psid \<Rightarrow> shell_notify \<Rightarrow> world \<Rightarrow> (int \<times> world) option" where
  "proto_shell_set_available E rec s tb w =
     (case sn_available tb of
        None \<Rightarrow> Some (2, w)
      | Some b \<Rightarrow> map_option (Pair 0) (interface_set_available E rec (sh_iface (w_shell w s)) b w))"

text \<open>The dependency for a host: any interface of the name, or an address of version 4 or 6.\<close>

definition parse_host_dep ::
  "inet_pton \<Rightarrow> string \<Rightarrow> string \<Rightarrow> proto_shell_dependency option" where
  "parse_host_dep pton host ifname =
     (let dep = zero_shell_dep\<lparr>sd_interface := ifname\<rparr>
      in if host = [] \<and> ifname \<noteq> [] then Some (dep\<lparr>sd_any := True\<rparr>)
         else case pton False host of
           Some bs \<Rightarrow> Some (dep\<lparr>sd_host := store_bytes bs zero_addr\<rparr>)
         | None \<Rightarrow> map_option (\<lambda>bs. dep\<lparr>sd_host := store_bytes bs zero_addr, sd_v6 := True\<rparr>) (pton True host))"

definition proto_shell_add_host_dependency ::
  "world_env \<Rightarrow> rec \<Rightarrow> psid \<Rightarrow> shell_notify \<Rightarrow> world \<Rightarrow> (int \<times> world) option" where
  "proto_shell_add_host_dependency E rec s tb w =
     (let ifname = (case sn_ifname tb of None \<Rightarrow> [] | Some n \<Rightarrow> n);
          host = (case sn_host tb of None \<Rightarrow> [] | Some h \<Rightarrow> h)
      in if shell_ending (w_shell w s) then Some (6, w)
         else case parse_host_dep (pe_inet_pton (we_parse E)) host ifname of
           None \<Rightarrow> Some (2, w)
         | Some dep \<Rightarrow> do {
             let k = w_next_dep w;
             let w = upd_dep k (\<lambda>_. dep\<lparr>sd_proto := s\<rparr>) (w\<lparr>w_next_dep := k + 1\<rparr>);
             w \<leftarrow> interface_add_user rec (ShellDep k) None w;
             let w = upd_shell s (\<lambda>x. x\<lparr>sh_deps := k # sh_deps x\<rparr>) w;
             w \<leftarrow> proto_shell_update_host_dep E rec k w;
             Some (if sd_iface (w_dep w k) = None then 4 else 0, w)
           })"

definition proto_shell_setup_failed :: "world_env \<Rightarrow> rec \<Rightarrow> psid \<Rightarrow> world \<Rightarrow> (int \<times> world) option" where
  "proto_shell_setup_failed E rec s w =
     (let teardown = (\<lambda>w. Some (0, snd (proto_shell_handler E s PROTO_CMD_TEARDOWN w)))
      in case sh_sm (w_shell w s) of
           S_IDLE \<Rightarrow> do { w \<leftarrow> proto_shell_event rec s IFPEV_LINK_LOST w; teardown w }
         | S_SETUP \<Rightarrow> teardown w
         | _ \<Rightarrow> Some (6, w))"

definition proto_shell_notify ::
  "world_env \<Rightarrow> rec \<Rightarrow> psid \<Rightarrow> shell_notify \<Rightarrow> world \<Rightarrow> (int \<times> world) option" where
  "proto_shell_notify E rec s tb w =
     (case sn_action tb of
        None \<Rightarrow> Some (2, w)
      | Some a \<Rightarrow>
          if a = 0 then proto_shell_update_link E rec s tb w
          else if a = 1 then Some (proto_shell_run_command E s tb w)
          else if a = 2 then Some (proto_shell_kill_command s tb w)
          else if a = 3 then Some (proto_shell_notify_error s tb w)
          else if a = 4 then Some (proto_shell_block_restart s w)
          else if a = 5 then proto_shell_set_available E rec s tb w
          else if a = 6 then proto_shell_add_host_dependency E rec s tb w
          else if a = 7 then proto_shell_setup_failed E rec s w
          else Some (2, w))"

section \<open>The description of a handler\<close>

text \<open>
  \<open>flag\<close> is the value of a field of the description of type boolean. The handler always has a list of
  configuration parameters, if only an empty one.
\<close>

definition proto_shell_add_handler :: "string \<Rightarrow> string \<Rightarrow> (string \<Rightarrow> bool option) \<Rightarrow> proto_handler" where
  "proto_shell_add_handler script name flag =
     (let flag_if = (\<lambda>field f. if flag field = Some True then f else 0)
      in \<lparr>ph_flags = flag_if ''no-device'' PROTO_FLAG_NODEV OR flag_if ''no-proto-task'' PROTO_FLAG_NO_TASK
            OR flag_if ''available'' PROTO_FLAG_INIT_AVAILABLE OR flag_if ''renew-handler'' PROTO_FLAG_RENEW_AVAILABLE
            OR flag_if ''lasterror'' PROTO_FLAG_LASTERROR
            OR flag_if ''teardown-on-l3-link-down'' PROTO_FLAG_TEARDOWN_ON_L3_LINK_DOWN,
          ph_name = name, ph_config_params = True, ph_attach = ShellAttach script\<rparr>)"

end
