(* ===== verification/ProtoDhcp.thy ===== *)
theory ProtoDhcp
  imports SettingsUpdate VlanDev
begin

text \<open>
  Protocols that run a client program: DHCP by \<open>udhcpc\<close> (\<open>src/proto-udhcp.c\<close>) and by \<open>dhclient\<close>
  (\<open>src/proto-isc-dhcp.c\<close>), and link-local addresses by \<open>zcip\<close> (\<open>src/proto-zcip.c\<close>). The client reports
  through a notification, which comes parsed; the attribute tables that the code builds from it
  are built here as they parse. A missing main device, or a missing layer 3 device when the
  message has an MTU, is read through a null pointer: the result is \<open>None\<close>.
\<close>

unbundle bit_operations_syntax

section \<open>Shared steps\<close>

fun string_tb :: "('a \<times> string option) list \<Rightarrow> 'a attr_tb" where
  "string_tb [] = (\<lambda>_. None)"
| "string_tb ((a, v) # rest) =
     (case v of None \<Rightarrow> string_tb rest | Some s \<Rightarrow> (string_tb rest)(a := Some (AttrString s)))"

definition one_address :: "proto_opt \<Rightarrow> addr_attr attr_tb \<Rightarrow> proto_opts" where
  "one_address opt tb = \<lparr>po_tb = (\<lambda>_. None), po_array = (\<lambda>_. None)(opt := Some [ItemTable tb])\<rparr>"

text \<open>\<open>strtol\<close> up to the end of the string; the value is cut down to an \<open>int\<close>.\<close>

definition strtol_all :: "string \<Rightarrow> int option" where
  "strtol_all s =
     (let t = dropWhile is_space s;
          ds = (if t \<noteq> [] \<and> (hd t = CHR ''-'' \<or> hd t = CHR ''+'') then tl t else t)
      in if ds = [] then (if s = [] then Some 0 else None)
         else if list_all (\<lambda>c. digit_val c < 10) ds then Some (atoi s) else None)"

function split_words :: "string \<Rightarrow> string list" where
  "split_words s = (case strtok CHR '' '' s of None \<Rightarrow> [] | Some (word, rest) \<Rightarrow> word # split_words rest)"
  by pat_completeness auto
termination
  by (relation "measure length") (auto dest: strtok_shorter)

declare split_words.simps [simp del]

text \<open>
  The default routes by way of the routers, the first with metric 1. The source of a route is the
  address of the lease; without one the code makes a string from a null pointer.
\<close>

definition router_tb :: "string \<Rightarrow> string \<Rightarrow> nat \<Rightarrow> route_attr attr_tb" where
  "router_tb router ip n =
     (string_tb [(ROUTE_TARGET, Some ''0.0.0.0''), (ROUTE_MASK, Some ''0.0.0.0''), (ROUTE_GATEWAY, Some router),
                 (ROUTE_SOURCE, Some ip)])(ROUTE_METRIC := Some (AttrInt32 (word_of_nat (n + 1))))"

fun add_routers :: "world_env \<Rightarrow> ifid \<Rightarrow> string option \<Rightarrow> nat \<Rightarrow> string list \<Rightarrow> world \<Rightarrow> world option" where
  "add_routers E i ip n [] w = Some w"
| "add_routers E i ip n (r # rs) w =
     (case ip of
        None \<Rightarrow> None
      | Some a \<Rightarrow> add_routers E i ip (n + 1) rs (add_route E (Some i) (router_tb r a n) False w))"

definition set_dns_servers :: "world_env \<Rightarrow> ifid \<Rightarrow> string option \<Rightarrow> world \<Rightarrow> world" where
  "set_dns_servers E i attr w =
     (case attr of None \<Rightarrow> w | Some dnss \<Rightarrow> add_dns E i ProtoIp (map ItemString (split_words dnss)) w)"

definition set_lease_mtu :: "ifid \<Rightarrow> string option \<Rightarrow> world \<Rightarrow> world option" where
  "set_lease_mtu i attr w =
     (case Option.bind attr strtol_all of
        None \<Rightarrow> Some w
      | Some mtu \<Rightarrow>
          if mtu > 58 \<and> mtu \<le> 65535 then
            (case l3_device (w_ifs w i) of
               None \<Rightarrow> None
             | Some d \<Rightarrow>
                 let w = upd_dev d (\<lambda>x. x\<lparr>dv_settings := (dv_settings x)\<lparr>ds_mtu := to_u32 mtu,
                                ds_flags := ds_flags (dv_settings x) OR DEV_OPT_MTU\<rparr>\<rparr>) w
                 in Some (klog_do (KIfApplySettings d (dv_settings (w_devs w d)) DEV_OPT_MTU) w))
          else Some w)"

definition flush_lease :: "world_env \<Rightarrow> ifid \<Rightarrow> world \<Rightarrow> world" where
  "flush_lease E i w = interface_update_complete E i (interface_update_start i False w)"

text \<open>
  The settings of a lease: the address, then the routes and name servers, then the MTU. The
  configuration steps of the two DHCP clients are the same up to the names of the attributes.
\<close>

definition apply_lease4 ::
  "world_env \<Rightarrow> ifid \<Rightarrow> string option \<Rightarrow> string option \<Rightarrow> string option \<Rightarrow> string option \<Rightarrow> string option \<Rightarrow>
   world \<Rightarrow> world option" where
  "apply_lease4 E i ip subnet router dns mtu w = do {
     let w = interface_update_start i False w;
     let w = snd (proto_apply_ip_settings E i
                    (one_address OPT_IPADDR (string_tb [(ADDR_IPADDR, ip), (ADDR_MASK, subnet)])) False w);
     w \<leftarrow> add_routers E i ip 0 (case router of None \<Rightarrow> [] | Some rs \<Rightarrow> split_words rs) w;
     w \<leftarrow> set_lease_mtu i mtu (set_dns_servers E i dns w);
     Some (interface_update_complete E i w)
   }"

definition lifetime_attr :: "string option \<Rightarrow> attr_value option" where
  "lifetime_attr attr = map_option (\<lambda>v. AttrInt32 (to_u32 v)) (Option.bind attr strtol_all)"

definition apply_lease6 ::
  "world_env \<Rightarrow> ifid \<Rightarrow> addr_attr attr_tb \<Rightarrow> string option \<Rightarrow> world \<Rightarrow> world" where
  "apply_lease6 E i tb dns w =
     (let w = interface_update_start i False w;
          w = snd (proto_apply_ip_settings E i (one_address OPT_IP6ADDR tb) False w)
      in interface_update_complete E i (set_dns_servers E i dns w))"

section \<open>udhcp\<close>

datatype udhcp_attr =
    UDHCP_REASON | UDHCP_IP | UDHCP_SUBNET | UDHCP_ROUTER | UDHCP_DNS | UDHCP_MTU | UDHCP_IP6 | UDHCP_IP6_VALID

fun udhcp_notify_attr :: "udhcp_attr \<Rightarrow> string \<times> blobmsg_type" where
  "udhcp_notify_attr UDHCP_REASON = (''reason'', BLOBMSG_TYPE_STRING)"
| "udhcp_notify_attr UDHCP_IP = (''ip'', BLOBMSG_TYPE_STRING)"
| "udhcp_notify_attr UDHCP_SUBNET = (''subnet'', BLOBMSG_TYPE_STRING)"
| "udhcp_notify_attr UDHCP_ROUTER = (''router'', BLOBMSG_TYPE_STRING)"
| "udhcp_notify_attr UDHCP_DNS = (''dns'', BLOBMSG_TYPE_STRING)"
| "udhcp_notify_attr UDHCP_MTU = (''mtu'', BLOBMSG_TYPE_STRING)"
| "udhcp_notify_attr UDHCP_IP6 = (''ipv6'', BLOBMSG_TYPE_STRING)"
| "udhcp_notify_attr UDHCP_IP6_VALID = (''lease'', BLOBMSG_TYPE_STRING)"

text \<open>The buffer for the name of the interface holds 256 bytes.\<close>

definition interface_env :: "string \<Rightarrow> string list" where
  "interface_env name = [take 255 (''NETIFD_INTERFACE='' @ name)]"

definition start_dhcp_client :: "world_env \<Rightarrow> psid \<Rightarrow> world \<Rightarrow> world option" where
  "start_dhcp_client E s w =
     (let state = w_udhcp w s; iface = w_ifs w (dh_iface state)
      in case du_dev (if_main_dev iface) of
           None \<Rightarrow> None
         | Some d \<Rightarrow>
             Some (snd (netifd_start_process E
               [if dh_dhcpv6 state then ''/usr/bin/udhcpc6'' else ''/sbin/udhcpc'', ''-i'', dv_ifname (w_devs w d),
                ''-s'', ''/usr/libexec/netifd/udhcp-script'', ''-R'', ''-f'', ''-t'', ''0'', ''-O'',
                if dh_dhcpv6 state then ''dns'' else ''mtu'']
               (interface_env (if_name iface)) (UdhcpClient s) w)))"

definition udhcp_proto_setup :: "world_env \<Rightarrow> rec \<Rightarrow> psid \<Rightarrow> world \<Rightarrow> (int \<times> world) option" where
  "udhcp_proto_setup E rec s w = do {
     let i = dh_iface (w_udhcp w s);
     w \<leftarrow> interface_set_l3_dev E rec i (du_dev (if_main_dev (w_ifs w i))) w;
     w \<leftarrow> start_dhcp_client E s (upd_udhcp s (\<lambda>x. x\<lparr>dh_state := DHCP_SETTING_UP, dh_teardown := False\<rparr>) w);
     Some (0, w)
   }"

text \<open>A client that ends although nobody asked it to is started again.\<close>

definition dhcp_process_callback :: "world_env \<Rightarrow> rec \<Rightarrow> psid \<Rightarrow> world \<Rightarrow> world option" where
  "dhcp_process_callback E rec s w =
     (if \<not> dh_teardown (w_udhcp w s) then map_option snd (udhcp_proto_setup E rec s w) else Some w)"

definition udhcp_handler ::
  "world_env \<Rightarrow> rec \<Rightarrow> psid \<Rightarrow> interface_proto_cmd \<Rightarrow> world \<Rightarrow> (int \<times> world) option" where
  "udhcp_handler E rec s cmd w =
     (case cmd of
        PROTO_CMD_SETUP \<Rightarrow> udhcp_proto_setup E rec s w
      | PROTO_CMD_TEARDOWN \<Rightarrow>
          Some (0, if dh_client (w_udhcp w s)
                   then emit (OutKill (UdhcpClient s) SIGTERM) (upd_udhcp s (\<lambda>x. x\<lparr>dh_teardown := True\<rparr>) w)
                   else w)
      | PROTO_CMD_RENEW \<Rightarrow>
          Some (0, if dh_client (w_udhcp w s) then emit (OutKill (UdhcpClient s) SIGUSR1) w else w))"

definition udhcp_event :: "rec \<Rightarrow> psid \<Rightarrow> interface_proto_event \<Rightarrow> world \<Rightarrow> world option" where
  "udhcp_event rec s ev w = call_void rec (CProtoEvent (dh_iface (w_udhcp w s)) ev) w"

definition udhcp_deconfig :: "world_env \<Rightarrow> rec \<Rightarrow> psid \<Rightarrow> world \<Rightarrow> world option" where
  "udhcp_deconfig E rec s w =
     (let w = flush_lease E (dh_iface (w_udhcp w s)) w
      in udhcp_event rec s (if dh_teardown (w_udhcp w s) then IFPEV_DOWN else IFPEV_LINK_LOST) w)"

definition udhcp_done :: "rec \<Rightarrow> psid \<Rightarrow> world \<Rightarrow> world option" where
  "udhcp_done rec s w = udhcp_event rec s IFPEV_UP (upd_udhcp s (\<lambda>x. x\<lparr>dh_state := DHCP_DONE\<rparr>) w)"

definition udhcp4_configure ::
  "world_env \<Rightarrow> rec \<Rightarrow> psid \<Rightarrow> string \<Rightarrow> udhcp_attr attr_tb \<Rightarrow> world \<Rightarrow> world option" where
  "udhcp4_configure E rec s action tb w =
     (if action = ''deconfig'' then udhcp_deconfig E rec s w
      else if action = ''bound'' \<or> action = ''renew'' then do {
        w \<leftarrow> apply_lease4 E (dh_iface (w_udhcp w s)) (attr_string tb UDHCP_IP) (attr_string tb UDHCP_SUBNET)
               (attr_string tb UDHCP_ROUTER) (attr_string tb UDHCP_DNS) (attr_string tb UDHCP_MTU) w;
        udhcp_done rec s w
      }
      else Some w)"

definition udhcp6_configure ::
  "world_env \<Rightarrow> rec \<Rightarrow> psid \<Rightarrow> string \<Rightarrow> udhcp_attr attr_tb \<Rightarrow> world \<Rightarrow> world option" where
  "udhcp6_configure E rec s action tb w =
     (if action = ''deconfig'' then udhcp_deconfig E rec s w
      else if action = ''bound'' \<or> action = ''renew'' then
        udhcp_done rec s
          (apply_lease6 E (dh_iface (w_udhcp w s))
             ((string_tb [(ADDR_IPADDR, attr_string tb UDHCP_IP6)])
                (ADDR_VALID := lifetime_attr (attr_string tb UDHCP_IP6_VALID)))
             (attr_string tb UDHCP_DNS) w)
      else Some w)"

definition udhcp_notify ::
  "world_env \<Rightarrow> rec \<Rightarrow> psid \<Rightarrow> udhcp_attr attr_tb \<Rightarrow> world \<Rightarrow> (int \<times> world) option" where
  "udhcp_notify E rec s tb w =
     (case attr_string tb UDHCP_REASON of
        None \<Rightarrow> Some (2, w)
      | Some action \<Rightarrow>
          map_option (Pair 0)
            (if dh_dhcpv6 (w_udhcp w s) then udhcp6_configure E rec s action tb w
             else udhcp4_configure E rec s action tb w))"

definition udhcp_proto :: "bool \<Rightarrow> proto_handler" where
  "udhcp_proto v6 = \<lparr>ph_flags = PROTO_FLAG_RENEW_AVAILABLE, ph_name = (if v6 then ''udhcp6'' else ''udhcp''),
     ph_config_params = False, ph_attach = UdhcpAttach\<rparr>"

section \<open>ISC DHCP\<close>

datatype isc_attr =
    ISC_REASON | ISC_IP | ISC_SUBNET | ISC_ROUTER | ISC_DNS | ISC_MTU | ISC_IP6 | ISC_IP6_PREFIXLEN
  | ISC_IP6_PREFERRED | ISC_IP6_VALID | ISC_IP6_DNS

fun isc_notify_attr :: "isc_attr \<Rightarrow> string \<times> blobmsg_type" where
  "isc_notify_attr ISC_REASON = (''reason'', BLOBMSG_TYPE_STRING)"
| "isc_notify_attr ISC_IP = (''new_ip_address'', BLOBMSG_TYPE_STRING)"
| "isc_notify_attr ISC_SUBNET = (''new_subnet_mask'', BLOBMSG_TYPE_STRING)"
| "isc_notify_attr ISC_ROUTER = (''new_routers'', BLOBMSG_TYPE_STRING)"
| "isc_notify_attr ISC_DNS = (''new_domain_name_servers'', BLOBMSG_TYPE_STRING)"
| "isc_notify_attr ISC_MTU = (''new_interface_mtu'', BLOBMSG_TYPE_STRING)"
| "isc_notify_attr ISC_IP6 = (''new_ip6_address'', BLOBMSG_TYPE_STRING)"
| "isc_notify_attr ISC_IP6_PREFIXLEN = (''new_ip6_prefixlen'', BLOBMSG_TYPE_STRING)"
| "isc_notify_attr ISC_IP6_PREFERRED = (''new_preferred_life'', BLOBMSG_TYPE_STRING)"
| "isc_notify_attr ISC_IP6_VALID = (''new_max_life'', BLOBMSG_TYPE_STRING)"
| "isc_notify_attr ISC_IP6_DNS = (''new_dhcp6_name_servers'', BLOBMSG_TYPE_STRING)"

text \<open>
  The buffers for the names of files hold 128 bytes, the one for the waiting time 10. The
  configuration file that is written for the client is not part of the model.
\<close>

definition start_isc_dhcp_client :: "world_env \<Rightarrow> psid \<Rightarrow> world \<Rightarrow> world option" where
  "start_isc_dhcp_client E s w =
     (let state = w_isc w s; iface = w_ifs w (ic_iface state);
          leasefile = take 127 (''/var/run/isc-dhcp-'' @ if_name iface @ ''.lease'');
          conffile = take 127 (''/var/run/isc-dhcp-'' @ if_name iface @ ''.conf'')
      in case du_dev (if_main_dev iface) of
           None \<Rightarrow> None
         | Some d \<Rightarrow>
             Some (snd (netifd_start_process E
               ([''/sbin/dhclient'', if ic_dhcpv6 state then ''-6'' else ''-4'', ''-d'', ''-pf'', ''/dev/null'',
                 ''-lf'', leasefile, ''-cf'', conffile, ''-sf'', ''/usr/libexec/netifd/isc-dhcp-script'',
                 ''--dad-wait-time'', take 9 (format_d (ic_dad_wait_time state)), ''-e''] @
                interface_env (if_name iface) @ [dv_ifname (w_devs w d)])
               [] (IscDhcpClient s) w)))"

definition isc_dhcp_proto_setup :: "world_env \<Rightarrow> rec \<Rightarrow> psid \<Rightarrow> world \<Rightarrow> (int \<times> world) option" where
  "isc_dhcp_proto_setup E rec s w = do {
     let i = ic_iface (w_isc w s);
     w \<leftarrow> interface_set_l3_dev E rec i (du_dev (if_main_dev (w_ifs w i))) w;
     let dad_wait = (case we_dad_wait E (ic_config (w_isc w s)) of None \<Rightarrow> 5 | Some v \<Rightarrow> c_int v);
     w \<leftarrow> start_isc_dhcp_client E s
            (upd_isc s (\<lambda>x. x\<lparr>ic_dad_wait_time := dad_wait, ic_state := DHCP_SETTING_UP\<rparr>) w);
     Some (0, w)
   }"

definition isc_dhcp_handler ::
  "world_env \<Rightarrow> rec \<Rightarrow> psid \<Rightarrow> interface_proto_cmd \<Rightarrow> world \<Rightarrow> (int \<times> world) option" where
  "isc_dhcp_handler E rec s cmd w =
     (case cmd of
        PROTO_CMD_SETUP \<Rightarrow> isc_dhcp_proto_setup E rec s w
      | PROTO_CMD_TEARDOWN \<Rightarrow> Some (0, w)
      | PROTO_CMD_RENEW \<Rightarrow> Some (0, w))"

definition isc_dhcp_done :: "rec \<Rightarrow> psid \<Rightarrow> world \<Rightarrow> world option" where
  "isc_dhcp_done rec s w =
     call_void rec (CProtoEvent (ic_iface (w_isc w s)) IFPEV_UP) (upd_isc s (\<lambda>x. x\<lparr>ic_state := DHCP_DONE\<rparr>) w)"

definition isc_dhcp4_configure ::
  "world_env \<Rightarrow> rec \<Rightarrow> psid \<Rightarrow> string \<Rightarrow> isc_attr attr_tb \<Rightarrow> world \<Rightarrow> world option" where
  "isc_dhcp4_configure E rec s action tb w =
     (let i = ic_iface (w_isc w s)
      in if action = ''EXPIRE'' then Some (flush_lease E i w)
         else if action \<in> {''BOUND'', ''RENEW'', ''REBIND'', ''REBOOT''} then do {
           w \<leftarrow> apply_lease4 E i (attr_string tb ISC_IP) (attr_string tb ISC_SUBNET) (attr_string tb ISC_ROUTER)
                  (attr_string tb ISC_DNS) (attr_string tb ISC_MTU) w;
           isc_dhcp_done rec s w
         }
         else Some w)"

definition isc_dhcp6_configure ::
  "world_env \<Rightarrow> rec \<Rightarrow> psid \<Rightarrow> string \<Rightarrow> isc_attr attr_tb \<Rightarrow> world \<Rightarrow> world option" where
  "isc_dhcp6_configure E rec s action tb w =
     (let i = ic_iface (w_isc w s)
      in if action \<in> {''DEREF6'', ''EXPIRE6'', ''RELEASE6'', ''STOP6''} then Some (flush_lease E i w)
         else if action \<in> {''BOUND6'', ''RENEW6'', ''REBIND6''} then
           isc_dhcp_done rec s
             (apply_lease6 E i
                ((string_tb [(ADDR_IPADDR, attr_string tb ISC_IP6), (ADDR_MASK, attr_string tb ISC_IP6_PREFIXLEN)])
                   (ADDR_PREFERRED := lifetime_attr (attr_string tb ISC_IP6_PREFERRED),
                    ADDR_VALID := lifetime_attr (attr_string tb ISC_IP6_VALID)))
                (attr_string tb ISC_IP6_DNS) w)
         else Some w)"

definition isc_dhcp_notify ::
  "world_env \<Rightarrow> rec \<Rightarrow> psid \<Rightarrow> isc_attr attr_tb \<Rightarrow> world \<Rightarrow> (int \<times> world) option" where
  "isc_dhcp_notify E rec s tb w =
     (case attr_string tb ISC_REASON of
        None \<Rightarrow> Some (2, w)
      | Some action \<Rightarrow>
          map_option (Pair 0)
            (if ic_dhcpv6 (w_isc w s) then isc_dhcp6_configure E rec s action tb w
             else isc_dhcp4_configure E rec s action tb w))"

definition isc_dhcp_proto :: "bool \<Rightarrow> proto_handler" where
  "isc_dhcp_proto v6 = \<lparr>ph_flags = (if v6 then 0 else PROTO_FLAG_RENEW_AVAILABLE),
     ph_name = (if v6 then ''isc-dhcp6'' else ''isc-dhcp''), ph_config_params = True, ph_attach = IscDhcpAttach\<rparr>"

section \<open>zcip\<close>

datatype zcip_attr = ZCIP_REASON | ZCIP_IP

fun zcip_notify_attr :: "zcip_attr \<Rightarrow> string \<times> blobmsg_type" where
  "zcip_notify_attr ZCIP_REASON = (''reason'', BLOBMSG_TYPE_STRING)"
| "zcip_notify_attr ZCIP_IP = (''ip'', BLOBMSG_TYPE_STRING)"

definition start_zcip_client :: "world_env \<Rightarrow> psid \<Rightarrow> world \<Rightarrow> world option" where
  "start_zcip_client E s w =
     (let iface = w_ifs w (zc_iface (w_zcip w s))
      in case du_dev (if_main_dev iface) of
           None \<Rightarrow> None
         | Some d \<Rightarrow>
             Some (snd (netifd_start_process E
               [''/usr/sbin/zcip'', ''-f'', dv_ifname (w_devs w d), ''/usr/libexec/netifd/zcip-script'']
               (interface_env (if_name iface)) (ZcipClient s) w)))"

definition zcip_proto_setup :: "world_env \<Rightarrow> rec \<Rightarrow> psid \<Rightarrow> world \<Rightarrow> (int \<times> world) option" where
  "zcip_proto_setup E rec s w = do {
     let i = zc_iface (w_zcip w s);
     w \<leftarrow> interface_set_l3_dev E rec i (du_dev (if_main_dev (w_ifs w i))) w;
     w \<leftarrow> start_zcip_client E s (upd_zcip s (\<lambda>x. x\<lparr>zc_state := ZCIP_SETTING_UP, zc_teardown := False\<rparr>) w);
     Some (0, w)
   }"

definition zcip_process_callback :: "world_env \<Rightarrow> rec \<Rightarrow> psid \<Rightarrow> world \<Rightarrow> world option" where
  "zcip_process_callback E rec s w =
     (if \<not> zc_teardown (w_zcip w s) then map_option snd (zcip_proto_setup E rec s w) else Some w)"

definition zcip_handler ::
  "world_env \<Rightarrow> rec \<Rightarrow> psid \<Rightarrow> interface_proto_cmd \<Rightarrow> world \<Rightarrow> (int \<times> world) option" where
  "zcip_handler E rec s cmd w =
     (case cmd of
        PROTO_CMD_SETUP \<Rightarrow> zcip_proto_setup E rec s w
      | PROTO_CMD_TEARDOWN \<Rightarrow>
          Some (0, if zc_client (w_zcip w s)
                   then emit (OutKill (ZcipClient s) SIGTERM) (upd_zcip s (\<lambda>x. x\<lparr>zc_teardown := True\<rparr>) w)
                   else w)
      | PROTO_CMD_RENEW \<Rightarrow> Some (1, w))"

definition zcip_configure ::
  "world_env \<Rightarrow> rec \<Rightarrow> psid \<Rightarrow> string \<Rightarrow> zcip_attr attr_tb \<Rightarrow> world \<Rightarrow> world option" where
  "zcip_configure E rec s action tb w =
     (let i = zc_iface (w_zcip w s)
      in if action = ''init'' then Some w
         else if action = ''deconfig'' then
           let w = flush_lease E i w
           in call_void rec (CProtoEvent i (if zc_teardown (w_zcip w s) then IFPEV_DOWN else IFPEV_LINK_LOST)) w
         else if action = ''config'' then
           let w = interface_update_start i False w;
               w = snd (proto_apply_ip_settings E i
                     (one_address OPT_IPADDR (string_tb [(ADDR_IPADDR, attr_string tb ZCIP_IP),
                        (ADDR_MASK, Some ''16''), (ADDR_SCOPE, Some ''link'')])) False w);
               w = interface_update_complete E i w
           in call_void rec (CProtoEvent i IFPEV_UP) (upd_zcip s (\<lambda>x. x\<lparr>zc_state := ZCIP_DONE\<rparr>) w)
         else Some w)"

definition zcip_notify ::
  "world_env \<Rightarrow> rec \<Rightarrow> psid \<Rightarrow> zcip_attr attr_tb \<Rightarrow> world \<Rightarrow> (int \<times> world) option" where
  "zcip_notify E rec s tb w =
     (case attr_string tb ZCIP_REASON of
        None \<Rightarrow> Some (2, w)
      | Some action \<Rightarrow> map_option (Pair 0) (zcip_configure E rec s action tb w))"

definition zcip_proto :: proto_handler where
  "zcip_proto = \<lparr>ph_flags = 0, ph_name = ''zcip'', ph_config_params = False, ph_attach = ZcipAttach\<rparr>"

section \<open>Handlers\<close>

text \<open>The tree of protocol handlers: the built-in ones, and the shell protocols that were found.\<close>

definition builtin_handlers :: "proto_handler list" where
  "builtin_handlers = [udhcp_proto False, udhcp_proto True, isc_dhcp_proto False, isc_dhcp_proto True, zcip_proto]"

definition handler_table :: "proto_handler list \<Rightarrow> string \<Rightarrow> proto_handler option" where
  "handler_table shell name = find (\<lambda>h. ph_name h = name) (builtin_handlers @ shell)"

end
