(* ===== verification/ProtoContract.thy ===== *)
theory ProtoContract
  imports Lifecycle ShellNotify ProtoDhcp
begin

text \<open>
  The protocols that run programs keep the contract of \<open>Lifecycle\<close>: they move the state machine of
  an interface only by the calls that they make, and a shell protocol that waits for its
  processes has its timer running.
\<close>

section \<open>Updates of IP settings\<close>

lemma found_route_snd:
  "snd (case found of
          Inl i \<Rightarrow> (Some i, s)
        | Inr None \<Rightarrow> (None, s)
        | Inr (Some r) \<Rightarrow> if d then (rt_iface r, s)
                         else (case rt_iface r of None \<Rightarrow> (None, s) | Some i \<Rightarrow> (Some i, add i (g r) s))) = s \<or>
   (\<exists>j r. snd (case found of
          Inl i \<Rightarrow> (Some i, s)
        | Inr None \<Rightarrow> (None, s)
        | Inr (Some r) \<Rightarrow> if d then (rt_iface r, s)
                         else (case rt_iface r of None \<Rightarrow> (None, s) | Some i \<Rightarrow> (Some i, add i (g r) s))) = add j r s)"
proof (cases found)
  case (Inr r)
  then show ?thesis by (cases r) (auto split: option.split)
qed simp

lemma target_route_snd:
  "snd (interface_ip_add_target_route add ifs addr v6 iface ex s) = s \<or>
   (\<exists>j r. snd (interface_ip_add_target_route add ifs addr v6 iface ex s) = add j r s)"
  unfolding interface_ip_add_target_route_def Let_def by (rule found_route_snd)

lemma settings_frame:
  assumes w1: "ip_frame w w1"
  shows "ip_frame w (add_route E iface tb v6 w1)" and "ip_frame w (add_neighbor E iface nb v6 w1)"
    and "ip_frame w (snd (add_target_route E addr v6 iface ex w1))"
    and "ip_frame w (add_dns E i sel items w1)" and "ip_frame w (add_dns_search i sel items w1)"
    and "ip_frame w (interface_update_start i keep w1)"
proof -
  show "ip_frame w (add_route E iface tb v6 w1)"
    by (simp add: add_route_def interface_ip_add_route_def ip_add_frame w1 split: option.split)
  show "ip_frame w (add_neighbor E iface nb v6 w1)"
    by (simp add: add_neighbor_def interface_ip_add_neighbor_def ip_add_frame w1 split: option.split)
  show "ip_frame w (snd (add_target_route E addr v6 iface ex w1))"
    using target_route_snd [of "ip_add_host_route E" "ifaces_of w1" addr v6 "iface_ref w1 iface" ex w1]
    by (auto simp: add_target_route_def ip_add_frame w1)
  show "ip_frame w (add_dns E i sel items w1)" "ip_frame w (add_dns_search i sel items w1)"
    by (simp_all add: add_dns_def add_dns_search_def frame_upd_if w1)
  show "ip_frame w (interface_update_start i keep w1)"
    by (simp add: interface_update_start_def Let_def ip_update_frame frame_upd_if w1)
qed

lemma parse_lists_frame:
  "ip_frame w w1 \<Longrightarrow> ip_frame w (proto_shell_parse_route_list E i v6 rs w1)"
  "ip_frame w w1 \<Longrightarrow> ip_frame w (proto_shell_parse_neighbor_list E i v6 ns w1)"
  by (induction rs arbitrary: w1, simp_all add: settings_frame split: option.split)
    (induction ns arbitrary: w1, simp_all add: settings_frame split: option.split)

lemma if_state_add_data [simp]: "if_state (snd (interface_add_data ok name data f)) = if_state f"
  by (simp add: interface_add_data_def)

lemma if_state_parse_data [simp]:
  "if_state (fold (\<lambda>(ok, name, data) f. snd (interface_add_data ok name data f)) attrs f) = if_state f"
  by (induction attrs arbitrary: f) auto

lemma address_list_same:
  "same_state w w1 \<Longrightarrow> same_state w (snd (parse_address_list E i v6 ext n items w1))"
  by (induction items arbitrary: n w1) (simp_all add: ip_steps_same split: option.split)

lemma ip_settings_same:
  "same_state w w1 \<Longrightarrow> same_state w (snd (proto_apply_ip_settings E i opts ext w1))"
  unfolding proto_apply_ip_settings_def Let_def split_beta
  by (auto intro!: prefixes_and_gateways_same address_list_same split: option.split)

context interface_contract
begin

lemma rel_frame: "R w0 w \<Longrightarrow> (\<And>w1. ip_frame w1 (f w1)) \<Longrightarrow> R w0 (f w)"
  by (erule rel_step) (rule ip_frame_same)

lemmas settings_frame_refl = settings_frame [OF ip_frame_refl] parse_lists_frame [OF ip_frame_refl]
  ip_update_frame [OF ip_frame_refl]

lemma rel_settings:
  assumes "R w0 w"
  shows "R w0 (add_route E' iface tb v6 w)" and "R w0 (add_neighbor E' iface nb v6 w)"
    and "R w0 (snd (add_target_route E' addr v6 iface ex w))"
    and "R w0 (add_dns E' i sel items w)" and "R w0 (add_dns_search i sel items w)"
    and "R w0 (interface_update_start i keep w)"
    and "R w0 (proto_shell_parse_route_list E' i v6 rs w)"
    and "R w0 (proto_shell_parse_neighbor_list E' i v6 ns w)"
  by (rule rel_frame [OF assms], rule settings_frame_refl)+

lemma rel_update_complete: "R w0 w \<Longrightarrow> R w0 (interface_update_complete E' i w)"
  unfolding interface_update_complete_def interface_ip_update_complete_def Let_def
  by (intro rel_emit rel_frame [where f = "flush_old_settings E' i ProtoIp"] settings_frame_refl)
    (simp_all add: quiet_def)

lemma rel_parse_data: "R w0 w \<Longrightarrow> R w0 (proto_shell_parse_data i attrs w)"
  unfolding proto_shell_parse_data_def by (rule rel_if) simp_all

lemma rel_ip_settings: "R w0 w \<Longrightarrow> R w0 (snd (proto_apply_ip_settings E' i opts ext w))"
  by (erule rel_step) (simp add: ip_settings_same)

lemma rel_link_settings: "R w0 w \<Longrightarrow> R w0 (update_link_settings E' i tb keep ext w)"
  unfolding update_link_settings_def Let_def
  by (intro rel_update_complete)
    (auto intro!: rel_settings rel_parse_data rel_ip_settings split: option.split)

section \<open>Shell protocols\<close>

lemma rel_shell_run: "R w0 w \<Longrightarrow> R w0 (snd (proto_shell_run E' s action env w))"
  by (auto simp: proto_shell_run_def Let_def intro!: rel_start_process split: option.split)

lemma rel_shell_kill: "R w0 w \<Longrightarrow> R w0 (emit (OutKill p sig) w)"
  by (erule rel_emit) (simp add: quiet_def)

lemma rel_begin_teardown: "R w0 w \<Longrightarrow> R w0 (snd (proto_shell_begin_teardown E' s w))"
  unfolding proto_shell_begin_teardown_def Let_def
  by (intro rel_shell_run rel_upd_shell) (simp_all add: shell_armed_def)

text \<open>
  The change of the shell state when the setup is aborted, all at once: between the two updates of
  the code only signals are sent.
\<close>

lemma rel_shell_abort: "R w0 w \<Longrightarrow> R w0 (snd (proto_shell_abort s w))"
proof -
  assume w: "R w0 w"
  let ?w1 = "upd_shell s (\<lambda>x. x\<lparr>sh_teardown_timeout := Some 1000\<rparr>) w"
  have "R w0 ?w1" by (intro rel_upd_shell w) (simp add: shell_armed_def)
  moreover have "R w0 (upd_shell s (\<lambda>x. x\<lparr>sh_renew_pending := False, sh_sm := S_SETUP_ABORT\<rparr>) x)"
    if "R w0 x" "sh_teardown_timeout (w_shell x s) = Some 1000" for x
    using that by (intro rel_upd_shell) (simp_all add: shell_armed_def)
  ultimately show ?thesis
    unfolding proto_shell_abort_def Let_def
    by (simp add: w_shell_upd rel_shell_kill)
qed

lemma rel_shell_handler: "R w0 w \<Longrightarrow> R w0 (snd (proto_shell_handler E' s cmd w))"
proof -
  assume w: "R w0 w"
  have "R w0 (snd (proto_shell_setup E' s w))"
    unfolding proto_shell_setup_def Let_def
    by (auto intro!: rel_shell_run rel_upd_shell rel_clear_host_dep w simp: shell_armed_def)
  moreover have "R w0 (snd (proto_shell_renew E' s w))"
    unfolding proto_shell_renew_def
    by (auto intro!: rel_shell_run rel_upd_shell w simp: shell_armed_def)
  ultimately show ?thesis
    unfolding proto_shell_handler_def
    by (auto intro!: rel_begin_teardown rel_shell_abort w split: interface_proto_cmd.split proto_shell_sm.split)
qed

lemma shell_event_ok: "R w0 w \<Longrightarrow> okw w0 (proto_shell_event rec s ev w)"
  unfolding proto_shell_event_def by (rule call_void_ok)

lemma check_dependencies_ok: "R w0 w \<Longrightarrow> okw w0 (proto_shell_check_dependencies E rec s w)"
  unfolding proto_shell_check_dependencies_def by (rule set_available_ok)

lemma update_host_dep_ok: "R w0 w \<Longrightarrow> okw w0 (proto_shell_update_host_dep E rec k w)"
proof -
  assume w: "R w0 w"
  have "R w0 (snd (if \<not> b then add_target_route E a v iface False w else (iface, w)))" for b a v iface
    by (simp add: w rel_settings)
  then show ?thesis
    unfolding proto_shell_update_host_dep_def Let_def split_beta
    by (intro ok_rules check_dependencies_ok add_if_user_ok rel_upd_proto rel_remove_if_user) (simp_all add: w)
qed

lemma dep_cb_ok: "R w0 w \<Longrightarrow> okw w0 (proto_shell_dep_cb E rec k ev w)"
  unfolding proto_shell_dep_cb_def proto_shell_if_down_cb_def proto_shell_if_up_cb_def Let_def
  by (intro ok_rules update_host_dep_ok shell_event_ok add_if_user_ok rel_shell_handler rel_upd_proto
      rel_remove_if_user)

lemma rel_setup_finish: "R w0 w \<Longrightarrow> R w0 (setup_task_finish E' s task w)"
  unfolding setup_task_finish_def Let_def
  by (auto intro!: rel_upd_shell rel_shell_handler simp: shell_armed_def)

lemma rel_now_idle: "R w0 w \<Longrightarrow> R w0 (shell_now_idle s w)"
  unfolding shell_now_idle_def by (rule rel_upd_shell) (simp_all add: shell_armed_def)

lemma task_finish_ok: "R w0 w \<Longrightarrow> okw w0 (proto_shell_task_finish E rec s task w)"
  unfolding proto_shell_task_finish_def Let_def
  by (auto intro!: ok_rules shell_event_ok rel_setup_finish rel_shell_handler rel_now_idle rel_shell_kill
      split: proto_shell_sm.split)

lemma script_cb_ok: "R w0 w \<Longrightarrow> okw w0 (proto_shell_script_cb E rec s w)"
  unfolding proto_shell_script_cb_def by (rule task_finish_ok)

lemma task_cb_ok: "R w0 w \<Longrightarrow> okw w0 (proto_shell_task_cb E rec s ret w)"
  unfolding proto_shell_task_cb_def Let_def
  by (rule task_finish_ok) (auto intro!: rel_upd_shell simp: shell_armed_def)

lemma rel_checkup: "R w0 w \<Longrightarrow> R w0 (proto_shell_checkup_timeout_cb E' s w)"
  unfolding proto_shell_checkup_timeout_cb_def Let_def by (simp add: rel_shell_handler)

lemma link_device_ok: "R w0 w \<Longrightarrow> okp w0 (update_link_device E rec i tb n w)"
  unfolding update_link_device_def proto_shell_create_tunnel_def
  by (intro ok_rules create_ok get_ok set_l3_ok claim_ok set_present_ok) simp_all

lemma update_link_ok: "R w0 w \<Longrightarrow> okp w0 (proto_shell_update_link E rec s tb w)"
proof -
  assume w: "R w0 w"
  have fin: "okp w0 (do { w \<leftarrow> proto_shell_event rec s IFPEV_UP x;
      Some (0 :: int, upd_shell s (\<lambda>x. x\<lparr>sh_sm := S_IDLE\<rparr>) w) })" if "R w0 x" for x
    by (intro ok_rules shell_event_ok that) (simp add: rel_upd_shell shell_armed_def)
  show ?thesis
    unfolding proto_shell_update_link_def Let_def
    by (auto intro!: ok_rules fin shell_event_ok link_device_ok rel_link_settings w split: option.split bool.split)
qed

lemma add_host_dependency_ok: "R w0 w \<Longrightarrow> okp w0 (proto_shell_add_host_dependency E rec s tb w)"
  unfolding proto_shell_add_host_dependency_def Let_def
  by (intro ok_rules add_if_user_ok update_host_dep_ok rel_upd_shell rel_upd_proto)
    (simp_all add: shell_armed_def)

lemma rel_script_commands:
  assumes "R w0 w"
  shows "R w0 (snd (proto_shell_run_command E' s tb w))" and "R w0 (snd (proto_shell_kill_command s tb w))"
    and "R w0 (snd (proto_shell_notify_error s tb w))" and "R w0 (snd (proto_shell_block_restart s w))"
  unfolding proto_shell_run_command_def proto_shell_kill_command_def proto_shell_notify_error_def
    proto_shell_block_restart_def Let_def
  by (auto intro!: rel_start_process rel_shell_kill rel_upd_shell rel_if assms simp: shell_armed_def
      split: option.split list.split)

lemma setup_failed_ok: "R w0 w \<Longrightarrow> okp w0 (proto_shell_setup_failed E rec s w)"
  unfolding proto_shell_setup_failed_def Let_def
  by (auto intro!: ok_rules shell_event_ok rel_shell_handler split: proto_shell_sm.split)

lemma shell_notify_ok: "R w0 w \<Longrightarrow> okp w0 (proto_shell_notify E rec s tb w)"
  unfolding proto_shell_notify_def proto_shell_set_available_def
  by (intro ok_rules ok_map update_link_ok add_host_dependency_ok setup_failed_ok set_available_ok)
    (simp_all add: rel_script_commands)

section \<open>Client programs\<close>

lemma add_routers_ok: "R w0 w \<Longrightarrow> okw w0 (add_routers E' i ip n rs w)"
  by (induction rs arbitrary: n w) (auto intro!: ok_rules rel_settings split: option.split)

lemma rel_dns_servers: "R w0 w \<Longrightarrow> R w0 (set_dns_servers E' i attr w)"
  by (simp add: set_dns_servers_def rel_settings split: option.split)

lemma lease_mtu_ok: "R w0 w \<Longrightarrow> okw w0 (set_lease_mtu i attr w)"
  unfolding set_lease_mtu_def Let_def by (intro ok_rules) (simp_all add: rel_rules)

lemma apply_lease4_ok: "R w0 w \<Longrightarrow> okw w0 (apply_lease4 E' i ip sub router dns mtu w)"
  unfolding apply_lease4_def Let_def
  by (intro ok_rules add_routers_ok lease_mtu_ok rel_dns_servers rel_update_complete rel_ip_settings rel_settings)

lemma rel_apply_lease6: "R w0 w \<Longrightarrow> R w0 (apply_lease6 E' i tb dns w)"
  unfolding apply_lease6_def Let_def
  by (intro rel_update_complete rel_dns_servers rel_ip_settings rel_settings)

lemma rel_flush_lease: "R w0 w \<Longrightarrow> R w0 (flush_lease E' i w)"
  unfolding flush_lease_def by (intro rel_update_complete rel_settings)

lemma start_clients_ok:
  assumes "R w0 w"
  shows "okw w0 (start_dhcp_client E' s w)" and "okw w0 (start_isc_dhcp_client E' s w)"
    and "okw w0 (start_zcip_client E' s w)"
  unfolding start_dhcp_client_def start_isc_dhcp_client_def start_zcip_client_def Let_def
  by (intro ok_rules rel_start_process assms)+

lemma client_setups_ok:
  assumes "R w0 w"
  shows "okp w0 (udhcp_proto_setup E rec s w)" and "okp w0 (isc_dhcp_proto_setup E rec s w)"
    and "okp w0 (zcip_proto_setup E rec s w)"
  unfolding udhcp_proto_setup_def isc_dhcp_proto_setup_def zcip_proto_setup_def Let_def
  by (intro ok_bind set_l3_ok start_clients_ok rel_upd_proto ok_Some assms; simp)+

lemma client_callbacks_ok:
  assumes "R w0 w"
  shows "okw w0 (dhcp_process_callback E rec s w)" and "okw w0 (zcip_process_callback E rec s w)"
  unfolding dhcp_process_callback_def zcip_process_callback_def
  by (intro ok_rules client_setups_ok assms)+

lemma client_handlers_ok:
  assumes "R w0 w"
  shows "okp w0 (udhcp_handler E rec s cmd w)" and "okp w0 (isc_dhcp_handler E rec s cmd w)"
    and "okp w0 (zcip_handler E rec s cmd w)"
  unfolding udhcp_handler_def isc_dhcp_handler_def zcip_handler_def
  by (cases cmd; auto intro!: client_setups_ok ok_Some rel_shell_kill rel_upd_proto assms)+

lemma client_events_ok:
  assumes "R w0 w"
  shows "okw w0 (udhcp_deconfig E rec s w)" and "okw w0 (udhcp_done rec s w)" and "okw w0 (isc_dhcp_done rec s w)"
  unfolding udhcp_deconfig_def udhcp_done_def isc_dhcp_done_def udhcp_event_def Let_def
  by (intro call_void_ok rel_flush_lease rel_upd_proto assms)+

lemma client_configure_ok:
  assumes "R w0 w"
  shows "okw w0 (udhcp4_configure E rec s action tb w)" and "okw w0 (udhcp6_configure E rec s action tb w)"
    and "okw w0 (isc_dhcp4_configure E rec s action itb w)" and "okw w0 (isc_dhcp6_configure E rec s action itb w)"
    and "okw w0 (zcip_configure E rec s action ztb w)"
  unfolding udhcp4_configure_def udhcp6_configure_def isc_dhcp4_configure_def isc_dhcp6_configure_def
    zcip_configure_def Let_def
  by (auto intro!: ok_rules client_events_ok apply_lease4_ok rel_apply_lease6 rel_flush_lease call_void_ok
      rel_upd_proto rel_update_complete rel_ip_settings rel_settings assms)+

lemma client_notify_ok:
  assumes "R w0 w"
  shows "okp w0 (udhcp_notify E rec s tb w)" and "okp w0 (isc_dhcp_notify E rec s itb w)"
    and "okp w0 (zcip_notify E rec s ztb w)"
  unfolding udhcp_notify_def isc_dhcp_notify_def zcip_notify_def
  by (intro ok_rules ok_map client_configure_ok; simp add: assms)+

end

end
