(* ===== verification/InterfaceConfig.thy ===== *)
theory InterfaceConfig
  imports SettingsUpdate
begin

text \<open>
  Interfaces from the configuration, \<open>src/interface.c\<close>: making an interface from its attributes,
  adding it to the tree of interfaces, and taking over a changed configuration into an interface
  that runs. The tree keeps an interface that is already there: the new structure only brings
  the new settings.
\<close>

unbundle bit_operations_syntax

fun iface_attrs :: "iface_attr \<Rightarrow> string \<times> blobmsg_type" where
  "iface_attrs IFACE_ATTR_DEVICE = (''device'', BLOBMSG_TYPE_STRING)"
| "iface_attrs IFACE_ATTR_PROTO = (''proto'', BLOBMSG_TYPE_STRING)"
| "iface_attrs IFACE_ATTR_IFNAME = (''ifname'', BLOBMSG_TYPE_STRING)"
| "iface_attrs IFACE_ATTR_AUTO = (''auto'', BLOBMSG_TYPE_BOOL)"
| "iface_attrs IFACE_ATTR_ZONE = (''zone'', BLOBMSG_TYPE_STRING)"
| "iface_attrs IFACE_ATTR_JAIL = (''jail'', BLOBMSG_TYPE_STRING)"
| "iface_attrs IFACE_ATTR_JAIL_DEVICE = (''jail_device'', BLOBMSG_TYPE_STRING)"
| "iface_attrs IFACE_ATTR_JAIL_IFNAME = (''jail_ifname'', BLOBMSG_TYPE_STRING)"
| "iface_attrs IFACE_ATTR_HOST_DEVICE = (''host_device'', BLOBMSG_TYPE_STRING)"
| "iface_attrs IFACE_ATTR_DEFAULTROUTE = (''defaultroute'', BLOBMSG_TYPE_BOOL)"
| "iface_attrs IFACE_ATTR_PEERDNS = (''peerdns'', BLOBMSG_TYPE_BOOL)"
| "iface_attrs IFACE_ATTR_METRIC = (''metric'', BLOBMSG_TYPE_INT32)"
| "iface_attrs IFACE_ATTR_DNS = (''dns'', BLOBMSG_TYPE_ARRAY)"
| "iface_attrs IFACE_ATTR_DNS_SEARCH = (''dns_search'', BLOBMSG_TYPE_ARRAY)"
| "iface_attrs IFACE_ATTR_DNS_METRIC = (''dns_metric'', BLOBMSG_TYPE_INT32)"
| "iface_attrs IFACE_ATTR_INTERFACE = (''interface'', BLOBMSG_TYPE_STRING)"
| "iface_attrs IFACE_ATTR_IP6ASSIGN = (''ip6assign'', BLOBMSG_TYPE_INT32)"
| "iface_attrs IFACE_ATTR_IP6HINT = (''ip6hint'', BLOBMSG_TYPE_STRING)"
| "iface_attrs IFACE_ATTR_IP4TABLE = (''ip4table'', BLOBMSG_TYPE_STRING)"
| "iface_attrs IFACE_ATTR_IP6TABLE = (''ip6table'', BLOBMSG_TYPE_STRING)"
| "iface_attrs IFACE_ATTR_IP6CLASS = (''ip6class'', BLOBMSG_TYPE_ARRAY)"
| "iface_attrs IFACE_ATTR_DELEGATE = (''delegate'', BLOBMSG_TYPE_BOOL)"
| "iface_attrs IFACE_ATTR_IP6IFACEID = (''ip6ifaceid'', BLOBMSG_TYPE_STRING)"
| "iface_attrs IFACE_ATTR_FORCE_LINK = (''force_link'', BLOBMSG_TYPE_BOOL)"
| "iface_attrs IFACE_ATTR_IP6WEIGHT = (''ip6weight'', BLOBMSG_TYPE_INT32)"

section \<open>Making an interface\<close>

definition bool_default :: "iface_attr attr_tb \<Rightarrow> iface_attr \<Rightarrow> bool \<Rightarrow> bool" where
  "bool_default tb a d = (case attr_bool tb a of None \<Rightarrow> d | Some b \<Rightarrow> b)"

definition with_attr :: "'a option \<Rightarrow> ('a \<Rightarrow> 'b \<Rightarrow> 'b) \<Rightarrow> 'b \<Rightarrow> 'b" where
  "with_attr cur f x = (case cur of None \<Rightarrow> x | Some a \<Rightarrow> f a x)"

text \<open>\<open>__interface_ip_init\<close>: the trees are empty, their version is 1.\<close>

definition interface_ip_init :: "interface \<Rightarrow> interface" where
  "interface_ip_init iface =
     iface\<lparr>if_proto_ip := zero_ip_settings\<lparr>ip_enabled := True\<rparr>,
           if_config_ip := zero_ip_settings\<lparr>ip_enabled := True\<rparr>, if_host_routes := []\<rparr>"

text \<open>\<open>list_add\<close> puts each class in front.\<close>

fun interface_add_assignment_classes :: "string option list \<Rightarrow> interface \<Rightarrow> interface" where
  "interface_add_assignment_classes [] iface = iface"
| "interface_add_assignment_classes (cur # rest) iface =
     interface_add_assignment_classes rest
       (case cur of
          None \<Rightarrow> iface
        | Some c \<Rightarrow> iface\<lparr>if_assignment_classes := c # if_assignment_classes iface\<rparr>)"

definition iface_id_one :: if_addr where
  "iface_id_one = replicate 15 0 @ [1]"

definition parse_ifaceid :: "inet_pton \<Rightarrow> string \<Rightarrow> interface \<Rightarrow> interface" where
  "parse_ifaceid pton ifaceid iface =
     (if ifaceid = ''random'' then iface\<lparr>if_assignment_iface_id_selection := IFID_RANDOM\<rparr>
      else if ifaceid = ''eui64'' then iface\<lparr>if_assignment_iface_id_selection := IFID_EUI64\<rparr>
      else case pton True ifaceid of
        Some a \<Rightarrow> iface\<lparr>if_assignment_fixed_iface_id :=
                          (if take 8 a \<noteq> replicate 8 0 then iface_id_one else a)\<rparr>
      | None \<Rightarrow> iface\<lparr>if_assignment_fixed_iface_id := iface_id_one\<rparr>)"

text \<open>\<open>strtol\<close> in base 16.\<close>

definition strtol_hex :: "string \<Rightarrow> int" where
  "strtol_hex s =
     (let t = dropWhile is_space s;
          neg = (t \<noteq> [] \<and> hd t = CHR ''-'');
          t' = (if t \<noteq> [] \<and> (hd t = CHR ''-'' \<or> hd t = CHR ''+'') then tl t else t);
          hex = (take 1 t' = ''0'' \<and> (take 1 (drop 1 t') = ''x'' \<or> take 1 (drop 1 t') = ''X'')
                 \<and> drop 2 t' \<noteq> [] \<and> digit_val (hd (drop 2 t')) < 16);
          v = int (fst (digits_val 16 0 (if hex then drop 2 t' else t')))
      in if neg then max (- v) (- (2 ^ 63)) else min v (2 ^ 63 - 1))"

text \<open>
  The hint is cut down to a multiple of the size of the assignment. The code shifts an \<open>int\<close> by
  \<open>64 - assignment_length\<close> places; the C language leaves a shift by 32 or more places, as for an
  assignment length that is not set, undefined, and the model takes the count modulo 32 as the
  usual processors do.
\<close>

definition ip6hint_value :: "nat \<Rightarrow> string \<Rightarrow> int" where
  "ip6hint_value len s =
     (let count = nat ((64 - int len) mod 32);
          below = (push_bit count 1 :: u32) - 1
      in c_int (to_u32 (strtol_hex s) AND NOT below))"

definition alloc_link_attrs :: "proto_handler \<Rightarrow> iface_attr attr_tb \<Rightarrow> bool \<Rightarrow> interface \<Rightarrow> interface" where
  "alloc_link_attrs h tb dynamic iface =
     (let force_link = has_flag (ph_flags h) PROTO_FLAG_FORCE_LINK_DEFAULT
      in iface\<lparr>if_autostart := bool_default tb IFACE_ATTR_AUTO True,
               if_force_link := bool_default tb IFACE_ATTR_FORCE_LINK force_link,
               if_dynamic := dynamic,
               if_proto_ip := (if_proto_ip iface)\<lparr>
                 ip_no_defaultroute := \<not> bool_default tb IFACE_ATTR_DEFAULTROUTE True,
                 ip_no_dns := \<not> bool_default tb IFACE_ATTR_PEERDNS True\<rparr>\<rparr>)"

definition alloc_ip_attrs :: "parse_env \<Rightarrow> iface_opts \<Rightarrow> interface \<Rightarrow> interface" where
  "alloc_ip_attrs P opts iface =
     (let tb = io_tb opts;
          iface = with_attr (io_dns opts) (\<lambda>items f. f\<lparr>if_config_ip :=
                    interface_add_dns_server_list (pe_inet_pton P) items (if_config_ip f)\<rparr>) iface;
          iface = with_attr (io_dns_search opts) (\<lambda>items f. f\<lparr>if_config_ip :=
                    interface_add_dns_search_list items (if_config_ip f)\<rparr>) iface;
          iface = with_attr (attr_u32 tb IFACE_ATTR_DNS_METRIC) (\<lambda>v f. f\<lparr>if_dns_metric := c_int v\<rparr>) iface
      in with_attr (attr_u32 tb IFACE_ATTR_METRIC) (\<lambda>v f. f\<lparr>if_metric := c_int v\<rparr>) iface)"

definition alloc_assignment_attrs :: "parse_env \<Rightarrow> iface_opts \<Rightarrow> interface \<Rightarrow> interface" where
  "alloc_assignment_attrs P opts iface =
     (let tb = io_tb opts;
          iface = with_attr (attr_u32 tb IFACE_ATTR_IP6ASSIGN)
                    (\<lambda>v f. f\<lparr>if_assignment_length := unat (ucast v :: u8)\<rparr>) iface;
          iface = iface\<lparr>if_assignment_iface_id_selection := IFID_FIXED, if_assignment_fixed_iface_id := iface_id_one\<rparr>;
          iface = with_attr (attr_string tb IFACE_ATTR_IP6IFACEID) (parse_ifaceid (pe_inet_pton P)) iface;
          iface = iface\<lparr>if_assignment_hint := -1\<rparr>;
          iface = with_attr (attr_string tb IFACE_ATTR_IP6HINT)
                    (\<lambda>s f. f\<lparr>if_assignment_hint := ip6hint_value (if_assignment_length f) s\<rparr>) iface;
          iface = with_attr (io_ip6class opts) interface_add_assignment_classes iface
      in with_attr (attr_u32 tb IFACE_ATTR_IP6WEIGHT) (\<lambda>v f. f\<lparr>if_assignment_weight := c_int v\<rparr>) iface)"

definition alloc_table_attrs :: "parse_env \<Rightarrow> iface_attr attr_tb \<Rightarrow> interface \<Rightarrow> interface" where
  "alloc_table_attrs P tb iface =
     (let resolve = (\<lambda>a. Option.bind (attr_string tb a) (system_resolve_rt_table (pe_rt_tables P)));
          iface = with_attr (resolve IFACE_ATTR_IP4TABLE) (\<lambda>t f. f\<lparr>if_ip4table := t\<rparr>) iface;
          iface = with_attr (resolve IFACE_ATTR_IP6TABLE) (\<lambda>t f. f\<lparr>if_ip6table := t\<rparr>) iface
      in iface\<lparr>if_proto_ip := (if_proto_ip iface)\<lparr>ip_no_delegation := \<not> bool_default tb IFACE_ATTR_DELEGATE True\<rparr>\<rparr>)"

text \<open>An interface of a jail is not started by itself.\<close>

definition alloc_jail_attrs :: "iface_attr attr_tb \<Rightarrow> interface \<Rightarrow> interface" where
  "alloc_jail_attrs tb iface =
     (let iface = iface\<lparr>if_config_autostart := if_autostart iface, if_jail := attr_string tb IFACE_ATTR_JAIL\<rparr>;
          iface = (if if_jail iface \<noteq> None then iface\<lparr>if_autostart := False\<rparr> else iface)
      in iface\<lparr>if_jail_device := (case attr_string tb IFACE_ATTR_JAIL_DEVICE of
                                   Some d \<Rightarrow> Some d
                                 | None \<Rightarrow> attr_string tb IFACE_ATTR_JAIL_IFNAME),
               if_host_device := attr_string tb IFACE_ATTR_HOST_DEVICE\<rparr>)"

definition interface_alloc :: "world_env \<Rightarrow> string \<Rightarrow> blob option \<Rightarrow> bool \<Rightarrow> interface" where
  "interface_alloc E name config dynamic =
     (let opts = we_iface_attrs E config; tb = io_tb opts; P = we_parse E;
          iface = interface_ip_init (zero_interface\<lparr>if_name := name\<rparr>);
          iface = iface\<lparr>if_config_ip := (if_config_ip iface)\<lparr>ip_enabled := False\<rparr>,
                        if_zone := attr_string tb IFACE_ATTR_ZONE\<rparr>;
          iface = proto_attach_interface (we_handlers E) (attr_string tb IFACE_ATTR_PROTO) iface;
          iface = alloc_link_attrs (if_proto_handler iface) tb dynamic iface;
          iface = alloc_ip_attrs P opts iface;
          iface = alloc_assignment_attrs P opts iface;
          iface = alloc_table_attrs P tb iface
      in alloc_jail_attrs tb iface)"

section \<open>Taking over a changed configuration\<close>

text \<open>
  The comparison of the lists of classes: what is left of the old list, and whether there was a
  change. Entries that agree are taken off the old list.
\<close>

fun merge_classes :: "bool \<Rightarrow> string list \<Rightarrow> string list \<Rightarrow> bool \<times> string list" where
  "merge_classes changed old [] = (changed, old)"
| "merge_classes changed [] (c # cs) = (True, [])"
| "merge_classes changed (c_old # old) (c # cs) =
     (if changed \<or> c_old \<noteq> c then (changed, c_old # old) else merge_classes changed old cs)"

definition assignment_differs :: "interface \<Rightarrow> interface \<Rightarrow> bool" where
  "assignment_differs if_old if_new \<longleftrightarrow>
     if_assignment_hint if_old \<noteq> if_assignment_hint if_new
     \<or> if_assignment_length if_old \<noteq> if_assignment_length if_new
     \<or> if_assignment_iface_id_selection if_old \<noteq> if_assignment_iface_id_selection if_new
     \<or> if_assignment_weight if_old \<noteq> if_assignment_weight if_new
     \<or> (if_assignment_iface_id_selection if_old = IFID_FIXED
        \<and> if_assignment_fixed_iface_id if_old \<noteq> if_assignment_fixed_iface_id if_new)
     \<or> (if_assignment_classes if_old = []) \<noteq> (if_assignment_classes if_new = [])"

text \<open>The interfaces before and after, and whether the assignments have to be made again.\<close>

definition merge_assignment :: "interface \<Rightarrow> interface \<Rightarrow> bool \<times> interface" where
  "merge_assignment if_old if_new =
     (let (changed, rest) = merge_classes (assignment_differs if_old if_new) (if_assignment_classes if_old)
                              (if_assignment_classes if_new);
          changed = (changed \<or> rest \<noteq> []);
          merged = if_old\<lparr>if_assignment_classes := if_assignment_classes if_new\<rparr>
      in (changed,
          if changed
          then merged\<lparr>if_assignment_hint := if_assignment_hint if_new, if_assignment_length := if_assignment_length if_new,
                      if_assignment_iface_id_selection := if_assignment_iface_id_selection if_new,
                      if_assignment_fixed_iface_id := if_assignment_fixed_iface_id if_new,
                      if_assignment_weight := if_assignment_weight if_new\<rparr>
          else merged))"

definition interface_merge_assignment_data :: "world_env \<Rightarrow> ifid \<Rightarrow> ifid \<Rightarrow> world \<Rightarrow> world" where
  "interface_merge_assignment_data E i n w =
     (let (changed, merged) = merge_assignment (w_ifs w i) (w_ifs w n);
          w = upd_if n (\<lambda>f. f\<lparr>if_assignment_classes := []\<rparr>) (upd_if i (\<lambda>_. merged) w)
      in if changed then interface_refresh_assignments E True w else w)"

text \<open>The name servers of \<open>old\<close> move to \<open>new\<close>, whose own ones go.\<close>

definition interface_replace_dns ::
  "interface_ip_settings \<Rightarrow> interface_ip_settings \<Rightarrow> interface_ip_settings \<times> interface_ip_settings" where
  "interface_replace_dns new old =
     (let (new_servers, old_servers) = vlist_simple_replace (ip_dns_servers new) (ip_dns_servers old);
          (new_search, old_search) = vlist_simple_replace (ip_dns_search new) (ip_dns_search old)
      in (new\<lparr>ip_dns_servers := new_servers, ip_dns_search := new_search\<rparr>,
          old\<lparr>ip_dns_servers := old_servers, ip_dns_search := old_search\<rparr>))"

definition interface_device_config_changed :: "world_env \<Rightarrow> interface \<Rightarrow> interface \<Rightarrow> bool" where
  "interface_device_config_changed E if_old if_new \<longleftrightarrow>
     du_dev (if_main_dev if_old) \<noteq> None
     \<and> (if_device_config if_old \<noteq> if_device_config if_new
        \<or> if_device_config if_new \<and> we_dev_diff E (if_config if_old) (if_config if_new))"

text \<open>The changes for which the protocol has to be started again.\<close>

definition config_needs_reload :: "world_env \<Rightarrow> interface \<Rightarrow> interface \<Rightarrow> bool" where
  "config_needs_reload E if_old if_new \<longleftrightarrow>
     if_parent_ifname if_old \<noteq> if_parent_ifname if_new
     \<or> interface_device_config_changed E if_old if_new
     \<or> if_device if_old \<noteq> if_device if_new \<or> if_proto_handler if_old \<noteq> if_proto_handler if_new
     \<or> ph_config_params (if_proto_handler if_old) \<and> \<not> we_blob_equal E (if_config if_old) (if_config if_new)
     \<or> if_config_autostart if_old \<and> \<not> if_config_autostart if_new"

definition ip_needs_reload :: "interface \<Rightarrow> interface \<Rightarrow> bool" where
  "ip_needs_reload if_old if_new \<longleftrightarrow>
     if_metric if_old \<noteq> if_metric if_new
     \<or> ip_no_defaultroute (if_proto_ip if_old) \<noteq> ip_no_defaultroute (if_proto_ip if_new)
     \<or> if_ip4table if_old \<noteq> if_ip4table if_new \<or> if_ip6table if_old \<noteq> if_ip6table if_new"

text \<open>The settings that are copied; those for the assignment of prefixes are merged afterwards.\<close>

definition copy_config :: "interface \<Rightarrow> interface \<Rightarrow> interface" where
  "copy_config if_old if_new =
     (let autostart = (if if_config_autostart if_old \<noteq> if_config_autostart if_new
                       then if_config_autostart if_new else if_autostart if_old)
      in if_old\<lparr>if_config := if_config if_new,
                if_autostart := (if if_jail if_new \<noteq> None then False else autostart),
                if_device_config := if_device_config if_new, if_config_autostart := if_config_autostart if_new,
                if_jail := if_jail if_new, if_jail_device := if_jail_device if_new,
                if_host_device := if_host_device if_new, if_device := if_device if_new,
                if_parent_ifname := if_parent_ifname if_new, if_dynamic := if_dynamic if_new,
                if_proto_handler := if_proto_handler if_new, if_force_link := if_force_link if_new,
                if_dns_metric := if_dns_metric if_new,
                if_proto_ip := (if_proto_ip if_old)\<lparr>
                  ip_no_delegation := ip_no_delegation (if_proto_ip if_new),
                  ip_no_dns := ip_no_dns (if_proto_ip if_new),
                  ip_no_defaultroute := ip_no_defaultroute (if_proto_ip if_new)\<rparr>,
                if_config_ip := fst (interface_replace_dns (if_config_ip if_old) (if_config_ip if_new)),
                if_metric := if_metric if_new, if_ip4table := if_ip4table if_new,
                if_ip6table := if_ip6table if_new\<rparr>)"

text \<open>The IP settings are taken from the kernel and installed again, with the new metric and tables.\<close>

definition reinstall_ip :: "world_env \<Rightarrow> ifid \<Rightarrow> world \<Rightarrow> world" where
  "reinstall_ip E i w =
     (let config_ip_enabled = ip_enabled (if_config_ip (w_ifs w i));
          proto_ip_enabled = ip_enabled (if_proto_ip (w_ifs w i));
          w = interface_ip_set_enabled E i ConfigIp False w;
          w = interface_ip_set_enabled E i ProtoIp False w;
          w = interface_ip_set_enabled E i ProtoIp proto_ip_enabled w
      in interface_ip_set_enabled E i ConfigIp config_ip_enabled w)"

definition apply_ip_changes :: "world_env \<Rightarrow> ifid \<Rightarrow> bool \<Rightarrow> bool \<Rightarrow> world \<Rightarrow> world" where
  "apply_ip_changes E i reload_ip update_prefix_delegation w =
     (let w = (if reload_ip then reinstall_ip E i w else w)
      in if update_prefix_delegation then interface_update_prefix_delegation E i w else w)"

definition interface_change_config :: "world_env \<Rightarrow> rec \<Rightarrow> ifid \<Rightarrow> ifid \<Rightarrow> world \<Rightarrow> world option" where
  "interface_change_config E rec i n w =
     (let if_old = w_ifs w i; if_new = w_ifs w n;
          w = (if if_parent_ifname if_old \<noteq> if_parent_ifname if_new \<and> if_parent_iface if_old \<noteq> None
               then interface_remove_user (AliasUser i) w else w);
          w = upd_if i (\<lambda>f. copy_config f if_new) w;
          w = upd_if n (\<lambda>f. f\<lparr>if_config_ip := snd (interface_replace_dns (if_config_ip if_old) (if_config_ip if_new))\<rparr>) w;
          w = interface_merge_assignment_data E i n w
      in do {
        w \<leftarrow> (if config_needs_reload E if_old if_new
             then set_config_state E rec i IFC_RELOAD (upd_if i interface_clear_errors w)
             else do {
               let w = apply_ip_changes E i (ip_needs_reload if_old if_new)
                         (ip_no_delegation (if_proto_ip if_old) \<noteq> ip_no_delegation (if_proto_ip if_new)) w;
               let w = emit (OutResolvConf (if_jail (w_ifs w i))) w;
               if du_dev (if_main_dev (w_ifs w i)) \<noteq> None then interface_check_state E rec i w else Some w
             });
        w \<leftarrow> interface_cleanup E rec n (upd_if n (\<lambda>f. f\<lparr>if_config := None\<rparr>) w);
        Some (emit (OutFreeInterface n) w)
      })"

section \<open>The tree of interfaces\<close>

definition interface_create :: "world_env \<Rightarrow> rec \<Rightarrow> ifid \<Rightarrow> world \<Rightarrow> world option" where
  "interface_create E rec n w = do {
     w \<leftarrow> interface_event E rec n IFEV_CREATE w;
     w \<leftarrow> interface_claim_device E rec n (proto_init_interface E n (if_config (w_ifs w n)) w);
     Some (emit (OutUbusAdd n) w)
   }"

definition interface_update ::
  "world_env \<Rightarrow> rec \<Rightarrow> ifid option \<Rightarrow> ifid option \<Rightarrow> world \<Rightarrow> world option" where
  "interface_update E rec node_new node_old w =
     (case (node_new, node_old) of
        (Some n, Some i) \<Rightarrow> interface_change_config E rec i n w
      | (None, Some i) \<Rightarrow> set_config_state E rec i IFC_REMOVE w
      | (Some n, None) \<Rightarrow> interface_create E rec n w
      | (None, None) \<Rightarrow> Some w)"

text \<open>A new structure, with no users yet.\<close>

definition alloc_interface :: "interface \<Rightarrow> world \<Rightarrow> ifid \<times> world" where
  "alloc_interface iface w =
     (let n = w_next_if w
      in (n, emit (OutAllocInterface n)
               (upd_if n (\<lambda>_. iface) (w\<lparr>w_next_if := n + 1, w_ifusers := (w_ifusers w)(n := [])\<rparr>))))"

definition interfaces_insert :: "ifid \<Rightarrow> world \<Rightarrow> world" where
  "interfaces_insert n w =
     w\<lparr>w_iflist := avl_insert (\<lambda>a b. strcmp (if_name (w_ifs w a)) (if_name (w_ifs w b))) n (w_iflist w)\<rparr>"

text \<open>\<open>vlist_add\<close> on the tree of interfaces, which keeps old elements.\<close>

definition interfaces_vlist_add :: "world_env \<Rightarrow> rec \<Rightarrow> ifid \<Rightarrow> world \<Rightarrow> world option" where
  "interfaces_vlist_add E rec n w =
     (let w = upd_if n (\<lambda>f. f\<lparr>if_version := w_ifs_version w\<rparr>) w
      in case find_interface w (if_name (w_ifs w n)) of
           Some i \<Rightarrow> interface_update E rec (Some n) (Some i) (upd_if i (\<lambda>f. f\<lparr>if_version := w_ifs_version w\<rparr>) w)
         | None \<Rightarrow> interface_update E rec (Some n) None (interfaces_insert n w))"

text \<open>The attribute that says what the interface stands on: \<open>None\<close> when an alias does not have it.\<close>

definition interface_base :: "world_env \<Rightarrow> blob option \<Rightarrow> bool \<Rightarrow> interface \<Rightarrow> interface option" where
  "interface_base E config alias iface =
     (let tb = io_tb (we_iface_attrs E config)
      in if alias then
           (let iface = with_attr (attr_string tb IFACE_ATTR_INTERFACE) (\<lambda>p f. f\<lparr>if_parent_ifname := Some p\<rparr>) iface
            in if if_parent_ifname iface = None then None else Some iface)
         else Some (with_attr (case attr_string tb IFACE_ATTR_DEVICE of
                                 Some d \<Rightarrow> Some d | None \<Rightarrow> attr_string tb IFACE_ATTR_IFNAME)
                      (\<lambda>d f. f\<lparr>if_device := Some d\<rparr>) iface))"

text \<open>\<open>__interface_add\<close>. A dynamic interface stays when the configuration is read again.\<close>

definition do_interface_add ::
  "world_env \<Rightarrow> rec \<Rightarrow> ifid \<Rightarrow> blob option \<Rightarrow> bool \<Rightarrow> world \<Rightarrow> (bool \<times> world) option" where
  "do_interface_add E rec n config alias w =
     (case interface_base E config alias (w_ifs w n) of
        None \<Rightarrow> Some (False, w)
      | Some iface \<Rightarrow> do {
          w \<leftarrow> interfaces_vlist_add E rec n (upd_if n (\<lambda>_. iface\<lparr>if_config := config\<rparr>) w);
          Some (True, if if_dynamic iface then
                        (case find_interface w (if_name iface) of
                           None \<Rightarrow> w
                         | Some i \<Rightarrow> upd_if i (\<lambda>f. f\<lparr>if_version := -1\<rparr>) w)
                      else w)
        })"

definition interface_add ::
  "world_env \<Rightarrow> rec \<Rightarrow> ifid \<Rightarrow> blob option \<Rightarrow> world \<Rightarrow> (bool \<times> world) option" where
  "interface_add E rec n config w = do_interface_add E rec n config False w"

definition interface_add_alias ::
  "world_env \<Rightarrow> rec \<Rightarrow> ifid \<Rightarrow> blob option \<Rightarrow> world \<Rightarrow> (bool \<times> world) option" where
  "interface_add_alias E rec n config w =
     (if has_flag (ph_flags (if_proto_handler (w_ifs w n))) PROTO_FLAG_NODEV then Some (False, w)
      else do_interface_add E rec n config True w)"

text \<open>\<open>vlist_flush\<close>: interfaces that the configuration no longer has are removed.\<close>

fun interfaces_vlist_flush :: "world_env \<Rightarrow> rec \<Rightarrow> ifid list \<Rightarrow> world \<Rightarrow> world option" where
  "interfaces_vlist_flush E rec [] w = Some w"
| "interfaces_vlist_flush E rec (i # is) w = do {
     w \<leftarrow> (if vlist_keeps (w_ifs_version w) (if_version (w_ifs w i)) then Some w
          else interface_update E rec None (Some i) w);
     interfaces_vlist_flush E rec is w
   }"

text \<open>A dynamic interface, made by a call over ubus (\<open>netifd_add_dynamic\<close> of \<open>src/ubus.c\<close>).\<close>

definition netifd_add_dynamic :: "world_env \<Rightarrow> rec \<Rightarrow> string \<Rightarrow> blob option \<Rightarrow> world \<Rightarrow> (int \<times> world) option" where
  "netifd_add_dynamic E rec name msg w = do {
     let (n, w) = alloc_interface (interface_alloc E name msg True) w;
     (ok, w) \<leftarrow> interface_add E rec n msg w;
     Some (if ok then 0 else 9, if ok then w else emit (OutFreeInterface n) w)
   }"

end
