(* ===== verification/Config.thy ===== *)
theory Config
  imports InterfaceConfig Bridge
begin

text \<open>
  Reading the configuration, \<open>src/config.c\<close>: devices, the VLANs of bridges, interfaces and aliases,
  routes and neighbours, and the global settings, from the sections of the package \<open>network\<close>. The
  policy rules, which have a state of their own, are read in \<open>RuleSync\<close>; the wireless part is not
  modelled.

  The library for the configuration files is outside: a section is its name, type and options;
  \<open>ue_to_blob\<close> is \<open>uci_to_blob\<close>, which adds the options of a section that a list of parameters names to a
  message and tells whether there were any, \<open>ue_add_string\<close> adds a string to a message, \<open>ue_route\<close>,
  \<open>ue_neighbor\<close> and \<open>ue_vlan\<close> parse the attributes of a section. \<open>ue_type_get\<close> is the table of device
  types, with the prefix for the names of types that can be bridges.
\<close>

unbundle bit_operations_syntax

datatype uci_value = UciString string | UciList "string list"

record uci_section =
  us_name :: string
  us_type :: string
  us_options :: "string \<rightharpoonup> uci_value"

datatype param_list = InterfaceParams | ProtoParams proto_handler | DeviceParams device_type

record vlan_opts =
  vo_vid :: "u32 option"
  vo_local :: "bool option"
  vo_ports :: "string list"
  vo_alias :: "string list"

record uci_env =
  ue_to_blob :: "param_list \<Rightarrow> uci_section \<Rightarrow> blob \<Rightarrow> blob \<times> bool"
  ue_add_string :: "string \<Rightarrow> string \<Rightarrow> blob \<Rightarrow> blob"
  ue_route :: "uci_section \<Rightarrow> route_attr attr_tb"
  ue_neighbor :: "uci_section \<Rightarrow> neighbor_attr attr_tb"
  ue_vlan :: "uci_section \<Rightarrow> vlan_opts"
  ue_type_get :: "string \<Rightarrow> (device_type \<times> string option) option"

definition uci_lookup_option_string :: "uci_section \<Rightarrow> string \<Rightarrow> string option" where
  "uci_lookup_option_string s name =
     (case us_options s name of Some (UciString v) \<Rightarrow> Some v | _ \<Rightarrow> None)"

section \<open>Bridges\<close>

definition config_bridge_has_vlans :: "uci_section list \<Rightarrow> string \<Rightarrow> bool" where
  "config_bridge_has_vlans sections br_name =
     list_ex (\<lambda>s. us_type s = ''bridge-vlan'' \<and> uci_lookup_option_string s ''device'' = Some br_name) sections"

definition config_fixup_bridge_var :: "string \<Rightarrow> string \<Rightarrow> uci_section \<Rightarrow> uci_section" where
  "config_fixup_bridge_var name val s =
     (if us_options s name \<noteq> None then s else s\<lparr>us_options := (us_options s)(name \<mapsto> UciString val)\<rparr>)"

definition config_fixup_bridge_ports :: "uci_section \<Rightarrow> uci_section" where
  "config_fixup_bridge_ports s =
     (if us_options s ''ports'' \<noteq> None then s
      else case us_options s ''ifname'' of
        None \<Rightarrow> s
      | Some v \<Rightarrow> s\<lparr>us_options := (us_options s)(''ports'' \<mapsto> v, ''ifname'' := None)\<rparr>)"

definition config_fixup_bridge_vlan_filtering :: "uci_section list \<Rightarrow> string \<Rightarrow> uci_section \<Rightarrow> uci_section" where
  "config_fixup_bridge_vlan_filtering sections name s =
     (let has_vlans = config_bridge_has_vlans sections name;
          s = config_fixup_bridge_var ''__has_vlans'' (if has_vlans then ''1'' else ''0'') s
      in if \<not> has_vlans then s else config_fixup_bridge_var ''vlan_filtering'' ''1'' s)"

definition fixup_bridge :: "uci_section list \<Rightarrow> string \<Rightarrow> uci_section \<Rightarrow> uci_section" where
  "fixup_bridge sections name s =
     config_fixup_bridge_vlan_filtering sections name (config_fixup_bridge_ports s)"

section \<open>Interfaces\<close>

text \<open>
  The bridge that an interface makes of itself: the section with its fixes, and the message that the
  interface starts with.
\<close>

definition config_parse_bridge_interface ::
  "world_env \<Rightarrow> uci_env \<Rightarrow> rec \<Rightarrow> uci_section list \<Rightarrow> uci_section \<Rightarrow> device_type \<Rightarrow> string \<Rightarrow> world \<Rightarrow>
   ((uci_section \<times> blob) \<times> world) option" where
  "config_parse_bridge_interface E U rec sections s devtype name_prefix w = do {
     let name = name_prefix @ ''-'' @ us_name s;
     let s = fixup_bridge sections name s;
     let b = fst (ue_to_blob U (DeviceParams devtype) s (ue_add_string U ''name'' name []));
     (_, w) \<leftarrow> device_create E rec name devtype (Some b) w;
     Some ((s, ue_add_string U ''ifname'' name []), w)
   }"

text \<open>
  The structure of the interface and its message: first the attributes of all interfaces, then those
  of the protocol, then, unless the interface makes a bridge, those of a device.
\<close>

definition interface_from_section ::
  "world_env \<Rightarrow> uci_env \<Rightarrow> uci_section \<Rightarrow> bool \<Rightarrow> blob \<Rightarrow> interface \<times> blob" where
  "interface_from_section E U s bridge b =
     (let b = fst (ue_to_blob U InterfaceParams s b);
          iface = interface_alloc E (us_name s) (Some b) False;
          h = if_proto_handler iface;
          b = (if ph_config_params h then fst (ue_to_blob U (ProtoParams h) s b) else b)
      in if bridge then (iface, b)
         else let (b, device_config) = ue_to_blob U (DeviceParams DevSimple) s b
              in (if device_config then iface\<lparr>if_device_config := True\<rparr> else iface, b))"

definition config_add_interface ::
  "world_env \<Rightarrow> rec \<Rightarrow> bool \<Rightarrow> interface \<Rightarrow> blob \<Rightarrow> world \<Rightarrow> world option" where
  "config_add_interface E rec alias iface config w = do {
     let (n, w) = alloc_interface iface w;
     (ok, w) \<leftarrow> (if alias then interface_add_alias E rec n (Some config) w
                 else interface_add E rec n (Some config) w);
     Some (if ok then w else emit (OutFreeInterface n) w)
   }"

definition config_parse_interface ::
  "world_env \<Rightarrow> uci_env \<Rightarrow> rec \<Rightarrow> uci_section list \<Rightarrow> bool \<Rightarrow> uci_section \<Rightarrow> world \<Rightarrow> world option" where
  "config_parse_interface E U rec sections alias s w =
     (let type = (if alias then None else uci_lookup_option_string s ''type'')
      in if uci_lookup_option_string s ''disabled'' = Some ''1'' then Some w
         else case Option.bind type (ue_type_get U) of
           Some (devtype, Some prefix) \<Rightarrow> do {
             ((s, b), w) \<leftarrow> config_parse_bridge_interface E U rec sections s devtype prefix w;
             let (iface, config) = interface_from_section E U s True b;
             config_add_interface E rec alias iface config w
           }
         | _ \<Rightarrow>
             let (iface, config) = interface_from_section E U s False []
             in config_add_interface E rec alias iface config w)"

fun each_section :: "(uci_section \<Rightarrow> world \<Rightarrow> world option) \<Rightarrow> uci_section list \<Rightarrow> world \<Rightarrow> world option" where
  "each_section f [] w = Some w"
| "each_section f (s # ss) w = do { w \<leftarrow> f s w; each_section f ss w }"

definition config_init_interfaces ::
  "world_env \<Rightarrow> uci_env \<Rightarrow> rec \<Rightarrow> uci_section list \<Rightarrow> world \<Rightarrow> world option" where
  "config_init_interfaces E U rec sections w = do {
     w \<leftarrow> each_section (\<lambda>s. if us_type s = ''interface'' then config_parse_interface E U rec sections False s
                            else Some) sections w;
     each_section (\<lambda>s. if us_type s = ''alias'' then config_parse_interface E U rec sections True s
                       else Some) sections w
   }"

section \<open>Devices\<close>

text \<open>A device with a type is made, one without is configured; both then have their configuration.\<close>

definition config_init_device ::
  "world_env \<Rightarrow> rec \<Rightarrow> string \<Rightarrow> device_type option \<Rightarrow> blob \<Rightarrow> world \<Rightarrow> world option" where
  "config_init_device E rec name devtype b w = do {
     (dev, w) \<leftarrow>
       (case devtype of
          Some t \<Rightarrow> device_create E rec name t (Some b) w
        | None \<Rightarrow> do {
            (dev, w) \<leftarrow> device_get E rec name 1 w;
            case dev of
              None \<Rightarrow> Some (None, w)
            | Some d \<Rightarrow> do {
                let w = upd_dev d (\<lambda>x. x\<lparr>dv_current_config := True\<rparr>) w;
                (_, w) \<leftarrow> device_apply_config E rec d (dv_type (w_devs w d)) (Some b) w;
                Some (Some d, w)
              }
          });
     Some (case dev of None \<Rightarrow> w | Some d \<Rightarrow> upd_dev d (\<lambda>x. x\<lparr>dv_default_config := False\<rparr>) w)
   }"

definition config_init_devices ::
  "world_env \<Rightarrow> uci_env \<Rightarrow> rec \<Rightarrow> uci_section list \<Rightarrow> bool \<Rightarrow> world \<Rightarrow> world option" where
  "config_init_devices E U rec sections bridge w =
     each_section (\<lambda>s w.
       let devtype = Option.bind (uci_lookup_option_string s ''type'') (ue_type_get U);
           can_bridge = (case devtype of Some (_, Some _) \<Rightarrow> True | _ \<Rightarrow> False)
       in case uci_lookup_option_string s ''name'' of
            None \<Rightarrow> Some w
          | Some name \<Rightarrow>
              if us_type s \<noteq> ''device'' \<or> bridge \<noteq> can_bridge then Some w
              else let s = (if can_bridge then fixup_bridge sections name s else s);
                       params = DeviceParams (case devtype of None \<Rightarrow> DevSimple | Some (t, _) \<Rightarrow> t)
                   in config_init_device E rec name (map_option fst devtype) (fst (ue_to_blob U params s [])) w)
       sections w"

section \<open>VLANs\<close>

text \<open>A port is a name, with flags after a colon: \<open>*\<close> for the VLAN of untagged frames, \<open>t\<close> for tagged.\<close>

definition vlan_port_flag :: "char \<Rightarrow> u16 \<Rightarrow> u16" where
  "vlan_port_flag c flags =
     (if c = CHR ''*'' then flags OR BRVLAN_F_PVID
      else if c = CHR ''t'' then flags AND NOT BRVLAN_F_UNTAGGED
      else flags)"

definition parse_vlan_port :: "string \<Rightarrow> bridge_vlan_port" where
  "parse_vlan_port str =
     (case strchr str CHR '':'' of
        None \<Rightarrow> \<lparr>bp_ifname = str, bp_flags = BRVLAN_F_UNTAGGED\<rparr>
      | Some (name, sep) \<Rightarrow> \<lparr>bp_ifname = name, bp_flags = fold vlan_port_flag sep BRVLAN_F_UNTAGGED\<rparr>)"

definition vlan_from_section :: "uci_env \<Rightarrow> uci_section \<Rightarrow> bridge_vlan option" where
  "vlan_from_section U s =
     (let opts = ue_vlan U s
      in case (uci_lookup_option_string s ''vlan'', vo_vid opts) of
           (Some _, Some vid) \<Rightarrow>
             if vid = 0 \<or> vid > 4095 then None
             else Some \<lparr>bv_version = 0, bv_ports = map parse_vlan_port (vo_ports opts), bv_hotplug_ports = [],
                        bv_vid = ucast vid, bv_local = (case vo_local opts of None \<Rightarrow> True | Some b \<Rightarrow> b),
                        bv_pending = False\<rparr>
         | _ \<Rightarrow> None)"

definition config_parse_vlan :: "uci_env \<Rightarrow> did \<Rightarrow> uci_section \<Rightarrow> world \<Rightarrow> world option" where
  "config_parse_vlan U d s w =
     (case vlan_from_section U s of
        None \<Rightarrow> Some w
      | Some vlan \<Rightarrow>
          let add = (\<lambda>a m. m(a \<mapsto> ucast (bv_vid vlan)));
              w = upd_dev d (\<lambda>x. x\<lparr>dv_vlan_aliases := fold add (vo_alias (ue_vlan U s)) (dv_vlan_aliases x)\<rparr>) w
          in vlan_vlist_add d vlan w)"

definition config_init_vlans ::
  "world_env \<Rightarrow> uci_env \<Rightarrow> rec \<Rightarrow> uci_section list \<Rightarrow> world \<Rightarrow> world option" where
  "config_init_vlans E U rec sections w = do {
     w \<leftarrow> device_vlan_update False w;
     w \<leftarrow> each_section (\<lambda>s w.
            case uci_lookup_option_string s ''device'' of
              None \<Rightarrow> Some w
            | Some name \<Rightarrow>
                if us_type s \<noteq> ''bridge-vlan'' then Some w
                else do {
                  (dev, w) \<leftarrow> device_get E rec name 0 w;
                  case dev of
                    None \<Rightarrow> Some w
                  | Some d \<Rightarrow> if \<not> dv_vlans_init (w_devs w d) then Some w else config_parse_vlan U d s w
                }) sections w;
     device_vlan_update True w
   }"

section \<open>Routes, neighbours, global settings\<close>

definition config_parse_ip :: "world_env \<Rightarrow> uci_env \<Rightarrow> uci_section \<Rightarrow> world \<Rightarrow> world" where
  "config_parse_ip E U s w =
     (if us_type s = ''route'' then add_route E None (ue_route U s) False w
      else if us_type s = ''route6'' then add_route E None (ue_route U s) True w
      else if us_type s = ''neighbor'' then add_neighbor E None (ue_neighbor U s) False w
      else if us_type s = ''neighbor6'' then add_neighbor E None (ue_neighbor U s) True w
      else w)"

definition config_init_ip :: "world_env \<Rightarrow> uci_env \<Rightarrow> uci_section list \<Rightarrow> world \<Rightarrow> world" where
  "config_init_ip E U sections w =
     (let w = fold (\<lambda>i. interface_ip_update_start i ConfigIp) (w_iflist w) w;
          w = fold (config_parse_ip E U) sections w
      in fold (\<lambda>i. interface_ip_update_complete E i ConfigIp) (w_iflist w) w)"

definition default_ttl :: "uci_section \<Rightarrow> u32 option" where
  "default_ttl globals =
     (case uci_lookup_option_string globals ''ip_default_ttl'' of
        None \<Rightarrow> None
      | Some v \<Rightarrow> let ttl = word_of_nat (fst (strtoul 10 v)) :: u32
                  in if ttl < 1 \<or> ttl > 255 then None else Some ttl)"

definition config_init_globals :: "world_env \<Rightarrow> uci_section list \<Rightarrow> world \<Rightarrow> world" where
  "config_init_globals E sections w =
     (case find (\<lambda>s. us_name s = ''globals'') sections of
        None \<Rightarrow> w
      | Some globals \<Rightarrow>
          let w = interface_ip_set_ula_prefix E (uci_lookup_option_string globals ''ula_prefix'') w
          in case default_ttl globals of None \<Rightarrow> w | Some ttl \<Rightarrow> emit (OutDefaultTtl ttl) w)"

section \<open>Reading everything\<close>

text \<open>What is read while \<open>config_init\<close> is set, and what happens then.\<close>

definition config_read ::
  "world_env \<Rightarrow> uci_env \<Rightarrow> rec \<Rightarrow> uci_section list \<Rightarrow> world \<Rightarrow> world option" where
  "config_read E U rec sections w = do {
     w \<leftarrow> config_init_devices E U rec sections True w;
     w \<leftarrow> config_init_vlans E U rec sections w;
     w \<leftarrow> config_init_devices E U rec sections False w;
     w \<leftarrow> config_init_interfaces E U rec sections w;
     Some (config_init_globals E sections (config_init_ip E U sections w))
   }"

definition config_start :: "world_env \<Rightarrow> rec \<Rightarrow> world \<Rightarrow> world option" where
  "config_start E rec w = do {
     w \<leftarrow> device_reset_old E rec w;
     w \<leftarrow> device_init_pending E rec w;
     w \<leftarrow> interfaces_vlist_flush E rec (w_iflist w) w;
     interface_start_pending E rec (interface_refresh_assignments E False w)
   }"

text \<open>A package that cannot be loaded is \<open>None\<close>; the result is that of loading both packages.\<close>

definition config_init_all ::
  "world_env \<Rightarrow> uci_env \<Rightarrow> rec \<Rightarrow> uci_section list option \<Rightarrow> bool \<Rightarrow> world \<Rightarrow> (int \<times> world) option" where
  "config_init_all E U rec uci_network wireless_ok w =
     (case uci_network of
        None \<Rightarrow> Some (-1, w)
      | Some sections \<Rightarrow> do {
          let w = device_reset_config (w\<lparr>w_ifs_version := w_ifs_version w + 1, w_config_init := True\<rparr>);
          w \<leftarrow> config_read E U rec sections w;
          w \<leftarrow> config_start E rec (w\<lparr>w_config_init := False\<rparr>);
          Some (if wireless_ok then 0 else -1, w)
        })"

end
