(* ===== verification/ConfigContract.thy ===== *)
theory ConfigContract
  imports ProtoContract Config
begin

text \<open>
  Reading the configuration keeps the contract of \<open>Lifecycle\<close>: it moves the state machine of an
  interface only by its transitions, and keeps the timers of the shell protocols.
\<close>

section \<open>What does not move an interface\<close>

lemma if_state_with_attr: "(\<And>a x. if_state (f a x) = if_state x) \<Longrightarrow> if_state (with_attr cur f x) = if_state x"
  by (simp add: with_attr_def split: option.split)

lemma if_state_classes [simp]: "if_state (interface_add_assignment_classes cs f) = if_state f"
  by (induction cs arbitrary: f) (simp_all split: option.split)

lemma if_state_alloc_parts [simp]:
  "if_state (proto_attach_interface hs name f) = if_state f" "if_state (interface_ip_init f) = if_state f"
  "if_state (alloc_link_attrs h tb dyn f) = if_state f" "if_state (alloc_jail_attrs tb f) = if_state f"
  "if_state (parse_ifaceid pton s f) = if_state f"
  by (simp_all add: proto_attach_interface_def interface_ip_init_def alloc_link_attrs_def alloc_jail_attrs_def
      parse_ifaceid_def Let_def split: option.split)

lemma if_state_alloc_attrs [simp]:
  "if_state (alloc_ip_attrs P opts f) = if_state f" "if_state (alloc_assignment_attrs P opts f) = if_state f"
  "if_state (alloc_table_attrs P tb f) = if_state f"
  unfolding alloc_ip_attrs_def alloc_assignment_attrs_def alloc_table_attrs_def Let_def
  by (simp_all add: if_state_with_attr)

lemma if_state_interface_alloc [simp]: "if_state (interface_alloc E name config dyn) = IFS_SETUP"
  unfolding interface_alloc_def Let_def by (simp add: zero_interface_def)

lemma if_state_merge [simp]:
  "if_state (snd (merge_assignment f g)) = if_state f" "if_state (copy_config f g) = if_state f"
  by (simp_all add: merge_assignment_def copy_config_def Let_def split_beta)

lemma if_state_base: "interface_base E config alias f = Some g \<Longrightarrow> if_state g = if_state f"
  by (auto simp: interface_base_def Let_def if_state_with_attr split: if_splits)

lemma if_state_from_section [simp]: "if_state (fst (interface_from_section E U s bridge b)) = IFS_SETUP"
  by (simp add: interface_from_section_def Let_def split_beta)

lemma frame_refresh: "ip_frame w w1 \<Longrightarrow> ip_frame w (interface_refresh_assignments E hint w1)"
  unfolding interface_refresh_assignments_def Let_def
  by (auto intro!: frame_chain frame_fold update_assignments_frame)

lemma frame_delegation: "ip_frame w w1 \<Longrightarrow> ip_frame w (interface_update_prefix_delegation E i w1)"
  unfolding interface_update_prefix_delegation_def Let_def
  by (rule frame_fold) (auto intro!: frame_chain update_assignments_frame)

lemma frame_drop_ula: "ip_frame w w1 \<Longrightarrow> ip_frame w (drop_ula E w1)"
  unfolding drop_ula_def by (auto intro: update_prefix_frame split: option.split)

lemma frame_ula: "ip_frame w w1 \<Longrightarrow> ip_frame w (interface_ip_set_ula_prefix E prefix w1)"
proof -
  assume w1: "ip_frame w w1"
  have "ip_frame w (snd (interface_ip_add_device_prefix E None a l v p ex c (drop_ula E w1)))" for a l v p ex c
    by (intro add_device_prefix_frame frame_drop_ula w1)
  then show ?thesis
    unfolding interface_ip_set_ula_prefix_def Let_def split_beta
    by (auto intro!: frame_chain frame_drop_ula w1 split: option.split)
qed

lemma frame_apply_ip: "ip_frame w w1 \<Longrightarrow> ip_frame w (apply_ip_changes E i reload deleg w1)"
  unfolding apply_ip_changes_def reinstall_ip_def Let_def
  by (auto intro!: frame_delegation ip_set_enabled_frame)

lemma frame_parse_ip: "ip_frame w w1 \<Longrightarrow> ip_frame w (config_parse_ip E U s w1)"
  unfolding config_parse_ip_def by (simp add: settings_frame)

context interface_contract
begin

lemma rel_merge: "R w0 w \<Longrightarrow> R w0 (interface_merge_assignment_data E' i n w)"
proof -
  assume w: "R w0 w"
  let ?m = "snd (merge_assignment (w_ifs w i) (w_ifs w n))"
  have "R w0 (upd_if i (\<lambda>_. ?m) w)"
    by (rule rel_step [OF w]) (auto simp: same_state_def istate_def upd_if_def fun_eq_iff)
  then have "R w0 (upd_if n (\<lambda>f. f\<lparr>if_assignment_classes := []\<rparr>) (upd_if i (\<lambda>_. ?m) w))"
    by (rule rel_if) simp
  then show ?thesis
    unfolding interface_merge_assignment_data_def Let_def split_beta
    by (auto intro!: rel_frame [where f = "interface_refresh_assignments E' True"] frame_refresh)
qed

lemma change_config_ok: "R w0 w \<Longrightarrow> okw w0 (interface_change_config E rec i n w)"
proof -
  assume w: "R w0 w"
  define w1 where "w1 = (if if_parent_ifname (w_ifs w i) \<noteq> if_parent_ifname (w_ifs w n) \<and> if_parent_iface (w_ifs w i) \<noteq> None
               then interface_remove_user (AliasUser i) w else w)"
  have w1: "R w0 w1" using w by (simp add: w1_def rel_remove_if_user)
  have ip: "R w0 x \<Longrightarrow> R w0 (apply_ip_changes E i b d x)" for x b d
    by (erule rel_frame) (simp add: frame_apply_ip)
  show ?thesis
    unfolding interface_change_config_def Let_def w1_def [symmetric]
    by (intro ok_bind ok_if ok_Some set_config_state_ok check_ok cleanup_ok rel_merge rel_if rel_emit ip w1)
      (simp_all add: quiet_def)
qed

lemma create_interface_ok: "R w0 w \<Longrightarrow> okw w0 (interface_create E rec n w)"
  unfolding interface_create_def
  by (intro ok_rules event_ok claim_device_ok rel_proto_init rel_emit) (simp_all add: quiet_def)

lemma interface_update_ok: "R w0 w \<Longrightarrow> okw w0 (interface_update E rec n i w)"
  unfolding interface_update_def
  by (auto intro!: ok_rules change_config_ok create_interface_ok set_config_state_ok split: option.split)

lemma rel_alloc:
  assumes "R w0 w" and "if_state iface = IFS_SETUP"
  shows "R w0 (snd (alloc_interface iface w))"
proof -
  let ?n = "w_next_if w"
  have "moves ?n IFS_SETUP [OutAllocInterface ?n] w (snd (alloc_interface iface w))"
    using assms(2)
    by (auto simp: moves_def alloc_interface_def Let_def istate_def upd_if_def emit_def fun_eq_iff)
  with l_alloc show ?thesis by (rule rel_moved [OF assms(1)])
qed

lemma rel_interfaces_insert: "R w0 w \<Longrightarrow> R w0 (interfaces_insert n w)"
  unfolding interfaces_insert_def by (rule rel_users)

lemma vlist_add_ok: "R w0 w \<Longrightarrow> okw w0 (interfaces_vlist_add E rec n w)"
  unfolding interfaces_vlist_add_def Let_def
  by (intro ok_rules interface_update_ok rel_interfaces_insert rel_if) simp_all

lemma do_interface_add_ok: "R w0 w \<Longrightarrow> okp w0 (do_interface_add E rec n config alias w)"
proof -
  assume w: "R w0 w"
  have "R w0 (upd_if n (\<lambda>_. iface\<lparr>if_config := config\<rparr>) w)"
    if "interface_base E config alias (w_ifs w n) = Some iface" for iface
    by (rule rel_step [OF w])
      (use if_state_base [OF that] in \<open>auto simp: same_state_def istate_def upd_if_def fun_eq_iff\<close>)
  then show ?thesis
    unfolding do_interface_add_def
    by (intro ok_rules vlist_add_ok) (auto intro!: rel_if w split: option.split)
qed

lemma interface_add_ok:
  assumes "R w0 w"
  shows "okp w0 (interface_add E rec n config w)" and "okp w0 (interface_add_alias E rec n config w)"
  unfolding interface_add_def interface_add_alias_def
  by (intro ok_rules do_interface_add_ok; simp add: assms)+

lemma interfaces_flush_ok: "R w0 w \<Longrightarrow> okw w0 (interfaces_vlist_flush E rec is w)"
  by (induction "is" arbitrary: w) (auto intro!: ok_rules interface_update_ok)

lemma add_dynamic_ok: "R w0 w \<Longrightarrow> okp w0 (netifd_add_dynamic E rec name msg w)"
  unfolding netifd_add_dynamic_def Let_def split_beta
  by (intro ok_bind_pair [unfolded case_prod_unfold] interface_add_ok rel_alloc ok_Some)
    (auto intro!: rel_emit simp: quiet_def)

section \<open>Reading the configuration\<close>

lemma each_section_ok:
  assumes "\<And>s w. R w0 w \<Longrightarrow> okw w0 (f s w)" and "R w0 w"
  shows "okw w0 (each_section f ss w)"
  using assms(2) by (induction ss arbitrary: w) (auto intro!: ok_rules assms(1))

lemma config_add_ok: "R w0 w \<Longrightarrow> if_state iface = IFS_SETUP \<Longrightarrow> okw w0 (config_add_interface E rec alias iface b w)"
  unfolding config_add_interface_def Let_def split_beta
  by (intro ok_bind_pair [unfolded case_prod_unfold] ok_if interface_add_ok rel_alloc ok_Some)
    (auto intro!: rel_emit simp: quiet_def)

lemma bridge_interface_ok: "R w0 w \<Longrightarrow> okp w0 (config_parse_bridge_interface E U rec sections s t p w)"
  unfolding config_parse_bridge_interface_def Let_def by (intro ok_bind_pair create_ok ok_Some) simp_all

lemma parse_interface_ok: "R w0 w \<Longrightarrow> okw w0 (config_parse_interface E U rec sections alias s w)"
proof -
  assume w: "R w0 w"
  have add: "okw w0 (case interface_from_section E U s br b of (iface, config) \<Rightarrow> config_add_interface E rec alias iface config x)"
    if "R w0 x" for s br b x
    using config_add_ok [OF that] if_state_from_section [of E U s br b]
    by (cases "interface_from_section E U s br b") simp
  have "okw w0 (do { ((s, b), w) \<leftarrow> config_parse_bridge_interface E U rec sections s t p w;
      (case interface_from_section E U s True b of (iface, config) \<Rightarrow> config_add_interface E rec alias iface config w) })" for t p
    by (rule ok_bind_pair [OF bridge_interface_ok [OF w]]) (auto intro: add)
  then show ?thesis
    using add [OF w] w unfolding config_parse_interface_def Let_def
    by (cases "alias") (simp_all add: ok_Some split: option.split)
qed

lemma config_interfaces_ok: "R w0 w \<Longrightarrow> okw w0 (config_init_interfaces E U rec sections w)"
  unfolding config_init_interfaces_def
  by (intro ok_bind each_section_ok) (auto intro!: parse_interface_ok ok_Some)

lemma config_device_ok: "R w0 w \<Longrightarrow> okw w0 (config_init_device E rec name t b w)"
  unfolding config_init_device_def Let_def
  by (intro ok_rules create_ok get_ok apply_config_ok) (auto simp: rel_upd_dev split: option.split)

lemma config_devices_ok: "R w0 w \<Longrightarrow> okw w0 (config_init_devices E U rec sections br w)"
  unfolding config_init_devices_def Let_def
  by (rule each_section_ok) (intro ok_rules config_device_ok)

lemma parse_vlan_ok: "R w0 w \<Longrightarrow> okw w0 (config_parse_vlan U d s w)"
  unfolding config_parse_vlan_def Let_def by (intro ok_rules vlan_add_ok rel_upd_dev)

lemma device_vlan_update_ok: "R w0 w \<Longrightarrow> okw w0 (device_vlan_update done w)"
  unfolding device_vlan_update_def by (rule vlan_update_devices_ok)

lemma config_vlans_ok: "R w0 w \<Longrightarrow> okw w0 (config_init_vlans E U rec sections w)"
  unfolding config_init_vlans_def
  by (intro ok_bind device_vlan_update_ok each_section_ok)
    (assumption | rule ok_option ok_if ok_Some ok_bind_pair get_ok parse_vlan_ok)+

lemma rel_fold: "(\<And>x w. R w0 w \<Longrightarrow> R w0 (f x w)) \<Longrightarrow> R w0 w \<Longrightarrow> R w0 (fold f xs w)"
  by (induction xs arbitrary: w) simp_all

lemma rel_ip_update:
  assumes "R w0 w"
  shows "R w0 (interface_ip_update_start i sel w)" and "R w0 (interface_ip_update_complete E' i sel w)"
    and "R w0 (config_parse_ip E' U s w)" and "R w0 (interface_refresh_assignments E' hint w)"
    and "R w0 (interface_ip_set_ula_prefix E' prefix w)"
proof -
  have old: "R w0 (flush_old_settings E' i sel w)"
    by (rule rel_frame [OF assms]) (rule settings_frame_refl)
  show "R w0 (interface_ip_update_start i sel w)" by (rule rel_frame [OF assms]) (rule settings_frame_refl)
  show "R w0 (interface_ip_update_complete E' i sel w)"
    using old by (auto simp: interface_ip_update_complete_def Let_def quiet_def intro: rel_emit)
  show "R w0 (config_parse_ip E' U s w)" by (rule rel_frame [OF assms]) (simp add: frame_parse_ip)
  show "R w0 (interface_refresh_assignments E' hint w)" by (rule rel_frame [OF assms]) (simp add: frame_refresh)
  show "R w0 (interface_ip_set_ula_prefix E' prefix w)" by (rule rel_frame [OF assms]) (simp add: frame_ula)
qed

lemma rel_config_ip: "R w0 w \<Longrightarrow> R w0 (config_init_ip E' U sections w)"
  unfolding config_init_ip_def Let_def by (intro rel_fold rel_ip_update)

lemma rel_globals: "R w0 w \<Longrightarrow> R w0 (config_init_globals E' sections w)"
  unfolding config_init_globals_def Let_def
  by (auto intro!: rel_emit rel_ip_update simp: quiet_def split: option.split)

lemma config_read_ok: "R w0 w \<Longrightarrow> okw w0 (config_read E U rec sections w)"
  unfolding config_read_def
  by (intro ok_bind config_devices_ok config_vlans_ok config_interfaces_ok ok_Some rel_globals rel_config_ip)

lemma start_pending_ok: "R w0 w \<Longrightarrow> okw w0 (interface_start_pending E rec w)"
  unfolding interface_start_pending_def by (intro each_interface_ok ok_rules set_up_ok)

lemma config_start_ok: "R w0 w \<Longrightarrow> okw w0 (config_start E rec w)"
  unfolding config_start_def device_reset_old_def device_init_pending_def
  by (intro ok_bind reset_old_ok init_pending_ok interfaces_flush_ok start_pending_ok rel_ip_update)

lemma config_init_all_ok: "R w0 w \<Longrightarrow> okp w0 (config_init_all E U rec pkg wl w)"
proof -
  assume w: "R w0 w"
  have "R w0 (w\<lparr>w_ifs_version := v, w_config_init := True\<rparr>)" for v
    by (rule rel_step [OF w]) (simp add: same_state_def istate_def fun_eq_iff)
  moreover have "R w0 (x\<lparr>w_config_init := False\<rparr>)" if "R w0 x" for x
    by (rule rel_step [OF that]) (simp add: same_state_def)
  ultimately show ?thesis
    unfolding config_init_all_def Let_def
    by (intro ok_option ok_bind ok_Some config_read_ok config_start_ok rel_reset_config) (simp_all add: w)
qed

end

end
