(* ===== verification/Ubus.thy ===== *)
theory Ubus
  imports ConfigContract
begin

text \<open>
  The requests that the program takes over ubus, \<open>src/ubus.c\<close>, with their attributes parsed, and what
  they do. The answer is a status (0, or 2 for an invalid argument, 4 for not found, 8 for not supported,
  9 for an unknown error) and, where the handler sends one, a name. The handlers that only print the
  state, and those of wireless devices, are not modelled.
\<close>

section \<open>Jails\<close>

definition system_link_netns_move :: "did option \<Rightarrow> string option \<Rightarrow> world \<Rightarrow> world" where
  "system_link_netns_move dev target w =
     (case dev of None \<Rightarrow> w | Some d \<Rightarrow> emit (OutNetnsMove d target) w)"

definition interface_start_jail :: "string \<Rightarrow> world \<Rightarrow> world" where
  "interface_start_jail jail w =
     fold (\<lambda>i w. if if_jail (w_ifs w i) \<noteq> Some jail then w
                 else system_link_netns_move (du_dev (if_main_dev (w_ifs w i))) (if_jail_device (w_ifs w i)) w)
       (w_iflist w) w"

text \<open>The loop has no condition: every interface goes down, and its device is moved.\<close>

definition interface_stop_jail :: "world_env \<Rightarrow> rec \<Rightarrow> world \<Rightarrow> world option" where
  "interface_stop_jail E rec w =
     each_interface (\<lambda>i w. do {
       let orig_ifname = if_host_device (w_ifs w i);
       w \<leftarrow> interface_set_down E rec i w;
       Some (system_link_netns_move (du_dev (if_main_dev (w_ifs w i))) orig_ifname w)
     }) (w_iflist w) w"

section \<open>The program and its devices\<close>

record host_route_request =
  hr_target :: "string option"
  hr_v6 :: "bool option"
  hr_interface :: "string option"
  hr_exclude :: "bool option"

definition flag_attr :: "bool \<Rightarrow> bool option \<Rightarrow> bool" where
  "flag_attr dflt cur = (case cur of None \<Rightarrow> dflt | Some b \<Rightarrow> b)"

definition netifd_add_host_route ::
  "world_env \<Rightarrow> host_route_request \<Rightarrow> world \<Rightarrow> (int \<times> string option) \<times> world" where
  "netifd_add_host_route E tb w =
     (case hr_target tb of
        None \<Rightarrow> ((2, None), w)
      | Some target \<Rightarrow>
          let v6 = flag_attr False (hr_v6 tb);
              iface = Option.bind (hr_interface tb) (find_interface w)
          in case pe_inet_pton (we_parse E) v6 target of
               None \<Rightarrow> ((2, None), w)
             | Some bs \<Rightarrow>
                 let (iface, w) = add_target_route E (store_bytes bs zero_addr) v6 iface
                                    (flag_attr False (hr_exclude tb)) w
                 in case iface of
                      None \<Rightarrow> ((4, None), w)
                    | Some i \<Rightarrow> ((0, Some (if_name (w_ifs w i))), w))"

definition netifd_netns_updown ::
  "world_env \<Rightarrow> rec \<Rightarrow> bool \<Rightarrow> string option \<Rightarrow> bool option \<Rightarrow> world \<Rightarrow> (int \<times> world) option" where
  "netifd_netns_updown E rec has_fd jail start w =
     (if \<not> has_fd then Some (2, w)
      else if start = Some True then
        (case jail of None \<Rightarrow> Some (2, w) | Some j \<Rightarrow> Some (0, interface_start_jail j w))
      else map_option (Pair 0) (interface_stop_jail E rec w))"

fun notify_aliases :: "world_env \<Rightarrow> rec \<Rightarrow> string option list \<Rightarrow> did option \<Rightarrow> world \<Rightarrow> (int \<times> world) option" where
  "notify_aliases E rec [] dev w = Some (0, w)"
| "notify_aliases E rec (cur # rest) dev w =
     (case cur of
        None \<Rightarrow> map_option (Pair 2) (device_free_unused E rec w)
      | Some name \<Rightarrow> do { w \<leftarrow> alias_notify_device E rec name dev w; notify_aliases E rec rest dev w })"

definition netifd_handle_alias ::
  "world_env \<Rightarrow> rec \<Rightarrow> string option list option \<Rightarrow> string option \<Rightarrow> world \<Rightarrow> (int \<times> world) option" where
  "netifd_handle_alias E rec aliases device w =
     (case aliases of
        None \<Rightarrow> Some (2, w)
      | Some names \<Rightarrow>
          (case device of
             None \<Rightarrow> notify_aliases E rec names None w
           | Some devname \<Rightarrow> do {
               (dev, w) \<leftarrow> device_get E rec devname 1 w;
               if dev = None then Some (4, w) else notify_aliases E rec names dev w
             }))"

definition netifd_handle_set_state ::
  "world_env \<Rightarrow> rec \<Rightarrow> string option \<Rightarrow> bool option \<Rightarrow> bool option \<Rightarrow> world \<Rightarrow> (int \<times> world) option" where
  "netifd_handle_set_state E rec name defer auth_status w =
     (case name of
        None \<Rightarrow> Some (2, w)
      | Some devname \<Rightarrow>
          (case device_find w devname of
             None \<Rightarrow> Some (4, w)
           | Some d \<Rightarrow> do {
               w \<leftarrow> (case defer of None \<Rightarrow> Some w | Some b \<Rightarrow> device_set_deferred E rec d b w);
               w \<leftarrow> (case auth_status of None \<Rightarrow> Some w | Some b \<Rightarrow> device_set_auth_status E rec d b w);
               Some (0, w)
             }))"

definition netifd_handle_dev_hotplug ::
  "world_env \<Rightarrow> rec \<Rightarrow> string option \<Rightarrow> bool option \<Rightarrow> world \<Rightarrow> (int \<times> world) option" where
  "netifd_handle_dev_hotplug E rec name add w =
     (case (name, add) of
        (Some devname, Some b) \<Rightarrow> map_option (Pair 0) (device_hotplug_event E rec devname b w)
      | _ \<Rightarrow> Some (2, w))"

definition netifd_restart :: "world_env \<Rightarrow> rec \<Rightarrow> world \<Rightarrow> world option" where
  "netifd_restart E rec w = map_option (emit OutRestartTimer) (interface_set_down_all E rec w)"

section \<open>Interfaces\<close>

text \<open>A notification for a protocol, as each protocol parses it.\<close>

record proto_message =
  pm_shell :: shell_notify
  pm_udhcp :: "udhcp_attr attr_tb"
  pm_isc :: "isc_attr attr_tb"
  pm_zcip :: "zcip_attr attr_tb"

definition netifd_iface_notify_proto ::
  "world_env \<Rightarrow> rec \<Rightarrow> ifid \<Rightarrow> proto_message \<Rightarrow> world \<Rightarrow> (int \<times> world) option" where
  "netifd_iface_notify_proto E rec i msg w =
     (case map_option ps_cb (if_proto (w_ifs w i)) of
        Some (ShellHandler s) \<Rightarrow> proto_shell_notify E rec s (pm_shell msg) w
      | Some (UdhcpHandler s) \<Rightarrow> udhcp_notify E rec s (pm_udhcp msg) w
      | Some (IscDhcpHandler s) \<Rightarrow> isc_dhcp_notify E rec s (pm_isc msg) w
      | Some (ZcipHandler s) \<Rightarrow> zcip_notify E rec s (pm_zcip msg) w
      | _ \<Rightarrow> Some (8, w))"

definition netifd_iface_handle_device ::
  "world_env \<Rightarrow> rec \<Rightarrow> ifid \<Rightarrow> bool \<Rightarrow> string option \<Rightarrow> bool option \<Rightarrow> vlan_list \<Rightarrow> world \<Rightarrow> (int \<times> world) option" where
  "netifd_iface_handle_device E rec i add name link_ext vlan w =
     (case name of
        None \<Rightarrow> Some (2, w)
      | Some devname \<Rightarrow> interface_handle_link E rec i devname vlan add (flag_attr True link_ext) w)"

definition netifd_iface_remove :: "ifid \<Rightarrow> world \<Rightarrow> int \<times> world" where
  "netifd_iface_remove i w =
     (if if_remove_timer (w_ifs w i) \<noteq> None then (2, w)
      else (0, upd_if i (\<lambda>f. f\<lparr>if_remove_timer := Some True\<rparr>) w))"

text \<open>The timer runs only once; then the interface is deleted from the tree of interfaces.\<close>

definition netifd_iface_do_remove :: "world_env \<Rightarrow> rec \<Rightarrow> ifid \<Rightarrow> world \<Rightarrow> world option" where
  "netifd_iface_do_remove E rec i w =
     (if if_remove_timer (w_ifs w i) \<noteq> Some True then Some w
      else interface_update E rec None (Some i) (upd_if i (\<lambda>f. f\<lparr>if_remove_timer := Some False\<rparr>) w))"

definition netifd_handle_iface_prepare ::
  "world_env \<Rightarrow> rec \<Rightarrow> ifid \<Rightarrow> world \<Rightarrow> (string option \<times> world) option" where
  "netifd_handle_iface_prepare E rec i w =
     (case du_dev (if_main_dev (w_ifs w i)) of
        None \<Rightarrow> Some (None, w)
      | Some d \<Rightarrow>
          if dv_hotplug_ops (w_devs w d) = None then Some (None, w)
          else do {
            (_, w) \<leftarrow> hotplug_prepare E rec d (w\<lparr>w_bridge_dev := None\<rparr>);
            Some (map_option (\<lambda>b. dv_ifname (w_devs w b)) (w_bridge_dev w), w)
          })"

datatype iface_request =
    ReqUp
  | ReqDown
  | ReqRenew
  | ReqPrepare
  | ReqDevice bool "string option" "bool option" vlan_list
  | ReqNotifyProto proto_message
  | ReqRemove
  | ReqSetData "(bool \<times> string \<times> blob) list"

definition plain_reply :: "(int \<times> world) option \<Rightarrow> ((int \<times> string option) \<times> world) option" where
  "plain_reply m = map_option (\<lambda>(st, w). ((st, None), w)) m"

fun iface_method ::
  "world_env \<Rightarrow> rec \<Rightarrow> ifid \<Rightarrow> iface_request \<Rightarrow> world \<Rightarrow> ((int \<times> string option) \<times> world) option" where
  "iface_method E rec i ReqUp w = map_option (Pair (0, None)) (interface_set_up E rec i w)"
| "iface_method E rec i ReqDown w = map_option (Pair (0, None)) (interface_set_down E rec i w)"
| "iface_method E rec i ReqRenew w = map_option (\<lambda>(_, w). ((0, None), w)) (interface_renew rec i w)"
| "iface_method E rec i ReqPrepare w =
     map_option (\<lambda>(bridge, w). ((0, bridge), w)) (netifd_handle_iface_prepare E rec i w)"
| "iface_method E rec i (ReqDevice add name ext vlan) w =
     plain_reply (netifd_iface_handle_device E rec i add name ext vlan w)"
| "iface_method E rec i (ReqNotifyProto msg) w = plain_reply (netifd_iface_notify_proto E rec i msg w)"
| "iface_method E rec i ReqRemove w = plain_reply (Some (netifd_iface_remove i w))"
| "iface_method E rec i (ReqSetData attrs) w = plain_reply (interface_parse_data E rec i attrs w)"

text \<open>The object for all interfaces finds the interface by its name; each interface has an object too.\<close>

definition netifd_handle_iface ::
  "world_env \<Rightarrow> rec \<Rightarrow> string option \<Rightarrow> iface_request \<Rightarrow> world \<Rightarrow> ((int \<times> string option) \<times> world) option" where
  "netifd_handle_iface E rec name req w =
     (case name of
        None \<Rightarrow> Some ((2, None), w)
      | Some n \<Rightarrow>
          (case find_interface w n of
             None \<Rightarrow> Some ((4, None), w)
           | Some i \<Rightarrow> iface_method E rec i req w))"

section \<open>All requests\<close>

datatype ubus_request =
    ReqRestart
  | ReqReload uci_env "uci_section list option" bool
  | ReqHostRoute host_route_request
  | ReqAddDynamic "string option" "blob option"
  | ReqNetns bool "string option" "bool option"
  | ReqAlias "string option list option" "string option"
  | ReqSetState "string option" "bool option" "bool option"
  | ReqDevHotplug "string option" "bool option"
  | ReqStpInit
  | ReqIface "string option" iface_request
  | ReqIfaceObject ifid iface_request

fun netifd_request ::
  "world_env \<Rightarrow> rec \<Rightarrow> ubus_request \<Rightarrow> world \<Rightarrow> ((int \<times> string option) \<times> world) option" where
  "netifd_request E rec ReqRestart w = map_option (Pair (0, None)) (netifd_restart E rec w)"
| "netifd_request E rec (ReqReload U pkg wl) w =
     map_option (\<lambda>(ret, w). ((if ret \<noteq> 0 then 4 else 0, None), w)) (config_init_all E U rec pkg wl w)"
| "netifd_request E rec (ReqHostRoute tb) w = Some (netifd_add_host_route E tb w)"
| "netifd_request E rec (ReqAddDynamic name msg) w =
     (case name of None \<Rightarrow> Some ((2, None), w) | Some n \<Rightarrow> plain_reply (netifd_add_dynamic E rec n msg w))"
| "netifd_request E rec (ReqNetns fd jail start) w = plain_reply (netifd_netns_updown E rec fd jail start w)"
| "netifd_request E rec (ReqAlias names dev) w = plain_reply (netifd_handle_alias E rec names dev w)"
| "netifd_request E rec (ReqSetState name defer auth) w =
     plain_reply (netifd_handle_set_state E rec name defer auth w)"
| "netifd_request E rec (ReqDevHotplug name add) w = plain_reply (netifd_handle_dev_hotplug E rec name add w)"
| "netifd_request E rec ReqStpInit w = Some ((0, None), device_stp_init w)"
| "netifd_request E rec (ReqIface name req) w = netifd_handle_iface E rec name req w"
| "netifd_request E rec (ReqIfaceObject i req) w =
     (if i \<in> set (w_iflist w) then iface_method E rec i req w else Some ((4, None), w))"

section \<open>Requests keep the contract\<close>

lemma if_state_add_dataD: "interface_add_data ok name data f = (r, g) \<Longrightarrow> if_state g = if_state f"
  by (auto simp: interface_add_data_def split: if_splits)

lemma if_state_add_all [simp]:
  "if_state (snd (fold (\<lambda>(ok, name, data) (ret, iface). if ret \<noteq> 0 then (ret, iface)
                     else interface_add_data ok name data iface) attrs (r, f))) = if_state f"
proof (induction attrs arbitrary: r f)
  case (Cons a attrs)
  show ?case
    by (cases a; cases "interface_add_data (fst a) (fst (snd a)) (snd (snd a)) f")
      (auto simp: Cons.IH dest: if_state_add_dataD)
qed simp

context interface_contract
begin

lemma rel_netns_move: "R w0 w \<Longrightarrow> R w0 (system_link_netns_move dev target w)"
  by (auto simp: system_link_netns_move_def quiet_def intro: rel_emit split: option.split)

lemma rel_start_jail: "R w0 w \<Longrightarrow> R w0 (interface_start_jail jail w)"
  unfolding interface_start_jail_def by (rule rel_fold) (simp_all add: rel_netns_move)

lemma stop_jail_ok: "R w0 w \<Longrightarrow> okw w0 (interface_stop_jail E rec w)"
  unfolding interface_stop_jail_def Let_def
  by (intro each_interface_ok ok_bind if_set_down_ok ok_Some rel_netns_move)

lemma rel_host_route: "R w0 w \<Longrightarrow> R w0 (snd (netifd_add_host_route E' tb w))"
  by (auto simp: netifd_add_host_route_def Let_def split_beta rel_settings split: option.split)

lemma notify_aliases_ok: "R w0 w \<Longrightarrow> okp w0 (notify_aliases E rec names dev w)"
  by (induction names arbitrary: w)
    (auto intro!: ok_rules ok_map alias_notify_ok free_unused_ok simp: device_free_unused_def split: option.split)

lemma set_down_all_ok: "R w0 w \<Longrightarrow> okw w0 (interface_set_down_all E rec w)"
  unfolding interface_set_down_all_def by (intro each_interface_ok set_down_ok)

lemma program_requests_ok:
  assumes "R w0 w"
  shows "okp w0 (netifd_netns_updown E rec fd jail start w)" and "okp w0 (netifd_handle_alias E rec names dev w)"
    and "okp w0 (netifd_handle_set_state E rec name defer auth w)"
    and "okp w0 (netifd_handle_dev_hotplug E rec devname add w)" and "okw w0 (netifd_restart E rec w)"
proof -
  show "okp w0 (netifd_netns_updown E rec fd jail start w)"
    unfolding netifd_netns_updown_def by (intro ok_rules ok_map stop_jail_ok) (simp_all add: assms rel_start_jail)
  show "okp w0 (netifd_handle_alias E rec names dev w)"
    unfolding netifd_handle_alias_def by (intro ok_rules get_ok notify_aliases_ok) (simp_all add: assms)
  show "okp w0 (netifd_handle_set_state E rec name defer auth w)"
    unfolding netifd_handle_set_state_def
    by (intro ok_rules set_deferred_ok set_auth_status_ok) (simp_all add: assms)
  show "okp w0 (netifd_handle_dev_hotplug E rec devname add w)"
    unfolding netifd_handle_dev_hotplug_def
    by (auto intro!: ok_map ok_Some hotplug_event_ok assms split: option.split)
  show "okw w0 (netifd_restart E rec w)"
    unfolding netifd_restart_def by (intro ok_map set_down_all_ok assms rel_emit) (simp_all add: quiet_def)
qed

lemma notify_proto_ok: "R w0 w \<Longrightarrow> okp w0 (netifd_iface_notify_proto E rec i msg w)"
  unfolding netifd_iface_notify_proto_def
  by (auto intro!: ok_Some shell_notify_ok client_notify_ok split: option.split proto_cb.split)

lemma handle_device_ok: "R w0 w \<Longrightarrow> okp w0 (netifd_iface_handle_device E rec i add name ext vlan w)"
  unfolding netifd_iface_handle_device_def by (auto intro!: ok_Some handle_link_ok split: option.split)

lemma rel_iface_remove: "R w0 w \<Longrightarrow> R w0 (snd (netifd_iface_remove i w))"
  by (simp add: netifd_iface_remove_def rel_if)

lemma do_remove_ok: "R w0 w \<Longrightarrow> okw w0 (netifd_iface_do_remove E rec i w)"
  unfolding netifd_iface_do_remove_def by (intro ok_if ok_Some interface_update_ok rel_if) simp_all

lemma iface_prepare_ok: "R w0 w \<Longrightarrow> okp w0 (netifd_handle_iface_prepare E rec i w)"
proof -
  assume w: "R w0 w"
  have "R w0 (w\<lparr>w_bridge_dev := None\<rparr>)" by (rule rel_step [OF w]) (simp add: same_state_def istate_def fun_eq_iff)
  then show ?thesis
    unfolding netifd_handle_iface_prepare_def by (intro ok_rules hotplug_prepare_ok) (simp_all add: w)
qed

lemma parse_data_ok: "R w0 w \<Longrightarrow> okp w0 (interface_parse_data E rec i attrs w)"
proof -
  assume w: "R w0 w"
  let ?f = "snd (fold (\<lambda>(ok, name, data) (ret, iface). if ret \<noteq> 0 then (ret, iface)
                     else interface_add_data ok name data iface) attrs (0, (w_ifs w i)\<lparr>if_updated := 0\<rparr>))"
  have "R w0 (upd_if i (\<lambda>_. ?f) w)"
    by (rule rel_step [OF w]) (auto simp: same_state_def istate_def upd_if_def fun_eq_iff)
  then show ?thesis
    unfolding interface_parse_data_def Let_def case_prod_beta'
    by (intro ok_rules event_ok) (simp_all add: quiet_def)
qed

lemma plain_reply_ok: "okp w0 m \<Longrightarrow> okp w0 (plain_reply m)"
  by (auto simp: plain_reply_def ok_def)

lemma reply_map_ok: "okp w0 m \<Longrightarrow> okp w0 (map_option (\<lambda>(r, w). (f r, w)) m)"
  by (auto simp: ok_def)

lemma iface_method_ok: "R w0 w \<Longrightarrow> okp w0 (iface_method E rec i req w)"
  by (cases req)
    (auto intro!: ok_map reply_map_ok plain_reply_ok ok_Some set_up_ok if_set_down_ok renew_ok iface_prepare_ok
      handle_device_ok notify_proto_ok rel_iface_remove parse_data_ok)

lemma handle_iface_ok: "R w0 w \<Longrightarrow> okp w0 (netifd_handle_iface E rec name req w)"
  unfolding netifd_handle_iface_def by (auto intro!: ok_Some iface_method_ok split: option.split)

lemma request_ok: "R w0 w \<Longrightarrow> okp w0 (netifd_request E rec req w)"
  by (cases req)
    (auto intro!: ok_map reply_map_ok plain_reply_ok ok_Some program_requests_ok config_init_all_ok rel_host_route
      add_dynamic_ok rel_stp_init handle_iface_ok iface_method_ok split: option.split)

end

end
