(* ===== verification/Machine.thy ===== *)
theory Machine
  imports Ubus
begin

text \<open>
  The program as a whole. \<open>dispatch\<close> says what each call through a function pointer runs,
  \<open>run\<close> ties the recursion through the callbacks with fuel, and \<open>netifd_step\<close> is what the event
  loop does on one input: a device appears or goes, its link changes, a protocol reports an
  event, a process ends, a timer runs out, a request comes over ubus.
\<close>

definition proto_cmd ::
  "world_env \<Rightarrow> rec \<Rightarrow> ifid \<Rightarrow> interface_proto_cmd \<Rightarrow> bool \<Rightarrow> world \<Rightarrow> (int \<times> world) option" where
  "proto_cmd E rec i cmd force w =
     (case if_proto (w_ifs w i) of
        None \<Rightarrow> None
      | Some p \<Rightarrow>
          (case ps_cb p of
             NoProtoHandler \<Rightarrow> Some (0, w)
           | InvalidProtoHandler \<Rightarrow> Some (-1, w)
           | StaticHandler \<Rightarrow> static_handler E rec i (ps_config p) cmd w
           | ShellHandler s \<Rightarrow> Some (proto_shell_handler E s cmd w)
           | UdhcpHandler s \<Rightarrow> udhcp_handler E rec s cmd w
           | IscDhcpHandler s \<Rightarrow> isc_dhcp_handler E rec s cmd w
           | ZcipHandler s \<Rightarrow> zcip_handler E rec s cmd w))"

fun user_cb :: "world_env \<Rightarrow> rec \<Rightarrow> uid \<Rightarrow> device_event \<Rightarrow> world \<Rightarrow> world option" where
  "user_cb E rec (UMain i) ev w = interface_main_dev_cb E rec i ev w"
| "user_cb E rec (UL3 i) ev w = interface_l3_dev_cb rec i ev w"
| "user_cb E rec (UExt i) ev w = interface_ext_dev_cb E rec i ev w"
| "user_cb E rec u ev w = type_user_cb E rec u ev w"

fun dispatch :: "world_env \<Rightarrow> rec \<Rightarrow> call \<Rightarrow> world \<Rightarrow> (int \<times> world) option" where
  "dispatch E rec (CUser u ev) w = map_option (Pair 0) (user_cb E rec u ev w)"
| "dispatch E rec (CSetState d state) w = device_set_state_cb E rec d state w"
| "dispatch E rec (CProtoCmd i cmd force) w = proto_cmd E rec i cmd force w"
| "dispatch E rec (CProtoEvent i ev) w = map_option (Pair 0) (interface_proto_event_cb E rec i ev w)"
| "dispatch E rec (CIfUser (AliasUser a) i ev) w = map_option (Pair 0) (interface_alias_cb E rec a i ev w)"
| "dispatch E rec (CIfUser (ShellDep k) i ev) w = map_option (Pair 0) (proto_shell_dep_cb E rec k ev w)"
| "dispatch E rec (CHotplug d member vlan add) w = hotplug_op E rec d member vlan add w"
| "dispatch E rec (CPrepare d) w = hotplug_prepare E rec d w"

fun run :: "world_env \<Rightarrow> nat \<Rightarrow> rec" where
  "run E 0 c w = None"
| "run E (Suc n) c w = dispatch E (run E n) c w"

section \<open>Processes and timers\<close>

text \<open>
  A process that ended is no longer in the list of processes when its callback is called. The
  DHCP and zero-configuration protocols free their state while the client may run: its callback
  then uses freed memory.
\<close>

definition process_callback :: "world_env \<Rightarrow> rec \<Rightarrow> process \<Rightarrow> int \<Rightarrow> world \<Rightarrow> world option" where
  "process_callback E rec p ret w =
     (case p of
        ScriptTask s \<Rightarrow> proto_shell_script_cb E rec s w
      | ProtoTask s \<Rightarrow> proto_shell_task_cb E rec s ret w
      | UdhcpClient s \<Rightarrow> if dh_freed (w_udhcp w s) then None else dhcp_process_callback E rec s w
      | IscDhcpClient s \<Rightarrow> if ic_freed (w_isc w s) then None else Some w
      | ZcipClient s \<Rightarrow> if zc_freed (w_zcip w s) then None else zcip_process_callback E rec s w)"

definition netifd_process_cb :: "world_env \<Rightarrow> rec \<Rightarrow> process \<Rightarrow> int \<Rightarrow> world \<Rightarrow> world option" where
  "netifd_process_cb E rec p ret w =
     (if \<not> process_pending w p then Some w else process_callback E rec p ret (set_pending p False w))"

definition shell_teardown_fires :: "world_env \<Rightarrow> rec \<Rightarrow> psid \<Rightarrow> world \<Rightarrow> world option" where
  "shell_teardown_fires E rec s w =
     (if sh_teardown_timeout (w_shell w s) = None then Some w
      else proto_shell_teardown_timeout_cb E rec s (upd_shell s (\<lambda>x. x\<lparr>sh_teardown_timeout := None\<rparr>) w))"

definition shell_checkup_fires :: "world_env \<Rightarrow> psid \<Rightarrow> world \<Rightarrow> world" where
  "shell_checkup_fires E s w =
     (if sh_checkup_timeout (w_shell w s) = None then w
      else proto_shell_checkup_timeout_cb E s (upd_shell s (\<lambda>x. x\<lparr>sh_checkup_timeout := None\<rparr>) w))"

section \<open>Inputs\<close>

datatype input =
    InDevicePresent did bool
  | InDeviceLink did bool
  | InDeviceAuth did bool
  | InHotplug string bool
  | InProtoEvent ifid interface_proto_event
  | InSetUp ifid
  | InSetDown ifid
  | InSetDownAll
  | InRenew ifid
  | InLink ifid string vlan_list bool bool
  | InStartPending
  | InRemove ifid
  | InFreeUnused
  | InPrepare did
  | InVlanUpdate bool
  | InBridgeRetry did
  | InMemberCheck mid
  | InStpInit
  | InProcessExit process int
  | InTeardownTimeout psid
  | InCheckupTimeout psid
  | InRemoveTimeout ifid
  | InRequest ubus_request

fun netifd_step :: "world_env \<Rightarrow> nat \<Rightarrow> input \<Rightarrow> world \<Rightarrow> world option" where
  "netifd_step E n (InDevicePresent d b) w = device_set_present E (run E n) d b w"
| "netifd_step E n (InDeviceLink d b) w = device_set_link E (run E n) d b w"
| "netifd_step E n (InDeviceAuth d b) w = device_set_auth_status E (run E n) d b w"
| "netifd_step E n (InHotplug name add) w = device_hotplug_event E (run E n) name add w"
| "netifd_step E n (InProtoEvent i ev) w = interface_proto_event_cb E (run E n) i ev w"
| "netifd_step E n (InSetUp i) w = interface_set_up E (run E n) i w"
| "netifd_step E n (InSetDown i) w = interface_set_down E (run E n) i w"
| "netifd_step E n InSetDownAll w = interface_set_down_all E (run E n) w"
| "netifd_step E n (InRenew i) w = map_option snd (interface_renew (run E n) i w)"
| "netifd_step E n (InLink i name vlan add ext) w = map_option snd (interface_handle_link E (run E n) i name vlan add ext w)"
| "netifd_step E n InStartPending w = interface_start_pending E (run E n) w"
| "netifd_step E n (InRemove i) w = set_config_state E (run E n) i IFC_REMOVE w"
| "netifd_step E n InFreeUnused w = device_free_unused E (run E n) w"
| "netifd_step E n (InPrepare d) w = map_option snd (hotplug_prepare E (run E n) d w)"
| "netifd_step E n (InVlanUpdate done) w = device_vlan_update done w"
| "netifd_step E n (InBridgeRetry b) w = bridge_retry_members E (run E n) b w"
| "netifd_step E n (InMemberCheck m) w = bridge_member_check_cb E (run E n) m w"
| "netifd_step E n InStpInit w = Some (device_stp_init w)"
| "netifd_step E n (InProcessExit p ret) w = netifd_process_cb E (run E n) p ret w"
| "netifd_step E n (InTeardownTimeout s) w = shell_teardown_fires E (run E n) s w"
| "netifd_step E n (InCheckupTimeout s) w = Some (shell_checkup_fires E s w)"
| "netifd_step E n (InRemoveTimeout i) w = netifd_iface_do_remove E (run E n) i w"
| "netifd_step E n (InRequest req) w = map_option snd (netifd_request E (run E n) req w)"

text \<open>Worlds that the program reaches from \<open>w0\<close>.\<close>

inductive reachable :: "world_env \<Rightarrow> world \<Rightarrow> world \<Rightarrow> bool" for E w0 where
  reach_init: "reachable E w0 w0"
| reach_step: "reachable E w0 w \<Longrightarrow> netifd_step E n inp w = Some w' \<Longrightarrow> reachable E w0 w'"

section \<open>The contract for the program\<close>

text \<open>
  Bonding and external device types are code of their own: what is relied on is that they move
  the state machine of an interface only by the calls that they make. For the other types this is
  shown.
\<close>

definition types_respect :: "world_env \<Rightarrow> bool" where
  "types_respect E \<longleftrightarrow>
     (\<forall>R rec. world_rel R \<longrightarrow> (\<forall>c w r w'. rec c w = Some (r, w') \<longrightarrow> R w w') \<longrightarrow> device_contract R E rec)"

lemma refines_refl: "refines w w"
  by (simp add: refines_def)

lemma refines_trans: "refines w1 w2 \<Longrightarrow> refines w2 w3 \<Longrightarrow> refines w1 w3"
  by (auto simp: refines_def)

lemma refines_same: "same_state w w' \<Longrightarrow> refines w w'"
  by (simp add: refines_def lstate_of_def same_state_def)

lemma refines_move:
  assumes "legal (w_out w) (istate w i) i s es" and "moves i s es w w'"
  shows "refines w w'"
  using lstep_move [of "w_out w" "istate w" i s es] assms by (auto simp: refines_def lstate_of_def moves_def)

lemma refines_quiet: "quiet x \<Longrightarrow> refines w (emit x w)"
  by (rule refines_move [of w undefined "istate w undefined" "[x]"])
    (auto intro: l_quiet simp: moves_def)

lemma lstep_out: "lstep a b \<Longrightarrow> set (snd a) \<subseteq> set (snd b)"
  by (auto elim!: lstep.cases)

lemma lstep_outs: "lstep\<^sup>*\<^sup>* a b \<Longrightarrow> set (snd a) \<subseteq> set (snd b)"
  by (induction rule: rtranclp_induct) (auto dest: lstep_out)

lemma refines_out: "refines w w' \<Longrightarrow> set (w_out w) \<subseteq> set (w_out w')"
  unfolding refines_def using lstep_outs by (fastforce simp: lstate_of_def)

context interface_contract
begin

lemma proto_cmd_ok: "R w0 w \<Longrightarrow> okp w0 (proto_cmd E rec i cmd force w)"
  unfolding proto_cmd_def Let_def
  by (auto intro!: ok_Some static_handler_ok rel_shell_handler client_handlers_ok split: option.split proto_cb.split)

lemma user_cb_ok: "R w0 w \<Longrightarrow> okw w0 (user_cb E rec u ev w)"
  by (cases u) (auto intro: main_cb_ok l3_cb_ok ext_cb_ok type_user_cb_ok simp del: type_user_cb.simps)

lemma dispatch_ok: "R w0 w \<Longrightarrow> okp w0 (dispatch E rec c w)"
  by (cases "(E, rec, c, w)" rule: dispatch.cases)
    (auto intro!: ok_map user_cb_ok set_state_cb_ok proto_cmd_ok proto_event_cb_ok alias_interface_cb_ok dep_cb_ok
      hotplug_op_ok hotplug_prepare_ok)

lemma process_cb_ok: "R w0 w \<Longrightarrow> okw w0 (netifd_process_cb E rec p ret w)"
  unfolding netifd_process_cb_def process_callback_def
  by (cases p)
    (auto intro!: ok_Some rel_set_pending script_cb_ok task_cb_ok client_callbacks_ok simp del: set_pending.simps)

text \<open>
  The timer of the teardown: the killed processes leave nothing to wait for, so the shell protocol
  does not go on waiting without its timer.
\<close>

lemma teardown_fires_ok: "R w0 w \<Longrightarrow> okw w0 (shell_teardown_fires E rec s w)"
proof -
  assume w: "R w0 w"
  let ?kill = "\<lambda>w. netifd_kill_process (ProtoTask s) (netifd_kill_process (ScriptTask s) w)"
  let ?off = "upd_shell s (\<lambda>x. x\<lparr>sh_teardown_timeout := None\<rparr>)"
  have kill: "R w0 (?kill w)" by (intro rel_kill_process w)
  have idle: "shell_now_idle s (?kill (?off w)) = shell_now_idle s (?kill w)"
    by (simp add: shell_now_idle_def netifd_kill_process_def upd_shell_def emit_def)
  show ?thesis
  proof (cases "sh_sm (w_shell w s)")
    case S_IDLE
    then have "R w0 (?off w)" by (intro rel_upd_shell w) (simp add: shell_armed_def)
    then show ?thesis
      unfolding shell_teardown_fires_def proto_shell_teardown_timeout_cb_def
      by (intro ok_if ok_Some w task_finish_ok rel_kill_process)
  next
    case S_SETUP
    then have "R w0 (?off w)" by (intro rel_upd_shell w) (simp add: shell_armed_def)
    then show ?thesis
      unfolding shell_teardown_fires_def proto_shell_teardown_timeout_cb_def
      by (intro ok_if ok_Some w task_finish_ok rel_kill_process)
  next
    case S_SETUP_ABORT
    then have "sh_sm (w_shell (?kill (?off w)) s) = S_SETUP_ABORT"
      "\<not> sh_script_task (w_shell (?kill (?off w)) s)" "\<not> sh_proto_task (w_shell (?kill (?off w)) s)"
      by (simp_all add: netifd_kill_process_def upd_shell_def emit_def)
    then show ?thesis
      unfolding shell_teardown_fires_def proto_shell_teardown_timeout_cb_def proto_shell_task_finish_def Let_def
      by (simp add: idle w kill ok_Some rel_shell_handler rel_now_idle)
  next
    case S_TEARDOWN
    then have "sh_sm (w_shell (?kill (?off w)) s) = S_TEARDOWN"
      "\<not> sh_script_task (w_shell (?kill (?off w)) s)" "\<not> sh_proto_task (w_shell (?kill (?off w)) s)"
      by (simp_all add: netifd_kill_process_def upd_shell_def emit_def)
    then show ?thesis
      unfolding shell_teardown_fires_def proto_shell_teardown_timeout_cb_def proto_shell_task_finish_def Let_def
      by (simp add: idle w kill ok_Some shell_event_ok rel_now_idle)
  qed
qed

lemma rel_checkup_fires: "R w0 w \<Longrightarrow> R w0 (shell_checkup_fires E' s w)"
  unfolding shell_checkup_fires_def by (auto intro!: rel_checkup rel_upd_shell simp: shell_armed_def)

lemma device_free_unused_ok: "R w0 w \<Longrightarrow> okw w0 (device_free_unused E rec w)"
  unfolding device_free_unused_def by (rule free_unused_ok)

lemma snd_ok:
  assumes "R w0 w"
  shows "okw w0 (map_option snd (interface_renew rec i w))"
    and "okw w0 (map_option snd (interface_handle_link E rec i name vlan add ext w))"
    and "okw w0 (map_option snd (hotplug_prepare E rec d w))"
    and "okw w0 (map_option snd (netifd_request E rec req w))"
  by (intro ok_map_snd renew_ok handle_link_ok hotplug_prepare_ok request_ok assms)+

lemma some_ok:
  assumes "R w0 w"
  shows "okw w0 (Some (device_stp_init w))" and "okw w0 (Some (shell_checkup_fires E' s w))"
  by (intro ok_Some rel_stp_init rel_checkup_fires assms)+

lemmas input_ok =
  set_present_ok set_link_ok set_auth_status_ok hotplug_event_ok proto_event_cb_ok set_up_ok
  if_set_down_ok set_down_all_ok start_pending_ok set_config_state_ok device_free_unused_ok

lemmas bridge_input_ok = device_vlan_update_ok retry_members_ok member_check_ok

lemmas program_input_ok = snd_ok some_ok process_cb_ok teardown_fires_ok do_remove_ok

end

lemma run_l3:
  "run E n (CUser (UL3 i) ev) w = Some (r, w') \<Longrightarrow> ev \<noteq> DEV_EVENT_LINK_DOWN \<Longrightarrow> w' = w"
  by (cases n) (auto simp: interface_l3_dev_cb_def Let_def split: if_splits)

text \<open>
  A relation that holds across the transitions of the state machine, across quiet messages and
  across changes of anything else, holds across every input.
\<close>

locale program_rel = world_rel +
  assumes legal_moves: "legal (w_out w) (istate w i) i s es \<Longrightarrow> moves i s es w w' \<Longrightarrow> R w w'"
    and keeps_out: "R w w' \<Longrightarrow> set (w_out w) \<subseteq> set (w_out w')"
begin

lemma contract_intro:
  assumes "types_respect E"
    and "\<And>c w r w'. rec c w = Some (r, w') \<Longrightarrow> R w w'"
    and "\<And>i ev w r w'. rec (CUser (UL3 i) ev) w = Some (r, w') \<Longrightarrow> ev \<noteq> DEV_EVENT_LINK_DOWN \<Longrightarrow> w' = w"
  shows "interface_contract R E rec"
proof -
  have "device_contract R E rec"
    using assms(1,2) world_rel_axioms unfolding types_respect_def by blast
  then show ?thesis
    by (rule interface_contract.intro)
      (rule interface_contract_axioms.intro,
        erule (1) legal_moves, erule keeps_out, erule (1) assms(3))
qed

lemma run_rel: "types_respect E \<Longrightarrow> interface_contract R E (run E n)"
proof (induction n)
  case 0
  show ?case by (rule contract_intro [OF 0]) (auto dest: run_l3)
next
  case (Suc n)
  have step: "R w w'" if "run E (Suc n) c w = Some (r, w')" for c w r w'
    using interface_contract.dispatch_ok [OF Suc.IH [OF Suc.prems] rel_refl, of w c] that
    by (simp add: ok_def)
  show ?case by (rule contract_intro [OF Suc.prems step]) (assumption | erule (1) run_l3)+
qed

lemma step_rel:
  assumes "types_respect E" and "netifd_step E n inp w = Some w'"
  shows "R w w'"
proof -
  note c = run_rel [OF assms(1), of n]
  have "okw w (netifd_step E n inp w)"
    by (cases inp)
      (simp_all add: interface_contract.input_ok [OF c] interface_contract.bridge_input_ok [OF c]
        interface_contract.program_input_ok [OF c] rel_refl)
  then show ?thesis using assms(2) by (simp add: ok_def)
qed

lemma reachable_rel: "reachable E w0 w \<Longrightarrow> types_respect E \<Longrightarrow> R w0 w"
  by (induction rule: reachable.induct) (auto intro: rel_refl rel_trans step_rel)

end

interpretation lc: program_rel refines
  by unfold_locales
    (rule refines_refl, erule (1) refines_trans, erule refines_same, erule refines_quiet, erule (1) refines_move,
      erule refines_out)

lemmas run_contract = lc.run_rel and step_refines = lc.step_rel and reachable_refines = lc.reachable_rel

text \<open>
  The program without bonding and external device types. It satisfies the contract without further
  assumptions.
\<close>

definition no_type_ops :: dev_type_ops where
  "no_type_ops = \<lparr>ty_set_state = (\<lambda>rec d b w. Some (-1, w)), ty_check_state = None, ty_reload = None,
     ty_create = (\<lambda>rec name a w. Some (None, w)), ty_config_init = (\<lambda>rec d w. Some w),
     ty_free = (\<lambda>rec d w. Some w), ty_device_attrs = False\<rparr>"

definition simple_only :: "world_env \<Rightarrow> world_env" where
  "simple_only E = E\<lparr>we_type := (\<lambda>_. no_type_ops), we_vlan_chain := (\<lambda>rec name k w. Some (None, w)),
     we_alias_get := (\<lambda>rec name w. Some (None, w)), we_hotplug := (\<lambda>n rec d d' vlan add w. Some (8, w)),
     we_prepare := (\<lambda>n rec d w. Some (8, w))\<rparr>"

lemma simple_only_respects: "types_respect (simple_only E)"
proof -
  have "device_contract R (simple_only E) rec"
    if "world_rel R" "\<And>c w r w'. rec c w = Some (r, w') \<Longrightarrow> R w w'" for R rec
    by (intro device_contract.intro device_contract_axioms.intro that(1))
      (auto simp: simple_only_def no_type_ops_def world_rel.rel_refl [OF that(1)] dest: that(2))
  then show ?thesis unfolding types_respect_def by blast
qed

text \<open>The modelled device types move interfaces only by the calls that they make.\<close>

lemma netifd_env_respects: "types_respect E \<Longrightarrow> types_respect (netifd_env E)"
  unfolding types_respect_def by (blast intro: netifd_env_contract)

interpretation sm: interface_contract refines "netifd_env (simple_only E)" "run (netifd_env (simple_only E)) n" for E n
  by (intro run_contract netifd_env_respects simple_only_respects)

section \<open>The timers of shell protocols\<close>

text \<open>A shell protocol that has its timer when it waits keeps that.\<close>

definition timers_kept :: "world \<Rightarrow> world \<Rightarrow> bool" where
  "timers_kept w w' \<longleftrightarrow> set (w_out w) \<subseteq> set (w_out w')
     \<and> (\<forall>s. shell_armed (w_shell w s) \<longrightarrow> shell_armed (w_shell w' s))"

interpretation tk: program_rel timers_kept
  by unfold_locales (auto simp: timers_kept_def same_state_def moves_def emit_def)

section \<open>The order of events\<close>

text \<open>What was told of the state of interface \<open>i\<close>.\<close>

definition marks :: "ifid \<Rightarrow> out \<Rightarrow> bool" where
  "marks i x \<longleftrightarrow> x = OutEvent i IFEV_UP \<or> x = OutEvent i IFEV_DOWN \<or> x = OutEvent i IFEV_UP_FAILED
               \<or> x = OutProtoState i \<or> x = OutAllocInterface i"

definition may_follow :: "ifid \<Rightarrow> out \<Rightarrow> out \<Rightarrow> bool" where
  "may_follow i a b \<longleftrightarrow> (a = OutEvent i IFEV_UP \<longrightarrow>
     b = OutEvent i IFEV_DOWN \<or> b = OutProtoState i \<or> b = OutAllocInterface i)"

definition in_order :: "ifid \<Rightarrow> out list \<Rightarrow> bool" where
  "in_order i out \<longleftrightarrow> successively (may_follow i) (filter (marks i) out)"

definition told_up :: "ifid \<Rightarrow> out list \<Rightarrow> bool" where
  "told_up i out \<longleftrightarrow> filter (marks i) out \<noteq> [] \<and> last (filter (marks i) out) = OutEvent i IFEV_UP"

text \<open>What was recorded before interface \<open>i\<close> first reported a lost connection.\<close>

definition before_lost :: "ifid \<Rightarrow> out list \<Rightarrow> out list" where
  "before_lost i out = takeWhile (\<lambda>x. x \<noteq> OutLostConnection i) out"

definition order_inv :: "ifid \<Rightarrow> lstate \<Rightarrow> bool" where
  "order_inv i l \<longleftrightarrow> (case l of (s, out) \<Rightarrow>
     in_order i (before_lost i out) \<and>
     (OutLostConnection i \<in> set out \<or> (s i = IFS_SETUP \<or> s i = IFS_DOWN \<longrightarrow> \<not> told_up i out)))"

lemma before_lost_all: "OutLostConnection i \<notin> set out \<Longrightarrow> before_lost i out = out"
  by (auto simp: before_lost_def takeWhile_eq_all_conv)

lemma before_lost_snoc:
  "before_lost i (out @ [x]) =
     (if OutLostConnection i \<in> set out \<or> x = OutLostConnection i then before_lost i out else out @ [x])"
proof (cases "OutLostConnection i \<in> set out")
  case False
  then have "\<forall>y \<in> set out. y \<noteq> OutLostConnection i" by blast
  then show ?thesis using False
    by (simp add: before_lost_def takeWhile_append2 before_lost_all [OF False, unfolded before_lost_def])
qed (simp add: before_lost_def takeWhile_append1)

lemma in_order_snoc:
  "in_order i (out @ [x]) \<longleftrightarrow>
     in_order i out \<and> (marks i x \<and> told_up i out \<longrightarrow>
       x = OutEvent i IFEV_DOWN \<or> x = OutProtoState i \<or> x = OutAllocInterface i)"
  by (auto simp: in_order_def told_up_def may_follow_def successively_append_iff)

lemma told_up_snoc:
  "told_up i (out @ [x]) \<longleftrightarrow> (if marks i x then x = OutEvent i IFEV_UP else told_up i out)"
  by (auto simp: told_up_def)

lemma marks_simps [simp]:
  "marks i (OutEvent j ev) \<longleftrightarrow> j = i \<and> (ev = IFEV_UP \<or> ev = IFEV_DOWN \<or> ev = IFEV_UP_FAILED)"
  "marks i (OutProtoState j) \<longleftrightarrow> j = i" "marks i (OutAllocInterface j) \<longleftrightarrow> j = i"
  by (auto simp: marks_def)

lemma quiet_unmarked: "quiet x \<Longrightarrow> \<not> marks i x"
  by (auto simp: quiet_def marks_def)

lemma order_inv_step:
  assumes "lstep a b" and "order_inv i a"
  shows "order_inv i b"
  using assms
proof cases
  case (lstep_move out s j s' es)
  from lstep_move(3) show ?thesis
    using assms(2) lstep_move(1,2)
    by (cases rule: legal_cases)
      (auto simp: order_inv_def in_order_snoc told_up_snoc before_lost_snoc before_lost_all quiet_unmarked split: if_splits)
qed

lemma order_inv_run: "refines w w' \<Longrightarrow> order_inv i (lstate_of w) \<Longrightarrow> order_inv i (lstate_of w')"
  unfolding refines_def by (induction rule: rtranclp_induct) (auto intro: order_inv_step)

end
