(* ===== verification/Example.thy ===== *)
theory Example
  imports Machine
begin

text \<open>
  A small system for the witnesses: a device \<open>eth0\<close> that is present and has a link, an
  interface \<open>lan\<close> on it, an alias interface, and a kernel that accepts everything. The device types are those
  of the program, without bonding and external types.
\<close>

definition example_parse :: parse_env where
  "example_parse = \<lparr>pe_inet_aton = (\<lambda>_. None), pe_inet_pton = (\<lambda>_ _. None), pe_ether_aton = (\<lambda>_. None),
     pe_rt_protos = None, pe_rt_tables = None, pe_rtime = 1000\<rparr>"

definition example_base :: world_env where
  "example_base = simple_only
     \<lparr>we_sys = example_sys, we_parse = example_parse, we_visit = (\<lambda>us. us),
      we_if_resolve = (\<lambda>d log. int d + 1), we_if_get_settings = (\<lambda>d log. zero_settings),
      we_if_parent = (\<lambda>d log. None), we_if_check = (\<lambda>d log. CheckLink (int d + 1) True),
      we_force_external = (\<lambda>_. False), we_type = (\<lambda>_. no_type_ops),
      we_vlan_chain = (\<lambda>rec name k w. Some (None, w)), we_alias_get = (\<lambda>rec name w. Some (None, w)),
      we_default_macaddr = (\<lambda>_. None), we_ether_aton = (\<lambda>_. None), we_dev_attrs = (\<lambda>_ _. None),
      we_blob_equal = (\<lambda>a b. a = b),
      we_hotplug = (\<lambda>n rec d d' vlan add w. Some (8, w)), we_prepare = (\<lambda>n rec d w. Some (8, w)),
      we_vlandev_attrs = (\<lambda>_. (\<lambda>_. None, \<lambda>_. None)), we_macvlan_attrs = (\<lambda>_ _. None),
      we_veth_attrs = (\<lambda>_ _. None), we_bridge_attrs = (\<lambda>_. (\<lambda>_. None, None)),
      we_dev_diff = (\<lambda>a b. a \<noteq> b), we_type_diff = (\<lambda>n a b. a \<noteq> b),
      we_bridge_diff = (\<lambda>a b. if a = b then {} else {BRIDGE_ATTR_PORTS}), we_vlan_check = (\<lambda>b n log. 0),
      we_proto_opts = (\<lambda>_. \<lparr>po_tb = (\<lambda>_. None), po_array = (\<lambda>_. None)\<rparr>),
      we_iface_attrs = (\<lambda>_. \<lparr>io_tb = (\<lambda>_. None), io_dns = None, io_dns_search = None, io_ip6class = None\<rparr>),
      we_proto_attach = (\<lambda>_ _. True), we_handlers = (\<lambda>_. None), we_fork = (\<lambda>_ _. True),
      we_json = (\<lambda>_. Some ''{}''), we_checkup = (\<lambda>_. None), we_dad_wait = (\<lambda>_. None)\<rparr>"

definition example_netifd :: world_env where
  "example_netifd = netifd_env example_base"

definition example_device :: device where
  "example_device = zero_device\<lparr>dv_ifname := ''eth0'', dv_set_state := Some StateSimple,
     dv_sys_present := True, dv_present := True, dv_link_active := True, dv_default_config := True,
     dv_users := [UMain 0]\<rparr>"

definition example_interface :: interface where
  "example_interface = zero_interface\<lparr>if_name := ''lan'', if_state := IFS_DOWN, if_available := True,
     if_autostart := True, if_link_state := True, if_proto_handler := no_proto,
     if_proto := Some \<lparr>ps_handler = no_proto, ps_cb = NoProtoHandler, ps_config = None\<rparr>,
     if_main_dev := zero_device_user\<lparr>du_dev := Some 0\<rparr>\<rparr>"

lemma example_netifd_simps [simp]:
  "we_sys example_netifd = example_sys" "we_parse example_netifd = example_parse"
  "we_visit example_netifd us = us" "we_if_resolve example_netifd d log = int d + 1"
  "we_if_get_settings example_netifd d log = zero_settings" "we_if_parent example_netifd d log = None"
  "we_if_check example_netifd d log = CheckLink (int d + 1) True" "\<not> we_force_external example_netifd name"
  "we_default_macaddr example_netifd name = None" "we_ether_aton example_netifd s = None"
  "we_dev_attrs example_netifd a = (\<lambda>_. None)" "we_fork example_netifd p out"
  "we_json example_netifd a = Some ''{}''" "we_checkup example_netifd a = None"
  "we_proto_opts example_netifd a = \<lparr>po_tb = (\<lambda>_. None), po_array = (\<lambda>_. None)\<rparr>"
  "we_bridge_attrs example_netifd a = (\<lambda>_. None, None)" "we_vlan_check example_netifd b name log = 0"
  by (simp_all add: example_netifd_def example_base_def netifd_env_def with_types_def with_vlan_def with_alias_def simple_only_def)

definition example_world :: world where
  "example_world = \<lparr>w_devs = (\<lambda>d. if d = 0 then example_device else zero_device), w_devlist = [0],
     w_next_dev = 1,
     w_ifs = (\<lambda>i. if i = 0 then example_interface else zero_interface\<lparr>if_state := IFS_DOWN\<rparr>),
     w_iflist = [0], w_ifs_version = 1, w_next_if = 1, w_config_init = False, w_ifusers = (\<lambda>_. []), w_allusers = [],
     w_prefix = (\<lambda>_. zero_prefix), w_next_prefix = 0, w_prefixes = [], w_ula = None,
     w_refresh = False, w_vlan = (\<lambda>_. zero_vlan_device), w_vlandev = (\<lambda>_. zero_vlandev),
     w_macvlan = (\<lambda>_. zero_macvlan), w_veth = (\<lambda>_. zero_veth), w_alias = (\<lambda>_. zero_alias_device),
     w_aliases = [], w_bridge = (\<lambda>_. zero_bridge), w_member = (\<lambda>_. zero_member), w_next_member = 0,
     w_bridge_dev = None, w_shell = (\<lambda>_. zero_shell_state), w_udhcp = (\<lambda>_. zero_dhcp_state),
     w_isc = (\<lambda>_. zero_isc_state), w_zcip = (\<lambda>_. zero_zcip_state), w_next_proto = 0,
     w_dep = (\<lambda>_. zero_shell_dep), w_next_dep = 0, w_log = [], w_out = []\<rparr>"

end
