(* ===== verification/Hotplug.thy ===== *)
theory Hotplug
  imports Example "HOL-Library.Sublist"
begin

text \<open>
  The queue of hotplug events, \<open>src/interface-event.c\<close>. One script runs at a time; an interface has
  at most one event in the queue. The static variables of the file are the record \<open>hotplug\<close>; the
  fields \<open>hotplug_list\<close> and \<open>hotplug_ev\<close> of the interfaces are kept here as the list
  \<open>hp_pending\<close> and the function \<open>hp_ev\<close>. \<open>hp_runs\<close> records the scripts that were started,
  \<open>hp_ubus\<close> the messages to ubus. \<open>fork n\<close> tells whether the call number \<open>n\<close> of \<open>fork\<close> succeeds.
\<close>

unbundle bit_operations_syntax

datatype ubus_msg = UbusInterfaceEvent ifid bool | UbusInterfaceNotify ifid bool

record hotplug_run =
  hr_iface :: ifid
  hr_event :: Types.interface_event
  hr_environ :: "(string \<times> string) list"

record hotplug =
  hp_current :: "ifid option"
  hp_current_ev :: Types.interface_event
  hp_pending :: "ifid list"
  hp_ev :: "ifid \<Rightarrow> Types.interface_event"
  hp_task :: bool
  hp_forks :: nat
  hp_runs :: "hotplug_run list"
  hp_ubus :: "ubus_msg list"

fun eventnames :: "Types.interface_event \<Rightarrow> string" where
  "eventnames IFEV_DOWN = ''ifdown''"
| "eventnames IFEV_UP = ''ifup''"
| "eventnames IFEV_UP_FAILED = ''ifup-failed''"
| "eventnames IFEV_UPDATE = ''ifupdate''"
| "eventnames IFEV_FREE = ''free''"
| "eventnames IFEV_RELOAD = ''reload''"
| "eventnames IFEV_LINK_UP = ''iflink''"
| "eventnames IFEV_CREATE = ''create''"

text \<open>What the child process adds to its environment before it runs the script.\<close>

definition hotplug_environ ::
  "string \<Rightarrow> string option \<Rightarrow> Types.interface_event \<Rightarrow> u32 \<Rightarrow> (string \<times> string) list" where
  "hotplug_environ ifname device event updated =
     [(''ACTION'', eventnames event), (''INTERFACE'', ifname)] @
     (case device of None \<Rightarrow> [] | Some d \<Rightarrow> [(''DEVICE'', d)]) @
     (if event \<noteq> IFEV_UPDATE then []
      else (if has_flag updated IUF_ADDRESS then [(''IFUPDATE_ADDRESSES'', ''1'')] else []) @
           (if has_flag updated IUF_ROUTE then [(''IFUPDATE_ROUTES'', ''1'')] else []) @
           (if has_flag updated IUF_PREFIX then [(''IFUPDATE_PREFIXES'', ''1'')] else []) @
           (if has_flag updated IUF_DATA then [(''IFUPDATE_DATA'', ''1'')] else []))"

definition hotplug_device :: "world \<Rightarrow> ifid \<Rightarrow> Types.interface_event \<Rightarrow> string option" where
  "hotplug_device w i ev =
     (if ev = IFEV_UP \<or> ev = IFEV_UPDATE
      then map_option (\<lambda>d. dv_ifname (w_devs w d)) (l3_device (w_ifs w i)) else None)"

definition the_run :: "world \<Rightarrow> ifid \<Rightarrow> Types.interface_event \<Rightarrow> hotplug_run" where
  "the_run w i ev =
     \<lparr>hr_iface = i, hr_event = ev,
      hr_environ = hotplug_environ (if_name (w_ifs w i)) (hotplug_device w i ev) ev (if_updated (w_ifs w i))\<rparr>"

text \<open>
  The three functions call each other when \<open>fork\<close> fails: the script counts as completed and the
  next one is tried.
\<close>

function call_hotplug :: "(nat \<Rightarrow> bool) \<Rightarrow> world \<Rightarrow> hotplug \<Rightarrow> hotplug"
  and run_cmd :: "(nat \<Rightarrow> bool) \<Rightarrow> world \<Rightarrow> ifid \<Rightarrow> Types.interface_event \<Rightarrow> hotplug \<Rightarrow> hotplug"
  and task_complete :: "(nat \<Rightarrow> bool) \<Rightarrow> world \<Rightarrow> hotplug \<Rightarrow> hotplug"
where
  "call_hotplug fork w q =
     (case hp_pending q of
        [] \<Rightarrow> q
      | i # rest \<Rightarrow>
          run_cmd fork w i (hp_ev q i)
            (q\<lparr>hp_current := Some i, hp_current_ev := hp_ev q i, hp_pending := rest\<rparr>))"
| "run_cmd fork w i ev q =
     (let pid = fork (hp_forks q); q = q\<lparr>hp_forks := hp_forks q + 1\<rparr>
      in if \<not> pid then task_complete fork w q
         else q\<lparr>hp_task := True, hp_runs := hp_runs q @ [the_run w i ev]\<rparr>)"
| "task_complete fork w q = call_hotplug fork w (q\<lparr>hp_current := None\<rparr>)"
  by pat_completeness auto
termination
  by (relation "measure (\<lambda>x. case x of Inl (fork, w, q) \<Rightarrow> 3 * length (hp_pending q)
        | Inr (Inl (fork, w, i, ev, q)) \<Rightarrow> 3 * length (hp_pending q) + 2
        | Inr (Inr (fork, w, q)) \<Rightarrow> 3 * length (hp_pending q) + 1)") auto

declare call_hotplug.simps [simp del] run_cmd.simps [simp del] task_complete.simps [simp del]

definition set_hotplug_ev :: "ifid \<Rightarrow> Types.interface_event \<Rightarrow> hotplug \<Rightarrow> hotplug" where
  "set_hotplug_ev i ev q = q\<lparr>hp_ev := (hp_ev q)(i := ev)\<rparr>"

definition queue_tail :: "ifid \<Rightarrow> Types.interface_event \<Rightarrow> hotplug \<Rightarrow> hotplug" where
  "queue_tail i ev q = (set_hotplug_ev i ev q)\<lparr>hp_pending := hp_pending q @ [i]\<rparr>"

definition queue_event :: "ifid \<Rightarrow> Types.interface_event \<Rightarrow> hotplug \<Rightarrow> hotplug" where
  "queue_event i ev q =
     (if hp_current q = Some i then
        (if i \<in> set (hp_pending q) then
           (if ev \<noteq> IFEV_UPDATE then set_hotplug_ev i ev q else q)
         else if ev \<noteq> hp_current_ev q \<or> ev = IFEV_UPDATE then queue_tail i ev q else q)
      else
        (if i \<in> set (hp_pending q) then
           (if \<not> (hp_ev q i = IFEV_UP \<and> ev = IFEV_UPDATE) then set_hotplug_ev i ev q else q)
         else queue_tail i ev q))"

definition interface_queue_event ::
  "(nat \<Rightarrow> bool) \<Rightarrow> world \<Rightarrow> ifid \<Rightarrow> Types.interface_event \<Rightarrow> hotplug \<Rightarrow> hotplug" where
  "interface_queue_event fork w i ev q =
     (let q = q\<lparr>hp_ubus := hp_ubus q @
                  (if ev = IFEV_UP \<or> ev = IFEV_DOWN then [UbusInterfaceEvent i (ev = IFEV_UP)] else []) @
                  [UbusInterfaceNotify i (ev \<noteq> IFEV_DOWN)]\<rparr>
      in if ev = IFEV_LINK_UP then q
         else let q = queue_event i ev q
              in if \<not> hp_task q \<and> hp_current q = None then call_hotplug fork w q else q)"

definition interface_dequeue_event :: "ifid \<Rightarrow> hotplug \<Rightarrow> hotplug" where
  "interface_dequeue_event i q =
     (let q = (if hp_current q = Some i then q\<lparr>hp_current := None\<rparr> else q)
      in q\<lparr>hp_pending := removeAll i (hp_pending q)\<rparr>)"

definition interface_event_cb ::
  "(nat \<Rightarrow> bool) \<Rightarrow> world \<Rightarrow> ifid \<Rightarrow> Types.interface_event \<Rightarrow> hotplug \<Rightarrow> hotplug" where
  "interface_event_cb fork w i ev q =
     (case ev of
        IFEV_LINK_UP \<Rightarrow> interface_queue_event fork w i ev q
      | IFEV_UP \<Rightarrow> interface_queue_event fork w i ev q
      | IFEV_UP_FAILED \<Rightarrow> interface_queue_event fork w i ev q
      | IFEV_UPDATE \<Rightarrow> interface_queue_event fork w i ev q
      | IFEV_DOWN \<Rightarrow> interface_queue_event fork w i ev q
      | IFEV_FREE \<Rightarrow> interface_dequeue_event i q
      | _ \<Rightarrow> q)"

text \<open>
  The program sees two kinds of inputs: an event of an interface and the exit of the script, of
  which the event loop clears the pending mark. The world is the one at this time.
\<close>

datatype hotplug_in = HpEvent ifid Types.interface_event | HpExit

fun hotplug_step :: "(nat \<Rightarrow> bool) \<Rightarrow> world \<times> hotplug_in \<Rightarrow> hotplug \<Rightarrow> hotplug" where
  "hotplug_step fork (w, HpEvent i ev) q = interface_event_cb fork w i ev q"
| "hotplug_step fork (w, HpExit) q =
     (if hp_task q then task_complete fork w (q\<lparr>hp_task := False\<rparr>) else q)"

definition hotplug_init :: hotplug where
  "hotplug_init = \<lparr>hp_current = None, hp_current_ev = IFEV_DOWN, hp_pending = [], hp_ev = (\<lambda>_. IFEV_DOWN),
     hp_task = False, hp_forks = 0, hp_runs = [], hp_ubus = []\<rparr>"

section \<open>The queue stays in order\<close>

definition hotplug_idle :: "hotplug \<Rightarrow> bool" where
  "hotplug_idle q \<longleftrightarrow> \<not> hp_task q \<and> hp_current q = None \<and> hp_pending q = []"

definition hotplug_inv :: "hotplug \<Rightarrow> bool" where
  "hotplug_inv q \<longleftrightarrow> distinct (hp_pending q) \<and> (hp_task q \<or> hotplug_idle q)"

lemma call_hotplug_progress:
  "\<not> hp_task q \<Longrightarrow> hp_current q = None \<Longrightarrow> hp_task (call_hotplug fork w q) \<or> hotplug_idle (call_hotplug fork w q)"
  "\<not> hp_task q \<Longrightarrow> hp_task (run_cmd fork w i ev q) \<or> hotplug_idle (run_cmd fork w i ev q)"
  "\<not> hp_task q \<Longrightarrow> hp_task (task_complete fork w q) \<or> hotplug_idle (task_complete fork w q)"
proof (induction fork w q and fork w i ev q and fork w q rule: call_hotplug_run_cmd_task_complete.induct)
  case (1 fork w q)
  then show ?case
    by (subst (1 2) call_hotplug.simps) (auto simp: hotplug_idle_def split: list.splits)
next
  case (2 fork w i ev q)
  then show ?case
    by (subst (1 2) run_cmd.simps) (auto simp: Let_def split: if_splits)
next
  case (3 fork w q)
  then show ?case
    by (subst (1 2) task_complete.simps) simp
qed

lemma call_hotplug_suffix:
  "suffix (hp_pending (call_hotplug fork w q)) (hp_pending q)"
  "suffix (hp_pending (run_cmd fork w i ev q)) (hp_pending q)"
  "suffix (hp_pending (task_complete fork w q)) (hp_pending q)"
proof (induction fork w q and fork w i ev q and fork w q rule: call_hotplug_run_cmd_task_complete.induct)
  case (1 fork w q)
  then show ?case
    by (subst call_hotplug.simps) (auto split: list.splits intro: suffix_ConsI)
next
  case (2 fork w i ev q)
  then show ?case
    by (subst run_cmd.simps) (auto simp: Let_def)
next
  case (3 fork w q)
  then show ?case by (subst task_complete.simps) simp
qed

lemma distinct_suffix: "suffix xs ys \<Longrightarrow> distinct ys \<Longrightarrow> distinct xs"
  by (auto simp: suffix_def)

lemma queue_event_simps [simp]:
  "hp_task (queue_event i ev q) = hp_task q" "hp_current (queue_event i ev q) = hp_current q"
  "hp_runs (queue_event i ev q) = hp_runs q" "hp_current_ev (queue_event i ev q) = hp_current_ev q"
  by (simp_all add: queue_event_def queue_tail_def set_hotplug_ev_def)

lemma queue_event_distinct: "distinct (hp_pending q) \<Longrightarrow> distinct (hp_pending (queue_event i ev q))"
  by (simp add: queue_event_def queue_tail_def set_hotplug_ev_def)

lemma call_hotplug_inv:
  "\<not> hp_task q \<Longrightarrow> hp_current q = None \<Longrightarrow> distinct (hp_pending q) \<Longrightarrow> hotplug_inv (call_hotplug fork w q)"
  unfolding hotplug_inv_def using call_hotplug_progress(1) call_hotplug_suffix(1) distinct_suffix by blast

lemma queue_inv: "hotplug_inv q \<Longrightarrow> hotplug_inv (interface_queue_event fork w i ev q)"
  by (auto simp: interface_queue_event_def Let_def intro!: call_hotplug_inv queue_event_distinct)
    (auto simp: hotplug_inv_def hotplug_idle_def queue_event_distinct)

lemma dequeue_inv: "hotplug_inv q \<Longrightarrow> hotplug_inv (interface_dequeue_event i q)"
  by (auto simp: interface_dequeue_event_def hotplug_inv_def hotplug_idle_def distinct_removeAll)

lemma step_inv: "hotplug_inv q \<Longrightarrow> hotplug_inv (hotplug_step fork x q)"
proof -
  assume q: "hotplug_inv q"
  obtain w inp where x: "x = (w, inp)" by (cases x)
  show ?thesis
  proof (cases inp)
    case (HpEvent i ev)
    with q x show ?thesis
      by (auto simp: interface_event_cb_def queue_inv dequeue_inv split: Types.interface_event.splits)
  next
    case HpExit
    have "hotplug_inv (call_hotplug fork w (q\<lparr>hp_task := False, hp_current := None\<rparr>))"
      using q by (intro call_hotplug_inv) (auto simp: hotplug_inv_def)
    with q x HpExit show ?thesis by (simp add: task_complete.simps)
  qed
qed

lemma hotplug_init_inv: "hotplug_inv hotplug_init"
  by (simp add: hotplug_init_def hotplug_inv_def hotplug_idle_def)

lemma reached_inv: "hotplug_inv (fold (hotplug_step fork) xs hotplug_init)"
  by (rule fold_invariant [where Q = "\<lambda>_. True" and P = hotplug_inv]) (auto intro: step_inv hotplug_init_inv)

section \<open>Starting a script\<close>

lemma call_hotplug_start:
  assumes "fork (hp_forks q)" and "hp_pending q = i # rest"
  shows "call_hotplug fork w q =
    q\<lparr>hp_current := Some i, hp_current_ev := hp_ev q i, hp_pending := rest, hp_forks := hp_forks q + 1,
      hp_task := True, hp_runs := hp_runs q @ [the_run w i (hp_ev q i)]\<rparr>"
  using assms by (simp add: call_hotplug.simps run_cmd.simps Let_def)

lemma call_hotplug_nothing: "hp_pending q = [] \<Longrightarrow> call_hotplug fork w q = q"
  by (simp add: call_hotplug.simps)

lemma exits_drain:
  assumes "hp_task q" and "\<forall>n \<ge> hp_forks q. fork n"
  shows "hotplug_idle ((hotplug_step fork (w, HpExit) ^^ Suc (length (hp_pending q))) q) \<and>
    hp_runs ((hotplug_step fork (w, HpExit) ^^ Suc (length (hp_pending q))) q) =
      hp_runs q @ map (\<lambda>i. the_run w i (hp_ev q i)) (hp_pending q)"
  using assms
proof (induction "hp_pending q" arbitrary: q)
  case Nil
  then show ?case
    using Nil.hyps[symmetric] by (simp add: task_complete.simps call_hotplug_nothing hotplug_idle_def)
next
  case (Cons i rest)
  let ?q = "hotplug_step fork (w, HpExit) q"
  have q: "?q = q\<lparr>hp_current := Some i, hp_current_ev := hp_ev q i, hp_pending := rest,
      hp_forks := hp_forks q + 1, hp_task := True, hp_runs := hp_runs q @ [the_run w i (hp_ev q i)]\<rparr>"
    using Cons.prems Cons.hyps(2)[symmetric] by (simp add: task_complete.simps call_hotplug_start)
  have "rest = hp_pending ?q" "hp_task ?q" "\<forall>n \<ge> hp_forks ?q. fork n"
    using Cons.prems unfolding q by simp_all
  note ih = Cons.hyps(1) [OF this]
  show ?case
    using ih Cons.hyps(2)[symmetric] unfolding q
    by (simp add: q funpow_swap1 del: hotplug_step.simps)
qed

section \<open>The scripts catch up\<close>

text \<open>The events that say whether an interface is up; \<open>IFEV_UPDATE\<close> only refreshes.\<close>

definition main_event :: "Types.interface_event \<Rightarrow> bool" where
  "main_event ev \<longleftrightarrow> ev = IFEV_UP \<or> ev = IFEV_DOWN \<or> ev = IFEV_UP_FAILED"

definition last_of :: "'a list \<Rightarrow> 'a option" where
  "last_of xs = (if xs = [] then None else Some (last xs))"

lemma last_of_snoc [simp]: "last_of (xs @ [x]) = Some x" "last_of [] = None"
  by (simp_all add: last_of_def)

text \<open>The last main event that the scripts were run for, and the one that interface \<open>i\<close> had last.\<close>

definition last_run :: "ifid \<Rightarrow> hotplug \<Rightarrow> Types.interface_event option" where
  "last_run i q =
     last_of (filter main_event (map hr_event (filter (\<lambda>r. hr_iface r = i) (hp_runs q))))"

fun told_by :: "ifid \<Rightarrow> world \<times> hotplug_in \<Rightarrow> Types.interface_event list" where
  "told_by i (w, HpEvent j ev) = (if j = i then [ev] else [])"
| "told_by i (w, HpExit) = []"

definition told :: "ifid \<Rightarrow> (world \<times> hotplug_in) list \<Rightarrow> Types.interface_event list" where
  "told i xs = concat (map (told_by i) xs)"

text \<open>
  Interface \<open>i\<close> is not freed, and it reports an update only when it is up.
\<close>

definition updates_when_up :: "Types.interface_event list \<Rightarrow> bool" where
  "updates_when_up evs \<longleftrightarrow> IFEV_FREE \<notin> set evs \<and>
     (\<forall>n < length evs. evs ! n = IFEV_UPDATE \<longrightarrow> last_of (filter main_event (take n evs)) = Some IFEV_UP)"

definition caught_up :: "ifid \<Rightarrow> Types.interface_event option \<Rightarrow> hotplug \<Rightarrow> bool" where
  "caught_up i want q \<longleftrightarrow>
     (if i \<in> set (hp_pending q)
      then (if hp_ev q i = IFEV_UPDATE then want = Some IFEV_UP \<and> last_run i q = want
            else main_event (hp_ev q i) \<and> want = Some (hp_ev q i))
      else last_run i q = want) \<and>
     (hp_current q = Some i \<longrightarrow>
        (if hp_current_ev q = IFEV_UPDATE then last_run i q = Some IFEV_UP
         else last_run i q = Some (hp_current_ev q)))"

lemma updates_when_up_snoc:
  "updates_when_up (evs @ [ev]) \<longleftrightarrow> updates_when_up evs \<and> ev \<noteq> IFEV_FREE \<and>
     (ev = IFEV_UPDATE \<longrightarrow> last_of (filter main_event evs) = Some IFEV_UP)"
  by (auto simp: updates_when_up_def nth_append less_Suc_eq)


lemma last_run_snoc:
  "last_run i (q\<lparr>hp_current := c, hp_current_ev := e, hp_pending := p, hp_forks := k, hp_task := t,
      hp_runs := hp_runs q @ [r]\<rparr>) =
     (if hr_iface r = i \<and> main_event (hr_event r) then Some (hr_event r) else last_run i q)"
  by (simp add: last_run_def)

lemma last_run_same: "hp_runs q' = hp_runs q \<Longrightarrow> last_run i q' = last_run i q"
  by (simp add: last_run_def)

lemma caught_up_call:
  assumes "caught_up i want q" and "hp_current q = None" and "distinct (hp_pending q)"
    and "fork (hp_forks q)"
  shows "caught_up i want (call_hotplug fork w q)"
proof (cases "hp_pending q")
  case Nil
  then show ?thesis using assms(1) by (simp add: call_hotplug_nothing)
next
  case (Cons j rest)
  note start = call_hotplug_start [of fork q j rest, OF assms(4) Cons]
  show ?thesis
    using assms(1-3) Cons
    by (auto simp: start caught_up_def last_run_snoc the_run_def
        main_event_def split: if_splits)
qed

definition next_want :: "Types.interface_event \<Rightarrow> Types.interface_event option \<Rightarrow> Types.interface_event option" where
  "next_want ev want = (if main_event ev then Some ev else want)"

lemma set_hotplug_ev_simps [simp]:
  "hp_pending (set_hotplug_ev i ev q) = hp_pending q" "hp_current (set_hotplug_ev i ev q) = hp_current q"
  "hp_current_ev (set_hotplug_ev i ev q) = hp_current_ev q" "last_run j (set_hotplug_ev i ev q) = last_run j q"
  "hp_ev (set_hotplug_ev i ev q) j = (if j = i then ev else hp_ev q j)"
  by (simp_all add: set_hotplug_ev_def last_run_def)

lemma queue_tail_simps [simp]:
  "hp_pending (queue_tail i ev q) = hp_pending q @ [i]" "hp_current (queue_tail i ev q) = hp_current q"
  "hp_current_ev (queue_tail i ev q) = hp_current_ev q" "last_run j (queue_tail i ev q) = last_run j q"
  "hp_ev (queue_tail i ev q) j = (if j = i then ev else hp_ev q j)"
  by (simp_all add: queue_tail_def set_hotplug_ev_def last_run_def)

lemma main_event_not_update: "main_event ev \<Longrightarrow> ev \<noteq> IFEV_UPDATE" "\<not> main_event IFEV_UPDATE"
  by (auto simp: main_event_def)

lemma caught_up_queue:
  assumes "caught_up i want q" and "ev = IFEV_UPDATE \<longrightarrow> want = Some IFEV_UP"
    and "main_event ev \<or> ev = IFEV_UPDATE"
  shows "caught_up i (next_want ev want) (queue_event i ev q)"
proof (cases "ev = IFEV_UPDATE")
  case True
  with assms(1,2) show ?thesis
    by (cases "i \<in> set (hp_pending q)"; cases "hp_current q = Some i"; cases "hp_ev q i = IFEV_UP")
      (auto simp: next_want_def main_event_not_update caught_up_def queue_event_def split: if_splits)
next
  case False
  with assms(3) have "main_event ev" by simp
  with assms(1) False show ?thesis
    by (cases "i \<in> set (hp_pending q)"; cases "hp_current q = Some i"; cases "hp_current_ev q = ev")
      (auto simp: next_want_def caught_up_def queue_event_def split: if_splits)
qed

lemma caught_up_queue_other:
  assumes "caught_up i want q" and "j \<noteq> i"
  shows "caught_up i want (queue_event j ev q)"
proof -
  have "caught_up i want (set_hotplug_ev j ev q)" "caught_up i want (queue_tail j ev q)"
    using assms by (auto simp: caught_up_def split: if_splits)
  then show ?thesis using assms(1) unfolding queue_event_def by auto
qed

lemma caught_up_ubus [simp]: "caught_up i want (q\<lparr>hp_ubus := u\<rparr>) = caught_up i want q"
  by (simp add: caught_up_def last_run_def)


lemma caught_up_queue_event:
  assumes "caught_up i want q" and "hotplug_inv q" and "\<forall>n. fork n"
    and "j = i \<longrightarrow> (ev = IFEV_UPDATE \<longrightarrow> want = Some IFEV_UP) \<and> (main_event ev \<or> ev = IFEV_UPDATE)"
  shows "caught_up i (if j = i then next_want ev want else want) (interface_queue_event fork w j ev q)"
proof -
  obtain u where u: "interface_queue_event fork w j ev q =
      (let q = q\<lparr>hp_ubus := u\<rparr>
       in if ev = IFEV_LINK_UP then q
          else let q = queue_event j ev q
               in if \<not> hp_task q \<and> hp_current q = None then call_hotplug fork w q else q)"
    unfolding interface_queue_event_def by blast
  let ?q = "queue_event j ev (q\<lparr>hp_ubus := u\<rparr>)"
  have c: "caught_up i (if j = i then next_want ev want else want) ?q"
    using assms(1,4) by (auto intro: caught_up_queue caught_up_queue_other)
  have "distinct (hp_pending ?q)"
    using assms(2) by (intro queue_event_distinct) (simp add: hotplug_inv_def)
  then have d: "hp_current ?q = None \<Longrightarrow>
      caught_up i (if j = i then next_want ev want else want) (call_hotplug fork w ?q)"
    using c assms(3) by (intro caught_up_call) auto
  have "ev = IFEV_LINK_UP \<Longrightarrow> j \<noteq> i" using assms(4) by (auto simp: main_event_def)
  with c d assms(1) show ?thesis by (auto simp: u Let_def)
qed

lemma caught_up_exit:
  assumes "caught_up i want q" and "hotplug_inv q" and "\<forall>n. fork n"
  shows "caught_up i want (hotplug_step fork (w, HpExit) q)"
proof -
  have "caught_up i want (q\<lparr>hp_task := False, hp_current := None\<rparr>)"
    using assms(1) by (auto simp: caught_up_def last_run_def split: if_splits)
  then show ?thesis
    using assms by (auto simp: task_complete.simps hotplug_inv_def intro!: caught_up_call)
qed

lemma caught_up_dequeue:
  "caught_up i want q \<Longrightarrow> j \<noteq> i \<Longrightarrow> caught_up i want (interface_dequeue_event j q)"
  by (auto simp: interface_dequeue_event_def caught_up_def last_run_def split: if_splits)

lemma caught_up_event:
  assumes "caught_up i want q" and "hotplug_inv q" and "\<forall>n. fork n"
    and "j = i \<longrightarrow> ev \<noteq> IFEV_FREE \<and> (ev = IFEV_UPDATE \<longrightarrow> want = Some IFEV_UP)"
  shows "caught_up i (if j = i then next_want ev want else want) (interface_event_cb fork w j ev q)"
proof (cases "main_event ev \<or> ev = IFEV_UPDATE")
  case True
  with assms have "caught_up i (if j = i then next_want ev want else want) (interface_queue_event fork w j ev q)"
    by (intro caught_up_queue_event) auto
  with True show ?thesis by (auto simp: interface_event_cb_def main_event_def)
next
  case False
  have l: "interface_queue_event fork w j IFEV_LINK_UP q = q\<lparr>hp_ubus := hp_ubus q @ [UbusInterfaceNotify j True]\<rparr>"
    by (simp add: interface_queue_event_def)
  show ?thesis
    using assms(1,4) False
    by (cases ev) (auto simp: interface_event_cb_def next_want_def l caught_up_dequeue main_event_def)
qed

lemma told_snoc: "told i (xs @ [x]) = told i xs @ told_by i x"
  by (simp add: told_def)

lemma scripts_catch_up:
  assumes "\<forall>n. fork n" and "updates_when_up (told i xs)"
  shows "caught_up i (last_of (filter main_event (told i xs))) (fold (hotplug_step fork) xs hotplug_init)"
  using assms(2)
proof (induction xs rule: rev_induct)
  case Nil
  then show ?case by (simp add: told_def caught_up_def hotplug_init_def last_run_def)
next
  case (snoc x xs)
  let ?q = "fold (hotplug_step fork) xs hotplug_init"
  obtain w inp where x: "x = (w, inp)" by (cases x)
  show ?case
  proof (cases inp)
    case HpExit
    with snoc show ?thesis
      by (simp add: x told_snoc caught_up_exit [OF _ reached_inv assms(1)] del: hotplug_step.simps)
  next
    case (HpEvent j ev)
    from snoc.prems have u: "updates_when_up (told i xs)"
      "j = i \<longrightarrow> ev \<noteq> IFEV_FREE \<and> (ev = IFEV_UPDATE \<longrightarrow> last_of (filter main_event (told i xs)) = Some IFEV_UP)"
      by (auto simp: x HpEvent told_snoc updates_when_up_snoc split: if_splits)
    have "last_of (filter main_event (told i (xs @ [x]))) =
        (if j = i then next_want ev (last_of (filter main_event (told i xs)))
         else last_of (filter main_event (told i xs)))"
      by (simp add: x HpEvent told_snoc next_want_def)
    with caught_up_event [OF snoc.IH [OF u(1)] reached_inv assms(1) u(2)] show ?thesis
      by (simp add: x HpEvent)
  qed
qed

section \<open>Properties\<close>

text \<open>C11: the hotplug queue drains. Whatever events came before, and whichever of the scripts could
not be started, once scripts can be started again every event that is waiting is handed to a script,
in the order in which the interfaces were queued, one script after the exit of the one before; then
nothing runs and nothing waits.\<close>

theorem hotplug_queue_drains:
  assumes "q = fold (hotplug_step fork) xs hotplug_init" and "\<forall>n \<ge> hp_forks q. fork n"
  shows "\<exists>q'. (hotplug_step fork (w, HpExit) ^^ (length (hp_pending q) + 1)) q = q' \<and> hotplug_idle q' \<and>
           hp_runs q' = hp_runs q @ map (\<lambda>i. the_run w i (hp_ev q i)) (hp_pending q)"
proof (cases "hp_task q")
  case True
  from exits_drain [OF True assms(2)] show ?thesis by (simp del: hotplug_step.simps funpow.simps)
next
  case False
  with reached_inv have "hotplug_idle q" unfolding assms(1) hotplug_inv_def by blast
  then show ?thesis by (simp add: hotplug_idle_def)
qed

definition example_history :: "world \<Rightarrow> (world \<times> hotplug_in) list" where
  "example_history w =
     [(w, HpEvent 0 IFEV_UP), (w, HpEvent 0 IFEV_UPDATE), (w, HpEvent 1 IFEV_UP), (w, HpEvent 0 IFEV_DOWN),
      (w, HpEvent 1 IFEV_DOWN), (w, HpEvent 1 IFEV_UP)]"

lemmas hotplug_eval =
  interface_event_cb_def interface_queue_event_def queue_event_def queue_tail_def set_hotplug_ev_def
  call_hotplug.simps run_cmd.simps task_complete.simps hotplug_init_def Let_def

lemma example_queue:
  "hp_pending (fold (hotplug_step (\<lambda>_. True)) (example_history w) hotplug_init) = [0, 1]"
  "hp_ev (fold (hotplug_step (\<lambda>_. True)) (example_history w) hotplug_init) 0 = IFEV_DOWN"
  "hp_ev (fold (hotplug_step (\<lambda>_. True)) (example_history w) hotplug_init) 1 = IFEV_UP"
  "hp_runs (fold (hotplug_step (\<lambda>_. True)) (example_history w) hotplug_init) = [the_run w 0 IFEV_UP]"
  by (simp_all add: example_history_def hotplug_eval)

theorem hotplug_queue_drains_witness:
  "\<exists>q'. (hotplug_step (\<lambda>_. True) (example_world, HpExit) ^^ 3)
           (fold (hotplug_step (\<lambda>_. True)) (example_history example_world) hotplug_init) = q' \<and>
     hotplug_idle q' \<and>
     hp_runs q' = map (\<lambda>(i, ev). the_run example_world i ev) [(0, IFEV_UP), (0, IFEV_DOWN), (1, IFEV_UP)]"
  using hotplug_queue_drains [OF refl, of "\<lambda>_. True" "example_history example_world" example_world]
  by (simp add: example_queue example_queue [unfolded One_nat_def] eval_nat_numeral del: hotplug_step.simps)

text \<open>C12: the hotplug scripts catch up. Events of an interface that is not freed may be merged
while they wait, but when no script is running, the last script that was told whether the
interface is up was told what the interface reported last. Updates are only reported by interfaces that are
up, and scripts can be started.\<close>

theorem hotplug_scripts_catch_up:
  assumes "\<forall>n. fork n" and "updates_when_up (told i xs)"
    and "q = fold (hotplug_step fork) xs hotplug_init" and "\<not> hp_task q"
  shows "last_run i q = last_of (filter main_event (told i xs))"
proof -
  have "hotplug_idle q" using reached_inv assms(4) unfolding assms(3) hotplug_inv_def by blast
  then have "i \<notin> set (hp_pending q)" by (simp add: hotplug_idle_def)
  with scripts_catch_up [OF assms(1,2)] show ?thesis by (simp add: assms(3) caught_up_def)
qed


theorem hotplug_scripts_catch_up_witness:
  "last_run 0 (fold (hotplug_step (\<lambda>_. True))
     (example_history example_world @ replicate 3 (example_world, HpExit)) hotplug_init) = Some IFEV_DOWN"
proof -
  let ?xs = "example_history example_world @ replicate 3 (example_world, HpExit)"
  let ?q = "fold (hotplug_step (\<lambda>_. True)) ?xs hotplug_init"
  have told: "told 0 ?xs = [IFEV_UP, IFEV_UPDATE, IFEV_DOWN]"
    by (simp add: told_def example_history_def eval_nat_numeral)
  have "updates_when_up (told 0 ?xs)"
    unfolding told by (simp add: updates_when_up_def main_event_def last_of_def eval_nat_numeral All_less_Suc)
  moreover have "\<not> hp_task ?q"
    by (simp add: example_history_def hotplug_eval eval_nat_numeral)
  ultimately show ?thesis
    using hotplug_scripts_catch_up [of "\<lambda>_. True" 0 ?xs ?q] told by (simp add: main_event_def last_of_def)
qed

end
