(* ===== verification/TreeOrder.thy ===== *)
theory TreeOrder
  imports PrefixAssign
begin

text \<open>
  What a comparison function owes to the AVL tree that it orders, and what the tree gives in
  return. \<open>A\<close> are the elements for which the function is an order: some functions of the code
  subtract machine integers, which orders only numbers that do not overflow.
\<close>

locale tree_order =
  fixes cmp :: "'a \<Rightarrow> 'a \<Rightarrow> int" and A :: "'a set"
  assumes antisym: "a \<in> A \<Longrightarrow> b \<in> A \<Longrightarrow> cmp a b < 0 \<longleftrightarrow> cmp b a > 0"
    and trans: "a \<in> A \<Longrightarrow> b \<in> A \<Longrightarrow> c \<in> A \<Longrightarrow> cmp a b < 0 \<Longrightarrow> cmp b c < 0 \<Longrightarrow> cmp a c < 0"
begin

definition in_tree_order :: "'a list \<Rightarrow> bool" where
  "in_tree_order ys \<longleftrightarrow> set ys \<subseteq> A \<and> sorted_wrt (\<lambda>a b. cmp a b < 0) ys"

lemma tree_insert_order:
  assumes "in_tree_order ys" and "x \<in> A"
  shows "in_tree_order (avl_insert cmp x ys)"
  using assms(1)
proof (induction ys)
  case Nil
  then show ?case using assms(2) by (simp add: in_tree_order_def)
next
  case (Cons y ys)
  have ys: "in_tree_order ys" "y \<in> A" "\<And>z. z \<in> set ys \<Longrightarrow> z \<in> A \<and> cmp y z < 0"
    using Cons.prems by (auto simp: in_tree_order_def)
  show ?case
  proof (cases "cmp x y < 0")
    case True
    with Cons.prems assms(2) ys show ?thesis by (auto simp: in_tree_order_def intro: trans [of x y])
  next
    case False
    have "cmp x y \<noteq> 0 \<Longrightarrow> cmp y x < 0" using False antisym [OF ys(2) assms(2)] by linarith
    with False ys(2,3) assms(2) Cons.IH [OF ys(1)] Cons.prems set_avl_insert [of cmp x ys] show ?thesis
      by (auto simp: in_tree_order_def dest!: subsetD)
  qed
qed

lemma tree_inserts_order:
  assumes "set xs \<subseteq> A" and "in_tree_order ys"
  shows "in_tree_order (fold (avl_insert cmp) xs ys)"
  using assms by (induction xs arbitrary: ys) (auto intro: tree_insert_order)

lemma tree_insert_set:
  "(\<And>y. y \<in> set ys \<Longrightarrow> cmp x y \<noteq> 0) \<Longrightarrow> set (avl_insert cmp x ys) = insert x (set ys)"
  by (induction ys) auto

lemma tree_inserts_set:
  assumes "distinct xs" and "set xs \<inter> set ys = {}"
    and "\<And>a b. a \<in> set xs \<union> set ys \<Longrightarrow> b \<in> set xs \<union> set ys \<Longrightarrow> a \<noteq> b \<Longrightarrow> cmp a b \<noteq> 0"
  shows "set (fold (avl_insert cmp) xs ys) = set xs \<union> set ys"
  using assms
proof (induction xs arbitrary: ys)
  case (Cons x xs)
  have s: "set (avl_insert cmp x ys) = insert x (set ys)"
    using Cons.prems by (intro tree_insert_set) auto
  show ?case
    using Cons.IH [of "avl_insert cmp x ys"] Cons.prems unfolding fold_simps comp_apply s by auto
qed simp

lemma in_tree_order_Nil: "in_tree_order []"
  by (simp add: in_tree_order_def)

end

interpretation assignment_order: tree_order prefix_assignment_cmp UNIV
proof
  fix a b c
  show "prefix_assignment_cmp a b < 0 \<longleftrightarrow> prefix_assignment_cmp b a > 0"
    using prefix_assignment_cmp_sym [of a b] by simp
  show "prefix_assignment_cmp a b < 0 \<Longrightarrow> prefix_assignment_cmp b c < 0 \<Longrightarrow> prefix_assignment_cmp a c < 0"
    by (rule prefix_assignment_cmp_trans)
qed

interpretation name_order: tree_order strcmp UNIV
proof
  fix a b c
  show "strcmp a b < 0 \<longleftrightarrow> strcmp b a > 0" using strcmp_sym [of a b] by simp
  show "strcmp a b < 0 \<Longrightarrow> strcmp b c < 0 \<Longrightarrow> strcmp a c < 0" by (rule strcmp_trans)
qed

lemma strcmp_eq_0 [simp]: "strcmp xs ys = 0 \<longleftrightarrow> xs = ys"
  by (induction xs ys rule: strcmp.induct) auto

end
