(* ===== verification/Dns.thy ===== *)
theory Dns
  imports Example TreeOrder
begin

text \<open>
  The resolver file, \<open>src/interface-ip.c\<close>. \<open>inet_ntop\<close> is an argument; the file
  system is a map from paths to contents, and \<open>openable\<close> and \<open>renamed\<close> tell whether \<open>fopen\<close> for
  writing and \<open>rename\<close> succeed.
\<close>

unbundle bit_operations_syntax

section \<open>The entries of the resolver file\<close>

type_synonym inet_ntop = "bool \<Rightarrow> if_addr \<Rightarrow> string option"

definition is_linklocal :: "if_addr \<Rightarrow> bool" where
  "is_linklocal a \<longleftrightarrow> a ! 0 = 0xfe \<and> a ! 1 AND 0xc0 = 0x80"

abbreviation newline :: string where
  "newline \<equiv> [CHR 0x0A]"

definition nameserver_line :: "inet_ntop \<Rightarrow> string \<Rightarrow> dns_server \<Rightarrow> string" where
  "nameserver_line ntop dev s =
     (case ntop (dns_af6 s) (dns_addr s) of
        None \<Rightarrow> []
      | Some str \<Rightarrow>
          ''nameserver '' @ str @
          (if dns_af6 s \<and> is_linklocal (dns_addr s) then ''%'' @ dev else []) @ newline)"

definition write_resolv_conf_entries :: "inet_ntop \<Rightarrow> interface_ip_settings \<Rightarrow> string \<Rightarrow> string" where
  "write_resolv_conf_entries ntop ip dev =
     concat (map (nameserver_line ntop dev \<circ> node_data) (tree_list (ip_dns_servers ip))) @
     concat (map (\<lambda>d. ''search '' @ node_data d @ newline) (tree_list (ip_dns_search ip)))"

definition resolv_conf_iface_cmp :: "interface \<Rightarrow> interface \<Rightarrow> int" where
  "resolv_conf_iface_cmp iface1 iface2 =
     (if if_dns_metric iface1 \<noteq> if_dns_metric iface2
      then c_int (to_u32 (if_dns_metric iface1 - if_dns_metric iface2))
      else if if_metric iface1 \<noteq> if_metric iface2
      then c_int (to_u32 (if_metric iface1 - if_metric iface2))
      else strcmp (if_name iface1) (if_name iface2))"

definition vlist_simple_empty :: "'a vlist_simple_tree \<Rightarrow> bool" where
  "vlist_simple_empty t \<longleftrightarrow> tree_list t = []"

definition has_dns :: "interface \<Rightarrow> bool" where
  "has_dns iface \<longleftrightarrow>
     \<not> (vlist_simple_empty (ip_dns_search (if_proto_ip iface)) \<and>
        vlist_simple_empty (ip_dns_servers (if_proto_ip iface)) \<and>
        vlist_simple_empty (ip_dns_search (if_config_ip iface)) \<and>
        vlist_simple_empty (ip_dns_servers (if_config_ip iface)))"

definition in_resolv_conf :: "string option \<Rightarrow> interface \<Rightarrow> bool" where
  "in_resolv_conf jail iface \<longleftrightarrow>
     if_state iface = IFS_UP \<and> \<not> (jail \<noteq> None \<and> if_jail iface \<noteq> jail) \<and> has_dns iface"

definition resolv_conf_ifaces :: "string option \<Rightarrow> interface list \<Rightarrow> interface list" where
  "resolv_conf_ifaces jail ifs =
     fold (avl_insert resolv_conf_iface_cmp) (filter (in_resolv_conf jail) ifs) []"

text \<open>The result is \<open>None\<close> when an interface has no device: the code reads \<open>dev->ifname\<close> unchecked.\<close>

fun write_iface_entries :: "inet_ntop \<Rightarrow> (did \<Rightarrow> device) \<Rightarrow> interface list \<Rightarrow> string option" where
  "write_iface_entries ntop devs [] = Some []"
| "write_iface_entries ntop devs (iface # rest) =
     (case l3_device iface of
        None \<Rightarrow> None
      | Some d \<Rightarrow>
          let dev = dv_ifname (devs d)
          in map_option (\<lambda>s. ''# Interface '' @ if_name iface @ newline @
                 write_resolv_conf_entries ntop (if_config_ip iface) dev @
                 (if ip_no_dns (if_proto_ip iface) then []
                  else write_resolv_conf_entries ntop (if_proto_ip iface) dev) @ s)
               (write_iface_entries ntop devs rest))"

definition interface_write_dns_entries :: "inet_ntop \<Rightarrow> string option \<Rightarrow> world \<Rightarrow> string option" where
  "interface_write_dns_entries ntop jail w =
     write_iface_entries ntop (w_devs w) (resolv_conf_ifaces jail (map (w_ifs w) (w_iflist w)))"

section \<open>Writing the file\<close>

text \<open>The default path, and the one of builds in dummy mode.\<close>

definition DEFAULT_RESOLV_CONF :: string where
  "DEFAULT_RESOLV_CONF = ''/tmp/resolv.conf.d/resolv.conf.auto''"

definition DUMMY_RESOLV_CONF :: string where
  "DUMMY_RESOLV_CONF = ''./tmp/resolv.conf''"

text \<open>The sizes of the buffers, and what is written to them, without the terminator.\<close>

definition resolv_plen :: "string \<Rightarrow> string \<Rightarrow> string option \<Rightarrow> nat" where
  "resolv_plen deflt conf jail =
     (case jail of None \<Rightarrow> 0 | Some j \<Rightarrow> length j + 1) +
     (if length conf \<ge> length deflt then length conf else length deflt) + 1"

definition resolv_path :: "string \<Rightarrow> string option \<Rightarrow> string" where
  "resolv_path conf jail =
     (case jail of
        None \<Rightarrow> conf
      | Some j \<Rightarrow> ''/tmp/resolv.conf-'' @ j @ ''.d/resolv.conf.auto'')"

definition resolv_tmppath :: "string \<Rightarrow> string option \<Rightarrow> string" where
  "resolv_tmppath conf jail = resolv_path conf jail @ ''.tmp''"

type_synonym files = "string \<rightharpoonup> string"

definition file_crc :: "string \<Rightarrow> u32" where
  "file_crc s = crc32_file (map (\<lambda>c. word_of_nat (char_code c)) s)"

text \<open>What is done to the file system, in order, and its effect on the files.\<close>

datatype file_op = Mkdir string | Unlink string | WriteFile string string | Rename string string

fun do_op :: "file_op \<Rightarrow> files \<times> file_op list \<Rightarrow> files \<times> file_op list" where
  "do_op (Mkdir d) (fs, ops) = (fs, ops @ [Mkdir d])"
| "do_op (Unlink p) (fs, ops) = (fs(p := None), ops @ [Unlink p])"
| "do_op (WriteFile p s) (fs, ops) = (fs(p \<mapsto> s), ops @ [WriteFile p s])"
| "do_op (Rename p q) (fs, ops) = (fs(q := fs p, p := None), ops @ [Rename p q])"

definition interface_write_resolv_conf ::
  "inet_ntop \<Rightarrow> (string \<Rightarrow> bool) \<Rightarrow> bool \<Rightarrow> string \<Rightarrow> string option \<Rightarrow> world \<Rightarrow> files \<Rightarrow>
   (files \<times> file_op list) option" where
  "interface_write_resolv_conf ntop openable renamed conf jail w fs =
     (let path = resolv_path conf jail; tmppath = resolv_tmppath conf jail; s = (fs, []);
          s = (case jail of None \<Rightarrow> s | Some j \<Rightarrow> do_op (Mkdir (''/tmp/resolv.conf-'' @ j @ ''.d'')) s);
          s = do_op (Unlink tmppath) s
      in if \<not> openable tmppath then Some s
         else case interface_write_dns_entries ntop jail w of
                None \<Rightarrow> None
              | Some content \<Rightarrow>
                  let s = do_op (WriteFile tmppath content) s;
                      crcnew = file_crc content;
                      crcold = (case fst s path of None \<Rightarrow> crcnew + 1 | Some old \<Rightarrow> file_crc old)
                  in Some (if crcold = crcnew then do_op (Unlink tmppath) s
                           else if renamed then do_op (Rename tmppath path) s
                           else do_op (Unlink tmppath) s))"

section \<open>The order of the entries\<close>

text \<open>Metrics for which the comparison does not overflow.\<close>

definition metrics_ok :: "interface \<Rightarrow> bool" where
  "metrics_ok iface \<longleftrightarrow> 0 \<le> if_dns_metric iface \<and> if_dns_metric iface < 2 ^ 31 \<and>
                       0 \<le> if_metric iface \<and> if_metric iface < 2 ^ 31"

definition resolv_before :: "interface \<Rightarrow> interface \<Rightarrow> bool" where
  "resolv_before a b \<longleftrightarrow> if_dns_metric a < if_dns_metric b \<or> if_dns_metric a = if_dns_metric b \<and>
     (if_metric a < if_metric b \<or> if_metric a = if_metric b \<and> strcmp (if_name a) (if_name b) < 0)"

lemma c_int_diff:
  assumes "0 \<le> a" "a < 2 ^ 31" "0 \<le> b" "b < 2 ^ 31"
  shows "c_int (to_u32 (a - b)) = a - b"
proof -
  have "signed_take_bit 31 (a - b) = a - b"
    using assms by (intro signed_take_bit_int_eq_self) simp_all
  then show ?thesis unfolding c_int_def to_u32_def signed_of_int by simp
qed

lemma resolv_cmp_less:
  assumes "metrics_ok a" and "metrics_ok b"
  shows "resolv_conf_iface_cmp a b < 0 \<longleftrightarrow> resolv_before a b"
    and "resolv_conf_iface_cmp a b > 0 \<longleftrightarrow> resolv_before b a"
    and "resolv_conf_iface_cmp a b = 0 \<Longrightarrow> if_name a = if_name b"
  using assms strcmp_sym [of "if_name a" "if_name b"]
  by (auto simp: resolv_conf_iface_cmp_def resolv_before_def metrics_ok_def c_int_diff split: if_splits)

lemma resolv_before_trans: "resolv_before a b \<Longrightarrow> resolv_before b c \<Longrightarrow> resolv_before a c"
  using strcmp_trans [of "if_name a" "if_name b" "if_name c"] by (auto simp: resolv_before_def)

interpretation resolv_order: tree_order resolv_conf_iface_cmp "Collect metrics_ok"
  by unfold_locales (auto simp: resolv_cmp_less intro: resolv_before_trans)

lemma resolv_conf_ifaces_sorted:
  assumes "\<forall>f \<in> set ifs. metrics_ok f" and "distinct (map if_name ifs)"
  shows "sorted_wrt resolv_before (resolv_conf_ifaces jail ifs)"
    and "set (resolv_conf_ifaces jail ifs) = {f \<in> set ifs. in_resolv_conf jail f}"
proof -
  let ?xs = "filter (in_resolv_conf jail) ifs"
  have xs: "set ?xs \<subseteq> Collect metrics_ok" "distinct ?xs"
    using assms by (auto simp: distinct_map)
  have "cmp \<noteq> 0" if "a \<in> set ?xs" "b \<in> set ?xs" "a \<noteq> b" "cmp = resolv_conf_iface_cmp a b" for a b cmp
    using that assms resolv_cmp_less(3) [of a b] by (auto simp: distinct_map inj_on_def)
  with xs(2) show "set (resolv_conf_ifaces jail ifs) = {f \<in> set ifs. in_resolv_conf jail f}"
    unfolding resolv_conf_ifaces_def by (subst resolv_order.tree_inserts_set) auto
  have "resolv_order.in_tree_order (resolv_conf_ifaces jail ifs)"
    unfolding resolv_conf_ifaces_def
    by (rule resolv_order.tree_inserts_order [OF xs(1) resolv_order.in_tree_order_Nil])
  then have o: "set (resolv_conf_ifaces jail ifs) \<subseteq> Collect metrics_ok"
    "sorted_wrt (\<lambda>a b. resolv_conf_iface_cmp a b < 0) (resolv_conf_ifaces jail ifs)"
    by (simp_all add: resolv_order.in_tree_order_def)
  show "sorted_wrt resolv_before (resolv_conf_ifaces jail ifs)"
    by (rule sorted_wrt_mono_rel [OF _ o(2)]) (use o(1) resolv_cmp_less(1) in blast)
qed

lemma write_iface_entries_total:
  "(\<forall>f \<in> set fs. l3_device f \<noteq> None) \<Longrightarrow> \<exists>s. write_iface_entries ntop devs fs = Some s"
  by (induction fs) (auto simp: Let_def)

section \<open>Properties\<close>

text \<open>C14: the paths of the resolver file fit into their buffers. The path and, with the suffix
\<open>.tmp\<close>, the temporary path are shorter than the buffers exactly when there is no jail, or one of
the configured and the default path has 35 characters; the default path has them, so
nothing overflows, whatever the jail is called. The default path of builds in dummy mode is too
short: there the name of a jail overflows the buffer.\<close>

theorem resolv_paths_fit:
  "(length (resolv_path conf jail) < resolv_plen deflt conf jail \<longleftrightarrow>
      jail = None \<or> 35 \<le> length conf \<or> 35 \<le> length deflt) \<and>
   (length (resolv_tmppath conf jail) < resolv_plen deflt conf jail + 4 \<longleftrightarrow>
      jail = None \<or> 35 \<le> length conf \<or> 35 \<le> length deflt) \<and>
   length (resolv_path conf jail) < resolv_plen DEFAULT_RESOLV_CONF conf jail \<and>
   \<not> length (resolv_path DUMMY_RESOLV_CONF (Some j)) < resolv_plen DUMMY_RESOLV_CONF DUMMY_RESOLV_CONF (Some j)"
  by (auto simp: resolv_path_def resolv_tmppath_def resolv_plen_def DEFAULT_RESOLV_CONF_def
      DUMMY_RESOLV_CONF_def split: option.splits)

text \<open>The operations that concern one file.\<close>

fun touches :: "string \<Rightarrow> file_op \<Rightarrow> bool" where
  "touches p (Mkdir d) \<longleftrightarrow> d = p"
| "touches p (Unlink q) \<longleftrightarrow> q = p"
| "touches p (WriteFile q s) \<longleftrightarrow> q = p"
| "touches p (Rename q r) \<longleftrightarrow> q = p \<or> r = p"

lemma resolv_paths_differ:
  "resolv_tmppath conf jail \<noteq> resolv_path conf jail"
  "''/tmp/resolv.conf-'' @ j @ ''.d'' \<noteq> resolv_path conf (Some j)"
  by (simp_all add: resolv_tmppath_def resolv_path_def)

lemma write_resolv_conf_cases:
  assumes "openable (resolv_tmppath conf jail)" and "interface_write_dns_entries ntop jail w = Some content"
  shows "\<exists>ops. interface_write_resolv_conf ntop openable True conf jail w fs =
      Some (if \<exists>old. fs (resolv_path conf jail) = Some old \<and> file_crc old = file_crc content
            then fs(resolv_tmppath conf jail := None)
            else fs(resolv_tmppath conf jail := None, resolv_path conf jail \<mapsto> content), ops) \<and>
    filter (touches (resolv_path conf jail)) ops =
      (if \<exists>old. fs (resolv_path conf jail) = Some old \<and> file_crc old = file_crc content
       then [] else [Rename (resolv_tmppath conf jail) (resolv_path conf jail)])"
proof -
  let ?p = "resolv_path conf jail" and ?t = "resolv_tmppath conf jail"
  note ne = resolv_paths_differ(1) [of conf jail]
  obtain pre where pre: "(case jail of None \<Rightarrow> (fs, []) | Some j \<Rightarrow> do_op (Mkdir (''/tmp/resolv.conf-'' @ j @ ''.d'')) (fs, []))
      = (fs, pre)" "filter (touches ?p) pre = []"
    using resolv_paths_differ(2) [of _ conf] by (cases jail) auto
  show ?thesis
    using assms ne pre
    by (cases "fs ?p") (auto simp: interface_write_resolv_conf_def Let_def fun_upd_twist)
qed

text \<open>C13: the resolver file is up to date. When the files can be written and every interface that is up has a
device, the entries of exactly the interfaces of the jail that are up and have name servers or search
domains are collected, ordered by DNS metric, metric and name. A file whose checksum is the one of
these entries is left alone: no operation on the file system touches it. Otherwise, or if the file is
missing, the temporary file with the entries is renamed to it, and nothing else is done to it. In the
end the temporary file is gone and no other file has changed.\<close>

theorem resolv_conf_up_to_date:
  assumes "openable (resolv_tmppath conf jail)"
    and "distinct (map (if_name \<circ> w_ifs w) (w_iflist w))"
    and "\<forall>i \<in> set (w_iflist w). metrics_ok (w_ifs w i) \<and> (if_state (w_ifs w i) = IFS_UP \<longrightarrow> l3_device (w_ifs w i) \<noteq> None)"
  shows "\<exists>es content ops.
      sorted_wrt resolv_before es \<and> set es = {f \<in> w_ifs w ` set (w_iflist w). in_resolv_conf jail f} \<and>
      write_iface_entries ntop (w_devs w) es = Some content \<and>
      (if \<exists>old. fs (resolv_path conf jail) = Some old \<and> file_crc old = file_crc content
       then interface_write_resolv_conf ntop openable True conf jail w fs =
              Some (fs(resolv_tmppath conf jail := None), ops) \<and>
            filter (touches (resolv_path conf jail)) ops = []
       else interface_write_resolv_conf ntop openable True conf jail w fs =
              Some (fs(resolv_tmppath conf jail := None, resolv_path conf jail \<mapsto> content), ops) \<and>
            filter (touches (resolv_path conf jail)) ops =
              [Rename (resolv_tmppath conf jail) (resolv_path conf jail)])"
proof -
  let ?es = "resolv_conf_ifaces jail (map (w_ifs w) (w_iflist w))"
  have sorted: "sorted_wrt resolv_before ?es" and set: "set ?es = {f \<in> w_ifs w ` set (w_iflist w). in_resolv_conf jail f}"
    using assms(2,3) resolv_conf_ifaces_sorted [of "map (w_ifs w) (w_iflist w)" jail] by auto
  have "\<forall>f \<in> set ?es. l3_device f \<noteq> None"
    using assms(3) unfolding set by (auto simp: in_resolv_conf_def)
  then obtain content where content: "write_iface_entries ntop (w_devs w) ?es = Some content"
    using write_iface_entries_total by blast
  then have "interface_write_dns_entries ntop jail w = Some content" by (simp add: interface_write_dns_entries_def)
  note written = write_resolv_conf_cases [of openable conf jail, OF assms(1) this, of fs]
  show ?thesis
  proof (cases "\<exists>old. fs (resolv_path conf jail) = Some old \<and> file_crc old = file_crc content")
    case True
    from written sorted set content show ?thesis unfolding if_P [OF True] by (intro exI [of _ ?es] exI [of _ content]) (simp only: if_P [OF True] simp_thms ex_simps)
  next
    case False
    from written sorted set content show ?thesis unfolding if_not_P [OF False] by (intro exI [of _ ?es] exI [of _ content]) (simp only: if_not_P [OF False] simp_thms ex_simps)
  qed
qed

definition example_dns_world :: world where
  "example_dns_world = upd_if 0 (\<lambda>f. f\<lparr>if_state := IFS_UP, if_l3_dev := zero_device_user\<lparr>du_dev := Some 0\<rparr>,
     if_config_ip := interface_add_dns_search_domain ''lan'' zero_ip_settings\<rparr>) example_world"

lemma example_dns_entries:
  "interface_write_dns_entries (\<lambda>_ _. None) None example_dns_world =
     Some (''# Interface lan'' @ newline @ ''search lan'' @ newline)"
  by (simp add: interface_write_dns_entries_def resolv_conf_ifaces_def in_resolv_conf_def has_dns_def
      vlist_simple_empty_def write_resolv_conf_entries_def example_dns_world_def upd_if_def example_world_def
      example_interface_def zero_interface_def zero_ip_settings_def interface_add_dns_search_domain_def
      vlist_simple_add_def vlist_simple_init_def dns_node_def)

theorem resolv_conf_up_to_date_witness:
  "\<exists>c ops. interface_write_resolv_conf (\<lambda>_ _. None) (\<lambda>_. True) True DEFAULT_RESOLV_CONF None example_dns_world
         (\<lambda>_. None) = Some ((\<lambda>_. None)(DEFAULT_RESOLV_CONF \<mapsto> c), ops) \<and>
       c = ''# Interface lan'' @ newline @ ''search lan'' @ newline \<and>
       filter (touches DEFAULT_RESOLV_CONF) ops = [Rename (DEFAULT_RESOLV_CONF @ ''.tmp'') DEFAULT_RESOLV_CONF]"
proof -
  let ?c = "''# Interface lan'' @ newline @ ''search lan'' @ newline"
  have w: "w_iflist example_dns_world = [0]" "metrics_ok (w_ifs example_dns_world 0)"
    "l3_device (w_ifs example_dns_world 0) = Some 0"
    by (simp_all add: example_dns_world_def upd_if_def example_world_def example_interface_def
        zero_interface_def metrics_ok_def)
  from resolv_conf_up_to_date [of "\<lambda>_. True" DEFAULT_RESOLV_CONF None example_dns_world "\<lambda>_ _. None" "\<lambda>_. None"] w
  obtain c ops where c: "interface_write_resolv_conf (\<lambda>_ _. None) (\<lambda>_. True) True DEFAULT_RESOLV_CONF None
      example_dns_world (\<lambda>_. None) = Some ((\<lambda>_. None)(DEFAULT_RESOLV_CONF \<mapsto> c), ops)"
    "filter (touches DEFAULT_RESOLV_CONF) ops = [Rename (DEFAULT_RESOLV_CONF @ ''.tmp'') DEFAULT_RESOLV_CONF]"
    by (auto simp: resolv_path_def resolv_tmppath_def)
  moreover have "c = ?c"
    using c(1) by (auto simp: interface_write_resolv_conf_def example_dns_entries resolv_path_def
        resolv_tmppath_def Let_def dest!: fun_cong [where x = DEFAULT_RESOLV_CONF] split: if_splits)
  ultimately show ?thesis by blast
qed

end
