(* ===== verification/UpdateProps.thy ===== *)
theory UpdateProps
  imports Example
begin

text \<open>
  What an update of the settings of an interface does to its addresses, and what taking over a changed
  configuration does to the settings for the assignment of prefixes.
\<close>

section \<open>An update replaces the addresses\<close>

abbreviation proto_addrs :: "world \<Rightarrow> ifid \<Rightarrow> device_addr list" where
  "proto_addrs w i \<equiv> ip_addr (if_proto_ip (w_ifs w i))"

abbreviation addr_version :: "world \<Rightarrow> ifid \<Rightarrow> int" where
  "addr_version w i \<equiv> ip_addr_version (if_proto_ip (w_ifs w i))"

text \<open>The key of an address in its tree: two full addresses compare as equal only if they have the same.\<close>

definition addr_key :: "device_addr \<Rightarrow> int \<times> u32 \<times> u32 \<times> u8 list" where
  "addr_key a = (ad_index a, ad_flags a, ad_mask a, ad_addr a)"

lemma memcmp_0: "length xs = length ys \<Longrightarrow> memcmp xs ys = 0 \<longleftrightarrow> xs = ys"
  by (induction xs ys rule: memcmp.induct) auto

lemma u32_bytes_inj: "u32_bytes x = u32_bytes y \<longleftrightarrow> x = y"
proof
  assume "u32_bytes x = u32_bytes y"
  then have b: "(ucast (drop_bit (8 * k) x) :: u8) = ucast (drop_bit (8 * k) y)" if "k < 4" for k
    using that by (auto simp: u32_bytes_def less_Suc_eq numeral_nat)
  show "x = y"
  proof (rule bit_word_eqI)
    fix n assume n: "n < LENGTH(32)"
    then have "bit (ucast (drop_bit (8 * (n div 8)) x) :: u8) (n mod 8) = bit (ucast (drop_bit (8 * (n div 8)) y) :: u8) (n mod 8)"
      using b [of "n div 8"] by simp
    then show "bit x n = bit y n" by (simp add: bit_simps)
  qed
qed simp

lemma addr_cmp_0:
  assumes "length (ad_addr a) = 16" and "length (ad_addr b) = 16"
  shows "addr_cmp a b = 0 \<longleftrightarrow> addr_key a = addr_key b"
  using assms
  by (auto simp: addr_cmp_def addr_key_def memcmp_0 u32_bytes_inj length_u32_bytes)

text \<open>What the tree holds after an element was put into it.\<close>

lemma set_put:
  "set (vlist_put cmp x xs) = insert x {y \<in> set xs. cmp x y \<noteq> 0}"
proof -
  have "(\<And>y. y \<in> set ys \<Longrightarrow> cmp x y \<noteq> 0) \<Longrightarrow> set (avl_insert cmp x ys) = insert x (set ys)" for ys
    by (induction ys) auto
  from this [of "filter (\<lambda>y. cmp x y \<noteq> 0) xs"] show ?thesis by (simp add: vlist_put_def)
qed

lemma subnet_route_key:
  "addr_key (fst (interface_handle_subnet_route E i iface a add log)) = addr_key a"
  "ad_version (fst (interface_handle_subnet_route E i iface a add log)) = ad_version a"
  unfolding interface_handle_subnet_route_def Let_def by (auto simp: addr_key_def split: option.split)

lemma install_addr_key:
  "addr_key (fst (install_new_addr E i iface keep replace a log)) = addr_key a"
  "ad_version (fst (install_new_addr E i iface keep replace a log)) = ad_version a"
  by (simp_all add: install_new_addr_def install_addr_def Let_def split_beta subnet_route_key)
    (simp_all add: addr_key_def)

lemma fill_broadcast_key [simp]:
  "addr_key (fill_broadcast a) = addr_key a" "ad_version (fill_broadcast a) = ad_version a"
  by (simp_all add: fill_broadcast_def addr_key_def)

lemma ip_add_addr_tree:
  "\<exists>a'. proto_addrs (ip_add_addr E i a w) i = vlist_put addr_cmp a' (proto_addrs w i) \<and>
     addr_key a' = addr_key a \<and> ad_version a' = addr_version w i \<and>
     addr_version (ip_add_addr E i a w) i = addr_version w i"
proof -
  let ?a = "a\<lparr>ad_version := addr_version w i\<rparr>"
  obtain iface n log where u: "interface_update_proto_addr (sys_of E w) i (w_ifs w i) (Some ?a)
      (vlist_old addr_cmp ?a (proto_addrs w i)) (w_log w) = (iface, n, log)"
    by (metis prod_cases3)
  have k: "addr_key ?a = addr_key a" by (simp add: addr_key_def)
  from u obtain a' where a': "n = Some a'" "addr_key a' = addr_key a" "ad_version a' = addr_version w i"
    "if_proto_ip iface = if_proto_ip (w_ifs w i)"
    using install_addr_key k unfolding interface_update_proto_addr_def Let_def split_beta
    by (fastforce split: if_splits)
  then show ?thesis
    using u by (auto simp: ip_add_addr_def update_addr_def Let_def upd_if_def intro!: exI [of _ a'])
qed


text \<open>The callbacks of the trees leave the settings alone.\<close>

lemma proto_ip_fold:
  "(\<And>x w. if_proto_ip (w_ifs (f x w) i) = if_proto_ip (w_ifs w i)) \<Longrightarrow>
     if_proto_ip (w_ifs (fold f xs w) i) = if_proto_ip (w_ifs w i)"
  by (induction xs arbitrary: w) simp_all

lemma proto_ip_update_prefix:
  "if_proto_ip (w_ifs (interface_update_prefix E tree n p w) i) = if_proto_ip (w_ifs w i)"
proof -
  have touch: "if_proto_ip (w_ifs (touch_prefix tree w) i) = if_proto_ip (w_ifs w i)" for w
    by (simp add: touch_prefix_def upd_if_def split: option.split)
  have assign: "if_proto_ip (w_ifs (update_assignments E q b w) i) = if_proto_ip (w_ifs w i)" for q b w
    by (simp add: update_assignments_def split_beta)
  have replaced: "if_proto_ip (w_ifs (prefix_replaced E tree n p w) i) = if_proto_ip (w_ifs w i)" for n p w
    by (simp add: prefix_replaced_def Let_def split_beta touch)
  have added: "if_proto_ip (w_ifs (prefix_added E n w) i) = if_proto_ip (w_ifs w i)" for n w
    by (simp add: prefix_added_def Let_def assign) (simp add: klog_do_def)
  have removed: "if_proto_ip (w_ifs (prefix_removed E p w) i) = if_proto_ip (w_ifs w i)" for p w
    by (simp add: prefix_removed_def Let_def assign klog_do_def)
  show ?thesis
    by (cases n; cases p) (simp_all add: interface_update_prefix_def Let_def touch replaced added removed)
qed

lemma proto_ip_updates:
  "if_proto_ip (w_ifs (snd (update_addr E j n a w)) i) = if_proto_ip (w_ifs w i)"
  "if_proto_ip (w_ifs (snd (update_route E j sel nr r w)) i) = if_proto_ip (w_ifs w i)"
  "if_proto_ip (w_ifs (snd (update_neighbor E j sel nn b w)) i) = if_proto_ip (w_ifs w i)"
proof -
  have "if_proto_ip (fst (interface_update_proto_addr S j x n a log)) = if_proto_ip x" for S x log
    by (auto simp: interface_update_proto_addr_def Let_def split_beta split: option.split)
  then show "if_proto_ip (w_ifs (snd (update_addr E j n a w)) i) = if_proto_ip (w_ifs w i)"
    by (simp add: update_addr_def split_beta upd_if_def)
  have "if_proto_ip (fst (interface_update_route S j x ip nr r log)) = if_proto_ip x" for S x ip log
    by (auto simp: interface_update_route_def Let_def split_beta split: option.split)
  then show "if_proto_ip (w_ifs (snd (update_route E j sel nr r w)) i) = if_proto_ip (w_ifs w i)"
    by (simp add: update_route_def interface_update_proto_route_def split_beta upd_if_def)
  show "if_proto_ip (w_ifs (snd (update_neighbor E j sel nn b w)) i) = if_proto_ip (w_ifs w i)"
    by (simp add: update_neighbor_def split_beta)
qed

lemma flush_addrs_tree:
  "proto_addrs (flush_old_settings E i ProtoIp w) i =
     filter (\<lambda>a. vlist_keeps (addr_version w i) (ad_version a)) (proto_addrs w i)"
proof -
  note keep = proto_ip_fold proto_ip_updates proto_ip_update_prefix upd_if_def Let_def
  have "proto_addrs (vlist_flush_neighbors E i ProtoIp (vlist_flush_prefixes E i ProtoIp x)) i = proto_addrs x i" for x
    by (simp add: vlist_flush_neighbors_def vlist_flush_prefixes_def keep)
  moreover have "proto_addrs (vlist_flush_addrs E i ProtoIp x) i =
      filter (\<lambda>a. vlist_keeps (addr_version x i) (ad_version a)) (proto_addrs x i)" for x
    by (simp add: vlist_flush_addrs_def keep)
  moreover have "proto_addrs (vlist_flush_routes E i ProtoIp x) i = proto_addrs x i"
    "addr_version (vlist_flush_routes E i ProtoIp x) i = addr_version x i" for x
    by (simp_all add: vlist_flush_routes_def keep)
  ultimately show ?thesis
    unfolding flush_old_settings_def Let_def by (simp add: upd_if_def)
qed

text \<open>The tree between the start and the end of an update: the keys \<open>K\<close> of the addresses that its end will keep,
those with the version \<open>v\<close> of the tree and those that are kept by every update.\<close>

definition in_update :: "int \<Rightarrow> (int \<times> u32 \<times> u32 \<times> u8 list) set \<Rightarrow> device_addr list \<Rightarrow> bool" where
  "in_update v K tree \<longleftrightarrow>
     (\<forall>a\<in>set tree. length (ad_addr a) = 16) \<and>
     addr_key ` {a \<in> set tree. ad_version a = v \<or> ad_version a = -1} = K"

lemma in_update_put:
  assumes "in_update v K tree" and "addr_key a' = addr_key a" and "ad_version a' = v"
    and "length (ad_addr a) = 16"
  shows "in_update v (insert (addr_key a) K) (vlist_put addr_cmp a' tree)"
proof -
  have l: "length (ad_addr a') = 16" using assms(2,4) by (simp add: addr_key_def)
  then have "set (vlist_put addr_cmp a' tree) = insert a' {b \<in> set tree. addr_key b \<noteq> addr_key a}"
    using assms(1,2) addr_cmp_0 [OF l] unfolding set_put in_update_def by fastforce
  moreover have "addr_key ` {b \<in> insert a' {b \<in> set tree. addr_key b \<noteq> addr_key a}. ad_version b = v \<or> ad_version b = -1} =
      insert (addr_key a) (addr_key ` {b \<in> set tree. ad_version b = v \<or> ad_version b = -1})"
  proof (rule set_eqI)
    fix k show "k \<in> addr_key ` {b \<in> insert a' {b \<in> set tree. addr_key b \<noteq> addr_key a}. ad_version b = v \<or> ad_version b = -1} \<longleftrightarrow>
        k \<in> insert (addr_key a) (addr_key ` {b \<in> set tree. ad_version b = v \<or> ad_version b = -1})"
      using assms(2,3) by (cases "k = addr_key a") (auto simp: image_iff simp flip: assms(2))
  qed
  ultimately show ?thesis using assms l by (auto simp: in_update_def)
qed

lemma in_update_adds:
  assumes "in_update (addr_version w i) K (proto_addrs w i)"
    and "\<And>a. a \<in> set as \<Longrightarrow> length (ad_addr a) = 16"
  shows "in_update (addr_version w i) (addr_key ` set as \<union> K) (proto_addrs (fold (ip_add_addr E i) as w) i) \<and>
    addr_version (fold (ip_add_addr E i) as w) i = addr_version w i"
  using assms
proof (induction as arbitrary: w K)
  case (Cons a as)
  obtain a' where a': "proto_addrs (ip_add_addr E i a w) i = vlist_put addr_cmp a' (proto_addrs w i)"
    "addr_key a' = addr_key a" "ad_version a' = addr_version w i"
    "addr_version (ip_add_addr E i a w) i = addr_version w i"
    using ip_add_addr_tree by blast
  have "in_update (addr_version (ip_add_addr E i a w) i) (insert (addr_key a) K) (proto_addrs (ip_add_addr E i a w) i)"
    unfolding a'(1,4) by (rule in_update_put [OF Cons.prems(1) a'(2,3)]) (simp add: Cons.prems(2))
  from Cons.IH [OF this] Cons.prems(2) a'(4) show ?case by simp
qed simp

lemma update_complete_keys:
  assumes "in_update (addr_version w i) K (proto_addrs w i)"
  shows "addr_key ` set (proto_addrs (interface_update_complete E i w) i) = (if addr_version w i = -1 then {} else K)"
  using assms
  by (auto simp: interface_update_complete_def interface_ip_update_complete_def Let_def flush_addrs_tree
      vlist_keeps_def in_update_def emit_def)

text \<open>C7: an update of the settings of an interface replaces its addresses. The tree of addresses has
a version, which is \<open>-1\<close> after a flush, and an address the version of the tree when it was added. After
the start of an update, the addition of addresses and the end of the update the tree holds exactly the
addresses that were added, the old ones with version \<open>-1\<close>, which were added between a flush and the
next update, and, if the update asks to keep what there is, the old ones of the current version. Only
an update that asks so and comes right after a flush leaves nothing, not even what it added.\<close>

theorem update_replaces_addresses:
  assumes "\<And>a. a \<in> set (proto_addrs w i) \<Longrightarrow> length (ad_addr a) = 16 \<and> ad_version a \<le> addr_version w i"
    and "\<And>a. a \<in> set as \<Longrightarrow> length (ad_addr a) = 16" and "-1 \<le> addr_version w i"
  shows "addr_key ` set (proto_addrs (interface_update_complete E i
           (fold (ip_add_addr E i) as (interface_update_start i keep w))) i) =
         (if keep \<and> addr_version w i = -1 then {}
          else addr_key ` set as \<union>
            addr_key ` {a \<in> set (proto_addrs w i). ad_version a = -1 \<or> keep \<and> ad_version a = addr_version w i})"
proof -
  let ?w1 = "interface_update_start i keep w"
  have w1: "proto_addrs ?w1 i = proto_addrs w i"
    "addr_version ?w1 i = (if keep then addr_version w i else addr_version w i + 1)"
    by (simp_all add: interface_update_start_def interface_ip_update_start_def Let_def upd_if_def)
  have "{a \<in> set (proto_addrs w i). ad_version a = addr_version ?w1 i \<or> ad_version a = -1} =
      {a \<in> set (proto_addrs w i). ad_version a = -1 \<or> keep \<and> ad_version a = addr_version w i}"
  proof -
    have "ad_version a \<noteq> addr_version w i + 1" if "a \<in> set (proto_addrs w i)" for a
      using assms(1) [OF that] by simp
    then show ?thesis unfolding w1 by (cases keep) auto
  qed
  then have "in_update (addr_version ?w1 i)
      (addr_key ` {a \<in> set (proto_addrs w i). ad_version a = -1 \<or> keep \<and> ad_version a = addr_version w i}) (proto_addrs ?w1 i)"
    using assms(1) unfolding in_update_def w1(1) by simp
  from in_update_adds [OF this assms(2), of as E]
  have u: "in_update (addr_version ?w1 i) (addr_key ` set as \<union>
      addr_key ` {a \<in> set (proto_addrs w i). ad_version a = -1 \<or> keep \<and> ad_version a = addr_version w i})
      (proto_addrs (fold (ip_add_addr E i) as ?w1) i)"
    "addr_version (fold (ip_add_addr E i) as ?w1) i = addr_version ?w1 i" by simp_all
  have "addr_version ?w1 i = -1 \<longleftrightarrow> keep \<and> addr_version w i = -1" using assms(3) w1(2) by simp
  with update_complete_keys [OF u(1) [folded u(2)], of E] show ?thesis unfolding u(2) by simp
qed

definition example_addr :: "u8 \<Rightarrow> device_addr" where
  "example_addr n = zero_device_addr\<lparr>ad_flags := DEVADDR_INET4, ad_mask := 24, ad_version := 1,
     ad_addr := [192, 168, 1, n, 0, 0, 0, 0, 0, 0, 0, 0, 0, 0, 0, 0]\<rparr>"

text \<open>Two addresses of the last update and one from between a flush and an update.\<close>

definition example_addr_world :: world where
  "example_addr_world = upd_if 0 (upd_ip ProtoIp (\<lambda>ip. ip\<lparr>ip_addr :=
     [example_addr 1, example_addr 2, (example_addr 4)\<lparr>ad_version := -1\<rparr>]\<rparr>)) example_world"

theorem update_replaces_addresses_witness:
  "addr_key ` set (proto_addrs (interface_update_complete example_netifd 0
       (fold (ip_add_addr example_netifd 0) [example_addr 2, example_addr 3]
         (interface_update_start 0 False example_addr_world))) 0) =
     {addr_key (example_addr 2), addr_key (example_addr 3), addr_key (example_addr 4)}"
proof -
  have w: "proto_addrs example_addr_world 0 = [example_addr 1, example_addr 2, (example_addr 4)\<lparr>ad_version := -1\<rparr>]"
    "addr_version example_addr_world 0 = 1"
    by (simp_all add: example_addr_world_def upd_if_def example_world_def example_interface_def zero_interface_def
        zero_ip_settings_def)
  have "addr_key ` set (proto_addrs (interface_update_complete example_netifd 0
       (fold (ip_add_addr example_netifd 0) [example_addr 2, example_addr 3]
         (interface_update_start 0 False example_addr_world))) 0) =
     (if False \<and> addr_version example_addr_world 0 = -1 then {}
      else addr_key ` set [example_addr 2, example_addr 3] \<union>
        addr_key ` {a \<in> set (proto_addrs example_addr_world 0). ad_version a = -1 \<or>
           False \<and> ad_version a = addr_version example_addr_world 0})"
    by (rule update_replaces_addresses) (auto simp: w example_addr_def)
  moreover have "{a \<in> set (proto_addrs example_addr_world 0). ad_version a = -1} = {(example_addr 4)\<lparr>ad_version := -1\<rparr>}"
    by (auto simp: w example_addr_def)
  moreover have "addr_key ((example_addr 4)\<lparr>ad_version := -1\<rparr>) = addr_key (example_addr 4)"
    by (simp add: addr_key_def)
  ultimately show ?thesis by auto
qed

section \<open>A changed configuration\<close>

text \<open>
  The settings for the assignment of prefixes that are in force: the fixed part of the address counts
  only if it is used.
\<close>

definition assignment_in_force ::
  "interface \<Rightarrow> int \<times> nat \<times> interface_id_selection_type \<times> int \<times> if_addr option \<times> string list" where
  "assignment_in_force f =
     (if_assignment_hint f, if_assignment_length f, if_assignment_iface_id_selection f, if_assignment_weight f,
      if if_assignment_iface_id_selection f = IFID_FIXED then Some (if_assignment_fixed_iface_id f) else None,
      if_assignment_classes f)"

lemma merge_classes_same: "merge_classes b old new = (False, []) \<Longrightarrow> \<not> b \<and> old = new"
  by (induction b old new rule: merge_classes.induct) (auto split: if_splits)

lemma merge_classes_refl: "merge_classes False cs cs = (False, [])"
  by (induction cs) simp_all

text \<open>C34: a changed configuration takes over the settings for the assignment of prefixes. After the merge
the settings of the new configuration are in force on the interface, and the assignments are made again
exactly if the settings that were in force differ.\<close>

theorem merge_assignment_takes_over:
  assumes "merge_assignment if_old if_new = (changed, merged)"
  shows "assignment_in_force merged = assignment_in_force if_new \<and>
    (changed \<longleftrightarrow> assignment_in_force if_old \<noteq> assignment_in_force if_new)"
proof -
  obtain c rest where m: "merge_classes (assignment_differs if_old if_new) (if_assignment_classes if_old)
      (if_assignment_classes if_new) = (c, rest)"
    by fastforce
  have ch: "changed \<longleftrightarrow> c \<or> rest \<noteq> []" using assms m by (auto simp: merge_assignment_def)
  have "\<not> changed \<longleftrightarrow> \<not> assignment_differs if_old if_new \<and> if_assignment_classes if_old = if_assignment_classes if_new"
    using m ch merge_classes_same [of "assignment_differs if_old if_new"] merge_classes_refl
    by (cases c; cases rest) fastforce+
  moreover have "\<not> assignment_differs if_old if_new \<and> if_assignment_classes if_old = if_assignment_classes if_new \<longleftrightarrow>
      assignment_in_force if_old = assignment_in_force if_new"
    by (auto simp: assignment_differs_def assignment_in_force_def)
  ultimately have iff: "changed \<longleftrightarrow> assignment_in_force if_old \<noteq> assignment_in_force if_new" by blast
  have "assignment_in_force merged = assignment_in_force if_new"
  proof (cases changed)
    case True
    then show ?thesis using assms by (auto simp: merge_assignment_def split_beta Let_def assignment_in_force_def)
  next
    case False
    with iff have "assignment_in_force if_old = assignment_in_force if_new" by simp
    with False show ?thesis
      using assms by (auto simp: merge_assignment_def split_beta Let_def assignment_in_force_def)
  qed
  with iff show ?thesis by blast
qed

theorem merge_assignment_takes_over_witness:
  "\<exists>merged. merge_assignment example_interface (example_interface\<lparr>if_assignment_length := 62, if_assignment_classes := [''wan6'']\<rparr>) =
      (True, merged) \<and> assignment_in_force merged =
      assignment_in_force (example_interface\<lparr>if_assignment_length := 62, if_assignment_classes := [''wan6'']\<rparr>)"
proof -
  let ?new = "example_interface\<lparr>if_assignment_length := 62, if_assignment_classes := [''wan6'']\<rparr>"
  obtain c merged where m: "merge_assignment example_interface ?new = (c, merged)" by fastforce
  moreover have "assignment_in_force example_interface \<noteq> assignment_in_force ?new"
    by (simp add: assignment_in_force_def example_interface_def zero_interface_def)
  ultimately show ?thesis using merge_assignment_takes_over [OF m] by auto
qed

end
