(* ===== verification/Claims.thy ===== *)
theory Claims
  imports Example
begin

text \<open>
  Claims of a device are counted. Events that concern nobody's state leave the world as it is
  (\<open>broadcast_passive\<close>), which makes bringing up a simple device a fixed sequence of kernel
  requests. A device that no interface has as its main device, the lower device of others for
  example, is then up in the kernel exactly while somebody claims it.
\<close>

section \<open>Reading the stores\<close>

lemma store_simps [simp]:
  "w_devs (upd_if i g w) = w_devs w" "w_ifs (upd_dev d f w) = w_ifs w"
  "w_log (upd_if i g w) = w_log w" "w_log (upd_dev d f w) = w_log w"
  "w_devs (klog_do q w) = w_devs w" "w_ifs (klog_do q w) = w_ifs w" "w_log (klog_do q w) = w_log w @ [q]"
  "w_devs (emit x w) = w_devs w" "w_ifs (emit x w) = w_ifs w" "w_log (emit x w) = w_log w"
  by (simp_all add: upd_if_def upd_dev_def klog_do_def emit_def kdo_def)

lemma type_store_simps [simp]:
  "w_devs (upd_vlan d f1 w) = w_devs w" "w_devs (upd_vlandev d f2 w) = w_devs w"
  "w_devs (upd_macvlan d f3 w) = w_devs w" "w_devs (upd_veth d f4 w) = w_devs w"
  "w_devs (upd_alias d f5 w) = w_devs w" "w_devs (upd_bridge d f6 w) = w_devs w"
  "w_devs (upd_member m f7 w) = w_devs w"
  "w_log (upd_vlan d f1 w) = w_log w" "w_log (upd_vlandev d f2 w) = w_log w"
  "w_log (upd_macvlan d f3 w) = w_log w" "w_log (upd_veth d f4 w) = w_log w"
  "w_log (upd_alias d f5 w) = w_log w" "w_log (upd_bridge d f6 w) = w_log w"
  "w_log (upd_member m f7 w) = w_log w"
  by (simp_all add: upd_type_defs)

lemma w_devs_upd_dev: "w_devs (upd_dev d f w) = (w_devs w)(d := f (w_devs w d))"
  by (simp add: upd_dev_def)

lemma w_ifs_upd_if: "w_ifs (upd_if i g w) = (w_ifs w)(i := g (w_ifs w i))"
  by (simp add: upd_if_def)

lemma get_user_upd_user: "get_user (upd_user u f w) v = (if v = u then f (get_user w u) else get_user w v)"
  by (cases u; cases v) (auto simp: upd_dev_def upd_if_def upd_type_defs)

lemma get_user_upd_dev:
  "(\<And>x. dv_parent (f x) = dv_parent x) \<Longrightarrow> get_user (upd_dev d f w) v = get_user w v"
  by (cases v) (auto simp: upd_dev_def)

lemma get_user_klog_do [simp]: "get_user (klog_do q w) v = get_user w v"
  by (cases v) (auto simp: klog_do_def)

lemma upd_dev_same: "f (w_devs w d) = w_devs w d \<Longrightarrow> upd_dev d f w = w"
  by (simp add: upd_dev_def)

section \<open>Passive events and users\<close>

text \<open>Alias devices pass every event on; the other users leave most of them alone.\<close>

fun passive_event :: "device_event \<Rightarrow> bool" where
  "passive_event DEV_EVENT_SETUP = True"
| "passive_event DEV_EVENT_TEARDOWN = True"
| "passive_event DEV_EVENT_UPDATE_IFINDEX = True"
| "passive_event _ = False"

fun passive_for :: "device_event \<Rightarrow> uid \<Rightarrow> bool" where
  "passive_for ev (UMain i) \<longleftrightarrow> passive_event ev"
| "passive_for ev (UL3 i) \<longleftrightarrow> ev \<noteq> DEV_EVENT_LINK_DOWN"
| "passive_for ev (UExt i) \<longleftrightarrow> ev \<noteq> DEV_EVENT_REMOVE"
| "passive_for ev (UVlan d) \<longleftrightarrow> ev \<notin> {DEV_EVENT_ADD, DEV_EVENT_REMOVE, DEV_EVENT_UPDATE_IFNAME, DEV_EVENT_TOPO_CHANGE}"
| "passive_for ev (UVlandev d) \<longleftrightarrow> ev \<notin> {DEV_EVENT_ADD, DEV_EVENT_REMOVE, DEV_EVENT_UPDATE_IFNAME}"
| "passive_for ev (UMacvlan d) \<longleftrightarrow> ev \<notin> {DEV_EVENT_ADD, DEV_EVENT_REMOVE}"
| "passive_for ev (UMember m) \<longleftrightarrow>
     ev \<notin> {DEV_EVENT_ADD, DEV_EVENT_REMOVE, DEV_EVENT_AUTH_UP, DEV_EVENT_LINK_UP, DEV_EVENT_LINK_DOWN}"
| "passive_for ev (UAlias d) \<longleftrightarrow> False"
| "passive_for ev (UParent d) \<longleftrightarrow> True"
| "passive_for ev (UAliasNew d) \<longleftrightarrow> True"

lemma run_passive: "passive_for ev u \<Longrightarrow> run E (Suc n) (CUser u ev) w = Some (0, w)"
  by (cases u; cases ev)
    (simp_all add: interface_main_dev_cb_def interface_l3_dev_cb_def interface_ext_dev_cb_def vlan_dev_cb_def
      vlandev_base_cb_def macvlan_base_cb_def bridge_member_cb_def Let_def)

lemma broadcast_loop_passive:
  "(\<And>u. u \<in> set us \<Longrightarrow> passive_for ev u) \<Longrightarrow> broadcast_loop (run E (Suc n)) d alias ev us w = Some w"
  by (induction us) (simp_all add: call_void_def run_passive del: run.simps)

definition passive_users :: "world_env \<Rightarrow> device_event \<Rightarrow> device \<Rightarrow> bool" where
  "passive_users E ev dev \<longleftrightarrow>
     (\<forall>u \<in> set (we_visit E (dv_users dev)) \<union> set (we_visit E (dv_aliases dev)). passive_for ev u)"

lemma broadcast_passive:
  "passive_users E ev (w_devs w d) \<Longrightarrow> device_broadcast_event E (run E (Suc n)) d ev w = Some w"
  by (simp add: device_broadcast_event_def broadcast_loop_passive passive_users_def del: run.simps)

text \<open>No alias device follows the device.\<close>

definition no_alias_devices :: "world_env \<Rightarrow> device \<Rightarrow> bool" where
  "no_alias_devices E dev \<longleftrightarrow>
     (\<forall>u \<in> set (we_visit E (dv_users dev)) \<union> set (we_visit E (dv_aliases dev)). \<forall>a. u \<noteq> UAlias a)"

lemma passive_event_for: "passive_event ev \<Longrightarrow> (\<forall>a. u \<noteq> UAlias a) \<Longrightarrow> passive_for ev u"
  by (cases u; cases ev) simp_all

lemma passive_event_users: "passive_event ev \<Longrightarrow> no_alias_devices E dev \<Longrightarrow> passive_users E ev dev"
  by (auto simp: passive_users_def no_alias_devices_def intro: passive_event_for)

lemma set_ifindex_eq:
  "no_alias_devices E (w_devs w d) \<Longrightarrow>
   device_set_ifindex E (run E (Suc n)) d k w = Some (upd_dev d (\<lambda>x. x\<lparr>dv_ifindex := k\<rparr>) w)"
proof (cases "dv_ifindex (w_devs w d) = k")
  case True
  then have "upd_dev d (\<lambda>x. x\<lparr>dv_ifindex := k\<rparr>) w = w" by (intro upd_dev_same) auto
  with True show ?thesis by (simp add: device_set_ifindex_def)
qed (simp add: device_set_ifindex_def broadcast_passive passive_event_users w_devs_upd_dev no_alias_devices_def
    del: run.simps)

section \<open>The state of a simple device in the kernel\<close>

text \<open>A simple device that the kernel knows, that lies on no other device and that no alias device stands for.\<close>

definition plain_device :: "world_env \<Rightarrow> did \<Rightarrow> device \<Rightarrow> bool" where
  "plain_device E d dev \<longleftrightarrow> dv_set_state dev = Some StateSimple \<and> \<not> dv_external dev
     \<and> du_dev (dv_parent dev) = None \<and> no_alias_devices E dev
     \<and> (\<forall>log. we_if_parent E d log = None) \<and> (\<forall>log. we_if_resolve E d log \<noteq> 0)"

definition up_log :: "did \<Rightarrow> device_settings \<Rightarrow> klog" where
  "up_log d s = [KIfResolve d, KIfGetSettings d, KIfApplySettings d s (ds_flags s), KIfUp d]"

definition down_log :: "did \<Rightarrow> device_settings \<Rightarrow> klog" where
  "down_log d s = [KIfDown d, KIfApplySettings d s (ds_flags s)]"

lemma set_state_down:
  assumes "plain_device E d (w_devs w d)"
  shows "run E (Suc n) (CSetState d False) w = Some (0, w\<lparr>w_log := w_log w @ down_log d (dv_orig_settings (w_devs w d))\<rparr>)"
  using assms
  by (simp add: device_set_state_cb_def plain_device_def simple_device_set_state_def set_device_state_def
      Let_def down_log_def klog_do_def kdo_def)

definition brought_up :: "world_env \<Rightarrow> did \<Rightarrow> world \<Rightarrow> world" where
  "brought_up E d w =
     (let s = dv_settings (w_devs w d);
          orig = we_if_get_settings E d (w_log w @ [KIfResolve d])
      in (upd_dev d (\<lambda>x. x\<lparr>dv_ifindex := we_if_resolve E d (w_log w),
                            dv_orig_settings := keep_orig_settings s orig\<rparr>) w)
         \<lparr>w_log := w_log w @ up_log d s\<rparr>)"

lemma set_state_up:
  assumes "plain_device E d (w_devs w d)"
  shows "run E (Suc (Suc n)) (CSetState d True) w = Some (0, brought_up E d w)"
proof -
  have parent: "simple_device_set_state E rec d True w = set_device_state E rec d True w" for rec
    using assms by (simp add: plain_device_def simple_device_set_state_def system_if_get_parent_def)
  have "set_device_state E (run E (Suc n)) d True w = Some (0, brought_up E d w)"
    using assms
    by (simp add: set_device_state_def set_ifindex_eq w_devs_upd_dev plain_device_def brought_up_def Let_def
        up_log_def klog_do_def kdo_def upd_dev_def keep_orig_settings_def del: run.simps)
  then show ?thesis
    using assms parent [of "run E (Suc n)"]
    by (simp only: run.simps(2) [of E "Suc n"] dispatch.simps device_set_state_cb_def plain_device_def)
      simp
qed

section \<open>Claims by users that do not react\<close>

text \<open>A simple device that lies on no other device and that no alias device stands for. It may be
external, and the kernel need not know it.\<close>

definition lone_device :: "world_env \<Rightarrow> did \<Rightarrow> device \<Rightarrow> bool" where
  "lone_device E d dev \<longleftrightarrow> dv_set_state dev = Some StateSimple \<and> du_dev (dv_parent dev) = None
     \<and> no_alias_devices E dev \<and> (\<forall>log. we_if_parent E d log = None)"

text \<open>Whether the kernel knows the device when it is asked next.\<close>

definition found :: "world_env \<Rightarrow> did \<Rightarrow> world \<Rightarrow> bool" where
  "found E d w \<longleftrightarrow> we_if_resolve E d (w_log w) \<noteq> 0"

datatype claim_op = Claim uid | Release uid

fun op_user :: "claim_op \<Rightarrow> uid" where
  "op_user (Claim u) = u"
| "op_user (Release u) = u"

definition claim_step :: "world_env \<Rightarrow> nat \<Rightarrow> claim_op \<Rightarrow> world \<Rightarrow> (int \<times> world) option" where
  "claim_step E n x w =
     (case x of Claim u \<Rightarrow> device_claim E (run E n) u w
              | Release u \<Rightarrow> map_option (Pair 0) (device_release E (run E n) u w))"

text \<open>A sequence of claims and releases. For each of them it is noted whether the kernel knew the
device \<open>d\<close> before it and what it returned.\<close>

fun claim_steps ::
  "world_env \<Rightarrow> nat \<Rightarrow> did \<Rightarrow> claim_op list \<Rightarrow> world \<Rightarrow> ((bool \<times> int) list \<times> world) option" where
  "claim_steps E n d [] w = Some ([], w)"
| "claim_steps E n d (x # xs) w =
     Option.bind (claim_step E n x w) (\<lambda>(ret, w').
       map_option (\<lambda>(tr, w''). ((found E d w, ret) # tr, w'')) (claim_steps E n d xs w'))"

text \<open>The reference: the set of users that hold a claim. The first claim fails, and changes
nothing, when the kernel does not know the device.\<close>

fun claim_spec :: "bool \<Rightarrow> claim_op \<Rightarrow> uid set \<Rightarrow> int \<times> uid set" where
  "claim_spec known (Claim u) C = (if C = {} \<and> \<not> known then (-1, C) else (0, insert u C))"
| "claim_spec known (Release u) C = (0, C - {u})"

fun follows_spec :: "claim_op list \<Rightarrow> (bool \<times> int) list \<Rightarrow> uid set \<Rightarrow> uid set \<Rightarrow> bool" where
  "follows_spec [] [] C C' \<longleftrightarrow> C' = C"
| "follows_spec (x # xs) ((known, ret) # tr) C C' \<longleftrightarrow>
     ret = fst (claim_spec known x C) \<and> follows_spec xs tr (snd (claim_spec known x C)) C'"
| "follows_spec _ _ _ _ \<longleftrightarrow> False"

definition holders :: "uid set \<Rightarrow> world \<Rightarrow> uid set" where
  "holders U w = {u \<in> U. du_claimed (get_user w u)}"

text \<open>The requests that switch the device on and off, and whether it is on after them.\<close>

definition switches :: "did \<Rightarrow> klog \<Rightarrow> klog" where
  "switches d log = filter (\<lambda>q. q = KIfUp d \<or> q = KIfDown d) log"

definition kernel_up :: "did \<Rightarrow> klog \<Rightarrow> bool" where
  "kernel_up d log = (let qs = switches d log in qs \<noteq> [] \<and> last qs = KIfUp d)"

lemma switches_append [simp]: "switches d (l @ l') = switches d l @ switches d l'"
  by (simp add: switches_def)

lemma switches_log:
  "switches d (up_log d s) = [KIfUp d]" "switches d (down_log d s) = [KIfDown d]"
  by (simp_all add: switches_def up_log_def down_log_def)

lemma kernel_up_switches: "switches d l' = switches d l \<Longrightarrow> kernel_up d l' = kernel_up d l"
  by (simp add: kernel_up_def)

definition counted :: "world_env \<Rightarrow> did \<Rightarrow> uid set \<Rightarrow> world \<Rightarrow> bool" where
  "counted E d U w \<longleftrightarrow> finite U \<and> (\<forall>u \<in> U. du_dev (get_user w u) = Some d)
     \<and> lone_device E d (w_devs w d)
     \<and> passive_users E DEV_EVENT_UP (w_devs w d) \<and> passive_users E DEV_EVENT_DOWN (w_devs w d)
     \<and> dv_active (w_devs w d) = int (card (holders U w))
     \<and> (dv_external (w_devs w d) \<or> (kernel_up d (w_log w) \<longleftrightarrow> holders U w \<noteq> {}))"

lemma not_own_parent: "counted E d U w \<Longrightarrow> u \<in> U \<Longrightarrow> u \<noteq> UParent d"
  by (auto simp: counted_def lone_device_def)

lemma dev_upd_user: "u \<noteq> UParent d \<Longrightarrow> w_devs (upd_user u f w) d = w_devs w d"
  by (cases u) (auto simp: w_devs_upd_dev)

lemma log_upd_user [simp]: "w_log (upd_user u f w) = w_log w"
  by (cases u) auto

text \<open>The part of a device that the invariant reads.\<close>

definition claim_view :: "device \<Rightarrow> _" where
  "claim_view x = (dv_set_state x, dv_external x, dv_parent x, dv_users x, dv_aliases x)"

lemma counted_cong:
  assumes "counted E d U w" and "claim_view (w_devs w' d) = claim_view (w_devs w d)"
    and "\<And>u. u \<in> U \<Longrightarrow> du_dev (get_user w' u) = Some d"
    and "dv_active (w_devs w' d) = int (card (holders U w'))"
    and "dv_external (w_devs w d) \<or> (kernel_up d (w_log w') \<longleftrightarrow> holders U w' \<noteq> {})"
  shows "counted E d U w'"
  using assms
  by (simp add: counted_def claim_view_def lone_device_def passive_users_def no_alias_devices_def)

definition marked :: "uid \<Rightarrow> bool \<Rightarrow> did \<Rightarrow> int \<Rightarrow> world \<Rightarrow> world" where
  "marked u b d k w =
     upd_dev d (\<lambda>x. x\<lparr>dv_active := dv_active x + k\<rparr>) (upd_user u (\<lambda>x. x\<lparr>du_claimed := b\<rparr>) w)"

lemma marked_release:
  "upd_dev d (\<lambda>x. x\<lparr>dv_active := dv_active x - 1\<rparr>) (upd_user u (\<lambda>x. x\<lparr>du_claimed := False\<rparr>) w)
     = marked u False d (-1) w"
  by (simp add: marked_def)

lemma get_user_marked:
  "get_user (marked u b d k w) v =
     (if v = u then (get_user w u)\<lparr>du_claimed := b\<rparr> else get_user w v)"
  by (simp add: marked_def get_user_upd_dev get_user_upd_user)

lemma log_marked [simp]: "w_log (marked u b d k w) = w_log w"
  by (simp add: marked_def)

lemma holders_marked:
  "u \<in> U \<Longrightarrow> holders U (marked u b d k w) = (if b then insert u (holders U w) else holders U w - {u})"
  by (auto simp: holders_def get_user_marked)

lemma marked_dev:
  "u \<noteq> UParent d \<Longrightarrow> w_devs (marked u b d k w) d = (w_devs w d)\<lparr>dv_active := dv_active (w_devs w d) + k\<rparr>"
  by (simp add: marked_def w_devs_upd_dev dev_upd_user)

lemma claim_view_active [simp]: "claim_view (x\<lparr>dv_active := k\<rparr>) = claim_view x"
  by (simp add: claim_view_def)

lemma counted_view:
  assumes "counted E d U w" and "claim_view dev = claim_view (w_devs w d)"
  shows "lone_device E d dev" "passive_users E DEV_EVENT_UP dev" "passive_users E DEV_EVENT_DOWN dev"
  using assms by (simp_all add: counted_def claim_view_def lone_device_def passive_users_def no_alias_devices_def)

lemma counted_marked:
  assumes "counted E d U w" and "u \<noteq> UParent d"
  shows "no_alias_devices E (w_devs (marked u b d k w) d)"
  using counted_view(1) [OF assms(1), of "w_devs (marked u b d k w) d"] marked_dev [OF assms(2)]
  by (simp add: lone_device_def)

lemma get_user_log [simp]: "get_user (w\<lparr>w_log := l\<rparr>) v = get_user w v"
  by (cases v) auto

section \<open>The first claim and the last release\<close>

definition first_claim :: "world_env \<Rightarrow> uid \<Rightarrow> did \<Rightarrow> world \<Rightarrow> world" where
  "first_claim E u d w = brought_up E d (device_fill_default_settings E d (marked u True d 1 w))"

text \<open>Asking the kernel for the device and, unless it is external, switching it on.\<close>

definition resolved :: "world_env \<Rightarrow> did \<Rightarrow> world \<Rightarrow> world" where
  "resolved E d w =
     upd_dev d (\<lambda>x. x\<lparr>dv_ifindex := we_if_resolve E d (w_log w)\<rparr>) (klog_do (KIfResolve d) w)"

definition switched_on :: "world_env \<Rightarrow> did \<Rightarrow> world \<Rightarrow> int \<times> world" where
  "switched_on E d w =
     (if dv_external (w_devs w d)
      then (if found E d w then 0 else -1,
            upd_dev d (\<lambda>x. x\<lparr>dv_orig_settings := we_if_get_settings E d (w_log (resolved E d w))\<rparr>)
              (klog_do (KIfGetSettings d) (resolved E d w)))
      else if found E d w then (0, brought_up E d w) else (-1, resolved E d w))"

lemma claim_external_eq:
  assumes "lone_device E d (w_devs w d)" "dv_external (w_devs w d)"
  shows "claim_external E (run E (Suc n)) d w = Some (switched_on E d w)"
  using assms
  by (simp add: claim_external_def set_ifindex_eq lone_device_def switched_on_def resolved_def found_def
      w_devs_upd_dev Let_def del: run.simps)

lemma lone_set_state:
  assumes "lone_device E d (w_devs w d)" "\<not> dv_external (w_devs w d)"
  shows "run E (Suc (Suc n)) (CSetState d True) w = Some (switched_on E d w)"
proof -
  have parent: "simple_device_set_state E rec d True w = set_device_state E rec d True w" for rec
    using assms by (simp add: lone_device_def simple_device_set_state_def system_if_get_parent_def)
  have "set_device_state E (run E (Suc n)) d True w = Some (switched_on E d w)"
    using assms
    by (simp add: set_device_state_def set_ifindex_eq w_devs_upd_dev lone_device_def switched_on_def resolved_def
        found_def brought_up_def Let_def up_log_def klog_do_def kdo_def upd_dev_def keep_orig_settings_def
        del: run.simps)
  then show ?thesis
    using assms parent [of "run E (Suc n)"]
    by (simp only: run.simps(2) [of E "Suc n"] dispatch.simps device_set_state_cb_def lone_device_def)
      simp
qed

lemma switched_on_view:
  "fst (switched_on E d w) = (if found E d w then 0 else -1)"
  "claim_view (w_devs (snd (switched_on E d w)) d) = claim_view (w_devs w d)"
  "dv_active (w_devs (snd (switched_on E d w)) d) = dv_active (w_devs w d)"
  "get_user (snd (switched_on E d w)) v = get_user w v"
  "switches d (w_log (snd (switched_on E d w))) =
     switches d (w_log w) @ (if found E d w \<and> \<not> dv_external (w_devs w d) then [KIfUp d] else [])"
  by (simp_all add: switched_on_def resolved_def brought_up_def Let_def claim_view_def w_devs_upd_dev
      get_user_upd_dev switches_log) (simp_all add: switches_def)

text \<open>The first claim as a whole: when it fails, the claim is taken back.\<close>

definition tried_claim :: "world_env \<Rightarrow> uid \<Rightarrow> did \<Rightarrow> world \<Rightarrow> int \<times> world" where
  "tried_claim E u d w =
     (let (ret, w) = switched_on E d (device_fill_default_settings E d (marked u True d 1 w))
      in if ret = 0 then (0, w)
         else (ret, upd_user u (\<lambda>x. x\<lparr>du_claimed := False\<rparr>) (upd_dev d (\<lambda>x. x\<lparr>dv_active := 0\<rparr>) w)))"

lemma tried_claim_view:
  assumes "u \<noteq> UParent d"
  shows "fst (tried_claim E u d w) = (if found E d w then 0 else -1)"
    "claim_view (w_devs (snd (tried_claim E u d w)) d) = claim_view (w_devs w d)"
    "dv_active (w_devs (snd (tried_claim E u d w)) d) = (if found E d w then dv_active (w_devs w d) + 1 else 0)"
    "get_user (snd (tried_claim E u d w)) v = get_user (marked u (found E d w) d 1 w) v"
    "switches d (w_log (snd (tried_claim E u d w))) =
       switches d (w_log w) @ (if found E d w \<and> \<not> dv_external (w_devs w d) then [KIfUp d] else [])"
proof -
  let ?w = "device_fill_default_settings E d (marked u True d 1 w)"
  have f: "found E d ?w = found E d w" "w_log ?w = w_log w"
    by (simp_all add: found_def device_fill_default_settings_def)
  have v: "claim_view (w_devs ?w d) = claim_view (w_devs w d)" "dv_external (w_devs ?w d) = dv_external (w_devs w d)"
    "dv_active (w_devs ?w d) = dv_active (w_devs w d) + 1" "get_user ?w v = get_user (marked u True d 1 w) v" for v
    using marked_dev [OF assms]
    by (simp_all add: device_fill_default_settings_def w_devs_upd_dev claim_view_def get_user_upd_dev)
  note s = switched_on_view [where E = E and d = d and w = ?w, unfolded f v]
  show "fst (tried_claim E u d w) = (if found E d w then 0 else -1)"
    "claim_view (w_devs (snd (tried_claim E u d w)) d) = claim_view (w_devs w d)"
    "dv_active (w_devs (snd (tried_claim E u d w)) d) = (if found E d w then dv_active (w_devs w d) + 1 else 0)"
    "get_user (snd (tried_claim E u d w)) v = get_user (marked u (found E d w) d 1 w) v"
    "switches d (w_log (snd (tried_claim E u d w))) =
       switches d (w_log w) @ (if found E d w \<and> \<not> dv_external (w_devs w d) then [KIfUp d] else [])"
    using s
    by (simp_all add: tried_claim_def split_beta Let_def dev_upd_user [OF assms] w_devs_upd_dev
        get_user_upd_user get_user_upd_dev get_user_marked)
qed

definition last_release :: "uid \<Rightarrow> did \<Rightarrow> world \<Rightarrow> world" where
  "last_release u d w =
     (let w = marked u False d (-1) w
      in if dv_external (w_devs w d) then w
         else w\<lparr>w_log := w_log w @ down_log d (dv_orig_settings (w_devs w d))\<rparr>)"

lemma first_claim_view:
  assumes "u \<noteq> UParent d"
  shows "claim_view (w_devs (first_claim E u d w) d) = claim_view (w_devs w d)"
    "dv_active (w_devs (first_claim E u d w) d) = dv_active (w_devs w d) + 1"
  using marked_dev [OF assms]
  by (simp_all add: first_claim_def brought_up_def device_fill_default_settings_def Let_def claim_view_def
      w_devs_upd_dev)

lemma first_claim_eq:
  assumes "counted E d U w" "u \<in> U" "\<not> du_claimed (get_user w u)" "holders U w = {}"
  shows "device_claim E (run E (Suc (Suc n))) u w = Some (tried_claim E u d w)"
proof -
  have u: "u \<noteq> UParent d" and dev: "du_dev (get_user w u) = Some d" and act: "dv_active (w_devs w d) = 0"
    using assms not_own_parent [OF assms(1,2)] by (auto simp: counted_def)
  let ?w1 = "marked u True d 1 w"
  let ?w2 = "device_fill_default_settings E d ?w1"
  have v2: "claim_view (w_devs ?w2 d) = claim_view (w_devs w d)"
    using marked_dev [OF u]
    by (simp add: device_fill_default_settings_def w_devs_upd_dev claim_view_def)
  note p2 = counted_view [OF assms(1) v2]
  obtain r w3 where w3: "switched_on E d ?w2 = (r, w3)" by (cases "switched_on E d ?w2")
  have v3: "claim_view (w_devs w3 d) = claim_view (w_devs w d)"
    using switched_on_view(2) [of E d ?w2] v2 w3 by simp
  have on: "(if dv_external (w_devs ?w2 d) then claim_external E (run E (Suc (Suc n))) d ?w2
             else run E (Suc (Suc n)) (CSetState d True) ?w2) = Some (r, w3)"
    using claim_external_eq [OF p2(1)] lone_set_state [OF p2(1)] w3 by simp
  have at_setup: "device_broadcast_event E (run E (Suc (Suc n))) d DEV_EVENT_SETUP ?w1 = Some ?w1"
    by (intro broadcast_passive passive_event_users counted_marked [OF assms(1) u]) simp
  have "device_broadcast_event E (run E (Suc (Suc n))) d DEV_EVENT_UP w3 = Some w3"
    by (intro broadcast_passive counted_view [OF assms(1) v3])
  then show ?thesis
    using assms(3) dev act marked_dev [OF u, of True 1 w] at_setup on
    by (simp add: device_claim_def Let_def marked_def [symmetric] tried_claim_def w3 del: run.simps)
qed

lemma lone_set_state_down:
  assumes "lone_device E d (w_devs w d)"
  shows "run E (Suc n) (CSetState d False) w = Some (0, w\<lparr>w_log := w_log w @ down_log d (dv_orig_settings (w_devs w d))\<rparr>)"
  using assms
  by (simp add: device_set_state_cb_def lone_device_def simple_device_set_state_def set_device_state_def
      Let_def down_log_def klog_do_def kdo_def)

lemma last_release_eq:
  assumes "counted E d U w" "u \<in> U" "du_claimed (get_user w u)" "holders U w = {u}"
  shows "device_release E (run E (Suc (Suc n))) u w = Some (last_release u d w)"
proof -
  have u: "u \<noteq> UParent d" and dev: "du_dev (get_user w u) = Some d" and act: "dv_active (w_devs w d) = 1"
    using assms not_own_parent [OF assms(1,2)] by (auto simp: counted_def)
  let ?w1 = "marked u False d (-1) w"
  have v1: "claim_view (w_devs ?w1 d) = claim_view (w_devs w d)"
    "claim_view (w_devs (last_release u d w) d) = claim_view (w_devs w d)"
    "dv_active (w_devs (last_release u d w) d) = 0"
    using marked_dev [OF u] act by (simp_all add: last_release_def Let_def)
  note p1 = counted_view [OF assms(1) v1(1)]
  have off: "(if dv_external (w_devs ?w1 d) then Some ?w1
              else call_void (run E (Suc (Suc n))) (CSetState d False) ?w1) = Some (last_release u d w)"
    using lone_set_state_down [OF p1(1), of "Suc n"]
    by (simp add: call_void_def last_release_def Let_def del: run.simps)
  have "device_broadcast_event E (run E (Suc (Suc n))) d DEV_EVENT_TEARDOWN ?w1 = Some ?w1"
    by (intro broadcast_passive passive_event_users counted_marked [OF assms(1) u]) simp
  moreover have "device_broadcast_event E (run E (Suc (Suc n))) d DEV_EVENT_DOWN (last_release u d w)
      = Some (last_release u d w)"
    by (intro broadcast_passive counted_view [OF assms(1) v1(2)])
  ultimately show ?thesis
    using assms(3) dev act marked_dev [OF u, of False "-1" w] off v1(3)
    by (simp add: device_release_def Let_def marked_release del: run.simps)
qed

section \<open>One step\<close>

text \<open>What a step keeps: the invariant, and of an external device the requests that switch it.\<close>

definition step_ok :: "world_env \<Rightarrow> did \<Rightarrow> uid set \<Rightarrow> world \<Rightarrow> world \<Rightarrow> bool" where
  "step_ok E d U w w' \<longleftrightarrow> counted E d U w' \<and> dv_external (w_devs w' d) = dv_external (w_devs w d) \<and>
     (dv_external (w_devs w d) \<longrightarrow> switches d (w_log w') = switches d (w_log w))"

lemma step_okI:
  assumes "counted E d U w" and v: "claim_view (w_devs w' d) = claim_view (w_devs w d)"
    and "\<And>u. u \<in> U \<Longrightarrow> du_dev (get_user w' u) = Some d"
    and "dv_active (w_devs w' d) = int (card (holders U w'))"
    and "dv_external (w_devs w d) \<Longrightarrow> switches d (w_log w') = switches d (w_log w)"
    and "\<not> dv_external (w_devs w d) \<Longrightarrow> kernel_up d (w_log w') \<longleftrightarrow> holders U w' \<noteq> {}"
  shows "step_ok E d U w w'"
  using counted_cong [OF assms(1-4)] assms(5,6) v by (auto simp: step_ok_def claim_view_def)

lemma claim_counted:
  assumes c: "counted E d U w" and u: "u \<in> U"
  shows "\<exists>w'. device_claim E (run E (Suc (Suc n))) u w = Some (fst (claim_spec (found E d w) (Claim u) (holders U w)), w')
           \<and> step_ok E d U w w' \<and> holders U w' = snd (claim_spec (found E d w) (Claim u) (holders U w))"
proof -
  have p: "u \<noteq> UParent d" and dev: "du_dev (get_user w u) = Some d" and fin: "finite (holders U w)"
    and act: "dv_active (w_devs w d) = int (card (holders U w))"
    using c not_own_parent [OF c u] u by (auto simp: counted_def holders_def)
  consider "du_claimed (get_user w u)"
    | "\<not> du_claimed (get_user w u)" "holders U w = {}"
    | "\<not> du_claimed (get_user w u)" "holders U w \<noteq> {}" by blast
  then show ?thesis
  proof cases
    case 1
    then show ?thesis using c u by (auto simp: device_claim_def Let_def holders_def step_ok_def)
  next
    case 2
    let ?w = "snd (tried_claim E u d w)"
    note v = tried_claim_view [OF p, where E = E and w = w]
    have "holders U ?w = holders U (marked u (found E d w) d 1 w)" by (simp add: holders_def v(4))
    then have h: "holders U ?w = (if found E d w then {u} else {})"
      using 2(2) holders_marked [OF u, of "found E d w" d 1 w] by simp
    have "step_ok E d U w ?w"
    proof (rule step_okI [OF c v(2)])
      show "du_dev (get_user ?w x) = Some d" if "x \<in> U" for x
        using that c dev by (auto simp: v(4) get_user_marked counted_def)
      show "dv_active (w_devs ?w d) = int (card (holders U ?w))" using act 2(2) by (simp add: v(3) h)
      show "switches d (w_log ?w) = switches d (w_log w)" if "dv_external (w_devs w d)"
        using that by (simp add: v(5))
      show "kernel_up d (w_log ?w) \<longleftrightarrow> holders U ?w \<noteq> {}" if "\<not> dv_external (w_devs w d)"
        using that c 2(2) by (cases "found E d w") (simp_all add: h kernel_up_def Let_def v(5) counted_def)
    qed
    then show ?thesis using first_claim_eq [OF c u 2, of n] h 2(2) v(1) by (cases "tried_claim E u d w") auto
  next
    case 3
    let ?w = "marked u True d 1 w"
    have "u \<notin> holders U w" using 3(1) by (simp add: holders_def)
    then have h: "holders U ?w = insert u (holders U w)" "card (holders U ?w) = card (holders U w) + 1"
      using holders_marked [OF u, of True d 1 w] fin by simp_all
    have "step_ok E d U w ?w"
      using h act c 3(2) marked_dev [OF p, of True 1 w]
      by (intro step_okI [OF c]) (auto simp: get_user_marked counted_def)
    moreover have "card (holders U w) \<noteq> 0" using 3(2) fin by simp
    then have "device_claim E (run E (Suc (Suc n))) u w = Some (0, ?w)"
      using 3(1) dev act marked_dev [OF p, of True 1 w]
      by (simp add: device_claim_def Let_def marked_def [symmetric] del: run.simps)
    ultimately show ?thesis using h(1) 3(2) by simp
  qed
qed

lemma release_counted:
  assumes c: "counted E d U w" and u: "u \<in> U"
  shows "\<exists>w'. device_release E (run E (Suc (Suc n))) u w = Some w' \<and> step_ok E d U w w' \<and>
           holders U w' = holders U w - {u}"
proof -
  have p: "u \<noteq> UParent d" and dev: "du_dev (get_user w u) = Some d" and fin: "finite (holders U w)"
    and act: "dv_active (w_devs w d) = int (card (holders U w))"
    using c not_own_parent [OF c u] u by (auto simp: counted_def holders_def)
  consider "\<not> du_claimed (get_user w u)"
    | "du_claimed (get_user w u)" "holders U w = {u}"
    | "du_claimed (get_user w u)" "holders U w \<noteq> {u}" by blast
  then show ?thesis
  proof cases
    case 1
    then have "device_release E (run E (Suc (Suc n))) u w = Some w" "holders U w - {u} = holders U w"
      by (auto simp: device_release_def Let_def holders_def)
    then show ?thesis using c by (simp add: step_ok_def)
  next
    case 2
    let ?w = "last_release u d w"
    have "holders U ?w = holders U (marked u False d (-1) w)"
      by (simp add: last_release_def Let_def holders_def)
    then have h: "holders U ?w = {}" using 2(2) holders_marked [OF u, of False d "-1" w] by simp
    have "step_ok E d U w ?w"
      using h act c 2(2) marked_dev [OF p, of False "-1" w]
      by (intro step_okI [OF c])
        (auto simp: last_release_def Let_def get_user_marked counted_def kernel_up_def switches_log)
    then show ?thesis using last_release_eq [OF c u 2] h 2(2) by simp
  next
    case 3
    let ?w = "marked u False d (-1) w"
    have in_h: "u \<in> holders U w" using 3(1) u by (simp add: holders_def)
    then have "{u} \<subset> holders U w" using 3(2) by blast
    from psubset_card_mono [OF fin this] have more: "card (holders U w) > 1" by simp
    have h: "holders U ?w = holders U w - {u}" "card (holders U ?w) = card (holders U w) - 1"
      using holders_marked [OF u, of False d "-1" w] in_h by simp_all
    have ne: "holders U ?w \<noteq> {}" using h(2) more by auto
    have "step_ok E d U w ?w"
    proof (rule step_okI [OF c])
      show "du_dev (get_user ?w v) = Some d" if "v \<in> U" for v
        using that c dev by (auto simp: get_user_marked counted_def)
      show "dv_active (w_devs ?w d) = int (card (holders U ?w))"
        using act more h(2) marked_dev [OF p, of False "-1" w] by simp
      show "kernel_up d (w_log ?w) \<longleftrightarrow> holders U ?w \<noteq> {}" if "\<not> dv_external (w_devs w d)"
        using that ne c in_h by (auto simp: counted_def)
    qed (simp_all add: marked_dev [OF p])
    moreover have "device_release E (run E (Suc (Suc n))) u w = Some ?w"
      using 3(1) dev act more marked_dev [OF p, of False "-1" w]
      by (simp add: device_release_def Let_def marked_release del: run.simps)
    ultimately show ?thesis using h(1) by blast
  qed
qed

lemma claim_step_counted:
  assumes "counted E d U w" and "op_user x \<in> U"
  shows "\<exists>w'. claim_step E (Suc (Suc n)) x w = Some (fst (claim_spec (found E d w) x (holders U w)), w') \<and>
           step_ok E d U w w' \<and> holders U w' = snd (claim_spec (found E d w) x (holders U w))"
proof (cases x)
  case (Claim u)
  then show ?thesis using claim_counted [OF assms(1), of u n] assms(2)
    by (auto simp: claim_step_def simp del: run.simps)
next
  case (Release u)
  then show ?thesis using release_counted [OF assms(1), of u n] assms(2)
    by (auto simp: claim_step_def simp del: run.simps)
qed

lemma step_ok_trans: "step_ok E d U w w' \<Longrightarrow> step_ok E d U w' w'' \<Longrightarrow> step_ok E d U w w''"
  by (simp add: step_ok_def)

lemma claim_steps_counted:
  assumes "counted E d U w" and "\<forall>x \<in> set xs. op_user x \<in> U"
  shows "\<exists>tr w'. claim_steps E (Suc (Suc n)) d xs w = Some (tr, w') \<and> step_ok E d U w w' \<and>
           follows_spec xs tr (holders U w) (holders U w')"
  using assms
proof (induction xs arbitrary: w)
  case (Cons x xs)
  from claim_step_counted [OF Cons.prems(1), of x n] Cons.prems(2)
  obtain w1 where w1: "claim_step E (Suc (Suc n)) x w = Some (fst (claim_spec (found E d w) x (holders U w)), w1)"
    "step_ok E d U w w1" "holders U w1 = snd (claim_spec (found E d w) x (holders U w))" by auto
  from Cons.IH [of w1] Cons.prems(2) w1(2)
  obtain tr w2 where "claim_steps E (Suc (Suc n)) d xs w1 = Some (tr, w2)" "step_ok E d U w1 w2"
    "follows_spec xs tr (holders U w1) (holders U w2)" by (auto simp: step_ok_def)
  then show ?case using w1 step_ok_trans [OF w1(2)] by (auto simp del: run.simps)
qed (auto simp: step_ok_def)

text \<open>C5: claims of a device are counted. For a simple device on no other device, external or not,
whose users do not react to it going up and down, any sequence of claims and releases by its users
runs through. Each claim returns what the reference \<open>claim_spec\<close> says: it fails exactly when it is
the first and the kernel does not know the device at that moment, and a claim that failed leaves
nothing behind. The users that hold a claim afterwards are those of the reference and \<open>active\<close> is
their number. A device that is not external is up in the kernel exactly while somebody holds a
claim; an external one is never switched on or off.\<close>

theorem claims_counted:
  assumes "counted E d U w" and "\<forall>x \<in> set xs. op_user x \<in> U"
  shows "\<exists>tr w'. claim_steps E (n + 2) d xs w = Some (tr, w') \<and>
           follows_spec xs tr (holders U w) (holders U w') \<and>
           dv_active (w_devs w' d) = int (card (holders U w')) \<and>
           (if dv_external (w_devs w d) then switches d (w_log w') = switches d (w_log w)
            else kernel_up d (w_log w') \<longleftrightarrow> holders U w' \<noteq> {})"
  using claim_steps_counted [OF assms, of n] by (auto simp: counted_def step_ok_def)

text \<open>A VLAN device and a bridge member on \<open>eth0\<close>, claiming and releasing it in turn.\<close>

definition lower_world :: world where
  "lower_world = example_world\<lparr>w_devs := (\<lambda>d.
     if d = 0 then example_device\<lparr>dv_users := [UVlan 1, UMember 0]\<rparr> else zero_device),
     w_vlan := (\<lambda>_. \<lparr>vl_dep = zero_device_user\<lparr>du_dev := Some 0\<rparr>, vl_id = 5\<rparr>),
     w_member := (\<lambda>_. zero_member\<lparr>bm_dev := zero_device_user\<lparr>du_dev := Some 0\<rparr>\<rparr>)\<rparr>"

lemma lower_world_free: "holders {UVlan 1, UMember 0} lower_world = {}"
  by (auto simp: holders_def lower_world_def zero_device_user_def)

text \<open>The device appears in the kernel only after it was asked for once.\<close>

definition late_kernel :: world_env where
  "late_kernel = example_netifd\<lparr>we_if_resolve := (\<lambda>d log. if KIfResolve d \<in> set log then int d + 1 else 0)\<rparr>"

lemma lower_world_counted: "counted late_kernel 0 {UVlan 1, UMember 0} lower_world"
  unfolding counted_def lower_world_free
  by (simp add: lower_world_def example_world_def example_device_def lone_device_def passive_users_def
      late_kernel_def no_alias_devices_def kernel_up_def switches_def zero_device_def zero_device_user_def)

theorem claims_counted_witness:
  "\<exists>w. claim_steps late_kernel (0 + 2) 0
         [Claim (UVlan 1), Claim (UMember 0)] lower_world
       = Some ([(False, -1), (True, 0)], w) \<and>
       holders {UVlan 1, UMember 0} w = {UMember 0} \<and> dv_active (w_devs w 0) = 1 \<and>
       kernel_up 0 (w_log w)"
proof -
  let ?xs = "[Claim (UVlan 1), Claim (UMember 0)]"
  let ?tr = "[(False, -1), (True, 0)]"
  have users: "\<forall>x \<in> set ?xs. op_user x \<in> {UVlan 1, UMember 0}" by simp
  have ext: "\<not> dv_external (w_devs lower_world 0)" by (simp add: lower_world_def example_device_def zero_device_def)
  have tr: "map_option fst (claim_steps late_kernel 2 0 ?xs lower_world) = Some ?tr" by code_simp
  from claims_counted [OF lower_world_counted users, of 0, unfolded lower_world_free] ext
  obtain t w where w: "claim_steps late_kernel (0 + 2) 0 ?xs lower_world = Some (t, w)"
    "follows_spec ?xs t {} (holders {UVlan 1, UMember 0} w)"
    "dv_active (w_devs w 0) = int (card (holders {UVlan 1, UMember 0} w))"
    "kernel_up 0 (w_log w) \<longleftrightarrow> holders {UVlan 1, UMember 0} w \<noteq> {}" by auto
  from w(1) have "claim_steps late_kernel 2 0 ?xs lower_world = Some (t, w)" by (simp only: add_0)
  with tr have t: "t = ?tr" by (simp only: option.map fst_conv option.inject)
  from w(2) have h: "holders {UVlan 1, UMember 0} w = {UMember 0}" by (simp add: t)
  have "dv_active (w_devs w 0) = 1" "kernel_up 0 (w_log w)"
    using w(3,4) unfolding h by simp_all
  then show ?thesis using w(1) h unfolding t by blast
qed

end
