(* ===== verification/BringUp.thy ===== *)
theory BringUp
  imports Claims
begin

text \<open>
  Bringing an interface up all the way: the device is claimed and comes up, the interface
  hears of it, runs its protocol and is up, with enough fuel and in a state that was not ready
  before.
\<close>

section \<open>From setup to up\<close>

text \<open>Neither an alias interface nor an alias device follows the interface.\<close>

definition no_aliases :: "ifid \<Rightarrow> world \<Rightarrow> bool" where
  "no_aliases i w \<longleftrightarrow> w_ifusers w i = [] \<and> w_allusers w = [] \<and> find_alias w (if_name (w_ifs w i)) = None"

lemma find_alias_cong: "w_alias w' = w_alias w \<Longrightarrow> w_aliases w' = w_aliases w \<Longrightarrow> find_alias w' = find_alias w"
  by (simp add: find_alias_def fun_eq_iff)

lemma find_alias_upd [simp]:
  "find_alias (upd_if j g w) = find_alias w" "find_alias (upd_dev d f w) = find_alias w"
  "find_alias (klog_do q w) = find_alias w" "find_alias (emit x w) = find_alias w"
  "find_alias (w\<lparr>w_log := l\<rparr>) = find_alias w" "find_alias (w\<lparr>w_allusers := us\<rparr>) = find_alias w"
  by (rule find_alias_cong; simp add: upd_if_def upd_dev_def klog_do_def emit_def)+

lemma error_fields [simp]:
  "if_name (interface_clear_errors x) = if_name x" "if_name (interface_data_flush x) = if_name x"
  "if_name (interface_error_flush x) = if_name x"
  by (simp_all add: interface_clear_errors_def interface_data_flush_def interface_error_flush_def)

lemma aliases_upd_if [simp]: "(\<And>x. if_name (g x) = if_name x) \<Longrightarrow> no_aliases i (upd_if j g w) = no_aliases i w"
  by (simp add: no_aliases_def w_ifs_upd_if) (simp add: upd_if_def)

lemma aliases_upd_dev [simp]: "no_aliases i (upd_dev d f w) = no_aliases i w"
  by (simp add: no_aliases_def) (simp add: upd_dev_def)

lemma aliases_upd [simp]:
  "no_aliases i (klog_do q w) = no_aliases i w" "no_aliases i (emit x w) = no_aliases i w"
  by (simp add: no_aliases_def, simp add: klog_do_def emit_def)+

lemma aliases_log [simp]: "no_aliases i (w\<lparr>w_log := l\<rparr>) = no_aliases i w"
  by (simp add: no_aliases_def)

lemma aliases_set_state [simp]: "no_aliases i (set_state j s w) = no_aliases i w"
  by (simp add: set_state_def)

lemma ip_frame_aliases: "ip_frame w w' \<Longrightarrow> no_aliases i w' = no_aliases i w"
proof -
  assume f: "ip_frame w w'"
  then have c: "ip_core (w_ifs w' i) = ip_core (w_ifs w i)" by (simp add: ip_frame_def)
  have "if_name (w_ifs w' i) = if_name (w_ifs w i)"
    using arg_cong [OF c, of if_name] by (simp add: ip_core_def)
  then show ?thesis using f find_alias_cong [of w' w] by (simp add: no_aliases_def ip_frame_def)
qed

text \<open>The world after an event that only the listeners for all interfaces hear.\<close>

definition event_told :: "ifid \<Rightarrow> interface_event \<Rightarrow> world \<Rightarrow> world" where
  "event_told i ev w =
     (let w = emit (OutNotify i ev) (emit (OutEvent i ev) w)
      in if ev = IFEV_UP then upd_if i interface_error_flush w else w)"

lemma event_no_aliases:
  assumes "no_aliases i w"
  shows "interface_event E rec i ev w = Some (event_told i ev w)"
proof -
  have "w_ifusers (emit x w) = w_ifusers w" "w_allusers (emit x w) = w_allusers w" for x
    by (simp_all add: emit_def)
  then show ?thesis
    using assms
    by (cases ev) (simp_all add: interface_event_def no_aliases_def after_event_def event_told_def Let_def
        alias_notify_device_def w_ifs_upd_if)
qed

text \<open>The first layer 3 device is registered without anything else happening.\<close>

definition l3_registered :: "world_env \<Rightarrow> ifid \<Rightarrow> did \<Rightarrow> world \<Rightarrow> world" where
  "l3_registered E i d w =
     (let e = ip_enabled (if_config_ip (w_ifs w i));
          w = list_add_user (UL3 i) d (upd_user (UL3 i) (\<lambda>x. x\<lparr>du_dev := Some d\<rparr>) (disable_ip E i w))
      in interface_ip_set_enabled E i ProtoIp e (interface_ip_set_enabled E i ConfigIp e w))"

lemma first_l3_eq:
  assumes "if_l3_dev (w_ifs w i) = zero_device_user"
  shows "interface_set_l3_dev E (run E (Suc n)) i (Some d) w = Some (l3_registered E i d w)"
proof -
  have frame: "ip_frame w (disable_ip E i w)" by (rule disable_ip_frame) simp
  then have l3: "if_l3_dev (w_ifs (disable_ip E i w) i) = zero_device_user"
    using assms ip_core_eqD(2) unfolding ip_frame_def by metis
  have l3_silent: "call_void (run E (Suc n)) (CUser (UL3 i) ev) x = Some x" if "ev \<noteq> DEV_EVENT_LINK_DOWN" for ev x
    using that by (simp add: call_void_def run_passive del: run.simps)
  show ?thesis
    using assms l3
    by (simp add: interface_set_l3_dev_def device_add_user_def device_add_user_to_def l3_silent
        zero_device_user_def l3_registered_def Let_def del: run.simps)
qed

text \<open>What is left of an interface and a device by registering the layer 3 device.\<close>

lemma l3_registered_view:
  assumes "if_l3_dev (w_ifs w i) = zero_device_user"
  shows "w_out (l3_registered E i d w) = w_out w"
    "ip_core (w_ifs (l3_registered E i d w) i) =
       ip_core ((w_ifs w i)\<lparr>if_l3_dev := zero_device_user\<lparr>du_dev := Some d\<rparr>\<rparr>)"
    "dv_active (w_devs (l3_registered E i d w) d) = dv_active (w_devs w d)"
    "dv_settings (w_devs (l3_registered E i d w) d) = dv_settings (w_devs w d)"
    "no_aliases i (l3_registered E i d w) = no_aliases i w"
proof -
  define w1 where "w1 = disable_ip E i w"
  define w2 where "w2 = list_add_user (UL3 i) d (upd_user (UL3 i) (\<lambda>x. x\<lparr>du_dev := Some d\<rparr>) w1)"
  have f1: "ip_frame w w1" unfolding w1_def by (rule disable_ip_frame) simp
  have f2: "ip_frame w2 (l3_registered E i d w)"
    unfolding l3_registered_def Let_def w1_def [symmetric] w2_def [symmetric]
    by (intro ip_set_enabled_frame ip_frame_refl)
  have c1: "ip_core (w_ifs w1 i) = ip_core (w_ifs w i)" "w_devs w1 = w_devs w" "w_out w1 = w_out w"
    "no_aliases i w1 = no_aliases i w"
    using f1 ip_frame_aliases [OF f1] by (simp_all add: ip_frame_def)
  have l3: "if_l3_dev (w_ifs w1 i) = zero_device_user" using ip_core_eqD(2) [OF c1(1)] assms by simp
  have w2: "w_ifs w2 i = (w_ifs w1 i)\<lparr>if_l3_dev := zero_device_user\<lparr>du_dev := Some d\<rparr>\<rparr>"
    "w_devs w2 d = (w_devs w d)\<lparr>dv_users := dv_users (w_devs w d) @ [UL3 i]\<rparr>"
    "w_out w2 = w_out w" "no_aliases i w2 = no_aliases i w"
    using l3 c1 by (simp_all add: w2_def list_add_user_def w_ifs_upd_if w_devs_upd_dev zero_device_user_def)
  have core: "ip_core (x\<lparr>if_l3_dev := u\<rparr>) = (ip_core x)\<lparr>if_l3_dev := u\<rparr>" for x u
    by (simp add: ip_core_def)
  show "w_out (l3_registered E i d w) = w_out w"
    "ip_core (w_ifs (l3_registered E i d w) i) =
       ip_core ((w_ifs w i)\<lparr>if_l3_dev := zero_device_user\<lparr>du_dev := Some d\<rparr>\<rparr>)"
    "dv_active (w_devs (l3_registered E i d w) d) = dv_active (w_devs w d)"
    "dv_settings (w_devs (l3_registered E i d w) d) = dv_settings (w_devs w d)"
    using f2 w2 c1(1) by (simp_all add: ip_frame_def core)
  show "no_aliases i (l3_registered E i d w) = no_aliases i w"
    using ip_frame_aliases [OF f2] w2(4) by simp
qed

text \<open>Interfaces that differ in their IP settings only, and in what going up changes.\<close>

definition up_core :: "interface \<Rightarrow> interface" where
  "up_core f = (ip_core f)\<lparr>if_errors := [], if_start_time := 0\<rparr>"

text \<open>The IP settings of an interface are switched on, and with them every address that is not external.\<close>

definition addresses_on :: "interface \<Rightarrow> bool" where
  "addresses_on f \<longleftrightarrow> (\<forall>sel. ip_enabled (get_ip sel f) \<and>
     (\<forall>a \<in> set (ip_addr (get_ip sel f)). has_flag (ad_flags a) DEVADDR_EXTERNAL \<or> ad_enabled a))"

lemma addresses_on_cong:
  "if_config_ip f = if_config_ip g \<Longrightarrow> if_proto_ip f = if_proto_ip g \<Longrightarrow> addresses_on f = addresses_on g"
proof -
  assume "if_config_ip f = if_config_ip g" "if_proto_ip f = if_proto_ip g"
  then have "get_ip sel f = get_ip sel g" for sel by (cases sel) simp_all
  then show ?thesis by (simp only: addresses_on_def)
qed

lemma set_addr_enabled_state:
  "has_flag (ad_flags (fst (set_addr_enabled S i f dev b a log))) DEVADDR_EXTERNAL \<or>
   ad_enabled (fst (set_addr_enabled S i f dev b a log)) = b"
  by (auto simp: set_addr_enabled_def Let_def split_beta)

lemma set_addrs_enabled_state:
  "a \<in> set (fst (set_addrs_enabled S i f dev b as log)) \<Longrightarrow>
   has_flag (ad_flags a) DEVADDR_EXTERNAL \<or> ad_enabled a = b"
proof (induction as arbitrary: log)
  case (Cons x as)
  then show ?case using set_addr_enabled_state [of S i f dev b x log] by (auto simp: Let_def split_beta)
qed simp

lemma set_prefixes_enabled_ifs [simp]: "w_ifs (set_prefixes_enabled E i b ps w) = w_ifs w"
  by (induction ps arbitrary: w) (simp_all add: Let_def split_beta)

lemma get_upd_ip: "get_ip sel' (upd_ip sel g f) = (if sel' = sel then g (get_ip sel f) else get_ip sel' f)"
  by (cases sel; cases sel') simp_all

lemma get_ip_rest [simp]:
  "get_ip sel (f\<lparr>if_host_routes := rs\<rparr>) = get_ip sel f"
  "get_ip sel (f\<lparr>if_policy_rules_set := b\<rparr>) = get_ip sel f"
  by (cases sel; simp)+

lemma ip_set_enabled_state:
  assumes "l3_device (w_ifs w i) = Some d"
  shows "sel' \<noteq> sel \<Longrightarrow> get_ip sel' (w_ifs (interface_ip_set_enabled E i sel b w) i) = get_ip sel' (w_ifs w i)"
    and "ip_enabled (get_ip sel (w_ifs (interface_ip_set_enabled E i sel b w) i)) = b"
    and "a \<in> set (ip_addr (get_ip sel (w_ifs (interface_ip_set_enabled E i sel b w) i))) \<Longrightarrow>
      has_flag (ad_flags a) DEVADDR_EXTERNAL \<or> ad_enabled a = b"
proof -
  have l3: "l3_device (upd_ip sel g (w_ifs w i)) = Some d" for g
    using assms by (cases sel) simp_all
  show "sel' \<noteq> sel \<Longrightarrow> get_ip sel' (w_ifs (interface_ip_set_enabled E i sel b w) i) = get_ip sel' (w_ifs w i)"
    "ip_enabled (get_ip sel (w_ifs (interface_ip_set_enabled E i sel b w) i)) = b"
    using l3 by (simp_all add: interface_ip_set_enabled_def Let_def split_beta w_ifs_upd_if get_upd_ip)
  show "a \<in> set (ip_addr (get_ip sel (w_ifs (interface_ip_set_enabled E i sel b w) i))) \<Longrightarrow>
      has_flag (ad_flags a) DEVADDR_EXTERNAL \<or> ad_enabled a = b"
    using l3
    by (simp add: interface_ip_set_enabled_def Let_def split_beta w_ifs_upd_if get_upd_ip split: if_splits)
      (metis set_addrs_enabled_state)+
qed

lemma l3_core: "ip_core f = ip_core g \<Longrightarrow> l3_device f = l3_device g"
  by (drule ip_core_eqD(2)) simp

lemma both_enabled_on:
  assumes "l3_device (w_ifs w i) = Some d"
  shows "addresses_on (w_ifs (interface_ip_set_enabled E i ProtoIp True (interface_ip_set_enabled E i ConfigIp True w)) i)"
proof -
  let ?w1 = "interface_ip_set_enabled E i ConfigIp True w"
  have "ip_frame w ?w1" by (intro ip_set_enabled_frame ip_frame_refl)
  then have l3: "l3_device (w_ifs ?w1 i) = Some d"
    using assms l3_core [of "w_ifs ?w1 i" "w_ifs w i"] by (simp add: ip_frame_def)
  note one = ip_set_enabled_state(2,3) [OF assms, where sel = ConfigIp and E = E and b = True]
  note two = ip_set_enabled_state [OF l3, where sel = ProtoIp and E = E and b = True]
  show ?thesis
    unfolding addresses_on_def
  proof (intro allI conjI ballI)
    fix sel
    show "ip_enabled (get_ip sel (w_ifs (interface_ip_set_enabled E i ProtoIp True ?w1) i))"
      using one(1) two(1) [of ConfigIp] two(2) by (cases sel) (simp_all only: ipsel.distinct simp_thms)
  next
    fix sel a
    assume "a \<in> set (ip_addr (get_ip sel (w_ifs (interface_ip_set_enabled E i ProtoIp True ?w1) i)))"
    then show "has_flag (ad_flags a) DEVADDR_EXTERNAL \<or> ad_enabled a"
      using one(2) [of a] two(1) [of ConfigIp] two(3) [of a] by (cases sel) (simp_all only: ipsel.distinct simp_thms)
  qed
qed

lemma proto_up_eq:
  assumes st: "if_state (w_ifs w i) = IFS_SETUP" and l3: "if_l3_dev (w_ifs w i) = zero_device_user"
    and main: "du_dev (if_main_dev (w_ifs w i)) = Some d" and al: "no_aliases i w"
  obtains w' where "interface_proto_event_cb E (run E (Suc n)) i IFPEV_UP w = Some w'"
    "w_out w' = w_out w @ [OutEvent i IFEV_UP, OutNotify i IFEV_UP, OutResolvConf (if_jail (w_ifs w i))]"
    "up_core (w_ifs w' i) = up_core ((w_ifs w i)\<lparr>if_state := IFS_UP,
       if_l3_dev := zero_device_user\<lparr>du_dev := Some d\<rparr>\<rparr>)"
    "dv_active (w_devs w' d) = dv_active (w_devs w d)"
    "dv_settings (w_devs w' d) = dv_settings (w_devs w d)" "addresses_on (w_ifs w' i)"
proof -
  let ?w1 = "l3_registered E i d w"
  define w2 where "w2 = interface_ip_set_enabled E i ProtoIp True (interface_ip_set_enabled E i ConfigIp True ?w1)"
  note v = l3_registered_view [OF l3, of E d]
  have f2: "ip_frame ?w1 w2" unfolding w2_def by (intro ip_set_enabled_frame ip_frame_refl)
  have c2: "ip_core (w_ifs w2 i) = ip_core ((w_ifs w i)\<lparr>if_l3_dev := zero_device_user\<lparr>du_dev := Some d\<rparr>\<rparr>)"
    "w_out w2 = w_out w" "w_devs w2 = w_devs ?w1" "no_aliases i w2"
    using f2 v al ip_frame_aliases [OF f2] by (simp_all add: ip_frame_def)
  have names: "if_name (w_ifs w2 i) = if_name (w_ifs w i)" "if_jail (w_ifs w2 i) = if_jail (w_ifs w i)"
    "l3_device (w_ifs w2 i) = Some d"
    using arg_cong [OF c2(1), of if_name] arg_cong [OF c2(1), of if_jail] arg_cong [OF c2(1), of if_l3_dev]
    by (simp_all add: ip_core_def)
  define w4 where "w4 = upd_if i (\<lambda>f. f\<lparr>if_start_time := se_rtime (we_sys E)\<rparr>)
    (set_state i IFS_UP (klog_do KFlushRoutes w2))"
  have w4: "w_ifs w4 i = (w_ifs w2 i)\<lparr>if_state := IFS_UP, if_start_time := se_rtime (we_sys E)\<rparr>"
    "w_out w4 = w_out w" "w_devs w4 = w_devs ?w1" "no_aliases i w4"
    using c2 by (simp_all add: w4_def set_state_def w_ifs_upd_if)
  let ?w5 = "event_told i IFEV_UP w4"
  have w5: "w_ifs ?w5 i = (w_ifs w4 i)\<lparr>if_errors := []\<rparr>" "w_devs ?w5 = w_devs ?w1"
    "w_out ?w5 = w_out w @ [OutEvent i IFEV_UP, OutNotify i IFEV_UP]"
    using w4 names by (simp_all add: event_told_def Let_def interface_error_flush_def w_ifs_upd_if)
  let ?w' = "emit (OutResolvConf (if_jail (w_ifs ?w5 i))) ?w5"
  have "proto_event_up E (run E (Suc n)) i w = Some ?w5"
    using l3 main event_no_aliases [OF w4(4)] first_l3_eq [OF l3, of E n d]
    by (simp add: proto_event_up_def zero_device_user_def w2_def [symmetric] w4_def [symmetric]
        del: run.simps)
  then have "interface_proto_event_cb E (run E (Suc n)) i IFPEV_UP w = Some ?w'"
    using st by (simp add: interface_proto_event_cb_def Let_def del: run.simps)
  moreover have "up_core (w_ifs ?w' i) = up_core ((w_ifs w i)\<lparr>if_state := IFS_UP,
       if_l3_dev := zero_device_user\<lparr>du_dev := Some d\<rparr>\<rparr>)"
  proof -
    have l: "up_core (x\<lparr>if_state := s, if_start_time := t, if_errors := es\<rparr>) =
        (ip_core x)\<lparr>if_state := s, if_errors := [], if_start_time := 0\<rparr>" for x s t es
      by (simp add: up_core_def ip_core_def)
    have r: "up_core (x\<lparr>if_state := s, if_l3_dev := u\<rparr>) =
        (ip_core (x\<lparr>if_l3_dev := u\<rparr>))\<lparr>if_state := s, if_errors := [], if_start_time := 0\<rparr>" for x s u
      by (simp add: up_core_def ip_core_def)
    have "w_ifs ?w' i = (w_ifs w2 i)\<lparr>if_state := IFS_UP, if_start_time := se_rtime (we_sys E), if_errors := []\<rparr>"
      using w5(1) w4(1) by simp
    then show ?thesis by (simp only: l r c2(1))
  qed
  moreover have "if_jail (w_ifs ?w5 i) = if_jail (w_ifs w i)"
    using w5(1) w4(1) names(2) by simp
  moreover have "addresses_on (w_ifs ?w' i)"
  proof -
    have "l3_device (w_ifs ?w1 i) = Some d" using l3_core [OF v(2)] by simp
    from both_enabled_on [OF this] have "addresses_on (w_ifs w2 i)" by (simp only: w2_def)
    moreover have "addresses_on (w_ifs ?w' i) = addresses_on (w_ifs w2 i)"
      by (rule addresses_on_cong) (simp_all add: w5(1) w4(1))
    ultimately show ?thesis by simp
  qed
  ultimately show thesis
    using w5 v(3,4) by (intro that [of ?w']) simp_all
qed

text \<open>An interface with a protocol that is done at once and needs nothing (\<open>proto none\<close>).\<close>

definition runs_none :: "interface \<Rightarrow> bool" where
  "runs_none f \<longleftrightarrow> (\<exists>p. if_proto f = Some p \<and> ps_cb p = NoProtoHandler
     \<and> has_flag (ph_flags (ps_handler p)) PROTO_FLAG_IMMEDIATE)"

definition up_outputs :: "ifid \<Rightarrow> interface \<Rightarrow> out list" where
  "up_outputs i f = [OutEvent i IFEV_UP, OutNotify i IFEV_UP, OutResolvConf (if_jail f)]"

lemma check_state_up:
  assumes "if_state (w_ifs w i) = IFS_DOWN" "if_available (w_ifs w i)" "if_autostart (w_ifs w i)"
    and "if_enabled (w_ifs w i)" "if_link_state (w_ifs w i)" "\<not> w_config_init w" "runs_none (w_ifs w i)"
    and l3: "if_l3_dev (w_ifs w i) = zero_device_user"
    and main: "du_dev (if_main_dev (w_ifs w i)) = Some d" and al: "no_aliases i w"
  obtains w' where "interface_check_state E (run E (Suc (Suc n))) i w = Some w'"
    "w_out w' = w_out w @ up_outputs i (w_ifs w i)"
    "up_core (w_ifs w' i) = up_core ((w_ifs w i)\<lparr>if_state := IFS_UP,
       if_l3_dev := zero_device_user\<lparr>du_dev := Some d\<rparr>\<rparr>)"
    "dv_active (w_devs w' d) = dv_active (w_devs w d)"
    "dv_settings (w_devs w' d) = dv_settings (w_devs w d)" "addresses_on (w_ifs w' i)"
proof -
  let ?w1 = "set_state i IFS_SETUP w"
  have i1: "w_ifs ?w1 i = (w_ifs w i)\<lparr>if_state := IFS_SETUP\<rparr>" "w_devs ?w1 = w_devs w" "w_out ?w1 = w_out w"
    by (simp_all add: set_state_def w_ifs_upd_if)
  obtain w' where w': "interface_proto_event_cb E (run E (Suc n)) i IFPEV_UP ?w1 = Some w'"
    "w_out w' = w_out w @ up_outputs i (w_ifs w i)"
    "up_core (w_ifs w' i) = up_core ((w_ifs w i)\<lparr>if_state := IFS_UP,
       if_l3_dev := zero_device_user\<lparr>du_dev := Some d\<rparr>\<rparr>)"
    "dv_active (w_devs w' d) = dv_active (w_devs w d)"
    "dv_settings (w_devs w' d) = dv_settings (w_devs w d)" "addresses_on (w_ifs w' i)"
    using proto_up_eq [of ?w1 i d E n] i1 l3 main al by (auto simp: up_outputs_def)
  from assms(7) obtain p where p: "if_proto (w_ifs w i) = Some p" "ps_cb p = NoProtoHandler"
    "has_flag (ph_flags (ps_handler p)) PROTO_FLAG_IMMEDIATE" by (auto simp: runs_none_def)
  have "do_set_up E (run E (Suc (Suc n))) i w = Some (0, w')"
    using p i1 w'(1)
    by (simp add: do_set_up_def interface_proto_event_def call_void_def proto_cmd_def)
  then have "interface_check_state E (run E (Suc (Suc n))) i w = Some w'"
    using assms(1-6) by (simp add: interface_check_state_def Let_def del: run.simps)
  then show thesis using that w' by blast
qed

section \<open>From down to up\<close>

definition ready_to_start :: "world_env \<Rightarrow> ifid \<Rightarrow> did \<Rightarrow> world \<Rightarrow> bool" where
  "ready_to_start E i d w \<longleftrightarrow>
     (let f = w_ifs w i; dev = w_devs w d
      in if_state f = IFS_DOWN \<and> if_available f \<and> \<not> if_enabled f \<and> if_link_state f \<and> runs_none f
         \<and> if_main_dev f = zero_device_user\<lparr>du_dev := Some d\<rparr> \<and> if_l3_dev f = zero_device_user
         \<and> no_aliases i w \<and> plain_device E d dev \<and> dv_active dev = 0
         \<and> we_visit E (dv_users dev) = [UMain i] \<and> we_visit E (dv_aliases dev) = []
         \<and> UMain i \<in> set (dv_users dev) \<and> \<not> w_config_init w)"

text \<open>The world in which the device tells its users that it is up.\<close>

definition claimed_world :: "world_env \<Rightarrow> ifid \<Rightarrow> did \<Rightarrow> world \<Rightarrow> world" where
  "claimed_world E i d w =
     first_claim E (UMain i) d
       (upd_if i interface_clear_errors (upd_if i (\<lambda>f. f\<lparr>if_autostart := True\<rparr>) w))"

lemma config_init_upd [simp]:
  "w_config_init (upd_if i f w) = w_config_init w" "w_config_init (upd_dev d g w) = w_config_init w"
  "w_config_init (klog_do q w) = w_config_init w"
  by (simp_all add: upd_if_def upd_dev_def klog_do_def)

lemma claimed_world_view:
  "w_ifs (claimed_world E i d w) i =
     (interface_clear_errors ((w_ifs w i)\<lparr>if_autostart := True\<rparr>))
       \<lparr>if_main_dev := (if_main_dev (w_ifs w i))\<lparr>du_claimed := True\<rparr>\<rparr>"
  "claim_view (w_devs (claimed_world E i d w) d) = claim_view (w_devs w d)"
  "dv_active (w_devs (claimed_world E i d w) d) = dv_active (w_devs w d) + 1"
  "w_out (claimed_world E i d w) = w_out w"
  "no_aliases j (claimed_world E i d w) = no_aliases j w"
  "w_config_init (claimed_world E i d w) = w_config_init w"
proof -
  have e: "if_main_dev (interface_clear_errors x) = if_main_dev x" for x
    by (auto simp: interface_clear_errors_def interface_error_flush_def)
  show "w_ifs (claimed_world E i d w) i =
     (interface_clear_errors ((w_ifs w i)\<lparr>if_autostart := True\<rparr>))
       \<lparr>if_main_dev := (if_main_dev (w_ifs w i))\<lparr>du_claimed := True\<rparr>\<rparr>"
    by (simp add: claimed_world_def first_claim_def brought_up_def device_fill_default_settings_def Let_def
        marked_def w_ifs_upd_if e)
  show "claim_view (w_devs (claimed_world E i d w) d) = claim_view (w_devs w d)"
    "dv_active (w_devs (claimed_world E i d w) d) = dv_active (w_devs w d) + 1"
    unfolding claimed_world_def by (simp_all add: first_claim_view(1,2))
  show "w_out (claimed_world E i d w) = w_out w" "no_aliases j (claimed_world E i d w) = no_aliases j w"
    "w_config_init (claimed_world E i d w) = w_config_init w"
    by (simp_all add: claimed_world_def first_claim_def brought_up_def device_fill_default_settings_def
        Let_def marked_def)
qed

lemma clear_errors_upd: obtains es where "interface_clear_errors x = x\<lparr>if_errors := es\<rparr>"
  by (cases "keeps_lasterror x \<and> runs_configured_proto x")
    (auto simp: interface_clear_errors_def interface_error_flush_def intro: that [of "if_errors x"])

lemma map_option_conv_bind: "m \<bind> (\<lambda>x. Some (f x)) = map_option f m"
  by (cases m) simp_all

lemma broadcast_loop_Nil: "broadcast_loop rec d alias ev [] = Some"
  by (rule ext) simp

lemma claim_reaches_users:
  assumes "ready_to_start E i d w"
  shows "device_claim E (run E (Suc (Suc (Suc n)))) (UMain i)
           (upd_if i interface_clear_errors (upd_if i (\<lambda>f. f\<lparr>if_autostart := True\<rparr>) w)) =
         map_option (Pair 0)
           (interface_main_dev_cb E (run E (Suc (Suc n))) i DEV_EVENT_UP (claimed_world E i d w))"
proof -
  let ?w0 = "upd_if i interface_clear_errors (upd_if i (\<lambda>f. f\<lparr>if_autostart := True\<rparr>) w)"
  let ?w1 = "marked (UMain i) True d 1 ?w0"
  let ?w2 = "device_fill_default_settings E d ?w1"
  note r = assms [unfolded ready_to_start_def Let_def]
  have user: "get_user ?w0 (UMain i) = zero_device_user\<lparr>du_dev := Some d\<rparr>"
    using r by (cases rule: clear_errors_upd [of "(w_ifs w i)\<lparr>if_autostart := True\<rparr>"])
      (simp add: w_ifs_upd_if)
  have m: "w_devs ?w1 d = (w_devs w d)\<lparr>dv_active := 1\<rparr>"
    using r marked_dev [of "UMain i" d True 1 ?w0] by simp
  have view: "claim_view (w_devs ?w2 d) = claim_view (w_devs w d)"
    using m by (simp add: device_fill_default_settings_def w_devs_upd_dev claim_view_def)
  then have plain: "plain_device E d (w_devs ?w2 d)" and ext: "\<not> dv_external (w_devs ?w2 d)"
    using r by (simp_all add: claim_view_def plain_device_def no_alias_devices_def)
  have silent: "device_broadcast_event E (run E (Suc (Suc (Suc n)))) d DEV_EVENT_SETUP ?w1 = Some ?w1"
    using r m by (intro broadcast_passive passive_event_users) (simp_all add: plain_device_def no_alias_devices_def)
  have w3: "brought_up E d ?w2 = claimed_world E i d w" by (simp add: claimed_world_def first_claim_def)
  have lists: "dv_users (w_devs (claimed_world E i d w) d) = dv_users (w_devs w d)"
    "dv_aliases (w_devs (claimed_world E i d w) d) = dv_aliases (w_devs w d)"
    using claimed_world_view(2) by (simp_all add: claim_view_def)
  have du: "du_dev (get_user (claimed_world E i d w) (UMain i)) = Some d"
    using claimed_world_view(1) r by simp
  have up: "device_broadcast_event E (run E (Suc (Suc (Suc n)))) d DEV_EVENT_UP (claimed_world E i d w) =
      interface_main_dev_cb E (run E (Suc (Suc n))) i DEV_EVENT_UP (claimed_world E i d w)"
    using r lists du
    by (simp add: device_broadcast_event_def user_list_def call_void_def option.map_comp o_def
        option.map_ident broadcast_loop_Nil)
  show ?thesis
    using user m silent ext set_state_up [OF plain, of "Suc n"] w3 up
    unfolding device_claim_def Let_def marked_def [symmetric]
    by (simp add: zero_device_user_def map_option_conv_bind del: run.simps upd_user.simps get_user.simps)
qed

lemma up_core_fields:
  assumes "up_core x = up_core y"
  shows "if_state x = if_state y" "if_l3_dev x = if_l3_dev y" "if_main_dev x = if_main_dev y"
    "if_enabled x = if_enabled y" "if_link_state x = if_link_state y"
  using arg_cong [OF assms, of if_state] arg_cong [OF assms, of if_l3_dev]
    arg_cong [OF assms, of if_main_dev] arg_cong [OF assms, of if_enabled]
    arg_cong [OF assms, of if_link_state]
  by (simp_all add: up_core_def ip_core_def)

lemma set_up_runs:
  assumes "ready_to_start E i d w"
  shows "\<exists>w'. interface_set_up E (run E (n + 3)) i w = Some w' \<and> if_state (w_ifs w' i) = IFS_UP \<and>
           l3_device (w_ifs w' i) = Some d \<and> du_claimed (if_main_dev (w_ifs w' i)) \<and>
           dv_active (w_devs w' d) = 1 \<and> addresses_on (w_ifs w' i) \<and>
           w_out w' = w_out w @ up_outputs i (w_ifs w i)"
proof -
  note r = assms [unfolded ready_to_start_def Let_def]
  let ?w0 = "upd_if i interface_clear_errors (upd_if i (\<lambda>f. f\<lparr>if_autostart := True\<rparr>) w)"
  let ?w2 = "upd_if i (\<lambda>f. f\<lparr>if_enabled := True\<rparr>) (claimed_world E i d w)"
  obtain es where es: "interface_clear_errors ((w_ifs w i)\<lparr>if_autostart := True\<rparr>) =
      (w_ifs w i)\<lparr>if_autostart := True, if_errors := es\<rparr>"
    by (rule clear_errors_upd)
  have i2: "w_ifs ?w2 i = (w_ifs w i)\<lparr>if_autostart := True, if_errors := es,
      if_main_dev := (if_main_dev (w_ifs w i))\<lparr>du_claimed := True\<rparr>, if_enabled := True\<rparr>"
    using claimed_world_view(1) [of E i d w] es by (simp add: w_ifs_upd_if)
  have i0: "w_ifs ?w0 i = (w_ifs w i)\<lparr>if_autostart := True, if_errors := es\<rparr>"
    using es by (simp add: w_ifs_upd_if)
  obtain w' where w': "interface_check_state E (run E (Suc (Suc n))) i ?w2 = Some w'"
    "w_out w' = w_out w @ up_outputs i (w_ifs w i)"
    "up_core (w_ifs w' i) = up_core ((w_ifs ?w2 i)\<lparr>if_state := IFS_UP,
       if_l3_dev := zero_device_user\<lparr>du_dev := Some d\<rparr>\<rparr>)"
    "dv_active (w_devs w' d) = 1" "addresses_on (w_ifs w' i)"
  proof (rule check_state_up [where w = ?w2 and i = i and d = d and E = E and n = n])
    show "runs_none (w_ifs ?w2 i)" using r i2 by (simp add: runs_none_def)
    show "no_aliases i ?w2" using r claimed_world_view(5) [of i E i d w] by simp
    show "\<not> w_config_init ?w2" using r by (simp add: claimed_world_view(6))
    fix w' assume "interface_check_state E (run E (Suc (Suc n))) i ?w2 = Some w'"
      "w_out w' = w_out ?w2 @ up_outputs i (w_ifs ?w2 i)"
      "up_core (w_ifs w' i) = up_core ((w_ifs ?w2 i)\<lparr>if_state := IFS_UP,
         if_l3_dev := zero_device_user\<lparr>du_dev := Some d\<rparr>\<rparr>)"
      "dv_active (w_devs w' d) = dv_active (w_devs ?w2 d)" "addresses_on (w_ifs w' i)"
    then show thesis
      using i2 r claimed_world_view(3,4) [of E i d w]
      by (intro that [of w']) (simp_all add: up_outputs_def del: run.simps)
  qed (use r i2 in \<open>simp_all\<close>)
  have f: "if_state (w_ifs w' i) = IFS_UP" "l3_device (w_ifs w' i) = Some d"
    "du_claimed (if_main_dev (w_ifs w' i))" "if_enabled (w_ifs w' i)" "if_link_state (w_ifs w' i)"
    using up_core_fields [OF w'(3)] i2 r by simp_all
  have "interface_main_dev_cb E (run E (Suc (Suc n))) i DEV_EVENT_UP (claimed_world E i d w) = Some w'"
    using w'(1) r claimed_world_view(1) [of E i d w] es
    by (simp add: interface_main_dev_cb_def Let_def interface_set_enabled_def del: run.simps)
  then have "device_claim E (run E (Suc (Suc (Suc n)))) (UMain i) ?w0 = Some (0, w')"
    using claim_reaches_users [OF assms, of n] by (simp del: run.simps)
  moreover have "interface_check_state E rec i w' = Some w'" for rec
    using f by (simp add: interface_check_state_def Let_def)
  ultimately have "interface_set_up E (run E (Suc (Suc (Suc n)))) i w = Some w'"
    using r i0 by (simp add: interface_set_up_def Let_def w_ifs_upd_if del: run.simps)
  then show ?thesis using f w'(2,4,5) by (simp add: numeral_3_eq_3 del: run.simps)
qed

text \<open>C6: bringing an interface up works. If an interface with the protocol \<open>none\<close> that is down is
available and has a link, its device is known to the kernel and not in use, nobody else uses the
device and no alias follows the interface, then \<open>interface_set_up\<close> claims the device, the device
comes up and tells the interface, and the interface is up with the device as its layer 3 device.
Its IP settings, those of the configuration and those of the protocol, are switched on and every
address in them that is not external is enabled. The claim is counted, and the events and the
resolver file are written once, in this order. Three levels of nested callbacks are enough.\<close>

theorem interface_comes_up:
  assumes "ready_to_start E i d w"
  shows "\<exists>w'. interface_set_up E (run E (n + 3)) i w = Some w' \<and> if_state (w_ifs w' i) = IFS_UP \<and>
           l3_device (w_ifs w' i) = Some d \<and> du_claimed (if_main_dev (w_ifs w' i)) \<and>
           dv_active (w_devs w' d) = 1 \<and> addresses_on (w_ifs w' i) \<and>
           w_out w' = w_out w @ up_outputs i (w_ifs w i)"
  using assms by (rule set_up_runs)

lemma example_ready: "ready_to_start example_netifd 0 0 example_world"
  by (simp add: ready_to_start_def example_world_def example_interface_def zero_interface_def
      example_device_def zero_device_def runs_none_def no_proto_def no_aliases_def plain_device_def no_alias_devices_def
      find_alias_def zero_device_user_def has_flag_def PROTO_FLAG_IMMEDIATE_def)

theorem interface_comes_up_witness:
  "\<exists>w'. interface_set_up example_netifd (run example_netifd (0 + 3)) 0 example_world = Some w' \<and>
     if_state (w_ifs w' 0) = IFS_UP \<and> dv_active (w_devs w' 0) = 1 \<and> addresses_on (w_ifs w' 0) \<and>
     w_out w' = [OutEvent 0 IFEV_UP, OutNotify 0 IFEV_UP, OutResolvConf None]"
proof -
  have "w_out example_world = []"
    "up_outputs 0 (w_ifs example_world 0) =
       [OutEvent 0 IFEV_UP, OutNotify 0 IFEV_UP, OutResolvConf None]"
    by (simp_all add: example_world_def up_outputs_def example_interface_def zero_interface_def)
  then show ?thesis
    using interface_comes_up [OF example_ready, of 0] by (auto simp del: run.simps)
qed

end
