(* ===== verification/EventOrder.thy ===== *)
theory EventOrder
  imports BringUp
begin

text \<open>
  What the state machine promises about the program as a whole: every run of it is a run of
  the abstract machine of \<open>Lifecycle\<close>, and the events of an interface come in order. Then
  three places where the code does something else than it means to.
\<close>

section \<open>Runs of the program\<close>

lemma example_respects: "types_respect example_base"
  unfolding example_base_def by (rule simple_only_respects)

lemma example_reaches_up:
  obtains w where "reachable example_netifd example_world w" "if_state (w_ifs w 0) = IFS_UP"
    "w_out w = up_outputs 0 (w_ifs example_world 0)"
proof -
  from set_up_runs [OF example_ready, of 0]
  obtain w where w: "interface_set_up example_netifd (run example_netifd (0 + 3)) 0 example_world = Some w"
    "if_state (w_ifs w 0) = IFS_UP" "w_out w = w_out example_world @ up_outputs 0 (w_ifs example_world 0)"
    by blast
  have "netifd_step example_netifd (0 + 3) (InSetUp 0) example_world = Some w"
    using w(1) by (simp only: netifd_step.simps)
  then have "reachable example_netifd example_world w"
    by (rule reach_step [OF reach_init])
  moreover have "w_out example_world = []" by (simp add: example_world_def)
  ultimately show thesis using w that by simp
qed

text \<open>C1: the program refines the abstract interface state machine. Whatever inputs arrive, in
whatever order, and however deep the callbacks between devices, VLANs, bridges, interfaces,
aliases and protocol handlers nest (types of devices that are not modelled move interfaces only by calls), every state change of an interface with the events raised for it is a
transition of \<open>lstep\<close>: an interface is only set up when it is down, comes up only out of
setup and then raises \<open>IFEV_UP\<close>, and goes down with \<open>IFEV_DOWN\<close>, or with
\<open>IFEV_UP_FAILED\<close> when it never was up.\<close>

theorem netifd_refines_state_machine:
  assumes "types_respect E" and "reachable (netifd_env E) w0 w"
  shows "lstep\<^sup>*\<^sup>* (lstate_of w0) (lstate_of w)"
  using reachable_refines [OF assms(2) netifd_env_respects [OF assms(1)]] unfolding refines_def .

theorem netifd_refines_state_machine_witness:
  "\<exists>w. if_state (w_ifs w 0) = IFS_UP \<and> lstep\<^sup>*\<^sup>* (lstate_of example_world) (lstate_of w)"
proof -
  obtain w where w: "reachable example_netifd example_world w" "if_state (w_ifs w 0) = IFS_UP"
    by (rule example_reaches_up)
  show ?thesis using netifd_refines_state_machine [OF example_respects w(1) [unfolded example_netifd_def]] w(2) by blast
qed

lemma initial_order: "(\<And>x. x \<in> set (w_out w) \<Longrightarrow> \<not> marks i x) \<Longrightarrow> order_inv i (lstate_of w)"
proof -
  assume a: "\<And>x. x \<in> set (w_out w) \<Longrightarrow> \<not> marks i x"
  then have "filter (marks i) (w_out w) = []" by (simp add: filter_empty_conv)
  moreover have "filter (marks i) (before_lost i (w_out w)) = []"
    using a set_takeWhileD unfolding before_lost_def filter_empty_conv by fast
  ultimately show ?thesis by (simp add: order_inv_def lstate_of_def in_order_def told_up_def)
qed

text \<open>C2: the events that an interface raises come in order. From a start at which nothing was
recorded of interface \<open>i\<close>, whatever happens, up to the first lost connection that the interface
reports: after a raised \<open>IFEV_UP\<close> the next thing recorded of its state is that it raises
\<open>IFEV_DOWN\<close>, that its protocol state is replaced, or that a new interface is allocated under its
identifier; it is never another \<open>IFEV_UP\<close> and never \<open>IFEV_UP_FAILED\<close>.\<close>

theorem up_events_in_order:
  assumes "types_respect E" and "reachable (netifd_env E) w0 w" and "filter (marks i) (w_out w0) = []"
  shows "in_order i (before_lost i (w_out w))"
proof -
  have "order_inv i (lstate_of w0)"
    using assms(3) by (intro initial_order) (simp add: filter_empty_conv)
  from order_inv_run [OF reachable_refines [OF assms(2) netifd_env_respects [OF assms(1)]] this]
  show ?thesis by (simp add: order_inv_def lstate_of_def)
qed

theorem up_events_in_order_witness:
  "\<exists>w :: world. filter (marks 0) (w_out w) = [OutEvent 0 IFEV_UP] \<and> before_lost 0 (w_out w) = w_out w \<and>
     in_order 0 (before_lost 0 (w_out w))"
proof -
  obtain w where w: "reachable example_netifd example_world w"
    "w_out w = up_outputs 0 (w_ifs example_world 0)"
    by (rule example_reaches_up)
  have "filter (marks 0) (w_out w) = [OutEvent 0 IFEV_UP]" "before_lost 0 (w_out w) = w_out w"
    by (simp_all add: w(2) up_outputs_def marks_def before_lost_def)
  moreover have "filter (marks 0) (w_out example_world) = []" by (simp add: example_world_def)
  then have "in_order 0 (before_lost 0 (w_out w))"
    using up_events_in_order [OF example_respects w(1) [unfolded example_netifd_def]] by simp
  ultimately show ?thesis by blast
qed

section \<open>Link loss\<close>

text \<open>C22: losing the link is announced as \<open>IFEV_LINK_UP\<close>. When \<open>interface_set_link_state\<close> takes
the link of an interface away, the users of the interface get an \<open>IFEV_LINK_UP\<close> event.\<close>

theorem link_loss_raises_link_up:
  assumes "types_respect E" and "if_link_state (w_ifs w i)"
    and "interface_set_link_state E (run E n) i False w = Some w'"
  shows "OutEvent i IFEV_LINK_UP \<in> set (w_out w')"
proof -
  note c = run_contract [OF assms(1), of n]
  obtain w1 where "interface_event E (run E n) i IFEV_LINK_UP w1 = Some w'"
    using assms(2,3) by (auto simp: interface_set_link_state_def split: bind_splits)
  then have "refines (emit (OutEvent i IFEV_LINK_UP) w1) w'"
    using interface_contract.event_after [OF c refines_refl] by (simp add: lc.ok_def)
  then show ?thesis using refines_out by fastforce
qed

theorem link_loss_raises_link_up_witness:
  "\<exists>w'. interface_set_link_state example_netifd (run example_netifd 0) 1 False
           (upd_if 1 (\<lambda>f. f\<lparr>if_link_state := True\<rparr>) example_world) = Some w' \<and>
        OutEvent 1 IFEV_LINK_UP \<in> set (w_out w')"
proof -
  let ?w = "upd_if 1 (\<lambda>f. f\<lparr>if_link_state := True\<rparr>) example_world"
  have "if_link_state (w_ifs ?w 1)" by (simp add: w_ifs_upd_if)
  moreover have "no_aliases 1 example_world" by (simp add: no_aliases_def find_alias_def example_world_def)
  then obtain w' where "interface_set_link_state example_netifd (run example_netifd 0) 1 False ?w = Some w'"
    by (simp add: interface_set_link_state_def interface_check_state_def Let_def w_ifs_upd_if
        example_world_def zero_interface_def event_no_aliases)
  ultimately show ?thesis
    using link_loss_raises_link_up [OF netifd_env_respects [OF example_respects]] unfolding example_netifd_def by blast
qed

section \<open>Removing an interface\<close>

text \<open>An interface without devices and aliases that is to be removed once it is down; its protocol runs no program.\<close>

definition runs_no_program :: "interface_proto_state option \<Rightarrow> bool" where
  "runs_no_program proto \<longleftrightarrow>
     (case map_option ps_cb proto of
        Some (ShellHandler s) \<Rightarrow> False | Some (UdhcpHandler s) \<Rightarrow> False | Some (IscDhcpHandler s) \<Rightarrow> False
      | Some (ZcipHandler s) \<Rightarrow> False | _ \<Rightarrow> True)"

lemma proto_free_nothing [simp]: "runs_no_program (Some p) \<Longrightarrow> proto_free (ps_cb p) w = w"
  by (simp add: runs_no_program_def proto_free_def split: proto_cb.splits)

definition bare_interface :: "ifid \<Rightarrow> world \<Rightarrow> bool" where
  "bare_interface i w \<longleftrightarrow> if_main_dev (w_ifs w i) = zero_device_user \<and> if_l3_dev (w_ifs w i) = zero_device_user
     \<and> runs_no_program (if_proto (w_ifs w i))
     \<and> if_ext_dev (w_ifs w i) = zero_device_user \<and> if_parent_iface (w_ifs w i) = None \<and> no_aliases i w"

lemma bare_interface_cong:
  assumes "bare_interface i w" and "no_aliases i w'"
    and "if_main_dev (w_ifs w' i) = if_main_dev (w_ifs w i)" "if_l3_dev (w_ifs w' i) = if_l3_dev (w_ifs w i)"
    "if_ext_dev (w_ifs w' i) = if_ext_dev (w_ifs w i)" "if_parent_iface (w_ifs w' i) = if_parent_iface (w_ifs w i)"
    "if_proto (w_ifs w' i) = if_proto (w_ifs w i)"
  shows "bare_interface i w'"
  using assms by (simp add: bare_interface_def)

lemma bare_frame:
  assumes "ip_frame w w'"
  shows "bare_interface i w' = bare_interface i w" "if_state (w_ifs w' i) = if_state (w_ifs w i)"
    "if_config_state (w_ifs w' i) = if_config_state (w_ifs w i)" "if_jail (w_ifs w' i) = if_jail (w_ifs w i)"
    "if_available (w_ifs w' i) = if_available (w_ifs w i)" "if_name (w_ifs w' i) = if_name (w_ifs w i)"
    "w_out w' = w_out w"
proof -
  have c: "ip_core (w_ifs w' i) = ip_core (w_ifs w i)" and o: "w_out w' = w_out w"
    using assms by (simp_all add: ip_frame_def)
  show "bare_interface i w' = bare_interface i w"
    using ip_core_eqD [OF c] arg_cong [OF c, of if_parent_iface] ip_frame_aliases [OF assms]
    by (simp add: bare_interface_def ip_core_def)
  show "if_state (w_ifs w' i) = if_state (w_ifs w i)" "if_available (w_ifs w' i) = if_available (w_ifs w i)"
    "if_config_state (w_ifs w' i) = if_config_state (w_ifs w i)" "if_jail (w_ifs w' i) = if_jail (w_ifs w i)"
    "if_name (w_ifs w' i) = if_name (w_ifs w i)"
    using arg_cong [OF c, of if_state] arg_cong [OF c, of if_config_state] arg_cong [OF c, of if_jail]
      arg_cong [OF c, of if_available] arg_cong [OF c, of if_name]
    by (simp_all add: ip_core_def)
  show "w_out w' = w_out w" by (rule o)
qed

text \<open>Cleaning up such an interface calls nothing.\<close>

lemma clear_errors_fields [simp]:
  "if_main_dev (interface_clear_errors x) = if_main_dev x"
  "if_l3_dev (interface_clear_errors x) = if_l3_dev x"
  "if_jail (interface_clear_errors x) = if_jail x"
  "if_proto (interface_clear_errors x) = if_proto x"
  by (simp_all add: interface_clear_errors_def interface_error_flush_def)

lemma set_proto_state_plain:
  "runs_no_program (if_proto (w_ifs w i)) \<Longrightarrow>
     interface_set_proto_state i state w =
       upd_if i (\<lambda>f. f\<lparr>if_proto := state\<rparr>) (set_state i IFS_DOWN (emit (OutProtoState i) w))"
  by (cases "if_proto (w_ifs w i)") (simp_all add: interface_set_proto_state_def)

lemma bare_cleanup_state:
  assumes "bare_interface i w" and "if_state (w_ifs w i) = IFS_DOWN"
  shows "\<exists>w'. interface_cleanup_state E rec i w = Some w' \<and> w_out w' = w_out w @ [OutProtoState i] \<and>
           if_jail (w_ifs w' i) = if_jail (w_ifs w i)"
  using assms
  by (cases "if_available (w_ifs w i)")
    (simp_all add: interface_cleanup_state_def interface_set_available_def do_set_down_def Let_def
      interface_flush_state_def set_proto_state_plain set_state_def interface_set_main_dev_def
      interface_set_l3_dev_def w_ifs_upd_if bare_interface_def zero_device_user_def
      interface_data_flush_def)

lemma bare_do_free:
  assumes "bare_interface i w" and "if_state (w_ifs w i) = IFS_DOWN"
  shows "\<exists>w'. interface_do_free E rec i w = Some w' \<and> if_jail (w_ifs w' i) = if_jail (w_ifs w i) \<and>
           w_out w' = w_out w @ [OutEvent i IFEV_FREE, OutNotify i IFEV_FREE, OutProtoState i,
                                 OutUbusRemove i, OutFreeInterface i]"
proof -
  let ?w1 = "emit (OutNotify i IFEV_FREE) (emit (OutEvent i IFEV_FREE) w)"
  let ?t = "upd_if i (\<lambda>f. f\<lparr>if_remove_timer := map_option (\<lambda>_. False) (if_remove_timer f)\<rparr>) ?w1"
  let ?w2 = "upd_if i (\<lambda>f. f\<lparr>if_assignment_classes := []\<rparr>) ?t"
  let ?w3 = "interface_ip_flush E i ConfigIp ?w2"
  have al: "no_aliases i w" using assms(1) by (simp add: bare_interface_def)
  have ev: "interface_event E rec i IFEV_FREE w = Some ?w1"
    using event_no_aliases [OF al] by (simp add: event_told_def)
  have b2: "bare_interface i ?w2" using assms(1) by (simp add: bare_interface_def w_ifs_upd_if)
  have f: "ip_frame ?w2 ?w3" by (rule ip_flush_frame) simp
  have b3: "bare_interface i ?w3" "if_state (w_ifs ?w3 i) = IFS_DOWN"
    "if_jail (w_ifs ?w3 i) = if_jail (w_ifs w i)" "w_out ?w3 = w_out w @ [OutEvent i IFEV_FREE, OutNotify i IFEV_FREE]"
    unfolding bare_frame [OF f] using b2 assms(2) by (simp_all add: w_ifs_upd_if)
  obtain w4 where w4: "interface_cleanup_state E rec i ?w3 = Some w4"
    "w_out w4 = w_out ?w3 @ [OutProtoState i]" "if_jail (w_ifs w4 i) = if_jail (w_ifs w i)"
    using bare_cleanup_state [OF b3(1,2)] unfolding b3(3) by blast
  have "w_ifusers w i = []" "du_dev (if_ext_dev (w_ifs w i)) = None" "if_parent_iface (w_ifs w i) = None"
    using assms(1) by (simp_all add: bare_interface_def no_aliases_def zero_device_user_def)
  moreover have "w_ifusers ?t i = w_ifusers w i" by (simp add: emit_def upd_if_def)
  ultimately have "interface_cleanup E rec i ?w1 = Some w4"
    using w4(1) by (simp add: interface_cleanup_def device_remove_user_def Let_def w_ifs_upd_if)
  then show ?thesis using ev w4 b3(4) by (simp add: interface_do_free_def) (simp add: emit_def)
qed

text \<open>C23: an interface is read after it was freed. When the protocol of an interface that is to
be removed reports that it is down, \<open>interface_proto_event_cb\<close> frees the interface by way of
\<open>interface_handle_config_change\<close>, and then writes the resolver file of \<open>iface->jail\<close>, which it
reads from the freed memory.\<close>

theorem removed_interface_read_after_free:
  assumes "bare_interface i w" and "if_state (w_ifs w i) = IFS_TEARDOWN"
    and "if_config_state (w_ifs w i) = IFC_REMOVE"
  shows "\<exists>w' told. interface_proto_event_cb E rec i IFPEV_DOWN w = Some w' \<and>
           w_out w' = w_out w @ told @ [OutFreeInterface i, OutResolvConf (if_jail (w_ifs w' i))]"
proof -
  let ?w1 = "set_state i IFS_DOWN (upd_if i (\<lambda>f. f\<lparr>if_link_up_event := False\<rparr>) w)"
  let ?w2 = "emit (OutNotify i IFEV_DOWN) (emit (OutEvent i IFEV_DOWN) ?w1)"
  let ?w3 = "disable_ip E i ?w2"
  let ?w4 = "klog_do KFlushRoutes (upd_if i interface_data_flush ?w3)"
  let ?w5 = "set_config_state_field i IFC_NORMAL ?w4"
  have al: "no_aliases i w" using assms(1) by (simp add: bare_interface_def)
  have ev: "interface_event E rec i IFEV_DOWN ?w1 = Some ?w2"
    using event_no_aliases [of i ?w1] al by (simp add: event_told_def)
  have b2: "bare_interface i ?w2" using assms(1) by (simp add: bare_interface_def set_state_def w_ifs_upd_if)
  have f3: "ip_frame ?w2 ?w3" by (rule disable_ip_frame) simp
  have s3: "bare_interface i ?w3" "if_state (w_ifs ?w3 i) = IFS_DOWN"
    "if_config_state (w_ifs ?w3 i) = IFC_REMOVE" "w_out ?w3 = w_out ?w2"
    using bare_frame [OF f3] b2 assms(3) by (simp_all add: set_state_def w_ifs_upd_if)
  have mark: "mark_interface_down E rec i w = Some ?w4"
    using assms(2) ev s3(1)
    by (simp add: mark_interface_down_def interface_flush_state_def bare_interface_def zero_device_user_def)
  have s4: "bare_interface i ?w4" "if_state (w_ifs ?w4 i) = IFS_DOWN" "if_config_state (w_ifs ?w4 i) = IFC_REMOVE"
    using s3 by (simp_all add: bare_interface_def w_ifs_upd_if interface_data_flush_def)
  have s5: "bare_interface i ?w5" "if_state (w_ifs ?w5 i) = IFS_DOWN"
    using s4 by (simp_all add: bare_interface_def set_config_state_field_def w_ifs_upd_if)
  obtain w6 where w6: "interface_do_free E rec i ?w5 = Some w6"
    "w_out w6 = w_out ?w5 @ [OutEvent i IFEV_FREE, OutNotify i IFEV_FREE, OutProtoState i,
                             OutUbusRemove i, OutFreeInterface i]"
    using bare_do_free [OF s5] by metis
  have "proto_event_down E rec i w = Some w6"
    using mark s4 w6(1)
    by (simp add: proto_event_down_def interface_handle_config_change_def Let_def)
      (simp add: bare_interface_def zero_device_user_def)
  then have "interface_proto_event_cb E rec i IFPEV_DOWN w =
      Some (emit (OutResolvConf (if_jail (w_ifs w6 i))) w6)"
    using assms(2) by (simp add: interface_proto_event_cb_def Let_def)
  moreover have "w_out ?w5 = w_out w @ [OutEvent i IFEV_DOWN, OutNotify i IFEV_DOWN]"
    using s3(4) by (simp add: set_config_state_field_def)
  ultimately show ?thesis using w6(2) by simp
qed

theorem removed_interface_read_after_free_witness:
  "\<exists>w' told. interface_proto_event_cb example_netifd (run example_netifd 0) 1 IFPEV_DOWN
       (upd_if 1 (\<lambda>f. f\<lparr>if_state := IFS_TEARDOWN, if_config_state := IFC_REMOVE\<rparr>) example_world) = Some w' \<and>
     w_out w' = told @ [OutFreeInterface 1, OutResolvConf (if_jail (w_ifs w' 1))]"
proof -
  let ?w = "upd_if 1 (\<lambda>f. f\<lparr>if_state := IFS_TEARDOWN, if_config_state := IFC_REMOVE\<rparr>) example_world"
  have "no_aliases 1 example_world" "w_out ?w = []" by (simp_all add: no_aliases_def find_alias_def example_world_def)
  then have "bare_interface 1 ?w"
    by (simp add: bare_interface_def w_ifs_upd_if example_world_def zero_interface_def runs_no_program_def)
  with \<open>w_out ?w = []\<close> show ?thesis
    using removed_interface_read_after_free [of 1 ?w example_netifd "run example_netifd 0"]
    by (simp add: w_ifs_upd_if)
qed

section \<open>Aliases of an interface that does not exist\<close>

text \<open>C26: an alias whose parent does not exist follows every interface. \<open>interface_claim_device\<close>
passes the \<open>NULL\<close> of the failed lookup on to \<open>interface_add_user\<close>, which registers the alias for
the events of all interfaces: when any interface \<open>j\<close> comes up, the alias is put on its device.\<close>

theorem orphan_alias_follows_every_interface:
  assumes "if_parent_ifname (w_ifs w a) = Some pn" and "find_interface w pn = None"
    and "if_parent_iface (w_ifs w a) = None"
    and "\<not> has_flag (ph_flags (if_proto_handler (w_ifs w a))) PROTO_FLAG_INIT_AVAILABLE"
    and "no_aliases j w" and "l3_device (w_ifs w j) = Some d"
  shows "\<exists>w'. interface_claim_device E rec a w = Some w' \<and>
     interface_event E (run E (Suc n)) j IFEV_UP w' = do {
       w \<leftarrow> interface_set_main_dev E (run E n) a (Some d) (emit (OutEvent j IFEV_UP) w');
       w \<leftarrow> interface_set_available E (run E n) a True w;
       after_event E (run E (Suc n)) j IFEV_UP (emit (OutNotify j IFEV_UP) w)
     }"
proof -
  let ?w' = "w\<lparr>w_allusers := [AliasUser a]\<rparr>"
  let ?w1 = "emit (OutEvent j IFEV_UP) ?w'"
  have claim: "interface_claim_device E rec a w = Some ?w'"
    using assms(1-5) by (simp add: interface_claim_device_def interface_add_user_def Let_def no_aliases_def)
  have "w_ifusers ?w1 j = []" "w_allusers ?w1 = [AliasUser a]"
    using assms(5) by (simp_all add: no_aliases_def emit_def)
  then have "interface_event E (run E (Suc n)) j IFEV_UP ?w' = do {
      w \<leftarrow> interface_alias_cb E (run E n) a j IFEV_UP ?w1;
      after_event E (run E (Suc n)) j IFEV_UP (emit (OutNotify j IFEV_UP) w) }"
    by (simp add: interface_event_def Let_def call_void_def option.map_comp o_def option.map_ident
        bind_map_option split: option.split)
  also have "interface_alias_cb E (run E n) a j IFEV_UP ?w1 = do {
      w \<leftarrow> interface_set_main_dev E (run E n) a (Some d) ?w1;
      interface_set_available E (run E n) a True w }"
    using assms(6) by (simp add: interface_alias_cb_def Let_def)
  finally show ?thesis using claim by (simp del: run.simps)
qed

theorem orphan_alias_follows_every_interface_witness:
  "\<exists>w'. interface_claim_device example_netifd (run example_netifd 0) 1
       (upd_if 0 (\<lambda>f. f\<lparr>if_l3_dev := zero_device_user\<lparr>du_dev := Some 0\<rparr>\<rparr>)
         (upd_if 1 (\<lambda>f. f\<lparr>if_name := ''wan6'', if_parent_ifname := Some ''wan''\<rparr>) example_world)) = Some w' \<and>
     interface_event example_netifd (run example_netifd (Suc 5)) 0 IFEV_UP w' = do {
       w \<leftarrow> interface_set_main_dev example_netifd (run example_netifd 5) 1 (Some 0)
              (emit (OutEvent 0 IFEV_UP) w');
       w \<leftarrow> interface_set_available example_netifd (run example_netifd 5) 1 True w;
       after_event example_netifd (run example_netifd (Suc 5)) 0 IFEV_UP (emit (OutNotify 0 IFEV_UP) w)
     }"
proof -
  let ?w = "upd_if 0 (\<lambda>f. f\<lparr>if_l3_dev := zero_device_user\<lparr>du_dev := Some 0\<rparr>\<rparr>)
         (upd_if 1 (\<lambda>f. f\<lparr>if_name := ''wan6'', if_parent_ifname := Some ''wan''\<rparr>) example_world)"
  have "no_aliases 0 ?w" by (simp add: no_aliases_def find_alias_def example_world_def upd_if_def)
  moreover have "find_interface ?w ''wan'' = None"
    by (simp add: find_interface_def upd_if_def example_world_def example_interface_def zero_interface_def)
  moreover have "if_parent_ifname (w_ifs ?w 1) = Some ''wan''" "if_parent_iface (w_ifs ?w 1) = None"
    "\<not> has_flag (ph_flags (if_proto_handler (w_ifs ?w 1))) PROTO_FLAG_INIT_AVAILABLE"
    "l3_device (w_ifs ?w 0) = Some 0"
    by (simp_all add: w_ifs_upd_if example_world_def zero_interface_def zero_proto_handler_def)
  ultimately show ?thesis
    by (intro orphan_alias_follows_every_interface [where pn = "''wan''" and j = 0 and d = 0])
qed

end
