(* ===== verification/ShellProps.thy ===== *)
theory ShellProps
  imports EventOrder
begin

text \<open>
  What is promised of the protocols that run programs: a shell protocol that waits for its processes
  is always bounded by its timer, and the timer ends the wait. Then two places where the code gets
  stuck: a setup that could not be started, and the teardown of the ISC DHCP client.
\<close>

section \<open>The wait is bounded\<close>

text \<open>A shell protocol that waits, and a world in which one does.\<close>

definition shell_waits :: "proto_shell_state \<Rightarrow> bool" where
  "shell_waits x \<longleftrightarrow> sh_sm x = S_TEARDOWN \<or> sh_sm x = S_SETUP_ABORT"

definition example_shell_handler :: proto_handler where
  "example_shell_handler = proto_shell_add_handler ''/lib/netifd/proto/ppp.sh'' ''ppp'' (\<lambda>_. None)"

definition example_shell :: proto_shell_state where
  "example_shell = zero_shell_state\<lparr>sh_handler := example_shell_handler, sh_script_name := ''/lib/netifd/proto/ppp.sh'',
     sh_sm := S_SETUP, sh_script_task := True, sh_proto_task := True, sh_last_error := -1,
     sh_checkup_timeout := Some 1000\<rparr>"

definition example_shell_world :: world where
  "example_shell_world = upd_shell 0 (\<lambda>_. example_shell)
     (upd_if 0 (\<lambda>f. f\<lparr>if_state := IFS_SETUP,
        if_proto := Some \<lparr>ps_handler = example_shell_handler, ps_cb = ShellHandler 0, ps_config = None\<rparr>\<rparr>)
       (example_world\<lparr>w_next_proto := 1\<rparr>))"

lemma example_shell_fields [simp]:
  "w_shell example_shell_world 0 = example_shell"
  "if_proto (w_ifs example_shell_world 0) =
     Some \<lparr>ps_handler = example_shell_handler, ps_cb = ShellHandler 0, ps_config = None\<rparr>"
  "if_state (w_ifs example_shell_world 0) = IFS_SETUP"
  by (simp_all add: example_shell_world_def upd_shell_def upd_if_def)

lemma w_ifs_upd_shell [simp]: "w_ifs (upd_shell s f w) = w_ifs w"
  by (simp add: upd_shell_def)

lemma example_armed: "shell_armed (w_shell example_shell_world s)"
  by (simp add: example_shell_world_def upd_shell_def upd_if_def example_world_def shell_armed_def zero_shell_state_def
      example_shell_def)

text \<open>C3: a shell protocol never waits without a timer. Whatever happens, in whatever order, from a start
where this holds: a protocol that was not freed and waits for its script and its process to end, in a
teardown or in an aborted setup, has its teardown timer running.\<close>

theorem shell_wait_has_timer:
  assumes "types_respect E" and "reachable (netifd_env E) w0 w" and "\<And>s. shell_armed (w_shell w0 s)"
    and "shell_waits (w_shell w s)" and "\<not> sh_freed (w_shell w s)"
  shows "sh_teardown_timeout (w_shell w s) \<noteq> None"
proof -
  have "timers_kept w0 w"
    using tk.reachable_rel [OF assms(2) netifd_env_respects [OF assms(1)]] .
  then have "shell_armed (w_shell w s)" using assms(3) by (simp add: timers_kept_def)
  then show ?thesis using assms(4,5) by (auto simp: shell_armed_def shell_waits_def)
qed

text \<open>The example: the setup takes longer than the check-up allows, and is aborted.\<close>

definition example_abort_world :: world where
  "example_abort_world = shell_checkup_fires example_netifd 0 example_shell_world"

lemma example_abort_shell:
  "w_shell example_abort_world 0 =
     example_shell\<lparr>sh_checkup_timeout := None, sh_teardown_timeout := Some 1000, sh_sm := S_SETUP_ABORT\<rparr>"
proof -
  have "sh_checkup_timeout example_shell = Some 1000" "sh_iface example_shell = 0" "sh_sm example_shell = S_SETUP"
    "sh_script_task example_shell" "sh_proto_task example_shell" "\<not> sh_renew_pending example_shell"
    by (simp_all add: example_shell_def zero_shell_state_def)
  moreover have "if_autostart (w_ifs example_shell_world 0)"
    by (simp add: example_shell_world_def upd_shell_def upd_if_def example_world_def example_interface_def)
  ultimately show ?thesis
    by (simp add: example_abort_world_def shell_checkup_fires_def proto_shell_checkup_timeout_cb_def Let_def
        proto_shell_handler_def proto_shell_abort_def w_shell_upd)
qed

theorem shell_wait_has_timer_witness:
  "shell_waits (w_shell example_abort_world 0) \<and> sh_teardown_timeout (w_shell example_abort_world 0) \<noteq> None"
proof -
  have "netifd_step example_netifd 0 (InCheckupTimeout 0) example_shell_world = Some example_abort_world"
    by (simp add: example_abort_world_def)
  then have r: "reachable (netifd_env example_base) example_shell_world example_abort_world"
    using reach_step [OF reach_init] unfolding example_netifd_def by blast
  have "shell_waits (w_shell example_abort_world 0)" "\<not> sh_freed (w_shell example_abort_world 0)"
    by (simp_all add: example_abort_shell shell_waits_def example_shell_def zero_shell_state_def)
  then show ?thesis
    using shell_wait_has_timer [OF example_respects r example_armed] by blast
qed

section \<open>The timer ends the wait\<close>

text \<open>When the timer of a teardown runs out, nothing is left to wait for.\<close>

lemma killed_tasks:
  "w_shell (netifd_kill_process (ProtoTask s) (netifd_kill_process (ScriptTask s) w)) s =
     (w_shell w s)\<lparr>sh_script_task := False, sh_proto_task := False\<rparr>"
  by (simp add: netifd_kill_process_def upd_shell_def emit_def)

lemma teardown_timeout_reports_down:
  assumes "sh_teardown_timeout (w_shell w s) \<noteq> None" and "sh_sm (w_shell w s) = S_TEARDOWN"
  shows "\<exists>w'. shell_teardown_fires E rec s w = proto_shell_event rec s IFPEV_DOWN w' \<and>
    w_shell w' s = (w_shell w s)\<lparr>sh_script_task := False, sh_proto_task := False, sh_teardown_timeout := None,
                                 sh_checkup_timeout := None, sh_sm := S_IDLE\<rparr>"
proof -
  let ?k = "netifd_kill_process (ProtoTask s) (netifd_kill_process (ScriptTask s)
              (upd_shell s (\<lambda>x. x\<lparr>sh_teardown_timeout := None\<rparr>) w))"
  have k: "w_shell ?k s = (w_shell w s)\<lparr>sh_teardown_timeout := None, sh_script_task := False, sh_proto_task := False\<rparr>"
    by (simp add: killed_tasks w_shell_upd)
  then have "shell_teardown_fires E rec s w = proto_shell_event rec s IFPEV_DOWN (shell_now_idle s ?k)"
    using assms
    by (auto simp: shell_teardown_fires_def proto_shell_teardown_timeout_cb_def proto_shell_task_finish_def)
  moreover have "w_shell (shell_now_idle s ?k) s = (w_shell w s)\<lparr>sh_script_task := False, sh_proto_task := False,
      sh_teardown_timeout := None, sh_checkup_timeout := None, sh_sm := S_IDLE\<rparr>"
    using k by (simp add: shell_now_idle_def w_shell_upd)
  ultimately show ?thesis by blast
qed

lemma shell_run_keeps_sm:
  "sh_sm (w_shell (snd (proto_shell_run E s action envp w)) s) = sh_sm (w_shell w s)"
  "sh_teardown_timeout (w_shell (snd (proto_shell_run E s action envp w)) s) = sh_teardown_timeout (w_shell w s)"
  by (simp_all add: proto_shell_run_def Let_def netifd_start_process_def netifd_kill_process_def w_shell_upd
      split: option.split)

lemma abort_timeout_begins_teardown:
  assumes "sh_teardown_timeout (w_shell w s) \<noteq> None" and "sh_sm (w_shell w s) = S_SETUP_ABORT"
  shows "\<exists>w'. shell_teardown_fires E rec s w = Some w' \<and> sh_sm (w_shell w' s) = S_TEARDOWN \<and>
    sh_teardown_timeout (w_shell w' s) = Some 5000"
  using assms
  by (auto simp: shell_teardown_fires_def proto_shell_teardown_timeout_cb_def proto_shell_task_finish_def Let_def
      killed_tasks w_shell_upd shell_now_idle_def proto_shell_handler_def proto_shell_begin_teardown_def
      shell_run_keeps_sm)

text \<open>C4: waiting for the processes of a shell protocol ends. When the timer runs out in a teardown, both
processes are killed, the protocol is idle, and the interface is told \<open>IFPEV_DOWN\<close>; in an aborted setup
the teardown script is started with a new timer, and when that runs out too, the interface is told.\<close>

theorem shell_wait_ends:
  assumes "sh_teardown_timeout (w_shell w s) \<noteq> None" and "shell_waits (w_shell w s)"
  shows "\<exists>w'. (shell_teardown_fires E rec s w = proto_shell_event rec s IFPEV_DOWN w' \<or>
      (\<exists>w1. shell_teardown_fires E rec s w = Some w1 \<and>
            shell_teardown_fires E rec s w1 = proto_shell_event rec s IFPEV_DOWN w'))
    \<and> sh_sm (w_shell w' s) = S_IDLE \<and> sh_teardown_timeout (w_shell w' s) = None
    \<and> \<not> process_pending w' (ScriptTask s) \<and> \<not> process_pending w' (ProtoTask s)"
proof (cases "sh_sm (w_shell w s) = S_TEARDOWN")
  case True
  then show ?thesis using teardown_timeout_reports_down [OF assms(1), of E rec] by auto
next
  case False
  with assms(2) have "sh_sm (w_shell w s) = S_SETUP_ABORT" by (simp add: shell_waits_def)
  then obtain w1 where w1: "shell_teardown_fires E rec s w = Some w1" "sh_sm (w_shell w1 s) = S_TEARDOWN"
    "sh_teardown_timeout (w_shell w1 s) = Some 5000"
    using abort_timeout_begins_teardown [OF assms(1), of E rec] by blast
  then show ?thesis using teardown_timeout_reports_down [of w1 s E rec] by auto
qed

theorem shell_wait_ends_witness:
  "\<exists>w'. (shell_teardown_fires example_netifd (run example_netifd 3) 0 example_abort_world = proto_shell_event (run example_netifd 3) 0 IFPEV_DOWN w' \<or>
      (\<exists>w1. shell_teardown_fires example_netifd (run example_netifd 3) 0 example_abort_world = Some w1 \<and>
            shell_teardown_fires example_netifd (run example_netifd 3) 0 w1 = proto_shell_event (run example_netifd 3) 0 IFPEV_DOWN w'))
    \<and> sh_sm (w_shell w' 0) = S_IDLE \<and> sh_teardown_timeout (w_shell w' 0) = None
    \<and> \<not> process_pending w' (ScriptTask 0) \<and> \<not> process_pending w' (ProtoTask 0)"
  by (rule shell_wait_ends) (simp_all add: example_abort_shell shell_waits_def)

section \<open>A setup that could not be started\<close>

lemma w_shell_remove_user: "w_shell (interface_remove_user u w) = w_shell w"
  by (cases u) (simp_all add: interface_remove_user_def Let_def upd_if_def upd_dep_def)

text \<open>C24: a setup that fails to start blocks the protocol. When the configuration cannot be printed or
the script cannot be started, the setup of an idle shell protocol returns an error, so that the
interface goes down without a teardown; the state stays \<open>S_SETUP\<close>, with no script running, and every
later setup returns an error and does nothing.\<close>

theorem failed_setup_blocks_later_setups:
  assumes "sh_sm (w_shell w s) = S_IDLE" and "\<not> sh_script_task (w_shell w s)"
    and "we_json E (sh_config (w_shell w s)) = None \<or> (\<forall>out. \<not> we_fork E (ScriptTask s) out)"
  shows "\<exists>w'. proto_shell_handler E s PROTO_CMD_SETUP w = (-1, w') \<and> \<not> sh_script_task (w_shell w' s) \<and>
    proto_shell_handler E' s PROTO_CMD_SETUP w' = (-1, w')"
proof -
  let ?w1 = "proto_shell_clear_host_dep s (upd_shell s (\<lambda>x. x\<lparr>sh_last_error := -1\<rparr>) w)"
  let ?w2 = "upd_shell s (\<lambda>x. x\<lparr>sh_sm := S_SETUP\<rparr>) ?w1"
  have users: "w_shell (fold (\<lambda>k. interface_remove_user (ShellDep k)) ks x) = w_shell x" for ks x
    by (induction ks arbitrary: x) (simp_all add: w_shell_remove_user)
  have w2: "w_shell ?w2 s = (w_shell w s)\<lparr>sh_last_error := -1, sh_deps := [], sh_sm := S_SETUP\<rparr>"
    by (simp add: proto_shell_clear_host_dep_def w_shell_upd users)
  have "proto_shell_run E s ''setup'' [] ?w2 = (-1, ?w2)"
    using assms(2,3) w2
    by (auto simp: proto_shell_run_def Let_def netifd_start_process_def netifd_kill_process_def split: option.split)
  then have "proto_shell_handler E s PROTO_CMD_SETUP w = (-1, ?w2)"
    using assms(1) by (simp add: proto_shell_handler_def proto_shell_setup_def Let_def)
  then show ?thesis using w2 assms(2) by (simp add: proto_shell_handler_def proto_shell_setup_def)
qed

theorem failed_setup_blocks_later_setups_witness:
  "\<exists>w'. proto_shell_handler (example_netifd\<lparr>we_json := \<lambda>_. None\<rparr>) 7 PROTO_CMD_SETUP example_shell_world = (-1, w') \<and>
    \<not> sh_script_task (w_shell w' 7) \<and> proto_shell_handler example_netifd 7 PROTO_CMD_SETUP w' = (-1, w')"
  by (rule failed_setup_blocks_later_setups)
    (simp_all add: example_shell_world_def w_shell_upd upd_if_def example_world_def zero_shell_state_def)

section \<open>The teardown of the ISC DHCP client\<close>

lemma istate_frame: "ip_frame w w' \<Longrightarrow> istate w' = istate w"
  by (simp add: ip_frame_same same_state_def [THEN iffD1])

lemma istate_emit [simp]: "istate (emit x w) = istate w"
  by (simp add: istate_def emit_def fun_eq_iff)

lemma istate_update_complete [simp]: "istate (interface_update_complete E i w) = istate w"
  unfolding interface_update_complete_def interface_ip_update_complete_def Let_def
  using istate_frame [OF ip_update_frame(2) [OF ip_frame_refl]] by simp

lemma istate_flush_lease: "istate (flush_lease E i w) = istate w"
proof -
  have "istate (interface_update_start i False w) = istate w" by (rule istate_frame, rule settings_frame, simp)
  then show ?thesis by (simp add: flush_lease_def)
qed

text \<open>The reasons for which the client reports a lease.\<close>

definition lease_reasons :: "string list" where
  "lease_reasons = [''BOUND'', ''RENEW'', ''REBIND'', ''REBOOT'', ''BOUND6'', ''RENEW6'', ''REBIND6'']"

lemma isc_notify_state:
  assumes "isc_dhcp_notify E rec s tb w = Some (st, w')" and "attr_string tb ISC_REASON = Some reason"
    and "reason \<notin> set lease_reasons"
  shows "istate w' = istate w"
proof -
  have c: "reason \<notin> {''BOUND'', ''RENEW'', ''REBIND'', ''REBOOT''}" "reason \<notin> {''BOUND6'', ''RENEW6'', ''REBIND6''}"
    using assms(3) by (simp_all add: lease_reasons_def)
  have "istate x = istate w" if "isc_dhcp4_configure E rec s reason tb w = Some x" for x
    using that unfolding isc_dhcp4_configure_def Let_def if_not_P [OF c(1)]
    by (cases "reason = ''EXPIRE''") (auto simp only: if_True if_False option.inject istate_flush_lease refl)
  moreover have "istate x = istate w" if "isc_dhcp6_configure E rec s reason tb w = Some x" for x
    using that unfolding isc_dhcp6_configure_def Let_def if_not_P [OF c(2)]
    by (cases "reason \<in> {''DEREF6'', ''EXPIRE6'', ''RELEASE6'', ''STOP6''}") (auto simp only: if_True if_False option.inject istate_flush_lease)
  ultimately show ?thesis
    using assms(1,2) unfolding isc_dhcp_notify_def by (cases "ic_dhcpv6 (w_isc w s)") auto
qed

text \<open>C25: the teardown of an interface with the ISC DHCP client does not end. The handler does nothing
when the interface is to go down, so the client is not stopped; and neither the end of the client nor
any report of it other than a lease takes the interface out of the teardown.\<close>

theorem isc_teardown_never_ends:
  assumes "if_proto (w_ifs w i) = Some p" and "ps_cb p = IscDhcpHandler s" and "if_state (w_ifs w i) = IFS_TEARDOWN"
    and "inp = InProcessExit (IscDhcpClient s) ret \<or> inp = InRequest (ReqIfaceObject i (ReqNotifyProto msg))"
    and "attr_string (pm_isc msg) ISC_REASON = Some reason" and "reason \<notin> set lease_reasons"
    and "netifd_step E n inp w = Some w'"
  shows "proto_cmd E rec i PROTO_CMD_TEARDOWN force w = Some (0, w) \<and> if_state (w_ifs w' i) = IFS_TEARDOWN"
proof
  show "proto_cmd E rec i PROTO_CMD_TEARDOWN force w = Some (0, w)"
    using assms(1,2) by (simp add: proto_cmd_def isc_dhcp_handler_def)
  from assms(4) have "istate w' = istate w"
  proof
    assume "inp = InProcessExit (IscDhcpClient s) ret"
    then show ?thesis
      using assms(7)
      by (auto simp: netifd_process_cb_def process_callback_def istate_def upd_isc_def split: if_splits)
  next
    assume "inp = InRequest (ReqIfaceObject i (ReqNotifyProto msg))"
    then consider "w' = w" | st where "isc_dhcp_notify E (run E n) s (pm_isc msg) w = Some (st, w')"
      using assms(1,2,7)
      by (auto simp: netifd_iface_notify_proto_def plain_reply_def split: if_splits)
    then show ?thesis using isc_notify_state [OF _ assms(5,6)] by cases auto
  qed
  then show "if_state (w_ifs w' i) = IFS_TEARDOWN"
    using assms(3) by (simp add: istate_def fun_eq_iff)
qed

definition example_isc_world :: world where
  "example_isc_world = upd_isc 0 (\<lambda>_. zero_isc_state\<lparr>ic_client := True\<rparr>)
     (upd_if 0 (\<lambda>f. f\<lparr>if_state := IFS_TEARDOWN,
        if_proto := Some \<lparr>ps_handler = isc_dhcp_proto False, ps_cb = IscDhcpHandler 0, ps_config = None\<rparr>\<rparr>)
       example_world)"

definition empty_notify :: shell_notify where
  "empty_notify = \<lparr>sn_action = None, sn_error = None, sn_command = None, sn_env = None, sn_signal = None,
     sn_available = None, sn_link_up = None, sn_ifname = None, sn_addr_ext = None, sn_routes = None, sn_routes6 = None,
     sn_tunnel = None, sn_data = None, sn_keep = None, sn_host = None, sn_dns = None, sn_dns_search = None,
     sn_neighbors = None, sn_neighbors6 = None, sn_ip = \<lparr>po_tb = (\<lambda>_. None), po_array = (\<lambda>_. None)\<rparr>\<rparr>"

definition example_isc_message :: proto_message where
  "example_isc_message = \<lparr>pm_shell = empty_notify, pm_udhcp = (\<lambda>_. None),
     pm_isc = (\<lambda>_. None)(ISC_REASON := Some (AttrString ''RELEASE'')), pm_zcip = (\<lambda>_. None)\<rparr>"

theorem isc_teardown_never_ends_witness:
  "\<exists>w'. netifd_step example_netifd 3 (InProcessExit (IscDhcpClient 0) 0) example_isc_world = Some w' \<and>
     proto_cmd example_netifd (run example_netifd 3) 0 PROTO_CMD_TEARDOWN False example_isc_world = Some (0, example_isc_world)
     \<and> if_state (w_ifs w' 0) = IFS_TEARDOWN"
proof -
  let ?inp = "InProcessExit (IscDhcpClient 0) 0"
  have iface: "w_ifs example_isc_world 0 = (w_ifs example_world 0)\<lparr>if_state := IFS_TEARDOWN,
      if_proto := Some \<lparr>ps_handler = isc_dhcp_proto False, ps_cb = IscDhcpHandler 0, ps_config = None\<rparr>\<rparr>"
    by (simp add: example_isc_world_def upd_isc_def upd_if_def)
  obtain w' where w': "netifd_step example_netifd 3 ?inp example_isc_world = Some w'"
    by (simp add: netifd_process_cb_def process_callback_def example_isc_world_def upd_isc_def zero_isc_state_def)
  have "proto_cmd example_netifd (run example_netifd 3) 0 PROTO_CMD_TEARDOWN False example_isc_world = Some (0, example_isc_world)
     \<and> if_state (w_ifs w' 0) = IFS_TEARDOWN"
    by (rule isc_teardown_never_ends [where s = 0 and ret = 0 and msg = example_isc_message and reason = "''RELEASE''"
          and p = "\<lparr>ps_handler = isc_dhcp_proto False, ps_cb = IscDhcpHandler 0, ps_config = None\<rparr>",
          OF _ _ _ _ _ _ w'])
      (simp_all add: iface example_isc_message_def attr_string_def lease_reasons_def)
  with w' show ?thesis by blast
qed

end
