(* ===== verification/VlanProps.thy ===== *)
theory VlanProps
  imports Claims
begin

text \<open>
  Devices that are named \<open>base.number\<close>: the name of a VLAN device can be read back, the device is created
  on the device it names and is found again by its name. A dot that separates no VLAN number is shown to
  fail once.
\<close>

section \<open>Numbers and their text\<close>

lemma digit_val_digit: "n < 10 \<Longrightarrow> digit_val (char_of (48 + n)) = n"
  by (simp add: digit_val_def char_code_def Let_def)

lemma digits_val_append:
  "snd (digits_val b acc s) = [] \<Longrightarrow> digits_val b acc (s @ t) = digits_val b (fst (digits_val b acc s)) t"
  by (induction s arbitrary: acc) (auto split: if_splits)

lemma digits_val_digits_of: "digits_val 10 0 (digits_of n) = (n, [])"
proof (induction n rule: digits_of.induct)
  case (1 n)
  show ?case
  proof (cases "n < 10")
    case True
    then show ?thesis by (subst digits_of.simps) (simp add: digit_val_digit)
  next
    case False
    moreover have "digit_val (char_of (48 + n mod 10)) = n mod 10" by (rule digit_val_digit) simp
    ultimately show ?thesis
      using 1 by (subst digits_of.simps) (simp add: digits_val_append)
  qed
qed

lemma isdigit_digits_of: "c \<in> set (digits_of n) \<Longrightarrow> isdigit c"
proof (induction n rule: digits_of.induct)
  case (1 n)
  have *: "isdigit (char_of (48 + k))" if "k < 10" for k :: nat
    using that by (simp add: isdigit_def char_code_def)
  have "c \<in> set (if n < 10 then [char_of (48 + n)] else digits_of (n div 10) @ [char_of (48 + n mod 10)])"
    using 1(2) by (subst (asm) digits_of.simps)
  with 1(1) show ?case by (auto split: if_splits intro: *)
qed

lemma digits_of_nonempty [simp]: "digits_of n \<noteq> []"
  by (subst digits_of.simps) simp

lemma isdigit_hd_digits_of: "isdigit (hd (digits_of n))"
  by (rule isdigit_digits_of [of _ n]) simp

lemma isdigit_facts:
  assumes "isdigit c"
  shows "\<not> is_space c" "c \<noteq> CHR ''-''" "c \<noteq> CHR ''+''" "c \<noteq> CHR ''.''" "digit_val c < 10"
  using assms by (auto simp: isdigit_def is_space_def char_code_def digit_val_def Let_def)

lemma strtoul_digits_of: "n \<le> ULONG_MAX \<Longrightarrow> strtoul 10 (digits_of n) = (n, [])"
proof -
  assume n: "n \<le> ULONG_MAX"
  note h = isdigit_facts [OF isdigit_hd_digits_of, of n]
  obtain c cs where d: "digits_of n = c # cs" by (cases "digits_of n") auto
  have "dropWhile is_space (digits_of n) = digits_of n" using h d by simp
  then show ?thesis
    using h n digits_val_digits_of [of n] unfolding strtoul_def Let_def by (simp add: d split: prod.splits)
qed

lemma hd_digits_of: "n \<noteq> 0 \<Longrightarrow> hd (digits_of n) \<noteq> CHR ''0''"
proof (induction n rule: digits_of.induct)
  case (1 n)
  show ?case
  proof (cases "n < 10")
    case True
    have "digit_val (char_of (48 + n)) \<noteq> digit_val CHR ''0''"
      using 1(2) True by (simp add: digit_val_digit) (simp add: digit_val_def char_code_def)
    then show ?thesis using True by (subst digits_of.simps) auto
  next
    case False
    then have "hd (digits_of n) = hd (digits_of (n div 10))" by (subst digits_of.simps) simp
    then show ?thesis using 1(1) False by simp
  qed
qed

text \<open>With base 0 a number without leading zeros is decimal, too.\<close>

lemma strtoul0_digits_of: "strtoul 0 (digits_of n) = (min n ULONG_MAX, [])"
proof (cases "n = 0")
  case True
  have "digits_of 0 = ''0''" by code_simp
  then show ?thesis using True by (simp add: strtoul_def is_space_def char_code_def digit_val_def)
next
  case False
  note h = isdigit_facts [OF isdigit_hd_digits_of, of n] hd_digits_of [OF False]
  obtain c cs where d: "digits_of n = c # cs" by (cases "digits_of n") auto
  have "dropWhile is_space (digits_of n) = digits_of n" using h d by simp
  then show ?thesis
    using h digits_val_digits_of [of n] unfolding strtoul_def Let_def by (simp add: d min_def split: prod.splits)
qed

lemma vlan_number_digits_of: "n < 2 ^ 31 \<Longrightarrow> vlan_number dev (digits_of n) = Some (int n)"
proof -
  assume n: "n < 2 ^ 31"
  then have "n \<le> ULONG_MAX" by (simp add: ULONG_MAX_def)
  moreover have "c_int (to_u32 (int n)) = int n"
    using n by (simp add: c_int_def to_u32_def signed_of_int signed_take_bit_int_eq_self del: of_int_of_nat_eq)
  ultimately show ?thesis by (simp add: vlan_number_def strtoul_digits_of)
qed

section \<open>A new VLAN device\<close>

lemma split_vlan_base:
  "CHR ''.'' \<notin> set base \<Longrightarrow> split_vlan (base @ CHR ''.'' # s) = (base, Some s)"
proof -
  assume "CHR ''.'' \<notin> set base"
  then have "x \<in> set base \<Longrightarrow> x \<noteq> CHR ''.''" for x by auto
  then show ?thesis by (simp add: split_vlan_def takeWhile_append dropWhile_append)
qed

lemma split_vlan_digits_of: "split_vlan (digits_of n) = (digits_of n, None)"
proof -
  have "c \<noteq> CHR ''.''" if "c \<in> set (digits_of n)" for c
    using isdigit_facts(4) [OF isdigit_digits_of [OF that]] .
  then show ?thesis by (auto simp: split_vlan_def takeWhile_eq_all_conv)
qed

lemma vlan_name_of_nat: "vlan_name base (int n) = base @ CHR ''.'' # digits_of n"
  by (simp add: vlan_name_def format_d_def)

lemma broadcast_loop_skip:
  "set us \<inter> set (user_list alias (w_devs w d)) = {} \<Longrightarrow> broadcast_loop rec d alias ev us w = Some w"
  by (induction us) auto

lemma broadcast_unused:
  "dv_users (w_devs w d) = [] \<Longrightarrow> dv_aliases (w_devs w d) = [] \<Longrightarrow>
   device_broadcast_event E rec d ev w = Some w"
  by (simp add: device_broadcast_event_def broadcast_loop_skip user_list_def)

lemma set_ifindex_unused:
  assumes "dv_users (w_devs w d) = []" "dv_aliases (w_devs w d) = []"
  shows "device_set_ifindex E rec d k w = Some (upd_dev d (\<lambda>x. x\<lparr>dv_ifindex := k\<rparr>) w)"
proof (cases "dv_ifindex (w_devs w d) = k")
  case True
  then have "upd_dev d (\<lambda>x. x\<lparr>dv_ifindex := k\<rparr>) w = w" by (intro upd_dev_same) auto
  with True show ?thesis by (simp add: device_set_ifindex_def)
next
  case False
  then show ?thesis using assms by (simp add: device_set_ifindex_def broadcast_unused w_devs_upd_dev)
qed

text \<open>The device that \<open>vlan_create\<close> registers, before it becomes a user of the device below.\<close>

definition vlan_dev_of :: "device \<Rightarrow> int \<Rightarrow> int \<Rightarrow> device" where
  "vlan_dev_of p k ifindex = zero_device\<lparr>dv_hidden := dv_hidden p, dv_ifname := vlan_name (dv_ifname p) k,
     dv_type := DevOther ''VLAN'', dv_ifindex := ifindex, dv_default_config := True,
     dv_config_pending := True, dv_set_state := Some StateOfType\<rparr>"

lemma zero_device_unused: "dv_users zero_device = []" "dv_aliases zero_device = []" "\<not> dv_external zero_device"
  "dv_set_state zero_device = None" "dv_hotplug_ops zero_device = None"
  by (simp_all add: zero_device_def)

lemma store_vlan_simps [simp]:
  "w_vlan (upd_dev d f w) = w_vlan w" "w_devlist (upd_dev d f w) = w_devlist w"
  "w_vlan (klog_do q w) = w_vlan w" "w_devlist (klog_do q w) = w_devlist w"
  "w_devs (upd_vlan d g w) = w_devs w" "w_devlist (upd_vlan d g w) = w_devlist w"
  "w_vlan (upd_vlan d g w) = (w_vlan w)(d := g (w_vlan w d))"
  "w_vlan (devices_insert d w) = w_vlan w" "w_devs (devices_insert d w) = w_devs w"
  by (simp_all add: upd_dev_def klog_do_def upd_vlan_def devices_insert_def)

lemma init_vlan_device:
  assumes "dv_ifname dev = name" "dv_set_state dev = None" "\<not> dv_external dev"
    and "w_devs w d = dev"
  obtains wi r where "device_init E rec d (DevOther n) None w = Some (0, wi)"
    "w_devs wi = (w_devs w)(d := dev\<lparr>dv_users := [], dv_aliases := [], dv_type := DevOther n,
       dv_set_state := Some StateDefault, dv_ifindex := r\<rparr>)"
    "w_vlan wi = w_vlan w"
    "w_devlist wi = avl_insert_dup (\<lambda>a b. strcmp (dv_ifname (w_devs w a)) (dv_ifname (w_devs w b))) d (w_devlist w)"
proof -
  let ?dev = "dev\<lparr>dv_users := [], dv_aliases := [], dv_type := DevOther n, dv_set_state := Some StateDefault\<rparr>"
  let ?w1 = "devices_insert d (upd_dev d (\<lambda>_. ?dev) w)"
  define r where "r = we_if_resolve E d (w_log ?w1)"
  define w2 where "w2 = upd_dev d (\<lambda>x. x\<lparr>dv_ifindex := r\<rparr>) (klog_do (KIfResolve d) ?w1)"
  have init: "device_init_virtual E rec d (DevOther n) None w = Some (0, upd_dev d (\<lambda>_. ?dev) w)"
    using assms by (simp add: device_init_virtual_def upd_dev_def)
  have names: "dv_ifname (((w_devs w)(d := ?dev)) a) = dv_ifname (w_devs w a)" for a
    using assms by simp
  have w2: "w_devs w2 = (w_devs w)(d := ?dev\<lparr>dv_ifindex := r\<rparr>)" "w_vlan w2 = w_vlan w"
    "w_devlist w2 = avl_insert_dup (\<lambda>a b. strcmp (dv_ifname (w_devs w a)) (dv_ifname (w_devs w b))) d (w_devlist w)"
    unfolding w2_def
    by (simp add: devices_insert_def upd_dev_def klog_do_def)
      (simp_all add: devices_insert_def upd_dev_def klog_do_def names del: fun_upd_apply)
  have "system_if_clear_state E rec d ?w1 = Some (if r = 0 then w2 else klog_do (KIfClearState d) w2)"
    using assms(3) by (simp add: system_if_clear_state_def set_ifindex_unused w_devs_upd_dev r_def [symmetric] w2_def [symmetric])
       (simp add: w2(1))
  then have "device_init E rec d (DevOther n) None w = Some (0, if r = 0 then w2 else klog_do (KIfClearState d) w2)"
    using init by (simp add: device_init_def)
  then show thesis by (rule that [of _ r]) (simp_all add: w2)
qed

lemma vlan_create_registers:
  assumes "length (vlan_name (dv_ifname (w_devs w p)) k) < 16" and "p \<noteq> w_next_dev w"
  obtains wn r where
    "vlan_create E rec p k w =
       map_option (Pair (Some (w_next_dev w))) (device_add_user_to rec (UVlan (w_next_dev w)) p wn)"
    "w_devs wn = (w_devs w)(w_next_dev w := vlan_dev_of (w_devs w p) k r)"
    "w_vlan wn = (w_vlan w)(w_next_dev w := zero_vlan_device\<lparr>vl_id := k\<rparr>)"
    "w_devlist wn = avl_insert_dup (\<lambda>a b. strcmp (dv_ifname (w_devs wn a)) (dv_ifname (w_devs wn b)))
       (w_next_dev w) (w_devlist w)"
proof -
  let ?d = "w_next_dev w"
  let ?dev = "zero_device\<lparr>dv_hidden := dv_hidden (w_devs w p), dv_ifname := vlan_name (dv_ifname (w_devs w p)) k\<rparr>"
  let ?w1 = "upd_vlan ?d (\<lambda>_. zero_vlan_device\<lparr>vl_id := k\<rparr>) (upd_dev ?d (\<lambda>_. ?dev) (w\<lparr>w_next_dev := ?d + 1\<rparr>))"
  obtain wi r where wi: "device_init E rec ?d (DevOther ''VLAN'') None ?w1 = Some (0, wi)"
    "w_devs wi = (w_devs ?w1)(?d := ?dev\<lparr>dv_users := [], dv_aliases := [], dv_type := DevOther ''VLAN'',
       dv_set_state := Some StateDefault, dv_ifindex := r\<rparr>)" "w_vlan wi = w_vlan ?w1"
    "w_devlist wi = avl_insert_dup (\<lambda>a b. strcmp (dv_ifname (w_devs ?w1 a)) (dv_ifname (w_devs ?w1 b))) ?d (w_devlist ?w1)"
    by (rule init_vlan_device [of ?dev _ ?w1 ?d E rec "''VLAN''"]) (simp_all add: zero_device_unused w_devs_upd_dev)
  define wn where "wn = vlan_hotplug_check ?d (du_dev (vl_dep (w_vlan wi ?d)))
    (upd_dev ?d (\<lambda>x. x\<lparr>dv_default_config := True, dv_config_pending := True, dv_set_state := Some StateOfType\<rparr>) wi)"
  have user: "get_user wn (UVlan ?d) = zero_device_user"
    by (simp add: wn_def vlan_hotplug_check_def wi(3) zero_vlan_device_def)
  have devs: "w_devs wn = (w_devs w)(?d := vlan_dev_of (w_devs w p) k r)"
    by (simp add: wn_def vlan_hotplug_check_def wi(2,3) w_devs_upd_dev vlan_dev_of_def zero_vlan_device_def
        zero_device_user_def) (simp add: upd_dev_def fun_eq_iff zero_device_def)
  show thesis
  proof (rule that [of wn r])
    show "w_devs wn = (w_devs w)(?d := vlan_dev_of (w_devs w p) k r)" by (rule devs)
    show "w_vlan wn = (w_vlan w)(?d := zero_vlan_device\<lparr>vl_id := k\<rparr>)"
      by (simp add: wn_def vlan_hotplug_check_def wi(3) upd_dev_def)
    have "dv_ifname (w_devs wn a) = dv_ifname (w_devs ?w1 a)" for a
      by (simp add: devs vlan_dev_of_def upd_dev_def)
    then show "w_devlist wn = avl_insert_dup (\<lambda>a b. strcmp (dv_ifname (w_devs wn a)) (dv_ifname (w_devs wn b))) ?d (w_devlist w)"
      using wi(4) by (simp add: wn_def vlan_hotplug_check_def)
    show "vlan_create E rec p k w = map_option (Pair (Some ?d)) (device_add_user_to rec (UVlan ?d) p wn)"
      using assms wi(1) user
      by (simp add: vlan_create_def Let_def wn_def [symmetric] device_add_user_def zero_device_user_def
          map_option_case bind_eq_Some_conv split: option.split)
  qed
qed

text \<open>What the new device hears when the device below is there.\<close>

lemma vlan_user_events:
  assumes "dv_users (w_devs w d) = []" "dv_aliases (w_devs w d) = []"
    and "\<not> dv_sys_present (w_devs w d)" "\<not> dv_present (w_devs w d)" "\<not> dv_disabled (w_devs w d)"
    "\<not> dv_deferred (w_devs w d)"
  shows "run E (Suc n) (CUser (UVlan d) DEV_EVENT_ADD) w =
      Some (0, upd_dev d (\<lambda>x. x\<lparr>dv_sys_present := True, dv_present := True\<rparr>) w)"
  using assms
  by (simp add: vlan_dev_cb_def device_set_present_def device_refresh_present_def Let_def
      device_set_present_flag_def broadcast_unused w_devs_upd_dev) (simp add: upd_dev_def)

lemma vlan_user_quiet:
  "run E (Suc n) (CUser (UVlan d) DEV_EVENT_UP) w = Some (0, w)"
  "run E (Suc n) (CUser (UVlan d) DEV_EVENT_LINK_UP) w = Some (0, w)"
  by (simp_all add: vlan_dev_cb_def)

lemma vlan_joins:
  assumes "d \<noteq> p" "w_devs w d = vlan_dev_of q k r" "\<not> du_alias (vl_dep (w_vlan w d))"
  shows "device_add_user_to (run E (Suc n)) (UVlan d) p w =
     Some (upd_dev d (\<lambda>x. if dv_present (w_devs w p) then x\<lparr>dv_sys_present := True, dv_present := True\<rparr> else x)
       (upd_dev p (\<lambda>x. x\<lparr>dv_users := dv_users x @ [UVlan d]\<rparr>)
          (upd_vlan d (\<lambda>x. x\<lparr>vl_dep := (vl_dep x)\<lparr>du_dev := Some p\<rparr>\<rparr>) w)))"
proof -
  let ?w1 = "upd_dev p (\<lambda>x. x\<lparr>dv_users := dv_users x @ [UVlan d]\<rparr>)
          (upd_vlan d (\<lambda>x. x\<lparr>vl_dep := (vl_dep x)\<lparr>du_dev := Some p\<rparr>\<rparr>) w)"
  have add: "run E (Suc n) (CUser (UVlan d) DEV_EVENT_ADD) ?w1 =
      Some (0, upd_dev d (\<lambda>x. x\<lparr>dv_sys_present := True, dv_present := True\<rparr>) ?w1)"
    by (rule vlan_user_events) (use assms in \<open>simp_all add: w_devs_upd_dev vlan_dev_of_def zero_device_def\<close>)
  have same: "upd_dev d (\<lambda>x. x) v = v" for v by (simp add: upd_dev_def)
  show ?thesis
    using assms(1,3) add
    by (simp add: device_add_user_to_def list_add_user_def Let_def w_devs_upd_dev call_void_def vlan_user_quiet same
        del: run.simps)
qed

section \<open>Names of devices\<close>

lemma set_avl_insert_dup: "set (avl_insert_dup cmp x xs) = insert x (set xs)"
  by (induction xs) auto

lemma find_avl_insert_dup:
  "\<not> P x \<Longrightarrow> find P (avl_insert_dup cmp x xs) = find P xs"
  by (induction xs) auto

lemma find_avl_insert_dup_new:
  "P x \<Longrightarrow> find P xs = None \<Longrightarrow> find P (avl_insert_dup cmp x xs) = Some x"
  by (induction xs) (auto split: if_splits)

lemma find_cong_set: "(\<And>x. x \<in> set xs \<Longrightarrow> P x = Q x) \<Longrightarrow> find P xs = find Q xs"
  by (induction xs) auto

lemma device_find_new:
  assumes "w_devlist w' = avl_insert_dup cmp d (w_devlist w)"
    and "\<And>e. dv_ifname (w_devs w' e) = (if e = d then new else dv_ifname (w_devs w e))"
    and "\<And>e. e \<in> set (w_devlist w) \<Longrightarrow> e \<noteq> d" and "device_find w new = None"
  shows "device_find w' name = (if name = new then Some d else device_find w name)"
proof -
  have old: "find (\<lambda>e. dv_ifname (w_devs w' e) = name) (w_devlist w) = device_find w name"
    unfolding device_find_def using assms(2,3) by (intro find_cong_set) auto
  show ?thesis
  proof (cases "name = new")
    case True
    then show ?thesis
      using assms(1,4) assms(2) [of d] old unfolding device_find_def [of w']
      by (simp add: find_avl_insert_dup_new del: if_split)
  next
    case False
    then show ?thesis
      using assms(1) assms(2) [of d] old unfolding device_find_def [of w'] by (simp add: find_avl_insert_dup)
  qed
qed

lemma take_1_vlan_name: "vlan_name base k \<noteq> [] \<and> (hd (vlan_name base k) = CHR ''@'' \<longleftrightarrow> take 1 base = ''@'')"
  by (cases base) (simp_all add: vlan_name_def)

lemma device_get_chain:
  assumes "device_find w base = Some p" and "CHR ''.'' \<notin> set base" and "take 1 base \<noteq> ''@''"
    and "device_find w (vlan_name base (int k)) = None"
  shows "device_get (netifd_env E) rec (vlan_name base (int k)) 1 w = vlan_loop (with_alias E) rec p (digits_of k) 1 w"
proof -
  have "device_get_plain (with_alias E) rec base 1 w = Some (Some p, w)"
    using assms(1,3) by (cases base) (simp_all add: device_get_plain_def)
  then show ?thesis
    using assms(2,4) isdigit_hd_digits_of [of k]
    by (simp add: device_get_def netifd_env_def with_types_def with_vlan_def get_vlan_device_chain_def
        vlan_name_of_nat split_vlan_base)
qed

text \<open>Every registered device has an identifier that was handed out.\<close>

definition ids_used :: "world \<Rightarrow> bool" where
  "ids_used w \<longleftrightarrow> (\<forall>d \<in> set (w_devlist w). d < w_next_dev w)"

text \<open>C30: a device that is asked for by the name \<open>base.number\<close>, where \<open>base\<close> is a known device without such a
VLAN and the name fits, is created: a VLAN device of that name and number on \<open>base\<close>, present exactly when
\<open>base\<close> is. From then on the name finds it, without any change, and all other names find what they found
before. One level of callbacks is enough.\<close>

theorem vlan_device_by_name:
  fixes w :: world and k :: nat
  defines "d \<equiv> w_next_dev w"
  assumes "device_find w base = Some p" and "CHR ''.'' \<notin> set base" and "take 1 base \<noteq> ''@''"
    and "k < 2 ^ 31" and "length (vlan_name base (int k)) < 16"
    and "device_find w (vlan_name base (int k)) = None"
    and "find_vlan_user w (int k) (dv_users (w_devs w p)) = None" and "ids_used w"
  shows "\<exists>w'. device_get (netifd_env E) (run (netifd_env E) (Suc n)) (vlan_name base (int k)) 1 w = Some (Some d, w') \<and>
     dv_ifname (w_devs w' d) = vlan_name base (int k) \<and> dv_type (w_devs w' d) = DevOther ''VLAN'' \<and>
     vl_id (w_vlan w' d) = int k \<and> du_dev (vl_dep (w_vlan w' d)) = Some p \<and>
     dv_users (w_devs w' p) = dv_users (w_devs w p) @ [UVlan d] \<and>
     dv_present (w_devs w' d) = dv_present (w_devs w p) \<and>
     device_get (netifd_env E) (run (netifd_env E) (Suc n)) (vlan_name base (int k)) 1 w' = Some (Some d, w') \<and>
     (\<forall>name. name \<noteq> vlan_name base (int k) \<longrightarrow> device_find w' name = device_find w name)"
proof -
  let ?E = "netifd_env E" and ?rec = "run (netifd_env E) (Suc n)" and ?name = "vlan_name base (int k)"
  have p: "p \<in> set (w_devlist w)" "dv_ifname (w_devs w p) = base"
    using assms(2) unfolding device_find_def by (auto simp: find_Some_iff)
  then have fresh: "p \<noteq> d" "\<And>e. e \<in> set (w_devlist w) \<Longrightarrow> e \<noteq> d"
    using assms(9) unfolding d_def by (auto simp: ids_used_def)
  obtain wn r where wn: "vlan_create (with_alias E) ?rec p (int k) w = map_option (Pair (Some d)) (device_add_user_to ?rec (UVlan d) p wn)"
    "w_devs wn = (w_devs w)(d := vlan_dev_of (w_devs w p) (int k) r)"
    "w_vlan wn = (w_vlan w)(d := zero_vlan_device\<lparr>vl_id := int k\<rparr>)"
    "w_devlist wn = avl_insert_dup (\<lambda>a b. strcmp (dv_ifname (w_devs wn a)) (dv_ifname (w_devs wn b))) d (w_devlist w)"
    using vlan_create_registers [of w p "int k" "with_alias E" ?rec] assms(6) p fresh(1) unfolding d_def by blast
  define w' where "w' = upd_dev d (\<lambda>x. if dv_present (w_devs wn p) then x\<lparr>dv_sys_present := True, dv_present := True\<rparr> else x)
       (upd_dev p (\<lambda>x. x\<lparr>dv_users := dv_users x @ [UVlan d]\<rparr>)
          (upd_vlan d (\<lambda>x. x\<lparr>vl_dep := (vl_dep x)\<lparr>du_dev := Some p\<rparr>\<rparr>) wn))"
  have join: "device_add_user_to ?rec (UVlan d) p wn = Some w'"
    unfolding w'_def
    by (rule vlan_joins) (use fresh wn in \<open>simp_all add: zero_vlan_device_def zero_device_user_def\<close>)
  have loop: "vlan_loop (with_alias E) ?rec p (digits_of k) 1 w = Some (Some d, w')"
    using assms(5,8) wn(1) join
    by (subst vlan_loop.simps) (simp add: split_vlan_digits_of get_vlan_device_def vlan_number_digits_of del: run.simps)
  have get: "device_get ?E ?rec ?name 1 w = Some (Some d, w')"
    using loop device_get_chain [OF assms(2-4,7), of E ?rec] by (simp del: run.simps)
  have names: "dv_ifname (w_devs w' e) = (if e = d then ?name else dv_ifname (w_devs w e))" for e
    using p wn(2) fresh by (simp add: w'_def upd_dev_def vlan_dev_of_def)
  have list: "w_devlist w' = w_devlist wn" by (simp add: w'_def)
  have find: "device_find w' name = (if name = ?name then Some d else device_find w name)" for name
    by (rule device_find_new [OF _ names fresh(2) assms(7)]) (simp add: w'_def wn(4))
  have again: "device_get ?E ?rec ?name 1 w' = Some (Some d, w')"
    using assms(4) find by (simp add: device_get_def device_get_plain_def take_1_vlan_name del: run.simps)
  have fields: "dv_type (w_devs w' d) = DevOther ''VLAN''" "vl_id (w_vlan w' d) = int k" "du_dev (vl_dep (w_vlan w' d)) = Some p"
    "dv_users (w_devs w' p) = dv_users (w_devs w p) @ [UVlan d]" "dv_present (w_devs w' d) = dv_present (w_devs w p)"
    using wn(2,3) fresh(1) by (simp_all add: w'_def w_devs_upd_dev vlan_dev_of_def zero_device_def)
  show ?thesis using get names [of d] fields again find by (intro exI [of _ w']) simp
qed

lemma example_find: "device_find example_world name = (if name = ''eth0'' then Some 0 else None)"
  by (simp add: device_find_def example_world_def example_device_def)

lemma digits_of_5: "digits_of 5 = ''5''"
  by code_simp

theorem vlan_device_by_name_witness:
  "\<exists>w'. device_get example_netifd (run example_netifd (Suc 0)) ''eth0.5'' 1 example_world = Some (Some 1, w') \<and>
     dv_ifname (w_devs w' 1) = ''eth0.5'' \<and> dv_present (w_devs w' 1) \<and> vl_id (w_vlan w' 1) = 5 \<and>
     dv_users (w_devs w' 0) = [UMain 0, UVlan 1] \<and> device_find w' ''eth0'' = Some 0"
proof -
  have facts: "w_next_dev example_world = 1" "dv_users (w_devs example_world 0) = [UMain 0]"
    "dv_present (w_devs example_world 0)" "ids_used example_world"
    by (simp_all add: example_world_def example_device_def ids_used_def)
  have name: "vlan_name ''eth0'' 5 = ''eth0.5''"
    using vlan_name_of_nat [of "''eth0''" 5] digits_of_5 by simp
  let ?get = "device_get example_netifd (run example_netifd (Suc 0))"
  have "\<exists>w'. ?get (vlan_name ''eth0'' (int 5)) 1 example_world = Some (Some (w_next_dev example_world), w') \<and>
     dv_ifname (w_devs w' (w_next_dev example_world)) = vlan_name ''eth0'' (int 5) \<and>
     dv_type (w_devs w' (w_next_dev example_world)) = DevOther ''VLAN'' \<and>
     vl_id (w_vlan w' (w_next_dev example_world)) = int 5 \<and>
     du_dev (vl_dep (w_vlan w' (w_next_dev example_world))) = Some 0 \<and>
     dv_users (w_devs w' 0) = dv_users (w_devs example_world 0) @ [UVlan (w_next_dev example_world)] \<and>
     dv_present (w_devs w' (w_next_dev example_world)) = dv_present (w_devs example_world 0) \<and>
     ?get (vlan_name ''eth0'' (int 5)) 1 w' = Some (Some (w_next_dev example_world), w') \<and>
     (\<forall>name. name \<noteq> vlan_name ''eth0'' (int 5) \<longrightarrow> device_find w' name = device_find example_world name)"
    unfolding example_netifd_def
    by (rule vlan_device_by_name) (simp_all add: facts name example_find)
  then obtain w' where "?get ''eth0.5'' 1 example_world = Some (Some 1, w')" "dv_ifname (w_devs w' 1) = ''eth0.5''"
    "vl_id (w_vlan w' 1) = 5" "dv_users (w_devs w' 0) = [UMain 0, UVlan 1]" "dv_present (w_devs w' 1)"
    "\<And>name. name \<noteq> ''eth0.5'' \<Longrightarrow> device_find w' name = device_find example_world name"
    by (auto simp: facts name simp del: run.simps)
  then show ?thesis by (intro exI [of _ w'] conjI) (simp_all add: example_find del: run.simps)
qed

section \<open>A dot that is no separator\<close>

text \<open>A step that leaves the names and what device \<open>d\<close> is used for.\<close>

definition kept :: "did \<Rightarrow> world \<Rightarrow> world \<Rightarrow> bool" where
  "kept d w w' \<longleftrightarrow> w_devlist w' = w_devlist w \<and> (\<forall>e. dv_ifname (w_devs w' e) = dv_ifname (w_devs w e)) \<and>
     dv_users (w_devs w' d) = dv_users (w_devs w d) \<and> dv_aliases (w_devs w' d) = dv_aliases (w_devs w d) \<and>
     dv_vlan_aliases (w_devs w' d) = dv_vlan_aliases (w_devs w d) \<and> dv_type (w_devs w' d) = dv_type (w_devs w d)"

definition unused_dev :: "did \<Rightarrow> world \<Rightarrow> bool" where
  "unused_dev d w \<longleftrightarrow> dv_users (w_devs w d) = [] \<and> dv_aliases (w_devs w d) = []"

lemma kept_refl: "kept d w w"
  by (simp add: kept_def)

lemma kept_trans: "kept d w1 w2 \<Longrightarrow> kept d w2 w3 \<Longrightarrow> kept d w1 w3"
  by (simp add: kept_def)

lemma kept_unused: "kept d w w' \<Longrightarrow> unused_dev d w \<Longrightarrow> unused_dev d w'"
  by (simp add: kept_def unused_dev_def)

lemma kept_klog: "kept d w (klog_do q w)"
  by (simp add: kept_def)

lemma kept_upd:
  "(\<And>x. dv_ifname (f x) = dv_ifname x \<and> dv_users (f x) = dv_users x \<and> dv_aliases (f x) = dv_aliases x \<and>
     dv_vlan_aliases (f x) = dv_vlan_aliases x \<and> dv_type (f x) = dv_type x) \<Longrightarrow> kept d w (upd_dev d f w)"
  by (simp add: kept_def) (simp add: upd_dev_def)

text \<open>What happens to a device that nobody uses concerns nobody else.\<close>

lemma unused_quiet: "unused_dev d w \<Longrightarrow> device_broadcast_event E rec d ev w = Some w"
  by (simp add: unused_dev_def broadcast_unused)

lemma unused_upd:
  assumes "unused_dev d w" and "kept d w (upd_dev d f w)"
  shows "device_broadcast_event E rec d ev (upd_dev d f w) = Some (upd_dev d f w)"
  using assms by (intro unused_quiet) (rule kept_unused)

lemma set_present_unused:
  assumes "unused_dev d w"
  shows "\<exists>w'. device_set_present E rec d b w = Some w' \<and> kept d w w'"
proof -
  let ?w = "upd_dev d (\<lambda>x. x\<lparr>dv_sys_present := b\<rparr>) w"
  have k: "kept d w ?w" by (rule kept_upd) simp
  have "\<exists>w'. device_set_present_flag E rec d s ?w = Some w' \<and> kept d w w'" for s
  proof -
    have k': "kept d ?w (upd_dev d (\<lambda>x. x\<lparr>dv_present := s\<rparr>) ?w)" by (rule kept_upd) simp
    show ?thesis
      using unused_upd [OF kept_unused [OF k assms] k'] kept_trans [OF k k'] k
      by (simp add: device_set_present_flag_def)
  qed
  then show ?thesis
    by (simp add: device_set_present_def device_refresh_present_def Let_def kept_refl)
qed

lemma set_link_unused:
  assumes "unused_dev d w"
  shows "\<exists>w'. device_set_link E rec d b w = Some w' \<and> kept d w w'"
proof -
  let ?w = "upd_dev d (\<lambda>x. x\<lparr>dv_link_active := b\<rparr>) w"
  have k: "kept d w ?w" by (rule kept_upd) simp
  have k2: "kept d ?w (upd_dev d (\<lambda>x. x\<lparr>dv_auth_status := False\<rparr>) ?w)" by (rule kept_upd) simp
  show ?thesis
    using unused_upd [OF assms k] unused_upd [OF kept_unused [OF k assms] k2] k kept_trans [OF k k2]
    by (cases b) (simp_all add: device_set_link_def Let_def kept_refl)
qed

lemma if_check_unused:
  assumes "unused_dev d w"
  shows "\<exists>r w'. system_if_check E rec d w = Some (r, w') \<and> kept d w w'"
proof -
  have step: "\<exists>w1 w2. (if s then device_set_present E rec d b w else Some w) = Some w1 \<and>
      device_set_link E rec d l w1 = Some w2 \<and> kept d w w2" for s b l
  proof -
    obtain w1 where w1: "(if s then device_set_present E rec d b w else Some w) = Some w1" "kept d w w1"
      using set_present_unused [OF assms, of E rec b] kept_refl [of d w] by (cases s) auto
    then show ?thesis using set_link_unused [OF kept_unused [OF w1(2) assms], of E rec l] by (auto intro: kept_trans)
  qed
  show ?thesis
  proof (cases "we_if_check E d (w_log w)")
    case (CheckLink j l)
    then show ?thesis using step [of "dv_type (w_devs w d) = DevSimple" "j > 0" l]
      by (auto simp: system_if_check_def)
  next
    case (CheckError e)
    then show ?thesis using step [of "dv_type (w_devs w d) = DevSimple" False False]
      by (auto simp: system_if_check_def)
  qed
qed

lemma clear_state_unused:
  assumes "unused_dev d w"
  shows "\<exists>w'. system_if_clear_state E rec d w = Some w' \<and> kept d w w'"
proof -
  let ?w1 = "klog_do (KIfResolve d) w"
  let ?w2 = "upd_dev d (\<lambda>x. x\<lparr>dv_ifindex := we_if_resolve E d (w_log w)\<rparr>) ?w1"
  have k: "kept d w ?w2" by (rule kept_trans [OF kept_klog kept_upd]) simp
  have "device_set_ifindex E rec d (we_if_resolve E d (w_log w)) ?w1 = Some ?w2"
    using assms by (intro set_ifindex_unused) (simp_all add: unused_dev_def)
  then show ?thesis
    using k kept_trans [OF k kept_klog] by (simp add: system_if_clear_state_def)
qed

lemma create_default_new:
  assumes "\<not> we_force_external E name" "name \<noteq> []" "length name \<le> 16" "w_next_dev w \<notin> set (w_devlist w)"
  obtains w' cmp where "device_create_default E rec name False w = Some (Some (w_next_dev w), w')"
    "w_devlist w' = avl_insert_dup cmp (w_next_dev w) (w_devlist w)"
    "\<And>e. dv_ifname (w_devs w' e) = (if e = w_next_dev w then name else dv_ifname (w_devs w e))"
    "dv_vlan_aliases (w_devs w' (w_next_dev w)) = dv_vlan_aliases zero_device"
proof -
  let ?d = "w_next_dev w"
  let ?dev = "zero_device\<lparr>dv_set_state := Some StateSimple, dv_users := [], dv_aliases := [], dv_type := DevSimple\<rparr>"
  let ?w1 = "upd_dev ?d (\<lambda>_. zero_device\<lparr>dv_external := False, dv_set_state := Some StateSimple\<rparr>) (w\<lparr>w_next_dev := ?d + 1\<rparr>)"
  let ?w2 = "upd_dev ?d (\<lambda>_. ?dev\<lparr>dv_ifname := name\<rparr>) (w\<lparr>w_next_dev := ?d + 1\<rparr>)"
  let ?w3 = "devices_insert ?d ?w2"
  have zero: "dv_ifname zero_device = []" and not_ext: "zero_device\<lparr>dv_external := False\<rparr> = zero_device"
    by (simp_all add: zero_device_def)
  have "unused_dev ?d ?w2" by (simp add: unused_dev_def w_devs_upd_dev)
  then have u3: "unused_dev ?d ?w3" by (simp add: unused_dev_def)
  have upd: "upd_dev ?d f (upd_dev ?d g v) = upd_dev ?d (\<lambda>x. f (g x)) v" for f g v by (simp add: upd_dev_def)
  have "device_delete ?d (upd_dev ?d (\<lambda>_. ?dev) (w\<lparr>w_next_dev := ?d + 1\<rparr>)) = upd_dev ?d (\<lambda>_. ?dev) (w\<lparr>w_next_dev := ?d + 1\<rparr>)"
    using assms(4) by (simp add: device_delete_def upd_dev_def)
  then have "device_set_ifname E rec ?d name (upd_dev ?d (\<lambda>_. ?dev) (w\<lparr>w_next_dev := ?d + 1\<rparr>)) = Some (0, ?w2)"
    using assms(2-4) by (simp add: device_set_ifname_def w_devs_upd_dev zero upd broadcast_unused)
  then have "device_init_virtual E rec ?d DevSimple (Some name) ?w1 = Some (0, ?w2)"
    by (simp add: device_init_virtual_def upd not_ext) (simp add: upd_dev_def zero_device_def)
  moreover obtain w4 where w4: "system_if_clear_state E rec ?d ?w3 = Some w4" "kept ?d ?w3 w4"
    using clear_state_unused [OF u3] by blast
  ultimately have init: "device_init E rec ?d DevSimple (Some name) ?w1 = Some (0, w4)"
    by (simp add: device_init_def)
  let ?w5 = "upd_dev ?d (\<lambda>x. x\<lparr>dv_default_config := True\<rparr>) w4"
  have k5: "kept ?d ?w3 ?w5" by (rule kept_trans [OF w4(2) kept_upd]) simp
  obtain r w6 where w6: "system_if_check E rec ?d ?w5 = Some (r, w6)" "kept ?d ?w5 w6"
    using if_check_unused [OF kept_unused [OF k5 u3]] by blast
  have k6: "kept ?d ?w3 w6" by (rule kept_trans [OF k5 w6(2)])
  have "dv_type (w_devs ?w5 ?d) = DevSimple" using k5 by (simp add: kept_def w_devs_upd_dev)
  then have "device_create_default E rec name False w = Some (Some ?d, w6)"
    using assms(1) init w6(1) by (simp add: device_create_default_def device_check_state_def)
  then show thesis
    by (rule that) (use k6 in \<open>simp_all add: kept_def devices_insert_def upd_dev_def\<close>)
qed

text \<open>C36: a dot in a name is not always a separator: the part behind it may be neither a number nor an alias of a
VLAN of the device, as for the station devices of an access point. When such a name is asked for the first
time, \<open>get_vlan_device_chain\<close> creates the device, then takes the part for a VLAN of it after all and fails. The
device is there, and when the same name is asked for again it is found.\<close>

theorem dotted_name_fails_once:
  assumes "device_find w base = Some p" and "CHR ''.'' \<notin> set base" and "take 1 base \<noteq> ''@''"
    and "CHR ''.'' \<notin> set part" and "part = [] \<or> \<not> isdigit (hd part)"
    and "vlan_number (w_devs w p) part = None"
    and "length (base @ ''.'' @ part) \<le> 16" and "\<not> we_force_external E (base @ ''.'' @ part)"
    and "device_find w (base @ ''.'' @ part) = None" and "ids_used w"
  shows "\<exists>w'. device_get (netifd_env E) rec (base @ ''.'' @ part) 1 w = Some (None, w') \<and>
     device_find w' (base @ ''.'' @ part) = Some (w_next_dev w) \<and>
     device_get (netifd_env E) rec (base @ ''.'' @ part) 1 w' = Some (Some (w_next_dev w), w')"
proof -
  let ?name = "base @ ''.'' @ part" and ?d = "w_next_dev w" and ?E = "with_alias E"
  have fresh: "e \<noteq> ?d" if "e \<in> set (w_devlist w)" for e using assms(10) that by (auto simp: ids_used_def)
  have at: "take 1 ?name \<noteq> ''@''" using assms(3) by (cases base) simp_all
  have plain: "device_get_plain ?E rec base 1 w = Some (Some p, w)"
    using assms(1,3) by (cases base) (simp_all add: device_get_plain_def)
  obtain w' cmp where new: "device_create_default ?E rec ?name False w = Some (Some ?d, w')"
    "w_devlist w' = avl_insert_dup cmp ?d (w_devlist w)"
    "\<And>e. dv_ifname (w_devs w' e) = (if e = ?d then ?name else dv_ifname (w_devs w e))"
    "dv_vlan_aliases (w_devs w' ?d) = dv_vlan_aliases zero_device"
    by (rule create_default_new [of ?E ?name w rec]) (use assms(7,8) fresh in \<open>auto simp: with_alias_def\<close>)
  have number: "vlan_number (w_devs w' ?d) part = None" "vlan_number (w_devs w p) part = None"
    using assms(6) new(4) by (auto simp: vlan_number_def zero_device_def split: prod.splits if_splits)
  have split: "split_vlan ?name = (base, Some part)" "split_vlan part = (part, None)"
    using split_vlan_base [OF assms(2), of part] assms(4)
    by (auto simp: split_vlan_def takeWhile_eq_all_conv)
  have create: "device_get_plain ?E rec ?name 1 w = Some (Some ?d, w')"
    using new(1) at assms(9) by (cases base) (simp_all add: device_get_plain_def)
  have "vlan_loop ?E rec ?d part 1 w' = Some (None, w')"
    by (subst vlan_loop.simps) (simp add: split get_vlan_device_def number)
  then have "get_vlan_device_chain ?E rec ?name 1 w = Some (None, w')"
    using plain create assms(5) number split
    by (auto simp: get_vlan_device_chain_def get_vlan_device_def)
  then have "device_get (netifd_env E) rec ?name 1 w = Some (None, w')"
    using assms(9) by (simp add: device_get_def netifd_env_def with_types_def with_vlan_def)
  moreover have found: "device_find w' ?name = Some ?d"
    using device_find_new [OF new(2,3) fresh assms(9)] by simp
  moreover have "device_get (netifd_env E) rec ?name 1 w' = Some (Some ?d, w')"
    using found at by (cases base) (simp_all add: device_get_def device_get_plain_def)
  ultimately show ?thesis by blast
qed

theorem dotted_name_fails_once_witness:
  "\<exists>w'. device_get example_netifd (run example_netifd 0) ''eth0.sta1'' 1 example_world = Some (None, w') \<and>
     device_find w' ''eth0.sta1'' = Some 1"
proof -
  have facts: "w_next_dev example_world = 1" "ids_used example_world" "w_devs example_world 0 = example_device"
    by (simp_all add: example_world_def ids_used_def)
  have number: "vlan_number example_device ''sta1'' = None"
    by (simp add: vlan_number_def example_device_def zero_device_def) code_simp
  have "\<exists>w'. device_get (netifd_env example_base) (run example_netifd 0) (''eth0'' @ ''.'' @ ''sta1'') 1 example_world = Some (None, w') \<and>
     device_find w' (''eth0'' @ ''.'' @ ''sta1'') = Some (w_next_dev example_world) \<and>
     device_get (netifd_env example_base) (run example_netifd 0) (''eth0'' @ ''.'' @ ''sta1'') 1 w' = Some (Some (w_next_dev example_world), w')"
    by (rule dotted_name_fails_once [where p = 0])
      (simp_all add: facts number example_find isdigit_def char_code_def example_base_def simple_only_def)
  then show ?thesis using facts(1) by (auto simp: example_netifd_def simp del: run.simps)
qed

end
