(* ===== verification/BridgeProps.thy ===== *)
theory BridgeProps
  imports VlanProps
begin

text \<open>
  The VLANs of a bridge port in the kernel. \<open>port_vlans\<close> reads the requests to the kernel as the kernel
  does: a port that joins a bridge gets VLAN 1 as its untagged default, a VLAN that is added with the PVID flag
  becomes the default, and one that is added without it or deleted is the default no longer. It is shown
  that a member gets exactly the VLANs of its bridge, that the kernel and the bridge agree on the default VLAN,
  and that a change of one VLAN keeps it so.
\<close>

unbundle bit_operations_syntax

type_synonym port_table = "(u16 \<rightharpoonup> bool) \<times> u16"

fun port_step :: "did \<Rightarrow> string \<Rightarrow> kreq \<Rightarrow> port_table \<Rightarrow> port_table" where
  "port_step d ifname (KBridgeAddif b d') s = (if d' = d then ([1 \<mapsto> True], 1) else s)"
| "port_step d ifname (KBridgeDelif b d') s = (if d' = d then (Map.empty, 0) else s)"
| "port_step d ifname (KBridgeVlan name vid add flags) (t, pvid) =
     (if name \<noteq> ifname \<or> has_flag flags BRVLAN_F_SELF then (t, pvid)
      else if add then (t(vid \<mapsto> has_flag flags BRVLAN_F_UNTAGGED),
                        if has_flag flags BRVLAN_F_PVID then vid else if pvid = vid then 0 else pvid)
      else (t(vid := None), if pvid = vid then 0 else pvid))"
| "port_step d ifname _ s = s"

definition port_vlans :: "did \<Rightarrow> string \<Rightarrow> klog \<Rightarrow> port_table" where
  "port_vlans d ifname log = fold (port_step d ifname) log (Map.empty, 0)"

lemma port_vlans_append [simp]:
  "port_vlans d ifname (log @ qs) = fold (port_step d ifname) qs (port_vlans d ifname log)"
  by (simp add: port_vlans_def)

section \<open>What the configuration asks for\<close>

text \<open>The flag of a VLAN for a port: \<open>None\<close> where the port is not in the VLAN.\<close>

definition wanted_vlan :: "string \<Rightarrow> bridge_vlan list \<Rightarrow> u16 \<rightharpoonup> bool" where
  "wanted_vlan ifname vs vid =
     (case find (\<lambda>v. bv_vid v = vid) vs of
        None \<Rightarrow> None
      | Some v \<Rightarrow> map_option (\<lambda>p. has_flag (bp_flags p) BRVLAN_F_UNTAGGED) (bridge_find_vlan_member_port ifname v))"

definition port_flag :: "string \<Rightarrow> u16 \<Rightarrow> bridge_vlan \<Rightarrow> bool" where
  "port_flag ifname f v \<longleftrightarrow>
     (case bridge_find_vlan_member_port ifname v of None \<Rightarrow> False | Some p \<Rightarrow> has_flag (bp_flags p) f)"

text \<open>
  The default VLAN of a port: the last one that is marked as such; without a mark the one it had, and
  if it had none the first untagged one.
\<close>

definition wanted_pvid :: "u16 \<Rightarrow> string \<Rightarrow> bridge_vlan list \<Rightarrow> u16" where
  "wanted_pvid old ifname vs =
     (let marked = filter (port_flag ifname BRVLAN_F_PVID) vs;
          untagged = filter (port_flag ifname BRVLAN_F_UNTAGGED) vs
      in if marked \<noteq> [] then bv_vid (last marked)
         else if old = 0 \<and> untagged \<noteq> [] then bv_vid (hd untagged) else old)"

text \<open>The default VLAN in the kernel is the one that the bridge has noted, when the port is in it.\<close>

definition pvid_agrees :: "u16 \<Rightarrow> port_table \<Rightarrow> bool" where
  "pvid_agrees pvid s \<longleftrightarrow> snd s = (if pvid \<in> dom (fst s) then pvid else 0)"

definition plain_ports :: "bridge_vlan \<Rightarrow> bool" where
  "plain_ports v \<longleftrightarrow> bv_vid v \<noteq> 0 \<and> list_all (\<lambda>p. \<not> has_flag (bp_flags p) BRVLAN_F_SELF) (bv_ports v @ bv_hotplug_ports v)"

lemma find_port_name: "bridge_find_vlan_member_port ifname v = Some p \<Longrightarrow> bp_ifname p = ifname"
  by (auto simp: bridge_find_vlan_member_port_def find_Some_iff split: option.splits)

lemma find_port_plain:
  "bridge_find_vlan_member_port ifname v = Some p \<Longrightarrow> plain_ports v \<Longrightarrow> \<not> has_flag (bp_flags p) BRVLAN_F_SELF"
  by (fastforce simp: bridge_find_vlan_member_port_def find_Some_iff plain_ports_def list_all_iff in_set_conv_nth
      split: option.splits)

lemma brvlan_flags [simp]:
  "\<not> has_flag BRVLAN_F_PVID BRVLAN_F_SELF" "\<not> has_flag BRVLAN_F_PVID BRVLAN_F_UNTAGGED"
  "has_flag BRVLAN_F_PVID BRVLAN_F_PVID"
  by (simp_all add: has_flag_def BRVLAN_F_PVID_def BRVLAN_F_SELF_def BRVLAN_F_UNTAGGED_def)

lemma store_member_simps [simp]:
  "w_member (klog_do q w) = w_member w" "w_member (upd_dev e g w) = w_member w" "w_log (upd_member m f w) = w_log w" "w_devs (upd_member m f w) = w_devs w"
  "w_member (upd_member m f w) = (w_member w)(m := f (w_member w m))"
  by (simp_all add: klog_do_def upd_member_def upd_dev_def)

section \<open>One VLAN of one member\<close>

text \<open>A member that is present, on device \<open>d\<close> with the name \<open>ifname\<close>.\<close>

definition member_on :: "world \<Rightarrow> mid \<Rightarrow> did \<Rightarrow> string \<Rightarrow> bool" where
  "member_on w m d ifname \<longleftrightarrow> bm_present (w_member w m) \<and> member_dev w m = Some d \<and> dv_ifname (w_devs w d) = ifname"

definition next_pvid :: "u16 \<Rightarrow> string \<Rightarrow> bridge_vlan \<Rightarrow> u16" where
  "next_pvid pvid ifname v =
     (case bridge_find_vlan_member_port ifname v of
        None \<Rightarrow> pvid
      | Some p \<Rightarrow> if bridge_member_vlan_is_pvid pvid p then bv_vid v else pvid)"

lemma set_member_vlan_eq:
  assumes "member_on w m d ifname"
  shows "bridge_set_member_vlan m v add w =
     Some (case bridge_find_vlan_member_port ifname v of
             None \<Rightarrow> w
           | Some p \<Rightarrow> klog_do (set_member_vlan_req (next_pvid (bm_pvid (w_member w m)) ifname v) v p add)
               (upd_member m (\<lambda>x. x\<lparr>bm_pvid := next_pvid (bm_pvid (w_member w m)) ifname v\<rparr>) w))"
proof -
  have same: "upd_member m (\<lambda>x. x\<lparr>bm_pvid := bm_pvid (w_member w m)\<rparr>) w = w"
    by (simp add: upd_member_def)
  show ?thesis
    using assms same
    by (auto simp: bridge_set_member_vlan_def member_on_def next_pvid_def Let_def split: option.split)
qed

lemma add_request:
  assumes "bp_ifname p = ifname" "\<not> has_flag (bp_flags p) BRVLAN_F_SELF"
  shows "port_step d ifname (set_member_vlan_req pvid v p True) s =
      ((fst s)(bv_vid v \<mapsto> has_flag (bp_flags p) BRVLAN_F_UNTAGGED),
       if pvid = bv_vid v \<or> has_flag (bp_flags p) BRVLAN_F_PVID then bv_vid v
       else if snd s = bv_vid v then 0 else snd s)"
  using assms by (cases s) (simp add: set_member_vlan_req_def)

lemma delete_request:
  assumes "bp_ifname p = ifname" "\<not> has_flag (bp_flags p) BRVLAN_F_SELF"
  shows "port_step d ifname (set_member_vlan_req pvid v p False) s =
      ((fst s)(bv_vid v := None), if snd s = bv_vid v then 0 else snd s)"
  using assms by (cases s) (simp add: set_member_vlan_req_def)

lemma pvid_agrees_add:
  assumes "pvid_agrees pvid s" "bv_vid v \<noteq> 0" "bridge_find_vlan_member_port ifname v = Some p" "plain_ports v"
  shows "pvid_agrees (next_pvid pvid ifname v) (port_step d ifname (set_member_vlan_req (next_pvid pvid ifname v) v p True) s)"
  unfolding add_request [OF find_port_name [OF assms(3)] find_port_plain [OF assms(3,4)]]
  using assms(1-3) by (auto simp: pvid_agrees_def next_pvid_def bridge_member_vlan_is_pvid_def)

lemma set_vlan_step:
  assumes "member_on w m d ifname" "plain_ports v"
    and "pvid_agrees (bm_pvid (w_member w m)) (port_vlans d ifname (w_log w))"
  obtains w' where "bridge_set_member_vlan m v True w = Some w'" "member_on w' m d ifname"
    "bm_pvid (w_member w' m) = next_pvid (bm_pvid (w_member w m)) ifname v"
    "fst (port_vlans d ifname (w_log w')) = fst (port_vlans d ifname (w_log w)) ++ wanted_vlan ifname [v]"
    "pvid_agrees (bm_pvid (w_member w' m)) (port_vlans d ifname (w_log w'))"
proof (cases "bridge_find_vlan_member_port ifname v")
  case None
  have "wanted_vlan ifname [v] = Map.empty" using None by (auto simp: wanted_vlan_def)
  moreover have "next_pvid (bm_pvid (w_member w m)) ifname v = bm_pvid (w_member w m)"
    using None by (simp add: next_pvid_def)
  ultimately show thesis
    using set_member_vlan_eq [OF assms(1), of v True] None assms by (intro that [of w]) simp_all
next
  case (Some p)
  let ?k = "next_pvid (bm_pvid (w_member w m)) ifname v"
  let ?w = "klog_do (set_member_vlan_req ?k v p True) (upd_member m (\<lambda>x. x\<lparr>bm_pvid := ?k\<rparr>) w)"
  have want: "wanted_vlan ifname [v] = [bv_vid v \<mapsto> has_flag (bp_flags p) BRVLAN_F_UNTAGGED]"
    using Some by (auto simp: wanted_vlan_def fun_eq_iff)
  have vid: "bv_vid v \<noteq> 0" using assms(2) by (simp add: plain_ports_def)
  show thesis
  proof (rule that [of ?w])
    show "bridge_set_member_vlan m v True w = Some ?w" using set_member_vlan_eq [OF assms(1), of v True] Some by simp
    show "member_on ?w m d ifname" using assms(1) by (simp add: member_on_def member_dev_def)
    show "fst (port_vlans d ifname (w_log ?w)) = fst (port_vlans d ifname (w_log w)) ++ wanted_vlan ifname [v]"
      using find_port_name [OF Some] find_port_plain [OF Some assms(2)] by (simp add: add_request want)
    show "pvid_agrees (bm_pvid (w_member ?w m)) (port_vlans d ifname (w_log ?w))"
      using pvid_agrees_add [OF assms(3) vid Some assms(2), of d] by simp
  qed simp
qed

section \<open>All VLANs of a member\<close>

lemma wanted_vlan_Cons:
  "bv_vid v \<notin> bv_vid ` set vs \<Longrightarrow> t ++ wanted_vlan ifname [v] ++ wanted_vlan ifname vs = t ++ wanted_vlan ifname (v # vs)"
proof (rule ext)
  fix vid
  assume "bv_vid v \<notin> bv_vid ` set vs"
  then have "find (\<lambda>x. bv_vid x = bv_vid v) vs = None" by (auto simp: find_None_iff image_iff)
  then have "wanted_vlan ifname vs (bv_vid v) = None" by (simp add: wanted_vlan_def)
  then show "(t ++ wanted_vlan ifname [v] ++ wanted_vlan ifname vs) vid = (t ++ wanted_vlan ifname (v # vs)) vid"
    by (cases "vid = bv_vid v") (simp_all add: map_add_def wanted_vlan_def split: option.split)
qed

lemma set_vlans_loop:
  assumes "member_on w m d ifname" "list_all plain_ports vs" "distinct (map bv_vid vs)"
    and "pvid_agrees (bm_pvid (w_member w m)) (port_vlans d ifname (w_log w))"
  obtains w' where "set_member_vlans m vs True w = Some w'" "member_on w' m d ifname"
    "bm_pvid (w_member w' m) = fold (\<lambda>v pvid. next_pvid pvid ifname v) vs (bm_pvid (w_member w m))"
    "fst (port_vlans d ifname (w_log w')) = fst (port_vlans d ifname (w_log w)) ++ wanted_vlan ifname vs"
    "pvid_agrees (bm_pvid (w_member w' m)) (port_vlans d ifname (w_log w'))"
  using assms
proof (induction vs arbitrary: w thesis)
  case Nil
  have "wanted_vlan ifname [] = Map.empty" by (auto simp: wanted_vlan_def)
  then show ?case using Nil by simp
next
  case (Cons v vs)
  from Cons.prems have v: "plain_ports v" "list_all plain_ports vs" "distinct (map bv_vid vs)" "bv_vid v \<notin> bv_vid ` set vs"
    by simp_all
  obtain w1 where w1: "bridge_set_member_vlan m v True w = Some w1" "member_on w1 m d ifname"
    "bm_pvid (w_member w1 m) = next_pvid (bm_pvid (w_member w m)) ifname v"
    "fst (port_vlans d ifname (w_log w1)) = fst (port_vlans d ifname (w_log w)) ++ wanted_vlan ifname [v]"
    "pvid_agrees (bm_pvid (w_member w1 m)) (port_vlans d ifname (w_log w1))"
    using set_vlan_step [OF Cons.prems(2) v(1) Cons.prems(5)] by blast
  obtain w2 where w2: "set_member_vlans m vs True w1 = Some w2" "member_on w2 m d ifname"
    "bm_pvid (w_member w2 m) = fold (\<lambda>v pvid. next_pvid pvid ifname v) vs (bm_pvid (w_member w1 m))"
    "fst (port_vlans d ifname (w_log w2)) = fst (port_vlans d ifname (w_log w1)) ++ wanted_vlan ifname vs"
    "pvid_agrees (bm_pvid (w_member w2 m)) (port_vlans d ifname (w_log w2))"
    using Cons.IH [OF _ w1(2) v(2,3) w1(5)] by blast
  show ?case
    using Cons.prems(1) [of w2] w1 w2 wanted_vlan_Cons [OF v(4)] by simp
qed

lemma port_flag_cases:
  "next_pvid pvid ifname v =
     (if port_flag ifname BRVLAN_F_PVID v \<or> pvid = 0 \<and> port_flag ifname BRVLAN_F_UNTAGGED v then bv_vid v else pvid)"
  by (auto simp: next_pvid_def port_flag_def bridge_member_vlan_is_pvid_def split: option.split)

lemma fold_next_pvid:
  "list_all plain_ports vs \<Longrightarrow> fold (\<lambda>v pvid. next_pvid pvid ifname v) vs old = wanted_pvid old ifname vs"
proof (induction vs arbitrary: old)
  case (Cons v vs)
  then have "bv_vid v \<noteq> 0" by (simp add: plain_ports_def)
  with Cons show ?case by (auto simp: port_flag_cases wanted_pvid_def Let_def)
qed (simp add: wanted_pvid_def)

lemma find_by_vid: "distinct (map bv_vid vs) \<Longrightarrow> v \<in> set vs \<Longrightarrow> find (\<lambda>x. bv_vid x = bv_vid v) vs = Some v"
  by (induction vs) auto

text \<open>A default VLAN that the configuration gives is one of the VLANs of the port.\<close>

lemma wanted_pvid_in_dom:
  assumes "distinct (map bv_vid vs)" "wanted_pvid old ifname vs \<noteq> old"
  shows "wanted_pvid old ifname vs \<in> dom (wanted_vlan ifname vs)"
proof -
  have "\<exists>v f. v \<in> set vs \<and> port_flag ifname f v \<and> wanted_pvid old ifname vs = bv_vid v"
  proof (cases "filter (port_flag ifname BRVLAN_F_PVID) vs = []")
    case False
    then have "last (filter (port_flag ifname BRVLAN_F_PVID) vs) \<in> set (filter (port_flag ifname BRVLAN_F_PVID) vs)"
      by (rule last_in_set)
    then show ?thesis using False by (auto simp: wanted_pvid_def)
  next
    case True
    let ?u = "filter (port_flag ifname BRVLAN_F_UNTAGGED) vs"
    have "?u \<noteq> []" "wanted_pvid old ifname vs = bv_vid (hd ?u)"
      using assms(2) True unfolding wanted_pvid_def Let_def by (simp_all only: simp_thms if_False split: if_splits)
    moreover have "hd ?u \<in> set ?u" using calculation(1) by (rule hd_in_set)
    ultimately show ?thesis by auto
  qed
  then obtain v f where v: "v \<in> set vs" "port_flag ifname f v" "wanted_pvid old ifname vs = bv_vid v" by blast
  then show ?thesis
    using find_by_vid [OF assms(1) v(1)] by (auto simp: dom_def wanted_vlan_def port_flag_def split: option.splits)
qed

lemma set_vlans_fresh:
  assumes "member_on w m d ifname" "list_all plain_ports vs" "distinct (map bv_vid vs)"
    and "port_vlans d ifname (w_log w) = (Map.empty, 0)"
  obtains w' where "set_member_vlans m vs True w = Some w'" "member_on w' m d ifname"
    "bm_pvid (w_member w' m) = wanted_pvid (bm_pvid (w_member w m)) ifname vs"
    "fst (port_vlans d ifname (w_log w')) = wanted_vlan ifname vs"
    "snd (port_vlans d ifname (w_log w')) =
       (if bm_pvid (w_member w' m) \<in> dom (wanted_vlan ifname vs) then bm_pvid (w_member w' m) else 0)"
proof -
  obtain w' where "set_member_vlans m vs True w = Some w'" "member_on w' m d ifname"
    "bm_pvid (w_member w' m) = fold (\<lambda>v pvid. next_pvid pvid ifname v) vs (bm_pvid (w_member w m))"
    "fst (port_vlans d ifname (w_log w')) = fst (port_vlans d ifname (w_log w)) ++ wanted_vlan ifname vs"
    "pvid_agrees (bm_pvid (w_member w' m)) (port_vlans d ifname (w_log w'))"
    by (rule set_vlans_loop [OF assms(1-3)]) (simp add: assms(4) pvid_agrees_def)
  then show thesis
    using fold_next_pvid [OF assms(2)] assms(4) by (intro that [of w']) (simp_all add: pvid_agrees_def)
qed

text \<open>C31: a device that joins a bridge with VLANs ends up in exactly the VLANs that the configuration and the
ports added at run time put it in, each tagged or not as configured, before the bridge tells anybody that it is
present; the default VLAN 1 of the kernel is gone unless it is among them. If the member has noted no default
VLAN, the last VLAN that is marked, otherwise the first untagged one, is its default in the bridge and in the
kernel. A default VLAN that is left over from an earlier time in the bridge gives way to a marked one only:
without a mark it stays noted, and the kernel has it if the port is in it and none otherwise.\<close>

theorem member_joins_its_vlans:
  assumes "b = bm_bst (w_member w m)" "vs = dv_vlans (w_devs w b)"
    and "member_on w m d ifname" "bs_has_vlans (w_bridge w b)" "list_all plain_ports vs" "distinct (map bv_vid vs)"
    and "se_kernel (we_sys E) (w_log w) (KBridgeAddif b d) \<ge> 0"
  shows "\<exists>w' pvid. (\<forall>rec. add_member_dev E rec m d w =
       device_set_present E rec b True w' \<bind> device_broadcast_event E rec b DEV_EVENT_TOPO_CHANGE \<bind>
         (\<lambda>w. Some (0, w))) \<and>
     fst (port_vlans d ifname (w_log w')) = wanted_vlan ifname vs \<and>
     pvid = wanted_pvid (bm_pvid (w_member w m)) ifname vs \<and> bm_pvid (w_member w' m) = pvid \<and>
     snd (port_vlans d ifname (w_log w')) = (if pvid \<in> dom (wanted_vlan ifname vs) then pvid else 0) \<and>
     (bm_pvid (w_member w m) = 0 \<or> pvid \<noteq> bm_pvid (w_member w m) \<longrightarrow> snd (port_vlans d ifname (w_log w')) = pvid)"
proof -
  let ?w = "klog_do (KBridgeVlan ifname 1 False 0) (upd_member m (\<lambda>x. x\<lparr>bm_active := True\<rparr>) (klog_do (KBridgeAddif b d) w))"
  have fresh: "port_vlans d ifname (w_log ?w) = (Map.empty, 0)" by simp
  have on: "member_on ?w m d ifname" using assms(3) by (simp add: member_on_def member_dev_def)
  have old: "bm_pvid (w_member ?w m) = bm_pvid (w_member w m)" by simp
  obtain w' where w': "set_member_vlans m vs True ?w = Some w'"
    "bm_pvid (w_member w' m) = wanted_pvid (bm_pvid (w_member w m)) ifname vs"
    "fst (port_vlans d ifname (w_log w')) = wanted_vlan ifname vs"
    "snd (port_vlans d ifname (w_log w')) =
       (if bm_pvid (w_member w' m) \<in> dom (wanted_vlan ifname vs) then bm_pvid (w_member w' m) else 0)"
    by (rule set_vlans_fresh [OF on assms(5,6) fresh, unfolded old])
  have "add_member_dev E rec m d w = device_set_present E rec b True w' \<bind>
      device_broadcast_event E rec b DEV_EVENT_TOPO_CHANGE \<bind> (\<lambda>w. Some (0, w))" for rec
  proof -
    have "w_bridge (upd_member m f x) = w_bridge x" "w_bridge (klog_do q x) = w_bridge x" for f q x
      by (simp_all add: upd_member_def klog_do_def)
    then show ?thesis
      using assms(3,4,7) w'(1)
      by (simp add: add_member_dev_def klog_ask_def member_on_def Let_def flip: assms(1,2))
  qed
  moreover have "bm_pvid (w_member w m) = 0 \<or> bm_pvid (w_member w' m) \<noteq> bm_pvid (w_member w m) \<longrightarrow>
      snd (port_vlans d ifname (w_log w')) = bm_pvid (w_member w' m)"
    using wanted_pvid_in_dom [OF assms(6), of "bm_pvid (w_member w m)" ifname] w'(2,4) by (auto split: if_splits)
  ultimately show ?thesis using w'(2-4) by blast
qed

section \<open>A change of one VLAN\<close>

text \<open>The VLAN that takes the place of a default that goes: the first one that is marked.\<close>

definition first_marked :: "string \<Rightarrow> bridge_vlan list \<Rightarrow> u16" where
  "first_marked ifname vs =
     (case find (port_flag ifname BRVLAN_F_PVID) vs of None \<Rightarrow> 0 | Some v \<Rightarrow> bv_vid v)"

text \<open>The default VLAN of a port after a VLAN came (\<open>add\<close>) or went, and what the kernel has then.\<close>

definition pvid_after :: "string \<Rightarrow> bridge_vlan list \<Rightarrow> bridge_vlan \<Rightarrow> bool \<Rightarrow> u16 \<Rightarrow> u16" where
  "pvid_after ifname vs vlan add old =
     (if bridge_find_vlan_member_port ifname vlan = None then old
      else if add
      then (if port_flag ifname BRVLAN_F_PVID vlan \<or> old = 0 \<and> port_flag ifname BRVLAN_F_UNTAGGED vlan
            then bv_vid vlan else old)
      else if old = bv_vid vlan then first_marked ifname vs else old)"

definition kernel_pvid_after :: "string \<Rightarrow> bridge_vlan list \<Rightarrow> bridge_vlan \<Rightarrow> bool \<Rightarrow> u16 \<Rightarrow> u16" where
  "kernel_pvid_after ifname vs vlan add old =
     (let pvid = pvid_after ifname vs vlan add old
      in if bridge_find_vlan_member_port ifname vlan \<noteq> None \<and> \<not> add \<and> pvid = bv_vid vlan then 0 else pvid)"

lemma recalc_pvid_find:
  "pvid \<noteq> 0 \<Longrightarrow> recalc_pvid ifname pvid vs None = find (port_flag ifname BRVLAN_F_PVID) vs"
  by (induction vs) (auto simp: bridge_member_vlan_is_pvid_def port_flag_def split: option.split)

text \<open>Moving the default VLAN to \<open>v2\<close>: the port leaves it and joins it again as its default.\<close>

lemma move_pvid:
  assumes "member_on w m d ifname" "plain_ports v2" "bridge_find_vlan_member_port ifname v2 = Some p2"
    "has_flag (bp_flags p2) BRVLAN_F_PVID"
  obtains w1 where "bridge_set_member_vlan m v2 False w \<bind> bridge_set_member_vlan m v2 True = Some w1"
    "member_on w1 m d ifname" "bm_pvid (w_member w1 m) = bv_vid v2"
    "port_vlans d ifname (w_log w1) =
       ((fst (port_vlans d ifname (w_log w)))(bv_vid v2 \<mapsto> has_flag (bp_flags p2) BRVLAN_F_UNTAGGED), bv_vid v2)"
proof -
  have pvid: "next_pvid k ifname v2 = bv_vid v2" for k
    using assms(3,4) by (simp add: next_pvid_def bridge_member_vlan_is_pvid_def)
  let ?w0 = "klog_do (set_member_vlan_req (bv_vid v2) v2 p2 False) (upd_member m (\<lambda>x. x\<lparr>bm_pvid := bv_vid v2\<rparr>) w)"
  let ?w1 = "klog_do (set_member_vlan_req (bv_vid v2) v2 p2 True) (upd_member m (\<lambda>x. x\<lparr>bm_pvid := bv_vid v2\<rparr>) ?w0)"
  have on: "member_on ?w0 m d ifname" "member_on ?w1 m d ifname" using assms(1) by (simp_all add: member_on_def member_dev_def)
  note port = find_port_name [OF assms(3)] find_port_plain [OF assms(3,2)]
  show thesis
    using set_member_vlan_eq [OF assms(1), of v2 False] set_member_vlan_eq [OF on(1), of v2 True] assms(3) on(2) port
    by (intro that [of ?w1]) (simp_all add: pvid add_request delete_request)
qed

lemma member_vlan_add:
  assumes "member_on w m d ifname" "plain_ports vlan" "bridge_find_vlan_member_port ifname vlan = Some p"
    and "snd (port_vlans d ifname (w_log w)) = bm_pvid (w_member w m)"
  obtains w' where "member_vlan_state b vlan True m w = Some w'"
    "fst (port_vlans d ifname (w_log w')) = (fst (port_vlans d ifname (w_log w)))(bv_vid vlan \<mapsto> has_flag (bp_flags p) BRVLAN_F_UNTAGGED)"
    "bm_pvid (w_member w' m) = next_pvid (bm_pvid (w_member w m)) ifname vlan"
    "snd (port_vlans d ifname (w_log w')) = next_pvid (bm_pvid (w_member w m)) ifname vlan"
proof -
  let ?k = "next_pvid (bm_pvid (w_member w m)) ifname vlan"
  let ?w = "klog_do (set_member_vlan_req ?k vlan p True) (upd_member m (\<lambda>x. x\<lparr>bm_pvid := ?k\<rparr>) w)"
  have "member_vlan_state b vlan True m w = bridge_set_member_vlan m vlan True w"
    using assms(1)
    by (auto simp: member_vlan_state_def bridge_set_member_vlan_def member_on_def Let_def member_dev_def split: option.split)
  then have "member_vlan_state b vlan True m w = Some ?w"
    using set_member_vlan_eq [OF assms(1), of vlan True] assms(3) by simp
  moreover have "snd (port_step d ifname (set_member_vlan_req ?k vlan p True) (port_vlans d ifname (w_log w))) = ?k"
    unfolding add_request [OF find_port_name [OF assms(3)] find_port_plain [OF assms(3,2)]]
    using assms(3,4) by (auto simp: next_pvid_def bridge_member_vlan_is_pvid_def)
  ultimately show thesis
    using find_port_name [OF assms(3)] find_port_plain [OF assms(3,2)] by (intro that [of ?w]) (simp_all add: add_request)
qed

lemma member_vlan_delete:
  assumes "member_on w m d ifname" "plain_ports vlan" "list_all plain_ports (dv_vlans (w_devs w b))"
    "bridge_find_vlan_member_port ifname vlan = Some p"
    and "snd (port_vlans d ifname (w_log w)) = bm_pvid (w_member w m)"
    and "\<And>v p. v \<in> set (dv_vlans (w_devs w b)) \<Longrightarrow> bv_vid v \<noteq> bv_vid vlan \<Longrightarrow>
        bridge_find_vlan_member_port ifname v = Some p \<Longrightarrow>
        fst (port_vlans d ifname (w_log w)) (bv_vid v) = Some (has_flag (bp_flags p) BRVLAN_F_UNTAGGED)"
  obtains w' where "member_vlan_state b vlan False m w = Some w'"
    "fst (port_vlans d ifname (w_log w')) = (fst (port_vlans d ifname (w_log w)))(bv_vid vlan := None)"
    "bm_pvid (w_member w' m) = pvid_after ifname (dv_vlans (w_devs w b)) vlan False (bm_pvid (w_member w m))"
    "snd (port_vlans d ifname (w_log w')) =
       kernel_pvid_after ifname (dv_vlans (w_devs w b)) vlan False (bm_pvid (w_member w m))"
proof -
  let ?old = "bm_pvid (w_member w m)" and ?vs = "dv_vlans (w_devs w b)"
  note port = find_port_name [OF assms(4)] find_port_plain [OF assms(4,2)]
  have vid: "bv_vid vlan \<noteq> 0" using assms(2) by (simp add: plain_ports_def)
  have on: "bm_present (w_member w m)" "member_dev w m = Some d" "dv_ifname (w_devs w d) = ifname"
    using assms(1) by (simp_all add: member_on_def)
  have after: "pvid_after ifname ?vs vlan False old = (if old = bv_vid vlan then first_marked ifname ?vs else old)"
    "kernel_pvid_after ifname ?vs vlan False old =
       (let k = pvid_after ifname ?vs vlan False old in if k = bv_vid vlan then 0 else k)" for old
    using assms(4) by (simp_all add: pvid_after_def kernel_pvid_after_def)
  show thesis
  proof (cases "?old = bv_vid vlan")
    case False
    let ?w = "klog_do (set_member_vlan_req ?old vlan p False) w"
    have "member_vlan_state b vlan False m w = Some ?w" using False on assms(4) by (simp add: member_vlan_state_def)
    then show thesis
      using False assms(5) port by (intro that [of ?w]) (simp_all add: delete_request after)
  next
    case True
    then have recalc: "bridge_recalc_member_pvid b ifname m w = find (port_flag ifname BRVLAN_F_PVID) ?vs"
      using vid recalc_pvid_find by (simp add: bridge_recalc_member_pvid_def)
    show thesis
    proof (cases "find (port_flag ifname BRVLAN_F_PVID) ?vs")
      case None
      let ?w = "upd_member m (\<lambda>x. x\<lparr>bm_pvid := 0\<rparr>) (klog_do (set_member_vlan_req ?old vlan p False) w)"
      have "member_vlan_state b vlan False m w = Some ?w"
        using True None recalc on assms(4) by (simp add: member_vlan_state_def)
      then show thesis using True None vid assms(5) port
        by (intro that [of ?w]) (simp_all add: delete_request after first_marked_def)
    next
      case (Some v2)
      then have "v2 \<in> set ?vs \<and> port_flag ifname BRVLAN_F_PVID v2" by (auto simp: find_Some_iff)
      then obtain p2 where v2: "v2 \<in> set ?vs" "bridge_find_vlan_member_port ifname v2 = Some p2"
        "has_flag (bp_flags p2) BRVLAN_F_PVID" by (auto simp: port_flag_def split: option.splits)
      show thesis
      proof (cases "bv_vid v2 = bv_vid vlan")
        case same: True
        let ?w = "upd_member m (\<lambda>x. x\<lparr>bm_pvid := bv_vid v2\<rparr>) (klog_do (set_member_vlan_req ?old vlan p False) w)"
        have "member_vlan_state b vlan False m w = Some ?w"
          using True Some recalc same on assms(4) by (simp add: member_vlan_state_def)
        then show thesis using True Some same assms(5) port
          by (intro that [of ?w]) (simp_all add: delete_request after first_marked_def)
      next
        case other: False
        have plain: "plain_ports v2" using assms(3) v2(1) by (simp add: list_all_iff)
        obtain w1 where w1: "bridge_set_member_vlan m v2 False w \<bind> bridge_set_member_vlan m v2 True = Some w1"
          "member_on w1 m d ifname" "bm_pvid (w_member w1 m) = bv_vid v2"
          "port_vlans d ifname (w_log w1) =
             ((fst (port_vlans d ifname (w_log w)))(bv_vid v2 \<mapsto> has_flag (bp_flags p2) BRVLAN_F_UNTAGGED), bv_vid v2)"
          using move_pvid [OF assms(1) plain v2(2,3)] by blast
        have same: "(fst (port_vlans d ifname (w_log w)))(bv_vid v2 \<mapsto> has_flag (bp_flags p2) BRVLAN_F_UNTAGGED) = fst (port_vlans d ifname (w_log w))"
          using assms(6) [OF v2(1) other v2(2)] by (simp add: fun_upd_idem)
        let ?w = "upd_member m (\<lambda>x. x\<lparr>bm_pvid := bv_vid v2\<rparr>) (klog_do (set_member_vlan_req (bv_vid v2) vlan p False) w1)"
        have "member_vlan_state b vlan False m w = Some ?w"
          using True Some recalc other on assms(4) w1(1-3) by (simp add: member_vlan_state_def member_on_def)
        then show thesis
          using True Some other port w1(4)
          by (intro that [of ?w]) (simp_all add: delete_request after first_marked_def same)
      qed
    qed
  qed
qed

text \<open>C32: when a VLAN comes to a running bridge or leaves it, a port that is in the other VLANs of the bridge
stays in them as configured, and joins or leaves this one if it is named there. If bridge and kernel agree on
the default VLAN of the port, they agree afterwards: a VLAN that comes becomes the default if it is marked, or if
it is untagged and there is none; if the default goes, the first VLAN that is marked takes its place in the
bridge and in the kernel, and there is none otherwise. Only while a default VLAN is replaced by a new one with the
same number, between leaving the old and joining the new one, the bridge has it noted and the kernel has none.\<close>

theorem vlan_change_keeps_port:
  fixes w :: world and d :: did and ifname :: string
  defines "table \<equiv> fst (port_vlans d ifname (w_log w))"
  assumes "member_on w m d ifname" "plain_ports vlan" "vs = dv_vlans (w_devs w b)" "list_all plain_ports vs"
    "distinct (map bv_vid vs)"
    and "snd (port_vlans d ifname (w_log w)) = bm_pvid (w_member w m)"
    and "\<And>vid. vid \<noteq> bv_vid vlan \<Longrightarrow> table vid = wanted_vlan ifname vs vid"
  shows "\<exists>w'. member_vlan_state b vlan add m w = Some w' \<and>
     fst (port_vlans d ifname (w_log w')) =
       (if bridge_find_vlan_member_port ifname vlan = None then table
        else table(bv_vid vlan := if add then Some (port_flag ifname BRVLAN_F_UNTAGGED vlan) else None)) \<and>
     bm_pvid (w_member w' m) = pvid_after ifname vs vlan add (bm_pvid (w_member w m)) \<and>
     snd (port_vlans d ifname (w_log w')) = kernel_pvid_after ifname vs vlan add (bm_pvid (w_member w m))"
proof (cases "bridge_find_vlan_member_port ifname vlan")
  case None
  then have "member_vlan_state b vlan add m w = Some w" using assms(2) by (simp add: member_vlan_state_def member_on_def)
  then show ?thesis using None assms(7) by (simp add: table_def pvid_after_def kernel_pvid_after_def)
next
  case (Some p)
  show ?thesis
  proof (cases add)
    case True
    have flags: "port_flag ifname f vlan = has_flag (bp_flags p) f" for f using Some by (simp add: port_flag_def)
    have k: "next_pvid k ifname vlan = pvid_after ifname vs vlan True k" for k
      using Some by (auto simp: pvid_after_def port_flag_cases)
    obtain w' where "member_vlan_state b vlan True m w = Some w'"
      "fst (port_vlans d ifname (w_log w')) = table(bv_vid vlan \<mapsto> has_flag (bp_flags p) BRVLAN_F_UNTAGGED)"
      "bm_pvid (w_member w' m) = next_pvid (bm_pvid (w_member w m)) ifname vlan"
      "snd (port_vlans d ifname (w_log w')) = next_pvid (bm_pvid (w_member w m)) ifname vlan"
      unfolding table_def by (rule member_vlan_add [OF assms(2,3) Some assms(7)])
    then show ?thesis using True Some k by (simp add: flags kernel_pvid_after_def)
  next
    case False
    have others: "fst (port_vlans d ifname (w_log w)) (bv_vid v) = Some (has_flag (bp_flags q) BRVLAN_F_UNTAGGED)"
      if "v \<in> set vs" "bv_vid v \<noteq> bv_vid vlan" "bridge_find_vlan_member_port ifname v = Some q" for v q
      using assms(8) [OF that(2)] find_by_vid [OF assms(6) that(1)] that(3) by (simp add: table_def wanted_vlan_def)
    obtain w' where "member_vlan_state b vlan False m w = Some w'"
      "fst (port_vlans d ifname (w_log w')) = (fst (port_vlans d ifname (w_log w)))(bv_vid vlan := None)"
      "bm_pvid (w_member w' m) = pvid_after ifname vs vlan False (bm_pvid (w_member w m))"
      "snd (port_vlans d ifname (w_log w')) = kernel_pvid_after ifname vs vlan False (bm_pvid (w_member w m))"
      unfolding assms(4)
      by (rule member_vlan_delete [OF assms(2,3) assms(5) [unfolded assms(4)] Some assms(7)])
        (assumption | rule others [unfolded assms(4)])+
    then show ?thesis using False Some by (simp add: table_def)
  qed
qed

section \<open>Examples\<close>

definition example_vlans :: "bridge_vlan list" where
  "example_vlans =
     [\<lparr>bv_version = 1, bv_ports = [\<lparr>bp_ifname = ''eth0'', bp_flags = BRVLAN_F_UNTAGGED\<rparr>], bv_hotplug_ports = [],
       bv_vid = 5, bv_local = True, bv_pending = False\<rparr>,
      \<lparr>bv_version = 1, bv_ports = [\<lparr>bp_ifname = ''eth0'', bp_flags = BRVLAN_F_PVID\<rparr>], bv_hotplug_ports = [],
       bv_vid = 7, bv_local = True, bv_pending = False\<rparr>]"

definition member_world :: world where
  "member_world = upd_member 0 (\<lambda>_. zero_member\<lparr>bm_present := True, bm_bst := 1, bm_name := ''eth0'',
     bm_dev := zero_device_user\<lparr>du_dev := Some 0\<rparr>\<rparr>) example_world"

lemma brvlan_untagged_flags [simp]:
  "\<not> has_flag BRVLAN_F_UNTAGGED BRVLAN_F_SELF" "has_flag BRVLAN_F_UNTAGGED BRVLAN_F_UNTAGGED"
  "\<not> has_flag BRVLAN_F_UNTAGGED BRVLAN_F_PVID"
  by (simp_all add: has_flag_def BRVLAN_F_PVID_def BRVLAN_F_SELF_def BRVLAN_F_UNTAGGED_def)

lemma example_vlans_plain: "list_all plain_ports example_vlans" "distinct (map bv_vid example_vlans)"
  by (simp_all add: example_vlans_def plain_ports_def)

lemma member_world_on: "member_on member_world 0 0 ''eth0''"
  by (simp add: member_on_def member_world_def member_dev_def example_world_def example_device_def)

definition join_world :: world where
  "join_world = upd_bridge 1 (\<lambda>x. x\<lparr>bs_has_vlans := True\<rparr>)
     (upd_dev 1 (\<lambda>x. x\<lparr>dv_vlans := example_vlans\<rparr>) member_world)"

lemma join_world_facts:
  "member_on join_world 0 0 ''eth0''" "bm_bst (w_member join_world 0) = 1" "dv_vlans (w_devs join_world 1) = example_vlans"
  "bs_has_vlans (w_bridge join_world 1)" "bm_pvid (w_member join_world 0) = 0"
  using member_world_on
  by (simp_all add: join_world_def member_on_def member_dev_def w_devs_upd_dev upd_bridge_def)
    (simp_all add: member_world_def zero_member_def)

theorem member_joins_its_vlans_witness:
  "\<exists>w'. add_member_dev example_netifd (run example_netifd 0) 0 0 join_world =
       device_set_present example_netifd (run example_netifd 0) 1 True w' \<bind>
         device_broadcast_event example_netifd (run example_netifd 0) 1 DEV_EVENT_TOPO_CHANGE \<bind> (\<lambda>w. Some (0, w)) \<and>
     fst (port_vlans 0 ''eth0'' (w_log w')) = [5 \<mapsto> True, 7 \<mapsto> False] \<and> snd (port_vlans 0 ''eth0'' (w_log w')) = 7"
proof -
  have want: "wanted_vlan ''eth0'' example_vlans = [5 \<mapsto> True, 7 \<mapsto> False]"
    by (rule ext) (simp add: wanted_vlan_def example_vlans_def bridge_find_vlan_member_port_def)
  have "wanted_pvid 0 ''eth0'' example_vlans = 7"
    by (simp add: wanted_pvid_def example_vlans_def port_flag_def bridge_find_vlan_member_port_def)
  then show ?thesis
    using member_joins_its_vlans [of 1 join_world 0 example_vlans 0 "''eth0''" example_netifd]
      join_world_facts example_vlans_plain
    by (auto simp: want example_sys_def)
qed

text \<open>The VLAN that is the default goes; the other one is marked.\<close>

definition vlan_world :: world where
  "vlan_world = upd_dev 1 (\<lambda>x. x\<lparr>dv_vlans := [last example_vlans]\<rparr>)
     (upd_member 0 (\<lambda>x. x\<lparr>bm_pvid := 5\<rparr>) (member_world\<lparr>w_log :=
        [KBridgeAddif 1 0, KBridgeVlan ''eth0'' 1 False 0, KBridgeVlan ''eth0'' 7 True 0,
         KBridgeVlan ''eth0'' 5 True (BRVLAN_F_UNTAGGED OR BRVLAN_F_PVID)]\<rparr>))"

theorem vlan_change_keeps_port_witness:
  "\<exists>w'. member_vlan_state 1 (hd example_vlans) False 0 vlan_world = Some w' \<and>
     fst (port_vlans 0 ''eth0'' (w_log w')) = [7 \<mapsto> False] \<and>
     bm_pvid (w_member w' 0) = 7 \<and> snd (port_vlans 0 ''eth0'' (w_log w')) = 7"
proof -
  have log: "port_vlans 0 ''eth0'' (w_log vlan_world) = ([5 \<mapsto> True, 7 \<mapsto> False], 5)"
    by (simp add: vlan_world_def port_vlans_def fun_eq_iff has_flag_def BRVLAN_F_PVID_def BRVLAN_F_SELF_def
        BRVLAN_F_UNTAGGED_def)
  have facts: "dv_vlans (w_devs vlan_world 1) = [last example_vlans]" "bm_pvid (w_member vlan_world 0) = 5"
    "member_on vlan_world 0 0 ''eth0''" "bv_vid (hd example_vlans) = 5"
    using member_world_on by (simp_all add: vlan_world_def w_devs_upd_dev member_on_def member_dev_def example_vlans_def)
  have plain: "plain_ports (hd example_vlans)" "list_all plain_ports [last example_vlans]" "distinct (map bv_vid [last example_vlans])"
    "bridge_find_vlan_member_port ''eth0'' (hd example_vlans) \<noteq> None"
    by (simp_all add: example_vlans_def plain_ports_def bridge_find_vlan_member_port_def)
  have want: "wanted_vlan ''eth0'' [last example_vlans] vid = [7 \<mapsto> False] vid" for vid
    by (simp add: wanted_vlan_def example_vlans_def bridge_find_vlan_member_port_def)
  have after: "pvid_after ''eth0'' [last example_vlans] (hd example_vlans) False 5 = 7"
    "kernel_pvid_after ''eth0'' [last example_vlans] (hd example_vlans) False 5 = 7"
    by (simp_all add: pvid_after_def kernel_pvid_after_def first_marked_def example_vlans_def port_flag_def
        bridge_find_vlan_member_port_def)
  have "\<exists>w'. member_vlan_state 1 (hd example_vlans) False 0 vlan_world = Some w' \<and>
     fst (port_vlans 0 ''eth0'' (w_log w')) =
       (if bridge_find_vlan_member_port ''eth0'' (hd example_vlans) = None then fst (port_vlans 0 ''eth0'' (w_log vlan_world))
        else (fst (port_vlans 0 ''eth0'' (w_log vlan_world)))
          (bv_vid (hd example_vlans) := if False then Some (port_flag ''eth0'' BRVLAN_F_UNTAGGED (hd example_vlans)) else None)) \<and>
     bm_pvid (w_member w' 0) = pvid_after ''eth0'' [last example_vlans] (hd example_vlans) False (bm_pvid (w_member vlan_world 0)) \<and>
     snd (port_vlans 0 ''eth0'' (w_log w')) =
       kernel_pvid_after ''eth0'' [last example_vlans] (hd example_vlans) False (bm_pvid (w_member vlan_world 0))"
    by (rule vlan_change_keeps_port) (simp_all add: facts [simplified] plain [simplified] log want)
  then show ?thesis using plain(4) unfolding facts(2) after by (auto simp: facts log fun_upd_twist [of 5 7])
qed

end
