(* ===== verification/IpRule.thy ===== *)
theory IpRule
  imports Example "HOL-Library.Multiset"
begin

text \<open>
  Configured policy rules, \<open>src/iprule.c\<close>. A rule that names interfaces is a user of them: it is in
  the kernel only while the devices of its interfaces are known. The rules live in a store, \<open>rs_tree\<close>
  is the tree of the ones in use; \<open>rs_users\<close> holds, for each interface, the users that are rules.
  The state of interfaces is read from the world.
\<close>

unbundle bit_operations_syntax

datatype rule_attr =
    RULE_INTERFACE_IN | RULE_INTERFACE_OUT | RULE_INVERT | RULE_SRC | RULE_DEST | RULE_PRIORITY
  | RULE_TOS | RULE_FWMARK | RULE_LOOKUP | RULE_ACTION | RULE_GOTO | RULE_SUP_PREFIXLEN
  | RULE_UIDRANGE | RULE_DISABLED

fun rule_attr_policy :: "rule_attr \<Rightarrow> string \<times> blobmsg_type" where
  "rule_attr_policy RULE_INTERFACE_IN = (''in'', BLOBMSG_TYPE_STRING)"
| "rule_attr_policy RULE_INTERFACE_OUT = (''out'', BLOBMSG_TYPE_STRING)"
| "rule_attr_policy RULE_INVERT = (''invert'', BLOBMSG_TYPE_BOOL)"
| "rule_attr_policy RULE_SRC = (''src'', BLOBMSG_TYPE_STRING)"
| "rule_attr_policy RULE_DEST = (''dest'', BLOBMSG_TYPE_STRING)"
| "rule_attr_policy RULE_PRIORITY = (''priority'', BLOBMSG_TYPE_INT32)"
| "rule_attr_policy RULE_TOS = (''tos'', BLOBMSG_TYPE_INT32)"
| "rule_attr_policy RULE_FWMARK = (''mark'', BLOBMSG_TYPE_STRING)"
| "rule_attr_policy RULE_LOOKUP = (''lookup'', BLOBMSG_TYPE_STRING)"
| "rule_attr_policy RULE_SUP_PREFIXLEN = (''suppress_prefixlength'', BLOBMSG_TYPE_INT32)"
| "rule_attr_policy RULE_UIDRANGE = (''uidrange'', BLOBMSG_TYPE_STRING)"
| "rule_attr_policy RULE_ACTION = (''action'', BLOBMSG_TYPE_STRING)"
| "rule_attr_policy RULE_GOTO = (''goto'', BLOBMSG_TYPE_INT32)"
| "rule_attr_policy RULE_DISABLED = (''disabled'', BLOBMSG_TYPE_BOOL)"

type_synonym rid = nat

datatype rule_user = RuleIn rid | RuleOut rid

record rules =
  rs_rule :: "rid \<Rightarrow> iprule"
  rs_version :: "rid \<Rightarrow> int"
  rs_tree :: "rid list"
  rs_tree_version :: int
  rs_next :: rid
  rs_flushed :: bool
  rs_counter :: "bool \<Rightarrow> u32"
  rs_users :: "ifid \<Rightarrow> rule_user list"
  rs_log :: klog

definition upd_rule :: "rid \<Rightarrow> (iprule \<Rightarrow> iprule) \<Rightarrow> rules \<Rightarrow> rules" where
  "upd_rule r f s = s\<lparr>rs_rule := (rs_rule s)(r := f (rs_rule s r))\<rparr>"

definition rule_ready :: "iprule \<Rightarrow> bool" where
  "rule_ready rule \<longleftrightarrow>
     \<not> (has_flag (ru_flags rule) IPRULE_OUT \<and> ru_out_dev rule = []) \<and>
     \<not> (has_flag (ru_flags rule) IPRULE_IN \<and> ru_in_dev rule = [])"

definition rule_req :: "(iprule \<Rightarrow> kreq) \<Rightarrow> rid \<Rightarrow> rules \<Rightarrow> rules" where
  "rule_req K r s = s\<lparr>rs_log := kdo (K (rs_rule s r)) (rs_log s)\<rparr>"

definition when_ready :: "(iprule \<Rightarrow> kreq) \<Rightarrow> rid \<Rightarrow> rules \<Rightarrow> rules" where
  "when_ready K r s = (if rule_ready (rs_rule s r) then rule_req K r s else s)"

section \<open>Parsing\<close>

definition iprule_parse_mark :: "string \<Rightarrow> iprule \<Rightarrow> iprule option" where
  "iprule_parse_mark m rule =
     (let (mark, s) = (case strchr m CHR ''/'' of None \<Rightarrow> (m, None) | Some (a, b) \<Rightarrow> (a, Some b));
          (n, e) = strtoul 0 mark
      in if e = mark \<or> e \<noteq> [] then None
         else let rule = rule\<lparr>ru_fwmark := word_of_nat n, ru_flags := ru_flags rule OR IPRULE_FWMARK\<rparr>
              in case s of
                   None \<Rightarrow> Some rule
                 | Some s \<Rightarrow>
                     let (n, e) = strtoul 0 s
                     in if e = s \<or> e \<noteq> [] then None
                        else Some (rule\<lparr>ru_fwmask := word_of_nat n, ru_flags := ru_flags rule OR IPRULE_FWMASK\<rparr>))"

text \<open>\<open>sscanf(s, "%u-%u", ...)\<close>: the numbers that it reads.\<close>

definition scan_uid_range :: "string \<Rightarrow> (u32 \<times> u32 option) option" where
  "scan_uid_range s =
     (let (a, e) = strtoul 10 s
      in if e = s then None
         else if take 1 e \<noteq> ''-'' then Some (word_of_nat a, None)
         else let (b, e') = strtoul 10 (tl e)
              in if e' = tl e then Some (word_of_nat a, None) else Some (word_of_nat a, Some (word_of_nat b)))"

definition set_rule_flag :: "u32 \<Rightarrow> iprule \<Rightarrow> iprule" where
  "set_rule_flag f rule = rule\<lparr>ru_flags := ru_flags rule OR f\<rparr>"

definition opt_attr :: "'v option \<Rightarrow> ('v \<Rightarrow> iprule \<Rightarrow> iprule option) \<Rightarrow> iprule \<Rightarrow> iprule option" where
  "opt_attr v f rule = (case v of None \<Rightarrow> Some rule | Some x \<Rightarrow> f x rule)"

definition parse_rule_selectors :: "parse_env \<Rightarrow> rule_attr attr_tb \<Rightarrow> bool \<Rightarrow> iprule \<Rightarrow> iprule option" where
  "parse_rule_selectors P tb v6 rule = do {
     rule \<leftarrow> opt_attr (attr_bool tb RULE_INVERT) (\<lambda>b r. Some (r\<lparr>ru_invert := b\<rparr>)) rule;
     rule \<leftarrow> opt_attr (attr_string tb RULE_INTERFACE_IN)
               (\<lambda>n r. Some (set_rule_flag IPRULE_IN (r\<lparr>ru_in_iface := Some n\<rparr>))) rule;
     rule \<leftarrow> opt_attr (attr_string tb RULE_INTERFACE_OUT)
               (\<lambda>n r. Some (set_rule_flag IPRULE_OUT (r\<lparr>ru_out_iface := Some n\<rparr>))) rule;
     rule \<leftarrow> opt_attr (attr_string tb RULE_SRC)
               (\<lambda>str r. map_option (\<lambda>(a, m). set_rule_flag IPRULE_SRC (r\<lparr>ru_src_addr := a, ru_src_mask := m\<rparr>))
                  (parse_ip_and_netmask (pe_inet_aton P) (pe_inet_pton P) v6 str (ru_src_addr r) (ru_src_mask r))) rule;
     opt_attr (attr_string tb RULE_DEST)
       (\<lambda>str r. map_option (\<lambda>(a, m). set_rule_flag IPRULE_DEST (r\<lparr>ru_dest_addr := a, ru_dest_mask := m\<rparr>))
          (parse_ip_and_netmask (pe_inet_aton P) (pe_inet_pton P) v6 str (ru_dest_addr r) (ru_dest_mask r))) rule
   }"

definition parse_rule_actions :: "parse_env \<Rightarrow> rule_attr attr_tb \<Rightarrow> iprule \<Rightarrow> iprule option" where
  "parse_rule_actions P tb rule = do {
     rule \<leftarrow> opt_attr (attr_u32 tb RULE_PRIORITY)
               (\<lambda>p r. Some (set_rule_flag IPRULE_PRIORITY (r\<lparr>ru_priority := p\<rparr>))) rule;
     rule \<leftarrow> opt_attr (attr_u32 tb RULE_TOS)
               (\<lambda>t r. if t > 255 then None else Some (set_rule_flag IPRULE_TOS (r\<lparr>ru_tos := t\<rparr>))) rule;
     rule \<leftarrow> opt_attr (attr_string tb RULE_FWMARK) iprule_parse_mark rule;
     rule \<leftarrow> opt_attr (attr_string tb RULE_LOOKUP)
               (\<lambda>n r. map_option (\<lambda>t. set_rule_flag IPRULE_LOOKUP (r\<lparr>ru_lookup := t\<rparr>))
                  (system_resolve_rt_table (pe_rt_tables P) n)) rule;
     rule \<leftarrow> opt_attr (attr_u32 tb RULE_SUP_PREFIXLEN)
               (\<lambda>p r. Some (set_rule_flag IPRULE_SUP_PREFIXLEN (r\<lparr>ru_sup_prefixlen := p\<rparr>))) rule;
     rule \<leftarrow> opt_attr (attr_string tb RULE_UIDRANGE)
               (\<lambda>s r. map_option (\<lambda>(a, b). set_rule_flag IPRULE_UIDRANGE
                     (r\<lparr>ru_uidrange_start := a, ru_uidrange_end := (case b of None \<Rightarrow> a | Some b \<Rightarrow> b)\<rparr>))
                  (scan_uid_range s)) rule;
     rule \<leftarrow> opt_attr (attr_string tb RULE_ACTION)
               (\<lambda>s r. map_option (\<lambda>a. set_rule_flag IPRULE_ACTION (r\<lparr>ru_action := a\<rparr>))
                  (system_resolve_iprule_action s)) rule;
     opt_attr (attr_u32 tb RULE_GOTO)
       (\<lambda>g r. Some (set_rule_flag IPRULE_GOTO (r\<lparr>ru_gotoid := g\<rparr>))) rule
   }"

definition parse_iprule :: "parse_env \<Rightarrow> rule_attr attr_tb \<Rightarrow> bool \<Rightarrow> u32 \<Rightarrow> iprule option" where
  "parse_iprule P tb v6 order =
     Option.bind (parse_rule_selectors P tb v6
       (zero_iprule\<lparr>ru_flags := (if v6 then IPRULE_INET6 else IPRULE_INET4), ru_order := order\<rparr>))
       (parse_rule_actions P tb)"

section \<open>Following the interfaces\<close>

definition rule_in_cb :: "world \<Rightarrow> rid \<Rightarrow> ifid \<Rightarrow> Types.interface_event \<Rightarrow> rules \<Rightarrow> rules" where
  "rule_in_cb w r i ev s =
     (let gone = upd_rule r (\<lambda>x. x\<lparr>ru_in_dev := []\<rparr>) (when_ready KDelIprule r s)
      in case ev of
           IFEV_UP \<Rightarrow>
             (case l3_device (w_ifs w i) of
                None \<Rightarrow> s
              | Some d \<Rightarrow> when_ready KAddIprule r
                            (upd_rule r (\<lambda>x. x\<lparr>ru_in_dev := dv_ifname (w_devs w d)\<rparr>) s))
         | IFEV_DOWN \<Rightarrow> gone
         | IFEV_UP_FAILED \<Rightarrow> gone
         | IFEV_FREE \<Rightarrow> gone
         | _ \<Rightarrow> s)"

definition rule_out_cb :: "world \<Rightarrow> rid \<Rightarrow> ifid \<Rightarrow> Types.interface_event \<Rightarrow> rules \<Rightarrow> rules" where
  "rule_out_cb w r i ev s =
     (let gone = upd_rule r (\<lambda>x. x\<lparr>ru_out_dev := []\<rparr>) (when_ready KDelIprule r s)
      in case ev of
           IFEV_UP \<Rightarrow>
             (case l3_device (w_ifs w i) of
                None \<Rightarrow> s
              | Some d \<Rightarrow> when_ready KAddIprule r
                            (upd_rule r (\<lambda>x. x\<lparr>ru_out_dev := dv_ifname (w_devs w d)\<rparr>) s))
         | IFEV_DOWN \<Rightarrow> gone
         | IFEV_UP_FAILED \<Rightarrow> gone
         | IFEV_FREE \<Rightarrow> gone
         | _ \<Rightarrow> s)"

fun rule_user_cb :: "world \<Rightarrow> ifid \<Rightarrow> Types.interface_event \<Rightarrow> rule_user \<Rightarrow> rules \<Rightarrow> rules" where
  "rule_user_cb w i ev (RuleIn r) s = rule_in_cb w r i ev s"
| "rule_user_cb w i ev (RuleOut r) s = rule_out_cb w r i ev s"

text \<open>The field \<open>iface\<close> of a user.\<close>

fun set_user_iface :: "rule_user \<Rightarrow> ifid option \<Rightarrow> rules \<Rightarrow> rules" where
  "set_user_iface (RuleIn r) i = upd_rule r (\<lambda>x. x\<lparr>ru_in_iface_user := i\<rparr>)"
| "set_user_iface (RuleOut r) i = upd_rule r (\<lambda>x. x\<lparr>ru_out_iface_user := i\<rparr>)"

text \<open>\<open>interface_add_user\<close> and \<open>interface_remove_user\<close> for a rule.\<close>

definition rule_add_user :: "world \<Rightarrow> rule_user \<Rightarrow> ifid \<Rightarrow> rules \<Rightarrow> rules" where
  "rule_add_user w u i s =
     (let s = set_user_iface u (Some i) s;
          s = s\<lparr>rs_users := (rs_users s)(i := u # rs_users s i)\<rparr>
      in if if_state (w_ifs w i) = IFS_UP then rule_user_cb w i IFEV_UP u s else s)"

definition rule_remove_user :: "rule_user \<Rightarrow> rules \<Rightarrow> rules" where
  "rule_remove_user u s =
     set_user_iface u None (s\<lparr>rs_users := (\<lambda>i. removeAll u (rs_users s i))\<rparr>)"

definition generic_rule :: "world \<Rightarrow> ifid \<Rightarrow> rid \<Rightarrow> rules \<Rightarrow> rules" where
  "generic_rule w i r s =
     (let rule = rs_rule s r; name = Some (if_name (w_ifs w i))
      in if rule_ready rule then s
         else let s = (if has_flag (ru_flags rule) IPRULE_OUT \<and> ru_out_iface rule = name
                       then rule_add_user w (RuleOut r) i s else s)
              in if has_flag (ru_flags rule) IPRULE_IN \<and> ru_in_iface rule = name
                 then rule_add_user w (RuleIn r) i s else s)"

definition generic_interface_cb :: "world \<Rightarrow> ifid \<Rightarrow> Types.interface_event \<Rightarrow> rules \<Rightarrow> rules" where
  "generic_interface_cb w i ev s =
     (if ev \<noteq> IFEV_CREATE then s else fold (generic_rule w i) (rs_tree s) s)"

text \<open>An event of interface \<open>i\<close>: its users hear of it first, then the listeners for all interfaces.\<close>

definition rules_interface_event :: "world \<Rightarrow> ifid \<Rightarrow> Types.interface_event \<Rightarrow> rules \<Rightarrow> rules" where
  "rules_interface_event w i ev s =
     generic_interface_cb w i ev (fold (rule_user_cb w i ev) (rs_users s i) s)"

text \<open>\<open>interface_cleanup\<close> takes the users off an interface that is freed.\<close>

definition rules_interface_cleanup :: "ifid \<Rightarrow> rules \<Rightarrow> rules" where
  "rules_interface_cleanup i s = fold rule_remove_user (rs_users s i) s"

section \<open>The tree of rules\<close>

text \<open>The bytes of a rule from the field \<open>flags\<close> to its end, padding included.\<close>

definition rule_bytes :: "iprule \<Rightarrow> u8 list" where
  "rule_bytes r =
     u32_bytes (ru_flags r) @ [of_bool (ru_invert r), 0, 0, 0] @
     u32_bytes (ru_src_mask r) @ ru_src_addr r @ u32_bytes (ru_dest_mask r) @ ru_dest_addr r @
     concat (map u32_bytes [ru_priority r, ru_tos r, ru_fwmark r, ru_fwmask r, ru_lookup r,
       ru_sup_prefixlen r, ru_uidrange_start r, ru_uidrange_end r, ru_action r, ru_gotoid r])"

definition rule_in_name :: "iprule \<Rightarrow> string" where
  "rule_in_name r = (if has_flag (ru_flags r) IPRULE_IN then (case ru_in_iface r of None \<Rightarrow> [] | Some n \<Rightarrow> n) else [])"

definition rule_out_name :: "iprule \<Rightarrow> string" where
  "rule_out_name r = (if has_flag (ru_flags r) IPRULE_OUT then (case ru_out_iface r of None \<Rightarrow> [] | Some n \<Rightarrow> n) else [])"

definition rule_cmp :: "iprule \<Rightarrow> iprule \<Rightarrow> int" where
  "rule_cmp r1 r2 =
     (let c = strcmp (rule_in_name r1) (rule_in_name r2)
      in if (has_flag (ru_flags r1) IPRULE_IN \<or> has_flag (ru_flags r2) IPRULE_IN) \<and> c \<noteq> 0 then c
         else let c = strcmp (rule_out_name r1) (rule_out_name r2)
              in if (has_flag (ru_flags r1) IPRULE_OUT \<or> has_flag (ru_flags r2) IPRULE_OUT) \<and> c \<noteq> 0 then c
                 else memcmp (rule_bytes r1) (rule_bytes r2))"

definition deregister_interfaces :: "rid \<Rightarrow> rules \<Rightarrow> rules" where
  "deregister_interfaces r s =
     (let rule = rs_rule s r;
          s = (if has_flag (ru_flags rule) IPRULE_IN \<and> ru_in_iface_user rule \<noteq> None
               then rule_remove_user (RuleIn r) s else s)
      in if has_flag (ru_flags rule) IPRULE_OUT \<and> ru_out_iface_user rule \<noteq> None
         then rule_remove_user (RuleOut r) s else s)"

definition register_one :: "world \<Rightarrow> string option \<Rightarrow> rule_user \<Rightarrow> rules \<Rightarrow> rules" where
  "register_one w name u s =
     (case Option.bind name (find_interface w) of None \<Rightarrow> s | Some i \<Rightarrow> rule_add_user w u i s)"

definition register_interfaces :: "world \<Rightarrow> rid \<Rightarrow> rules \<Rightarrow> rules" where
  "register_interfaces w r s =
     (let rule = rs_rule s r;
          s = (if has_flag (ru_flags rule) IPRULE_IN then register_one w (ru_in_iface rule) (RuleIn r) s else s)
      in if has_flag (ru_flags rule) IPRULE_OUT then register_one w (ru_out_iface rule) (RuleOut r) s else s)"

definition interface_based :: "iprule \<Rightarrow> bool" where
  "interface_based rule \<longleftrightarrow> has_flag (ru_flags rule) (IPRULE_IN OR IPRULE_OUT)"

definition rule_removed :: "rid \<Rightarrow> rules \<Rightarrow> rules" where
  "rule_removed r s =
     (let s = when_ready KDelIprule r s
      in if interface_based (rs_rule s r) then deregister_interfaces r s else s)"

definition rule_added :: "world \<Rightarrow> rid \<Rightarrow> rules \<Rightarrow> rules" where
  "rule_added w r s =
     (if interface_based (rs_rule s r) then register_interfaces w r s else rule_req KAddIprule r s)"

definition iprule_update_rule :: "world \<Rightarrow> rid option \<Rightarrow> rid option \<Rightarrow> rules \<Rightarrow> rules" where
  "iprule_update_rule w node_new node_old s =
     (let s = (case node_old of None \<Rightarrow> s | Some r \<Rightarrow> rule_removed r s)
      in case node_new of None \<Rightarrow> s | Some r \<Rightarrow> rule_added w r s)"

text \<open>A rule is allocated as the next one, and \<open>vlist_add\<close> puts it into the tree.\<close>

definition rule_alloc :: "iprule \<Rightarrow> rules \<Rightarrow> rules" where
  "rule_alloc rule s =
     s\<lparr>rs_next := rs_next s + 1, rs_rule := (rs_rule s)(rs_next s := rule),
       rs_version := (rs_version s)(rs_next s := rs_tree_version s)\<rparr>"

definition rules_put :: "world \<Rightarrow> rid \<Rightarrow> rules \<Rightarrow> rules" where
  "rules_put w r s =
     (let cmp = (\<lambda>a b. rule_cmp (rs_rule s a) (rs_rule s b))
      in iprule_update_rule w (Some r) (vlist_old cmp r (rs_tree s))
           (s\<lparr>rs_tree := vlist_put cmp r (rs_tree s)\<rparr>))"

definition iprule_add :: "parse_env \<Rightarrow> world \<Rightarrow> rule_attr attr_tb \<Rightarrow> bool \<Rightarrow> rules \<Rightarrow> rules" where
  "iprule_add P w tb v6 s =
     (if attr_bool tb RULE_DISABLED = Some True then s
      else let order = rs_counter s v6;
               s = s\<lparr>rs_counter := (rs_counter s)(v6 := order + 1)\<rparr>
           in case parse_iprule P tb v6 order of
                None \<Rightarrow> s
              | Some rule \<Rightarrow> rules_put w (rs_next s) (rule_alloc rule s))"

definition iprule_update_start :: "rules \<Rightarrow> rules" where
  "iprule_update_start s =
     (let s = (if rs_flushed s then s
               else s\<lparr>rs_log := kdo KFlushIprules (rs_log s), rs_flushed := True\<rparr>)
      in s\<lparr>rs_counter := (\<lambda>_. 1), rs_tree_version := rs_tree_version s + 1\<rparr>)"

definition rule_delete :: "world \<Rightarrow> rid \<Rightarrow> rules \<Rightarrow> rules" where
  "rule_delete w r s = iprule_update_rule w None (Some r) (s\<lparr>rs_tree := removeAll r (rs_tree s)\<rparr>)"

text \<open>\<open>vlist_flush\<close>: the rules that were not added again since \<open>iprule_update_start\<close> go.\<close>

definition iprule_update_complete :: "world \<Rightarrow> rules \<Rightarrow> rules" where
  "iprule_update_complete w s =
     fold (\<lambda>r s. if rs_version s r = rs_tree_version s then s else rule_delete w r s) (rs_tree s) s"

end
