(* ===== verification/RuleSync.thy ===== *)
theory RuleSync
  imports IpRule TreeOrder
begin

text \<open>
  The kernel has exactly the configured rules that are ready: an invariant of all operations of
  \<open>src/iprule.c\<close>.
\<close>

unbundle bit_operations_syntax

section \<open>What the kernel has\<close>

text \<open>What of a rule reaches the kernel; the names and users of interfaces do not.\<close>

definition rule_msg :: "iprule \<Rightarrow> iprule" where
  "rule_msg r = r\<lparr>ru_in_iface_user := None, ru_out_iface_user := None, ru_in_iface := None, ru_out_iface := None\<rparr>"

fun kernel_rule :: "kreq \<Rightarrow> iprule multiset \<Rightarrow> iprule multiset" where
  "kernel_rule (KAddIprule r) M = add_mset (rule_msg r) M"
| "kernel_rule (KDelIprule r) M = M - {#rule_msg r#}"
| "kernel_rule KFlushIprules M = {#}"
| "kernel_rule _ M = M"

definition kernel_rules :: "klog \<Rightarrow> iprule multiset" where
  "kernel_rules log = fold kernel_rule log {#}"

lemma kernel_rules_kdo [simp]: "kernel_rules (kdo q log) = kernel_rule q (kernel_rules log)"
  by (simp add: kernel_rules_def kdo_def)

text \<open>\<open>L\<close> are the rules in use.\<close>

definition ready_rules :: "rid set \<Rightarrow> (rid \<Rightarrow> iprule) \<Rightarrow> iprule multiset" where
  "ready_rules L \<rho> = image_mset (rule_msg \<circ> \<rho>) (mset_set {r \<in> L. rule_ready (\<rho> r)})"

lemma ready_rules_split:
  assumes "finite L" and "r \<in> L"
  shows "ready_rules L \<rho> =
    ready_rules (L - {r}) \<rho> + (if rule_ready (\<rho> r) then {#rule_msg (\<rho> r)#} else {#})"
proof -
  have "{q \<in> L. rule_ready (\<rho> q)} =
      (if rule_ready (\<rho> r) then insert r {q \<in> L - {r}. rule_ready (\<rho> q)} else {q \<in> L - {r}. rule_ready (\<rho> q)})"
    using assms(2) by auto
  then show ?thesis using assms(1) by (simp add: ready_rules_def)
qed

lemma ready_rules_other: "ready_rules (L - {r}) (\<rho>(r := x)) = ready_rules (L - {r}) \<rho>"
proof -
  have e: "{q \<in> L - {r}. rule_ready ((\<rho>(r := x)) q)} = {q \<in> L - {r}. rule_ready (\<rho> q)}" by auto
  have "r \<notin># mset_set {q \<in> L - {r}. rule_ready (\<rho> q)}"
    by (cases "finite {q \<in> L - {r}. rule_ready (\<rho> q)}") auto
  then show ?thesis unfolding ready_rules_def e by (intro image_mset_cong) auto
qed

lemmas ready_rules_update = ready_rules_split [where \<rho> = "\<rho>(r := x)" and r = r, unfolded ready_rules_other] for \<rho> r x

section \<open>Users\<close>

definition links :: "rid set \<Rightarrow> rules \<Rightarrow> bool" where
  "links L s \<longleftrightarrow>
     (\<forall>i. distinct (rs_users s i)) \<and>
     (\<forall>i r. RuleIn r \<in> set (rs_users s i) \<longleftrightarrow> r \<in> L \<and> ru_in_iface_user (rs_rule s r) = Some i) \<and>
     (\<forall>i r. RuleOut r \<in> set (rs_users s i) \<longleftrightarrow> r \<in> L \<and> ru_out_iface_user (rs_rule s r) = Some i) \<and>
     (\<forall>r \<in> L. (case ru_in_iface_user (rs_rule s r) of
                 None \<Rightarrow> ru_in_dev (rs_rule s r) = []
               | Some _ \<Rightarrow> has_flag (ru_flags (rs_rule s r)) IPRULE_IN)) \<and>
     (\<forall>r \<in> L. (case ru_out_iface_user (rs_rule s r) of
                 None \<Rightarrow> ru_out_dev (rs_rule s r) = []
               | Some _ \<Rightarrow> has_flag (ru_flags (rs_rule s r)) IPRULE_OUT))"

definition rules_ok :: "rid set \<Rightarrow> rules \<Rightarrow> bool" where
  "rules_ok L s \<longleftrightarrow> finite L \<and> links L s \<and> kernel_rules (rs_log s) = ready_rules L (rs_rule s)"

fun user_rule :: "rule_user \<Rightarrow> rid" where
  "user_rule (RuleIn r) = r"
| "user_rule (RuleOut r) = r"

fun user_dev :: "rules \<Rightarrow> rule_user \<Rightarrow> string" where
  "user_dev s (RuleIn r) = ru_in_dev (rs_rule s r)"
| "user_dev s (RuleOut r) = ru_out_dev (rs_rule s r)"

fun set_dev :: "rule_user \<Rightarrow> string \<Rightarrow> iprule \<Rightarrow> iprule" where
  "set_dev (RuleIn r) n x = x\<lparr>ru_in_dev := n\<rparr>"
| "set_dev (RuleOut r) n x = x\<lparr>ru_out_dev := n\<rparr>"

text \<open>Both callbacks at once.\<close>

lemma rule_user_cb_eq:
  "rule_user_cb w i ev u s =
     (case ev of
        IFEV_UP \<Rightarrow>
          (case l3_device (w_ifs w i) of
             None \<Rightarrow> s
           | Some d \<Rightarrow> when_ready KAddIprule (user_rule u)
                         (upd_rule (user_rule u) (set_dev u (dv_ifname (w_devs w d))) s))
      | IFEV_RELOAD \<Rightarrow> s | IFEV_UPDATE \<Rightarrow> s | IFEV_LINK_UP \<Rightarrow> s | IFEV_CREATE \<Rightarrow> s
      | _ \<Rightarrow> upd_rule (user_rule u) (set_dev u []) (when_ready KDelIprule (user_rule u) s))"
  by (cases u) (simp_all add: rule_in_cb_def rule_out_cb_def Let_def set_dev.simps[abs_def]
      split: Types.interface_event.splits option.splits)

lemma rules_simps [simp]:
  "rs_rule (upd_rule r f s) = (rs_rule s)(r := f (rs_rule s r))" "rs_users (upd_rule r f s) = rs_users s"
  "rs_log (upd_rule r f s) = rs_log s" "rs_tree (upd_rule r f s) = rs_tree s" "rs_next (upd_rule r f s) = rs_next s"
  "rs_rule (rule_req K r s) = rs_rule s" "rs_users (rule_req K r s) = rs_users s"
  "rs_tree (rule_req K r s) = rs_tree s" "rs_next (rule_req K r s) = rs_next s"
  "rs_rule (when_ready K r s) = rs_rule s" "rs_users (when_ready K r s) = rs_users s"
  "rs_tree (when_ready K r s) = rs_tree s" "rs_next (when_ready K r s) = rs_next s"
  by (simp_all add: upd_rule_def rule_req_def when_ready_def)

lemma rs_log_req [simp]: "rs_log (rule_req K r s) = kdo (K (rs_rule s r)) (rs_log s)"
  "rs_log (when_ready K r s) = (if rule_ready (rs_rule s r) then kdo (K (rs_rule s r)) (rs_log s) else rs_log s)"
  by (simp_all add: rule_req_def when_ready_def)

lemma links_cong: "rs_users s' = rs_users s \<Longrightarrow> rs_rule s' = rs_rule s \<Longrightarrow> links L s' \<longleftrightarrow> links L s"
  by (simp add: links_def cong: option.case_cong)

lemma registered:
  assumes "links L s" and "u \<in> set (rs_users s i)"
  shows "user_rule u \<in> L" and "user_dev s u = [] \<Longrightarrow> \<not> rule_ready (rs_rule s (user_rule u))"
  using assms by (cases u; force simp: links_def rule_ready_def split: option.splits)+

lemma links_set_dev:
  assumes "links L s" and "u \<in> set (rs_users s i)" and "rs_users s' = rs_users s"
    and "rs_rule s' = (rs_rule s)(user_rule u := set_dev u n (rs_rule s (user_rule u)))"
  shows "links L s'"
  using assms unfolding links_def
  by (cases u) (auto split: option.splits if_splits)

lemma unready: "links L s \<Longrightarrow> u \<in> set (rs_users s i) \<Longrightarrow> \<not> rule_ready (set_dev u [] (rs_rule s (user_rule u)))"
  by (cases u) (force simp: links_def rule_ready_def split: option.splits)+

lemma rule_user_cb_ok:
  assumes ok: "rules_ok L s" and u: "u \<in> set (rs_users s i)" and up: "ev = IFEV_UP \<Longrightarrow> user_dev s u = []"
  shows "rules_ok L (rule_user_cb w i ev u s)"
proof -
  let ?r = "user_rule u"
  have l: "links L s" "finite L" and k: "kernel_rules (rs_log s) = ready_rules L (rs_rule s)"
    using ok by (simp_all add: rules_ok_def)
  note r = registered [OF l(1) u]
  have on: "rules_ok L (when_ready KAddIprule ?r (upd_rule ?r (set_dev u n) s))" if "ev = IFEV_UP" for n
    using l k links_set_dev [OF l(1) u, of "when_ready KAddIprule ?r (upd_rule ?r (set_dev u n) s)" n]
      r(2) [OF up [OF that]] ready_rules_split [OF l(2) r(1), of "rs_rule s"]
    by (simp add: rules_ok_def ready_rules_update [OF l(2) r(1)])
  have off: "rules_ok L (upd_rule ?r (set_dev u []) (when_ready KDelIprule ?r s))"
    using l k links_set_dev [OF l(1) u, of "upd_rule ?r (set_dev u []) (when_ready KDelIprule ?r s)" "[]"]
      unready [OF l(1) u] ready_rules_split [OF l(2) r(1), of "rs_rule s"]
    by (simp add: rules_ok_def ready_rules_update [OF l(2) r(1)])
  show ?thesis
    using on off ok by (simp add: rule_user_cb_eq split: Types.interface_event.splits option.splits)
qed


section \<open>Registering and leaving\<close>

fun user_iface :: "rules \<Rightarrow> rule_user \<Rightarrow> ifid option" where
  "user_iface s (RuleIn r) = ru_in_iface_user (rs_rule s r)"
| "user_iface s (RuleOut r) = ru_out_iface_user (rs_rule s r)"

fun user_flag :: "rules \<Rightarrow> rule_user \<Rightarrow> bool" where
  "user_flag s (RuleIn r) = has_flag (ru_flags (rs_rule s r)) IPRULE_IN"
| "user_flag s (RuleOut r) = has_flag (ru_flags (rs_rule s r)) IPRULE_OUT"

fun set_user :: "rule_user \<Rightarrow> ifid option \<Rightarrow> iprule \<Rightarrow> iprule" where
  "set_user (RuleIn r) i x = x\<lparr>ru_in_iface_user := i\<rparr>"
| "set_user (RuleOut r) i x = x\<lparr>ru_out_iface_user := i\<rparr>"

lemma set_user_iface_eq: "set_user_iface u i = upd_rule (user_rule u) (set_user u i)"
  by (cases u) (simp_all add: set_user.simps[abs_def])

lemma set_user_same [simp]:
  "rule_msg (set_user u i x) = rule_msg x" "rule_ready (set_user u i x) = rule_ready x"
  by (cases u; simp add: rule_msg_def rule_ready_def)+

lemma ready_rules_same:
  assumes "finite L" and "r \<in> L" and "rule_msg x = rule_msg (\<rho> r)" and "rule_ready x = rule_ready (\<rho> r)"
  shows "ready_rules L (\<rho>(r := x)) = ready_rules L \<rho>"
  using assms(3,4) by (simp add: ready_rules_update [OF assms(1,2)] ready_rules_split [OF assms(1,2), of \<rho>])

lemma links_register:
  assumes "links L s" and "user_rule u \<in> L" and "user_iface s u = None" and "user_flag s u"
  shows "links L ((set_user_iface u (Some i) s)\<lparr>rs_users := (rs_users s)(i := u # rs_users s i)\<rparr>)"
  using assms unfolding links_def set_user_iface_eq
  by (cases u) (auto split: option.splits if_splits)

lemma rule_add_user_ok:
  assumes "rules_ok L s" and "user_rule u \<in> L" and "user_iface s u = None" and "user_flag s u"
  shows "rules_ok L (rule_add_user w u i s)"
proof -
  let ?s = "(set_user_iface u (Some i) s)\<lparr>rs_users := (rs_users s)(i := u # rs_users s i)\<rparr>"
  have "links L ?s" using assms by (intro links_register) (simp_all add: rules_ok_def)
  then have ok: "rules_ok L ?s"
    using assms(1,2) by (simp add: rules_ok_def set_user_iface_eq ready_rules_same)
  have "user_dev ?s u = []"
    using assms by (cases u) (auto simp: rules_ok_def links_def split: option.splits)
  then have "rules_ok L (rule_user_cb w i IFEV_UP u ?s)"
    using ok by (intro rule_user_cb_ok [where i = i]) auto
  with ok show ?thesis by (simp add: rule_add_user_def Let_def set_user_iface_eq)
qed

lemma add_user_other [simp]:
  "user_iface (rule_add_user w u i s) v = (if v = u then Some i else user_iface s v)"
  "user_flag (rule_add_user w u i s) v = user_flag s v"
  "rs_tree (rule_add_user w u i s) = rs_tree s" "rs_next (rule_add_user w u i s) = rs_next s"
  by (cases u; cases v; simp add: rule_add_user_def set_user_iface_eq rule_user_cb_eq Let_def split: option.splits)+

lemma links_unregister:
  assumes "links L s" and "user_dev s u = []"
  shows "links L (rule_remove_user u s)"
  using assms unfolding links_def rule_remove_user_def set_user_iface_eq
  by (cases u) (auto simp: distinct_removeAll split: option.splits if_splits)

lemma rule_remove_user_ok:
  assumes "rules_ok L s" and "user_dev s u = []" and "user_rule u \<in> L"
  shows "rules_ok L (rule_remove_user u s)"
  using assms links_unregister [of L s u]
  by (simp add: rules_ok_def rule_remove_user_def set_user_iface_eq ready_rules_same)

lemma removed_ok:
  assumes "rules_ok L s" and "r \<in> L"
  shows "rules_ok (L - {r}) (rule_removed r s)"
proof -
  have l: "links L s" "finite L" and k: "kernel_rules (rs_log s) = ready_rules L (rs_rule s)"
    using assms(1) by (simp_all add: rules_ok_def)
  have users: "rs_users (rule_removed r s) = (\<lambda>i. removeAll (RuleOut r) (removeAll (RuleIn r) (rs_users s i)))"
    using l(1) assms(2)
    by (auto simp: rule_removed_def deregister_interfaces_def interface_based_def Let_def links_def
        rule_remove_user_def has_flag_or_right set_user_iface_eq fun_eq_iff removeAll_id split: option.splits)
  have rule: "q \<noteq> r \<Longrightarrow> rs_rule (rule_removed r s) q = rs_rule s q" for q
    by (simp add: rule_removed_def deregister_interfaces_def Let_def rule_remove_user_def set_user_iface_eq)
  have "links (L - {r}) (rule_removed r s)"
    using l(1) unfolding links_def users by (auto simp: rule distinct_removeAll cong: option.case_cong)
  moreover have "kernel_rules (rs_log (rule_removed r s)) = ready_rules (L - {r}) (rs_rule s)"
    using k ready_rules_split [OF l(2) assms(2), of "rs_rule s"]
    by (simp add: rule_removed_def deregister_interfaces_def Let_def rule_remove_user_def set_user_iface_eq)
  moreover have "ready_rules (L - {r}) (rs_rule (rule_removed r s)) = ready_rules (L - {r}) (rs_rule s)"
  proof -
    have "rs_rule (rule_removed r s) = (rs_rule s)(r := rs_rule (rule_removed r s) r)"
      using rule by (auto simp: fun_eq_iff)
    then show ?thesis using ready_rules_other by metis
  qed
  ultimately show ?thesis using l(2) by (simp add: rules_ok_def)
qed

text \<open>A rule as it comes from the parser.\<close>

definition fresh_rule :: "iprule \<Rightarrow> bool" where
  "fresh_rule x \<longleftrightarrow> ru_in_iface_user x = None \<and> ru_out_iface_user x = None \<and> ru_in_dev x = [] \<and> ru_out_dev x = []"

lemma register_one_ok:
  assumes "rules_ok L s" and "user_rule u \<in> L" and "user_iface s u = None" and "user_flag s u"
  shows "rules_ok L (register_one w name u s)"
  using rule_add_user_ok [OF assms] assms(1) by (simp add: register_one_def split: option.splits)

lemma register_one_other [simp]:
  "v \<noteq> u \<Longrightarrow> user_iface (register_one w name u s) v = user_iface s v"
  "user_flag (register_one w name u s) v = user_flag s v"
  "rs_tree (register_one w name u s) = rs_tree s" "rs_next (register_one w name u s) = rs_next s"
  by (auto simp: register_one_def split: option.splits)

lemma added_ok:
  assumes "rules_ok L s" and "r \<notin> L" and "fresh_rule (rs_rule s r)"
  shows "rules_ok (insert r L) (rule_added w r s)"
proof -
  have l: "links L s" "finite L" and k: "kernel_rules (rs_log s) = ready_rules L (rs_rule s)"
    using assms(1) by (simp_all add: rules_ok_def)
  have links: "links (insert r L) s"
    using l(1) assms(2,3) by (auto simp: links_def fresh_rule_def)
  have split: "ready_rules (insert r L) (rs_rule s) =
      ready_rules L (rs_rule s) + (if rule_ready (rs_rule s r) then {#rule_msg (rs_rule s r)#} else {#})"
    using ready_rules_split [of "insert r L" r "rs_rule s"] l(2) assms(2) by simp
  show ?thesis
  proof (cases "interface_based (rs_rule s r)")
    case False
    then have "rule_ready (rs_rule s r)"
      by (simp add: interface_based_def has_flag_or_right rule_ready_def)
    with False k links l(2) split show ?thesis
      using links_cong [of "rule_req KAddIprule r s" s] by (simp add: rule_added_def rules_ok_def)
  next
    case True
    then have "\<not> rule_ready (rs_rule s r)"
      using assms(3) by (auto simp: interface_based_def has_flag_or_right rule_ready_def fresh_rule_def)
    with k links l(2) split have ok: "rules_ok (insert r L) s" by (simp add: rules_ok_def)
    define s1 where "s1 = (if user_flag s (RuleIn r)
        then register_one w (ru_in_iface (rs_rule s r)) (RuleIn r) s else s)"
    have f: "user_iface s (RuleIn r) = None" "user_iface s (RuleOut r) = None"
      using assms(3) by (simp_all add: fresh_rule_def)
    have s1: "rules_ok (insert r L) s1" "user_iface s1 (RuleOut r) = None"
      "user_flag s1 (RuleOut r) = user_flag s (RuleOut r)"
      unfolding s1_def using ok f by (simp_all add: register_one_ok del: user_flag.simps user_iface.simps)
    have "rules_ok (insert r L) (if user_flag s (RuleOut r)
        then register_one w (ru_out_iface (rs_rule s r)) (RuleOut r) s1 else s1)"
      using s1 register_one_ok [OF s1(1), of "RuleOut r"] by simp
    with True show ?thesis unfolding s1_def by (auto simp: rule_added_def register_interfaces_def Let_def)
  qed
qed


section \<open>The tree\<close>

text \<open>What never changes of a rule.\<close>

definition rule_static :: "iprule \<Rightarrow> iprule" where
  "rule_static r = r\<lparr>ru_in_iface_user := None, ru_out_iface_user := None, ru_in_dev := [], ru_out_dev := []\<rparr>"

definition statics :: "rules \<Rightarrow> rid \<Rightarrow> iprule" where
  "statics s r = rule_static (rs_rule s r)"

lemma statics_upd [simp]:
  "(\<And>x. rule_static (f x) = rule_static x) \<Longrightarrow> statics (upd_rule r f s) = statics s"
  by (simp add: statics_def fun_eq_iff)

lemma statics_simps [simp]:
  "statics (when_ready K r s) = statics s" "statics (rule_req K r s) = statics s"
  "statics (s\<lparr>rs_users := us\<rparr>) = statics s" "statics (s\<lparr>rs_tree := t\<rparr>) = statics s"
  "statics (s\<lparr>rs_log := l\<rparr>) = statics s"
  "rule_static (set_dev u n x) = rule_static x" "rule_static (set_user u i x) = rule_static x"
  by (cases u; simp add: statics_def rule_static_def fun_eq_iff)+

lemma statics_user_cb [simp]:
  "statics (rule_user_cb w i ev u s) = statics s" "rs_tree (rule_user_cb w i ev u s) = rs_tree s"
  "rs_next (rule_user_cb w i ev u s) = rs_next s"
  by (simp_all add: rule_user_cb_eq split: Types.interface_event.splits option.splits)

lemma statics_add_user [simp]: "statics (rule_add_user w u i s) = statics s"
  by (simp add: rule_add_user_def set_user_iface_eq Let_def)

lemma statics_remove_user [simp]:
  "statics (rule_remove_user u s) = statics s" "rs_tree (rule_remove_user u s) = rs_tree s"
  "rs_next (rule_remove_user u s) = rs_next s"
  by (simp_all add: rule_remove_user_def set_user_iface_eq)

lemma statics_removed [simp]:
  "statics (rule_removed r s) = statics s" "rs_tree (rule_removed r s) = rs_tree s"
  "rs_next (rule_removed r s) = rs_next s"
  by (simp_all add: rule_removed_def deregister_interfaces_def Let_def)

lemma statics_added [simp]:
  "statics (rule_added w r s) = statics s" "rs_tree (rule_added w r s) = rs_tree s"
  "rs_next (rule_added w r s) = rs_next s"
  by (simp_all add: rule_added_def register_interfaces_def register_one_def Let_def split: option.splits)

definition rule_key :: "iprule \<Rightarrow> string \<times> string \<times> u8 list" where
  "rule_key r = (rule_in_name r, rule_out_name r, rule_bytes r)"

definition rule_wf :: "iprule \<Rightarrow> bool" where
  "rule_wf r \<longleftrightarrow> length (ru_src_addr r) = 16 \<and> length (ru_dest_addr r) = 16"

lemma static_key [simp]: "rule_key (rule_static r) = rule_key r" "rule_wf (rule_static r) = rule_wf r"
  by (simp_all add: rule_key_def rule_static_def rule_in_name_def rule_out_name_def rule_bytes_def rule_wf_def)

lemma rule_cmp_eq_0:
  assumes "rule_wf a" and "rule_wf b"
  shows "rule_cmp a b = 0 \<longleftrightarrow> rule_key a = rule_key b"
proof -
  have "length (rule_bytes a) = length (rule_bytes b)" using assms by (simp add: rule_bytes_def rule_wf_def)
  then show ?thesis
    by (auto simp: rule_cmp_def rule_key_def rule_in_name_def rule_out_name_def memcmp_eq_0 Let_def)
qed

definition tree_ok :: "rid list \<Rightarrow> rid \<Rightarrow> (rid \<Rightarrow> iprule) \<Rightarrow> bool" where
  "tree_ok tree n \<sigma> \<longleftrightarrow> distinct tree \<and> (\<forall>r \<in> set tree. r < n \<and> rule_wf (\<sigma> r)) \<and> inj_on (\<lambda>r. rule_key (\<sigma> r)) (set tree)"

definition rules_inv :: "rules \<Rightarrow> bool" where
  "rules_inv s \<longleftrightarrow> rules_ok (set (rs_tree s)) s \<and> tree_ok (rs_tree s) (rs_next s) (statics s)"

lemma set_avl_insert_new:
  "(\<And>y. y \<in> set ys \<Longrightarrow> cmp x y \<noteq> 0) \<Longrightarrow> set (avl_insert cmp x ys) = insert x (set ys)"
  by (induction ys) auto

lemma distinct_avl_insert:
  "(\<And>y. y \<in> set ys \<Longrightarrow> cmp x y \<noteq> 0) \<Longrightarrow> distinct ys \<Longrightarrow> x \<notin> set ys \<Longrightarrow> distinct (avl_insert cmp x ys)"
  by (induction ys) (auto simp: set_avl_insert_new)

text \<open>Putting a new rule into the tree takes out the rule with the same key, if there is one.\<close>

lemma vlist_put_rule:
  assumes "tree_ok tree n \<sigma>" and "rule_wf (\<sigma> n)"
    and cmp: "\<And>a b. cmp a b = 0 \<longleftrightarrow> rule_cmp (\<sigma>' a) (\<sigma>' b) = 0" "\<And>r. rule_static (\<sigma>' r) = \<sigma> r"
  defines "old \<equiv> vlist_old cmp n tree"
  shows "set (vlist_put cmp n tree) = insert n (set tree - set_option old)"
    and "tree_ok (vlist_put cmp n tree) (Suc n) \<sigma>" and "set_option old \<subseteq> set tree"
proof -
  have wf: "rule_wf (\<sigma> r)" if "r \<in> insert n (set tree)" for r using assms(1,2) that by (auto simp: tree_ok_def)
  have key: "cmp n r = 0 \<longleftrightarrow> rule_key (\<sigma> n) = rule_key (\<sigma> r)" if "r \<in> set tree" for r
  proof -
    have "rule_wf (\<sigma>' n)" "rule_wf (\<sigma>' r)" using wf [of n] wf [of r] that unfolding cmp(2)[symmetric] by simp_all
    then show ?thesis unfolding cmp(1) cmp(2)[symmetric] by (simp add: rule_cmp_eq_0)
  qed
  have sub: "set_option old \<subseteq> {r \<in> set tree. cmp n r = 0}"
    unfolding old_def vlist_old_def by (auto simp: find_Some_iff)
  have ex: "old \<noteq> None" if "r \<in> set tree" "cmp n r = 0" for r
    using that unfolding old_def vlist_old_def by (auto simp: find_None_iff)
  have uniq: "r = q" if "r \<in> set tree" "q \<in> set tree" "cmp n r = 0" "cmp n q = 0" for r q
    using assms(1) that key [of r] key [of q] by (auto simp: tree_ok_def inj_on_def)
  let ?rest = "filter (\<lambda>y. cmp n y \<noteq> 0) tree"
  have rest: "set ?rest = set tree - set_option old"
  proof (cases old)
    case None
    with ex show ?thesis by auto
  next
    case (Some q)
    with sub have "q \<in> set tree" "cmp n q = 0" by auto
    with Some uniq show ?thesis by auto
  qed
  show s: "set (vlist_put cmp n tree) = insert n (set tree - set_option old)"
    unfolding vlist_put_def rest [symmetric] by (rule set_avl_insert_new) simp
  show "set_option old \<subseteq> set tree" using sub by blast
  have "n \<notin> set tree" using assms(1) by (auto simp: tree_ok_def)
  then have "distinct (vlist_put cmp n tree)"
    using assms(1) unfolding vlist_put_def by (intro distinct_avl_insert) (auto simp: tree_ok_def)
  moreover have "inj_on (\<lambda>r. rule_key (\<sigma> r)) (insert n (set tree - set_option old))"
  proof -
    have "rule_key (\<sigma> n) \<noteq> rule_key (\<sigma> r)" if "r \<in> set tree - set_option old" for r
      using key [of r] that unfolding rest [symmetric] by simp
    moreover have "inj_on (\<lambda>r. rule_key (\<sigma> r)) (set tree - set_option old)"
      using assms(1) by (auto simp: tree_ok_def intro: inj_on_subset)
    ultimately show ?thesis by (auto simp: inj_on_insert)
  qed
  ultimately show "tree_ok (vlist_put cmp n tree) (Suc n) \<sigma>"
    using assms(1) wf unfolding tree_ok_def s by auto
qed

lemma ok_cong:
  assumes "rules_ok L s" and "rs_users s' = rs_users s" and "rs_log s' = rs_log s"
    and "\<And>r. r \<in> L \<Longrightarrow> rs_rule s' r = rs_rule s r"
  shows "rules_ok L s'"
proof -
  have "{r \<in> L. rule_ready (rs_rule s' r)} = {r \<in> L. rule_ready (rs_rule s r)}" using assms(4) by auto
  moreover have "image_mset (rule_msg \<circ> rs_rule s') (mset_set {r \<in> L. rule_ready (rs_rule s r)}) =
      image_mset (rule_msg \<circ> rs_rule s) (mset_set {r \<in> L. rule_ready (rs_rule s r)})"
    using assms(1,4) by (intro image_mset_cong) (simp add: rules_ok_def)
  ultimately have "ready_rules L (rs_rule s') = ready_rules L (rs_rule s)" by (simp add: ready_rules_def)
  moreover have "links L s'" using assms unfolding links_def rules_ok_def
    by (auto cong: option.case_cong)
  ultimately show ?thesis using assms by (simp add: rules_ok_def)
qed

lemma rules_put_inv:
  assumes ok: "rules_ok (set (rs_tree s)) s" and t: "tree_ok (rs_tree s) r (statics s)"
    and new: "rs_next s = Suc r" "fresh_rule (rs_rule s r)" "rule_wf (rs_rule s r)"
  shows "rules_inv (rules_put w r s)"
proof -
  define cmp where "cmp = (\<lambda>a b. rule_cmp (rs_rule s a) (rs_rule s b))"
  define tree where "tree = vlist_put cmp r (rs_tree s)"
  define old where "old = vlist_old cmp r (rs_tree s)"
  define s2 where "s2 = (case old of None \<Rightarrow> s\<lparr>rs_tree := tree\<rparr> | Some q \<Rightarrow> rule_removed q (s\<lparr>rs_tree := tree\<rparr>))"
  have res: "rules_put w r s = rule_added w r s2"
    unfolding rules_put_def iprule_update_rule_def Let_def s2_def tree_def old_def cmp_def by simp
  have "rule_wf (statics s r)" using new(3) by (simp add: statics_def)
  note put = vlist_put_rule [OF t this, of cmp "rs_rule s", folded tree_def old_def]
  have c: "cmp a b = 0 \<longleftrightarrow> rule_cmp (rs_rule s a) (rs_rule s b) = 0"
    "rule_static (rs_rule s a) = statics s a" for a b by (simp_all add: cmp_def statics_def)
  have r: "r \<notin> set (rs_tree s)" using t by (auto simp: tree_ok_def)
  have "rules_ok (set (rs_tree s)) (s\<lparr>rs_tree := tree\<rparr>)" by (rule ok_cong [OF ok]) simp_all
  then have s2: "rules_ok (set (rs_tree s) - set_option old) s2"
    using put(3) [OF c] unfolding s2_def by (cases old) (simp_all add: removed_ok)
  have "rs_rule s2 r = rs_rule s r"
    using put(3) [OF c] r by (cases old) (auto simp: s2_def rule_removed_def deregister_interfaces_def
        rule_remove_user_def set_user_iface_eq Let_def)
  then have "rules_ok (insert r (set (rs_tree s) - set_option old)) (rule_added w r s2)"
    using added_ok [OF s2] r new(2) by simp
  moreover have "rs_tree s2 = tree" "rs_next s2 = Suc r" "statics s2 = statics s"
    by (simp_all add: s2_def new(1) split: option.splits)
  ultimately show ?thesis using put(1,2) [OF c] by (simp add: rules_inv_def res)
qed

lemma rule_alloc_put_inv:
  assumes "rules_inv s" and "fresh_rule rule" and "rule_wf rule"
  shows "rules_inv (rules_put w (rs_next s) (rule_alloc rule s))"
proof (rule rules_put_inv)
  let ?s = "rule_alloc rule s"
  have r: "rs_next s \<notin> set (rs_tree s)" using assms(1) by (auto simp: rules_inv_def tree_ok_def)
  have s: "rs_tree ?s = rs_tree s" "rs_rule ?s = (rs_rule s)(rs_next s := rule)" by (simp_all add: rule_alloc_def)
  show "rules_ok (set (rs_tree ?s)) ?s"
    unfolding s(1)
  proof (rule ok_cong)
    show "rules_ok (set (rs_tree s)) s" using assms(1) by (simp add: rules_inv_def)
    show "rs_rule ?s q = rs_rule s q" if "q \<in> set (rs_tree s)" for q using r that by (auto simp: s)
  qed (simp_all add: rule_alloc_def)
  have "statics ?s q = statics s q" if "q \<in> set (rs_tree s)" for q
    using r that by (auto simp: statics_def s)
  then show "tree_ok (rs_tree ?s) (rs_next s) (statics ?s)"
    using assms(1) by (simp add: rules_inv_def tree_ok_def s(1) cong: inj_on_cong)
qed (use assms in \<open>simp_all add: rule_alloc_def\<close>)


lemma rules_inv_frame:
  assumes "rules_inv s" and "rules_ok (set (rs_tree s)) s'" and "rs_tree s' = rs_tree s"
    and "rs_next s' = rs_next s" and "statics s' = statics s"
  shows "rules_inv s'"
  using assms by (simp add: rules_inv_def)

section \<open>Events of interfaces\<close>

declare user_iface.simps [simp del] user_flag.simps [simp del]

lemma user_cb_dev:
  "v \<noteq> u \<Longrightarrow> user_dev (rule_user_cb w i ev u s) v = user_dev s v"
  "rs_users (rule_user_cb w i ev u s) = rs_users s"
  by (cases u; cases v; simp add: rule_user_cb_eq split: Types.interface_event.splits option.splits)+

lemma users_cb_ok:
  assumes "rules_ok L s" and "distinct us" and "set us \<subseteq> set (rs_users s i)"
    and "\<And>u. ev = IFEV_UP \<Longrightarrow> u \<in> set us \<Longrightarrow> user_dev s u = []"
  shows "rules_ok L (fold (rule_user_cb w i ev) us s)"
  using assms
proof (induction us arbitrary: s)
  case (Cons u us)
  have ok: "rules_ok L (rule_user_cb w i ev u s)" using Cons.prems by (intro rule_user_cb_ok) auto
  have "user_dev (rule_user_cb w i ev u s) v = []" if "ev = IFEV_UP" "v \<in> set us" for v
  proof -
    have "v \<noteq> u" using that(2) Cons.prems(2) by auto
    with that Cons.prems(4) [of v] show ?thesis by (simp add: user_cb_dev)
  qed
  from Cons.IH [OF ok _ _ this] Cons.prems(2,3) show ?case by (simp add: user_cb_dev)
qed simp

lemma fold_statics:
  assumes "\<And>u s. statics (f u s) = statics s \<and> rs_tree (f u s) = rs_tree s \<and> rs_next (f u s) = rs_next s"
  shows "statics (fold f us s) = statics s" "rs_tree (fold f us s) = rs_tree s" "rs_next (fold f us s) = rs_next s"
  using assms by (induction us arbitrary: s) auto

text \<open>
  Interface \<open>i\<close> comes into being: no rule that waits for an interface of its name is
  registered with one.
\<close>

definition awaits :: "world \<Rightarrow> ifid \<Rightarrow> rules \<Rightarrow> rule_user \<Rightarrow> bool" where
  "awaits w i s u \<longleftrightarrow> user_flag s u \<and>
     (case u of RuleIn r \<Rightarrow> ru_in_iface (rs_rule s r) | RuleOut r \<Rightarrow> ru_out_iface (rs_rule s r))
       = Some (if_name (w_ifs w i))"

lemma static_fields:
  assumes "rule_static a = rule_static b"
  shows "ru_flags a = ru_flags b" "ru_in_iface a = ru_in_iface b" "ru_out_iface a = ru_out_iface b"
  using arg_cong [OF assms, of ru_flags] arg_cong [OF assms, of ru_in_iface] arg_cong [OF assms, of ru_out_iface]
  by (simp_all add: rule_static_def)

lemma awaits_static: "statics s' = statics s \<Longrightarrow> awaits w i s' u = awaits w i s u"
proof -
  assume "statics s' = statics s"
  then have "rule_static (rs_rule s' r) = rule_static (rs_rule s r)" for r by (metis statics_def)
  note f = static_fields [OF this]
  show ?thesis by (cases u) (simp_all add: awaits_def user_flag.simps f)
qed

lemma generic_rule_eq:
  "generic_rule w i r s =
     (if rule_ready (rs_rule s r) then s
      else let s' = (if awaits w i s (RuleOut r) then rule_add_user w (RuleOut r) i s else s)
           in if awaits w i s (RuleIn r) then rule_add_user w (RuleIn r) i s' else s')"
  by (simp add: generic_rule_def awaits_def user_flag.simps Let_def)

lemma generic_rule_static [simp]:
  "statics (generic_rule w i r s) = statics s" "rs_tree (generic_rule w i r s) = rs_tree s"
  "rs_next (generic_rule w i r s) = rs_next s"
  by (simp_all add: generic_rule_eq Let_def)

lemma generic_rule_other: "user_rule u \<noteq> r \<Longrightarrow> user_iface (generic_rule w i r s) u = user_iface s u"
  by (cases u) (simp_all add: generic_rule_eq Let_def)

lemma generic_rule_ok:
  assumes "rules_ok L s" and "r \<in> L"
    and "\<And>u. user_rule u = r \<Longrightarrow> awaits w i s u \<Longrightarrow> user_iface s u = None"
  shows "rules_ok L (generic_rule w i r s)"
proof -
  have flag: "awaits w i s u \<Longrightarrow> user_flag s u" for u by (simp add: awaits_def)
  define s' where "s' = (if awaits w i s (RuleOut r) then rule_add_user w (RuleOut r) i s else s)"
  have "rules_ok L s'" unfolding s'_def using assms flag by (simp add: rule_add_user_ok)
  moreover have "user_iface s' (RuleIn r) = user_iface s (RuleIn r)" "user_flag s' (RuleIn r) = user_flag s (RuleIn r)"
    unfolding s'_def by simp_all
  ultimately have "awaits w i s (RuleIn r) \<Longrightarrow> rules_ok L (rule_add_user w (RuleIn r) i s')"
    using assms(2,3) flag by (intro rule_add_user_ok) simp_all
  with \<open>rules_ok L s'\<close> assms(1) show ?thesis
    unfolding generic_rule_eq Let_def s'_def [symmetric] by simp
qed

lemma generic_rules_ok:
  assumes "rules_ok L s" and "distinct rs" and "set rs \<subseteq> L"
    and "\<And>u. user_rule u \<in> set rs \<Longrightarrow> awaits w i s u \<Longrightarrow> user_iface s u = None"
  shows "rules_ok L (fold (generic_rule w i) rs s)"
  using assms
proof (induction rs arbitrary: s)
  case (Cons r rs)
  let ?s = "generic_rule w i r s"
  have ok: "rules_ok L ?s" using Cons.prems by (intro generic_rule_ok) auto
  have none: "user_iface ?s u = None" if "user_rule u \<in> set rs" "awaits w i ?s u" for u
  proof -
    have "user_rule u \<noteq> r" using that(1) Cons.prems(2) by auto
    moreover have "awaits w i s u" using that(2) awaits_static [of ?s s w i u] by simp
    ultimately show ?thesis using that(1) Cons.prems(4) [of u] by (simp add: generic_rule_other)
  qed
  from Cons.IH [OF ok _ _ none] Cons.prems(2,3) show ?case by simp
qed simp

text \<open>
  What the state machine of the interfaces guarantees of an event: an interface comes up only
  when it was not up before, and it is created before anything registers with it.
\<close>

definition event_fits :: "world \<Rightarrow> ifid \<Rightarrow> Types.interface_event \<Rightarrow> rules \<Rightarrow> bool" where
  "event_fits w i ev s \<longleftrightarrow>
     (ev = IFEV_UP \<longrightarrow> (\<forall>u \<in> set (rs_users s i). user_dev s u = [])) \<and>
     (ev = IFEV_CREATE \<longrightarrow> (\<forall>r \<in> set (rs_tree s). \<forall>u \<in> {RuleIn r, RuleOut r}. awaits w i s u \<longrightarrow> user_iface s u = None))"

lemma interface_event_inv:
  assumes "rules_inv s" and "event_fits w i ev s"
  shows "rules_inv (rules_interface_event w i ev s)"
proof -
  let ?s = "fold (rule_user_cb w i ev) (rs_users s i) s"
  note st = fold_statics [of "rule_user_cb w i ev" "rs_users s i" s]
  have ok: "rules_ok (set (rs_tree s)) s" "distinct (rs_users s i)" "distinct (rs_tree s)"
    using assms(1) by (auto simp: rules_inv_def rules_ok_def links_def tree_ok_def)
  have ok': "rules_ok (set (rs_tree s)) ?s"
    using assms(2) by (intro users_cb_ok ok) (auto simp: event_fits_def)
  show ?thesis
  proof (cases "ev = IFEV_CREATE")
    case False
    with ok' st show ?thesis
      by (intro rules_inv_frame [OF assms(1)]) (simp_all add: rules_interface_event_def generic_interface_cb_def)
  next
    case True
    have "fold (rule_user_cb w i IFEV_CREATE) us s = s" for us
      by (induction us) (simp_all add: rule_user_cb_eq)
    then have eq: "rules_interface_event w i ev s = fold (generic_rule w i) (rs_tree s) s"
      by (simp add: True rules_interface_event_def generic_interface_cb_def)
    have "user_iface s u = None" if "user_rule u \<in> set (rs_tree s)" "awaits w i s u" for u
      using assms(2) True that by (cases u) (auto simp: event_fits_def)
    then have "rules_ok (set (rs_tree s)) (fold (generic_rule w i) (rs_tree s) s)"
      by (intro generic_rules_ok ok) auto
    then show ?thesis unfolding eq
      using fold_statics [of "generic_rule w i" "rs_tree s" s] by (intro rules_inv_frame [OF assms(1)]) simp_all
  qed
qed


section \<open>Deleting\<close>

lemma tree_ok_remove: "tree_ok tree n \<sigma> \<Longrightarrow> tree_ok (removeAll r tree) n \<sigma>"
  by (auto simp: tree_ok_def distinct_removeAll intro: inj_on_subset)

lemma delete_inv:
  assumes "rules_inv s" and "r \<in> set (rs_tree s)"
  shows "rules_inv (rule_delete w r s)" and "rs_tree (rule_delete w r s) = removeAll r (rs_tree s)"
proof -
  have eq: "rule_delete w r s = rule_removed r (s\<lparr>rs_tree := removeAll r (rs_tree s)\<rparr>)"
    by (simp add: rule_delete_def iprule_update_rule_def)
  have "rules_ok (set (rs_tree s)) (s\<lparr>rs_tree := removeAll r (rs_tree s)\<rparr>)"
    by (rule ok_cong [of _ s]) (use assms(1) in \<open>simp_all add: rules_inv_def\<close>)
  from removed_ok [OF this assms(2)] show "rules_inv (rule_delete w r s)"
    using assms(1) by (simp add: eq rules_inv_def tree_ok_remove)
  show "rs_tree (rule_delete w r s) = removeAll r (rs_tree s)" by (simp add: eq)
qed

lemma complete_inv:
  assumes "rules_inv s"
  shows "rules_inv (iprule_update_complete w s)"
proof -
  have "rules_inv (fold (\<lambda>r s. if rs_version s r = rs_tree_version s then s else rule_delete w r s) rs s)"
    if "rules_inv s" "distinct rs" "set rs \<subseteq> set (rs_tree s)" for rs s
    using that
  proof (induction rs arbitrary: s)
    case (Cons r rs)
    then show ?case using delete_inv [of s r w] by (auto intro!: Cons.IH)
  qed simp
  moreover have "distinct (rs_tree s)" using assms by (simp add: rules_inv_def tree_ok_def)
  ultimately show ?thesis using assms by (simp add: iprule_update_complete_def)
qed

lemma cleanup_inv:
  assumes "rules_inv s" and "\<forall>u \<in> set (rs_users s i). user_dev s u = []"
  shows "rules_inv (rules_interface_cleanup i s)"
proof -
  have "rules_ok L (fold rule_remove_user us s)"
    if "rules_ok L s" "user_rule ` set us \<subseteq> L" "\<forall>u \<in> set us. user_dev s u = []" for L us s
    using that
  proof (induction us arbitrary: s)
    case (Cons u us)
    have d: "user_dev (rule_remove_user u s) v = user_dev s v" for v
      by (cases u; cases v; simp add: rule_remove_user_def set_user_iface_eq)
    have "rules_ok L (rule_remove_user u s)" using Cons.prems by (intro rule_remove_user_ok) simp_all
    from Cons.IH [OF this] Cons.prems(2,3) show ?case by (simp add: d)
  qed simp
  moreover have "user_rule ` set (rs_users s i) \<subseteq> set (rs_tree s)"
  proof (rule image_subsetI)
    have "links (set (rs_tree s)) s" using assms(1) by (simp add: rules_inv_def rules_ok_def)
    then show "user_rule u \<in> set (rs_tree s)" if "u \<in> set (rs_users s i)" for u
      using that by (rule registered(1))
  qed
  ultimately have "rules_ok (set (rs_tree s)) (rules_interface_cleanup i s)"
    using assms by (simp add: rules_interface_cleanup_def rules_inv_def)
  then show ?thesis
    using fold_statics [of rule_remove_user "rs_users s i" s]
    by (intro rules_inv_frame [OF assms(1)]) (simp_all add: rules_interface_cleanup_def)
qed

section \<open>Parsed rules\<close>

definition rule_parsed :: "iprule \<Rightarrow> bool" where
  "rule_parsed r \<longleftrightarrow> fresh_rule r \<and> rule_wf r"

lemma rule_parsed_upd [simp]:
  "rule_parsed (set_rule_flag f r) = rule_parsed r" "rule_parsed (r\<lparr>ru_invert := b\<rparr>) = rule_parsed r"
  "rule_parsed (r\<lparr>ru_in_iface := n\<rparr>) = rule_parsed r" "rule_parsed (r\<lparr>ru_out_iface := n\<rparr>) = rule_parsed r"
  "rule_parsed (r\<lparr>ru_priority := p\<rparr>) = rule_parsed r" "rule_parsed (r\<lparr>ru_tos := p\<rparr>) = rule_parsed r"
  "rule_parsed (r\<lparr>ru_lookup := p\<rparr>) = rule_parsed r" "rule_parsed (r\<lparr>ru_sup_prefixlen := p\<rparr>) = rule_parsed r"
  "rule_parsed (r\<lparr>ru_uidrange_start := p, ru_uidrange_end := q\<rparr>) = rule_parsed r"
  "rule_parsed (r\<lparr>ru_action := p\<rparr>) = rule_parsed r" "rule_parsed (r\<lparr>ru_gotoid := p\<rparr>) = rule_parsed r"
  "rule_parsed (r\<lparr>ru_fwmark := p, ru_flags := q\<rparr>) = rule_parsed r"
  "rule_parsed (r\<lparr>ru_fwmark := p, ru_fwmask := p', ru_flags := q\<rparr>) = rule_parsed r"
  "rule_parsed (r\<lparr>ru_src_addr := a, ru_src_mask := m\<rparr>) \<longleftrightarrow> length a = 16 \<and> length (ru_dest_addr r) = 16 \<and> fresh_rule r"
  "rule_parsed (r\<lparr>ru_dest_addr := a, ru_dest_mask := m\<rparr>) \<longleftrightarrow> length a = 16 \<and> length (ru_src_addr r) = 16 \<and> fresh_rule r"
  by (auto simp: rule_parsed_def fresh_rule_def rule_wf_def set_rule_flag_def)

lemma opt_attr_parsed:
  assumes "rule_parsed r" and "\<And>x. v = Some x \<Longrightarrow> pred_option rule_parsed (f x r)"
  shows "pred_option rule_parsed (opt_attr v f r)"
  using assms by (auto simp: opt_attr_def split: option.splits)

lemma bind_parsed:
  assumes "pred_option rule_parsed m" and "\<And>r. rule_parsed r \<Longrightarrow> pred_option rule_parsed (f r)"
  shows "pred_option rule_parsed (Option.bind m f)"
  using assms by (cases m) auto

lemma parse_mark_parsed: "rule_parsed r \<Longrightarrow> pred_option rule_parsed (iprule_parse_mark m r)"
  by (auto simp: iprule_parse_mark_def Let_def split: option.splits prod.splits)

lemma parse_addr_parsed:
  assumes "pton_lengths pton" and "length a = 16"
  shows "pred_option (\<lambda>x. length (fst x) = 16) (parse_ip_and_netmask aton pton v6 str a m)"
  using assms by (auto simp: parse_ip_and_netmask_def pton_length_le split: prod.splits option.splits)

lemma rule_parsed_lengths:
  "rule_parsed r \<Longrightarrow> length (ru_src_addr r) = 16" "rule_parsed r \<Longrightarrow> length (ru_dest_addr r) = 16"
  "rule_parsed r \<Longrightarrow> fresh_rule r"
  by (simp_all add: rule_parsed_def rule_wf_def)

lemma selectors_parsed:
  assumes "rule_parsed r" and "pton_lengths (pe_inet_pton P)"
  shows "pred_option rule_parsed (parse_rule_selectors P tb v6 r)"
  unfolding parse_rule_selectors_def
  using assms(1) parse_addr_parsed [OF assms(2)]
  by (intro bind_parsed opt_attr_parsed)
    (auto simp: option.pred_map rule_parsed_lengths comp_def split_beta elim!: option.pred_mono_strong)

lemma actions_parsed:
  assumes "rule_parsed r"
  shows "pred_option rule_parsed (parse_rule_actions P tb r)"
  unfolding parse_rule_actions_def using assms
  by (intro bind_parsed opt_attr_parsed)
    (auto simp: option.pred_map option.pred_True comp_def split_beta parse_mark_parsed)

lemma parse_iprule_parsed:
  assumes "parse_iprule P tb v6 n = Some r" and "pton_lengths (pe_inet_pton P)"
  shows "fresh_rule r \<and> rule_wf r"
proof -
  have "rule_parsed (zero_iprule\<lparr>ru_flags := f, ru_order := n\<rparr>)" for f
    by (simp add: rule_parsed_def fresh_rule_def rule_wf_def zero_iprule_def zero_addr_def)
  then have "pred_option rule_parsed (parse_iprule P tb v6 n)"
    unfolding parse_iprule_def by (intro bind_parsed selectors_parsed actions_parsed assms(2))
  with assms(1) show ?thesis by (simp add: rule_parsed_def)
qed


section \<open>Histories\<close>

datatype rule_input =
    RuAdd "rule_attr attr_tb" bool
  | RuStart
  | RuComplete
  | RuEvent ifid Types.interface_event
  | RuCleanup ifid

fun rules_step :: "parse_env \<Rightarrow> world \<Rightarrow> rule_input \<Rightarrow> rules \<Rightarrow> rules" where
  "rules_step P w (RuAdd tb v6) s = iprule_add P w tb v6 s"
| "rules_step P w RuStart s = iprule_update_start s"
| "rules_step P w RuComplete s = iprule_update_complete w s"
| "rules_step P w (RuEvent i ev) s = rules_interface_event w i ev s"
| "rules_step P w (RuCleanup i) s = rules_interface_cleanup i s"

fun input_fits :: "world \<Rightarrow> rule_input \<Rightarrow> rules \<Rightarrow> bool" where
  "input_fits w (RuEvent i ev) s = event_fits w i ev s"
| "input_fits w (RuCleanup i) s = (\<forall>u \<in> set (rs_users s i). user_dev s u = [])"
| "input_fits w RuStart s = (rs_flushed s \<or> rs_tree s = [])"
| "input_fits w _ s = True"

definition rules_init :: rules where
  "rules_init = \<lparr>rs_rule = (\<lambda>_. zero_iprule), rs_version = (\<lambda>_. 0), rs_tree = [], rs_tree_version = 0,
     rs_next = 0, rs_flushed = False, rs_counter = (\<lambda>_. 0), rs_users = (\<lambda>_. []), rs_log = []\<rparr>"

text \<open>The states of the rules that inputs in order lead to.\<close>

inductive rules_reach :: "parse_env \<Rightarrow> rules \<Rightarrow> bool" for P where
  rules_reach_init: "rules_reach P rules_init"
| rules_reach_step: "rules_reach P s \<Longrightarrow> input_fits w inp s \<Longrightarrow> rules_reach P (rules_step P w inp s)"

lemma rules_init_inv: "rules_inv rules_init"
  by (simp add: rules_init_def rules_inv_def rules_ok_def links_def tree_ok_def kernel_rules_def ready_rules_def)

lemma start_inv:
  assumes "rules_inv s" and "rs_flushed s \<or> rs_tree s = []"
  shows "rules_inv (iprule_update_start s)"
proof -
  have "kernel_rules (rs_log (iprule_update_start s)) = kernel_rules (rs_log s)"
    using assms by (auto simp: iprule_update_start_def rules_inv_def rules_ok_def ready_rules_def)
  moreover have "links L (iprule_update_start s) = links L s" for L
    by (rule links_cong) (simp_all add: iprule_update_start_def Let_def)
  moreover have "rs_tree (iprule_update_start s) = rs_tree s" "rs_next (iprule_update_start s) = rs_next s"
    "rs_rule (iprule_update_start s) = rs_rule s"
    by (simp_all add: iprule_update_start_def Let_def)
  ultimately show ?thesis using assms(1) by (simp add: rules_inv_def rules_ok_def statics_def[abs_def])
qed

lemma iprule_add_inv:
  assumes "rules_inv s" and "pton_lengths (pe_inet_pton P)"
  shows "rules_inv (iprule_add P w tb v6 s)"
proof -
  have inv: "rules_inv (s\<lparr>rs_counter := c\<rparr>)" for c
  proof (rule rules_inv_frame [OF assms(1)])
    show "rules_ok (set (rs_tree s)) (s\<lparr>rs_counter := c\<rparr>)"
      by (rule ok_cong [of _ s]) (use assms(1) in \<open>simp_all add: rules_inv_def\<close>)
  qed (simp_all add: statics_def[abs_def])
  have "rules_inv (rules_put w (rs_next s) (rule_alloc r (s\<lparr>rs_counter := c\<rparr>)))"
    if "parse_iprule P tb v6 n = Some r" for n r c
    using rule_alloc_put_inv [OF inv] parse_iprule_parsed [OF that assms(2)] by simp
  with inv assms(1) show ?thesis by (simp add: iprule_add_def Let_def split: option.splits)
qed

lemma rules_reach_inv: "rules_reach P s \<Longrightarrow> pton_lengths (pe_inet_pton P) \<Longrightarrow> rules_inv s"
proof (induction rule: rules_reach.induct)
  case (rules_reach_step s w inp)
  then show ?case
    by (cases inp) (auto intro: iprule_add_inv start_inv complete_inv interface_event_inv cleanup_inv)
qed (rule rules_init_inv)

section \<open>Property\<close>

text \<open>C10: the kernel has exactly the policy rules that are configured and ready. Whatever rules are
added, replaced and dropped by reloads of the configuration, and however the interfaces that they
name come and go, the rules in the kernel are the ones of the tree whose interfaces have a device,
each once and with the names of these devices. An interface comes up only when it
was not up before, and its rules leave it only after it went down or was freed.\<close>

theorem iprules_match_kernel:
  assumes "rules_reach P s" and "pton_lengths (pe_inet_pton P)"
  shows "kernel_rules (rs_log s) = mset (map (rule_msg \<circ> rs_rule s) (filter (rule_ready \<circ> rs_rule s) (rs_tree s)))"
proof -
  have inv: "rules_inv s" using assms by (rule rules_reach_inv)
  then have "distinct (filter (rule_ready \<circ> rs_rule s) (rs_tree s))" by (simp add: rules_inv_def tree_ok_def)
  then have "mset (filter (rule_ready \<circ> rs_rule s) (rs_tree s)) =
      mset_set {r \<in> set (rs_tree s). rule_ready (rs_rule s r)}"
    using mset_set_set by fastforce
  with inv show ?thesis
    by (simp add: rules_inv_def rules_ok_def ready_rules_def comp_def)
qed


definition example_rule_tb :: "rule_attr attr_tb" where
  "example_rule_tb = (\<lambda>_. None)(RULE_INTERFACE_IN := Some (AttrString ''lan''), RULE_PRIORITY := Some (AttrInt32 7))"

definition example_up :: world where
  "example_up = upd_if 0 (\<lambda>f. f\<lparr>if_l3_dev := zero_device_user\<lparr>du_dev := Some 0\<rparr>\<rparr>) example_world"

definition example_rules :: rules where
  "example_rules = rules_step example_env example_up (RuEvent 0 IFEV_UP)
     (rules_step example_env example_world (RuAdd example_rule_tb False)
       (rules_step example_env example_world RuStart rules_init))"


definition example_iprule :: iprule where
  "example_iprule = zero_iprule\<lparr>ru_flags := IPRULE_IN OR IPRULE_PRIORITY, ru_order := 1,
     ru_in_iface := Some ''lan'', ru_priority := 7\<rparr>"

lemma example_parses: "parse_iprule example_env example_rule_tb False 1 = Some example_iprule"
  by (simp add: parse_iprule_def parse_rule_selectors_def parse_rule_actions_def opt_attr_def set_rule_flag_def
      example_rule_tb_def attr_string_def attr_bool_def attr_u32_def example_iprule_def IPRULE_INET4_def zero_iprule_def)

lemma example_iprule_flags [simp]:
  "has_flag (ru_flags example_iprule) IPRULE_IN" "\<not> has_flag (ru_flags example_iprule) IPRULE_OUT"
  "ru_in_iface example_iprule = Some ''lan''" "interface_based example_iprule"
  "ru_in_dev example_iprule = []"
  by (simp_all add: example_iprule_def interface_based_def has_flag_def iprule_flags zero_iprule_def)

definition example_added :: rules where
  "example_added = rules_init\<lparr>rs_log := [KFlushIprules], rs_flushed := True, rs_counter := (\<lambda>_. 1)(False := 2),
     rs_tree_version := 1, rs_next := 1, rs_version := (\<lambda>_. 0)(0 := 1), rs_tree := [0],
     rs_rule := (\<lambda>_. zero_iprule)(0 := example_iprule\<lparr>ru_in_iface_user := Some 0\<rparr>),
     rs_users := (\<lambda>_. [])(0 := [RuleIn 0])\<rparr>"

lemma example_adds:
  "rules_step example_env example_world (RuAdd example_rule_tb False)
     (rules_step example_env example_world RuStart rules_init) = example_added"
proof -
  have "find_interface example_world ''lan'' = Some 0" "if_state (w_ifs example_world 0) = IFS_DOWN"
    by (simp_all add: find_interface_def example_world_def example_interface_def)
  moreover have "attr_bool example_rule_tb RULE_DISABLED = None"
    by (simp add: example_rule_tb_def attr_bool_def)
  ultimately show ?thesis
    by (simp add: iprule_update_start_def rules_init_def iprule_add_def example_parses rules_put_def rule_alloc_def
        vlist_old_def vlist_put_def iprule_update_rule_def rule_added_def register_interfaces_def register_one_def
        rule_add_user_def upd_rule_def kdo_def example_added_def Let_def)
qed

lemma example_rules_eq:
  "example_rules = example_added\<lparr>rs_rule := (\<lambda>_. zero_iprule)(0 := example_iprule\<lparr>ru_in_iface_user := Some 0, ru_in_dev := ''eth0''\<rparr>),
     rs_log := [KFlushIprules, KAddIprule (example_iprule\<lparr>ru_in_iface_user := Some 0, ru_in_dev := ''eth0''\<rparr>)]\<rparr>"
proof -
  have "l3_device (w_ifs example_up 0) = Some 0" "dv_ifname (w_devs example_up 0) = ''eth0''"
    by (simp_all add: example_up_def upd_if_def example_world_def example_device_def)
  then show ?thesis
    unfolding example_rules_def example_adds
    by (simp add: example_added_def rules_interface_event_def generic_interface_cb_def rule_in_cb_def
        when_ready_def rule_req_def rule_ready_def upd_rule_def kdo_def)
qed

lemma example_rules_reach: "rules_reach example_env example_rules"
  unfolding example_rules_def
  by (intro rules_reach_step rules_reach_init, unfold example_adds)
    (simp_all add: example_added_def rules_init_def event_fits_def)

theorem iprules_match_kernel_witness:
  "kernel_rules (rs_log example_rules) = {#rule_msg (rs_rule example_rules 0)#} \<and>
   ru_in_dev (rs_rule example_rules 0) = ''eth0''"
proof -
  have "pton_lengths (pe_inet_pton example_env)" by (simp add: pton_lengths_def example_env_def)
  from iprules_match_kernel [OF example_rules_reach this] show ?thesis
    by (simp add: example_rules_eq example_added_def rule_ready_def)
qed

end
