(* ===== verification/ConfigProps.thy ===== *)
theory ConfigProps
  imports ShellProps BridgeProps RuleSync
begin

text \<open>
  What the configuration gives to other parts: the policy rules of the package \<open>network\<close>
  (\<open>config_init_rules\<close> of \<open>src/config.c\<close>), which reach the tree of rules, and the VLANs of bridges,
  which are always such that \<open>BridgeProps\<close> applies to them. Also what the text of an address with a
  netmask means, and the bounds of the buffers for the commands that a script asks to be run.
\<close>

unbundle bit_operations_syntax

section \<open>Policy rules\<close>

text \<open>\<open>rule_tb\<close> parses the attributes of a section.\<close>

definition config_parse_rule ::
  "parse_env \<Rightarrow> world \<Rightarrow> (uci_section \<Rightarrow> rule_attr attr_tb) \<Rightarrow> uci_section \<Rightarrow> bool \<Rightarrow> rules \<Rightarrow> rules" where
  "config_parse_rule P w rule_tb s v6 = iprule_add P w (rule_tb s) v6"

definition config_init_rules ::
  "parse_env \<Rightarrow> world \<Rightarrow> (uci_section \<Rightarrow> rule_attr attr_tb) \<Rightarrow> uci_section list \<Rightarrow> rules \<Rightarrow> rules" where
  "config_init_rules P w rule_tb sections rs =
     (let rs = iprule_update_start rs;
          rs = fold (\<lambda>s rs. if us_type s = ''rule'' then config_parse_rule P w rule_tb s False rs
                            else if us_type s = ''rule6'' then config_parse_rule P w rule_tb s True rs
                            else rs) sections rs
      in iprule_update_complete w rs)"

text \<open>Reading the rules is a history of \<open>RuleSync\<close>, so that the kernel has the rules that are ready.\<close>

lemma config_rules_reach:
  assumes "rules_reach P rs" and "rs_flushed rs \<or> rs_tree rs = []"
  shows "rules_reach P (config_init_rules P w rule_tb sections rs)"
proof -
  have step: "rules_reach P r \<Longrightarrow> input_fits w inp r \<Longrightarrow> rules_reach P (rules_step P w inp r)" for r inp
    by (rule rules_reach_step)
  have "rules_reach P r \<Longrightarrow> rules_reach P (iprule_add P w tb v6 r)" for r tb v6
    using step [of r "RuAdd tb v6"] by simp
  then have adds: "rules_reach P r \<Longrightarrow>
      rules_reach P (fold (\<lambda>s rs. if us_type s = ''rule'' then config_parse_rule P w rule_tb s False rs
        else if us_type s = ''rule6'' then config_parse_rule P w rule_tb s True rs else rs) ss r)" for r ss
    by (induction ss arbitrary: r) (simp_all add: config_parse_rule_def)
  have "rules_reach P (iprule_update_start rs)"
    using step [OF assms(1), of RuStart] assms(2) by simp
  from step [OF adds [OF this], of RuComplete] show ?thesis
    by (simp add: config_init_rules_def Let_def)
qed

section \<open>VLANs of bridges\<close>

lemma port_flags:
  "has_flag (fold vlan_port_flag cs f) BRVLAN_F_SELF \<longleftrightarrow> has_flag f BRVLAN_F_SELF"
  "has_flag (fold vlan_port_flag cs f) BRVLAN_F_PVID \<longleftrightarrow> has_flag f BRVLAN_F_PVID \<or> CHR ''*'' \<in> set cs"
  "has_flag (fold vlan_port_flag cs f) BRVLAN_F_UNTAGGED \<longleftrightarrow> has_flag f BRVLAN_F_UNTAGGED \<and> CHR ''t'' \<notin> set cs"
proof -
  have self: "has_flag (vlan_port_flag c f) BRVLAN_F_SELF \<longleftrightarrow> has_flag f BRVLAN_F_SELF"
    and pvid: "has_flag (vlan_port_flag c f) BRVLAN_F_PVID \<longleftrightarrow> has_flag f BRVLAN_F_PVID \<or> c = CHR ''*''"
    and unt: "has_flag (vlan_port_flag c f) BRVLAN_F_UNTAGGED \<longleftrightarrow> has_flag f BRVLAN_F_UNTAGGED \<and> c \<noteq> CHR ''t''" for c f
    by (simp_all add: vlan_port_flag_def has_flag_or) (simp_all add: has_flag_def BRVLAN_F_SELF_def BRVLAN_F_PVID_def
        BRVLAN_F_UNTAGGED_def and.assoc)
  show "has_flag (fold vlan_port_flag cs f) BRVLAN_F_SELF \<longleftrightarrow> has_flag f BRVLAN_F_SELF"
    by (induction cs arbitrary: f) (simp_all add: self)
  show "has_flag (fold vlan_port_flag cs f) BRVLAN_F_PVID \<longleftrightarrow> has_flag f BRVLAN_F_PVID \<or> CHR ''*'' \<in> set cs"
    by (induction cs arbitrary: f) (auto simp: pvid)
  show "has_flag (fold vlan_port_flag cs f) BRVLAN_F_UNTAGGED \<longleftrightarrow> has_flag f BRVLAN_F_UNTAGGED \<and> CHR ''t'' \<notin> set cs"
    by (induction cs arbitrary: f) (auto simp: unt)
qed

text \<open>A port with flags after a colon.\<close>

lemma parse_vlan_port_self: "\<not> has_flag (bp_flags (parse_vlan_port str)) BRVLAN_F_SELF"
proof -
  have "\<not> has_flag BRVLAN_F_UNTAGGED BRVLAN_F_SELF" by (simp add: has_flag_def BRVLAN_F_UNTAGGED_def BRVLAN_F_SELF_def)
  then show ?thesis by (auto simp: parse_vlan_port_def port_flags split: option.split)
qed

text \<open>C33: the VLANs that the configuration accepts are fit for a bridge. Their numbers are from 1 to 4095
and are not changed by the cut to 16 bits; no port has the flag of the bridge itself; a port is named by
what comes before its first colon, is tagged if the flags after it have a \<open>t\<close>, and has the VLAN for its
untagged frames if they have a \<open>*\<close>.\<close>

theorem configured_vlans_plain:
  assumes "vlan_from_section U s = Some v"
  shows "plain_ports v \<and> 1 \<le> unat (bv_vid v) \<and> unat (bv_vid v) \<le> 4095 \<and>
    map_option unat (vo_vid (ue_vlan U s)) = Some (unat (bv_vid v)) \<and>
    list_all2 (\<lambda>str p. \<forall>name flags. strchr str CHR '':'' = Some (name, flags) \<longrightarrow> bp_ifname p = name \<and>
        has_flag (bp_flags p) BRVLAN_F_PVID = (CHR ''*'' \<in> set flags) \<and>
        has_flag (bp_flags p) BRVLAN_F_UNTAGGED = (CHR ''t'' \<notin> set flags))
      (vo_ports (ue_vlan U s)) (bv_ports v)"
proof -
  obtain vid where vid: "vo_vid (ue_vlan U s) = Some vid" "vid \<noteq> 0" "vid \<le> 4095"
    and v: "bv_vid v = ucast vid" "bv_ports v = map parse_vlan_port (vo_ports (ue_vlan U s))" "bv_hotplug_ports v = []"
    using assms by (auto simp: vlan_from_section_def Let_def not_less split: option.splits if_splits)
  have le: "unat vid \<le> 4095" using vid(3) by (simp add: word_le_nat_alt)
  then have u: "unat (bv_vid v) = unat vid" by (simp add: v(1) unsigned_ucast_eq take_bit_nat_eq_self)
  have "unat vid \<noteq> 0" using vid(2) by (simp add: unat_eq_0)
  then have "1 \<le> unat (bv_vid v)" "bv_vid v \<noteq> 0" using u by auto
  moreover have "list_all (\<lambda>p. \<not> has_flag (bp_flags p) BRVLAN_F_SELF) (bv_ports v @ bv_hotplug_ports v)"
    by (auto simp: v list_all_iff parse_vlan_port_self)
  moreover have "\<not> has_flag BRVLAN_F_UNTAGGED BRVLAN_F_PVID" "has_flag BRVLAN_F_UNTAGGED BRVLAN_F_UNTAGGED"
    by (simp_all add: has_flag_def BRVLAN_F_UNTAGGED_def BRVLAN_F_PVID_def)
  then have "list_all2 (\<lambda>str p. \<forall>name flags. strchr str CHR '':'' = Some (name, flags) \<longrightarrow> bp_ifname p = name \<and>
        has_flag (bp_flags p) BRVLAN_F_PVID = (CHR ''*'' \<in> set flags) \<and>
        has_flag (bp_flags p) BRVLAN_F_UNTAGGED = (CHR ''t'' \<notin> set flags))
      (vo_ports (ue_vlan U s)) (bv_ports v)"
    by (simp add: v list.rel_map list_all2_same parse_vlan_port_def port_flags)
  ultimately show ?thesis using u le vid(1) by (simp add: plain_ports_def)
qed

definition example_uci :: uci_env where
  "example_uci = \<lparr>ue_to_blob = (\<lambda>_ _ b. (b, False)), ue_add_string = (\<lambda>_ _ b. b), ue_route = (\<lambda>_ _. None),
     ue_neighbor = (\<lambda>_ _. None),
     ue_vlan = (\<lambda>_. \<lparr>vo_vid = Some 7, vo_local = None, vo_ports = [''lan1'', ''lan2:t*''], vo_alias = []\<rparr>),
     ue_type_get = (\<lambda>_. None)\<rparr>"

definition example_vlan_section :: uci_section where
  "example_vlan_section = \<lparr>us_name = ''vlan7'', us_type = ''bridge-vlan'',
     us_options = (\<lambda>_. None)(''device'' \<mapsto> UciString ''br-lan'', ''vlan'' \<mapsto> UciString ''7'')\<rparr>"

theorem configured_vlans_plain_witness:
  "\<exists>v. vlan_from_section example_uci example_vlan_section = Some v \<and> plain_ports v \<and> unat (bv_vid v) = 7"
proof -
  obtain v where v: "vlan_from_section example_uci example_vlan_section = Some v"
    by (simp add: vlan_from_section_def example_uci_def example_vlan_section_def uci_lookup_option_string_def)
  have "vo_vid (ue_vlan example_uci example_vlan_section) = Some 7" by (simp add: example_uci_def)
  with v configured_vlans_plain [OF v] show ?thesis by auto
qed

section \<open>Addresses with a netmask\<close>

text \<open>A prefix length in decimal digits, as \<open>parse_netmask_string\<close> reads it: \<open>strtoul\<close> stops at \<open>ULONG_MAX\<close>
and the result is cut to an \<open>unsigned int\<close>.\<close>

definition read_plen :: "nat \<Rightarrow> nat" where
  "read_plen n = (if n \<le> ULONG_MAX then n mod 2 ^ 32 else 2 ^ 32 - 1)"

definition max_length :: "bool \<Rightarrow> nat" where
  "max_length v6 = (if v6 then 128 else 32)"

lemma no_dot_digits_of: "strchr (digits_of n) CHR ''.'' = None"
  using isdigit_digits_of isdigit_facts(4) by (auto simp: strchr_None_iff)

lemma netmask_digits_of: "parse_netmask_string aton (digits_of n) v6 = word_of_nat (read_plen n)"
proof -
  have "(word_of_nat ULONG_MAX :: u32) = word_of_nat (2 ^ 32 - 1)" by (simp add: ULONG_MAX_def)
  moreover have "(word_of_nat n :: u32) = word_of_nat (n mod 2 ^ 32)"
    by (rule word_unat_eq_iff [THEN iffD2]) (simp add: unsigned_of_nat take_bit_eq_mod)
  ultimately show ?thesis
    by (simp add: parse_netmask_string_def no_dot_digits_of strtoul0_digits_of read_plen_def min_def)
qed

lemma netmask_bound:
  "(if v6 then (m :: u32) > 128 else m > 32) \<longleftrightarrow> unat m > max_length v6"
  by (simp add: max_length_def word_less_nat_alt)

lemma unat_read_plen: "unat (word_of_nat (read_plen n) :: u32) = read_plen n"
proof -
  have "read_plen n < 2 ^ 32" by (simp add: read_plen_def)
  then show ?thesis by (simp add: unsigned_of_nat take_bit_nat_eq_self)
qed

lemma parse_with_mask:
  assumes "CHR ''/'' \<notin> set a"
  shows "parse_ip_and_netmask aton pton v6 (a @ ''/'' @ s) addr m =
    (if unat (parse_netmask_string aton s v6) \<le> max_length v6
     then map_option (\<lambda>bs. (store_bytes bs addr, parse_netmask_string aton s v6)) (pton v6 a) else None)"
  using strchr_append [OF assms, of s]
  by (simp add: parse_ip_and_netmask_def split_netmask_def netmask_bound not_less [symmetric] split: option.split)

text \<open>C39: what the text of an address means. Without a slash the address is read with the netmask that the
caller has set. With a slash and decimal digits behind it, the number is the prefix length: the text is accepted
exactly if it is at most 32 or, for IPv6, 128 and \<open>inet_pton\<close> takes what stands before the slash; only numbers
of \<open>2^32\<close> and more, which are cut to 32 bits, are taken for smaller ones. With a dotted netmask of \<open>k\<close> one bits
behind the slash the prefix length is \<open>k\<close>, and for IPv6 the text is refused. The bytes of the address replace the
start of the address area.\<close>

theorem address_text_parses:
  assumes "CHR ''/'' \<notin> set a"
  shows "parse_ip_and_netmask aton pton v6 a addr m =
      (if unat m \<le> max_length v6 then map_option (\<lambda>bs. (store_bytes bs addr, m)) (pton v6 a) else None) \<and>
    parse_ip_and_netmask aton pton v6 (a @ ''/'' @ digits_of n) addr m =
      (if read_plen n \<le> max_length v6
       then map_option (\<lambda>bs. (store_bytes bs addr, word_of_nat (read_plen n))) (pton v6 a) else None) \<and>
    (CHR ''.'' \<in> set s \<and> k \<le> 32 \<and> aton s = Some (prefix_netmask k) \<longrightarrow>
      parse_ip_and_netmask aton pton v6 (a @ ''/'' @ s) addr m =
        (if v6 then None else map_option (\<lambda>bs. (store_bytes bs addr, word_of_nat k)) (pton v6 a)))"
proof (intro conjI impI)
  have "strchr a CHR ''/'' = None" using assms by (simp add: strchr_None_iff)
  then show "parse_ip_and_netmask aton pton v6 a addr m =
      (if unat m \<le> max_length v6 then map_option (\<lambda>bs. (store_bytes bs addr, m)) (pton v6 a) else None)"
    by (simp add: parse_ip_and_netmask_def split_netmask_def netmask_bound not_less [symmetric] split: option.split)
  show "parse_ip_and_netmask aton pton v6 (a @ ''/'' @ digits_of n) addr m =
      (if read_plen n \<le> max_length v6
       then map_option (\<lambda>bs. (store_bytes bs addr, word_of_nat (read_plen n))) (pton v6 a) else None)"
    by (simp only: parse_with_mask [OF assms] netmask_digits_of unat_read_plen)
  assume s: "CHR ''.'' \<in> set s \<and> k \<le> 32 \<and> aton s = Some (prefix_netmask k)"
  then have dot: "strchr s CHR ''.'' \<noteq> None" by (simp add: strchr_None_iff)
  have "parse_netmask_string aton s v6 = (if v6 then NOT 0 else word_of_nat k)"
    using s dot by (auto simp: parse_netmask_string_def fls_inverted_netmask of_nat_diff)
  moreover have "unat (word_of_nat k :: u32) = k"
    using s by (simp add: unsigned_of_nat take_bit_nat_eq_self)
  ultimately show "parse_ip_and_netmask aton pton v6 (a @ ''/'' @ s) addr m =
        (if v6 then None else map_option (\<lambda>bs. (store_bytes bs addr, word_of_nat k)) (pton v6 a))"
    using s unfolding parse_with_mask [OF assms]
    by (cases v6) (simp_all add: max_length_def unsigned_minus_1_eq_mask mask_eq_exp_minus_1)
qed

theorem address_text_parses_witness:
  "parse_ip_and_netmask (\<lambda>_. Some (prefix_netmask 20)) (\<lambda>_ _. Some [10, 0, 0, 1]) False (''10.0.0.1'' @ ''/'' @ digits_of 24)
     zero_addr 32 = Some ([10, 0, 0, 1] @ replicate 12 0, 24) \<and>
   parse_ip_and_netmask (\<lambda>_. Some (prefix_netmask 20)) (\<lambda>_ _. Some [10, 0, 0, 1]) False (''10.0.0.1'' @ ''/'' @ ''255.255.240.0'')
     zero_addr 32 = Some ([10, 0, 0, 1] @ replicate 12 0, 20)"
  using address_text_parses [of "''10.0.0.1''" "\<lambda>_. Some (prefix_netmask 20)" "\<lambda>_ _. Some [10, 0, 0, 1]" False zero_addr 32 24
      "''255.255.240.0''" 20]
  by (simp add: read_plen_def max_length_def ULONG_MAX_def store_bytes_def zero_addr_def)

section \<open>Commands of scripts\<close>

lemma fill_string_list_bound:
  "fill_string_list bound argc xs = Some ys \<Longrightarrow> argc + 1 < bound \<Longrightarrow> argc + length ys + 1 < bound"
  by (induction bound argc xs arbitrary: ys rule: fill_string_list.induct)
    (auto split: option.splits if_splits)

text \<open>C35: the commands of scripts fit into their buffers. Whatever a shell protocol is told to run, the
arguments and the environment that reach the new process, with the null pointer at their end, are shorter
than the arrays of 64 and 32 pointers; a longer request starts nothing.\<close>

theorem run_command_fits:
  assumes "OutStart (ProtoTask s) argv env \<in> set (w_out (snd (proto_shell_run_command E s tb w)))"
    and "OutStart (ProtoTask s) argv env \<notin> set (w_out w)"
  shows "length argv + 1 < 64 \<and> length env + 1 < 32"
proof -
  have run: "w_out (snd (netifd_start_process E a e (ProtoTask s) w)) =
      w_out w @ (if sh_proto_task (w_shell w s) then [OutKill (ProtoTask s) SIGKILL] else []) @
        (if fst (netifd_start_process E a e (ProtoTask s) w) = 0 then [OutStart (ProtoTask s) a e] else [])" for a e
    by (simp add: netifd_start_process_def netifd_kill_process_def Let_def emit_def upd_shell_def)
  obtain a e where f: "fill_attr 64 (sn_command tb) = Some a" "fill_attr 32 (sn_env tb) = Some e"
    and o: "OutStart (ProtoTask s) argv env \<in> set (w_out (snd (netifd_start_process E a e (ProtoTask s) w)))"
    using assms by (auto simp: proto_shell_run_command_def split: if_splits option.splits)
  from o assms(2) have "argv = a" "env = e" by (auto simp: run split: if_splits)
  moreover have "length a + 1 < 64" "length e + 1 < 32"
    using f fill_string_list_bound [of 64 0] fill_string_list_bound [of 32 0]
    by (auto simp: fill_attr_def split: option.splits)
  ultimately show ?thesis by simp
qed

definition example_command :: shell_notify where
  "example_command = empty_notify\<lparr>sn_action := Some 1, sn_command := Some [Some ''/usr/sbin/pppd'', Some ''nodetach'']\<rparr>"

theorem run_command_fits_witness:
  "OutStart (ProtoTask 0) [''/usr/sbin/pppd'', ''nodetach''] []
     \<in> set (w_out (snd (proto_shell_run_command example_netifd 0 example_command example_world)))
   \<and> length [''/usr/sbin/pppd'', ''nodetach''] + 1 < (64 :: nat)"
proof -
  have "OutStart (ProtoTask 0) [''/usr/sbin/pppd'', ''nodetach''] []
     \<in> set (w_out (snd (proto_shell_run_command example_netifd 0 example_command example_world)))"
    "OutStart (ProtoTask 0) [''/usr/sbin/pppd'', ''nodetach''] [] \<notin> set (w_out example_world)"
    by (simp_all add: proto_shell_run_command_def example_command_def empty_notify_def fill_attr_def shell_ending_def
        netifd_start_process_def netifd_kill_process_def example_world_def zero_shell_state_def emit_def upd_shell_def)
  with run_command_fits [OF this] show ?thesis by blast
qed

end
