(* ===== verification/Spec2Isabelle.thy ===== *)
theory Spec2Isabelle
  imports Utils PrefixAssign DeviceSettings AddrSync Hotplug Dns UpdateProps ConfigProps
begin

text \<open>
  A verification library for netifd, the network interface daemon under \<open>src/\<close>.

  \<^bold>\<open>The program.\<close> netifd keeps two kinds of objects. A \<^emph>\<open>device\<close> (\<open>device.c\<close>) stands for a
  network device of the kernel; it has settings, users, and counts the claims of its users. An
  \<^emph>\<open>interface\<close> (\<open>interface.c\<close>) is a logical network: it claims a device, runs a protocol
  handler (\<open>proto.c\<close>) on it, and owns addresses, routes, neighbours and delegated prefixes
  (\<open>interface-ip.c\<close>), which it passes to the kernel (\<open>system-linux.c\<close>) while it is up. Devices
  tell their users of events, protocol handlers tell their interface, and interfaces tell the
  interfaces that are aliases of them; all of this is by callbacks that may nest. Some devices stand on others:
  VLANs, macvlans, alias devices and bridges are themselves users of the devices below them. Protocols may
  run programs: scripts (\<open>proto-shell.c\<close>) and the clients for DHCP and link-local addresses
  (\<open>proto-udhcp.c\<close>, \<open>proto-isc-dhcp.c\<close>, \<open>proto-zcip.c\<close>), which report back. The configuration (\<open>config.c\<close>)
  makes devices and interfaces, and requests over ubus (\<open>ubus.c\<close>) operate them. Around this
  core are policy rules (\<open>iprule.c\<close>), the resolver file, and the scripts that are run on interface events
  (\<open>interface-event.c\<close>).

  \<^bold>\<open>How it is modelled.\<close> A C structure is a record and an enumeration a datatype
  (\<open>Types\<close>); C integers are words where they can wrap. Devices, interfaces and prefixes live in
  stores addressed by identifiers, and the whole state of the program is the record \<open>world\<close>
  (\<open>World\<close>). An operation of the code is a function from worlds to an optional world. A call
  through a function pointer is made through the argument \<open>rec\<close>; \<open>Machine\<close> ties the recursion
  with fuel (\<open>run\<close>), where fuel bounds the nesting of callbacks and \<open>None\<close> means that it was
  used up or that an assertion failed. Requests to the kernel are appended to a log; the kernel,
  the parsing functions of the C library, libubox and what runs in other processes are fields of the
  environment.

  \<^bold>\<open>The theories\<close>, with the files they model:
  \<^item> \<open>Prelude\<close>: shared lemmas; strings and numbers of the C library; AVL trees and versioned lists
    as sorted lists.
  \<^item> \<open>Utils\<close> (\<open>utils.c\<close>, \<open>utils.h\<close>): simple versioned lists, netmasks and addresses, MAC
    addresses, CRC-32, process paths.
  \<^item> \<open>Types\<close> (\<open>device.h\<close>, \<open>interface.h\<close>, \<open>interface-ip.h\<close>, \<open>iprule.h\<close>, \<open>proto.h\<close>): the data.
  \<^item> \<open>IfAddr\<close>, \<open>PrefixAssign\<close>, \<open>RouteConfig\<close>, \<open>IpUpdate\<close>, \<open>RouteSync\<close>, \<open>AddrSync\<close>, \<open>PrefixAddr\<close>,
    \<open>IpWorld\<close> (\<open>interface-ip.c\<close>): keys and lookup; splitting a delegated prefix; parsing of routes
    and neighbours; update callbacks of the trees with the requests they issue; that the kernel
    agrees with the trees; addresses from delegated prefixes; the settings as a whole.
  \<^item> \<open>DeviceSettings\<close>, \<open>DeviceCore\<close> (\<open>device.c\<close>): settings; users, claims, presence, creation,
    configuration and deletion of devices. \<open>SystemNames\<close> (\<open>system-linux.c\<close>): names of route types,
    rule actions and tables.
  \<^item> \<open>AliasDev\<close> (\<open>alias.c\<close>), \<open>VlanDev\<close> (\<open>vlan.c\<close>), \<open>StackedDev\<close> (\<open>vlandev.c\<close>, \<open>macvlan.c\<close>,
    \<open>veth.c\<close>, \<open>tunnel.c\<close>), \<open>Bridge\<close> (\<open>bridge.c\<close>): the device types, each with its methods and the
    callbacks of its users; \<open>DeviceTypes\<close> puts them together as the environment \<open>netifd_env\<close> of the program.
  \<^item> \<open>Interface\<close>, \<open>InterfaceLife\<close> (\<open>interface.c\<close>), \<open>ProtoConfig\<close> (\<open>proto.c\<close>,
    \<open>proto-static.c\<close>): the state machine of interfaces, their life, and the settings that a
    protocol hands them. \<open>SettingsUpdate\<close> (\<open>interface.c\<close>, \<open>interface-ip.c\<close>): updates of the settings of
    an interface while it runs.
  \<^item> \<open>ProtoShell\<close>, \<open>ShellNotify\<close> (\<open>proto-shell.c\<close>): the state machine of a script protocol, with its
    processes, timers and host dependencies, and the notifications of its script. \<open>ProtoDhcp\<close>
    (\<open>proto-udhcp.c\<close>, \<open>proto-isc-dhcp.c\<close>, \<open>proto-zcip.c\<close>): the protocols with a client program.
  \<^item> \<open>InterfaceConfig\<close> (\<open>interface.c\<close>): interfaces from their attributes, and what a changed
    configuration does to them. \<open>Config\<close> (\<open>config.c\<close>): reading the configuration. \<open>Ubus\<close> (\<open>ubus.c\<close>):
    the requests that change state.
  \<^item> \<open>Contract\<close>, \<open>Lifecycle\<close>: the contract that every operation keeps, as the locales
    \<open>world_rel\<close>, \<open>device_contract\<close> and \<open>interface_contract\<close>. A relation on worlds that is
    reflexive, transitive, and holds of the elementary changes holds of every operation.
    \<open>TypesContract\<close> shows it for the device types, \<open>ProtoContract\<close> for the protocols with programs and
    \<open>ConfigContract\<close> for the configuration. \<open>Machine\<close> puts the program together: the inputs of its event
    loop and the worlds that they reach. Its locale \<open>program_rel\<close> lifts such a relation to all inputs; it is
    interpreted for the transitions of the state machine and for the timers of shell protocols.
  \<^item> \<open>Claims\<close>, \<open>BringUp\<close>, \<open>EventOrder\<close>: what holds of the program as a whole; \<open>VlanProps\<close>,
    \<open>BridgeProps\<close>: what holds of VLAN devices and of the VLANs of bridge ports; \<open>ShellProps\<close>: of protocols
    with programs; \<open>UpdateProps\<close>: of updates and changed configurations; \<open>ConfigProps\<close>: of what the
    configuration gives to rules and bridges; \<open>Example\<close>: a small system.
  \<^item> \<open>Hotplug\<close> (\<open>interface-event.c\<close>): the queue of events and the script that runs for them.
  \<^item> \<open>IpRule\<close>, \<open>RuleSync\<close> (\<open>iprule.c\<close>): policy rules, their parsing and their requests to the kernel;
    \<open>TreeOrder\<close>: the order on their tree. \<open>Dns\<close> (\<open>interface-ip.c\<close>): the resolver file.

  \<^bold>\<open>What is shown.\<close> Every run of the program refines an abstract state machine of interfaces with
  the events they raise, and events are raised in order until a connection is lost (\<open>EventOrder\<close>). Claims
  of a device, failing ones and those of external devices included, are counted and decide whether it is
  up (\<open>Claims\<close>). An interface with the protocol \<open>none\<close> whose device is there comes up (\<open>BringUp\<close>). Delegated prefixes are split without overlap, the search is first fit and fails
  only when nothing is free, and addresses from them lie in separate subnets (\<open>PrefixAssign\<close>,
  \<open>PrefixAddr\<close>). The kernel table agrees with the route tree, and an address that is removed
  leaves nothing behind, with the exceptions that are shown too (\<open>RouteSync\<close>, \<open>AddrSync\<close>). Lookup
  takes the longest prefix (\<open>IfAddr\<close>, \<open>RouteConfig\<close>). Checked settings of devices take effect exactly
  when they are valid, with one exception (\<open>DeviceSettings\<close>). A VLAN device is made from its name and found by it
  (\<open>VlanProps\<close>), and a bridge port is in the VLANs that are configured, with the default VLAN that the
  bridge has noted (\<open>BridgeProps\<close>). The kernel has
  the policy rules of the interfaces that are up (\<open>RuleSync\<close>), the resolver file lists the servers in order
  and is left alone when nothing has changed (\<open>Dns\<close>), and the event queue drains and the scripts catch up with the last event (\<open>Hotplug\<close>).
  A shell protocol that waits for its processes always has a timer, and the timer ends the wait
  (\<open>ShellProps\<close>). An update replaces the addresses of an interface by those that it adds, and a changed
  configuration is taken over (\<open>UpdateProps\<close>). Configured VLANs are fit for bridges, the text of
  an address means what it says, and commands of scripts fit into their buffers (\<open>ConfigProps\<close>). Parsing, formatting and checksums are correct (\<open>Utils\<close>).

  \<^bold>\<open>Fuel.\<close> \<open>run E n\<close> allows callbacks to nest \<open>n\<close> deep. The safety theorems hold for every \<open>n\<close>;
  \<open>interface_comes_up\<close> shows that three levels are enough to bring an interface up.

  \<^bold>\<open>Not modelled.\<close> Bonding and external device types and the wireless part; the functions that print
  the state; the netlink messages to the kernel; logging and the start of the program; the programs and
  scripts that run in processes of their own. The model takes the remaining device types and the kernel as
  arguments. Messages, configuration sections and the descriptions of handlers come parsed: libubox, uci and
  json-c are outside. The policy rules and the queue of event scripts have states of their own (\<open>IpRule\<close>,
  \<open>Hotplug\<close>) that see the world of the other components.
\<close>

end
